(* ===== verification/Prelude.thy ===== *)
theory Prelude
  imports Main "HOL-Library.Word" "HOL-Library.Sublist" "HOL-Library.Char_ord"
    "HOL-Library.List_Lexorder" "HOL-Library.Product_Lexorder"
begin

text \<open>
  Shared vocabulary of the development: the machine integers, the functions of Rust's
  \<open>str\<close> that the sources use, ordered maps, results and the state-and-error monad of the
  engines, with the lemmas that the component theories share.

  A \<open>char\<close> stands for one Unicode scalar value of the range U+0000..U+00FF. On that range
  the functions below agree with Rust's \<open>char\<close> and \<open>str\<close> functions (white space, control
  characters, lower case); \<open>str_len\<close> counts UTF-8 bytes. Text outside that range is not
  modelled. Comparison of strings is by code point, which is the byte order of UTF-8.
\<close>

named_theorems str_simps \<open>rewriting of the string functions\<close>
named_theorems tbl_simps \<open>lookups in tables after an update\<close>
named_theorems m_simps \<open>unfolding of the state-and-error monad\<close>

type_synonym u64 = "64 word"
type_synonym i64 = "64 word"
type_synonym u32 = "32 word"
type_synonym u16 = "16 word"

section \<open>Characters and strings\<close>

definition code :: "char \<Rightarrow> nat" where
  "code c = of_char c"

definition is_ws :: "char \<Rightarrow> bool" where
  "is_ws c = (let n = code c in (9 \<le> n \<and> n \<le> 13) \<or> n = 32 \<or> n = 133 \<or> n = 160)"

definition is_control :: "char \<Rightarrow> bool" where
  "is_control c = (let n = code c in n < 32 \<or> (127 \<le> n \<and> n \<le> 159))"

definition is_ascii_alpha :: "char \<Rightarrow> bool" where
  "is_ascii_alpha c = (let n = code c in (65 \<le> n \<and> n \<le> 90) \<or> (97 \<le> n \<and> n \<le> 122))"

definition is_ascii_digit :: "char \<Rightarrow> bool" where
  "is_ascii_digit c = (let n = code c in 48 \<le> n \<and> n \<le> 57)"

definition ascii_lower_char :: "char \<Rightarrow> char" where
  "ascii_lower_char c = (let n = code c in if 65 \<le> n \<and> n \<le> 90 then char_of (n + 32) else c)"

definition ascii_upper_char :: "char \<Rightarrow> char" where
  "ascii_upper_char c = (let n = code c in if 97 \<le> n \<and> n \<le> 122 then char_of (n - 32) else c)"

definition lower_char :: "char \<Rightarrow> char" where
  "lower_char c =
     (let n = code c
      in if (65 \<le> n \<and> n \<le> 90) \<or> (192 \<le> n \<and> n \<le> 222 \<and> n \<noteq> 215)
         then char_of (n + 32) else c)"

definition to_lowercase :: "string \<Rightarrow> string" where
  "to_lowercase = map lower_char"

definition to_ascii_lowercase :: "string \<Rightarrow> string" where
  "to_ascii_lowercase = map ascii_lower_char"

definition to_ascii_uppercase :: "string \<Rightarrow> string" where
  "to_ascii_uppercase = map ascii_upper_char"

definition eq_ignore_ascii_case :: "string \<Rightarrow> string \<Rightarrow> bool" where
  "eq_ignore_ascii_case a b = (to_ascii_lowercase a = to_ascii_lowercase b)"

definition str_len :: "string \<Rightarrow> nat" where
  "str_len s = sum_list (map (\<lambda>c. if code c < 128 then 1 else 2) s)"

definition backslash :: char where
  "backslash = CHR 0x5C"

abbreviation slash :: char where
  "slash \<equiv> CHR ''/''"

definition back_to_slash :: "string \<Rightarrow> string" where
  "back_to_slash = map (\<lambda>c. if c = backslash then slash else c)"

definition trim_start_by :: "(char \<Rightarrow> bool) \<Rightarrow> string \<Rightarrow> string" where
  "trim_start_by p s = dropWhile p s"

definition trim_end_by :: "(char \<Rightarrow> bool) \<Rightarrow> string \<Rightarrow> string" where
  "trim_end_by p s = rev (dropWhile p (rev s))"

definition str_trim :: "string \<Rightarrow> string" where
  "str_trim s = trim_end_by is_ws (trim_start_by is_ws s)"

definition trim_start_slash :: "string \<Rightarrow> string" where
  "trim_start_slash = trim_start_by (\<lambda>c. c = slash)"

definition trim_end_slash :: "string \<Rightarrow> string" where
  "trim_end_slash = trim_end_by (\<lambda>c. c = slash)"

definition trim_slashes :: "string \<Rightarrow> string" where
  "trim_slashes s = trim_end_slash (trim_start_slash s)"

fun str_split :: "(char \<Rightarrow> bool) \<Rightarrow> string \<Rightarrow> string list" where
  "str_split p [] = [[]]"
| "str_split p (c # cs) =
     (if p c then [] # str_split p cs
      else (case str_split p cs of [] \<Rightarrow> [[c]] | x # xs \<Rightarrow> (c # x) # xs))"

abbreviation split_slash :: "string \<Rightarrow> string list" where
  "split_slash \<equiv> str_split (\<lambda>c. c = slash)"

fun str_join :: "string \<Rightarrow> string list \<Rightarrow> string" where
  "str_join sep [] = []"
| "str_join sep [x] = x"
| "str_join sep (x # y # xs) = x @ sep @ str_join sep (y # xs)"

fun strip_prefix :: "string \<Rightarrow> string \<Rightarrow> string option" where
  "strip_prefix [] s = Some s"
| "strip_prefix (p # ps) [] = None"
| "strip_prefix (p # ps) (c # cs) = (if p = c then strip_prefix ps cs else None)"

definition strip_suffix :: "string \<Rightarrow> string \<Rightarrow> string option" where
  "strip_suffix p s = map_option rev (strip_prefix (rev p) (rev s))"

definition starts_with :: "string \<Rightarrow> string \<Rightarrow> bool" where
  "starts_with p s = (strip_prefix p s \<noteq> None)"

fun str_contains :: "string \<Rightarrow> string \<Rightarrow> bool" where
  "str_contains p [] = (p = [])"
| "str_contains p (c # cs) = (starts_with p (c # cs) \<or> str_contains p cs)"

fun split_once :: "char \<Rightarrow> string \<Rightarrow> (string \<times> string) option" where
  "split_once d [] = None"
| "split_once d (c # cs) =
     (if c = d then Some ([], cs)
      else map_option (\<lambda>(a, b). (c # a, b)) (split_once d cs))"

definition slash_count :: "string \<Rightarrow> nat" where
  "slash_count s = count_list s slash"

fun show_nat :: "nat \<Rightarrow> string" where
  "show_nat n = (if n < 10 then [char_of (48 + n)] else show_nat (n div 10) @ [char_of (48 + n mod 10)])"

declare show_nat.simps [simp del]

fun digits_value :: "nat \<Rightarrow> string \<Rightarrow> nat option" where
  "digits_value acc [] = Some acc"
| "digits_value acc (c # cs) =
     (if is_ascii_digit c then digits_value (10 * acc + (code c - 48)) cs else None)"

text \<open>\<open>str::parse::<u8>\<close>: an optional plus sign, at least one digit, a value of at most 255.\<close>

definition parse_u8 :: "string \<Rightarrow> nat option" where
  "parse_u8 s =
     (let ds = (case s of c # cs \<Rightarrow> if c = CHR ''+'' \<and> cs \<noteq> [] then cs else s | [] \<Rightarrow> [])
      in if ds = [] then None
         else case digits_value 0 ds of
                None \<Rightarrow> None
              | Some n \<Rightarrow> if n \<le> 255 then Some n else None)"


section \<open>Lemmas on strings\<close>

lemma strip_prefix_Some_iff [str_simps]: "strip_prefix p s = Some r \<longleftrightarrow> s = p @ r"
  by (induction p s rule: strip_prefix.induct) auto

lemma strip_prefix_append [simp]: "strip_prefix p (p @ r) = Some r"
  by (simp add: strip_prefix_Some_iff)

lemma strip_prefix_None_iff: "strip_prefix p s = None \<longleftrightarrow> (\<nexists>r. s = p @ r)"
  by (metis not_Some_eq strip_prefix_Some_iff)

lemma strip_suffix_Some_iff [str_simps]: "strip_suffix p s = Some r \<longleftrightarrow> s = r @ p"
  unfolding strip_suffix_def
  by (auto simp: strip_prefix_Some_iff) (metis rev_append rev_rev_ident)

lemma starts_with_iff [str_simps]: "starts_with p s \<longleftrightarrow> (\<exists>r. s = p @ r)"
  by (auto simp: starts_with_def strip_prefix_Some_iff)

lemma starts_with_slash_Cons: "starts_with [slash] s \<longleftrightarrow> (\<exists>r. s = slash # r)"
  by (simp add: starts_with_iff)

lemma str_split_not_Nil [simp]: "str_split p s \<noteq> []"
  by (induction s) (auto split: list.splits)

lemma str_join_Cons: "xs \<noteq> [] \<Longrightarrow> str_join sep (x # xs) = x @ sep @ str_join sep xs"
  by (cases xs) auto

lemma str_join_split [simp]: "str_join [d] (str_split (\<lambda>c. c = d) s) = s"
proof (induction s)
  case (Cons c s)
  then show ?case
    by (cases "str_split (\<lambda>c. c = d) s"; cases "tl (str_split (\<lambda>c. c = d) s)")
      (auto simp: str_join_Cons split: list.splits)
qed simp

lemma str_split_no_sep: "x \<in> set (str_split p s) \<Longrightarrow> c \<in> set x \<Longrightarrow> \<not> p c"
  by (induction s arbitrary: x) (auto split: if_splits list.splits, fastforce+)

lemma str_split_chars: "x \<in> set (str_split p s) \<Longrightarrow> set x \<subseteq> set s"
  by (induction s arbitrary: x) (auto split: if_splits list.splits, fastforce+)

lemma str_split_single: "\<forall>c\<in>set s. \<not> p c \<Longrightarrow> str_split p s = [s]"
  by (induction s) auto

lemma str_split_append_sep:
  "\<forall>c\<in>set s. \<not> p c \<Longrightarrow> p d \<Longrightarrow> str_split p (s @ d # t) = s # str_split p t"
  by (induction s) (auto split: list.splits)

lemma str_split_join:
  assumes "xs \<noteq> []" "\<forall>x\<in>set xs. d \<notin> set x"
  shows "str_split (\<lambda>c. c = d) (str_join [d] xs) = xs"
  using assms
proof (induction xs rule: induct_list012)
  case (2 x)
  then show ?case by (auto intro!: str_split_single)
next
  case (3 x y zs)
  from 3 have IH: "str_split (\<lambda>c. c = d) (str_join [d] (y # zs)) = y # zs" by auto
  from 3(4) have "\<forall>c\<in>set x. c \<noteq> d" by auto
  with IH show ?case by (simp add: str_split_append_sep)
qed simp

lemma trim_end_by_append_last:
  "s \<noteq> [] \<Longrightarrow> \<not> p (last s) \<Longrightarrow> trim_end_by p s = s"
  by (cases s rule: rev_cases) (auto simp: trim_end_by_def)

lemma trim_start_by_hd: "s \<noteq> [] \<Longrightarrow> \<not> p (hd s) \<Longrightarrow> trim_start_by p s = s"
  by (cases s) (auto simp: trim_start_by_def)

lemma trim_end_by_decomp: "\<exists>t. s = trim_end_by p s @ t \<and> (\<forall>c\<in>set t. p c)"
proof -
  have "rev s = takeWhile p (rev s) @ dropWhile p (rev s)" by simp
  then have "s = rev (dropWhile p (rev s)) @ rev (takeWhile p (rev s))"
    by (metis rev_append rev_rev_ident)
  then show ?thesis unfolding trim_end_by_def
    by (metis set_rev set_takeWhileD)
qed

lemma trim_end_by_last: "trim_end_by p s \<noteq> [] \<Longrightarrow> \<not> p (last (trim_end_by p s))"
  unfolding trim_end_by_def by (simp add: last_rev hd_dropWhile)

lemma trim_start_by_hd_neg: "trim_start_by p s \<noteq> [] \<Longrightarrow> \<not> p (hd (trim_start_by p s))"
  unfolding trim_start_by_def by (simp add: hd_dropWhile)

lemma trim_end_by_idem [simp]: "trim_end_by p (trim_end_by p s) = trim_end_by p s"
  by (metis trim_end_by_append_last trim_end_by_last trim_end_by_def dropWhile.simps(1) rev.simps(1))

lemma trim_end_slash_idem [simp]: "trim_end_slash (trim_end_slash s) = trim_end_slash s"
  by (simp add: trim_end_slash_def)

lemma trim_end_slash_ident: "s \<noteq> [] \<Longrightarrow> last s \<noteq> slash \<Longrightarrow> trim_end_slash s = s"
  by (simp add: trim_end_slash_def trim_end_by_append_last)

lemma str_trim_ident:
  "s \<noteq> [] \<Longrightarrow> \<not> is_ws (hd s) \<Longrightarrow> \<not> is_ws (last s) \<Longrightarrow> str_trim s = s"
  by (simp add: str_trim_def trim_start_by_hd trim_end_by_append_last)

lemma trim_slashes_ident:
  "s \<noteq> [] \<Longrightarrow> hd s \<noteq> slash \<Longrightarrow> last s \<noteq> slash \<Longrightarrow> trim_slashes s = s"
  by (simp add: trim_slashes_def trim_start_slash_def trim_start_by_hd trim_end_slash_ident)

lemma slash_count_append [simp]: "slash_count (a @ b) = slash_count a + slash_count b"
  by (simp add: slash_count_def)

lemma slash_count_Cons [simp]:
  "slash_count (c # s) = (if c = slash then Suc (slash_count s) else slash_count s)"
  by (simp add: slash_count_def)

lemma slash_count_Nil [simp]: "slash_count [] = 0"
  by (simp add: slash_count_def)

section \<open>The subtree relation of paths\<close>

text \<open>
  The test \<open>path == prefix || path.strip_prefix(prefix).is_some_and(|s| s.starts_with('/'))\<close>
  occurs throughout the sources; it holds when \<open>path\<close> is \<open>prefix\<close> or lies below it.
\<close>

definition path_under :: "string \<Rightarrow> string \<Rightarrow> bool" where
  "path_under pre path =
     (path = pre \<or> (case strip_prefix pre path of None \<Rightarrow> False | Some rest \<Rightarrow> starts_with [slash] rest))"

lemma path_under_iff: "path_under p s \<longleftrightarrow> s = p \<or> (\<exists>r. s = p @ slash # r)"
  by (auto simp: path_under_def str_simps split: option.splits)

lemma path_under_refl [simp]: "path_under p p"
  by (simp add: path_under_iff)

lemma path_under_trans: "path_under p q \<Longrightarrow> path_under q r \<Longrightarrow> path_under p r"
  by (auto simp: path_under_iff)

lemma path_under_antisym: "path_under p q \<Longrightarrow> path_under q p \<Longrightarrow> p = q"
  by (auto simp: path_under_iff)

lemma path_under_count: "path_under p q \<Longrightarrow> p \<noteq> q \<Longrightarrow> slash_count p < slash_count q"
  by (auto simp: path_under_iff)

lemma path_under_suffix: "path_under p s \<longleftrightarrow> (\<exists>t. s = p @ t \<and> (t = [] \<or> hd t = slash))"
proof
  assume "path_under p s"
  then show "\<exists>t. s = p @ t \<and> (t = [] \<or> hd t = slash)"
    unfolding path_under_iff by (metis append_Nil2 list.sel(1))
next
  assume "\<exists>t. s = p @ t \<and> (t = [] \<or> hd t = slash)"
  then show "path_under p s"
    unfolding path_under_iff by (metis append_Nil2 list.collapse)
qed

lemma path_under_linear: "path_under p r \<Longrightarrow> path_under q r \<Longrightarrow> path_under p q \<or> path_under q p"
proof -
  assume "path_under p r" and "path_under q r"
  then obtain s t where s: "r = p @ s \<and> (s = [] \<or> hd s = slash)"
    and t: "r = q @ t \<and> (t = [] \<or> hd t = slash)"
    unfolding path_under_suffix by blast
  then obtain us where us: "p = q @ us \<and> us @ s = t \<or> p @ us = q \<and> s = us @ t"
    by (metis append_eq_append_conv2)
  have "us = [] \<or> hd us = slash"
    using us s t by (cases us) auto
  then show ?thesis
    using us by (auto simp: path_under_suffix)
qed

section \<open>Families of subtrees\<close>

text \<open>
  The planners keep lists of prefixes, each standing for a whole subtree, and add a prefix only
  when no member covers it, dropping the members it covers. The locale states what they need
  of the prefix relation; it is interpreted on \<open>path_under\<close> here and reused for every such list.
\<close>

definition covered :: "('p \<Rightarrow> 'p \<Rightarrow> bool) \<Rightarrow> 'p list \<Rightarrow> 'p \<Rightarrow> bool" where
  "covered below ps x = (\<exists>p\<in>set ps. below p x)"

definition antichain :: "('p \<Rightarrow> 'p \<Rightarrow> bool) \<Rightarrow> 'p list \<Rightarrow> bool" where
  "antichain below ps = (\<forall>p\<in>set ps. \<forall>q\<in>set ps. below p q \<longrightarrow> p = q)"

definition cover_insert :: "('p \<Rightarrow> 'p \<Rightarrow> bool) \<Rightarrow> 'p \<Rightarrow> 'p list \<Rightarrow> 'p list" where
  "cover_insert below p ps = (if covered below ps p then ps else filter (\<lambda>q. \<not> below p q) ps @ [p])"

locale subtree_order =
  fixes below :: "'p \<Rightarrow> 'p \<Rightarrow> bool"
  assumes below_refl: "below p p"
    and below_trans: "below p q \<Longrightarrow> below q r \<Longrightarrow> below p r"
    and below_antisym: "below p q \<Longrightarrow> below q p \<Longrightarrow> p = q"
begin

lemma covered_down: "covered below ps p \<Longrightarrow> below p q \<Longrightarrow> covered below ps q"
  unfolding covered_def using below_trans by blast

lemma covered_insert_iff:
  "covered below (cover_insert below p ps) x \<longleftrightarrow> covered below ps x \<or> below p x"
proof (cases "covered below ps p")
  case True
  then show ?thesis
    using covered_down by (auto simp: cover_insert_def)
next
  case False
  then show ?thesis
    by (auto simp: cover_insert_def covered_def intro: below_trans)
qed

lemma antichain_insert: "antichain below ps \<Longrightarrow> antichain below (cover_insert below p ps)"
  by (auto simp: antichain_def cover_insert_def covered_def)

lemma distinct_insert: "distinct ps \<Longrightarrow> distinct (cover_insert below p ps)"
  using below_refl by (auto simp: cover_insert_def)

end

interpretation pu: subtree_order path_under
  by unfold_locales (auto intro: path_under_trans path_under_antisym)

section \<open>Results\<close>

text \<open>\<open>Inl\<close> is Rust's \<open>Err\<close>, \<open>Inr\<close> its \<open>Ok\<close>; \<open>collect_results\<close> is \<open>collect::<Result<Vec<_>, _>>()\<close>.\<close>

fun collect_results :: "('e + 'a) list \<Rightarrow> 'e + 'a list" where
  "collect_results [] = Inr []"
| "collect_results (Inl e # xs) = Inl e"
| "collect_results (Inr x # xs) =
     (case collect_results xs of Inl e \<Rightarrow> Inl e | Inr ys \<Rightarrow> Inr (x # ys))"

lemma collect_results_map_Inr [simp]: "collect_results (map Inr ys) = Inr ys"
  by (induction ys) auto

lemma collect_results_InrD: "collect_results xs = Inr ys \<Longrightarrow> xs = map Inr ys"
  by (induction xs arbitrary: ys rule: collect_results.induct) (auto split: sum.splits)

lemma collect_results_Inr: "collect_results xs = Inr ys \<longleftrightarrow> xs = map Inr ys"
  by (auto dest: collect_results_InrD)

lemma collect_results_first_error [simp]: "collect_results (map Inr ys @ Inl e # zs) = Inl e"
  by (induction ys) auto

lemma collect_results_InlD: "collect_results xs = Inl e \<Longrightarrow> \<exists>ys zs. xs = map Inr ys @ Inl e # zs"
proof (induction xs rule: collect_results.induct)
  case (2 e' xs)
  then have "Inl e' # xs = map Inr [] @ Inl e # xs" by simp
  then show ?case by blast
next
  case (3 x xs)
  then obtain ys zs where "xs = map Inr ys @ Inl e # zs"
    by (auto split: sum.splits)
  then have "Inr x # xs = map Inr (x # ys) @ Inl e # zs" by simp
  then show ?case by blast
qed simp

lemma collect_results_mapD:
  assumes "collect_results (map f xs) = Inr ys" "y \<in> set ys"
  shows "\<exists>x\<in>set xs. f x = Inr y"
proof -
  from assms(1) have "map f xs = map Inr ys" by (simp add: collect_results_Inr)
  moreover have "Inr y \<in> set (map Inr ys)" using assms(2) by simp
  ultimately have "Inr y \<in> set (map f xs)" by simp
  then show ?thesis by auto
qed

lemma collect_results_map_fix: "\<forall>x\<in>set xs. f x = Inr x \<Longrightarrow> collect_results (map f xs) = Inr xs"
  by (simp add: collect_results_Inr cong: map_cong)

definition map_err :: "('e \<Rightarrow> 'f) \<Rightarrow> 'e + 'a \<Rightarrow> 'f + 'a" where
  "map_err f r = (case r of Inl e \<Rightarrow> Inl (f e) | Inr x \<Rightarrow> Inr x)"

definition result_ok :: "'e + 'a \<Rightarrow> 'a option" where
  "result_ok r = (case r of Inl _ \<Rightarrow> None | Inr x \<Rightarrow> Some x)"

section \<open>Machine integers\<close>

definition i64_max :: i64 where
  "i64_max = 0x7FFFFFFFFFFFFFFF"

text \<open>\<open>i64::try_from(value)\<close> for a \<open>u64\<close>, and its saturating form.\<close>

definition i64_try_from :: "u64 \<Rightarrow> i64 option" where
  "i64_try_from v = (if v \<le> i64_max then Some v else None)"

definition u64_to_i64 :: "u64 \<Rightarrow> i64" where
  "u64_to_i64 v = (case i64_try_from v of None \<Rightarrow> i64_max | Some x \<Rightarrow> x)"

definition u64_try_from :: "i64 \<Rightarrow> u64 option" where
  "u64_try_from v = (if 0 \<le> sint v then Some v else None)"

definition saturating_add :: "u64 \<Rightarrow> u64 \<Rightarrow> u64" where
  "saturating_add a b = (if unat a + unat b < 2 ^ 64 then a + b else 0xFFFFFFFFFFFFFFFF)"

definition saturating_sub :: "u64 \<Rightarrow> u64 \<Rightarrow> u64" where
  "saturating_sub a b = (if a < b then 0 else a - b)"

definition i64_pos :: "i64 \<Rightarrow> bool" where
  "i64_pos v = (0 < sint v)"

lemma unat_saturating_add: "unat (saturating_add a b) = min (unat a + unat b) (2 ^ 64 - 1)"
  unfolding saturating_add_def
  by (auto simp: unat_word_ariths min_def)

lemma unat_saturating_sub: "unat (saturating_sub a b) = unat a - unat b"
  unfolding saturating_sub_def
  by (auto simp: word_less_nat_alt unat_sub word_le_nat_alt)

section \<open>Ordered maps\<close>

text \<open>\<open>BTreeMap\<close> as an association list with strictly increasing keys.\<close>

type_synonym ('k, 'v) btree = "('k \<times> 'v) list"

fun bt_insert :: "'k::linorder \<Rightarrow> 'v \<Rightarrow> ('k, 'v) btree \<Rightarrow> ('k, 'v) btree" where
  "bt_insert k v [] = [(k, v)]"
| "bt_insert k v ((k', v') # m) =
     (if k < k' then (k, v) # (k', v') # m
      else if k = k' then (k, v) # m
      else (k', v') # bt_insert k v m)"

definition bt_get :: "('k, 'v) btree \<Rightarrow> 'k \<Rightarrow> 'v option" where
  "bt_get m k = map_of m k"

definition bt_remove :: "'k \<Rightarrow> ('k, 'v) btree \<Rightarrow> ('k, 'v) btree" where
  "bt_remove k m = filter (\<lambda>e. fst e \<noteq> k) m"

definition bt_values :: "('k, 'v) btree \<Rightarrow> 'v list" where
  "bt_values m = map snd m"

definition bt_keys :: "('k, 'v) btree \<Rightarrow> 'k list" where
  "bt_keys m = map fst m"

definition bt_wf :: "('k::linorder, 'v) btree \<Rightarrow> bool" where
  "bt_wf m = sorted_wrt (<) (map fst m)"


locale ordered_map =
  fixes get :: "'m \<Rightarrow> 'k::linorder \<Rightarrow> 'v option"
    and ins :: "'k \<Rightarrow> 'v \<Rightarrow> 'm \<Rightarrow> 'm"
    and rem :: "'k \<Rightarrow> 'm \<Rightarrow> 'm"
    and wf :: "'m \<Rightarrow> bool"
  assumes get_ins: "get (ins k v m) k' = (if k' = k then Some v else get m k')"
    and get_rem: "get (rem k m) k' = (if k' = k then None else get m k')"
    and wf_ins: "wf m \<Longrightarrow> wf (ins k v m)"
    and wf_rem: "wf m \<Longrightarrow> wf (rem k m)"
begin

text \<open>Inserting a list of values under a key computed from the value: the last one wins.\<close>

lemma get_fold_ins:
  "get (foldl (\<lambda>m x. ins (f x) x m) m xs) k =
     (case find (\<lambda>x. f x = k) (rev xs) of None \<Rightarrow> get m k | Some x \<Rightarrow> Some x)"
proof (induction xs rule: rev_induct)
  case (snoc x xs)
  then show ?case by (auto simp: get_ins)
qed simp

lemma wf_fold_ins: "wf m \<Longrightarrow> wf (foldl (\<lambda>m x. ins (f x) x m) m xs)"
  by (induction xs arbitrary: m) (auto intro: wf_ins)

lemma fold_ins_keyed:
  assumes "\<And>k v. get m k = Some v \<Longrightarrow> f v = k"
  shows "get (foldl (\<lambda>m x. ins (f x) x m) m xs) k = Some v \<Longrightarrow> f v = k"
  using assms by (auto simp: get_fold_ins find_Some_iff split: option.splits)

end

lemma bt_get_insert [simp]: "bt_get (bt_insert k v m) k' = (if k' = k then Some v else bt_get m k')"
  by (induction k v m rule: bt_insert.induct) (auto simp: bt_get_def)

lemma bt_get_remove [simp]: "bt_get (bt_remove k m) k' = (if k' = k then None else bt_get m k')"
  by (induction m) (auto simp: bt_get_def bt_remove_def)

lemma set_bt_keys_insert: "set (map fst (bt_insert k v m)) = insert k (set (map fst m))"
  by (induction k v m rule: bt_insert.induct) auto

lemma bt_wf_insert [simp]: "bt_wf m \<Longrightarrow> bt_wf (bt_insert k v m)"
  unfolding bt_wf_def
proof (induction k v m rule: bt_insert.induct)
  case (2 k v k' v' m)
  then show ?case
    using set_bt_keys_insert [of k v m] by (auto simp del: set_map simp: image_iff)
qed simp

lemma bt_wf_remove [simp]: "bt_wf m \<Longrightarrow> bt_wf (bt_remove k m)"
  unfolding bt_wf_def bt_remove_def by (induction m) auto

lemma bt_wf_Nil [simp]: "bt_wf []"
  by (simp add: bt_wf_def)

lemma bt_get_Nil [simp]: "bt_get [] k = None"
  by (simp add: bt_get_def)

interpretation bt: ordered_map bt_get bt_insert bt_remove bt_wf
  by unfold_locales auto

lemma bt_wf_distinct: "bt_wf m \<Longrightarrow> distinct (map fst m)"
  unfolding bt_wf_def by (metis strict_sorted_iff)

lemma bt_values_iff: "bt_wf m \<Longrightarrow> v \<in> set (bt_values m) \<longleftrightarrow> (\<exists>k. bt_get m k = Some v)"
proof -
  assume "bt_wf m"
  then have "distinct (map fst m)" by (rule bt_wf_distinct)
  then have "\<And>k. bt_get m k = Some v \<longleftrightarrow> (k, v) \<in> set m"
    by (simp add: bt_get_def)
  then show ?thesis by (force simp: bt_values_def)
qed

section \<open>Tables\<close>

text \<open>
  A table of the SQLite database is the list of its rows in insertion order. \<open>tbl_upsert\<close> is
  \<open>INSERT ... ON CONFLICT(key) DO UPDATE\<close>: the row with the key of the new one is replaced by
  \<open>merge new old\<close>; without such a row the new one is inserted.
\<close>

definition tbl_find :: "('r \<Rightarrow> 'k) \<Rightarrow> 'k \<Rightarrow> 'r list \<Rightarrow> 'r option" where
  "tbl_find key k rows = find (\<lambda>r. key r = k) rows"

definition tbl_upsert :: "('r \<Rightarrow> 'k) \<Rightarrow> ('r \<Rightarrow> 'r \<Rightarrow> 'r) \<Rightarrow> 'r \<Rightarrow> 'r list \<Rightarrow> 'r list" where
  "tbl_upsert key merge new rows =
     (if \<exists>r\<in>set rows. key r = key new
      then map (\<lambda>r. if key r = key new then merge new r else r) rows
      else rows @ [new])"

definition tbl_keyed :: "('r \<Rightarrow> 'k) \<Rightarrow> 'r list \<Rightarrow> bool" where
  "tbl_keyed key rows = distinct (map key rows)"

text \<open>\<open>UPDATE ... WHERE\<close>, with the number of rows it changed; \<open>DELETE ... WHERE\<close> likewise.\<close>

definition tbl_update :: "('r \<Rightarrow> bool) \<Rightarrow> ('r \<Rightarrow> 'r) \<Rightarrow> 'r list \<Rightarrow> nat \<times> 'r list" where
  "tbl_update p f rows = (length (filter p rows), map (\<lambda>r. if p r then f r else r) rows)"

definition tbl_delete :: "('r \<Rightarrow> bool) \<Rightarrow> 'r list \<Rightarrow> nat \<times> 'r list" where
  "tbl_delete p rows = (length (filter p rows), filter (\<lambda>r. \<not> p r) rows)"

text \<open>\<open>ORDER BY column DESC\<close>, keeping the order of the rows that agree in the column.\<close>

definition sort_desc :: "('r \<Rightarrow> 'k::linorder) \<Rightarrow> 'r list \<Rightarrow> 'r list" where
  "sort_desc key rows = rev (sort_key key (rev rows))"

lemma set_sort_desc [simp]: "set (sort_desc key rows) = set rows"
  by (simp add: sort_desc_def)

lemma tbl_find_Nil [simp]: "tbl_find key k [] = None"
  by (simp add: tbl_find_def)

lemma tbl_find_Cons: "tbl_find key k (r # rs) = (if key r = k then Some r else tbl_find key k rs)"
  by (simp add: tbl_find_def)

lemma tbl_find_append:
  "tbl_find key k (rs @ ss) = (case tbl_find key k rs of None \<Rightarrow> tbl_find key k ss | Some r \<Rightarrow> Some r)"
  by (induction rs) (auto simp: tbl_find_Cons)

lemma tbl_find_None_iff: "tbl_find key k rs = None \<longleftrightarrow> (\<forall>r\<in>set rs. key r \<noteq> k)"
  by (auto simp: tbl_find_def find_None_iff)

lemma tbl_find_SomeD: "tbl_find key k rs = Some r \<Longrightarrow> r \<in> set rs \<and> key r = k"
  by (auto simp: tbl_find_def find_Some_iff)

lemma tbl_find_Some_iff:
  "tbl_keyed key rs \<Longrightarrow> tbl_find key k rs = Some r \<longleftrightarrow> r \<in> set rs \<and> key r = k"
  by (induction rs) (auto simp: tbl_find_Cons tbl_keyed_def image_iff)

lemma tbl_find_map_same:
  assumes "\<And>r. key (f r) = key r"
  shows "tbl_find key k (map f rs) = map_option f (tbl_find key k rs)"
  using assms by (induction rs) (auto simp: tbl_find_Cons)

lemma tbl_keyed_map: "(\<And>r. key (f r) = key r) \<Longrightarrow> tbl_keyed key (map f rs) = tbl_keyed key rs"
  by (simp add: tbl_keyed_def comp_def)

lemma tbl_keyed_filter: "tbl_keyed key rs \<Longrightarrow> tbl_keyed key (filter p rs)"
  by (simp add: tbl_keyed_def distinct_map_filter)

locale keyed_table =
  fixes key :: "'r \<Rightarrow> 'k"
    and merge :: "'r \<Rightarrow> 'r \<Rightarrow> 'r"
  assumes key_merge: "key new = key old \<Longrightarrow> key (merge new old) = key old"
begin

lemma find_upsert_map:
  "tbl_find key k (map (\<lambda>r. if key r = key new then merge new r else r) rows) =
   map_option (\<lambda>r. if key r = key new then merge new r else r) (tbl_find key k rows)"
  by (rule tbl_find_map_same) (auto simp: key_merge)

lemma find_upsert [tbl_simps]:
  "tbl_find key k (tbl_upsert key merge new rows) =
     (if k = key new
      then Some (case tbl_find key k rows of None \<Rightarrow> new | Some old \<Rightarrow> merge new old)
      else tbl_find key k rows)"
proof (cases "tbl_find key (key new) rows")
  case None
  then have "\<not> (\<exists>r\<in>set rows. key r = key new)"
    by (simp add: tbl_find_None_iff)
  then have "tbl_find key k (tbl_upsert key merge new rows) = tbl_find key k (rows @ [new])"
    by (simp add: tbl_upsert_def)
  with None show ?thesis
    by (auto simp: tbl_find_append tbl_find_Cons split: option.split)
next
  case (Some old)
  then have ex: "\<exists>r\<in>set rows. key r = key new" and key_old: "key old = key new"
    using tbl_find_SomeD by metis+
  have "tbl_find key k (tbl_upsert key merge new rows) =
        map_option (\<lambda>r. if key r = key new then merge new r else r) (tbl_find key k rows)"
    using ex by (simp add: tbl_upsert_def find_upsert_map)
  moreover have "tbl_find key k rows = Some r \<Longrightarrow> key r = k" for r
    using tbl_find_SomeD by metis
  ultimately show ?thesis
    using Some key_old by (cases "tbl_find key k rows") auto
qed

lemma keyed_upsert: "tbl_keyed key rows \<Longrightarrow> tbl_keyed key (tbl_upsert key merge new rows)"
proof (cases "\<exists>r\<in>set rows. key r = key new")
  case True
  assume "tbl_keyed key rows"
  then have "tbl_keyed key (map (\<lambda>r. if key r = key new then merge new r else r) rows)"
    by (subst tbl_keyed_map) (auto simp: key_merge)
  with True show ?thesis by (simp add: tbl_upsert_def)
next
  case False
  assume "tbl_keyed key rows"
  with False show ?thesis by (auto simp: tbl_upsert_def tbl_keyed_def)
qed

lemma keys_upsert: "set (map key (tbl_upsert key merge new rows)) = insert (key new) (set (map key rows))"
proof (cases "\<exists>r\<in>set rows. key r = key new")
  case True
  have "map key (map (\<lambda>r. if key r = key new then merge new r else r) rows) = map key rows"
    by (auto simp: key_merge)
  moreover have "key new \<in> set (map key rows)"
    using True by auto (metis imageI)
  ultimately show ?thesis
    using True by (simp only: tbl_upsert_def if_True insert_absorb)
qed (simp add: tbl_upsert_def)

end


section \<open>State and errors\<close>

text \<open>
  The engines thread the state repository and the environment through every call and leave a
  function with \<open>?\<close> on an error, keeping the effects made so far: a computation maps the state
  to a result and the state after it.
\<close>

type_synonym ('s, 'e, 'a) m = "'s \<Rightarrow> ('e + 'a) \<times> 's"

definition ret :: "'a \<Rightarrow> ('s, 'e, 'a) m" where
  "ret x = (\<lambda>s. (Inr x, s))"

definition throw :: "'e \<Rightarrow> ('s, 'e, 'a) m" where
  "throw e = (\<lambda>s. (Inl e, s))"

definition bindM :: "('s, 'e, 'a) m \<Rightarrow> ('a \<Rightarrow> ('s, 'e, 'b) m) \<Rightarrow> ('s, 'e, 'b) m" where
  "bindM f g = (\<lambda>s. case f s of (Inl e, s') \<Rightarrow> (Inl e, s') | (Inr x, s') \<Rightarrow> g x s')"

definition seqM :: "('s, 'e, unit) m \<Rightarrow> ('s, 'e, 'b) m \<Rightarrow> ('s, 'e, 'b) m" where
  "seqM f g = bindM f (\<lambda>_. g)"

text \<open>\<open>match f\<close> on both results: the error does not leave the function.\<close>

definition catchM :: "('s, 'e, 'a) m \<Rightarrow> ('s, 'f, 'e + 'a) m" where
  "catchM f = (\<lambda>s. case f s of (r, s') \<Rightarrow> (Inr r, s'))"

definition errM :: "('e \<Rightarrow> 'f) \<Rightarrow> ('s, 'e, 'a) m \<Rightarrow> ('s, 'f, 'a) m" where
  "errM h f = (\<lambda>s. case f s of (r, s') \<Rightarrow> (map_err h r, s'))"

text \<open>A property of states that a computation keeps, whatever its result.\<close>

definition keeps :: "('s \<Rightarrow> bool) \<Rightarrow> ('s, 'e, 'a) m \<Rightarrow> bool" where
  "keeps P f = (\<forall>s. P s \<longrightarrow> P (snd (f s)))"

lemma keeps_ret [intro, simp]: "keeps P (ret x)"
  by (simp add: keeps_def ret_def)

lemma keeps_throw [intro, simp]: "keeps P (throw e)"
  by (simp add: keeps_def throw_def)

lemma keeps_bindM [intro]: "keeps P f \<Longrightarrow> (\<And>x. keeps P (g x)) \<Longrightarrow> keeps P (bindM f g)"
  unfolding keeps_def bindM_def
  by (auto split: prod.split sum.split)

lemma keeps_seqM [intro]: "keeps P f \<Longrightarrow> keeps P g \<Longrightarrow> keeps P (seqM f g)"
  unfolding seqM_def by (rule keeps_bindM)

lemma keeps_catchM [intro]: "keeps P f \<Longrightarrow> keeps P (catchM f)"
  unfolding keeps_def catchM_def by (auto split: prod.split)

lemma keeps_errM [intro]: "keeps P f \<Longrightarrow> keeps P (errM h f)"
  unfolding keeps_def errM_def by (auto split: prod.split)

lemma keepsD: "keeps P f \<Longrightarrow> P s \<Longrightarrow> f s = (r, s') \<Longrightarrow> P s'"
  unfolding keeps_def by (metis snd_conv)

lemma bindM_ret [m_simps]: "bindM (ret x) g = g x"
  by (simp add: bindM_def ret_def)

lemma bindM_assoc: "bindM (bindM f g) h = bindM f (\<lambda>x. bindM (g x) h)"
  by (auto simp: bindM_def fun_eq_iff split: prod.split sum.split)

end
