(* ===== verification/Path_Mapping.thy ===== *)
theory Path_Mapping
  imports Prelude
begin

text \<open>
  \<open>crates/yds-core/src/path_mapping.rs\<close>: from a local root to its path on the remote disk, and
  the sanitization of remote paths. \<open>sanitize_remote_path\<close> is what every other component calls
  to normalize a remote path; the lemmas give the shape of everything it returns and when it is
  a fixed point.
\<close>

definition REMOTE_PREFIX :: string where
  "REMOTE_PREFIX = ''disk:/''"

definition RESERVED_REMOTE_CHARS :: "char list" where
  "RESERVED_REMOTE_CHARS =
     [CHR ''<'', CHR ''>'', CHR '':'', CHR 0x22, CHR ''|'', CHR ''?'', CHR ''*'', backslash]"

datatype PathMappingError =
    InvalidRemoteRoot
  | InvalidLocalPath
  | UnsupportedUncPath
  | UnsupportedDriveRelativePath
  | EmptySanitizedSegment string
  | RelativeSegment string

definition keep_remote_char :: "char \<Rightarrow> bool" where
  "keep_remote_char ch = (\<not> is_control ch \<and> ch \<notin> set RESERVED_REMOTE_CHARS \<and> ch \<noteq> slash)"

definition sanitize_segment :: "string \<Rightarrow> PathMappingError + string" where
  "sanitize_segment segment =
     (let sanitized = filter keep_remote_char segment
      in if sanitized = [] then Inl (EmptySanitizedSegment segment) else Inr sanitized)"

definition build_remote_path :: "string list \<Rightarrow> PathMappingError + string" where
  "build_remote_path segments =
     (if segments = [] then Inl InvalidRemoteRoot
      else Inr (REMOTE_PREFIX @ str_join [slash] segments))"

definition remote_root_segments :: "string \<Rightarrow> PathMappingError + string list" where
  "remote_root_segments remote_path =
     (let trimmed = str_trim remote_path
      in if \<not> starts_with REMOTE_PREFIX trimmed then Inl InvalidRemoteRoot
         else let body = trim_slashes (drop (length REMOTE_PREFIX) trimmed)
              in if body = [] then Inl InvalidRemoteRoot
                 else collect_results (map sanitize_segment (split_slash body)))"

definition is_windows_drive_path :: "string \<Rightarrow> bool" where
  "is_windows_drive_path path =
     (case path of
        c0 # c1 # c2 # _ \<Rightarrow> is_ascii_alpha c0 \<and> c1 = CHR '':'' \<and> (c2 = backslash \<or> c2 = slash)
      | _ \<Rightarrow> False)"

definition is_drive_relative_path :: "string \<Rightarrow> bool" where
  "is_drive_relative_path path =
     (case path of
        c0 # c1 # _ \<Rightarrow> is_ascii_alpha c0 \<and> c1 = CHR '':'' \<and> \<not> is_windows_drive_path path
      | _ \<Rightarrow> False)"

definition local_segment :: "string \<Rightarrow> PathMappingError + string" where
  "local_segment segment =
     (if segment = ''.'' \<or> segment = ''..'' then Inl (RelativeSegment segment)
      else sanitize_segment segment)"

definition split_local_segments :: "string \<Rightarrow> PathMappingError + string list" where
  "split_local_segments path =
     collect_results
       (map local_segment
         (filter (\<lambda>segment. segment \<noteq> []) (str_split (\<lambda>c. c = backslash \<or> c = slash) path)))"

definition local_path_segments :: "string \<Rightarrow> PathMappingError + string list" where
  "local_path_segments local_path =
     (let trimmed = str_trim local_path
      in if starts_with [backslash, backslash] trimmed \<or> starts_with [slash, slash] trimmed
         then Inl UnsupportedUncPath
         else if is_drive_relative_path trimmed then Inl UnsupportedDriveRelativePath
         else if is_windows_drive_path trimmed
         then (let drive = to_ascii_uppercase (take 1 trimmed)
               in case split_local_segments (drop 3 trimmed) of
                    Inl e \<Rightarrow> Inl e
                  | Inr segments \<Rightarrow> Inr (drive # segments))
         else case strip_prefix [slash] trimmed of
                Some rest \<Rightarrow> split_local_segments rest
              | None \<Rightarrow> Inl InvalidLocalPath)"

definition sanitize_remote_path :: "string \<Rightarrow> PathMappingError + string" where
  "sanitize_remote_path remote_path =
     (case remote_root_segments remote_path of
        Inl e \<Rightarrow> Inl e
      | Inr segments \<Rightarrow> build_remote_path segments)"

definition is_valid_remote_root :: "string \<Rightarrow> bool" where
  "is_valid_remote_root path = (case sanitize_remote_path path of Inl _ \<Rightarrow> False | Inr _ \<Rightarrow> True)"

definition canonical_remote_path ::
  "string \<Rightarrow> string \<Rightarrow> string option \<Rightarrow> PathMappingError + string" where
  "canonical_remote_path remote_root local_path remote_path_override =
     (case (case remote_path_override of
              Some v \<Rightarrow> if str_trim v \<noteq> [] then Some v else None
            | None \<Rightarrow> None) of
        Some override_path \<Rightarrow> sanitize_remote_path override_path
      | None \<Rightarrow>
          (case remote_root_segments remote_root of
             Inl e \<Rightarrow> Inl e
           | Inr remote_segments \<Rightarrow>
               (case local_path_segments local_path of
                  Inl e \<Rightarrow> Inl e
                | Inr segments \<Rightarrow> build_remote_path (remote_segments @ segments))))"

definition detect_remote_path_collision_key :: "string \<Rightarrow> PathMappingError + string" where
  "detect_remote_path_collision_key remote_path =
     (case sanitize_remote_path remote_path of Inl e \<Rightarrow> Inl e | Inr p \<Rightarrow> Inr (to_lowercase p))"

section \<open>The shape of remote paths\<close>

definition clean_segment :: "string \<Rightarrow> bool" where
  "clean_segment s = (s \<noteq> [] \<and> (\<forall>c\<in>set s. keep_remote_char c))"

definition remote_path_wf :: "string \<Rightarrow> bool" where
  "remote_path_wf p =
     (\<exists>segs. segs \<noteq> [] \<and> (\<forall>s\<in>set segs. clean_segment s) \<and> p = REMOTE_PREFIX @ str_join [slash] segs)"

lemma sanitize_segment_clean: "sanitize_segment s = Inr t \<Longrightarrow> clean_segment t"
  by (auto simp: sanitize_segment_def clean_segment_def Let_def split: if_splits)

lemma sanitize_segment_fix: "clean_segment s \<Longrightarrow> sanitize_segment s = Inr s"
  by (auto simp: sanitize_segment_def clean_segment_def Let_def filter_id_conv)

lemma local_segment_clean: "local_segment s = Inr t \<Longrightarrow> clean_segment t"
  by (auto simp: local_segment_def split: if_splits intro: sanitize_segment_clean)

lemma code_char_of: "n < 256 \<Longrightarrow> code (char_of n) = n"
  by (simp add: code_def)

lemma ascii_upper_clean: "is_ascii_alpha c \<Longrightarrow> clean_segment (to_ascii_uppercase [c])"
proof -
  assume "is_ascii_alpha c"
  then have range: "65 \<le> code (ascii_upper_char c)" "code (ascii_upper_char c) \<le> 90"
    by (auto simp: is_ascii_alpha_def ascii_upper_char_def Let_def code_char_of)
  have "ascii_upper_char c \<notin> set RESERVED_REMOTE_CHARS" "ascii_upper_char c \<noteq> slash"
    using range by (auto simp: RESERVED_REMOTE_CHARS_def backslash_def code_def)
  moreover have "\<not> is_control (ascii_upper_char c)"
    using range by (auto simp: is_control_def Let_def)
  ultimately show ?thesis
    by (simp add: clean_segment_def to_ascii_uppercase_def keep_remote_char_def)
qed

lemma remote_root_segments_not_Nil: "remote_root_segments p = Inr segs \<Longrightarrow> segs \<noteq> []"
  by (auto simp: remote_root_segments_def Let_def collect_results_Inr split: if_splits)

lemma remote_root_segments_clean:
  "remote_root_segments p = Inr segs \<Longrightarrow> s \<in> set segs \<Longrightarrow> clean_segment s"
  unfolding remote_root_segments_def Let_def
  by (auto split: if_splits dest: collect_results_mapD sanitize_segment_clean)

lemma split_local_segments_clean:
  "split_local_segments p = Inr segs \<Longrightarrow> s \<in> set segs \<Longrightarrow> clean_segment s"
  unfolding split_local_segments_def
  by (auto dest: collect_results_mapD local_segment_clean)

lemma drive_clean:
  "is_windows_drive_path p \<Longrightarrow> clean_segment (to_ascii_uppercase (take (Suc 0) p))"
  by (auto simp: is_windows_drive_path_def ascii_upper_clean split: list.splits)

lemma local_path_segments_clean:
  "local_path_segments p = Inr segs \<Longrightarrow> s \<in> set segs \<Longrightarrow> clean_segment s"
  unfolding local_path_segments_def Let_def
  by (auto split: if_splits sum.splits option.splits
      dest: split_local_segments_clean drive_clean)

lemma build_remote_path_wf:
  "build_remote_path segs = Inr q \<Longrightarrow> (\<And>s. s \<in> set segs \<Longrightarrow> clean_segment s) \<Longrightarrow> remote_path_wf q"
  by (auto simp: build_remote_path_def remote_path_wf_def split: if_splits)

text \<open>
  Every path that \<open>sanitize_remote_path\<close> accepts comes out as \<open>disk:/\<close> followed by a
  non-empty list of segments joined by one slash, each of them non-empty and free of control
  characters, reserved characters and slashes.
\<close>

theorem sanitize_remote_path_wf: "sanitize_remote_path p = Inr q \<Longrightarrow> remote_path_wf q"
  by (auto simp: sanitize_remote_path_def split: sum.splits
      dest: remote_root_segments_clean intro: build_remote_path_wf)

theorem sanitize_remote_path_wf_witness: "remote_path_wf ''disk:/root/ab.txt''"
proof (rule sanitize_remote_path_wf)
  show "sanitize_remote_path '' disk:/root/a?b.txt/ '' = Inr ''disk:/root/ab.txt''" by code_simp
qed

text \<open>
  C34. the canonical remote path of a root, whether it comes from the override or from the local
  path below the remote root, has the same shape.
\<close>

theorem canonical_remote_path_wf:
  "canonical_remote_path remote_root local_path ov = Inr q \<Longrightarrow> remote_path_wf q"
  unfolding canonical_remote_path_def
  by (auto split: sum.splits option.splits if_splits simp: sanitize_remote_path_def
      dest: remote_root_segments_clean local_path_segments_clean intro!: build_remote_path_wf)

theorem canonical_remote_path_wf_witness: "remote_path_wf ''disk:/Backup/C/Data''"
proof (rule canonical_remote_path_wf)
  show "canonical_remote_path ''disk:/Backup'' ''c:/Data'' (Some ''  '') = Inr ''disk:/Backup/C/Data''"
    by code_simp
qed

section \<open>Fixed points\<close>

lemma hd_join: "segs \<noteq> [] \<Longrightarrow> hd segs \<noteq> [] \<Longrightarrow> hd (str_join sep segs) = hd (hd segs)"
  by (cases segs; cases "tl segs") (auto simp: str_join_Cons)

lemma join_not_Nil: "segs \<noteq> [] \<Longrightarrow> \<forall>s\<in>set segs. s \<noteq> [] \<Longrightarrow> str_join sep segs \<noteq> []"
  by (cases segs; cases "tl segs") (auto simp: str_join_Cons)

lemma last_join:
  "segs \<noteq> [] \<Longrightarrow> \<forall>s\<in>set segs. s \<noteq> [] \<Longrightarrow> last (str_join sep segs) = last (last segs)"
proof (induction segs rule: induct_list012)
  case (3 x y zs)
  then show ?case using join_not_Nil [of "y # zs" sep] by simp
qed auto

lemma clean_no_slash: "clean_segment s \<Longrightarrow> c \<in> set s \<Longrightarrow> c \<noteq> slash"
  by (auto simp: clean_segment_def keep_remote_char_def)

lemma remote_path_wf_trim:
  assumes "remote_path_wf canonical" shows "trim_end_slash canonical = canonical"
proof -
  obtain cs where cs: "cs \<noteq> []" "\<forall>s\<in>set cs. clean_segment s" "canonical = REMOTE_PREFIX @ str_join [slash] cs"
    using assms by (auto simp: remote_path_wf_def)
  have ne: "\<forall>s\<in>set cs. s \<noteq> []" "\<forall>s\<in>set cs. slash \<notin> set s"
    using cs(2) by (auto simp: clean_segment_def keep_remote_char_def)
  have "last canonical = last (last cs)"
    using cs ne(1) join_not_Nil [of cs "[slash]"] last_join [of cs "[slash]"] by auto
  moreover have "last (last cs) \<in> set (last cs)" "last cs \<in> set cs"
    using cs(1) ne(1) by auto
  ultimately have "last canonical \<noteq> slash" using ne(2) by auto
  then show ?thesis by (intro trim_end_slash_ident) (simp_all add: cs(3) REMOTE_PREFIX_def)
qed

lemma remote_root_segments_join:
  assumes segs: "segs \<noteq> []" "\<forall>s\<in>set segs. clean_segment s"
    and no_ws: "\<not> is_ws (last (last segs))"
  shows "remote_root_segments (REMOTE_PREFIX @ str_join [slash] segs) = Inr segs"
proof -
  let ?body = "str_join [slash] segs"
  have ne: "\<forall>s\<in>set segs. s \<noteq> []" using segs(2) by (auto simp: clean_segment_def)
  then have body: "?body \<noteq> []" "last ?body = last (last segs)" "hd ?body = hd (hd segs)"
    using segs(1) join_not_Nil last_join hd_join by auto
  have "last (last segs) \<noteq> slash" "hd (hd segs) \<noteq> slash"
    using segs ne clean_no_slash by (metis last_in_set hd_in_set)+
  then have trim: "trim_slashes ?body = ?body"
    using body by (simp add: trim_slashes_ident)
  have "str_trim (REMOTE_PREFIX @ ?body) = REMOTE_PREFIX @ ?body"
  proof (rule str_trim_ident)
    show "\<not> is_ws (hd (REMOTE_PREFIX @ ?body))"
      by (simp add: REMOTE_PREFIX_def is_ws_def code_def)
  qed (use body no_ws in \<open>auto simp: REMOTE_PREFIX_def\<close>)
  moreover have "split_slash ?body = segs"
    using segs clean_no_slash by (intro str_split_join) blast+
  moreover have "collect_results (map sanitize_segment segs) = Inr segs"
    using segs(2) by (intro collect_results_map_fix) (simp add: sanitize_segment_fix)
  ultimately show ?thesis
    using body trim by (simp add: remote_root_segments_def starts_with_iff)
qed

text \<open>
  on a path that is already in canonical shape and does not end in white space,
  \<open>sanitize_remote_path\<close> is the identity, so normalizing twice is normalizing once.
\<close>

theorem sanitize_remote_path_fixpoint:
  assumes "remote_path_wf q" and "\<not> is_ws (last q)"
  shows "sanitize_remote_path q = Inr q"
proof -
  from assms(1) obtain segs where segs: "segs \<noteq> []" "\<forall>s\<in>set segs. clean_segment s"
    and q: "q = REMOTE_PREFIX @ str_join [slash] segs"
    by (auto simp: remote_path_wf_def)
  have "\<forall>s\<in>set segs. s \<noteq> []" using segs(2) by (auto simp: clean_segment_def)
  then have "last q = last (last segs)"
    using q segs(1) join_not_Nil [of segs "[slash]"] last_join [of segs "[slash]"] by simp
  then show ?thesis
    using remote_root_segments_join segs assms(2) q
    by (simp add: sanitize_remote_path_def build_remote_path_def)
qed

theorem sanitize_remote_path_fixpoint_witness:
  "remote_path_wf ''disk:/root/ab.txt'' \<and> sanitize_remote_path ''disk:/root/ab.txt'' = Inr ''disk:/root/ab.txt''"
proof -
  have "remote_path_wf ''disk:/root/ab.txt''"
    unfolding remote_path_wf_def
    by (rule exI [of _ "[''root'', ''ab.txt'']"])
      (simp add: REMOTE_PREFIX_def clean_segment_def keep_remote_char_def is_control_def code_def
        RESERVED_REMOTE_CHARS_def backslash_def)
  moreover have "\<not> is_ws (last ''disk:/root/ab.txt'')"
    by (simp add: is_ws_def code_def)
  ultimately show ?thesis using sanitize_remote_path_fixpoint by blast
qed

text \<open>
  The white space condition is needed. Removing a reserved character can leave a path that
  ends in a space; a second pass trims it, so \<open>sanitize_remote_path\<close> is not idempotent and one
  remote path has two different collision keys.
\<close>

theorem sanitize_remote_path_not_idempotent:
  "sanitize_remote_path ''disk:/a ?'' = Inr ''disk:/a '' \<and>
   sanitize_remote_path ''disk:/a '' = Inr ''disk:/a'' \<and>
   detect_remote_path_collision_key ''disk:/a ?'' \<noteq> detect_remote_path_collision_key ''disk:/a ''"
  by code_simp

text \<open>
  a local path that names a network share or a path relative to a drive is refused, whatever
  the remote root, unless an override is given.
\<close>

theorem canonical_remote_path_rejects:
  assumes "remote_root_segments remote_root = Inr segs"
    and "ov = None \<or> (\<exists>v. ov = Some v \<and> str_trim v = [])"
  shows "(starts_with [backslash, backslash] (str_trim p) \<or> starts_with [slash, slash] (str_trim p)
            \<longrightarrow> canonical_remote_path remote_root p ov = Inl UnsupportedUncPath) \<and>
         (is_drive_relative_path (str_trim p)
            \<longrightarrow> canonical_remote_path remote_root p ov = Inl UnsupportedDriveRelativePath)"
proof -
  have "canonical_remote_path remote_root p ov =
     (case local_path_segments p of Inl e \<Rightarrow> Inl e | Inr s \<Rightarrow> build_remote_path (segs @ s))"
    using assms by (auto simp: canonical_remote_path_def)
  moreover have "is_drive_relative_path (str_trim p) \<Longrightarrow>
     \<not> starts_with [backslash, backslash] (str_trim p) \<and> \<not> starts_with [slash, slash] (str_trim p)"
    by (auto simp: is_drive_relative_path_def starts_with_iff is_ascii_alpha_def code_def
        backslash_def split: list.splits)
  ultimately show ?thesis
    by (auto simp: local_path_segments_def Let_def)
qed

theorem canonical_remote_path_rejects_witness:
  "canonical_remote_path ''disk:/root'' [backslash, backslash, CHR ''s''] None = Inl UnsupportedUncPath \<and>
   canonical_remote_path ''disk:/root'' ''D:folder'' None = Inl UnsupportedDriveRelativePath"
proof -
  have r: "remote_root_segments ''disk:/root'' = Inr [''root'']" by code_simp
  have "starts_with [backslash, backslash] (str_trim [backslash, backslash, CHR ''s''])"
    and "is_drive_relative_path (str_trim ''D:folder'')" by code_simp+
  then show ?thesis
    using canonical_remote_path_rejects [OF r, of None] by blast
qed

end
