(* ===== verification/Exclusions.thy ===== *)
theory Exclusions
  imports Prelude
begin

text \<open>
  \<open>crates/yds-core/src/exclusions.rs\<close>: the exclusion matcher. The \<open>ignore\<close> crate that compiles
  and matches the patterns is not part of the repository; \<open>gitignore_api\<close> holds the three calls
  the code makes to it, and every definition that uses it takes one as an argument. A path is
  the text that \<open>to_string_lossy\<close> gives for it.
\<close>

datatype gi_match = GiNone | GiIgnore | GiWhitelist

record gitignore_api =
  gi_add_line :: "string list \<Rightarrow> string \<Rightarrow> string option"
    \<comment> \<open>the lines added so far, the new line: the error message, if it is refused\<close>
  gi_build :: "string list \<Rightarrow> string option"
  gi_matched :: "string list \<Rightarrow> string \<Rightarrow> bool \<Rightarrow> gi_match"
    \<comment> \<open>\<open>matched_path_or_any_parents\<close> of the matcher built from these lines\<close>

datatype ExclusionError = InvalidRule nat string

datatype ExclusionReason = Absolute | Pattern | IncludedByNegation | NotMatched

record ExclusionDecision =
  excluded :: bool
  reason :: ExclusionReason

definition decision_excluded :: "ExclusionReason \<Rightarrow> ExclusionDecision" where
  "decision_excluded r = \<lparr>excluded = True, reason = r\<rparr>"

definition decision_included :: "ExclusionReason \<Rightarrow> ExclusionDecision" where
  "decision_included r = \<lparr>excluded = False, reason = r\<rparr>"

record ExclusionMatcher =
  patterns :: "string list"
  absolute_excludes :: "string list"

definition looks_like_windows_path :: "string \<Rightarrow> bool" where
  "looks_like_windows_path path =
     (case path of c0 # c1 # _ \<Rightarrow> is_ascii_alpha c0 \<and> c1 = CHR '':'' | _ \<Rightarrow> False)"

definition normalize_absolute_path :: "string \<Rightarrow> string" where
  "normalize_absolute_path path =
     (let normalized = trim_end_slash (back_to_slash path)
      in if looks_like_windows_path normalized then to_lowercase normalized else normalized)"

definition validate_rule :: "string \<Rightarrow> nat \<Rightarrow> ExclusionError + unit" where
  "validate_rule rule index =
     (if str_trim rule = [] then Inl (InvalidRule index ''rule must not be empty'')
      else if \<exists>c\<in>set rule. is_control c
      then Inl (InvalidRule index ''rule must not contain control characters'')
      else Inr ())"

text \<open>The loop of \<open>ExclusionMatcher::new\<close>: the lines added so far, the index of the next rule.\<close>

fun add_rules :: "gitignore_api \<Rightarrow> string list \<Rightarrow> nat \<Rightarrow> string list \<Rightarrow> ExclusionError + string list" where
  "add_rules gi added index [] = Inr added"
| "add_rules gi added index (rule # rules) =
     (case validate_rule rule index of
        Inl e \<Rightarrow> Inl e
      | Inr _ \<Rightarrow>
          (case gi_add_line gi added rule of
             Some message \<Rightarrow> Inl (InvalidRule index message)
           | None \<Rightarrow> add_rules gi (added @ [rule]) (Suc index) rules))"

definition matcher_new ::
  "gitignore_api \<Rightarrow> string list \<Rightarrow> string list \<Rightarrow> string list \<Rightarrow> ExclusionError + ExclusionMatcher" where
  "matcher_new gi global_rules root_rules absolutes =
     (case add_rules gi [] 0 (global_rules @ root_rules) of
        Inl e \<Rightarrow> Inl e
      | Inr added \<Rightarrow>
          (case gi_build gi added of
             Some message \<Rightarrow> Inl (InvalidRule (length global_rules + length root_rules) message)
           | None \<Rightarrow> Inr \<lparr>patterns = added,
                          absolute_excludes = map normalize_absolute_path absolutes\<rparr>))"

definition matches_absolute_exclude :: "ExclusionMatcher \<Rightarrow> string \<Rightarrow> bool" where
  "matches_absolute_exclude m path =
     (let candidate = normalize_absolute_path (back_to_slash path)
      in \<exists>ex\<in>set (absolute_excludes m).
           candidate = ex \<or>
           (case strip_prefix ex candidate of
              None \<Rightarrow> False
            | Some rest \<Rightarrow> starts_with [slash] rest))"

definition decision_for_path :: "gitignore_api \<Rightarrow> ExclusionMatcher \<Rightarrow> string \<Rightarrow> bool \<Rightarrow> ExclusionDecision" where
  "decision_for_path gi m path is_dir =
     (if matches_absolute_exclude m path then decision_excluded Absolute
      else case gi_matched gi (patterns m) path is_dir of
             GiIgnore \<Rightarrow> decision_excluded Pattern
           | GiWhitelist \<Rightarrow> decision_included IncludedByNegation
           | GiNone \<Rightarrow> decision_included NotMatched)"

section \<open>Properties\<close>

lemma matches_absolute_iff:
  "matches_absolute_exclude m path \<longleftrightarrow>
   covered path_under (absolute_excludes m) (normalize_absolute_path (back_to_slash path))"
  by (simp add: matches_absolute_exclude_def covered_def path_under_def Let_def)

lemma back_to_slash_idem [simp]: "back_to_slash (back_to_slash s) = back_to_slash s"
  by (auto simp: back_to_slash_def)

lemma back_to_slash_append: "back_to_slash (a @ b) = back_to_slash a @ back_to_slash b"
  by (simp add: back_to_slash_def)

lemma looks_windows_append: "looks_like_windows_path a \<Longrightarrow> looks_like_windows_path (a @ b)"
  by (auto simp: looks_like_windows_path_def split: list.splits)

lemma looks_windows_slash:
  "looks_like_windows_path (a @ slash # b) \<Longrightarrow> looks_like_windows_path a"
  by (cases a; cases "tl a")
    (auto simp: looks_like_windows_path_def is_ascii_alpha_def code_def Let_def split: list.splits)

lemma trim_end_slash_append:
  "trim_end_slash b \<noteq> [] \<Longrightarrow> trim_end_slash (a @ b) = a @ trim_end_slash b"
  unfolding trim_end_slash_def trim_end_by_def
  by (simp add: dropWhile_append) (metis dropWhile_eq_Nil_conv set_rev)

lemma lower_slash [simp]: "lower_char slash = slash"
  by (simp add: lower_char_def code_def)

lemma path_under_lower: "path_under p q \<Longrightarrow> path_under (to_lowercase p) (to_lowercase q)"
  by (auto simp: path_under_iff to_lowercase_def)

lemma trim_end_slash_blank: "trim_end_slash b = [] \<Longrightarrow> trim_end_slash (a @ slash # b) = trim_end_slash a"
  unfolding trim_end_slash_def trim_end_by_def
  by (simp add: dropWhile_append)

lemma normalize_child:
  "path_under (normalize_absolute_path a) (normalize_absolute_path (a @ slash # b))"
proof -
  define x y where "x = back_to_slash a" and "y = back_to_slash b"
  have eq: "back_to_slash (a @ slash # b) = x @ slash # y"
    by (simp add: x_def y_def back_to_slash_def backslash_def)
  show ?thesis
  proof (cases "trim_end_slash y = []")
    case True
    then show ?thesis
      by (simp add: normalize_absolute_path_def eq trim_end_slash_blank flip: x_def)
  next
    case False
    then have *: "trim_end_slash (x @ slash # y) = x @ slash # trim_end_slash y"
      using trim_end_slash_append [of y "x @ [slash]"] by simp
    obtain t where t: "x = trim_end_slash x @ t" "\<forall>c\<in>set t. c = slash"
      unfolding trim_end_slash_def using trim_end_by_decomp [of x "\<lambda>c. c = slash"] by auto
    have u: "path_under (trim_end_slash x) (x @ slash # trim_end_slash y)"
      unfolding path_under_suffix
      using t by (intro exI [of _ "t @ slash # trim_end_slash y"]) (cases t; simp)
    then have w: "looks_like_windows_path (trim_end_slash x) =
                  looks_like_windows_path (x @ slash # trim_end_slash y)"
      unfolding path_under_iff using looks_windows_append looks_windows_slash by metis
    show ?thesis
      using u path_under_lower [OF u]
      unfolding normalize_absolute_path_def eq Let_def * w x_def [symmetric] by simp
  qed
qed

text \<open>A gitignore matcher that accepts every rule and matches nothing, for examples.\<close>

definition permissive_gitignore :: gitignore_api where
  "permissive_gitignore =
     \<lparr>gi_add_line = (\<lambda>_ _. None), gi_build = (\<lambda>_. None), gi_matched = (\<lambda>_ _ _. GiNone)\<rparr>"

text \<open>
  An absolute exclusion is final and covers the whole subtree: a path it matches is excluded
  for the reason \<open>Absolute\<close> whatever the patterns say, and so is everything below it.
\<close>

theorem absolute_exclude_covers_subtree:
  assumes "matches_absolute_exclude m path"
  shows "decision_for_path gi m path d = decision_excluded Absolute \<and>
         decision_for_path gi m (path @ slash # rest) d' = decision_excluded Absolute"
proof -
  have "path_under (normalize_absolute_path (back_to_slash path))
          (normalize_absolute_path (back_to_slash (path @ slash # rest)))"
    using normalize_child [of "back_to_slash path" "back_to_slash rest"]
    by (simp add: back_to_slash_append back_to_slash_def backslash_def)
  then have "matches_absolute_exclude m (path @ slash # rest)"
    using assms pu.covered_down unfolding matches_absolute_iff by blast
  with assms show ?thesis by (simp add: decision_for_path_def)
qed

theorem absolute_exclude_covers_subtree_witness:
  "decision_for_path permissive_gitignore \<lparr>patterns = [], absolute_excludes = [''/var/lib/private'']\<rparr>
     ''/var/lib/private/data.bin'' False = decision_excluded Absolute"
proof -
  have "matches_absolute_exclude \<lparr>patterns = [], absolute_excludes = [''/var/lib/private'']\<rparr>
          ''/var/lib/private''" by code_simp
  from absolute_exclude_covers_subtree [OF this, of permissive_gitignore False "''data.bin''" False]
  show ?thesis by simp
qed

text \<open>The rules reach the matcher in order, global ones first, none dropped or added.\<close>

lemma add_rules_order: "add_rules gi added i rules = Inr out \<Longrightarrow> out = added @ rules"
  by (induction gi added i rules rule: add_rules.induct) (auto split: sum.splits option.splits)

lemma add_rules_valid:
  "add_rules gi added i rules = Inr out \<Longrightarrow>
   rule \<in> set rules \<Longrightarrow> str_trim rule \<noteq> [] \<and> (\<forall>c\<in>set rule. \<not> is_control c)"
proof (induction gi added i rules rule: add_rules.induct)
  case (2 gi added i r rules)
  from 2(2) have v: "validate_rule r i = Inr ()" and a: "gi_add_line gi added r = None"
    and rest: "add_rules gi (added @ [r]) (Suc i) rules = Inr out"
    by (auto split: sum.splits option.splits)
  from v have "str_trim r \<noteq> [] \<and> (\<forall>c\<in>set r. \<not> is_control c)"
    by (auto simp: validate_rule_def split: if_splits)
  with 2(1) [OF v a rest] 2(3) show ?case by auto
qed simp

text \<open>
  a matcher is built exactly from the given rules: the global rules, then the rules of the root,
  in their order, every one of them non-blank and free of control characters.
\<close>

theorem matcher_new_rules:
  assumes "matcher_new gi g r a = Inr m"
  shows "patterns m = g @ r \<and> absolute_excludes m = map normalize_absolute_path a \<and>
    (\<forall>rule\<in>set (g @ r). str_trim rule \<noteq> [] \<and> (\<forall>c\<in>set rule. \<not> is_control c))"
proof -
  obtain out where out: "add_rules gi [] 0 (g @ r) = Inr out"
    and m: "m = \<lparr>patterns = out, absolute_excludes = map normalize_absolute_path a\<rparr>"
    using assms by (auto simp: matcher_new_def split: sum.splits option.splits)
  show ?thesis
    using add_rules_order [OF out] add_rules_valid [OF out] m by auto
qed

theorem matcher_new_rules_witness:
  "filter is_control ''*.tmp'' = []"
proof -
  have "matcher_new permissive_gitignore [''*.tmp''] [''!keep.tmp''] [] =
        Inr \<lparr>patterns = [''*.tmp'', ''!keep.tmp''], absolute_excludes = []\<rparr>"
    by code_simp
  from matcher_new_rules [OF this] show ?thesis by (simp add: filter_empty_conv)
qed

text \<open>A rule is refused with its own position in the concatenated list.\<close>

lemma add_rules_error_index:
  "add_rules gi added i rules = Inl (InvalidRule k msg) \<Longrightarrow> i \<le> k \<and> k < i + length rules"
proof (induction gi added i rules rule: add_rules.induct)
  case (2 gi added i rule rules)
  then show ?case
    by (fastforce simp: validate_rule_def split: sum.splits option.splits if_splits)
qed simp

end
