(* ===== verification/Config.thy ===== *)
theory Config
  imports Path_Mapping Exclusions
begin

text \<open>
  \<open>crates/yds-core/src/config.rs\<close>: the configuration record, its defaults and its validation.
  The engines refuse to run on a configuration whose report is not empty; the main lemma says
  what an empty report means, field by field. Reading and writing the JSON file (serde, \<open>fs\<close>)
  is not modelled.
\<close>

record InstanceConfig =
  in_name :: string
  in_remote_root :: string
  in_auto_include_hostname :: bool

record PathsConfig =
  pa_state_db :: string
  pa_logs_dir :: string
  pa_staging_dir :: string

record ScheduleConfig =
  sc_enabled :: bool
  sc_start_time_utc :: string
  sc_run_missed_on_startup :: bool
  sc_allow_manual_run :: bool
  sc_allow_continuous_debug_mode :: bool

record SyncConfig =
  sy_max_file_size_bytes :: u64
  sy_full_hash_max_bytes :: u64
  sy_large_file_name_size_only_min_bytes :: u64
  sy_upload_concurrency :: nat
  sy_create_directory_concurrency :: nat
  sy_scan_concurrency :: nat
  sy_retry_attempts :: u32
  sy_retry_delay_seconds :: u64
  sy_force_remote_rescan :: bool
  sy_remote_inventory_cache_ttl_hours :: u64
  sy_delete_remote_extras :: bool
  sy_delete_permanently :: bool
  sy_delete_after_uploads :: bool
  sy_dry_run_enabled :: bool

record YandexDiskConfig =
  yd_oauth_scope :: string
  yd_account_alias :: string
  yd_import_yacli_auth_if_available :: bool
  yd_client_name :: string
  yd_oauth_client_id :: "string option"

record WebUiConfig =
  wu_enabled :: bool
  wu_bind_address :: string
  wu_port :: u16
  wu_require_auth_when_non_loopback :: bool

record LoggingConfig =
  lo_format :: string
  lo_retention_days :: u32
  lo_level :: string

record SyncRootConfig =
  rc_id :: string
  rc_name :: string
  rc_enabled :: bool
  rc_local_path :: string
  rc_remote_path_override :: "string option"
  rc_legacy_remote_paths :: "string list"
  rc_excludes :: "string list"

record AppConfig =
  cf_version :: u32
  cf_instance :: InstanceConfig
  cf_paths :: PathsConfig
  cf_schedule :: ScheduleConfig
  cf_sync :: SyncConfig
  cf_yandex_disk :: YandexDiskConfig
  cf_web_ui :: WebUiConfig
  cf_logging :: LoggingConfig
  cf_global_excludes :: "string list"
  cf_absolute_excludes :: "string list"
  cf_roots :: "SyncRootConfig list"

record ConfigValidationError =
  ce_field :: string
  ce_message :: string
  ce_root_index :: "nat option"
  ce_rule_index :: "nat option"

type_synonym ConfigValidationReport = "ConfigValidationError list"

definition report_push ::
  "string \<Rightarrow> string \<Rightarrow> nat option \<Rightarrow> nat option \<Rightarrow> ConfigValidationReport \<Rightarrow> ConfigValidationReport" where
  "report_push f msg ri ru report =
     report @ [\<lparr>ce_field = f, ce_message = msg, ce_root_index = ri, ce_rule_index = ru\<rparr>]"

definition report_is_valid :: "ConfigValidationReport \<Rightarrow> bool" where
  "report_is_valid report = (report = [])"

section \<open>Constants and defaults\<close>

definition CONFIG_VERSION :: u32 where "CONFIG_VERSION = 1"
definition DEFAULT_MAX_FILE_SIZE_BYTES :: u64 where
  "DEFAULT_MAX_FILE_SIZE_BYTES = 50 * 1024 * 1024 * 1024"
definition DEFAULT_FULL_HASH_MAX_BYTES :: u64 where
  "DEFAULT_FULL_HASH_MAX_BYTES = 10 * 1024 * 1024"
definition DEFAULT_LARGE_FILE_NAME_SIZE_ONLY_MIN_BYTES :: u64 where
  "DEFAULT_LARGE_FILE_NAME_SIZE_ONLY_MIN_BYTES = 100 * 1024 * 1024"
definition DEFAULT_UPLOAD_CONCURRENCY :: nat where "DEFAULT_UPLOAD_CONCURRENCY = 2"
definition DEFAULT_SCAN_CONCURRENCY :: nat where "DEFAULT_SCAN_CONCURRENCY = 0"
definition DEFAULT_CREATE_DIRECTORY_CONCURRENCY :: nat where
  "DEFAULT_CREATE_DIRECTORY_CONCURRENCY = 8"
definition DEFAULT_RETRY_ATTEMPTS :: u32 where "DEFAULT_RETRY_ATTEMPTS = 3"
definition DEFAULT_RETRY_DELAY_SECONDS :: u64 where "DEFAULT_RETRY_DELAY_SECONDS = 30"
definition DEFAULT_REMOTE_INVENTORY_CACHE_TTL_HOURS :: u64 where
  "DEFAULT_REMOTE_INVENTORY_CACHE_TTL_HOURS = 24 * 7"
definition DEFAULT_SCHEDULE_START_TIME_UTC :: string where
  "DEFAULT_SCHEDULE_START_TIME_UTC = ''23:00''"
definition DEFAULT_WEB_UI_PORT :: u16 where "DEFAULT_WEB_UI_PORT = 17691"
definition DEFAULT_LOG_RETENTION_DAYS :: u32 where "DEFAULT_LOG_RETENTION_DAYS = 7"

definition default_global_excludes :: "string list" where
  "default_global_excludes =
     [''**/__pycache__/**'', ''**/.pytest_cache/**'', ''**/~$*'', ''**/*.tmp'', ''**/*.temp'',
      ''**/.DS_Store'', ''**/Thumbs.db'', ''**/*.sqlite-wal'', ''**/*.sqlite-shm'',
      ''**/*.db-wal'', ''**/*.db-shm'']"

text \<open>\<open>win\<close> writes a path literal of the source with its backslashes.\<close>

definition win :: "string list \<Rightarrow> string" where
  "win = str_join [backslash]"

definition example_root :: "string \<Rightarrow> string \<Rightarrow> string \<Rightarrow> string list \<Rightarrow> SyncRootConfig" where
  "example_root root_id name local_path legacy_remote_paths =
     \<lparr>rc_id = root_id, rc_name = name, rc_enabled = False, rc_local_path = local_path,
      rc_remote_path_override = None, rc_legacy_remote_paths = legacy_remote_paths,
      rc_excludes = []\<rparr>"

text \<open>The two display names are Cyrillic in the source; they are arguments here.\<close>

definition default_example_roots :: "string \<Rightarrow> string \<Rightarrow> SyncRootConfig list" where
  "default_example_roots projects_name documents_name =
     [example_root ''projects'' projects_name (win [''C:'', ''Data'', ''Projects'']) [],
      example_root ''documents'' documents_name (win [''C:'', ''Data'', ''Documents'']) []]"

definition default_config :: "string \<Rightarrow> string \<Rightarrow> AppConfig" where
  "default_config projects_name documents_name =
     \<lparr>cf_version = CONFIG_VERSION,
      cf_instance = \<lparr>in_name = ''local-workstation'', in_remote_root = ''disk:/Backup'',
                     in_auto_include_hostname = False\<rparr>,
      cf_paths =
        \<lparr>pa_state_db = win [''C:'', ''ProgramData'', ''YaDiskSync'', ''state'', ''state.sqlite''],
         pa_logs_dir = win [''C:'', ''ProgramData'', ''YaDiskSync'', ''logs''],
         pa_staging_dir = win [''C:'', ''ProgramData'', ''YaDiskSync'', ''staging'']\<rparr>,
      cf_schedule = \<lparr>sc_enabled = True, sc_start_time_utc = DEFAULT_SCHEDULE_START_TIME_UTC,
                     sc_run_missed_on_startup = False, sc_allow_manual_run = True,
                     sc_allow_continuous_debug_mode = True\<rparr>,
      cf_sync =
        \<lparr>sy_max_file_size_bytes = DEFAULT_MAX_FILE_SIZE_BYTES,
         sy_full_hash_max_bytes = DEFAULT_FULL_HASH_MAX_BYTES,
         sy_large_file_name_size_only_min_bytes = DEFAULT_LARGE_FILE_NAME_SIZE_ONLY_MIN_BYTES,
         sy_upload_concurrency = DEFAULT_UPLOAD_CONCURRENCY,
         sy_create_directory_concurrency = DEFAULT_CREATE_DIRECTORY_CONCURRENCY,
         sy_scan_concurrency = DEFAULT_SCAN_CONCURRENCY,
         sy_retry_attempts = DEFAULT_RETRY_ATTEMPTS,
         sy_retry_delay_seconds = DEFAULT_RETRY_DELAY_SECONDS,
         sy_force_remote_rescan = False,
         sy_remote_inventory_cache_ttl_hours = DEFAULT_REMOTE_INVENTORY_CACHE_TTL_HOURS,
         sy_delete_remote_extras = True, sy_delete_permanently = True,
         sy_delete_after_uploads = True, sy_dry_run_enabled = False\<rparr>,
      cf_yandex_disk = \<lparr>yd_oauth_scope = ''disk'', yd_account_alias = ''default'',
                        yd_import_yacli_auth_if_available = True,
                        yd_client_name = ''ya-disk-sync'', yd_oauth_client_id = None\<rparr>,
      cf_web_ui = \<lparr>wu_enabled = True, wu_bind_address = ''127.0.0.1'',
                   wu_port = DEFAULT_WEB_UI_PORT, wu_require_auth_when_non_loopback = True\<rparr>,
      cf_logging = \<lparr>lo_format = ''text'', lo_retention_days = DEFAULT_LOG_RETENTION_DAYS,
                    lo_level = ''info''\<rparr>,
      cf_global_excludes = default_global_excludes,
      cf_absolute_excludes = [],
      cf_roots = default_example_roots projects_name documents_name\<rparr>"

section \<open>Validation\<close>

definition is_valid_utc_time :: "string \<Rightarrow> bool" where
  "is_valid_utc_time v =
     (case split_once (CHR '':'') v of
        None \<Rightarrow> False
      | Some (hour, minute) \<Rightarrow>
          if str_len hour \<noteq> 2 \<or> str_len minute \<noteq> 2 then False
          else case parse_u8 hour of
                 None \<Rightarrow> False
               | Some h \<Rightarrow>
                   (case parse_u8 minute of
                      None \<Rightarrow> False
                    | Some m \<Rightarrow> h < 24 \<and> m < 60))"

definition is_loopback_bind :: "string \<Rightarrow> bool" where
  "is_loopback_bind v = (v \<in> {''127.0.0.1'', ''localhost'', ''::1''})"

text \<open>The \<open>Display\<close> texts of the two error types.\<close>

fun format_path_error :: "PathMappingError \<Rightarrow> string" where
  "format_path_error InvalidRemoteRoot = ''remote path must start with disk:/''"
| "format_path_error InvalidLocalPath =
     ''local path must be an absolute Windows drive path or an absolute Linux path''"
| "format_path_error UnsupportedUncPath = ''UNC paths are not supported in config v1''"
| "format_path_error UnsupportedDriveRelativePath =
     ''drive-relative Windows paths are not supported in config v1''"
| "format_path_error (EmptySanitizedSegment s) =
     ''path segment became empty after sanitization: '' @ s"
| "format_path_error (RelativeSegment s) = ''relative path segments are not allowed: '' @ s"

fun format_exclusion_error :: "ExclusionError \<Rightarrow> string" where
  "format_exclusion_error (InvalidRule index message) =
     ''invalid exclude rule at index '' @ show_nat index @ '': '' @ message"

definition push_if :: "bool \<Rightarrow> string \<Rightarrow> string \<Rightarrow> ConfigValidationReport \<Rightarrow> ConfigValidationReport" where
  "push_if c f msg report = (if c then report_push f msg None None report else report)"

definition validate_non_empty :: "string \<Rightarrow> string \<Rightarrow> ConfigValidationReport \<Rightarrow> ConfigValidationReport" where
  "validate_non_empty f v report =
     (if str_trim v = [] then report_push f ''must not be empty'' None None report else report)"


definition validate_sync_config :: "SyncConfig \<Rightarrow> ConfigValidationReport \<Rightarrow> ConfigValidationReport" where
  "validate_sync_config sync report =
     (let report = push_if (sy_max_file_size_bytes sync = 0)
                     ''sync.max_file_size_bytes'' ''must be greater than 0'' report;
          report = push_if (sy_full_hash_max_bytes sync = 0)
                     ''sync.full_hash_max_bytes'' ''must be greater than 0'' report;
          report = push_if (sy_large_file_name_size_only_min_bytes sync \<le> sy_full_hash_max_bytes sync)
                     ''sync.large_file_name_size_only_min_bytes''
                     ''must be greater than full_hash_max_bytes'' report;
          report = push_if (sy_upload_concurrency sync = 0)
                     ''sync.upload_concurrency'' ''must be greater than 0'' report;
          report = push_if (sy_create_directory_concurrency sync = 0)
                     ''sync.create_directory_concurrency'' ''must be greater than 0'' report;
          report = push_if (sy_retry_attempts sync = 0)
                     ''sync.retry_attempts'' ''must be greater than 0'' report;
          report = push_if (sy_retry_delay_seconds sync = 0)
                     ''sync.retry_delay_seconds'' ''must be greater than 0'' report;
          report = push_if (sy_remote_inventory_cache_ttl_hours sync = 0)
                     ''sync.remote_inventory_cache_ttl_hours'' ''must be greater than 0'' report;
          report = push_if (\<not> sy_delete_remote_extras sync)
                     ''sync.delete_remote_extras'' ''must be true in v1'' report;
          report = push_if (\<not> sy_delete_permanently sync)
                     ''sync.delete_permanently'' ''must be true in v1'' report;
          report = push_if (\<not> sy_delete_after_uploads sync)
                     ''sync.delete_after_uploads'' ''must be true in v1'' report
      in push_if (sy_dry_run_enabled sync) ''sync.dry_run_enabled'' ''must be false in v1'' report)"

definition validate_top_level :: "AppConfig \<Rightarrow> ConfigValidationReport \<Rightarrow> ConfigValidationReport" where
  "validate_top_level config report =
     (let report = push_if (cf_version config \<noteq> CONFIG_VERSION) ''version'' ''must be 1'' report;
          report = push_if (str_trim (in_name (cf_instance config)) = [])
                     ''instance.name'' ''must not be empty'' report;
          report = push_if (\<not> is_valid_remote_root (in_remote_root (cf_instance config)))
                     ''instance.remote_root'' ''must be a valid disk:/ remote root'' report;
          report = push_if (in_auto_include_hostname (cf_instance config))
                     ''instance.auto_include_hostname'' ''must be false in config v1'' report;
          report = validate_non_empty ''paths.state_db'' (pa_state_db (cf_paths config)) report;
          report = validate_non_empty ''paths.logs_dir'' (pa_logs_dir (cf_paths config)) report;
          report = validate_non_empty ''paths.staging_dir'' (pa_staging_dir (cf_paths config)) report;
          report = push_if (\<not> is_valid_utc_time (sc_start_time_utc (cf_schedule config)))
                     ''schedule.start_time_utc'' ''must use HH:MM UTC format'' report;
          report = push_if (sc_run_missed_on_startup (cf_schedule config))
                     ''schedule.run_missed_on_startup'' ''must be false in config v1'' report;
          report = validate_sync_config (cf_sync config) report;
          report = push_if (yd_oauth_scope (cf_yandex_disk config) \<noteq> ''disk'')
                     ''yandex_disk.oauth_scope'' ''must be disk'' report;
          report = validate_non_empty ''yandex_disk.account_alias''
                     (yd_account_alias (cf_yandex_disk config)) report;
          report = validate_non_empty ''yandex_disk.client_name''
                     (yd_client_name (cf_yandex_disk config)) report;
          report = (case yd_oauth_client_id (cf_yandex_disk config) of
                      Some client_id \<Rightarrow> validate_non_empty ''yandex_disk.oauth_client_id'' client_id report
                    | None \<Rightarrow> report);
          report = push_if (\<not> is_loopback_bind (wu_bind_address (cf_web_ui config)) \<and>
                            \<not> wu_require_auth_when_non_loopback (cf_web_ui config))
                     ''web_ui.require_auth_when_non_loopback''
                     ''must be true when bind_address is not loopback'' report;
          report = push_if (lo_format (cf_logging config) \<noteq> ''text'')
                     ''logging.format'' ''must be text'' report;
          report = push_if (lo_retention_days (cf_logging config) = 0)
                     ''logging.retention_days'' ''must be greater than 0'' report
      in push_if (lo_level (cf_logging config) \<notin> {''trace'', ''debug'', ''info'', ''warn'', ''error''})
           ''logging.level'' ''must be one of trace, debug, info, warn, error'' report)"

fun validate_exclude_rules_from ::
  "gitignore_api \<Rightarrow> string \<Rightarrow> nat \<Rightarrow> string list \<Rightarrow> nat option \<Rightarrow> ConfigValidationReport \<Rightarrow> ConfigValidationReport" where
  "validate_exclude_rules_from gi f index [] root_index report = report"
| "validate_exclude_rules_from gi f index (rule # rules) root_index report =
     validate_exclude_rules_from gi f (Suc index) rules root_index
       (case matcher_new gi [rule] [] [] of
          Inl e \<Rightarrow> report_push f (format_exclusion_error e) root_index (Some index) report
        | Inr _ \<Rightarrow> report)"

definition validate_exclude_rules ::
  "gitignore_api \<Rightarrow> string \<Rightarrow> string list \<Rightarrow> nat option \<Rightarrow> ConfigValidationReport \<Rightarrow> ConfigValidationReport" where
  "validate_exclude_rules gi f rules = validate_exclude_rules_from gi f 0 rules"

fun validate_legacy_paths_from ::
  "nat \<Rightarrow> string list \<Rightarrow> nat \<Rightarrow> ConfigValidationReport \<Rightarrow> ConfigValidationReport" where
  "validate_legacy_paths_from rule_index [] root_index report = report"
| "validate_legacy_paths_from rule_index (legacy_path # paths) root_index report =
     validate_legacy_paths_from (Suc rule_index) paths root_index
       (case sanitize_remote_path legacy_path of
          Inl e \<Rightarrow> report_push ''roots[].legacy_remote_paths'' (format_path_error e)
                     (Some root_index) (Some rule_index) report
        | Inr _ \<Rightarrow> report)"

definition validate_legacy_paths ::
  "SyncRootConfig \<Rightarrow> nat \<Rightarrow> ConfigValidationReport \<Rightarrow> ConfigValidationReport" where
  "validate_legacy_paths root root_index report =
     validate_legacy_paths_from 0 (rc_legacy_remote_paths root) root_index report"

definition root_collision_key :: "AppConfig \<Rightarrow> SyncRootConfig \<Rightarrow> PathMappingError + string" where
  "root_collision_key config root =
     (case canonical_remote_path (in_remote_root (cf_instance config)) (rc_local_path root)
             (rc_remote_path_override root) of
        Inl e \<Rightarrow> Inl e
      | Inr path \<Rightarrow> detect_remote_path_collision_key path)"

definition validate_canonical_path ::
  "AppConfig \<Rightarrow> SyncRootConfig \<Rightarrow> nat \<Rightarrow> (string \<rightharpoonup> nat) \<Rightarrow> ConfigValidationReport \<Rightarrow>
   (string \<rightharpoonup> nat) \<times> ConfigValidationReport" where
  "validate_canonical_path config root root_index canonical_paths report =
     (case root_collision_key config root of
        Inr key \<Rightarrow>
          (canonical_paths(key \<mapsto> root_index),
           case canonical_paths key of
             Some previous_index \<Rightarrow>
               report_push ''roots[].local_path''
                 (''canonical remote path collides with root index '' @ show_nat previous_index)
                 (Some root_index) None report
           | None \<Rightarrow> report)
      | Inl e \<Rightarrow>
          (canonical_paths,
           report_push ''roots[].local_path'' (format_path_error e) (Some root_index) None report))"

definition validate_root_id :: "SyncRootConfig \<Rightarrow> nat \<Rightarrow> string set \<Rightarrow> ConfigValidationReport \<Rightarrow> ConfigValidationReport" where
  "validate_root_id root index ids report =
     (if str_trim (rc_id root) = []
      then report_push ''roots[].id'' ''must not be empty'' (Some index) None report
      else if rc_id root \<in> ids
      then report_push ''roots[].id'' ''duplicate root id'' (Some index) None report
      else report)"

definition push_blank :: "string \<Rightarrow> string \<Rightarrow> nat \<Rightarrow> ConfigValidationReport \<Rightarrow> ConfigValidationReport" where
  "push_blank f v index report =
     (if str_trim v = [] then report_push f ''must not be empty'' (Some index) None report else report)"

text \<open>The body of the loop up to the canonical path, then the loop.\<close>

definition validate_root_fields ::
  "gitignore_api \<Rightarrow> SyncRootConfig \<Rightarrow> nat \<Rightarrow> string set \<Rightarrow> ConfigValidationReport \<Rightarrow> ConfigValidationReport" where
  "validate_root_fields gi root index ids report =
     validate_legacy_paths root index
       (validate_exclude_rules gi ''roots[].excludes'' (rc_excludes root) (Some index)
         (push_blank ''roots[].local_path'' (rc_local_path root) index
           (push_blank ''roots[].name'' (rc_name root) index
             (validate_root_id root index ids report))))"

definition ids_insert :: "string \<Rightarrow> string set \<Rightarrow> string set" where
  "ids_insert i ids = (if str_trim i = [] then ids else insert i ids)"

fun validate_roots_from ::
  "gitignore_api \<Rightarrow> AppConfig \<Rightarrow> nat \<Rightarrow> SyncRootConfig list \<Rightarrow> string set \<Rightarrow> (string \<rightharpoonup> nat) \<Rightarrow>
   ConfigValidationReport \<Rightarrow> ConfigValidationReport" where
  "validate_roots_from gi config index [] ids canonical_paths report = report"
| "validate_roots_from gi config index (root # roots) ids canonical_paths report =
     (case validate_canonical_path config root index canonical_paths
             (validate_root_fields gi root index ids report) of
        (canonical_paths', report') \<Rightarrow>
          validate_roots_from gi config (Suc index) roots (ids_insert (rc_id root) ids)
            canonical_paths' report')"

definition validate_roots ::
  "gitignore_api \<Rightarrow> AppConfig \<Rightarrow> ConfigValidationReport \<Rightarrow> ConfigValidationReport" where
  "validate_roots gi config report =
     (if cf_roots config = []
      then report_push ''roots'' ''must contain at least one root'' None None report
      else validate_roots_from gi config 0 (cf_roots config) {} Map.empty report)"

definition validate_config :: "gitignore_api \<Rightarrow> AppConfig \<Rightarrow> ConfigValidationReport" where
  "validate_config gi config =
     (let report = [];
          report = validate_top_level config report;
          report = validate_exclude_rules gi ''global_excludes'' (cf_global_excludes config) None report
      in validate_roots gi config report)"

section \<open>What an empty report means\<close>

lemma report_push_not_Nil [simp]: "report_push f m i j r \<noteq> []"
  by (simp add: report_push_def)

lemma push_if_Nil [simp]: "push_if c f m r = [] \<longleftrightarrow> \<not> c \<and> r = []"
  by (simp add: push_if_def)

lemma validate_non_empty_Nil [simp]: "validate_non_empty f v r = [] \<longleftrightarrow> str_trim v \<noteq> [] \<and> r = []"
  by (simp add: validate_non_empty_def)

definition sync_config_ok :: "SyncConfig \<Rightarrow> bool" where
  "sync_config_ok sync \<longleftrightarrow>
     0 < sy_max_file_size_bytes sync \<and> 0 < sy_full_hash_max_bytes sync \<and>
     sy_full_hash_max_bytes sync < sy_large_file_name_size_only_min_bytes sync \<and>
     0 < sy_upload_concurrency sync \<and> 0 < sy_create_directory_concurrency sync \<and>
     0 < sy_retry_attempts sync \<and> 0 < sy_retry_delay_seconds sync \<and>
     0 < sy_remote_inventory_cache_ttl_hours sync \<and>
     sy_delete_remote_extras sync \<and> sy_delete_permanently sync \<and>
     sy_delete_after_uploads sync \<and> \<not> sy_dry_run_enabled sync"

lemma validate_sync_config_Nil [simp]:
  "validate_sync_config sync r = [] \<longleftrightarrow> sync_config_ok sync \<and> r = []"
  by (auto simp: validate_sync_config_def sync_config_ok_def word_gt_0 not_le)

definition rule_ok :: "gitignore_api \<Rightarrow> string \<Rightarrow> bool" where
  "rule_ok gi rule = (\<exists>m. matcher_new gi [rule] [] [] = Inr m)"

lemma validate_exclude_rules_from_Nil:
  "validate_exclude_rules_from gi f i rules ri r = [] \<longleftrightarrow> (\<forall>rule\<in>set rules. rule_ok gi rule) \<and> r = []"
  by (induction gi f i rules ri r rule: validate_exclude_rules_from.induct)
    (auto simp: rule_ok_def split: sum.split)

lemma validate_exclude_rules_Nil [simp]:
  "validate_exclude_rules gi f rules ri r = [] \<longleftrightarrow> (\<forall>rule\<in>set rules. rule_ok gi rule) \<and> r = []"
  by (simp add: validate_exclude_rules_def validate_exclude_rules_from_Nil)

lemma validate_legacy_paths_from_Nil:
  "validate_legacy_paths_from i paths ri r = [] \<longleftrightarrow> (\<forall>p\<in>set paths. is_valid_remote_root p) \<and> r = []"
  by (induction i paths ri r rule: validate_legacy_paths_from.induct)
    (auto simp: is_valid_remote_root_def split: sum.splits)

lemma validate_legacy_paths_Nil [simp]:
  "validate_legacy_paths root ri r = [] \<longleftrightarrow>
   (\<forall>p\<in>set (rc_legacy_remote_paths root). is_valid_remote_root p) \<and> r = []"
  by (simp add: validate_legacy_paths_def validate_legacy_paths_from_Nil)


definition root_ok :: "gitignore_api \<Rightarrow> AppConfig \<Rightarrow> SyncRootConfig \<Rightarrow> bool" where
  "root_ok gi config root \<longleftrightarrow>
     str_trim (rc_id root) \<noteq> [] \<and> str_trim (rc_name root) \<noteq> [] \<and>
     str_trim (rc_local_path root) \<noteq> [] \<and>
     (\<forall>rule\<in>set (rc_excludes root). rule_ok gi rule) \<and>
     (\<forall>p\<in>set (rc_legacy_remote_paths root). is_valid_remote_root p) \<and>
     (\<exists>key. root_collision_key config root = Inr key)"

lemma validate_root_fields_Nil:
  "validate_root_fields gi root i ids r = [] \<longleftrightarrow>
   str_trim (rc_id root) \<noteq> [] \<and> rc_id root \<notin> ids \<and> str_trim (rc_name root) \<noteq> [] \<and>
   str_trim (rc_local_path root) \<noteq> [] \<and>
   (\<forall>rule\<in>set (rc_excludes root). rule_ok gi rule) \<and>
   (\<forall>p\<in>set (rc_legacy_remote_paths root). is_valid_remote_root p) \<and> r = []"
  by (auto simp: validate_root_fields_def validate_root_id_def push_blank_def)

lemma validate_canonical_path_Nil:
  "validate_canonical_path config root i canon r = (canon', []) \<longleftrightarrow>
   (\<exists>key. root_collision_key config root = Inr key \<and> key \<notin> dom canon \<and> canon' = canon(key \<mapsto> i)) \<and> r = []"
  by (auto simp: validate_canonical_path_def split: sum.splits option.splits)

lemma validate_roots_from_report: "validate_roots_from gi config i roots ids canon r = [] \<Longrightarrow> r = []"
proof (induction gi config i roots ids canon r rule: validate_roots_from.induct)
  case (2 gi config index root roots ids canon report)
  obtain canon' report' where v: "validate_canonical_path config root index canon
      (validate_root_fields gi root index ids report) = (canon', report')" by fastforce
  from 2(2) v have "validate_roots_from gi config (Suc index) roots (ids_insert (rc_id root) ids)
      canon' report' = []" by simp
  from 2(1) [OF v [symmetric] this] have "report' = []" .
  with v show ?case
    by (auto simp: validate_canonical_path_Nil validate_root_fields_Nil)
qed simp

definition key_of :: "AppConfig \<Rightarrow> SyncRootConfig \<Rightarrow> string option" where
  "key_of config root = result_ok (root_collision_key config root)"

lemma key_of_Some [simp]: "key_of config root = Some k \<longleftrightarrow> root_collision_key config root = Inr k"
  by (auto simp: key_of_def result_ok_def split: sum.splits)

lemma disjoint_insert_iff:
  "x \<notin> I \<Longrightarrow> S \<inter> insert x I = {} \<longleftrightarrow> x \<notin> S \<and> insert x S \<inter> I = {}"
  by auto

lemma validate_roots_from_Nil:
  "validate_roots_from gi config i roots ids canon r = [] \<longleftrightarrow>
   r = [] \<and> (\<forall>root\<in>set roots. root_ok gi config root) \<and>
   distinct (map rc_id roots) \<and> set (map rc_id roots) \<inter> ids = {} \<and>
   distinct (map (key_of config) roots) \<and> set (map (key_of config) roots) \<inter> Some ` dom canon = {}"
proof (induction roots arbitrary: i ids canon r)
  case (Cons root roots)
  obtain canon' r' where v: "validate_canonical_path config root i canon
      (validate_root_fields gi root i ids r) = (canon', r')" by fastforce
  show ?case
  proof (cases "r' = []")
    case True
    with v obtain key where key: "root_collision_key config root = Inr key" "key \<notin> dom canon"
        "canon' = canon(key \<mapsto> i)" and f: "validate_root_fields gi root i ids r = []"
      by (auto simp: validate_canonical_path_Nil)
    have k: "key_of config root = Some key" using key by simp
    have dom: "dom canon' = insert key (dom canon)" using key by simp
    have f': "str_trim (rc_id root) \<noteq> []" "rc_id root \<notin> ids" "r = []" "root_ok gi config root"
      using f key by (auto simp: validate_root_fields_Nil root_ok_def)
    have "validate_roots_from gi config i (root # roots) ids canon r = [] \<longleftrightarrow>
          validate_roots_from gi config (Suc i) roots (insert (rc_id root) ids) canon' [] = []"
      using v True f'(1) by (simp add: ids_insert_def)
    also have "\<dots> \<longleftrightarrow> (\<forall>root\<in>set roots. root_ok gi config root) \<and>
       distinct (map rc_id roots) \<and> set (map rc_id roots) \<inter> insert (rc_id root) ids = {} \<and>
       distinct (map (key_of config) roots) \<and>
       set (map (key_of config) roots) \<inter> Some ` insert key (dom canon) = {}"
      unfolding Cons.IH dom by simp
    also have "\<dots> \<longleftrightarrow> r = [] \<and> (\<forall>root\<in>set (root # roots). root_ok gi config root) \<and>
       distinct (map rc_id (root # roots)) \<and> set (map rc_id (root # roots)) \<inter> ids = {} \<and>
       distinct (map (key_of config) (root # roots)) \<and>
       set (map (key_of config) (root # roots)) \<inter> Some ` dom canon = {}"
    proof -
      have "Some key \<notin> Some ` dom canon" using key(2) by auto
      then show ?thesis
        unfolding list.map set_simps distinct.simps k image_insert
          disjoint_insert_iff [OF f'(2)] disjoint_insert_iff [OF \<open>Some key \<notin> Some ` dom canon\<close>]
        using f' by auto
    qed
    finally show ?thesis .
  next
    case False
    then have lhs: "validate_roots_from gi config i (root # roots) ids canon r \<noteq> []"
      using v validate_roots_from_report by fastforce
    have "\<not> (r = [] \<and> root_ok gi config root \<and> rc_id root \<notin> ids \<and> key_of config root \<notin> Some ` dom canon)"
    proof
      assume a: "r = [] \<and> root_ok gi config root \<and> rc_id root \<notin> ids \<and> key_of config root \<notin> Some ` dom canon"
      then obtain key where key: "root_collision_key config root = Inr key"
        by (auto simp: root_ok_def)
      then have "key_of config root = Some key" by simp
      then have "key \<notin> dom canon" using a by auto
      then have "validate_canonical_path config root i canon (validate_root_fields gi root i ids r)
         = (canon(key \<mapsto> i), [])"
        using a key by (simp add: validate_canonical_path_Nil validate_root_fields_Nil root_ok_def)
      with v False show False by simp
    qed
    with lhs show ?thesis by auto
  qed
qed simp


definition top_level_ok :: "AppConfig \<Rightarrow> bool" where
  "top_level_ok config \<longleftrightarrow>
     cf_version config = CONFIG_VERSION \<and>
     str_trim (in_name (cf_instance config)) \<noteq> [] \<and>
     is_valid_remote_root (in_remote_root (cf_instance config)) \<and>
     \<not> in_auto_include_hostname (cf_instance config) \<and>
     str_trim (pa_state_db (cf_paths config)) \<noteq> [] \<and>
     str_trim (pa_logs_dir (cf_paths config)) \<noteq> [] \<and>
     str_trim (pa_staging_dir (cf_paths config)) \<noteq> [] \<and>
     is_valid_utc_time (sc_start_time_utc (cf_schedule config)) \<and>
     \<not> sc_run_missed_on_startup (cf_schedule config) \<and>
     sync_config_ok (cf_sync config) \<and>
     yd_oauth_scope (cf_yandex_disk config) = ''disk'' \<and>
     str_trim (yd_account_alias (cf_yandex_disk config)) \<noteq> [] \<and>
     str_trim (yd_client_name (cf_yandex_disk config)) \<noteq> [] \<and>
     (case yd_oauth_client_id (cf_yandex_disk config) of None \<Rightarrow> True | Some c \<Rightarrow> str_trim c \<noteq> []) \<and>
     (is_loopback_bind (wu_bind_address (cf_web_ui config)) \<or>
      wu_require_auth_when_non_loopback (cf_web_ui config)) \<and>
     lo_format (cf_logging config) = ''text'' \<and>
     lo_retention_days (cf_logging config) \<noteq> 0 \<and>
     lo_level (cf_logging config) \<in> {''trace'', ''debug'', ''info'', ''warn'', ''error''}"

lemma str_trim_Nil [simp]: "str_trim [] = []"
  by (simp add: str_trim_def trim_end_by_def trim_start_by_def)

lemma validate_top_level_Nil: "validate_top_level config [] = [] \<longleftrightarrow> top_level_ok config"
  unfolding validate_top_level_def top_level_ok_def Let_def push_if_Nil
  by (cases "yd_oauth_client_id (cf_yandex_disk config)") auto

lemma validate_top_level_report: "validate_top_level config r = [] \<Longrightarrow> r = []"
  unfolding validate_top_level_def Let_def push_if_Nil
  by (cases "yd_oauth_client_id (cf_yandex_disk config)") auto

definition config_ok :: "gitignore_api \<Rightarrow> AppConfig \<Rightarrow> bool" where
  "config_ok gi config \<longleftrightarrow>
     top_level_ok config \<and>
     (\<forall>rule\<in>set (cf_global_excludes config). rule_ok gi rule) \<and>
     cf_roots config \<noteq> [] \<and>
     (\<forall>root\<in>set (cf_roots config). root_ok gi config root) \<and>
     distinct (map rc_id (cf_roots config)) \<and>
     distinct (map (key_of config) (cf_roots config))"

lemma config_report_empty: "report_is_valid (validate_config gi config) \<longleftrightarrow> config_ok gi config"
proof -
  have roots: "validate_roots gi config r = [] \<longleftrightarrow>
     r = [] \<and> cf_roots config \<noteq> [] \<and> (\<forall>root\<in>set (cf_roots config). root_ok gi config root) \<and>
     distinct (map rc_id (cf_roots config)) \<and> distinct (map (key_of config) (cf_roots config))" for r
    by (simp add: validate_roots_def validate_roots_from_Nil)
  show ?thesis
    unfolding report_is_valid_def validate_config_def Let_def roots validate_exclude_rules_Nil
      validate_top_level_Nil config_ok_def by blast
qed

text \<open>
  C31. the report of \<open>validate_config\<close> is empty exactly when the configuration meets the
  declarative specification \<open>config_ok\<close>: every field rule, and over the roots: at least one root,
  every root well-formed, the identifiers pairwise different and the case-folded canonical remote
  paths pairwise different, so that no two roots share a remote tree.
\<close>

theorem validate_config_valid_iff:
  "report_is_valid (validate_config gi config) \<longleftrightarrow> config_ok gi config"
  by (rule config_report_empty)

text \<open>
  C32. Two different roots of a valid configuration, enabled or not, have canonical remote paths that
  differ even after another sanitising and when letter case is ignored.
\<close>

theorem valid_config_roots_disjoint:
  assumes "report_is_valid (validate_config gi config)"
    and "i < length (cf_roots config)" "j < length (cf_roots config)" "i \<noteq> j"
    and "canonical_remote_path (in_remote_root (cf_instance config)) (rc_local_path (cf_roots config ! i))
           (rc_remote_path_override (cf_roots config ! i)) = Inr p"
    and "canonical_remote_path (in_remote_root (cf_instance config)) (rc_local_path (cf_roots config ! j))
           (rc_remote_path_override (cf_roots config ! j)) = Inr q"
  shows "detect_remote_path_collision_key p \<noteq> detect_remote_path_collision_key q"
proof
  assume eq: "detect_remote_path_collision_key p = detect_remote_path_collision_key q"
  have "config_ok gi config" using assms(1) config_report_empty by blast
  then have d: "distinct (map (key_of config) (cf_roots config))" by (simp add: config_ok_def)
  have "key_of config (cf_roots config ! i) = key_of config (cf_roots config ! j)"
    using assms(5,6) eq by (simp add: key_of_def root_collision_key_def)
  then show False
    using d assms(2-4) by (simp add: distinct_conv_nth)
qed

lemma default_rules_ok:
  assumes "\<forall>rule\<in>set default_global_excludes. gi_add_line gi [] rule = None \<and> gi_build gi [rule] = None"
  shows "\<forall>rule\<in>set default_global_excludes. rule_ok gi rule"
proof
  fix rule assume r: "rule \<in> set default_global_excludes"
  have "\<forall>rule\<in>set default_global_excludes. validate_rule rule 0 = Inr ()" by code_simp
  with r assms show "rule_ok gi rule"
    by (simp add: rule_ok_def matcher_new_def)
qed

lemma default_top_level_ok: "top_level_ok (default_config a b)"
proof -
  have "top_level_ok ((default_config a b)\<lparr>cf_roots := []\<rparr>)" by code_simp
  then show ?thesis by (simp add: top_level_ok_def)
qed


lemma default_root_keys:
  "root_collision_key (default_config a b) (example_root i n (win [''C:'', ''Data'', ''Projects'']) [])
     = Inr ''disk:/backup/c/data/projects'' \<and>
   root_collision_key (default_config a b) (example_root i n (win [''C:'', ''Data'', ''Documents'']) [])
     = Inr ''disk:/backup/c/data/documents''"
proof -
  have "root_collision_key c r = (case canonical_remote_path (in_remote_root (cf_instance c)) (rc_local_path r)
          (rc_remote_path_override r) of Inl e \<Rightarrow> Inl e | Inr path \<Rightarrow> detect_remote_path_collision_key path)" for c r
    by (simp add: root_collision_key_def)
  moreover have "in_remote_root (cf_instance (default_config a b)) = ''disk:/Backup''"
    by (simp add: default_config_def)
  moreover have "(case canonical_remote_path ''disk:/Backup'' (win [''C:'', ''Data'', ''Projects'']) None of
       Inl e \<Rightarrow> Inl e | Inr path \<Rightarrow> detect_remote_path_collision_key path) = Inr ''disk:/backup/c/data/projects''"
    "(case canonical_remote_path ''disk:/Backup'' (win [''C:'', ''Data'', ''Documents'']) None of
       Inl e \<Rightarrow> Inl e | Inr path \<Rightarrow> detect_remote_path_collision_key path) = Inr ''disk:/backup/c/data/documents''"
    by code_simp+
  ultimately show ?thesis by (simp add: example_root_def)
qed

lemma default_config_report:
  assumes "\<forall>rule\<in>set default_global_excludes. gi_add_line gi [] rule = None \<and> gi_build gi [rule] = None"
    and "str_trim a \<noteq> []" "str_trim b \<noteq> []"
  shows "report_is_valid (validate_config gi (default_config a b))"
proof -
  let ?c = "default_config a b"
  have roots: "cf_roots ?c =
      [example_root ''projects'' a (win [''C:'', ''Data'', ''Projects'']) [],
       example_root ''documents'' b (win [''C:'', ''Data'', ''Documents'']) []]"
    by (simp add: default_config_def default_example_roots_def)
  have trims: "str_trim ''projects'' \<noteq> []" "str_trim ''documents'' \<noteq> []"
    "str_trim (win [''C:'', ''Data'', ''Projects'']) \<noteq> []"
    "str_trim (win [''C:'', ''Data'', ''Documents'']) \<noteq> []"
    by code_simp+
  have "\<forall>root\<in>set (cf_roots ?c). root_ok gi ?c root"
    unfolding roots using assms(2,3) trims default_root_keys
    by (simp add: root_ok_def) (simp add: example_root_def)
  moreover have "distinct (map (key_of ?c) (cf_roots ?c))"
    unfolding roots key_of_def by (simp add: default_root_keys result_ok_def)
  moreover have "distinct (map rc_id (cf_roots ?c))"
    unfolding roots by (simp add: example_root_def)
  moreover have "\<forall>rule\<in>set (cf_global_excludes ?c). rule_ok gi rule"
    using default_rules_ok [OF assms(1)] by (simp add: default_config_def)
  ultimately show ?thesis
    unfolding config_report_empty config_ok_def
    using default_top_level_ok roots by simp
qed

text \<open>
  The configuration that \<open>config init\<close> writes is valid, for every matcher that accepts the
  default exclusion rules and non-blank display names.
\<close>

theorem default_config_valid:
  assumes "\<forall>rule\<in>set default_global_excludes. gi_add_line gi [] rule = None \<and> gi_build gi [rule] = None"
    and "str_trim a \<noteq> []" "str_trim b \<noteq> []"
  shows "report_is_valid (validate_config gi (default_config a b))"
  using assms by (rule default_config_report)

theorem default_config_valid_witness:
  "report_is_valid (validate_config permissive_gitignore (default_config ''Work'' ''Docs''))"
proof (rule default_config_valid)
  show "str_trim ''Work'' \<noteq> []" "str_trim ''Docs'' \<noteq> []" by code_simp+
qed (simp add: permissive_gitignore_def)

theorem valid_config_roots_disjoint_witness:
  "detect_remote_path_collision_key ''disk:/Backup/C/Data/Projects'' \<noteq>
   detect_remote_path_collision_key ''disk:/Backup/C/Data/Documents''"
proof -
  let ?c = "default_config ''Work'' ''Docs''"
  have v: "report_is_valid (validate_config permissive_gitignore ?c)"
  proof (rule default_config_report)
    show "str_trim ''Work'' \<noteq> []" "str_trim ''Docs'' \<noteq> []" by code_simp+
  qed (simp add: permissive_gitignore_def)
  have "0 < length (cf_roots ?c)" "1 < length (cf_roots ?c)"
    "canonical_remote_path (in_remote_root (cf_instance ?c)) (rc_local_path (cf_roots ?c ! 0))
       (rc_remote_path_override (cf_roots ?c ! 0)) = Inr ''disk:/Backup/C/Data/Projects''"
    "canonical_remote_path (in_remote_root (cf_instance ?c)) (rc_local_path (cf_roots ?c ! 1))
       (rc_remote_path_override (cf_roots ?c ! 1)) = Inr ''disk:/Backup/C/Data/Documents''"
    by code_simp+
  from valid_config_roots_disjoint [OF v this(1,2) _ this(3,4)] show ?thesis by simp
qed

text \<open>
  The time check accepts text that is not of the form \<open>HH:MM\<close>: \<open>u8::from_str\<close> takes a
  leading plus sign, which counts as one of the two characters.
\<close>

theorem utc_time_accepts_plus_sign: "is_valid_utc_time ''+5:+7'' \<and> \<not> is_valid_utc_time ''5:07''"
  by code_simp

lemma parse_u8_bound: "parse_u8 s = Some n \<Longrightarrow> n \<le> 255"
  by (auto simp: parse_u8_def Let_def split: if_splits option.splits)

end
