(* ===== verification/Disk_Client.thy ===== *)
theory Disk_Client
  imports Config
begin

text \<open>
  \<open>crates/yds-yandex-disk/src/error.rs\<close>, \<open>models.rs\<close> and the pure parts of \<open>lib.rs\<close>: the errors of the
  remote storage and how they are classified, its resources, the interface
  \<open>YandexDiskClient\<close> that the sync engine calls, the retry policy and the tests on paths and
  errors. An HTTP status is its number. The interface is a record of functions over the type
  \<open>'w\<close> of what lies outside the program.
\<close>

section \<open>Errors\<close>

definition DISK_UPLOADER_PERSISTENT_CONFLICT :: string where
  "DISK_UPLOADER_PERSISTENT_CONFLICT = ''DiskUploaderPersistentConflict''"

definition LOCAL_UPLOAD_SOURCE_UNAVAILABLE :: string where
  "LOCAL_UPLOAD_SOURCE_UNAVAILABLE = ''LocalUploadSourceUnavailable''"

datatype YandexDiskErrorKind =
  YkTransient | YkPermanent | YkAuthUnavailable | YkQuotaExceeded | YkRateLimited | YkNotFound | YkCritical

fun YandexDiskErrorKind_as_str :: "YandexDiskErrorKind \<Rightarrow> string" where
  "YandexDiskErrorKind_as_str YkTransient = ''transient''"
| "YandexDiskErrorKind_as_str YkPermanent = ''permanent''"
| "YandexDiskErrorKind_as_str YkAuthUnavailable = ''auth_unavailable''"
| "YandexDiskErrorKind_as_str YkQuotaExceeded = ''quota_exceeded''"
| "YandexDiskErrorKind_as_str YkRateLimited = ''rate_limited''"
| "YandexDiskErrorKind_as_str YkNotFound = ''not_found''"
| "YandexDiskErrorKind_as_str YkCritical = ''critical''"

definition kind_is_retryable :: "YandexDiskErrorKind \<Rightarrow> bool" where
  "kind_is_retryable k = (k = YkTransient \<or> k = YkRateLimited)"

record YandexDiskError =
  ye_kind :: YandexDiskErrorKind
  ye_message :: string
  ye_status :: "nat option"
  ye_api_code :: "string option"

definition error_new :: "YandexDiskErrorKind \<Rightarrow> string \<Rightarrow> YandexDiskError" where
  "error_new kind message =
     \<lparr>ye_kind = kind, ye_message = message, ye_status = None, ye_api_code = None\<rparr>"

definition error_with_status :: "YandexDiskErrorKind \<Rightarrow> nat \<Rightarrow> string \<Rightarrow> YandexDiskError" where
  "error_with_status kind status message =
     \<lparr>ye_kind = kind, ye_message = message, ye_status = Some status, ye_api_code = None\<rparr>"

definition error_with_api_code ::
  "YandexDiskErrorKind \<Rightarrow> nat \<Rightarrow> string option \<Rightarrow> string \<Rightarrow> YandexDiskError" where
  "error_with_api_code kind status api_code message =
     \<lparr>ye_kind = kind, ye_message = message, ye_status = Some status, ye_api_code = api_code\<rparr>"

definition error_auth_unavailable :: "string \<Rightarrow> YandexDiskError" where
  "error_auth_unavailable message = error_new YkAuthUnavailable message"

definition error_permanent :: "string \<Rightarrow> YandexDiskError" where
  "error_permanent message = error_new YkPermanent message"

definition error_critical :: "string \<Rightarrow> YandexDiskError" where
  "error_critical message = error_new YkCritical message"

definition persistent_uploader_conflict :: "string \<Rightarrow> YandexDiskError" where
  "persistent_uploader_conflict remote_path =
     error_with_api_code YkPermanent 409 (Some DISK_UPLOADER_PERSISTENT_CONFLICT)
       (''Yandex Disk uploader returned persistent HTTP 409 Conflict for '' @ remote_path @
        ''; exact file content was rejected by the upload endpoint'')"

definition local_upload_source_unavailable :: "string \<Rightarrow> string \<Rightarrow> YandexDiskError" where
  "local_upload_source_unavailable path error =
     error_with_api_code YkPermanent 500 (Some LOCAL_UPLOAD_SOURCE_UNAVAILABLE)
       (''failed to open upload source '' @ path @ '': '' @ error)"

definition is_persistent_uploader_conflict :: "YandexDiskError \<Rightarrow> bool" where
  "is_persistent_uploader_conflict e = (ye_api_code e = Some DISK_UPLOADER_PERSISTENT_CONFLICT)"

definition is_local_upload_source_unavailable :: "YandexDiskError \<Rightarrow> bool" where
  "is_local_upload_source_unavailable e = (ye_api_code e = Some LOCAL_UPLOAD_SOURCE_UNAVAILABLE)"

definition error_is_retryable :: "YandexDiskError \<Rightarrow> bool" where
  "error_is_retryable e = kind_is_retryable (ye_kind e)"

text \<open>\<open>is_server_error\<close> of the status: 500 to 599.\<close>

definition classify_http_status :: "nat \<Rightarrow> string option \<Rightarrow> string \<Rightarrow> YandexDiskErrorKind" where
  "classify_http_status status api_code message =
     (if status = 401 \<or> status = 403 then YkAuthUnavailable
      else if status = 404 then YkNotFound
      else
        let lower_code = to_ascii_lowercase (case api_code of None \<Rightarrow> '''' | Some c \<Rightarrow> c);
            lower_message = to_ascii_lowercase message
        in if status = 507 \<or> str_contains ''quota'' lower_code \<or> str_contains ''quota'' lower_message
              \<or> str_contains ''not enough space'' lower_message
           then YkQuotaExceeded
           else if status = 429 then YkRateLimited
           else if 500 \<le> status \<and> status < 600 then YkTransient
           else YkPermanent)"

record ApiErrorPayload =
  ap_error :: "string option"
  ap_description :: "string option"
  ap_message :: "string option"

definition best_message :: "ApiErrorPayload \<Rightarrow> string option" where
  "best_message p =
     (case ap_description p of Some d \<Rightarrow> Some d
      | None \<Rightarrow> (case ap_message p of Some m \<Rightarrow> Some m | None \<Rightarrow> ap_error p))"

text \<open>
  \<open>from_response\<close>: the payload is what the body parses to. The argument \<open>status_text\<close> is the text of
  the status, which the HTTP library prints.
\<close>

definition error_from_response :: "string \<Rightarrow> nat \<Rightarrow> ApiErrorPayload option \<Rightarrow> YandexDiskError" where
  "error_from_response status_text status payload =
     (let api_code = (case payload of None \<Rightarrow> None | Some p \<Rightarrow> ap_error p);
          message = (case (case payload of None \<Rightarrow> None | Some p \<Rightarrow> best_message p) of
             None \<Rightarrow> ''Yandex Disk API returned HTTP '' @ status_text | Some m \<Rightarrow> m);
          kind = classify_http_status status api_code message
      in error_with_api_code kind status api_code message)"

section \<open>Resources\<close>

datatype ResourceType = RtFile | RtDirectory

record ResourceMetadata =
  rs_path :: string
  rs_name :: "string option"
  rs_resource_type :: ResourceType
  rs_size_bytes :: "u64 option"
  rs_md5 :: "string option"
  rs_revision :: "u64 option"
  rs_created :: "string option"
  rs_modified :: "string option"

definition last_remote_segment :: "string \<Rightarrow> string option" where
  "last_remote_segment path =
     (let segment = last (split_slash path) in if segment = '''' then None else Some segment)"

definition resource_file :: "string \<Rightarrow> u64 \<Rightarrow> ResourceMetadata" where
  "resource_file path size_bytes =
     \<lparr>rs_path = path, rs_name = last_remote_segment path, rs_resource_type = RtFile,
      rs_size_bytes = Some size_bytes, rs_md5 = None, rs_revision = None,
      rs_created = None, rs_modified = None\<rparr>"

definition resource_directory :: "string \<Rightarrow> ResourceMetadata" where
  "resource_directory path =
     \<lparr>rs_path = path, rs_name = last_remote_segment path, rs_resource_type = RtDirectory,
      rs_size_bytes = None, rs_md5 = None, rs_revision = None,
      rs_created = None, rs_modified = None\<rparr>"

record QuotaInfo =
  qi_total_space :: "u64 option"
  qi_used_space :: "u64 option"
  qi_trash_size :: "u64 option"

record DiskInfo =
  di_quota :: QuotaInfo
  di_system_folders :: "(string, string) btree"

datatype DiskOperationStatus = OsInProgress | OsSuccess | OsFailed

definition operation_status_from_api :: "string \<Rightarrow> YandexDiskError + DiskOperationStatus" where
  "operation_status_from_api value =
     (if value = ''in-progress'' \<or> value = ''in_progress'' then Inr OsInProgress
      else if value = ''success'' then Inr OsSuccess
      else if value = ''failed'' then Inr OsFailed
      else Inl (error_new YkPermanent (''unknown Yandex Disk operation status: '' @ value)))"

section \<open>The interface of the client\<close>

type_synonym local_path = "string list"

type_synonym bytes = "8 word list"

datatype UploadSource = UploadBytes bytes | UploadFile local_path

type_synonym ('w, 'a) disk_call = "('w, YandexDiskError, 'a) m"

record 'w disk_client =
  dc_disk_info :: "('w, DiskInfo) disk_call"
  dc_metadata :: "string \<Rightarrow> ('w, ResourceMetadata) disk_call"
  dc_list_recursive_with_options :: "string \<Rightarrow> string list \<Rightarrow> ('w, ResourceMetadata list) disk_call"
  dc_create_directory :: "string \<Rightarrow> ('w, unit) disk_call"
  dc_upload_source :: "string \<Rightarrow> UploadSource \<Rightarrow> bool \<Rightarrow> ('w, unit) disk_call"
  dc_download :: "string \<Rightarrow> ('w, bytes) disk_call"
  dc_move_resource :: "string \<Rightarrow> string \<Rightarrow> bool \<Rightarrow> ('w, unit) disk_call"
  dc_copy_resource :: "string \<Rightarrow> string \<Rightarrow> bool \<Rightarrow> ('w, unit) disk_call"
  dc_delete_permanently :: "string \<Rightarrow> ('w, unit) disk_call"
  dc_poll_operation :: "string \<Rightarrow> ('w, DiskOperationStatus) disk_call"

text \<open>The two methods of the interface that have a body of their own.\<close>

definition list_recursive :: "'w disk_client \<Rightarrow> string \<Rightarrow> ('w, ResourceMetadata list) disk_call" where
  "list_recursive client remote_path = dc_list_recursive_with_options client remote_path []"

definition upload :: "'w disk_client \<Rightarrow> string \<Rightarrow> 8 word list \<Rightarrow> bool \<Rightarrow> ('w, unit) disk_call" where
  "upload client remote_path content overwrite =
     dc_upload_source client remote_path (UploadBytes content) overwrite"

section \<open>Retry policy\<close>

record RetryPolicy =
  rp_attempts :: u32
  rp_delay_seconds :: u64

definition retry_policy_new :: "u32 \<Rightarrow> u64 \<Rightarrow> RetryPolicy" where
  "retry_policy_new attempts delay = \<lparr>rp_attempts = max attempts 1, rp_delay_seconds = delay\<rparr>"

definition retry_policy_from_config :: "SyncConfig \<Rightarrow> RetryPolicy" where
  "retry_policy_from_config config =
     retry_policy_new (sy_retry_attempts config) (sy_retry_delay_seconds config)"

definition should_retry :: "RetryPolicy \<Rightarrow> YandexDiskError \<Rightarrow> u32 \<Rightarrow> bool" where
  "should_retry policy e attempt = (error_is_retryable e \<and> attempt < rp_attempts policy)"

section \<open>Paths and errors\<close>

definition parent_remote_paths :: "string \<Rightarrow> string list" where
  "parent_remote_paths path =
     (case strip_prefix ''disk:/'' path of
        None \<Rightarrow> []
      | Some body \<Rightarrow>
          let segments = filter (\<lambda>s. s \<noteq> '''') (split_slash body)
          in if length segments \<le> 1 then []
             else map (\<lambda>index. ''disk:/'' @ str_join ''/'' (take index segments)) [1..<length segments])"

definition normalized_prune_prefixes :: "string list \<Rightarrow> string list" where
  "normalized_prune_prefixes raw = filter (\<lambda>p. p \<noteq> '''') (map trim_end_slash raw)"

definition is_pruned_remote_path :: "string \<Rightarrow> string list \<Rightarrow> bool" where
  "is_pruned_remote_path path prune_prefixes = list_ex (\<lambda>p. path_under p path) prune_prefixes"

definition is_directory_already_exists :: "YandexDiskError \<Rightarrow> bool" where
  "is_directory_already_exists e =
     (ye_status e = Some 409 \<and>
      (case ye_api_code e of
         None \<Rightarrow> False
       | Some api_code \<Rightarrow>
           let lower = to_ascii_lowercase api_code
           in str_contains ''pathpointstoexistent'' lower \<or> str_contains ''alreadyexists'' lower))"

definition is_retryable_upload_conflict :: "YandexDiskError \<Rightarrow> bool" where
  "is_retryable_upload_conflict e =
     (if ye_status e \<noteq> Some 409 then False
      else
        let lower = to_ascii_lowercase (case ye_api_code e of None \<Rightarrow> '''' | Some c \<Rightarrow> c)
        in \<not> str_contains ''doesntexist'' lower \<and> \<not> str_contains ''notfound'' lower \<and>
           \<not> str_contains ''pathpointstoexistentdirectory'' lower)"

definition should_retry_upload_conflict :: "YandexDiskError \<Rightarrow> u32 \<Rightarrow> u32 \<Rightarrow> bool" where
  "should_retry_upload_conflict e attempt attempts =
     (attempt < attempts \<and> is_retryable_upload_conflict e)"

end
