(* ===== verification/State_Models.thy ===== *)
theory State_Models
  imports Prelude
begin

text \<open>
  \<open>crates/yds-state/src/models.rs\<close>: the enumerations stored as text, each with \<open>as_str\<close> and
  \<open>TryFrom<&str>\<close> of the \<open>db_enum!\<close> macro, and the records that the repository takes and returns.
  Constructors carry a prefix because the enumerations share variant names.
\<close>

record UnknownEnumValue =
  ue_enum_name :: string
  ue_value :: string

section \<open>Enumerations stored as text\<close>

text \<open>
  What \<open>db_enum!\<close> promises for every enumeration: the text of a value reads back as that value,
  and any other text is refused with itself in the error.
\<close>

locale text_enum =
  fixes as_str :: "'a \<Rightarrow> string"
    and try_from :: "string \<Rightarrow> UnknownEnumValue + 'a"
  assumes try_from_as_str: "try_from (as_str x) = Inr x"
    and try_from_Inr: "try_from s = Inr x \<Longrightarrow> s = as_str x"
    and try_from_Inl: "try_from s = Inl e \<Longrightarrow> ue_value e = s"
begin

lemma as_str_inj: "as_str x = as_str y \<longleftrightarrow> x = y"
  by (metis try_from_as_str sum.inject(2))

lemma reads_iff: "(\<exists>x. try_from s = Inr x) \<longleftrightarrow> s \<in> range as_str"
  using try_from_as_str try_from_Inr by blast

lemma unknown_iff: "(\<exists>e. try_from s = Inl e) \<longleftrightarrow> s \<notin> range as_str"
  by (metis reads_iff sum.exhaust sum.distinct(1))

end

datatype SyncRunTrigger = TrScheduled | TrManual | TrCli | TrMigration

fun SyncRunTrigger_as_str :: "SyncRunTrigger \<Rightarrow> string" where
  "SyncRunTrigger_as_str TrScheduled = ''scheduled''"
| "SyncRunTrigger_as_str TrManual = ''manual''"
| "SyncRunTrigger_as_str TrCli = ''cli''"
| "SyncRunTrigger_as_str TrMigration = ''migration''"

definition SyncRunTrigger_try_from :: "string \<Rightarrow> UnknownEnumValue + SyncRunTrigger" where
  "SyncRunTrigger_try_from s =
     (if s = ''scheduled'' then Inr TrScheduled
      else if s = ''manual'' then Inr TrManual
      else if s = ''cli'' then Inr TrCli
      else if s = ''migration'' then Inr TrMigration
      else Inl \<lparr>ue_enum_name = ''SyncRunTrigger'', ue_value = s\<rparr>)"

datatype SyncRunStatus = RunRunning | RunSucceeded | RunPartialFailed | RunFailed | RunCancelled

fun SyncRunStatus_as_str :: "SyncRunStatus \<Rightarrow> string" where
  "SyncRunStatus_as_str RunRunning = ''running''"
| "SyncRunStatus_as_str RunSucceeded = ''succeeded''"
| "SyncRunStatus_as_str RunPartialFailed = ''partial_failed''"
| "SyncRunStatus_as_str RunFailed = ''failed''"
| "SyncRunStatus_as_str RunCancelled = ''cancelled''"

definition SyncRunStatus_try_from :: "string \<Rightarrow> UnknownEnumValue + SyncRunStatus" where
  "SyncRunStatus_try_from s =
     (if s = ''running'' then Inr RunRunning
      else if s = ''succeeded'' then Inr RunSucceeded
      else if s = ''partial_failed'' then Inr RunPartialFailed
      else if s = ''failed'' then Inr RunFailed
      else if s = ''cancelled'' then Inr RunCancelled
      else Inl \<lparr>ue_enum_name = ''SyncRunStatus'', ue_value = s\<rparr>)"

datatype FileStateStatus = FsSynced | FsFailed | FsSkipped | FsDeleted | FsSyncedChangedDuringUpload

fun FileStateStatus_as_str :: "FileStateStatus \<Rightarrow> string" where
  "FileStateStatus_as_str FsSynced = ''synced''"
| "FileStateStatus_as_str FsFailed = ''failed''"
| "FileStateStatus_as_str FsSkipped = ''skipped''"
| "FileStateStatus_as_str FsDeleted = ''deleted''"
| "FileStateStatus_as_str FsSyncedChangedDuringUpload = ''synced_changed_during_upload''"

definition FileStateStatus_try_from :: "string \<Rightarrow> UnknownEnumValue + FileStateStatus" where
  "FileStateStatus_try_from s =
     (if s = ''synced'' then Inr FsSynced
      else if s = ''failed'' then Inr FsFailed
      else if s = ''skipped'' then Inr FsSkipped
      else if s = ''deleted'' then Inr FsDeleted
      else if s = ''synced_changed_during_upload'' then Inr FsSyncedChangedDuringUpload
      else Inl \<lparr>ue_enum_name = ''FileStateStatus'', ue_value = s\<rparr>)"

datatype DirectoryStateStatus = DsSynced | DsFailed | DsSkipped | DsDeleted

fun DirectoryStateStatus_as_str :: "DirectoryStateStatus \<Rightarrow> string" where
  "DirectoryStateStatus_as_str DsSynced = ''synced''"
| "DirectoryStateStatus_as_str DsFailed = ''failed''"
| "DirectoryStateStatus_as_str DsSkipped = ''skipped''"
| "DirectoryStateStatus_as_str DsDeleted = ''deleted''"

definition DirectoryStateStatus_try_from :: "string \<Rightarrow> UnknownEnumValue + DirectoryStateStatus" where
  "DirectoryStateStatus_try_from s =
     (if s = ''synced'' then Inr DsSynced
      else if s = ''failed'' then Inr DsFailed
      else if s = ''skipped'' then Inr DsSkipped
      else if s = ''deleted'' then Inr DsDeleted
      else Inl \<lparr>ue_enum_name = ''DirectoryStateStatus'', ue_value = s\<rparr>)"

datatype RemoteResourceType = RrFile | RrDir

fun RemoteResourceType_as_str :: "RemoteResourceType \<Rightarrow> string" where
  "RemoteResourceType_as_str RrFile = ''file''"
| "RemoteResourceType_as_str RrDir = ''dir''"

definition RemoteResourceType_try_from :: "string \<Rightarrow> UnknownEnumValue + RemoteResourceType" where
  "RemoteResourceType_try_from s =
     (if s = ''file'' then Inr RrFile
      else if s = ''dir'' then Inr RrDir
      else Inl \<lparr>ue_enum_name = ''RemoteResourceType'', ue_value = s\<rparr>)"

datatype OperationStatus = OpRunning | OpSucceeded | OpFailed | OpCancelled

fun OperationStatus_as_str :: "OperationStatus \<Rightarrow> string" where
  "OperationStatus_as_str OpRunning = ''running''"
| "OperationStatus_as_str OpSucceeded = ''succeeded''"
| "OperationStatus_as_str OpFailed = ''failed''"
| "OperationStatus_as_str OpCancelled = ''cancelled''"

definition OperationStatus_try_from :: "string \<Rightarrow> UnknownEnumValue + OperationStatus" where
  "OperationStatus_try_from s =
     (if s = ''running'' then Inr OpRunning
      else if s = ''succeeded'' then Inr OpSucceeded
      else if s = ''failed'' then Inr OpFailed
      else if s = ''cancelled'' then Inr OpCancelled
      else Inl \<lparr>ue_enum_name = ''OperationStatus'', ue_value = s\<rparr>)"

datatype MigrationMapStatus = MmMoved | MmMerged | MmAdopted | MmUploaded | MmDeleted | MmSkipped | MmFailed

fun MigrationMapStatus_as_str :: "MigrationMapStatus \<Rightarrow> string" where
  "MigrationMapStatus_as_str MmMoved = ''moved''"
| "MigrationMapStatus_as_str MmMerged = ''merged''"
| "MigrationMapStatus_as_str MmAdopted = ''adopted''"
| "MigrationMapStatus_as_str MmUploaded = ''uploaded''"
| "MigrationMapStatus_as_str MmDeleted = ''deleted''"
| "MigrationMapStatus_as_str MmSkipped = ''skipped''"
| "MigrationMapStatus_as_str MmFailed = ''failed''"

definition MigrationMapStatus_try_from :: "string \<Rightarrow> UnknownEnumValue + MigrationMapStatus" where
  "MigrationMapStatus_try_from s =
     (if s = ''moved'' then Inr MmMoved
      else if s = ''merged'' then Inr MmMerged
      else if s = ''adopted'' then Inr MmAdopted
      else if s = ''uploaded'' then Inr MmUploaded
      else if s = ''deleted'' then Inr MmDeleted
      else if s = ''skipped'' then Inr MmSkipped
      else if s = ''failed'' then Inr MmFailed
      else Inl \<lparr>ue_enum_name = ''MigrationMapStatus'', ue_value = s\<rparr>)"

interpretation trigger: text_enum SyncRunTrigger_as_str SyncRunTrigger_try_from
proof unfold_locales
  fix x s e
  show "SyncRunTrigger_try_from (SyncRunTrigger_as_str x) = Inr x"
    by (cases x) (simp_all add: SyncRunTrigger_try_from_def)
  show "SyncRunTrigger_try_from s = Inr x \<Longrightarrow> s = SyncRunTrigger_as_str x"
    by (auto simp: SyncRunTrigger_try_from_def split: if_splits)
  show "SyncRunTrigger_try_from s = Inl e \<Longrightarrow> ue_value e = s"
    by (auto simp: SyncRunTrigger_try_from_def split: if_splits)
qed

interpretation run_status: text_enum SyncRunStatus_as_str SyncRunStatus_try_from
proof unfold_locales
  fix x s e
  show "SyncRunStatus_try_from (SyncRunStatus_as_str x) = Inr x"
    by (cases x) (simp_all add: SyncRunStatus_try_from_def)
  show "SyncRunStatus_try_from s = Inr x \<Longrightarrow> s = SyncRunStatus_as_str x"
    by (auto simp: SyncRunStatus_try_from_def split: if_splits)
  show "SyncRunStatus_try_from s = Inl e \<Longrightarrow> ue_value e = s"
    by (auto simp: SyncRunStatus_try_from_def split: if_splits)
qed

interpretation file_status: text_enum FileStateStatus_as_str FileStateStatus_try_from
proof unfold_locales
  fix x s e
  show "FileStateStatus_try_from (FileStateStatus_as_str x) = Inr x"
    by (cases x) (simp_all add: FileStateStatus_try_from_def)
  show "FileStateStatus_try_from s = Inr x \<Longrightarrow> s = FileStateStatus_as_str x"
    by (auto simp: FileStateStatus_try_from_def split: if_splits)
  show "FileStateStatus_try_from s = Inl e \<Longrightarrow> ue_value e = s"
    by (auto simp: FileStateStatus_try_from_def split: if_splits)
qed

interpretation dir_status: text_enum DirectoryStateStatus_as_str DirectoryStateStatus_try_from
proof unfold_locales
  fix x s e
  show "DirectoryStateStatus_try_from (DirectoryStateStatus_as_str x) = Inr x"
    by (cases x) (simp_all add: DirectoryStateStatus_try_from_def)
  show "DirectoryStateStatus_try_from s = Inr x \<Longrightarrow> s = DirectoryStateStatus_as_str x"
    by (auto simp: DirectoryStateStatus_try_from_def split: if_splits)
  show "DirectoryStateStatus_try_from s = Inl e \<Longrightarrow> ue_value e = s"
    by (auto simp: DirectoryStateStatus_try_from_def split: if_splits)
qed

interpretation resource_kind: text_enum RemoteResourceType_as_str RemoteResourceType_try_from
proof unfold_locales
  fix x s e
  show "RemoteResourceType_try_from (RemoteResourceType_as_str x) = Inr x"
    by (cases x) (simp_all add: RemoteResourceType_try_from_def)
  show "RemoteResourceType_try_from s = Inr x \<Longrightarrow> s = RemoteResourceType_as_str x"
    by (auto simp: RemoteResourceType_try_from_def split: if_splits)
  show "RemoteResourceType_try_from s = Inl e \<Longrightarrow> ue_value e = s"
    by (auto simp: RemoteResourceType_try_from_def split: if_splits)
qed

interpretation op_status: text_enum OperationStatus_as_str OperationStatus_try_from
proof unfold_locales
  fix x s e
  show "OperationStatus_try_from (OperationStatus_as_str x) = Inr x"
    by (cases x) (simp_all add: OperationStatus_try_from_def)
  show "OperationStatus_try_from s = Inr x \<Longrightarrow> s = OperationStatus_as_str x"
    by (auto simp: OperationStatus_try_from_def split: if_splits)
  show "OperationStatus_try_from s = Inl e \<Longrightarrow> ue_value e = s"
    by (auto simp: OperationStatus_try_from_def split: if_splits)
qed

interpretation map_status: text_enum MigrationMapStatus_as_str MigrationMapStatus_try_from
proof unfold_locales
  fix x s e
  show "MigrationMapStatus_try_from (MigrationMapStatus_as_str x) = Inr x"
    by (cases x) (simp_all add: MigrationMapStatus_try_from_def)
  show "MigrationMapStatus_try_from s = Inr x \<Longrightarrow> s = MigrationMapStatus_as_str x"
    by (auto simp: MigrationMapStatus_try_from_def split: if_splits)
  show "MigrationMapStatus_try_from s = Inl e \<Longrightarrow> ue_value e = s"
    by (auto simp: MigrationMapStatus_try_from_def split: if_splits)
qed

section \<open>Records\<close>

text \<open>
  Row identifiers are assigned by \<open>AUTOINCREMENT\<close>, which refuses to wrap around; they are integers.
\<close>

type_synonym rowid = int

record SyncRunSummary =
  su_scanned_files :: i64
  su_uploaded_files :: i64
  su_updated_files :: i64
  su_deleted_files :: i64
  su_skipped_files :: i64
  su_failed_files :: i64
  su_bytes_uploaded :: i64
  su_error_summary :: "string option"

definition summary_default :: SyncRunSummary where
  "summary_default =
     \<lparr>su_scanned_files = 0, su_uploaded_files = 0, su_updated_files = 0, su_deleted_files = 0,
      su_skipped_files = 0, su_failed_files = 0, su_bytes_uploaded = 0, su_error_summary = None\<rparr>"

record SyncRunRecord =
  rr_id :: rowid
  rr_started_at_utc :: string
  rr_finished_at_utc :: "string option"
  rr_trigger :: SyncRunTrigger
  rr_status :: SyncRunStatus
  rr_summary :: SyncRunSummary

record SyncRootRecord =
  sr_id :: string
  sr_local_path :: string
  sr_remote_root :: string
  sr_canonical_remote_path :: string
  sr_enabled :: bool
  sr_last_seen_at_utc :: "string option"
  sr_last_status :: "string option"
  sr_last_error :: "string option"

record RootRemoteInventoryStatus =
  ri_root_id :: string
  ri_is_complete :: bool
  ri_snapshot_completed_at_utc :: "string option"
  ri_snapshot_expires_at_utc :: "string option"
  ri_resource_count :: i64
  ri_last_error :: "string option"

record FileStateRecord =
  fr_root_id :: string
  fr_local_path :: string
  fr_relative_path :: string
  fr_remote_path :: string
  fr_normalized_remote_path :: string
  fr_size_bytes :: i64
  fr_mtime_ns :: "i64 option"
  fr_ctime_ns :: "i64 option"
  fr_fingerprint_kind :: string
  fr_fingerprint_value :: "string option"
  fr_full_sha256 :: "string option"
  fr_remote_etag :: "string option"
  fr_remote_md5 :: "string option"
  fr_last_run_id :: "rowid option"
  fr_status :: FileStateStatus
  fr_last_error :: "string option"

record DirectoryStateRecord =
  dr_root_id :: string
  dr_local_path :: string
  dr_relative_path :: string
  dr_remote_path :: string
  dr_normalized_remote_path :: string
  dr_last_run_id :: "rowid option"
  dr_status :: DirectoryStateStatus
  dr_last_error :: "string option"

record RemoteResourceRecord =
  rm_root_id :: string
  rm_remote_path :: string
  rm_resource_type :: RemoteResourceType
  rm_size_bytes :: "i64 option"
  rm_mtime_remote :: "string option"
  rm_remote_md5 :: "string option"

record SkippedItemRecord =
  sk_root_id :: string
  sk_local_path :: string
  sk_relative_path :: "string option"
  sk_remote_path :: "string option"
  sk_reason_code :: string
  sk_reason_details :: "string option"
  sk_size_bytes :: "i64 option"

record RecentSkippedItemRecord =
  rsk_item :: SkippedItemRecord
  rsk_last_seen_at_utc :: string

record FailedItemRecord =
  fa_root_id :: string
  fa_local_path :: "string option"
  fa_remote_path :: "string option"
  fa_operation :: string
  fa_error_kind :: string
  fa_error_message :: string
  fa_retry_count :: i64
  fa_next_retry_at_utc :: "string option"

record RecentFailedItemRecord =
  rfa_item :: FailedItemRecord
  rfa_last_failed_at_utc :: string

record OperationRecord =
  or_run_id :: rowid
  or_operation :: string
  or_local_path :: "string option"
  or_remote_path :: "string option"

record OperationJournalRecord =
  oj_id :: rowid
  oj_run_id :: rowid
  oj_operation :: string
  oj_local_path :: "string option"
  oj_remote_path :: "string option"
  oj_status :: OperationStatus
  oj_started_at_utc :: string
  oj_finished_at_utc :: "string option"
  oj_error_kind :: "string option"
  oj_error_message :: "string option"

record MigrationMapRecord =
  mm_root_id :: string
  mm_legacy_remote_path :: string
  mm_canonical_remote_path :: string
  mm_status :: MigrationMapStatus
  mm_last_error :: "string option"

record DeletedSubtreeRecord =
  dt_root_id :: string
  dt_relative_prefix :: string
  dt_remote_prefix :: string
  dt_last_run_id :: "rowid option"

record RunLockGuard =
  lg_name :: string
  lg_owner :: string
  lg_acquired_at_utc :: string

end
