(* ===== verification/State_Repo.thy ===== *)
theory State_Repo
  imports State_Models
begin

text \<open>
  \<open>crates/yds-state/src/lib.rs\<close>: the state repository over its SQLite database. A table is the
  list of its rows in insertion order, with the columns of the schema; an enumeration stored as
  text is kept as its value, since \<open>text_enum\<close> shows that the text reads back unchanged. Each
  operation is a computation over the database; a failed statement leaves it as it was. The
  text of the current time is an argument. Failures of the SQLite engine itself (I/O, a busy
  database) are not modelled: the errors here are those the repository's own statements raise.
\<close>

datatype StateError =
    SqliteConstraint string
  | NotFound string rowid
  | NotFoundText string string

record file_row =
  fw_record :: FileStateRecord
  fw_last_synced_at_utc :: string

record directory_row =
  dw_record :: DirectoryStateRecord
  dw_last_seen_at_utc :: string

record remote_row =
  rw_record :: RemoteResourceRecord
  rw_last_seen_at_utc :: string

record failed_row =
  flw_root_id :: string
  flw_local_path :: string
  flw_remote_path :: string
  flw_operation :: string
  flw_error_kind :: string
  flw_error_message :: string
  flw_retry_count :: i64
  flw_last_failed_at_utc :: string
  flw_next_retry_at_utc :: "string option"

record map_row =
  mw_record :: MigrationMapRecord
  mw_updated_at_utc :: string

record lock_row =
  lw_name :: string
  lw_owner :: string
  lw_acquired_at_utc :: string
  lw_heartbeat_at_utc :: string
  lw_heartbeat_unix_seconds :: int

record subtree_row =
  tw_record :: DeletedSubtreeRecord
  tw_deleted_at_utc :: string

record db =
  db_sync_runs :: "SyncRunRecord list"
  db_runs_seq :: rowid
  db_sync_roots :: "SyncRootRecord list"
  db_file_state :: "file_row list"
  db_directory_state :: "directory_row list"
  db_remote_resource_state :: "remote_row list"
  db_skipped_items :: "RecentSkippedItemRecord list"
  db_failed_items :: "failed_row list"
  db_operation_journal :: "OperationJournalRecord list"
  db_journal_seq :: rowid
  db_migration_map_state :: "map_row list"
  db_state_locks :: "lock_row list"
  db_root_remote_inventory_status :: "RootRemoteInventoryStatus list"
  db_deleted_subtrees :: "subtree_row list"

definition RUN_LOCK_NAME :: string where
  "RUN_LOCK_NAME = ''sync_run''"

type_synonym 'a repo = "(db, StateError, 'a) m"

definition repo_read :: "(db \<Rightarrow> 'a) \<Rightarrow> 'a repo" where
  "repo_read f = (\<lambda>d. (Inr (f d), d))"

definition repo_modify :: "(db \<Rightarrow> db) \<Rightarrow> unit repo" where
  "repo_modify f = (\<lambda>d. (Inr (), f d))"

definition ensure_updated :: "nat \<Rightarrow> string \<Rightarrow> rowid \<Rightarrow> StateError + unit" where
  "ensure_updated updated entity i = (if updated = 1 then Inr () else Inl (NotFound entity i))"

section \<open>Runs\<close>

definition begin_run :: "string \<Rightarrow> SyncRunTrigger \<Rightarrow> rowid repo" where
  "begin_run started_at_utc trigger = (\<lambda>d.
     let i = db_runs_seq d + 1
     in (Inr i,
         d\<lparr>db_sync_runs := db_sync_runs d @
             [\<lparr>rr_id = i, rr_started_at_utc = started_at_utc, rr_finished_at_utc = None,
               rr_trigger = trigger, rr_status = RunRunning, rr_summary = summary_default\<rparr>],
           db_runs_seq := i\<rparr>))"

definition coalesce :: "string option \<Rightarrow> string \<Rightarrow> string option" where
  "coalesce v d = (case v of None \<Rightarrow> Some d | Some x \<Rightarrow> Some x)"

definition repair_operation :: "string \<Rightarrow> OperationJournalRecord \<Rightarrow> OperationJournalRecord" where
  "repair_operation now r =
     r\<lparr>oj_status := OpCancelled, oj_finished_at_utc := Some now,
       oj_error_kind := coalesce (oj_error_kind r) ''cancelled'',
       oj_error_message := coalesce (oj_error_message r) ''run interrupted before completion''\<rparr>"

definition repair_run :: "string \<Rightarrow> SyncRunRecord \<Rightarrow> SyncRunRecord" where
  "repair_run now r =
     r\<lparr>rr_status := RunCancelled, rr_finished_at_utc := Some now,
       rr_summary := (rr_summary r)\<lparr>su_error_summary :=
         coalesce (su_error_summary (rr_summary r)) ''run interrupted before completion''\<rparr>\<rparr>"

definition repair_interrupted_runs :: "string \<Rightarrow> unit repo" where
  "repair_interrupted_runs now = repo_modify (\<lambda>d.
     d\<lparr>db_operation_journal :=
         snd (tbl_update (\<lambda>r. oj_status r = OpRunning) (repair_operation now) (db_operation_journal d)),
       db_sync_runs :=
         snd (tbl_update (\<lambda>r. rr_status r = RunRunning \<and> rr_finished_at_utc r = None)
                (repair_run now) (db_sync_runs d))\<rparr>)"

definition finish_run :: "string \<Rightarrow> rowid \<Rightarrow> SyncRunStatus \<Rightarrow> SyncRunSummary \<Rightarrow> unit repo" where
  "finish_run now run_id status summary = (\<lambda>d.
     let (n, rows) = tbl_update (\<lambda>r. rr_id r = run_id)
           (\<lambda>r. r\<lparr>rr_finished_at_utc := Some now, rr_status := status, rr_summary := summary\<rparr>)
           (db_sync_runs d)
     in (ensure_updated n ''sync_run'' run_id, d\<lparr>db_sync_runs := rows\<rparr>))"

definition update_run_progress :: "rowid \<Rightarrow> SyncRunSummary \<Rightarrow> unit repo" where
  "update_run_progress run_id summary = (\<lambda>d.
     let (n, rows) = tbl_update (\<lambda>r. rr_id r = run_id) (\<lambda>r. r\<lparr>rr_summary := summary\<rparr>) (db_sync_runs d)
     in (ensure_updated n ''sync_run'' run_id, d\<lparr>db_sync_runs := rows\<rparr>))"

text \<open>\<open>ORDER BY id DESC\<close>, and the first row of that order.\<close>

definition runs_desc :: "SyncRunRecord list \<Rightarrow> SyncRunRecord list" where
  "runs_desc rows = sort_key (\<lambda>r. - rr_id r) rows"

definition first_row :: "'a list \<Rightarrow> 'a option" where
  "first_row rows = (case rows of [] \<Rightarrow> None | r # _ \<Rightarrow> Some r)"

definition get_latest_run :: "SyncRunRecord option repo" where
  "get_latest_run = repo_read (\<lambda>d. first_row (runs_desc (db_sync_runs d)))"

definition get_latest_successful_run :: "SyncRunRecord option repo" where
  "get_latest_successful_run = repo_read (\<lambda>d.
     first_row (runs_desc (filter (\<lambda>r. SyncRunStatus_as_str (rr_status r) = ''succeeded'') (db_sync_runs d))))"

definition list_recent_runs :: "nat \<Rightarrow> SyncRunRecord list repo" where
  "list_recent_runs limit = repo_read (\<lambda>d. if limit = 0 then [] else take limit (runs_desc (db_sync_runs d)))"

section \<open>Roots\<close>

definition merge_sync_root :: "SyncRootRecord \<Rightarrow> SyncRootRecord \<Rightarrow> SyncRootRecord" where
  "merge_sync_root new old =
     old\<lparr>sr_local_path := sr_local_path new, sr_remote_root := sr_remote_root new,
         sr_canonical_remote_path := sr_canonical_remote_path new, sr_enabled := sr_enabled new,
         sr_last_seen_at_utc := sr_last_seen_at_utc new\<rparr>"

definition upsert_sync_root :: "string \<Rightarrow> string \<Rightarrow> string \<Rightarrow> string \<Rightarrow> string \<Rightarrow> bool \<Rightarrow> unit repo" where
  "upsert_sync_root now i local_path remote_root canonical_remote_path enabled = repo_modify (\<lambda>d.
     d\<lparr>db_sync_roots := tbl_upsert sr_id merge_sync_root
         \<lparr>sr_id = i, sr_local_path = local_path, sr_remote_root = remote_root,
          sr_canonical_remote_path = canonical_remote_path, sr_enabled = enabled,
          sr_last_seen_at_utc = Some now, sr_last_status = None, sr_last_error = None\<rparr>
         (db_sync_roots d)\<rparr>)"

definition update_sync_root_status :: "string \<Rightarrow> string \<Rightarrow> string option \<Rightarrow> unit repo" where
  "update_sync_root_status i last_status last_error = (\<lambda>d.
     let (n, rows) = tbl_update (\<lambda>r. sr_id r = i)
           (\<lambda>r. r\<lparr>sr_last_status := Some last_status, sr_last_error := last_error\<rparr>) (db_sync_roots d)
     in (if n = 1 then Inr () else Inl (NotFoundText ''sync_root'' i), d\<lparr>db_sync_roots := rows\<rparr>))"

definition get_sync_root_status :: "string \<Rightarrow> (string option \<times> string option) option repo" where
  "get_sync_root_status i = repo_read (\<lambda>d.
     map_option (\<lambda>r. (sr_last_status r, sr_last_error r)) (tbl_find sr_id i (db_sync_roots d)))"

definition list_sync_roots :: "SyncRootRecord list repo" where
  "list_sync_roots = repo_read (\<lambda>d. sort_key sr_id (db_sync_roots d))"

definition get_root_remote_inventory_status :: "string \<Rightarrow> RootRemoteInventoryStatus option repo" where
  "get_root_remote_inventory_status root_id = repo_read (\<lambda>d.
     tbl_find ri_root_id root_id (db_root_remote_inventory_status d))"

definition set_root_remote_inventory_status :: "RootRemoteInventoryStatus \<Rightarrow> unit repo" where
  "set_root_remote_inventory_status status = repo_modify (\<lambda>d.
     d\<lparr>db_root_remote_inventory_status :=
         tbl_upsert ri_root_id (\<lambda>new old. new) status (db_root_remote_inventory_status d)\<rparr>)"

section \<open>Files and directories\<close>

definition file_key :: "file_row \<Rightarrow> string \<times> string" where
  "file_key r = (fr_root_id (fw_record r), fr_relative_path (fw_record r))"

definition upsert_file_row :: "string \<Rightarrow> FileStateRecord \<Rightarrow> file_row list \<Rightarrow> file_row list" where
  "upsert_file_row now r =
     tbl_upsert file_key (\<lambda>new old. new) \<lparr>fw_record = r, fw_last_synced_at_utc = now\<rparr>"

definition upsert_file_state :: "string \<Rightarrow> FileStateRecord \<Rightarrow> unit repo" where
  "upsert_file_state now r = repo_modify (\<lambda>d. d\<lparr>db_file_state := upsert_file_row now r (db_file_state d)\<rparr>)"

definition upsert_file_states :: "string \<Rightarrow> FileStateRecord list \<Rightarrow> unit repo" where
  "upsert_file_states now records = repo_modify (\<lambda>d.
     if records = [] then d
     else d\<lparr>db_file_state := fold (upsert_file_row now) records (db_file_state d)\<rparr>)"

definition get_file_state :: "string \<Rightarrow> string \<Rightarrow> FileStateRecord option repo" where
  "get_file_state root_id relative_path = repo_read (\<lambda>d.
     map_option fw_record (tbl_find file_key (root_id, relative_path) (db_file_state d)))"

definition list_file_states_for_root :: "string \<Rightarrow> FileStateRecord list repo" where
  "list_file_states_for_root root_id = repo_read (\<lambda>d.
     sort_key fr_relative_path
       (filter (\<lambda>r. fr_root_id r = root_id) (map fw_record (db_file_state d))))"

definition has_snapshot_for_root :: "string \<Rightarrow> bool repo" where
  "has_snapshot_for_root root_id = repo_read (\<lambda>d.
     0 < length (filter (\<lambda>r. fr_root_id (fw_record r) = root_id \<and>
                   FileStateStatus_as_str (fr_status (fw_record r)) \<noteq> ''deleted'') (db_file_state d)) +
         length (filter (\<lambda>r. dr_root_id (dw_record r) = root_id \<and>
                   DirectoryStateStatus_as_str (dr_status (dw_record r)) \<noteq> ''deleted'')
                 (db_directory_state d)))"

definition directory_key :: "directory_row \<Rightarrow> string \<times> string" where
  "directory_key r = (dr_root_id (dw_record r), dr_relative_path (dw_record r))"

definition upsert_directory_state :: "string \<Rightarrow> DirectoryStateRecord \<Rightarrow> unit repo" where
  "upsert_directory_state now r = repo_modify (\<lambda>d.
     d\<lparr>db_directory_state := tbl_upsert directory_key (\<lambda>new old. new)
         \<lparr>dw_record = r, dw_last_seen_at_utc = now\<rparr> (db_directory_state d)\<rparr>)"

definition merge_deleted_file :: "file_row \<Rightarrow> file_row \<Rightarrow> file_row" where
  "merge_deleted_file new old =
     \<lparr>fw_record = (fw_record old)\<lparr>fr_last_run_id := fr_last_run_id (fw_record new),
                    fr_status := fr_status (fw_record new), fr_last_error := None\<rparr>,
      fw_last_synced_at_utc = fw_last_synced_at_utc new\<rparr>"

definition mark_deleted :: "string \<Rightarrow> string \<Rightarrow> string \<Rightarrow> string \<Rightarrow> rowid option \<Rightarrow> unit repo" where
  "mark_deleted now root_id relative_path remote_path last_run_id = repo_modify (\<lambda>d.
     d\<lparr>db_file_state := tbl_upsert file_key merge_deleted_file
         \<lparr>fw_record =
            \<lparr>fr_root_id = root_id, fr_local_path = relative_path, fr_relative_path = relative_path,
             fr_remote_path = remote_path, fr_normalized_remote_path = remote_path,
             fr_size_bytes = 0, fr_mtime_ns = None, fr_ctime_ns = None,
             fr_fingerprint_kind = ''deleted'', fr_fingerprint_value = None, fr_full_sha256 = None,
             fr_remote_etag = None, fr_remote_md5 = None, fr_last_run_id = last_run_id,
             fr_status = FsDeleted, fr_last_error = None\<rparr>,
          fw_last_synced_at_utc = now\<rparr>
         (db_file_state d)\<rparr>)"

definition merge_deleted_directory :: "directory_row \<Rightarrow> directory_row \<Rightarrow> directory_row" where
  "merge_deleted_directory new old =
     \<lparr>dw_record = (dw_record old)\<lparr>dr_last_run_id := dr_last_run_id (dw_record new),
                    dr_status := dr_status (dw_record new), dr_last_error := None\<rparr>,
      dw_last_seen_at_utc = dw_last_seen_at_utc new\<rparr>"

definition mark_directory_deleted :: "string \<Rightarrow> string \<Rightarrow> string \<Rightarrow> string \<Rightarrow> rowid option \<Rightarrow> unit repo" where
  "mark_directory_deleted now root_id relative_path remote_path last_run_id = repo_modify (\<lambda>d.
     d\<lparr>db_directory_state := tbl_upsert directory_key merge_deleted_directory
         \<lparr>dw_record =
            \<lparr>dr_root_id = root_id, dr_local_path = relative_path, dr_relative_path = relative_path,
             dr_remote_path = remote_path, dr_normalized_remote_path = remote_path,
             dr_last_run_id = last_run_id, dr_status = DsDeleted, dr_last_error = None\<rparr>,
          dw_last_seen_at_utc = now\<rparr>
         (db_directory_state d)\<rparr>)"

end
