(* ===== verification/State_Items.thy ===== *)
theory State_Items
  imports State_Repo
begin

text \<open>
  \<open>crates/yds-state/src/lib.rs\<close>, continued: the skipped and failed items, the cached remote
  resources, the migration map, the operation journal and the deleted subtrees.
\<close>

section \<open>Skipped and failed items\<close>

definition skipped_key :: "RecentSkippedItemRecord \<Rightarrow> string \<times> string" where
  "skipped_key r = (sk_root_id (rsk_item r), sk_local_path (rsk_item r))"

definition mark_skipped :: "string \<Rightarrow> SkippedItemRecord \<Rightarrow> unit repo" where
  "mark_skipped now r = repo_modify (\<lambda>d.
     d\<lparr>db_skipped_items := tbl_upsert skipped_key (\<lambda>new old. new)
         \<lparr>rsk_item = r, rsk_last_seen_at_utc = now\<rparr> (db_skipped_items d)\<rparr>)"

definition list_recent_skipped_items :: "nat \<Rightarrow> RecentSkippedItemRecord list repo" where
  "list_recent_skipped_items limit = repo_read (\<lambda>d.
     if limit = 0 then []
     else take limit
       (sort_desc rsk_last_seen_at_utc
         (sort_key (sk_root_id \<circ> rsk_item) (sort_key (sk_local_path \<circ> rsk_item) (db_skipped_items d)))))"

definition unwrap_or :: "'a \<Rightarrow> 'a option \<Rightarrow> 'a" where
  "unwrap_or d v = (case v of None \<Rightarrow> d | Some x \<Rightarrow> x)"

definition then_some :: "bool \<Rightarrow> 'a \<Rightarrow> 'a option" where
  "then_some b x = (if b then Some x else None)"

definition failed_key :: "failed_row \<Rightarrow> string \<times> string \<times> string \<times> string" where
  "failed_key r = (flw_root_id r, flw_operation r, flw_local_path r, flw_remote_path r)"

definition failed_row_of :: "string \<Rightarrow> FailedItemRecord \<Rightarrow> failed_row" where
  "failed_row_of now r =
     \<lparr>flw_root_id = fa_root_id r, flw_local_path = unwrap_or '''' (fa_local_path r),
      flw_remote_path = unwrap_or '''' (fa_remote_path r), flw_operation = fa_operation r,
      flw_error_kind = fa_error_kind r, flw_error_message = fa_error_message r,
      flw_retry_count = fa_retry_count r, flw_last_failed_at_utc = now,
      flw_next_retry_at_utc = fa_next_retry_at_utc r\<rparr>"

definition mark_failed :: "string \<Rightarrow> FailedItemRecord \<Rightarrow> unit repo" where
  "mark_failed now r = repo_modify (\<lambda>d.
     d\<lparr>db_failed_items := tbl_upsert failed_key (\<lambda>new old. new) (failed_row_of now r) (db_failed_items d)\<rparr>)"

definition read_recent_failed_item_record :: "failed_row \<Rightarrow> RecentFailedItemRecord" where
  "read_recent_failed_item_record r =
     \<lparr>rfa_item =
        \<lparr>fa_root_id = flw_root_id r,
         fa_local_path = then_some (flw_local_path r \<noteq> '''') (flw_local_path r),
         fa_remote_path = then_some (flw_remote_path r \<noteq> '''') (flw_remote_path r),
         fa_operation = flw_operation r, fa_error_kind = flw_error_kind r,
         fa_error_message = flw_error_message r, fa_retry_count = flw_retry_count r,
         fa_next_retry_at_utc = flw_next_retry_at_utc r\<rparr>,
      rfa_last_failed_at_utc = flw_last_failed_at_utc r\<rparr>"

definition list_recent_failed_items :: "nat \<Rightarrow> RecentFailedItemRecord list repo" where
  "list_recent_failed_items limit = repo_read (\<lambda>d.
     if limit = 0 then []
     else map read_recent_failed_item_record (take limit
       (sort_desc flw_last_failed_at_utc
         (sort_key flw_root_id (sort_key flw_operation
           (sort_key flw_local_path (sort_key flw_remote_path (db_failed_items d))))))))"

section \<open>Cached remote resources\<close>

definition remote_key :: "remote_row \<Rightarrow> string \<times> string" where
  "remote_key r = (rm_root_id (rw_record r), rm_remote_path (rw_record r))"

definition remote_row_of :: "string \<Rightarrow> RemoteResourceRecord \<Rightarrow> remote_row" where
  "remote_row_of now r = \<lparr>rw_record = r, rw_last_seen_at_utc = now\<rparr>"

definition upsert_remote_row :: "string \<Rightarrow> RemoteResourceRecord \<Rightarrow> remote_row list \<Rightarrow> remote_row list" where
  "upsert_remote_row now r = tbl_upsert remote_key (\<lambda>new old. new) (remote_row_of now r)"

definition upsert_remote_resource :: "string \<Rightarrow> RemoteResourceRecord \<Rightarrow> unit repo" where
  "upsert_remote_resource now r = repo_modify (\<lambda>d.
     d\<lparr>db_remote_resource_state := upsert_remote_row now r (db_remote_resource_state d)\<rparr>)"

definition upsert_remote_resources :: "string \<Rightarrow> RemoteResourceRecord list \<Rightarrow> unit repo" where
  "upsert_remote_resources now records = repo_modify (\<lambda>d.
     if records = [] then d
     else d\<lparr>db_remote_resource_state := fold (upsert_remote_row now) records (db_remote_resource_state d)\<rparr>)"

text \<open>A plain \<open>INSERT\<close> fails on a row with the same primary key.\<close>

fun insert_remote_rows :: "string \<Rightarrow> RemoteResourceRecord list \<Rightarrow> remote_row list \<Rightarrow> remote_row list option" where
  "insert_remote_rows now [] rows = Some rows"
| "insert_remote_rows now (r # rs) rows =
     (if \<exists>row\<in>set rows. remote_key row = remote_key (remote_row_of now r) then None
      else insert_remote_rows now rs (rows @ [remote_row_of now r]))"

definition replace_remote_resources_for_root :: "string \<Rightarrow> string \<Rightarrow> RemoteResourceRecord list \<Rightarrow> unit repo" where
  "replace_remote_resources_for_root now root_id records = (\<lambda>d.
     let kept = snd (tbl_delete (\<lambda>row. rm_root_id (rw_record row) = root_id) (db_remote_resource_state d))
     in case insert_remote_rows now records kept of
          None \<Rightarrow> (Inl (SqliteConstraint ''remote_resource_state''), d)
        | Some rows \<Rightarrow> (Inr (), d\<lparr>db_remote_resource_state := rows\<rparr>))"

definition list_remote_resources_for_root :: "string \<Rightarrow> RemoteResourceRecord list repo" where
  "list_remote_resources_for_root root_id = repo_read (\<lambda>d.
     sort_key rm_remote_path
       (filter (\<lambda>r. rm_root_id r = root_id) (map rw_record (db_remote_resource_state d))))"

text \<open>
  SQLite's \<open>LIKE\<close>: \<open>%\<close> matches any text, \<open>_\<close> any character, and the ASCII letters match in both
  cases.
\<close>

primrec sql_like :: "string \<Rightarrow> string \<Rightarrow> bool" where
  "sql_like [] s = (s = [])"
| "sql_like (p # ps) s =
     (if p = CHR ''%'' then list_ex (\<lambda>k. sql_like ps (drop k s)) [0..<Suc (length s)]
      else case s of [] \<Rightarrow> False
           | c # cs \<Rightarrow> (p = CHR ''_'' \<or> ascii_lower_char p = ascii_lower_char c) \<and> sql_like ps cs)"

definition delete_remote_resource_subtree :: "string \<Rightarrow> string \<Rightarrow> unit repo" where
  "delete_remote_resource_subtree root_id remote_prefix = repo_modify (\<lambda>d.
     d\<lparr>db_remote_resource_state := snd (tbl_delete
         (\<lambda>row. rm_root_id (rw_record row) = root_id \<and>
            (rm_remote_path (rw_record row) = remote_prefix \<or>
             sql_like (remote_prefix @ ''/%'') (rm_remote_path (rw_record row))))
         (db_remote_resource_state d))\<rparr>)"

definition list_known_remote_paths :: "string \<Rightarrow> string list repo" where
  "list_known_remote_paths root_id = repo_read (\<lambda>d.
     sort (remdups
       (map (fr_remote_path \<circ> fw_record)
          (filter (\<lambda>r. fr_root_id (fw_record r) = root_id) (db_file_state d)) @
        map (dr_remote_path \<circ> dw_record)
          (filter (\<lambda>r. dr_root_id (dw_record r) = root_id) (db_directory_state d)) @
        map (rm_remote_path \<circ> rw_record)
          (filter (\<lambda>r. rm_root_id (rw_record r) = root_id) (db_remote_resource_state d)))))"

section \<open>Migration map\<close>

definition map_key :: "map_row \<Rightarrow> string \<times> string \<times> string" where
  "map_key r = (mm_root_id (mw_record r), mm_legacy_remote_path (mw_record r),
                mm_canonical_remote_path (mw_record r))"

definition upsert_map_row :: "string \<Rightarrow> MigrationMapRecord \<Rightarrow> map_row list \<Rightarrow> map_row list" where
  "upsert_map_row now r =
     tbl_upsert map_key (\<lambda>new old. new) \<lparr>mw_record = r, mw_updated_at_utc = now\<rparr>"

definition upsert_migration_map :: "string \<Rightarrow> MigrationMapRecord \<Rightarrow> unit repo" where
  "upsert_migration_map now r = repo_modify (\<lambda>d.
     d\<lparr>db_migration_map_state := upsert_map_row now r (db_migration_map_state d)\<rparr>)"

definition upsert_migration_maps :: "string \<Rightarrow> MigrationMapRecord list \<Rightarrow> unit repo" where
  "upsert_migration_maps now records = repo_modify (\<lambda>d.
     if records = [] then d
     else d\<lparr>db_migration_map_state := fold (upsert_map_row now) records (db_migration_map_state d)\<rparr>)"

definition list_migration_map :: "string option \<Rightarrow> MigrationMapRecord list repo" where
  "list_migration_map root_id = repo_read (\<lambda>d.
     sort_key mm_root_id (sort_key mm_legacy_remote_path (sort_key mm_canonical_remote_path
       (filter (\<lambda>r. case root_id of None \<Rightarrow> True | Some i \<Rightarrow> mm_root_id r = i)
          (map mw_record (db_migration_map_state d))))))"

section \<open>Operation journal\<close>

definition append_operation_started :: "string \<Rightarrow> OperationRecord \<Rightarrow> rowid repo" where
  "append_operation_started now r = (\<lambda>d.
     let i = db_journal_seq d + 1
     in (Inr i,
         d\<lparr>db_operation_journal := db_operation_journal d @
             [\<lparr>oj_id = i, oj_run_id = or_run_id r, oj_operation = or_operation r,
               oj_local_path = or_local_path r, oj_remote_path = or_remote_path r,
               oj_status = OpRunning, oj_started_at_utc = now, oj_finished_at_utc = None,
               oj_error_kind = None, oj_error_message = None\<rparr>],
           db_journal_seq := i\<rparr>))"

definition append_operation_succeeded :: "string \<Rightarrow> OperationRecord \<Rightarrow> db \<Rightarrow> db" where
  "append_operation_succeeded now r d =
     (let i = db_journal_seq d + 1
      in d\<lparr>db_operation_journal := db_operation_journal d @
             [\<lparr>oj_id = i, oj_run_id = or_run_id r, oj_operation = or_operation r,
               oj_local_path = or_local_path r, oj_remote_path = or_remote_path r,
               oj_status = OpSucceeded, oj_started_at_utc = now, oj_finished_at_utc = Some now,
               oj_error_kind = None, oj_error_message = None\<rparr>],
           db_journal_seq := i\<rparr>)"

definition append_operations_succeeded :: "string \<Rightarrow> OperationRecord list \<Rightarrow> unit repo" where
  "append_operations_succeeded now records = repo_modify (\<lambda>d.
     if records = [] then d else fold (append_operation_succeeded now) records d)"

definition finish_operation ::
  "string \<Rightarrow> rowid \<Rightarrow> OperationStatus \<Rightarrow> string option \<Rightarrow> string option \<Rightarrow> unit repo" where
  "finish_operation now operation_id status error_kind error_message = (\<lambda>d.
     let (n, rows) = tbl_update (\<lambda>r. oj_id r = operation_id)
           (\<lambda>r. r\<lparr>oj_status := status, oj_finished_at_utc := Some now,
                   oj_error_kind := error_kind, oj_error_message := error_message\<rparr>)
           (db_operation_journal d)
     in (ensure_updated n ''operation'' operation_id, d\<lparr>db_operation_journal := rows\<rparr>))"

definition list_recent_operations :: "nat \<Rightarrow> OperationJournalRecord list repo" where
  "list_recent_operations limit = repo_read (\<lambda>d.
     if limit = 0 then [] else take limit (sort_desc oj_id (db_operation_journal d)))"

section \<open>Deleted subtrees\<close>

definition subtree_key :: "subtree_row \<Rightarrow> string \<times> string" where
  "subtree_key r = (dt_root_id (tw_record r), dt_relative_prefix (tw_record r))"

definition mark_subtree_deleted :: "string \<Rightarrow> string \<Rightarrow> string \<Rightarrow> string \<Rightarrow> rowid \<Rightarrow> unit repo" where
  "mark_subtree_deleted now root_id relative_prefix remote_prefix run_id = repo_modify (\<lambda>d.
     d\<lparr>db_deleted_subtrees := tbl_upsert subtree_key (\<lambda>new old. new)
         \<lparr>tw_record = \<lparr>dt_root_id = root_id, dt_relative_prefix = relative_prefix,
                       dt_remote_prefix = remote_prefix, dt_last_run_id = Some run_id\<rparr>,
          tw_deleted_at_utc = now\<rparr>
         (db_deleted_subtrees d)\<rparr>)"

definition list_deleted_subtrees :: "string \<Rightarrow> DeletedSubtreeRecord list repo" where
  "list_deleted_subtrees root_id = repo_read (\<lambda>d.
     sort_key dt_relative_prefix
       (filter (\<lambda>r. dt_root_id r = root_id) (map tw_record (db_deleted_subtrees d))))"

end
