(* ===== verification/Scan_Model.thy ===== *)
theory Scan_Model
  imports Disk_Client State_Items
begin

text \<open>
  The data of \<open>crates/yds-scanner/src/lib.rs\<close> that the sync engine works on: the entries of a scan
  report with their fingerprints, local paths and what the engine asks of the local file system.
  A local path is the list of its components, the first one empty for an absolute path.
\<close>

section \<open>Local paths\<close>

definition path_from :: "string \<Rightarrow> local_path" where
  "path_from s =
     (if starts_with ''/'' s then [''''] else []) @
     filter (\<lambda>c. c \<noteq> '''' \<and> c \<noteq> ''.'') (split_slash s)"

definition path_parent :: "local_path \<Rightarrow> local_path option" where
  "path_parent p = (if p = [] \<or> p = [''''] then None else Some (butlast p))"

fun path_strip_prefix :: "local_path \<Rightarrow> local_path \<Rightarrow> local_path option" where
  "path_strip_prefix [] p = Some p"
| "path_strip_prefix (c # cs) [] = None"
| "path_strip_prefix (c # cs) (d # ds) = (if c = d then path_strip_prefix cs ds else None)"

definition path_string :: "local_path \<Rightarrow> string" where
  "path_string p = (if p = [''''] then ''/'' else str_join ''/'' p)"

definition path_to_stable_string :: "local_path \<Rightarrow> string" where
  "path_to_stable_string p = back_to_slash (path_string p)"

text \<open>One reading of the file system: the answers of \<open>is_dir\<close> and \<open>exists\<close>, and the length and
  modification time that \<open>fs::metadata\<close> returns.\<close>

record fs_view =
  fv_is_dir :: "local_path \<Rightarrow> bool"
  fv_exists :: "local_path \<Rightarrow> bool"
  fv_metadata :: "local_path \<Rightarrow> (u64 \<times> i64 option) option"

text \<open>An error of an operation on a file; the engine tells files that are gone or in use.\<close>

datatype io_kind = IoNotFound | IoPermissionDenied | IoWouldBlock | IoOther

record io_error =
  io_kind :: io_kind
  io_raw_os_error :: "int option"
  io_text :: string

definition is_skippable_local_io_error :: "io_error \<Rightarrow> bool" where
  "is_skippable_local_io_error e =
     (io_kind e \<in> {IoNotFound, IoPermissionDenied, IoWouldBlock} \<or>
      io_raw_os_error e = Some 32 \<or> io_raw_os_error e = Some 33)"

section \<open>Scan reports\<close>

datatype FingerprintKind = FpSha256 | FpMetadata | FpDeleted | FpUnknown

fun FingerprintKind_as_str :: "FingerprintKind \<Rightarrow> string" where
  "FingerprintKind_as_str FpSha256 = ''sha256''"
| "FingerprintKind_as_str FpMetadata = ''metadata''"
| "FingerprintKind_as_str FpDeleted = ''deleted''"
| "FingerprintKind_as_str FpUnknown = ''unknown''"

definition FingerprintKind_from_state :: "string \<Rightarrow> FingerprintKind" where
  "FingerprintKind_from_state value =
     (if value = ''sha256'' then FpSha256
      else if value = ''metadata'' then FpMetadata
      else if value = ''deleted'' then FpDeleted
      else FpUnknown)"

record Fingerprint =
  fp_kind :: FingerprintKind
  fp_value :: string
  fp_full_sha256 :: "string option"
  fp_local_md5 :: "string option"
  fp_reused_from_state :: bool

record LocalFileEntry =
  lf_root_id :: string
  lf_local_path :: local_path
  lf_relative_path :: string
  lf_remote_path :: string
  lf_normalized_remote_path :: string
  lf_upload_source :: local_path
  lf_size_bytes :: u64
  lf_mtime_ns :: "i64 option"
  lf_ctime_ns :: "i64 option"
  lf_fingerprint :: Fingerprint
  lf_sqlite_backup_staging_path :: "local_path option"

record LocalDirectoryEntry =
  ld_root_id :: string
  ld_local_path :: local_path
  ld_relative_path :: string
  ld_remote_path :: string
  ld_normalized_remote_path :: string

record SkippedScanItem =
  ss_root_id :: string
  ss_local_path :: local_path
  ss_relative_path :: string
  ss_remote_path :: "string option"
  ss_reason_code :: string
  ss_reason_details :: "string option"
  ss_size_bytes :: "u64 option"

record FailedScanItem =
  sf_root_id :: string
  sf_local_path :: "local_path option"
  sf_relative_path :: string
  sf_remote_path :: "string option"
  sf_error_kind :: string
  sf_error_message :: string

record ScanReport =
  sc_root_id :: string
  sc_files :: "LocalFileEntry list"
  sc_directories :: "LocalDirectoryEntry list"
  sc_skipped :: "SkippedScanItem list"
  sc_failed :: "FailedScanItem list"

definition scan_report_new :: "string \<Rightarrow> ScanReport" where
  "scan_report_new root_id =
     \<lparr>sc_root_id = root_id, sc_files = [], sc_directories = [], sc_skipped = [], sc_failed = []\<rparr>"

definition sort_deterministically :: "ScanReport \<Rightarrow> ScanReport" where
  "sort_deterministically r =
     r\<lparr>sc_files := sort_key lf_relative_path (sc_files r),
       sc_directories := sort_key ld_relative_path (sc_directories r),
       sc_skipped := sort_key ss_relative_path (sc_skipped r),
       sc_failed := sort_key sf_relative_path (sc_failed r)\<rparr>"

section \<open>Facts on local paths\<close>

lemma path_strip_prefix_Some_iff: "path_strip_prefix p q = Some r \<longleftrightarrow> q = p @ r"
  by (induction p q rule: path_strip_prefix.induct) auto

lemma path_strip_prefix_append [simp]: "path_strip_prefix p (p @ r) = Some r"
  by (simp add: path_strip_prefix_Some_iff)

lemma path_parent_Some: "path_parent p = Some q \<Longrightarrow> p \<noteq> [] \<and> q = butlast p"
  by (auto simp: path_parent_def split: if_splits)

end
