(* ===== verification/Live_Plan.thy ===== *)
theory Live_Plan
  imports Scan_Model
begin

text \<open>
  \<open>crates/yds-sync/src/lib.rs\<close>: \<open>LiveScanPlan\<close>, the part of a scan that is still there while the
  run goes on, and the local subtrees found missing. A subtree stands for everything below its
  relative prefix; the plan keeps an antichain of them and nothing that lies below one.
\<close>

record DeletedLocalSubtree =
  ds_root_id :: string
  ds_relative_prefix :: string
  ds_remote_prefix :: string

record LiveScanPlan =
  lp_root_id :: string
  lp_root_local_path :: local_path
  lp_files :: "LocalFileEntry list"
  lp_directories :: "LocalDirectoryEntry list"
  lp_deleted_subtrees :: "DeletedLocalSubtree list"

definition is_relative_path_deleted :: "string \<Rightarrow> DeletedLocalSubtree list \<Rightarrow> bool" where
  "is_relative_path_deleted relative_path deleted_subtrees =
     list_ex (\<lambda>s. path_under (ds_relative_prefix s) relative_path) deleted_subtrees"

definition is_deleted_relative_path :: "LiveScanPlan \<Rightarrow> string \<Rightarrow> bool" where
  "is_deleted_relative_path plan relative_path =
     list_ex (\<lambda>s. path_under (ds_relative_prefix s) relative_path) (lp_deleted_subtrees plan)"

definition add_deleted_subtree :: "DeletedLocalSubtree \<Rightarrow> LiveScanPlan \<Rightarrow> bool \<times> LiveScanPlan" where
  "add_deleted_subtree subtree plan =
     (if is_deleted_relative_path plan (ds_relative_prefix subtree) then (False, plan)
      else
        let kept = filter (\<lambda>s. \<not> path_under (ds_relative_prefix subtree) (ds_relative_prefix s))
                     (lp_deleted_subtrees plan)
        in (True, plan\<lparr>lp_deleted_subtrees := sort_key ds_relative_prefix (kept @ [subtree])\<rparr>))"

definition prune_remote_prefixes :: "LiveScanPlan \<Rightarrow> string list" where
  "prune_remote_prefixes plan = map ds_remote_prefix (lp_deleted_subtrees plan)"

text \<open>\<open>from_scan_report\<close>: the loop over the directories, by depth and path, then over the files.\<close>

definition subtree_of_directory :: "LocalDirectoryEntry \<Rightarrow> DeletedLocalSubtree" where
  "subtree_of_directory d =
     \<lparr>ds_root_id = ld_root_id d, ds_relative_prefix = ld_relative_path d,
      ds_remote_prefix = ld_remote_path d\<rparr>"

definition take_directory :: "(local_path \<Rightarrow> bool) \<Rightarrow> LocalDirectoryEntry \<Rightarrow> LiveScanPlan \<Rightarrow> LiveScanPlan" where
  "take_directory is_dir d plan =
     (if is_deleted_relative_path plan (ld_relative_path d) then plan
      else if \<not> is_dir (ld_local_path d) then snd (add_deleted_subtree (subtree_of_directory d) plan)
      else plan\<lparr>lp_directories := lp_directories plan @ [d]\<rparr>)"

definition take_file :: "LocalFileEntry \<Rightarrow> LiveScanPlan \<Rightarrow> LiveScanPlan" where
  "take_file f plan =
     (if \<not> is_deleted_relative_path plan (lf_relative_path f)
      then plan\<lparr>lp_files := lp_files plan @ [f]\<rparr> else plan)"

definition directories_by_depth :: "LocalDirectoryEntry list \<Rightarrow> LocalDirectoryEntry list" where
  "directories_by_depth ds =
     sort_key (\<lambda>d. slash_count (ld_relative_path d)) (sort_key ld_relative_path ds)"

definition from_scan_report :: "(local_path \<Rightarrow> bool) \<Rightarrow> local_path \<Rightarrow> ScanReport \<Rightarrow> LiveScanPlan" where
  "from_scan_report is_dir root_local_path report =
     (let plan = \<lparr>lp_root_id = sc_root_id report, lp_root_local_path = root_local_path,
                  lp_files = [], lp_directories = [], lp_deleted_subtrees = []\<rparr>;
          plan = fold (take_directory is_dir) (directories_by_depth (sc_directories report)) plan
      in fold take_file (sc_files report) plan)"

section \<open>Subtrees found missing during the run\<close>

function missing_loop :: "(local_path \<Rightarrow> bool) \<Rightarrow> local_path \<Rightarrow> local_path option \<Rightarrow> local_path \<Rightarrow> local_path option" where
  "missing_loop ex root nearest candidate =
     (if candidate = root then nearest
      else if ex candidate then nearest
      else case path_parent candidate of
             None \<Rightarrow> None
           | Some parent \<Rightarrow>
               if parent = root \<or> ex parent then Some candidate
               else missing_loop ex root (Some candidate) parent)"
  by pat_completeness auto
termination
  by (relation "measure (\<lambda>(ex, root, nearest, candidate). length candidate)")
    (auto dest!: path_parent_Some)

declare missing_loop.simps [simp del]

definition nearest_missing_directory :: "fs_view \<Rightarrow> local_path \<Rightarrow> local_path \<Rightarrow> local_path option" where
  "nearest_missing_directory fs root local_path =
     (case (if fv_is_dir fs local_path then Some local_path else path_parent local_path) of
        None \<Rightarrow> None
      | Some candidate \<Rightarrow> missing_loop (fv_exists fs) root None candidate)"

definition detect_deleted_local_subtree ::
  "fs_view \<Rightarrow> string \<Rightarrow> local_path \<Rightarrow> local_path \<Rightarrow> string \<Rightarrow> string \<Rightarrow> DeletedLocalSubtree option" where
  "detect_deleted_local_subtree fs root_id root_local_path local_path relative_path remote_path =
     (case nearest_missing_directory fs root_local_path local_path of
        None \<Rightarrow> None
      | Some missing_directory \<Rightarrow>
          (case path_strip_prefix root_local_path missing_directory of
             None \<Rightarrow> None
           | Some rest \<Rightarrow>
               let relative_prefix = trim_slashes (back_to_slash (path_string rest))
               in if relative_prefix = '''' then None
                  else Some
                    \<lparr>ds_root_id = root_id, ds_relative_prefix = relative_prefix,
                     ds_remote_prefix =
                       (if relative_prefix = relative_path then remote_path
                        else
                          let remote_root = trim_end_slash
                                (case strip_suffix relative_path remote_path of
                                   None \<Rightarrow> remote_path | Some r \<Rightarrow> r)
                          in remote_root @ ''/'' @ relative_prefix)\<rparr>))"

definition register_missing_local_path ::
  "fs_view \<Rightarrow> local_path \<Rightarrow> string \<Rightarrow> string \<Rightarrow> LiveScanPlan \<Rightarrow> DeletedLocalSubtree option \<times> LiveScanPlan" where
  "register_missing_local_path fs local_path relative_path remote_path plan =
     (case detect_deleted_local_subtree fs (lp_root_id plan) (lp_root_local_path plan)
             local_path relative_path remote_path of
        None \<Rightarrow> (None, plan)
      | Some subtree \<Rightarrow>
          let (added, plan') = add_deleted_subtree subtree plan
          in (if added then (Some subtree, plan') else (None, plan')))"

section \<open>What a plan covers\<close>

definition deleted_prefixes :: "LiveScanPlan \<Rightarrow> string list" where
  "deleted_prefixes plan = map ds_relative_prefix (lp_deleted_subtrees plan)"

lemma is_deleted_covered:
  "is_deleted_relative_path plan p \<longleftrightarrow> covered path_under (deleted_prefixes plan) p"
  by (auto simp: is_deleted_relative_path_def covered_def deleted_prefixes_def list_ex_iff)

lemma is_relative_path_deleted_plan:
  "is_relative_path_deleted p (lp_deleted_subtrees plan) = is_deleted_relative_path plan p"
  by (simp add: is_relative_path_deleted_def is_deleted_relative_path_def)

lemma set_deleted_prefixes_add:
  "set (deleted_prefixes (snd (add_deleted_subtree s plan))) =
   set (cover_insert path_under (ds_relative_prefix s) (deleted_prefixes plan))"
  by (auto simp: add_deleted_subtree_def is_deleted_covered cover_insert_def)
    (auto simp: deleted_prefixes_def)

lemma covered_cong: "set ps = set qs \<Longrightarrow> covered below ps x = covered below qs x"
  by (simp add: covered_def)

lemma antichain_cong: "set ps = set qs \<Longrightarrow> antichain below ps = antichain below qs"
  by (simp add: antichain_def)

lemma is_deleted_add [simp]:
  "is_deleted_relative_path (snd (add_deleted_subtree s plan)) p \<longleftrightarrow>
     is_deleted_relative_path plan p \<or> path_under (ds_relative_prefix s) p"
  using covered_cong [OF set_deleted_prefixes_add] by (simp add: is_deleted_covered pu.covered_insert_iff)

lemma antichain_add:
  "antichain path_under (deleted_prefixes plan) \<Longrightarrow>
   antichain path_under (deleted_prefixes (snd (add_deleted_subtree s plan)))"
  using antichain_cong [OF set_deleted_prefixes_add] pu.antichain_insert by blast

lemma add_fields [simp]:
  "lp_files (snd (add_deleted_subtree s plan)) = lp_files plan"
  "lp_directories (snd (add_deleted_subtree s plan)) = lp_directories plan"
  "lp_root_id (snd (add_deleted_subtree s plan)) = lp_root_id plan"
  "lp_root_local_path (snd (add_deleted_subtree s plan)) = lp_root_local_path plan"
  by (simp_all add: add_deleted_subtree_def Let_def)

lemma take_file_fold:
  "fold take_file fs plan =
     plan\<lparr>lp_files := lp_files plan @ filter (\<lambda>f. \<not> is_deleted_relative_path plan (lf_relative_path f)) fs\<rparr>"
proof (induction fs arbitrary: plan)
  case (Cons f fs)
  have "is_deleted_relative_path (take_file f plan) p = is_deleted_relative_path plan p" for p
    by (simp add: take_file_def is_deleted_relative_path_def)
  with Cons show ?case by (simp add: take_file_def)
qed simp

text \<open>The paths below a directory of the report that is no longer there.\<close>

definition gone :: "(local_path \<Rightarrow> bool) \<Rightarrow> LocalDirectoryEntry list \<Rightarrow> string \<Rightarrow> bool" where
  "gone is_dir ds p = (\<exists>d\<in>set ds. \<not> is_dir (ld_local_path d) \<and> path_under (ld_relative_path d) p)"

lemma depth_order_no_cover:
  assumes "sorted (map (\<lambda>d. slash_count (ld_relative_path d)) (ds @ [d]))"
    and "distinct (map ld_relative_path (ds @ [d]))" and "e \<in> set ds"
  shows "\<not> path_under (ld_relative_path d) (ld_relative_path e)"
proof
  assume under: "path_under (ld_relative_path d) (ld_relative_path e)"
  have "ld_relative_path d \<noteq> ld_relative_path e"
    using assms(2,3) by auto
  with under have "slash_count (ld_relative_path d) < slash_count (ld_relative_path e)"
    by (rule path_under_count)
  moreover have "slash_count (ld_relative_path e) \<le> slash_count (ld_relative_path d)"
    using assms(1,3) by (simp add: sorted_append)
  ultimately show False by simp
qed

lemma take_directory_fold:
  assumes "sorted (map (\<lambda>d. slash_count (ld_relative_path d)) ds)"
    and "distinct (map ld_relative_path ds)"
    and "lp_directories plan = []" and "lp_deleted_subtrees plan = []"
  shows "lp_directories (fold (take_directory is_dir) ds plan) =
      filter (\<lambda>d. \<not> gone is_dir ds (ld_relative_path d)) ds \<and>
    (\<forall>p. is_deleted_relative_path (fold (take_directory is_dir) ds plan) p = gone is_dir ds p) \<and>
    antichain path_under (deleted_prefixes (fold (take_directory is_dir) ds plan)) \<and>
    lp_files (fold (take_directory is_dir) ds plan) = lp_files plan \<and>
    lp_root_id (fold (take_directory is_dir) ds plan) = lp_root_id plan \<and>
    lp_root_local_path (fold (take_directory is_dir) ds plan) = lp_root_local_path plan"
  using assms
proof (induction ds rule: rev_induct)
  case Nil
  then show ?case
    by (simp add: gone_def is_deleted_relative_path_def antichain_def deleted_prefixes_def)
next
  case (snoc d ds)
  let ?p = "fold (take_directory is_dir) ds plan"
  have IH: "lp_directories ?p = filter (\<lambda>d. \<not> gone is_dir ds (ld_relative_path d)) ds"
    "\<And>q. is_deleted_relative_path ?p q = gone is_dir ds q"
    "antichain path_under (deleted_prefixes ?p)"
    "lp_files ?p = lp_files plan" "lp_root_id ?p = lp_root_id plan"
    "lp_root_local_path ?p = lp_root_local_path plan"
    using snoc by (simp_all add: sorted_append)
  have gone: "gone is_dir (ds @ [d]) q \<longleftrightarrow>
      gone is_dir ds q \<or> \<not> is_dir (ld_local_path d) \<and> path_under (ld_relative_path d) q" for q
    by (auto simp: gone_def)
  have earlier: "gone is_dir (ds @ [d]) (ld_relative_path e) = gone is_dir ds (ld_relative_path e)"
    if "e \<in> set ds" for e
    using depth_order_no_cover [OF snoc.prems(1,2) that] by (simp add: gone)
  have keep: "filter (\<lambda>e. \<not> gone is_dir (ds @ [d]) (ld_relative_path e)) ds = lp_directories ?p"
    unfolding IH(1) by (rule filter_cong) (simp_all add: earlier)
  consider "gone is_dir ds (ld_relative_path d)"
    | "\<not> gone is_dir ds (ld_relative_path d)" "\<not> is_dir (ld_local_path d)"
    | "\<not> gone is_dir ds (ld_relative_path d)" "is_dir (ld_local_path d)" by blast
  then show ?case
  proof cases
    case 1
    then have "gone is_dir (ds @ [d]) = gone is_dir ds"
      using gone by (auto simp: gone_def fun_eq_iff intro: path_under_trans)
    moreover have "fold (take_directory is_dir) (ds @ [d]) plan = ?p"
      using 1 by (simp add: take_directory_def IH(2))
    ultimately show ?thesis using keep 1 IH by simp
  next
    case 2
    then have "fold (take_directory is_dir) (ds @ [d]) plan =
        snd (add_deleted_subtree (subtree_of_directory d) ?p)"
      by (simp add: take_directory_def IH(2))
    then show ?thesis
      using keep 2 IH antichain_add by (auto simp: gone subtree_of_directory_def)
  next
    case 3
    then have "fold (take_directory is_dir) (ds @ [d]) plan =
        ?p\<lparr>lp_directories := lp_directories ?p @ [d]\<rparr>"
      by (simp add: take_directory_def IH(2))
    then show ?thesis
      using keep 3 IH by (simp add: gone is_deleted_relative_path_def deleted_prefixes_def)
  qed
qed

lemma directories_by_depth_props:
  "sorted (map (\<lambda>d. slash_count (ld_relative_path d)) (directories_by_depth ds))"
  "set (directories_by_depth ds) = set ds"
  "distinct (map ld_relative_path ds) \<Longrightarrow> distinct (map ld_relative_path (directories_by_depth ds))"
  by (simp_all add: directories_by_depth_def distinct_map)

lemma gone_cong: "set ds = set es \<Longrightarrow> gone is_dir ds = gone is_dir es"
  by (simp add: gone_def fun_eq_iff)

text \<open>
  The live plan of a scan report keeps, in order, the files and the directories that do not lie
  below a scanned directory that is gone; every directory kept is there; a path counts as deleted
  exactly when it lies below such a directory, and no deleted subtree lies in another.
\<close>

theorem from_scan_report_spec:
  assumes "distinct (map ld_relative_path (sc_directories report))"
  shows "lp_files (from_scan_report is_dir root report) =
      filter (\<lambda>f. \<not> gone is_dir (sc_directories report) (lf_relative_path f)) (sc_files report) \<and>
    lp_directories (from_scan_report is_dir root report) =
      filter (\<lambda>d. \<not> gone is_dir (sc_directories report) (ld_relative_path d))
        (directories_by_depth (sc_directories report)) \<and>
    filter (\<lambda>d. \<not> is_dir (ld_local_path d)) (lp_directories (from_scan_report is_dir root report)) = [] \<and>
    is_deleted_relative_path (from_scan_report is_dir root report) =
      gone is_dir (sc_directories report) \<and>
    antichain path_under (deleted_prefixes (from_scan_report is_dir root report))"
proof -
  let ?ds = "directories_by_depth (sc_directories report)"
  let ?init = "\<lparr>lp_root_id = sc_root_id report, lp_root_local_path = root,
              lp_files = [], lp_directories = [], lp_deleted_subtrees = []\<rparr>"
  let ?p = "fold (take_directory is_dir) ?ds ?init"
  note props = directories_by_depth_props
  have gone: "gone is_dir ?ds = gone is_dir (sc_directories report)"
    by (rule gone_cong) (rule props)
  have dirs: "lp_directories ?p = filter (\<lambda>d. \<not> gone is_dir (sc_directories report) (ld_relative_path d)) ?ds"
    "is_deleted_relative_path ?p = gone is_dir (sc_directories report)"
    "antichain path_under (deleted_prefixes ?p)" "lp_files ?p = []"
    using take_directory_fold [OF props(1) props(3) [OF assms], where plan = ?init and is_dir = is_dir]
    by (simp_all add: gone fun_eq_iff)
  have plan: "from_scan_report is_dir root report =
      ?p\<lparr>lp_files := filter (\<lambda>f. \<not> gone is_dir (sc_directories report) (lf_relative_path f)) (sc_files report)\<rparr>"
    by (simp add: from_scan_report_def Let_def take_file_fold dirs)
  have there: "\<forall>d\<in>set ?ds. gone is_dir (sc_directories report) (ld_relative_path d) \<or> is_dir (ld_local_path d)"
    unfolding props(2) by (force simp: gone_def)
  show ?thesis
    unfolding plan using dirs there
    by (simp add: filter_empty_conv is_deleted_relative_path_def [abs_def] deleted_prefixes_def)
qed

definition example_dir :: "string \<Rightarrow> LocalDirectoryEntry" where
  "example_dir rel =
     \<lparr>ld_root_id = ''r'', ld_local_path = path_from (''/d/'' @ rel), ld_relative_path = rel,
      ld_remote_path = ''disk:/r/'' @ rel, ld_normalized_remote_path = ''disk:/r/'' @ rel\<rparr>"

definition example_report :: ScanReport where
  "example_report = (scan_report_new ''r'')\<lparr>sc_directories := map example_dir [''a/b'', ''c'', ''a'']\<rparr>"

theorem from_scan_report_spec_witness:
  "map ld_relative_path (lp_directories
     (from_scan_report (\<lambda>p. p \<noteq> ['''', ''d'', ''a'']) ['''', ''d''] example_report)) = [''c'']"
proof -
  have "distinct (map ld_relative_path (sc_directories example_report))"
    by code_simp
  moreover have "map ld_relative_path
      (filter (\<lambda>d. \<not> gone (\<lambda>p. p \<noteq> ['''', ''d'', ''a'']) (sc_directories example_report) (ld_relative_path d))
        (directories_by_depth (sc_directories example_report))) = [''c'']"
    by code_simp
  ultimately show ?thesis
    using from_scan_report_spec [of example_report "\<lambda>p. p \<noteq> ['''', ''d'', ''a'']" "['''', ''d'']"] by simp
qed

section \<open>Missing subtrees\<close>

lemma missing_loop_inside:
  assumes "missing_loop ex root nearest candidate = Some d"
    and "\<And>n. nearest = Some n \<Longrightarrow> n \<noteq> root \<and> \<not> ex n \<and> (\<exists>r. local = n @ r)"
    and "\<exists>r. local = candidate @ r"
  shows "d \<noteq> root \<and> \<not> ex d \<and> (\<exists>r. local = d @ r)"
  using assms
proof (induction ex root nearest candidate rule: missing_loop.induct)
  case (1 ex root nearest candidate)
  show ?case
  proof (cases "candidate = root \<or> ex candidate")
    case True
    then show ?thesis using 1(2,3) by (simp add: missing_loop.simps [of ex root nearest candidate] split: if_splits)
  next
    case False
    then obtain parent where parent: "path_parent candidate = Some parent"
      using 1(2) by (auto simp: missing_loop.simps [of ex root nearest candidate] split: option.splits)
    obtain r where r: "local = candidate @ r" using 1(4) by blast
    have "candidate = parent @ [last candidate]"
      using path_parent_Some [OF parent] by simp
    then have up: "local = parent @ last candidate # r" using r by (metis append_Cons append_Nil append_assoc)
    show ?thesis
    proof (cases "parent = root \<or> ex parent")
      case True
      then have "d = candidate"
        using 1(2) False parent by (simp add: missing_loop.simps [of ex root nearest candidate])
      then show ?thesis using False r by blast
    next
      case more: False
      have "missing_loop ex root (Some candidate) parent = Some d"
        using 1(2) False parent more by (simp add: missing_loop.simps [of ex root nearest candidate])
      then show ?thesis
        using 1(1) [OF _ _ parent more] False r up by blast
    qed
  qed
qed

lemma trim_slashes_nonempty_root: "trim_slashes '''' = ''''"
  by code_simp

text \<open>
  A subtree registered as deleted is never the root itself: its relative prefix is not empty,
  it is recorded under the plan's root, the directory it stands for lies below the root on the way
  to the missing path and does not exist, and from then on its paths count as deleted, with the
  subtrees still an antichain.
\<close>

theorem register_missing_local_path_spec:
  assumes "register_missing_local_path fs local_path rel remote plan = (Some s, plan')"
    and "antichain path_under (deleted_prefixes plan)"
  shows "ds_relative_prefix s \<noteq> '''' \<and> ds_root_id s = lp_root_id plan \<and>
    (\<exists>below rest. local_path = lp_root_local_path plan @ below @ rest \<and> below \<noteq> [] \<and>
       \<not> fv_exists fs (lp_root_local_path plan @ below) \<and>
       ds_relative_prefix s = trim_slashes (back_to_slash (path_string below))) \<and>
    is_deleted_relative_path plan' p =
      (is_deleted_relative_path plan p \<or> path_under (ds_relative_prefix s) p) \<and>
    antichain path_under (deleted_prefixes plan')"
proof -
  have det: "detect_deleted_local_subtree fs (lp_root_id plan) (lp_root_local_path plan) local_path rel remote = Some s"
    and plan': "plan' = snd (add_deleted_subtree s plan)"
    using assms(1) by (auto simp: register_missing_local_path_def case_prod_beta split: option.splits if_splits)
  obtain d below where d: "nearest_missing_directory fs (lp_root_local_path plan) local_path = Some d"
    and strip: "path_strip_prefix (lp_root_local_path plan) d = Some below"
    and s: "ds_relative_prefix s = trim_slashes (back_to_slash (path_string below))"
      "ds_relative_prefix s \<noteq> ''''" "ds_root_id s = lp_root_id plan"
    using det by (auto simp: detect_deleted_local_subtree_def Let_def split: option.splits if_splits)
  obtain c where c: "missing_loop (fv_exists fs) (lp_root_local_path plan) None c = Some d"
    and on_path: "\<exists>r. local_path = c @ r"
  proof -
    obtain c where "(if fv_is_dir fs local_path then Some local_path else path_parent local_path) = Some c"
      and "missing_loop (fv_exists fs) (lp_root_local_path plan) None c = Some d"
      using d by (auto simp: nearest_missing_directory_def split: option.splits)
    moreover have "\<exists>r. local_path = c @ r"
      using calculation(1) path_parent_Some by (metis append_Nil2 append_butlast_last_id option.inject)
    ultimately show thesis using that by blast
  qed
  have missing: "d \<noteq> lp_root_local_path plan \<and> \<not> fv_exists fs d \<and> (\<exists>r. local_path = d @ r)"
    by (rule missing_loop_inside [OF c _ on_path]) simp
  have "d = lp_root_local_path plan @ below"
    using strip by (simp add: path_strip_prefix_Some_iff)
  then show ?thesis
    using missing s assms(2) antichain_add by (auto simp: plan')
qed

definition missing_view :: fs_view where
  "missing_view =
     \<lparr>fv_is_dir = (\<lambda>p. p = ['''', ''d'']), fv_exists = (\<lambda>p. p = ['''', ''d'']),
      fv_metadata = (\<lambda>_. None)\<rparr>"

definition empty_plan :: LiveScanPlan where
  "empty_plan =
     \<lparr>lp_root_id = ''r'', lp_root_local_path = ['''', ''d''], lp_files = [],
      lp_directories = [], lp_deleted_subtrees = []\<rparr>"

theorem register_missing_local_path_spec_witness:
  "is_deleted_relative_path
     (snd (register_missing_local_path missing_view ['''', ''d'', ''a'', ''b'', ''f''] ''a/b/f'' ''disk:/r/a/b/f'' empty_plan))
     ''a/c''"
proof -
  let ?s = "\<lparr>ds_root_id = ''r'', ds_relative_prefix = ''a'', ds_remote_prefix = ''disk:/r/a''\<rparr>"
  let ?r = "register_missing_local_path missing_view ['''', ''d'', ''a'', ''b'', ''f''] ''a/b/f'' ''disk:/r/a/b/f'' empty_plan"
  have "fst ?r = Some ?s" by code_simp
  then have "?r = (Some ?s, snd ?r)" by (metis prod.collapse)
  from register_missing_local_path_spec [OF this, of "''a/c''"]
  have "is_deleted_relative_path (snd ?r) ''a/c'' = (is_deleted_relative_path empty_plan ''a/c'' \<or> path_under ''a'' ''a/c'')"
    by (simp add: antichain_def deleted_prefixes_def empty_plan_def)
  moreover have "path_under ''a'' ''a/c''" by code_simp
  ultimately show ?thesis by simp
qed

end
