(* ===== verification/Delete_Plan.thy ===== *)
theory Delete_Plan
  imports Live_Plan
begin

text \<open>
  \<open>crates/yds-sync/src/lib.rs\<close>: the remote paths a live plan keeps, and
  \<open>collect_coalesced_delete_operations\<close>, which finds the remote resources that nothing local stands
  for and merges their deletions into one per subtree. The theorems show it deletes nothing that
  is live, everything that is not, and no subtree twice.
\<close>

section \<open>Paths below the managed root\<close>

definition relative_remote_path :: "string \<Rightarrow> string \<Rightarrow> string" where
  "relative_remote_path canonical remote_path =
     trim_start_slash
       (case strip_prefix (trim_end_slash canonical) remote_path of
          None \<Rightarrow> remote_path | Some r \<Rightarrow> r)"

definition remote_delete_candidate_relative_path :: "string \<Rightarrow> string \<Rightarrow> string + string" where
  "remote_delete_candidate_relative_path managed_root remote_path =
     (let managed_root = trim_end_slash managed_root
      in if remote_path = managed_root then Inl ''empty_relative_path''
         else case strip_prefix (managed_root @ ''/'') remote_path of
           None \<Rightarrow> Inl ''outside_managed_root''
         | Some relative_path \<Rightarrow>
             if relative_path = '''' then Inl ''empty_relative_path''
             else if list_ex (\<lambda>segment. eq_ignore_ascii_case segment ''disk:'') (split_slash relative_path)
             then Inl ''phantom_disk_segment''
             else Inr relative_path)"

section \<open>The plan of deletions\<close>

text \<open>The set of live remote paths, as a list of which only the members are read.\<close>

definition known_live_remote_paths ::
  "string \<Rightarrow> LocalDirectoryEntry list \<Rightarrow> LocalFileEntry list \<Rightarrow> DeletedLocalSubtree list \<Rightarrow> string list" where
  "known_live_remote_paths canonical directories files deleted_subtrees =
     [canonical] @
     map ld_remote_path
       (filter (\<lambda>d. \<not> is_relative_path_deleted (ld_relative_path d) deleted_subtrees) directories) @
     map lf_remote_path
       (filter (\<lambda>f. \<not> is_relative_path_deleted (lf_relative_path f) deleted_subtrees) files)"

definition has_live_descendants :: "string list \<Rightarrow> string \<Rightarrow> bool" where
  "has_live_descendants known child_prefix = list_ex (\<lambda>path. starts_with child_prefix path) known"

fun top_missing_loop :: "string list \<Rightarrow> string \<Rightarrow> string list \<Rightarrow> string option" where
  "top_missing_loop known pre [] = None"
| "top_missing_loop known pre (segment # segments) =
     (let pre = pre @ ''/'' @ segment
      in if pre \<in> set known then top_missing_loop known pre segments
         else if \<not> has_live_descendants known (pre @ ''/'') then Some pre
         else top_missing_loop known pre segments)"

definition top_missing_remote_directory_prefix :: "string \<Rightarrow> string \<Rightarrow> string list \<Rightarrow> string option" where
  "top_missing_remote_directory_prefix canonical remote_path known =
     (let segments = filter (\<lambda>s. s \<noteq> '''') (split_slash (relative_remote_path canonical remote_path))
      in if length segments < 2 then None
         else top_missing_loop known (trim_end_slash canonical) (butlast segments))"

record RemoteDeleteOperation =
  rd_root_id :: string
  rd_remote_path :: string
  rd_relative_path :: string
  rd_resource_type :: ResourceType

definition delete_operation :: "string \<Rightarrow> string \<Rightarrow> string \<Rightarrow> ResourceType \<Rightarrow> RemoteDeleteOperation" where
  "delete_operation root_id canonical path resource_type =
     \<lparr>rd_root_id = root_id, rd_remote_path = path,
      rd_relative_path = relative_remote_path canonical path, rd_resource_type = resource_type\<rparr>"

text \<open>The body of the loop: the suppressed prefixes and the operations so far.\<close>

definition suppressed :: "string list \<Rightarrow> string \<Rightarrow> bool" where
  "suppressed ps path = list_ex (\<lambda>p. path_under p path) ps"

definition collect_directory ::
  "string \<Rightarrow> string \<Rightarrow> string \<Rightarrow> string list \<times> RemoteDeleteOperation list \<Rightarrow> string list \<times> RemoteDeleteOperation list" where
  "collect_directory root_id canonical directory_path acc =
     (fst acc @ [directory_path],
      snd acc @ [delete_operation root_id canonical directory_path RtDirectory])"

definition collect_resource ::
  "string \<Rightarrow> string \<Rightarrow> string list \<Rightarrow> ResourceMetadata \<Rightarrow>
   string list \<times> RemoteDeleteOperation list \<Rightarrow> string list \<times> RemoteDeleteOperation list" where
  "collect_resource root_id canonical known r acc =
     (case remote_delete_candidate_relative_path canonical (rs_path r) of
        Inl _ \<Rightarrow> acc
      | Inr _ \<Rightarrow>
          if suppressed (fst acc) (rs_path r) then acc
          else if rs_path r \<in> set known then acc
          else (case top_missing_remote_directory_prefix canonical (rs_path r) known of
              Some directory_path \<Rightarrow>
                if \<not> suppressed (fst acc) directory_path
                then collect_directory root_id canonical directory_path acc
                else acc
            | None \<Rightarrow>
                if rs_resource_type r = RtDirectory \<and>
                   \<not> has_live_descendants known (trim_end_slash (rs_path r) @ ''/'')
                then collect_directory root_id canonical (rs_path r) acc
                else (fst acc, snd acc @
                       [delete_operation root_id canonical (rs_path r) (rs_resource_type r)])))"

definition delete_candidates :: "string \<Rightarrow> (string, ResourceMetadata) btree \<Rightarrow> ResourceMetadata list" where
  "delete_candidates canonical inventory =
     sort_key (\<lambda>r. rs_resource_type r \<noteq> RtDirectory)
       (sort_key (\<lambda>r. slash_count (rs_path r))
         (sort_key rs_path (filter (\<lambda>r. rs_path r \<noteq> canonical) (bt_values inventory))))"

definition deepest_first :: "RemoteDeleteOperation list \<Rightarrow> RemoteDeleteOperation list" where
  "deepest_first ops = sort_desc (\<lambda>d. slash_count (rd_remote_path d)) (sort_key rd_remote_path ops)"

definition collect_coalesced_delete_operations ::
  "SyncRootConfig \<Rightarrow> string \<Rightarrow> LiveScanPlan \<Rightarrow> (string, ResourceMetadata) btree \<Rightarrow> RemoteDeleteOperation list" where
  "collect_coalesced_delete_operations root canonical live_plan inventory =
     (let known = known_live_remote_paths canonical (lp_directories live_plan) (lp_files live_plan)
                    (lp_deleted_subtrees live_plan)
      in deepest_first (snd (fold (collect_resource (rc_id root) canonical known)
           (delete_candidates canonical inventory) ([], []))))"

section \<open>Paths as lists of segments\<close>

definition join_path :: "string \<Rightarrow> string list \<Rightarrow> string" where
  "join_path base segs = base @ concat (map (\<lambda>s. slash # s) segs)"

lemma join_path_str_join: "segs \<noteq> [] \<Longrightarrow> join_path base segs = base @ slash # str_join ''/'' segs"
proof (induction segs)
  case (Cons s segs)
  then show ?case by (cases segs) (auto simp: join_path_def)
qed simp

definition clean_segs :: "string list \<Rightarrow> bool" where
  "clean_segs segs = (\<forall>s\<in>set segs. s \<noteq> '''' \<and> slash \<notin> set s)"

lemma clean_segs_simps [simp]:
  "clean_segs []"
  "clean_segs (s # segs) \<longleftrightarrow> s \<noteq> '''' \<and> slash \<notin> set s \<and> clean_segs segs"
  "clean_segs (segs @ segs2) \<longleftrightarrow> clean_segs segs \<and> clean_segs segs2"
  by (auto simp: clean_segs_def)

lemma join_path_Nil [simp]: "join_path base [] = base"
  by (simp add: join_path_def)

lemma join_path_snoc: "join_path base (segs @ [s]) = join_path base segs @ slash # s"
  by (simp add: join_path_def)

lemma join_path_append: "join_path base (xs @ ys) = join_path (join_path base xs) ys"
  by (simp add: join_path_def)

lemma join_path_Cons: "join_path base (s # segs) = base @ slash # str_join ''/'' (s # segs)"
proof (induction segs arbitrary: base s)
  case (Cons t segs)
  from Cons [of "base @ slash # s" t] show ?case by (simp add: join_path_def)
qed (simp add: join_path_def)

lemma join_path_under: "path_under (join_path base xs) (join_path base (xs @ ys))"
  by (cases ys) (auto simp: join_path_append path_under_iff join_path_Cons)

text \<open>A segment without slashes is determined by the path that starts with it.\<close>

lemma segment_split:
  assumes "slash \<notin> set a" "slash \<notin> set b"
    and "a @ x = b @ y" "x = [] \<or> hd x = slash" "y = [] \<or> hd y = slash"
  shows "a = b \<and> x = y"
  using assms
proof (induction a arbitrary: b)
  case Nil
  then show ?case by (cases b) auto
next
  case (Cons c a)
  show ?case
  proof (cases b)
    case Nil
    with Cons.prems show ?thesis by auto
  next
    case (Cons d b')
    with Cons.prems Cons.IH [of b'] show ?thesis by simp
  qed
qed

lemma tail_segments: "concat (map (\<lambda>s. slash # s) xs) = [] \<or> hd (concat (map (\<lambda>s. slash # s) xs)) = slash"
  by (cases xs) auto

lemma under_tail:
  assumes "clean_segs xs" "clean_segs ys"
    and "concat (map (\<lambda>s. slash # s) ys) = concat (map (\<lambda>s. slash # s) xs) @ t"
    and "t = [] \<or> hd t = slash"
  shows "\<exists>zs. ys = xs @ zs"
  using assms
proof (induction xs arbitrary: ys)
  case (Cons x xs)
  then obtain y ys' where ys: "ys = y # ys'" by (cases ys) auto
  let ?c = "\<lambda>zs. concat (map (\<lambda>s. slash # s) zs)"
  have hd: "?c xs @ t = [] \<or> hd (?c xs @ t) = slash"
    using tail_segments [of xs] Cons.prems(4) by (cases "?c xs") auto
  have "y @ ?c ys' = x @ (?c xs @ t)" using Cons.prems(3) by (simp add: ys)
  then have "y = x \<and> ?c ys' = ?c xs @ t"
    using segment_split [of y x "?c ys'" "?c xs @ t"] Cons.prems(1,2) tail_segments [of ys'] hd
    by (simp add: ys)
  then show ?case using Cons.IH [of ys'] Cons.prems by (auto simp: ys)
qed simp

lemma join_path_under_iff:
  assumes "clean_segs xs" "clean_segs ys"
  shows "path_under (join_path base xs) (join_path base ys) \<longleftrightarrow> (\<exists>zs. ys = xs @ zs)"
proof
  assume "path_under (join_path base xs) (join_path base ys)"
  then obtain t where "join_path base ys = join_path base xs @ t" "t = [] \<or> hd t = slash"
    unfolding path_under_suffix by blast
  then show "\<exists>zs. ys = xs @ zs"
    using under_tail [OF assms] by (simp add: join_path_def)
qed (auto simp: join_path_under)

lemma join_path_inj:
  assumes "clean_segs xs" "clean_segs ys" "join_path base xs = join_path base ys"
  shows "xs = ys"
  using join_path_under_iff [OF assms(1,2), of base] join_path_under_iff [OF assms(2,1), of base] assms(3)
  by (metis append_assoc append_self_conv append_is_Nil_conv path_under_refl)

lemma join_path_below_iff:
  assumes "clean_segs xs" "clean_segs ys"
  shows "starts_with (join_path base xs @ ''/'') (join_path base ys) \<longleftrightarrow> (\<exists>z zs. ys = xs @ z # zs)"
proof
  assume l: "starts_with (join_path base xs @ ''/'') (join_path base ys)"
  then have "path_under (join_path base xs) (join_path base ys)" "join_path base ys \<noteq> join_path base xs"
    by (auto simp: starts_with_iff path_under_iff)
  then show "\<exists>z zs. ys = xs @ z # zs"
    unfolding join_path_under_iff [OF assms] by (metis append_Nil2 neq_Nil_conv)
next
  assume "\<exists>z zs. ys = xs @ z # zs"
  then show "starts_with (join_path base xs @ ''/'') (join_path base ys)"
    by (auto simp: starts_with_iff join_path_append join_path_Cons)
qed

lemma split_str_join: "clean_segs segs \<Longrightarrow> segs \<noteq> [] \<Longrightarrow> split_slash (str_join ''/'' segs) = segs"
  by (rule str_split_join) (auto simp: clean_segs_def)

lemma relative_join:
  assumes "trim_end_slash base = base" "clean_segs segs" "segs \<noteq> []"
  shows "relative_remote_path base (join_path base segs) = str_join ''/'' segs"
proof -
  obtain s rest where segs: "segs = s # rest" using assms(3) by (cases segs) auto
  have "s \<noteq> ''''" "slash \<notin> set s" using assms(2) by (auto simp: segs)
  then have "str_join ''/'' segs \<noteq> [] \<and> hd (str_join ''/'' segs) \<noteq> slash"
    by (cases rest; cases s) (auto simp: segs)
  then have "trim_start_slash (str_join ''/'' segs) = str_join ''/'' segs"
    unfolding trim_start_slash_def by (intro trim_start_by_hd) auto
  then show ?thesis
    by (simp add: relative_remote_path_def assms(1) segs join_path_Cons trim_start_slash_def trim_start_by_def)
qed

section \<open>The live tree\<close>

definition path_segs :: "string \<Rightarrow> string \<Rightarrow> string list" where
  "path_segs base p = split_slash (relative_remote_path base p)"

definition normal_path :: "string \<Rightarrow> string \<Rightarrow> bool" where
  "normal_path base p = (clean_segs (path_segs base p) \<and> p = join_path base (path_segs base p))"

text \<open>
  What the scan gives: every live path but the root itself is the root followed by non-empty
  segments, and the directory it lies in is live too.
\<close>

definition live_tree :: "string \<Rightarrow> string list \<Rightarrow> bool" where
  "live_tree base known =
     (trim_end_slash base = base \<and>
      (\<forall>k\<in>set known. k = base \<or>
         normal_path base k \<and>
         (length (path_segs base k) = 1 \<or> join_path base (butlast (path_segs base k)) \<in> set known)))"

definition deletable :: "string \<Rightarrow> string \<Rightarrow> bool" where
  "deletable base p = (\<exists>rel. remote_delete_candidate_relative_path base p = Inr rel)"

lemma path_segs_join:
  "trim_end_slash base = base \<Longrightarrow> clean_segs segs \<Longrightarrow> segs \<noteq> [] \<Longrightarrow> path_segs base (join_path base segs) = segs"
  by (simp add: path_segs_def relative_join split_str_join)

lemma normal_join:
  "trim_end_slash base = base \<Longrightarrow> clean_segs segs \<Longrightarrow> segs \<noteq> [] \<Longrightarrow> normal_path base (join_path base segs)"
  by (simp add: normal_path_def path_segs_join)

lemma path_segs_not_Nil [simp]: "path_segs base p \<noteq> []"
  by (simp add: path_segs_def)

lemma normalE:
  assumes "normal_path base p"
  obtains segs where "segs \<noteq> []" "clean_segs segs" "p = join_path base segs" "path_segs base p = segs"
  using assms that [of "path_segs base p"] by (simp add: normal_path_def)

lemma join_path_neq_base: "clean_segs segs \<Longrightarrow> segs \<noteq> [] \<Longrightarrow> join_path base segs \<noteq> base"
  using join_path_inj [of segs "[]" base] by auto

lemma live_closed:
  assumes "live_tree base known" "clean_segs (xs @ zs)" "xs \<noteq> []" "join_path base (xs @ zs) \<in> set known"
  shows "join_path base xs \<in> set known"
  using assms(2,4)
proof (induction zs rule: rev_induct)
  case (snoc z zs)
  let ?k = "join_path base (xs @ zs @ [z])"
  have segs: "path_segs base ?k = xs @ zs @ [z]"
    using assms(1,3) snoc.prems(1) by (intro path_segs_join) (auto simp: live_tree_def)
  have "?k \<noteq> base"
    using snoc.prems(1) by (intro join_path_neq_base) auto
  then have "length (path_segs base ?k) = 1 \<or> join_path base (butlast (path_segs base ?k)) \<in> set known"
    using assms(1) snoc.prems(2) by (auto simp: live_tree_def)
  moreover have "length (path_segs base ?k) \<noteq> 1"
    using assms(3) by (simp add: segs)
  ultimately have "join_path base (xs @ zs) \<in> set known"
    using assms(3) by (auto simp: segs butlast_append)
  then show ?case using snoc by simp
qed simp

lemma live_memberE:
  assumes "live_tree base known" "k \<in> set known" "k \<noteq> base"
  obtains segs where "segs \<noteq> []" "clean_segs segs" "k = join_path base segs"
proof -
  have "normal_path base k" using assms by (auto simp: live_tree_def)
  then show thesis by (rule normalE) (use that in blast)
qed

lemma not_below_base: "\<not> path_under (join_path base (s # segs)) base"
  by (auto simp: path_under_iff join_path_Cons dest: arg_cong [of _ _ length])

lemma live_below:
  assumes "live_tree base known" "clean_segs xs" "xs \<noteq> []" "k \<in> set known"
    and "path_under (join_path base xs) k"
  shows "join_path base xs \<in> set known"
proof -
  have "k \<noteq> base" using assms(3,5) not_below_base by (metis neq_Nil_conv)
  with assms(1,4) obtain ys where ys: "clean_segs ys" "k = join_path base ys"
    by (rule live_memberE)
  then obtain zs where "ys = xs @ zs"
    using assms(5) join_path_under_iff [OF assms(2) ys(1)] by blast
  then show ?thesis using live_closed [OF assms(1) _ assms(3)] ys assms(4) by blast
qed

lemma no_live_descendants:
  assumes "live_tree base known" "clean_segs xs" "xs \<noteq> []" "join_path base xs \<notin> set known"
  shows "\<not> has_live_descendants known (join_path base xs @ ''/'')"
proof
  assume "has_live_descendants known (join_path base xs @ ''/'')"
  then obtain k where "k \<in> set known" "starts_with (join_path base xs @ ''/'') k"
    by (auto simp: has_live_descendants_def list_ex_iff)
  then have "path_under (join_path base xs) k"
    by (auto simp: starts_with_iff path_under_iff)
  then show False using live_below [OF assms(1-3) \<open>k \<in> set known\<close>] assms(4) by blast
qed

section \<open>Topmost missing paths\<close>

text \<open>A path that is not live although every directory it lies in below the root is.\<close>

definition topmost :: "string \<Rightarrow> string list \<Rightarrow> string \<Rightarrow> bool" where
  "topmost base known p =
     (\<exists>xs. xs \<noteq> [] \<and> clean_segs xs \<and> p = join_path base xs \<and> p \<notin> set known \<and>
        (\<forall>us vs. xs = us @ vs \<longrightarrow> us \<noteq> [] \<longrightarrow> vs \<noteq> [] \<longrightarrow> join_path base us \<in> set known))"

lemma topmost_spares:
  assumes "live_tree base known" "topmost base known p" "k \<in> set known"
  shows "\<not> path_under p k"
  using live_below [OF assms(1) _ _ assms(3)] assms(2) by (auto simp: topmost_def)

lemma topmost_normal: "live_tree base known \<Longrightarrow> topmost base known p \<Longrightarrow> normal_path base p"
  by (auto simp: topmost_def live_tree_def intro: normal_join)

lemma topmost_antichain:
  assumes "topmost base known p" "topmost base known q" "path_under p q"
  shows "p = q"
proof -
  obtain xs ys where xs: "xs \<noteq> []" "clean_segs xs" "p = join_path base xs" "p \<notin> set known"
    and ys: "clean_segs ys" "q = join_path base ys"
      "\<forall>us vs. ys = us @ vs \<longrightarrow> us \<noteq> [] \<longrightarrow> vs \<noteq> [] \<longrightarrow> join_path base us \<in> set known"
    using assms(1,2) unfolding topmost_def by blast
  obtain zs where "ys = xs @ zs"
    using assms(3) join_path_under_iff [OF xs(2) ys(1)] xs(3) ys(2) by blast
  moreover have "zs = []" using ys(3) xs calculation by blast
  ultimately show ?thesis using xs(3) ys(2) by simp
qed

lemma top_missing_loop_Some:
  assumes "live_tree base known" "top_missing_loop known (join_path base don) rest = Some d"
    and "clean_segs (don @ rest)"
    and "\<forall>us vs. don = us @ vs \<longrightarrow> us \<noteq> [] \<longrightarrow> join_path base us \<in> set known"
  shows "\<exists>us vs. rest = us @ vs \<and> us \<noteq> [] \<and> d = join_path base (don @ us) \<and> topmost base known d"
  using assms(2-)
proof (induction rest arbitrary: don)
  case (Cons s rest)
  have pre: "join_path base don @ ''/'' @ s = join_path base (don @ [s])"
    by (simp add: join_path_snoc)
  have clean: "clean_segs (don @ [s])" using Cons.prems(2) by simp
  show ?case
  proof (cases "join_path base (don @ [s]) \<in> set known")
    case True
    have "\<forall>us vs. don @ [s] = us @ vs \<longrightarrow> us \<noteq> [] \<longrightarrow> join_path base us \<in> set known"
    proof (intro allI impI)
      fix us vs assume "don @ [s] = us @ vs" "us \<noteq> []"
      then show "join_path base us \<in> set known"
        using True Cons.prems(3) by (cases vs rule: rev_cases) auto
    qed
    moreover have "top_missing_loop known (join_path base (don @ [s])) rest = Some d"
      using Cons.prems(1) True by (simp only: top_missing_loop.simps Let_def pre) simp
    ultimately obtain us vs where "rest = us @ vs" "d = join_path base ((don @ [s]) @ us)"
        "topmost base known d"
      using Cons.IH [of "don @ [s]"] Cons.prems(2) by auto
    then show ?thesis by (intro exI [of _ "s # us"] exI [of _ vs]) simp
  next
    case False
    then have "\<not> has_live_descendants known (join_path base (don @ [s]) @ ''/'')"
      using no_live_descendants [OF assms(1) clean] by simp
    then have d: "d = join_path base (don @ [s])"
      using Cons.prems(1) False by (simp only: top_missing_loop.simps Let_def pre) simp
    have "join_path base us \<in> set known" if "don @ [s] = us @ vs" "us \<noteq> []" "vs \<noteq> []" for us vs
      using that Cons.prems(3) by (cases vs rule: rev_cases) auto
    then have "topmost base known d"
      unfolding topmost_def using d clean False by (intro exI [of _ "don @ [s]"]) blast
    then show ?thesis using d by (intro exI [of _ "[s]"] exI [of _ rest]) simp
  qed
qed simp

lemma top_missing_loop_None:
  assumes "live_tree base known" "top_missing_loop known (join_path base don) rest = None"
    and "clean_segs (don @ rest)" "rest = us @ vs" "us \<noteq> []"
  shows "join_path base (don @ us) \<in> set known"
  using assms(2-)
proof (induction rest arbitrary: don us)
  case (Cons s rest)
  have pre: "join_path base don @ ''/'' @ s = join_path base (don @ [s])"
    by (simp add: join_path_snoc)
  have clean: "clean_segs (don @ [s])" using Cons.prems(2) by simp
  have live: "join_path base (don @ [s]) \<in> set known"
  proof (rule ccontr)
    assume "join_path base (don @ [s]) \<notin> set known"
    then have "\<not> has_live_descendants known (join_path base (don @ [s]) @ ''/'')"
      using no_live_descendants [OF assms(1) clean] by simp
    then show False
      using Cons.prems(1) \<open>join_path base (don @ [s]) \<notin> set known\<close>
      by (simp only: top_missing_loop.simps Let_def pre) simp
  qed
  then have rest_None: "top_missing_loop known (join_path base (don @ [s])) rest = None"
    using Cons.prems(1) by (simp only: top_missing_loop.simps Let_def pre) simp
  obtain us' where us: "us = s # us'" "rest = us' @ vs"
    using Cons.prems(3,4) by (cases us) auto
  show ?case
  proof (cases "us' = []")
    case True
    with live us show ?thesis by simp
  next
    case False
    then show ?thesis
      using Cons.IH [OF rest_None, of us'] Cons.prems(2) us by simp
  qed
qed simp

section \<open>The loop over the inventory\<close>

text \<open>
  The loop's invariant: suppressed prefixes are planned deletions, every planned deletion is a
  topmost missing path with a resource at or below it, and every resource seen that is deletable
  and not live lies at or below a planned deletion.
\<close>

definition op_paths :: "RemoteDeleteOperation list \<Rightarrow> string set" where
  "op_paths ops = rd_remote_path ` set ops"

definition collect_inv ::
  "string \<Rightarrow> string list \<Rightarrow> string set \<Rightarrow> string list \<times> RemoteDeleteOperation list \<Rightarrow> bool" where
  "collect_inv base known seen acc =
     (set (fst acc) \<subseteq> op_paths (snd acc) \<and>
      (\<forall>p\<in>op_paths (snd acc). topmost base known p \<and> (\<exists>r\<in>seen. path_under p r)) \<and>
      (\<forall>r\<in>seen. deletable base r \<longrightarrow> r \<notin> set known \<longrightarrow> (\<exists>p\<in>op_paths (snd acc). path_under p r)))"

lemma op_paths_simps [simp]:
  "op_paths [] = {}"
  "op_paths (ops @ [delete_operation i base p t]) = insert p (op_paths ops)"
  by (auto simp: op_paths_def delete_operation_def)

text \<open>What the code decides for a resource that is neither suppressed nor live.\<close>

lemma missing_decision:
  assumes "live_tree base known" "normal_path base p" "p \<notin> set known"
  shows "case top_missing_remote_directory_prefix base p known of
      Some d \<Rightarrow> topmost base known d \<and> path_under d p
    | None \<Rightarrow> topmost base known p \<and> \<not> has_live_descendants known (trim_end_slash p @ ''/'')"
proof -
  obtain segs where segs: "segs \<noteq> []" "clean_segs segs" "p = join_path base segs"
    using assms(2) by (rule normalE)
  have base: "trim_end_slash base = base" using assms(1) by (simp add: live_tree_def)
  have split: "filter (\<lambda>s. s \<noteq> '''') (split_slash (relative_remote_path base p)) = segs"
    using segs base by (simp add: relative_join split_str_join filter_id_conv clean_segs_def)
  have last: "segs = butlast segs @ [last segs]" using segs(1) by simp
  have clean: "clean_segs (butlast segs)" using segs(2) last by (metis clean_segs_simps(3))
  have trim: "trim_end_slash p = p"
  proof (rule trim_end_slash_ident)
    have p: "p = join_path base (butlast segs) @ slash # last segs"
      unfolding segs(3) by (subst last) (rule join_path_snoc)
    have "last segs \<noteq> [] \<and> slash \<notin> set (last segs)"
      using segs(1,2) by (simp add: clean_segs_def)
    then show "last p \<noteq> slash" unfolding p by (auto dest: last_in_set)
    show "p \<noteq> []" unfolding p by simp
  qed
  show ?thesis
  proof (cases "top_missing_remote_directory_prefix base p known")
    case None
    have "topmost base known p"
      unfolding topmost_def
    proof (intro exI [of _ segs] conjI allI impI)
      fix us vs assume uv: "segs = us @ vs" "us \<noteq> []" "vs \<noteq> []"
      then have "\<not> length segs < 2" by (cases us; cases vs) auto
      then have "top_missing_loop known (join_path base []) (butlast segs) = None"
        using None by (simp add: top_missing_remote_directory_prefix_def Let_def split base)
      moreover have "butlast segs = us @ butlast vs" using uv by (simp add: butlast_append)
      ultimately show "join_path base us \<in> set known"
        using top_missing_loop_None [OF assms(1), of "[]" "butlast segs" us "butlast vs"] clean uv by simp
    qed (use segs assms(3) in auto)
    then show ?thesis
      unfolding trim using None no_live_descendants [OF assms(1) segs(2,1)] assms(3) segs(3) by simp
  next
    case (Some d)
    then have "top_missing_loop known (join_path base []) (butlast segs) = Some d"
      by (simp add: top_missing_remote_directory_prefix_def Let_def split base split: if_splits)
    then obtain us vs where "butlast segs = us @ vs" "d = join_path base us" "topmost base known d"
      using top_missing_loop_Some [OF assms(1), of "[]" "butlast segs" d] clean by auto
    then show ?thesis
      using Some join_path_under [of base us "vs @ [last segs]"] segs(3) last by (metis append_assoc option.simps(5))
  qed
qed

lemma suppressed_iff: "suppressed ps p \<longleftrightarrow> (\<exists>q\<in>set ps. path_under q p)"
  by (auto simp: suppressed_def list_ex_iff)

lemma collect_resource_inv:
  assumes tree: "live_tree base known"
    and normal: "deletable base (rs_path r) \<longrightarrow> normal_path base (rs_path r)"
    and inv: "collect_inv base known seen acc"
  shows "collect_inv base known (insert (rs_path r) seen) (collect_resource i base known r acc)"
proof (cases "remote_delete_candidate_relative_path base (rs_path r)")
  case (Inl e)
  then show ?thesis using inv by (auto simp: collect_resource_def collect_inv_def deletable_def)
next
  case (Inr rel)
  then have del: "deletable base (rs_path r)" by (auto simp: deletable_def)
  show ?thesis
  proof (cases "suppressed (fst acc) (rs_path r) \<or> rs_path r \<in> set known")
    case True
    then have "collect_resource i base known r acc = acc"
      using Inr by (auto simp: collect_resource_def)
    then show ?thesis
      using inv True unfolding collect_inv_def suppressed_iff by auto
  next
    case False
    note decision = missing_decision [OF tree _ , of "rs_path r"]
    show ?thesis
    proof (cases "top_missing_remote_directory_prefix base (rs_path r) known")
      case (Some d)
      then have d: "topmost base known d" "path_under d (rs_path r)"
        using decision normal del False by auto
      show ?thesis
      proof (cases "suppressed (fst acc) d")
        case True
        then have "suppressed (fst acc) (rs_path r)"
          using d(2) path_under_trans unfolding suppressed_iff by blast
        with False show ?thesis by blast
      next
        case fresh: False
        then have "collect_resource i base known r acc = collect_directory i base d acc"
          using Inr False Some by (simp add: collect_resource_def)
        then show ?thesis
          using inv d unfolding collect_inv_def collect_directory_def by auto
      qed
    next
      case None
      then have top: "topmost base known (rs_path r)"
        and dead: "\<not> has_live_descendants known (trim_end_slash (rs_path r) @ ''/'')"
        using decision normal del False by auto
      have "collect_resource i base known r acc = collect_directory i base (rs_path r) acc \<or>
          collect_resource i base known r acc =
            (fst acc, snd acc @ [delete_operation i base (rs_path r) (rs_resource_type r)])"
        using Inr False None by (simp add: collect_resource_def)
      then show ?thesis
        using inv top unfolding collect_inv_def collect_directory_def by auto
    qed
  qed
qed

lemma collect_fold_inv:
  assumes "live_tree base known"
    and "\<forall>r\<in>set rs. deletable base (rs_path r) \<longrightarrow> normal_path base (rs_path r)"
    and "collect_inv base known seen acc"
  shows "collect_inv base known (rs_path ` set rs \<union> seen) (fold (collect_resource i base known) rs acc)"
  using assms(2,3)
proof (induction rs arbitrary: seen acc)
  case (Cons r rs)
  have "collect_inv base known (insert (rs_path r) seen) (collect_resource i base known r acc)"
    using Cons.prems by (intro collect_resource_inv [OF assms(1)]) auto
  from Cons.IH [OF _ this] Cons.prems(1) show ?case by simp
qed simp

section \<open>What the plan deletes\<close>

definition live_paths :: "string \<Rightarrow> LiveScanPlan \<Rightarrow> string list" where
  "live_paths canonical plan =
     known_live_remote_paths canonical (lp_directories plan) (lp_files plan) (lp_deleted_subtrees plan)"

definition normal_inventory :: "string \<Rightarrow> (string, ResourceMetadata) btree \<Rightarrow> bool" where
  "normal_inventory canonical inventory =
     (\<forall>r\<in>set (bt_values inventory). deletable canonical (rs_path r) \<longrightarrow> normal_path canonical (rs_path r))"

lemma set_delete_candidates:
  "set (delete_candidates canonical inventory) = {r \<in> set (bt_values inventory). rs_path r \<noteq> canonical}"
  by (simp add: delete_candidates_def)

lemma collect_result_inv:
  assumes "live_tree canonical (live_paths canonical plan)" "normal_inventory canonical inventory"
  shows "collect_inv canonical (live_paths canonical plan)
      (rs_path ` {r \<in> set (bt_values inventory). rs_path r \<noteq> canonical})
      ([], collect_coalesced_delete_operations root canonical plan inventory)"
proof -
  let ?f = "fold (collect_resource (rc_id root) canonical (live_paths canonical plan))
      (delete_candidates canonical inventory) ([], [])"
  have "collect_inv canonical (live_paths canonical plan) {} ([], [])"
    by (simp add: collect_inv_def)
  from collect_fold_inv [OF assms(1) _ this, of "delete_candidates canonical inventory"]
  have inv: "collect_inv canonical (live_paths canonical plan)
      (rs_path ` set (delete_candidates canonical inventory)) ?f"
    using assms(2) by (simp add: normal_inventory_def set_delete_candidates)
  have "op_paths (collect_coalesced_delete_operations root canonical plan inventory) = op_paths (snd ?f)"
    by (simp add: collect_coalesced_delete_operations_def deepest_first_def op_paths_def live_paths_def)
  then show ?thesis
    using inv by (simp add: collect_inv_def set_delete_candidates)
qed

text \<open>
  Whatever the inventory holds, the deletions planned for a live tree spare it: none is a live
  path or a directory that a live path lies in, and each names a path strictly below the managed
  root, which itself is never deleted.
\<close>

theorem delete_plan_spares_live:
  assumes "live_tree canonical (live_paths canonical plan)" "normal_inventory canonical inventory"
    and "op \<in> set (collect_coalesced_delete_operations root canonical plan inventory)"
    and "k \<in> set (live_paths canonical plan)"
  shows "\<not> path_under (rd_remote_path op) k \<and> normal_path canonical (rd_remote_path op) \<and>
    rd_remote_path op \<noteq> canonical"
proof -
  have top: "topmost canonical (live_paths canonical plan) (rd_remote_path op)"
    using collect_result_inv [OF assms(1,2), of root] assms(3)
    by (auto simp: collect_inv_def op_paths_def)
  have "canonical \<in> set (live_paths canonical plan)"
    by (simp add: live_paths_def known_live_remote_paths_def)
  then show ?thesis
    using topmost_spares [OF assms(1) top] topmost_normal [OF assms(1) top] assms(4) path_under_refl by metis
qed

text \<open>
  The deletions are complete and exact: a remote resource below the managed root lies at or
  below a planned deletion exactly when it is not a live path.
\<close>

theorem delete_plan_exact:
  assumes "live_tree canonical (live_paths canonical plan)" "normal_inventory canonical inventory"
    and "r \<in> set (bt_values inventory)" "deletable canonical (rs_path r)"
  shows "(\<exists>op\<in>set (collect_coalesced_delete_operations root canonical plan inventory).
      path_under (rd_remote_path op) (rs_path r)) \<longleftrightarrow> rs_path r \<notin> set (live_paths canonical plan)"
proof
  assume "\<exists>op\<in>set (collect_coalesced_delete_operations root canonical plan inventory).
      path_under (rd_remote_path op) (rs_path r)"
  then obtain op where op: "op \<in> set (collect_coalesced_delete_operations root canonical plan inventory)"
      "path_under (rd_remote_path op) (rs_path r)" by blast
  have "topmost canonical (live_paths canonical plan) (rd_remote_path op)"
    using collect_result_inv [OF assms(1,2), of root] op(1) by (auto simp: collect_inv_def op_paths_def)
  then show "rs_path r \<notin> set (live_paths canonical plan)"
    using topmost_spares [OF assms(1)] op(2) by blast
next
  assume dead: "rs_path r \<notin> set (live_paths canonical plan)"
  have "canonical \<in> set (live_paths canonical plan)"
    by (simp add: live_paths_def known_live_remote_paths_def)
  with dead have "rs_path r \<noteq> canonical" by metis
  then show "\<exists>op\<in>set (collect_coalesced_delete_operations root canonical plan inventory).
      path_under (rd_remote_path op) (rs_path r)"
    using collect_result_inv [OF assms(1,2), of root] assms(3,4) dead
    by (fastforce simp: collect_inv_def op_paths_def)
qed

text \<open>
  C16. Deletions are coalesced: with live paths that form a tree (\<open>live_tree\<close>, which \<open>scan_live_tree\<close> gives for
  a scan of names without trailing blanks and backslashes) and candidates made of non-empty segments below the root
  (\<open>normal_inventory\<close>), no planned deletion lies below another, and they are carried out deepest first. Without the
  tree this is false: \<open>trailing_blank_deletions_nest\<close>.
\<close>

theorem delete_plan_coalesced:
  assumes "live_tree canonical (live_paths canonical plan)" "normal_inventory canonical inventory"
  shows "antichain path_under (map rd_remote_path
       (collect_coalesced_delete_operations root canonical plan inventory)) \<and>
     sorted (rev (map (\<lambda>op. slash_count (rd_remote_path op))
       (collect_coalesced_delete_operations root canonical plan inventory)))"
proof
  have "\<forall>op\<in>set (collect_coalesced_delete_operations root canonical plan inventory).
      topmost canonical (live_paths canonical plan) (rd_remote_path op)"
    using collect_result_inv [OF assms, of root] by (auto simp: collect_inv_def op_paths_def)
  then show "antichain path_under (map rd_remote_path
      (collect_coalesced_delete_operations root canonical plan inventory))"
    using topmost_antichain by (fastforce simp: antichain_def)
  have "sorted (rev (map (\<lambda>op. slash_count (rd_remote_path op)) (deepest_first ops)))" for ops
    by (simp add: deepest_first_def sort_desc_def rev_map)
  then show "sorted (rev (map (\<lambda>op. slash_count (rd_remote_path op))
      (collect_coalesced_delete_operations root canonical plan inventory)))"
    unfolding collect_coalesced_delete_operations_def Let_def by blast
qed

section \<open>Examples\<close>

definition inventory_of :: "ResourceMetadata list \<Rightarrow> (string, ResourceMetadata) btree" where
  "inventory_of rs = foldl (\<lambda>m r. bt_insert (rs_path r) r m) [] rs"

definition example_file :: "string \<Rightarrow> LocalFileEntry" where
  "example_file rel =
     \<lparr>lf_root_id = ''r'', lf_local_path = path_from (''/d/'' @ rel), lf_relative_path = rel,
      lf_remote_path = ''disk:/r/'' @ rel, lf_normalized_remote_path = ''disk:/r/'' @ rel,
      lf_upload_source = path_from (''/d/'' @ rel), lf_size_bytes = 1, lf_mtime_ns = None, lf_ctime_ns = None,
      lf_fingerprint = \<lparr>fp_kind = FpMetadata, fp_value = '''', fp_full_sha256 = None,
        fp_local_md5 = None, fp_reused_from_state = True\<rparr>,
      lf_sqlite_backup_staging_path = None\<rparr>"

definition example_root_config :: SyncRootConfig where
  "example_root_config =
     \<lparr>rc_id = ''r'', rc_name = ''r'', rc_enabled = True, rc_local_path = ''/d'',
      rc_remote_path_override = None, rc_legacy_remote_paths = [], rc_excludes = []\<rparr>"

definition example_plan :: LiveScanPlan where
  "example_plan =
     \<lparr>lp_root_id = ''r'', lp_root_local_path = ['''', ''d''], lp_files = [example_file ''a/x''],
      lp_directories = [example_dir ''a''], lp_deleted_subtrees = []\<rparr>"

definition example_inventory :: "(string, ResourceMetadata) btree" where
  "example_inventory = inventory_of
     [resource_directory ''disk:/r'', resource_directory ''disk:/r/a'', resource_file ''disk:/r/a/x'' 1,
      resource_file ''disk:/r/a/y'' 1, resource_directory ''disk:/r/old'', resource_file ''disk:/r/old/z'' 1]"

lemma example_tree: "live_tree ''disk:/r'' (live_paths ''disk:/r'' example_plan)"
  by code_simp

lemma deletable_code [code]:
  "deletable base p = (case remote_delete_candidate_relative_path base p of Inl _ \<Rightarrow> False | Inr _ \<Rightarrow> True)"
  by (auto simp: deletable_def split: sum.split)

lemma example_normal: "normal_inventory ''disk:/r'' example_inventory"
  by code_simp

theorem delete_plan_spares_live_witness:
  "\<not> path_under ''disk:/r/old'' ''disk:/r/a/x''"
proof -
  have "delete_operation ''r'' ''disk:/r'' ''disk:/r/old'' RtDirectory \<in>
      set (collect_coalesced_delete_operations example_root_config ''disk:/r'' example_plan example_inventory)"
    by code_simp
  moreover have "''disk:/r/a/x'' \<in> set (live_paths ''disk:/r'' example_plan)"
    by code_simp
  ultimately show ?thesis
    using delete_plan_spares_live [OF example_tree example_normal] by (fastforce simp: delete_operation_def)
qed

theorem delete_plan_exact_witness:
  "\<exists>op\<in>set (collect_coalesced_delete_operations example_root_config ''disk:/r'' example_plan example_inventory).
     path_under (rd_remote_path op) ''disk:/r/old/z''"
proof -
  have "resource_file ''disk:/r/old/z'' 1 \<in> set (bt_values example_inventory)"
    and "deletable ''disk:/r'' (rs_path (resource_file ''disk:/r/old/z'' 1))"
    and "rs_path (resource_file ''disk:/r/old/z'' 1) \<notin> set (live_paths ''disk:/r'' example_plan)"
    by code_simp+
  from delete_plan_exact [OF example_tree example_normal this(1,2), of example_root_config] this(3)
  show ?thesis by (simp add: resource_file_def)
qed

theorem delete_plan_coalesced_witness:
  "antichain path_under (map rd_remote_path
     (collect_coalesced_delete_operations example_root_config ''disk:/r'' example_plan example_inventory))"
  using delete_plan_coalesced [OF example_tree example_normal] by blast

text \<open>
  A file that is there but cannot be read during the scan (locked, or permission denied) is
  reported as skipped and is no live path, so its remote copy, uploaded by an earlier run, is
  planned for permanent deletion.
\<close>

definition locked_report :: ScanReport where
  "locked_report =
     (scan_report_new ''r'')\<lparr>sc_skipped :=
       [\<lparr>ss_root_id = ''r'', ss_local_path = path_from ''/d/locked.doc'', ss_relative_path = ''locked.doc'',
         ss_remote_path = Some ''disk:/r/locked.doc'', ss_reason_code = ''local_file_unavailable'',
         ss_reason_details = Some ''permission denied'', ss_size_bytes = Some 1\<rparr>]\<rparr>"

theorem unreadable_file_loses_remote_copy:
  "collect_coalesced_delete_operations example_root_config ''disk:/r''
     (from_scan_report (\<lambda>p. True) ['''', ''d''] locked_report)
     (inventory_of [resource_directory ''disk:/r'', resource_file ''disk:/r/locked.doc'' 1]) =
   [delete_operation ''r'' ''disk:/r'' ''disk:/r/locked.doc'' RtFile]"
  by code_simp

text \<open>
  Without the closure that \<open>live_tree\<close> asks for, the loop falls through to the deletion of a
  directory that it has just found to have live descendants.
\<close>

theorem live_descendants_deleted_without_tree:
  "collect_coalesced_delete_operations example_root_config ''disk:/r''
     (example_plan\<lparr>lp_directories := []\<rparr>)
     (inventory_of [resource_directory ''disk:/r'', resource_directory ''disk:/r/a'', resource_file ''disk:/r/a/x'' 1]) =
   [delete_operation ''r'' ''disk:/r'' ''disk:/r/a'' RtDirectory] \<and>
   ''disk:/r/a/x'' \<in> set (live_paths ''disk:/r'' (example_plan\<lparr>lp_directories := []\<rparr>))"
  by code_simp

end
