(* ===== verification/Sync_Plan.thy ===== *)
theory Sync_Plan
  imports Delete_Plan
begin

text \<open>
  \<open>crates/yds-sync/src/lib.rs\<close>: the operations planned for a root, the summaries and the status of a
  run, the records the engine writes to the state repository and the choice of upload batches.
\<close>

section \<open>Operations and summaries\<close>

datatype SyncPlanOperation =
    CreateDirectory LocalDirectoryEntry
  | UploadFileOp LocalFileEntry bool
  | DeleteRemote string string string ResourceType
    \<comment> \<open>root, remote path, relative path, type\<close>

definition ROOT_STATUS_SUCCEEDED :: string where "ROOT_STATUS_SUCCEEDED = ''succeeded''"
definition ROOT_STATUS_SKIPPED :: string where "ROOT_STATUS_SKIPPED = ''skipped''"
definition ROOT_STATUS_PARTIAL_FAILED :: string where "ROOT_STATUS_PARTIAL_FAILED = ''partial_failed''"
definition ROOT_STATUS_FAILED :: string where "ROOT_STATUS_FAILED = ''failed''"
definition ROOT_STATUS_CANCELLED :: string where "ROOT_STATUS_CANCELLED = ''cancelled''"

record RootSyncSummary =
  rt_root_id :: string
  rt_local_path :: string
  rt_canonical_remote_path :: string
  rt_status :: string
  rt_scanned_files :: i64
  rt_uploaded_files :: i64
  rt_updated_files :: i64
  rt_deleted_files :: i64
  rt_skipped_files :: i64
  rt_failed_files :: i64
  rt_bytes_uploaded :: i64
  rt_error_summary :: "string option"

definition create_directory_count :: "SyncPlanOperation list \<Rightarrow> nat" where
  "create_directory_count ops =
     length (filter (\<lambda>p. case p of CreateDirectory _ \<Rightarrow> True | _ \<Rightarrow> False) ops)"

definition upload_count :: "SyncPlanOperation list \<Rightarrow> nat" where
  "upload_count ops = length (filter (\<lambda>p. case p of UploadFileOp _ _ \<Rightarrow> True | _ \<Rightarrow> False) ops)"

definition delete_count :: "SyncPlanOperation list \<Rightarrow> nat" where
  "delete_count ops = length (filter (\<lambda>p. case p of DeleteRemote _ _ _ _ \<Rightarrow> True | _ \<Rightarrow> False) ops)"

definition plan_create_directories :: "SyncPlanOperation list \<Rightarrow> LocalDirectoryEntry list" where
  "plan_create_directories ops =
     List.map_filter (\<lambda>p. case p of CreateDirectory d \<Rightarrow> Some d | _ \<Rightarrow> None) ops"

definition plan_uploads :: "SyncPlanOperation list \<Rightarrow> (LocalFileEntry \<times> bool) list" where
  "plan_uploads ops =
     List.map_filter (\<lambda>p. case p of UploadFileOp f is_update \<Rightarrow> Some (f, is_update) | _ \<Rightarrow> None) ops"

text \<open>The \<open>u64\<close> sum wraps around in a release build.\<close>

definition plan_upload_bytes :: "SyncPlanOperation list \<Rightarrow> u64" where
  "plan_upload_bytes ops = sum_list (map (\<lambda>u. lf_size_bytes (fst u)) (plan_uploads ops))"

section \<open>The plan of a root\<close>

definition is_remote_type :: "ResourceType \<Rightarrow> string \<Rightarrow> (string, ResourceMetadata) btree \<Rightarrow> bool" where
  "is_remote_type t path inventory = (map_option rs_resource_type (bt_get inventory path) = Some t)"

definition root_directory_entry :: "SyncRootConfig \<Rightarrow> string \<Rightarrow> LocalDirectoryEntry" where
  "root_directory_entry root canonical =
     \<lparr>ld_root_id = rc_id root, ld_local_path = path_from (rc_local_path root), ld_relative_path = '''',
      ld_remote_path = canonical, ld_normalized_remote_path = to_lowercase canonical\<rparr>"

definition delete_order :: "SyncPlanOperation \<Rightarrow> nat \<times> string" where
  "delete_order p = (case p of DeleteRemote _ path _ _ \<Rightarrow> (slash_count path, path) | _ \<Rightarrow> (0, ''''))"

definition build_root_plan ::
  "SyncRootConfig \<Rightarrow> string \<Rightarrow> LiveScanPlan \<Rightarrow> (string, ResourceMetadata) btree \<Rightarrow> SyncPlanOperation list" where
  "build_root_plan root canonical live_plan inventory =
     (let creates = map CreateDirectory
            (filter (\<lambda>d. \<not> is_remote_type RtDirectory (ld_remote_path d) inventory)
              (root_directory_entry root canonical # lp_directories live_plan));
          uploads = map (\<lambda>f. UploadFileOp f (is_remote_type RtFile (lf_remote_path f) inventory))
            (filter (\<lambda>f. \<not> fp_reused_from_state (lf_fingerprint f) \<or>
                         \<not> is_remote_type RtFile (lf_remote_path f) inventory)
              (lp_files live_plan));
          deletes = map (\<lambda>d. DeleteRemote (rd_root_id d) (rd_remote_path d) (rd_relative_path d) (rd_resource_type d))
            (collect_coalesced_delete_operations root canonical live_plan inventory)
      in creates @ uploads @ sort_desc (fst \<circ> delete_order) (sort_key (snd \<circ> delete_order) deletes))"

text \<open>The first path, in order, whose normalised remote path was seen before.\<close>

fun collision_loop :: "(string, string) btree \<Rightarrow> (string \<times> string) list \<Rightarrow> string option" where
  "collision_loop seen [] = None"
| "collision_loop seen ((normalized, relative) # rest) =
     (case bt_get seen normalized of
        Some previous \<Rightarrow> Some (''canonical remote path collision between '' @ previous @ '' and '' @ relative)
      | None \<Rightarrow> collision_loop (bt_insert normalized relative seen) rest)"

definition normalized_paths :: "LocalDirectoryEntry list \<Rightarrow> LocalFileEntry list \<Rightarrow> (string \<times> string) list" where
  "normalized_paths directories files =
     map (\<lambda>d. (ld_normalized_remote_path d, ld_relative_path d)) directories @
     map (\<lambda>f. (lf_normalized_remote_path f, lf_relative_path f)) files"

definition local_remote_collision :: "LocalDirectoryEntry list \<Rightarrow> LocalFileEntry list \<Rightarrow> string option" where
  "local_remote_collision directories files = collision_loop [] (normalized_paths directories files)"

section \<open>Records for the state repository\<close>

definition remote_resource_record :: "string \<Rightarrow> ResourceMetadata \<Rightarrow> RemoteResourceRecord" where
  "remote_resource_record root_id r =
     \<lparr>rm_root_id = root_id, rm_remote_path = rs_path r,
      rm_resource_type = (case rs_resource_type r of RtFile \<Rightarrow> RrFile | RtDirectory \<Rightarrow> RrDir),
      rm_size_bytes = Option.bind (rs_size_bytes r) i64_try_from,
      rm_mtime_remote = rs_modified r, rm_remote_md5 = rs_md5 r\<rparr>"

definition cached_resource_to_metadata :: "string \<Rightarrow> RemoteResourceRecord \<Rightarrow> ResourceMetadata option" where
  "cached_resource_to_metadata canonical r =
     (if rm_remote_path r \<noteq> canonical \<and>
         strip_prefix (trim_end_slash canonical @ ''/'') (rm_remote_path r) = None
      then None
      else Some
        \<lparr>rs_path = rm_remote_path r, rs_name = last_remote_segment (rm_remote_path r),
         rs_resource_type = (case rm_resource_type r of RrFile \<Rightarrow> RtFile | RrDir \<Rightarrow> RtDirectory),
         rs_size_bytes = Option.bind (rm_size_bytes r) u64_try_from, rs_md5 = rm_remote_md5 r,
         rs_revision = None, rs_created = None, rs_modified = rm_mtime_remote r\<rparr>)"

definition file_state_record ::
  "LocalFileEntry \<Rightarrow> rowid \<Rightarrow> FileStateStatus \<Rightarrow> string option \<Rightarrow> FileStateRecord" where
  "file_state_record f run_id status last_error =
     \<lparr>fr_root_id = lf_root_id f, fr_local_path = path_to_stable_string (lf_local_path f),
      fr_relative_path = lf_relative_path f, fr_remote_path = lf_remote_path f,
      fr_normalized_remote_path = lf_normalized_remote_path f,
      fr_size_bytes = u64_to_i64 (lf_size_bytes f), fr_mtime_ns = lf_mtime_ns f, fr_ctime_ns = lf_ctime_ns f,
      fr_fingerprint_kind = FingerprintKind_as_str (fp_kind (lf_fingerprint f)),
      fr_fingerprint_value = Some (fp_value (lf_fingerprint f)),
      fr_full_sha256 = fp_full_sha256 (lf_fingerprint f), fr_remote_etag = None,
      fr_remote_md5 = fp_local_md5 (lf_fingerprint f), fr_last_run_id = Some run_id,
      fr_status = status, fr_last_error = last_error\<rparr>"

definition file_status_after_upload :: "fs_view \<Rightarrow> LocalFileEntry \<Rightarrow> FileStateStatus" where
  "file_status_after_upload fs f =
     (case fv_metadata fs (lf_local_path f) of
        None \<Rightarrow> FsSyncedChangedDuringUpload
      | Some (len, mtime) \<Rightarrow>
          if len \<noteq> lf_size_bytes f \<or> mtime \<noteq> lf_mtime_ns f
          then FsSyncedChangedDuringUpload else FsSynced)"

section \<open>Batches, depth, status\<close>

definition relative_depth :: "string \<Rightarrow> nat" where
  "relative_depth rel = (if rel = '''' then 0 else slash_count rel + 1)"

text \<open>The loop of \<open>take_upload_batch\<close>: the files selected and deferred so far, whether a large one is in.\<close>

fun take_batch_loop ::
  "nat \<Rightarrow> u64 \<Rightarrow> (LocalFileEntry \<times> bool) list \<Rightarrow> (LocalFileEntry \<times> bool) list \<Rightarrow> bool \<Rightarrow>
   (LocalFileEntry \<times> bool) list \<Rightarrow> (LocalFileEntry \<times> bool) list \<times> (LocalFileEntry \<times> bool) list" where
  "take_batch_loop limit large_threshold selected deferred large_used [] = (selected, deferred)"
| "take_batch_loop limit large_threshold selected deferred large_used (c # pending) =
     (let is_large = large_threshold \<le> lf_size_bytes (fst c)
      in if length selected < limit \<and> (\<not> is_large \<or> \<not> large_used)
         then take_batch_loop limit large_threshold (selected @ [c]) deferred (large_used \<or> is_large) pending
         else take_batch_loop limit large_threshold selected (deferred @ [c]) large_used pending)"

text \<open>The batch and what stays pending.\<close>

definition take_upload_batch ::
  "(LocalFileEntry \<times> bool) list \<Rightarrow> nat \<Rightarrow> u64 \<Rightarrow> (LocalFileEntry \<times> bool) list \<times> (LocalFileEntry \<times> bool) list" where
  "take_upload_batch pending limit large_threshold = take_batch_loop limit large_threshold [] [] False pending"

definition is_stop_error :: "YandexDiskErrorKind \<Rightarrow> bool" where
  "is_stop_error k = (k = YkAuthUnavailable \<or> k = YkQuotaExceeded \<or> k = YkCritical)"

definition status_from_summary :: "SyncRunSummary \<Rightarrow> RootSyncSummary list \<Rightarrow> SyncRunStatus" where
  "status_from_summary summary roots =
     (if list_ex (\<lambda>r. rt_status r = ROOT_STATUS_FAILED) roots then RunFailed
      else if list_ex (\<lambda>r. rt_status r = ROOT_STATUS_SKIPPED \<or> rt_status r = ROOT_STATUS_PARTIAL_FAILED) roots
      then RunPartialFailed
      else if i64_pos (su_failed_files summary)
      then (if i64_pos (su_uploaded_files summary) \<or> i64_pos (su_updated_files summary) \<or>
               i64_pos (su_deleted_files summary)
            then RunPartialFailed else RunFailed)
      else RunSucceeded)"

definition add_root_summary :: "SyncRunSummary \<Rightarrow> RootSyncSummary \<Rightarrow> SyncRunSummary" where
  "add_root_summary acc root =
     \<lparr>su_scanned_files = su_scanned_files acc + rt_scanned_files root,
      su_uploaded_files = su_uploaded_files acc + rt_uploaded_files root,
      su_updated_files = su_updated_files acc + rt_updated_files root,
      su_deleted_files = su_deleted_files acc + rt_deleted_files root,
      su_skipped_files = su_skipped_files acc + rt_skipped_files root,
      su_failed_files = su_failed_files acc + rt_failed_files root,
      su_bytes_uploaded = su_bytes_uploaded acc + rt_bytes_uploaded root,
      su_error_summary =
        (case su_error_summary acc of None \<Rightarrow> rt_error_summary root | Some e \<Rightarrow> Some e)\<rparr>"

record UploadTaskFailure =
  uf_error_kind :: string
  uf_error_message :: string
  uf_should_stop :: bool
  uf_skip_reason_code :: "string option"

definition upload_failure :: "YandexDiskError \<Rightarrow> UploadTaskFailure" where
  "upload_failure e =
     \<lparr>uf_error_kind = YandexDiskErrorKind_as_str (ye_kind e), uf_error_message = ye_message e,
      uf_should_stop = is_stop_error (ye_kind e),
      uf_skip_reason_code =
        (if is_persistent_uploader_conflict e then Some ''remote_uploader_content_conflict''
         else if is_local_upload_source_unavailable e then Some ''local_file_unavailable''
         else None)\<rparr>"

section \<open>Upload batches\<close>

definition is_large_upload :: "u64 \<Rightarrow> LocalFileEntry \<times> bool \<Rightarrow> bool" where
  "is_large_upload threshold c = (threshold \<le> lf_size_bytes (fst c))"

text \<open>\<open>merged xs ys zs\<close>: the list \<open>zs\<close> is an interleaving of \<open>xs\<close> and \<open>ys\<close> that keeps both orders.\<close>

lemma batch_loop_interleaving:
  assumes "take_batch_loop limit th sel def used pending = (sel', def')"
  shows "\<exists>xs ys. sel' = sel @ xs \<and> def' = def @ ys \<and> pending \<in> shuffles xs ys"
  using assms
proof (induction limit th sel "def" used pending rule: take_batch_loop.induct)
  case (2 limit th sel "def" used c pending)
  let ?take = "length sel < limit \<and> (\<not> th \<le> lf_size_bytes (fst c) \<or> \<not> used)"
  show ?case
  proof (cases ?take)
    case True
    then obtain xs ys where "sel' = (sel @ [c]) @ xs" "def' = def @ ys" "pending \<in> shuffles xs ys"
      using 2 by (auto simp: Let_def)
    then show ?thesis
      by (intro exI [of _ "c # xs"] exI [of _ ys]) (auto intro: Cons_in_shuffles_leftI)
  next
    case False
    then obtain xs ys where "sel' = sel @ xs" "def' = (def @ [c]) @ ys" "pending \<in> shuffles xs ys"
      using 2 by (auto simp: Let_def)
    then show ?thesis
      by (intro exI [of _ xs] exI [of _ "c # ys"]) (auto intro: Cons_in_shuffles_rightI)
  qed
qed simp

lemma batch_loop_bounds:
  assumes "take_batch_loop limit th sel def used pending = (sel', def')"
    and "length sel \<le> limit" "length (filter (is_large_upload th) sel) \<le> (if used then 1 else 0)"
  shows "length sel' \<le> limit \<and> length (filter (is_large_upload th) sel') \<le> 1"
  using assms
proof (induction limit th sel "def" used pending rule: take_batch_loop.induct)
  case (2 limit th sel "def" used c pending)
  then show ?case
    by (auto simp: Let_def is_large_upload_def split: if_splits)
qed (auto split: if_splits)

text \<open>
  C19. A batch of uploads has at most the limit of files, at most one of them large, and with a
  limit of at least one it is not empty while files are pending; the batch and the files that stay
  pending together are the pending files, both in their order.
\<close>

theorem take_upload_batch_spec:
  assumes "take_upload_batch pending limit th = (batch, rest)"
  shows "length batch \<le> limit \<and> length (filter (is_large_upload th) batch) \<le> 1 \<and>
    pending \<in> shuffles batch rest \<and> (pending = [] \<or> limit = 0 \<or> batch \<noteq> [])"
proof -
  have split: "pending \<in> shuffles batch rest"
    using batch_loop_interleaving [OF assms [unfolded take_upload_batch_def]] by simp
  have bounds: "length batch \<le> limit \<and> length (filter (is_large_upload th) batch) \<le> 1"
    using batch_loop_bounds [OF assms [unfolded take_upload_batch_def]] by simp
  have "batch \<noteq> []" if ne: "pending \<noteq> []" and lim: "limit \<noteq> 0"
  proof -
    obtain c cs where c: "pending = c # cs" using ne by (cases pending) auto
    have "take_batch_loop limit th [c] [] (th \<le> lf_size_bytes (fst c)) cs = (batch, rest)"
      using assms lim by (simp add: take_upload_batch_def c Let_def)
    then show ?thesis using batch_loop_interleaving by fastforce
  qed
  with split bounds show ?thesis by blast
qed

definition sized_file :: "string \<Rightarrow> u64 \<Rightarrow> LocalFileEntry \<times> bool" where
  "sized_file rel n = ((example_file rel)\<lparr>lf_size_bytes := n\<rparr>, False)"

theorem take_upload_batch_spec_witness:
  "take_upload_batch [sized_file ''a'' 9, sized_file ''b'' 9, sized_file ''c'' 1] 2 5 =
     ([sized_file ''a'' 9, sized_file ''c'' 1], [sized_file ''b'' 9]) \<and>
   [sized_file ''a'' 9, sized_file ''b'' 9, sized_file ''c'' 1] \<in>
     shuffles [sized_file ''a'' 9, sized_file ''c'' 1] [sized_file ''b'' 9]"
proof -
  have "take_upload_batch [sized_file ''a'' 9, sized_file ''b'' 9, sized_file ''c'' 1] 2 5 =
     ([sized_file ''a'' 9, sized_file ''c'' 1], [sized_file ''b'' 9])"
    by code_simp
  from this take_upload_batch_spec [OF this] show ?thesis by blast
qed

section \<open>Collisions\<close>

lemma collision_loop_None_iff:
  "collision_loop seen ps = None \<longleftrightarrow>
     distinct (map fst ps) \<and> (\<forall>p\<in>set ps. bt_get seen (fst p) = None)"
proof (induction seen ps rule: collision_loop.induct)
  case (2 seen normalized relative rest)
  then show ?case by (force split: option.splits)
qed simp

text \<open>
  No collision is reported exactly when the directories and files of the live plan have
  pairwise different normalised remote paths, that is, paths that differ other than in case.
\<close>

theorem local_remote_collision_iff:
  "local_remote_collision directories files = None \<longleftrightarrow>
     distinct (map ld_normalized_remote_path directories @ map lf_normalized_remote_path files)"
  by (simp add: local_remote_collision_def collision_loop_None_iff normalized_paths_def comp_def)

section \<open>The plan\<close>

lemma map_filter_append: "List.map_filter f (xs @ ys) = List.map_filter f xs @ List.map_filter f ys"
  by (simp add: List.map_filter_def)

lemma map_filter_none: "(\<And>x. x \<in> set xs \<Longrightarrow> f x = None) \<Longrightarrow> List.map_filter f xs = []"
  by (induction xs) (auto simp: List.map_filter_simps)

lemma map_filter_map_Some: "(\<And>x. f (g x) = Some (h x)) \<Longrightarrow> List.map_filter f (map g xs) = map h xs"
  by (induction xs) (auto simp: List.map_filter_simps)

definition needs_upload :: "(string, ResourceMetadata) btree \<Rightarrow> LocalFileEntry \<Rightarrow> bool" where
  "needs_upload inventory f =
     (\<not> fp_reused_from_state (lf_fingerprint f) \<or> \<not> is_remote_type RtFile (lf_remote_path f) inventory)"

text \<open>
  The plan of a root creates exactly the live directories (the root first) that the inventory
  does not hold as directories, uploads exactly the live files that changed or have no remote
  file, an upload being an update exactly when a remote file is there, and deletes exactly the
  coalesced deletions, after everything else.
\<close>

theorem build_root_plan_spec:
  "plan_create_directories (build_root_plan root canonical live inventory) =
     filter (\<lambda>d. \<not> is_remote_type RtDirectory (ld_remote_path d) inventory)
       (root_directory_entry root canonical # lp_directories live) \<and>
   plan_uploads (build_root_plan root canonical live inventory) =
     map (\<lambda>f. (f, is_remote_type RtFile (lf_remote_path f) inventory)) (filter (needs_upload inventory) (lp_files live)) \<and>
   set (drop (create_directory_count (build_root_plan root canonical live inventory) +
              upload_count (build_root_plan root canonical live inventory))
          (build_root_plan root canonical live inventory)) =
     (\<lambda>d. DeleteRemote (rd_root_id d) (rd_remote_path d) (rd_relative_path d) (rd_resource_type d)) `
       set (collect_coalesced_delete_operations root canonical live inventory)"
proof -
  let ?c = "map CreateDirectory (filter (\<lambda>d. \<not> is_remote_type RtDirectory (ld_remote_path d) inventory)
      (root_directory_entry root canonical # lp_directories live))"
  let ?u = "map (\<lambda>f. UploadFileOp f (is_remote_type RtFile (lf_remote_path f) inventory))
      (filter (needs_upload inventory) (lp_files live))"
  let ?del = "\<lambda>d. DeleteRemote (rd_root_id d) (rd_remote_path d) (rd_relative_path d) (rd_resource_type d)"
  let ?ds = "sort_desc (fst \<circ> delete_order) (sort_key (snd \<circ> delete_order)
      (map ?del (collect_coalesced_delete_operations root canonical live inventory)))"
  have plan: "build_root_plan root canonical live inventory = ?c @ ?u @ ?ds"
    by (simp add: build_root_plan_def needs_upload_def [abs_def] Let_def)
  have del: "set ?ds = ?del ` set (collect_coalesced_delete_operations root canonical live inventory)"
    by simp
  then have isdel: "\<exists>a b c t. p = DeleteRemote a b c t" if "p \<in> set ?ds" for p
    using that by auto
  have none: "plan_create_directories ?ds = []" "plan_uploads ?ds = []"
    "filter (\<lambda>p. case p of CreateDirectory _ \<Rightarrow> True | _ \<Rightarrow> False) ?ds = []"
    "filter (\<lambda>p. case p of UploadFileOp _ _ \<Rightarrow> True | _ \<Rightarrow> False) ?ds = []"
    unfolding plan_create_directories_def plan_uploads_def filter_empty_conv
    using isdel by (fastforce intro: map_filter_none)+
  have "plan_create_directories ?c = filter (\<lambda>d. \<not> is_remote_type RtDirectory (ld_remote_path d) inventory)
      (root_directory_entry root canonical # lp_directories live)" "plan_create_directories ?u = []"
    "plan_uploads ?c = []"
    "plan_uploads ?u = map (\<lambda>f. (f, is_remote_type RtFile (lf_remote_path f) inventory)) (filter (needs_upload inventory) (lp_files live))"
    unfolding plan_create_directories_def plan_uploads_def
    by (auto simp: map_filter_map_Some [where h = "\<lambda>x. x"] map_filter_map_Some intro!: map_filter_none)
  moreover have "create_directory_count (?c @ ?u @ ?ds) + upload_count (?c @ ?u @ ?ds) = length (?c @ ?u)"
    unfolding create_directory_count_def upload_count_def filter_append none
    by (simp add: filter_empty_conv comp_def del: filter.simps)
  moreover have "drop (length (?c @ ?u)) (?c @ ?u @ ?ds) = ?ds"
    by (simp only: append_assoc [symmetric] drop_append) simp
  ultimately show ?thesis
    unfolding plan using del none
    by (simp only: plan_create_directories_def plan_uploads_def map_filter_append append_Nil append_Nil2 simp_thms)
qed

end
