(* ===== verification/State_Lock.thy ===== *)
theory State_Lock
  imports State_Repo
begin

text \<open>
  \<open>crates/yds-state/src/lib.rs\<close>: the run lock, a row of \<open>state_locks\<close> that one process at a time
  holds, and that another may take over once its heartbeat is older than the stale limit. A step
  relation runs any number of processes against the one database; it shows the lock exclusive
  among the holders whose heartbeat is not stale.
\<close>

section \<open>Operations\<close>

definition lock_guard :: "string \<Rightarrow> string \<Rightarrow> RunLockGuard" where
  "lock_guard owner now_text =
     \<lparr>lg_name = RUN_LOCK_NAME, lg_owner = owner, lg_acquired_at_utc = now_text\<rparr>"

definition try_acquire_run_lock ::
  "(int \<Rightarrow> string) \<Rightarrow> string \<Rightarrow> int \<Rightarrow> int \<Rightarrow> RunLockGuard option repo" where
  "try_acquire_run_lock utc_text owner now stale_after = (\<lambda>d.
     let now_text = utc_text now;
         stale_before = now - stale_after
     in if \<forall>r\<in>set (db_state_locks d). lw_name r \<noteq> RUN_LOCK_NAME
        then (Inr (Some (lock_guard owner now_text)),
              d\<lparr>db_state_locks := db_state_locks d @
                  [\<lparr>lw_name = RUN_LOCK_NAME, lw_owner = owner, lw_acquired_at_utc = now_text,
                    lw_heartbeat_at_utc = now_text, lw_heartbeat_unix_seconds = now\<rparr>]\<rparr>)
        else let (n, rows) = tbl_update
                   (\<lambda>r. lw_name r = RUN_LOCK_NAME \<and> lw_heartbeat_unix_seconds r < stale_before)
                   (\<lambda>r. r\<lparr>lw_owner := owner, lw_acquired_at_utc := now_text,
                           lw_heartbeat_at_utc := now_text, lw_heartbeat_unix_seconds := now\<rparr>)
                   (db_state_locks d)
             in (Inr (if n = 1 then Some (lock_guard owner now_text) else None),
                 d\<lparr>db_state_locks := rows\<rparr>))"

definition heartbeat_run_lock :: "(int \<Rightarrow> string) \<Rightarrow> RunLockGuard \<Rightarrow> int \<Rightarrow> bool repo" where
  "heartbeat_run_lock utc_text guard now = (\<lambda>d.
     let (n, rows) = tbl_update (\<lambda>r. lw_name r = lg_name guard \<and> lw_owner r = lg_owner guard)
           (\<lambda>r. r\<lparr>lw_heartbeat_at_utc := utc_text now, lw_heartbeat_unix_seconds := now\<rparr>)
           (db_state_locks d)
     in (Inr (n = 1), d\<lparr>db_state_locks := rows\<rparr>))"

definition release_run_lock :: "RunLockGuard \<Rightarrow> bool repo" where
  "release_run_lock guard = (\<lambda>d.
     let (n, rows) = tbl_delete (\<lambda>r. lw_name r = lg_name guard \<and> lw_owner r = lg_owner guard)
           (db_state_locks d)
     in (Inr (n = 1), d\<lparr>db_state_locks := rows\<rparr>))"

section \<open>Facts on the one row of the lock\<close>

definition run_lock_row :: "db \<Rightarrow> lock_row option" where
  "run_lock_row d = tbl_find lw_name RUN_LOCK_NAME (db_state_locks d)"

definition locks_ok :: "db \<Rightarrow> bool" where
  "locks_ok d = tbl_keyed lw_name (db_state_locks d)"

lemma run_lock_row_iff:
  "locks_ok d \<Longrightarrow> run_lock_row d = Some r \<longleftrightarrow> r \<in> set (db_state_locks d) \<and> lw_name r = RUN_LOCK_NAME"
  unfolding locks_ok_def run_lock_row_def by (rule tbl_find_Some_iff)

lemma run_lock_row_None:
  "run_lock_row d = None \<longleftrightarrow> (\<forall>r\<in>set (db_state_locks d). lw_name r \<noteq> RUN_LOCK_NAME)"
  by (simp add: run_lock_row_def tbl_find_None_iff)

text \<open>A statement whose condition names the lock touches its row and no other.\<close>

lemma keyed_count:
  assumes "tbl_keyed lw_name rows" and "\<And>r. p r \<Longrightarrow> lw_name r = k"
  shows "length (filter p rows) =
    (case tbl_find lw_name k rows of None \<Rightarrow> 0 | Some r \<Rightarrow> if p r then 1 else 0)"
  using assms(1)
proof (induction rows)
  case (Cons r rows)
  have tail: "lw_name r = k \<Longrightarrow> filter p rows = []"
    using Cons.prems assms(2) by (auto simp: tbl_keyed_def filter_empty_conv image_iff)
  show ?case
    using Cons assms(2) tail by (auto simp: tbl_find_Cons tbl_keyed_def)
qed simp

lemma tbl_find_delete:
  assumes "tbl_keyed lw_name rows"
  shows "tbl_find lw_name k (filter (\<lambda>r. \<not> p r) rows) =
    (case tbl_find lw_name k rows of None \<Rightarrow> None | Some r \<Rightarrow> if p r then None else Some r)"
  using assms
proof (induction rows)
  case (Cons r rows)
  have "lw_name r = k \<Longrightarrow> tbl_find lw_name k rows = None"
    using Cons.prems by (auto simp: tbl_keyed_def tbl_find_None_iff image_iff)
  then show ?case
    using Cons by (auto simp: tbl_find_Cons tbl_keyed_def)
qed simp

definition lock_row_of :: "(int \<Rightarrow> string) \<Rightarrow> string \<Rightarrow> int \<Rightarrow> lock_row" where
  "lock_row_of utc_text owner now =
     \<lparr>lw_name = RUN_LOCK_NAME, lw_owner = owner, lw_acquired_at_utc = utc_text now,
      lw_heartbeat_at_utc = utc_text now, lw_heartbeat_unix_seconds = now\<rparr>"

definition acquirable :: "int \<Rightarrow> int \<Rightarrow> db \<Rightarrow> bool" where
  "acquirable now stale_after d =
     (case run_lock_row d of None \<Rightarrow> True
      | Some r \<Rightarrow> lw_heartbeat_unix_seconds r < now - stale_after)"

lemma try_acquire_free:
  assumes "run_lock_row d = None"
  shows "try_acquire_run_lock utc_text owner now stale_after d =
    (Inr (Some (lock_guard owner (utc_text now))),
     d\<lparr>db_state_locks := db_state_locks d @ [lock_row_of utc_text owner now]\<rparr>)"
  using assms unfolding run_lock_row_None
  by (simp add: try_acquire_run_lock_def lock_row_of_def Let_def)

lemma try_acquire_taken:
  assumes "run_lock_row d = Some r"
  shows "try_acquire_run_lock utc_text owner now stale_after d =
    (let (n, rows) = tbl_update
           (\<lambda>r. lw_name r = RUN_LOCK_NAME \<and> lw_heartbeat_unix_seconds r < now - stale_after)
           (\<lambda>r. r\<lparr>lw_owner := owner, lw_acquired_at_utc := utc_text now,
                   lw_heartbeat_at_utc := utc_text now, lw_heartbeat_unix_seconds := now\<rparr>)
           (db_state_locks d)
     in (Inr (if n = 1 then Some (lock_guard owner (utc_text now)) else None),
         d\<lparr>db_state_locks := rows\<rparr>))"
proof -
  have "\<not> (\<forall>r\<in>set (db_state_locks d). lw_name r \<noteq> RUN_LOCK_NAME)"
    using assms by (simp flip: run_lock_row_None)
  then show ?thesis unfolding try_acquire_run_lock_def Let_def by (simp only: if_False)
qed

lemma try_acquire_run_lock_eq:
  assumes ok: "locks_ok d" and "try_acquire_run_lock utc_text owner now stale_after d = (res, d')"
  shows "res = Inr (if acquirable now stale_after d then Some (lock_guard owner (utc_text now)) else None)"
    and "run_lock_row d' =
      (if acquirable now stale_after d then Some (lock_row_of utc_text owner now) else run_lock_row d)"
    and "locks_ok d'"
proof -
  let ?p = "\<lambda>r. lw_name r = RUN_LOCK_NAME \<and> lw_heartbeat_unix_seconds r < now - stale_after"
  let ?f = "\<lambda>r. r\<lparr>lw_owner := owner, lw_acquired_at_utc := utc_text now,
                   lw_heartbeat_at_utc := utc_text now, lw_heartbeat_unix_seconds := now\<rparr>"
  let ?g = "\<lambda>r. if ?p r then ?f r else r"
  have keyed: "tbl_keyed lw_name (db_state_locks d)"
    using ok by (simp add: locks_ok_def)
  have "res = Inr (if acquirable now stale_after d then Some (lock_guard owner (utc_text now)) else None)
      \<and> run_lock_row d' =
        (if acquirable now stale_after d then Some (lock_row_of utc_text owner now) else run_lock_row d)
      \<and> locks_ok d'"
  proof (cases "run_lock_row d")
    case None
    then have "tbl_find lw_name RUN_LOCK_NAME (db_state_locks d) = None"
      and "RUN_LOCK_NAME \<notin> lw_name ` set (db_state_locks d)"
      by (auto simp: run_lock_row_def tbl_find_None_iff)
    then show ?thesis
      using assms(2) None keyed
      by (auto simp: try_acquire_free acquirable_def run_lock_row_def tbl_find_append tbl_find_Cons
        lock_row_of_def locks_ok_def tbl_keyed_def)
  next
    case (Some r)
    have name: "lw_name r = RUN_LOCK_NAME"
      using Some run_lock_row_iff [OF ok] by blast
    have count: "length (filter ?p (db_state_locks d)) = (if ?p r then 1 else 0)"
      using keyed_count [OF keyed, of ?p RUN_LOCK_NAME] Some by (simp add: run_lock_row_def)
    have found: "tbl_find lw_name RUN_LOCK_NAME (map ?g (db_state_locks d)) = Some (?g r)"
      using Some by (subst tbl_find_map_same) (auto simp: run_lock_row_def)
    have keyed': "tbl_keyed lw_name (map ?g (db_state_locks d))"
      using keyed by (subst tbl_keyed_map) auto
    have d': "d' = d\<lparr>db_state_locks := map ?g (db_state_locks d)\<rparr>"
      and res: "res = Inr (if length (filter ?p (db_state_locks d)) = 1
                 then Some (lock_guard owner (utc_text now)) else None)"
      using assms(2) unfolding try_acquire_taken [OF Some] tbl_update_def by auto
    show ?thesis
      unfolding res count d' using found keyed' name Some
      by (simp add: run_lock_row_def locks_ok_def acquirable_def lock_row_of_def)
  qed
  then show "res = Inr (if acquirable now stale_after d then Some (lock_guard owner (utc_text now)) else None)"
    and "run_lock_row d' =
      (if acquirable now stale_after d then Some (lock_row_of utc_text owner now) else run_lock_row d)"
    and "locks_ok d'" by blast+
qed

lemma heartbeat_run_lock_eq:
  assumes "locks_ok d" and "heartbeat_run_lock utc_text (lock_guard owner t) now d = (res, d')"
  shows "res = Inr (\<exists>r. run_lock_row d = Some r \<and> lw_owner r = owner)"
    and "run_lock_row d' = map_option (\<lambda>r. if lw_owner r = owner
           then r\<lparr>lw_heartbeat_at_utc := utc_text now, lw_heartbeat_unix_seconds := now\<rparr> else r)
         (run_lock_row d)"
    and "locks_ok d'"
proof -
  let ?p = "\<lambda>r. lw_name r = RUN_LOCK_NAME \<and> lw_owner r = owner"
  let ?f = "\<lambda>r. r\<lparr>lw_heartbeat_at_utc := utc_text now, lw_heartbeat_unix_seconds := now\<rparr>"
  let ?g = "\<lambda>r. if ?p r then ?f r else r"
  have keyed: "tbl_keyed lw_name (db_state_locks d)"
    using assms(1) by (simp add: locks_ok_def)
  have count: "length (filter ?p (db_state_locks d)) = (case run_lock_row d of None \<Rightarrow> 0 | Some r \<Rightarrow> if ?p r then 1 else 0)"
    unfolding run_lock_row_def by (rule keyed_count [OF keyed]) auto
  have name: "run_lock_row d = Some r \<Longrightarrow> lw_name r = RUN_LOCK_NAME" for r
    using run_lock_row_iff [OF assms(1)] by blast
  have found: "tbl_find lw_name RUN_LOCK_NAME (map ?g (db_state_locks d)) = map_option ?g (run_lock_row d)"
    unfolding run_lock_row_def by (rule tbl_find_map_same) auto
  have d': "db_state_locks d' = map ?g (db_state_locks d)"
    and res: "res = Inr (length (filter ?p (db_state_locks d)) = 1)"
    using assms(2) by (auto simp: heartbeat_run_lock_def tbl_update_def lock_guard_def)
  show "res = Inr (\<exists>r. run_lock_row d = Some r \<and> lw_owner r = owner)"
    unfolding res count using name by (auto split: option.split)
  show "run_lock_row d' = map_option (\<lambda>r. if lw_owner r = owner then ?f r else r) (run_lock_row d)"
    using found name d' by (cases "run_lock_row d") (auto simp: run_lock_row_def)
  show "locks_ok d'"
    unfolding locks_ok_def d' using keyed by (subst tbl_keyed_map) auto
qed

lemma release_run_lock_eq:
  assumes "locks_ok d" and "release_run_lock (lock_guard owner t) d = (res, d')"
  shows "res = Inr (\<exists>r. run_lock_row d = Some r \<and> lw_owner r = owner)"
    and "run_lock_row d' = (case run_lock_row d of None \<Rightarrow> None
         | Some r \<Rightarrow> if lw_owner r = owner then None else Some r)"
    and "locks_ok d'"
proof -
  let ?p = "\<lambda>r. lw_name r = RUN_LOCK_NAME \<and> lw_owner r = owner"
  have keyed: "tbl_keyed lw_name (db_state_locks d)"
    using assms(1) by (simp add: locks_ok_def)
  have count: "length (filter ?p (db_state_locks d)) = (case run_lock_row d of None \<Rightarrow> 0 | Some r \<Rightarrow> if ?p r then 1 else 0)"
    unfolding run_lock_row_def by (rule keyed_count [OF keyed]) auto
  have name: "run_lock_row d = Some r \<Longrightarrow> lw_name r = RUN_LOCK_NAME" for r
    using run_lock_row_iff [OF assms(1)] by blast
  have d': "db_state_locks d' = filter (\<lambda>r. \<not> ?p r) (db_state_locks d)"
    and res: "res = Inr (length (filter ?p (db_state_locks d)) = 1)"
    using assms(2) by (auto simp: release_run_lock_def tbl_delete_def lock_guard_def)
  show "res = Inr (\<exists>r. run_lock_row d = Some r \<and> lw_owner r = owner)"
    unfolding res count using name by (auto split: option.split)
  show "run_lock_row d' = (case run_lock_row d of None \<Rightarrow> None
         | Some r \<Rightarrow> if lw_owner r = owner then None else Some r)"
    unfolding run_lock_row_def d' tbl_find_delete [OF keyed]
    using name by (auto simp: run_lock_row_def split: option.split)
  show "locks_ok d'"
    unfolding locks_ok_def d' by (rule tbl_keyed_filter [OF keyed])
qed

section \<open>Processes and the lock\<close>

text \<open>
  The database, the clock and, for every owner that believes it holds the lock, the time of its
  last successful acquisition or heartbeat. An owner is a fresh identifier, so an owner that holds
  the lock does not acquire it again.
\<close>

record lock_system =
  ls_db :: db
  ls_now :: int
  ls_held :: "string \<Rightarrow> int option"

inductive lock_step :: "(int \<Rightarrow> string) \<Rightarrow> int \<Rightarrow> lock_system \<Rightarrow> lock_system \<Rightarrow> bool"
  for utc_text stale_after where
  tick: "0 \<le> dt \<Longrightarrow> lock_step utc_text stale_after s (s\<lparr>ls_now := ls_now s + dt\<rparr>)"
| acquire: "ls_held s owner = None \<Longrightarrow>
    try_acquire_run_lock utc_text owner (ls_now s) stale_after (ls_db s) = (Inr g, d) \<Longrightarrow>
    lock_step utc_text stale_after s
      (s\<lparr>ls_db := d, ls_held := (if g = None then ls_held s else (ls_held s)(owner := Some (ls_now s)))\<rparr>)"
| heartbeat: "ls_held s owner = Some t \<Longrightarrow>
    heartbeat_run_lock utc_text (lock_guard owner at) (ls_now s) (ls_db s) = (Inr b, d) \<Longrightarrow>
    lock_step utc_text stale_after s
      (s\<lparr>ls_db := d, ls_held := (if b then (ls_held s)(owner := Some (ls_now s)) else ls_held s)\<rparr>)"
| release: "ls_held s owner = Some t \<Longrightarrow>
    release_run_lock (lock_guard owner at) (ls_db s) = (Inr b, d) \<Longrightarrow>
    lock_step utc_text stale_after s (s\<lparr>ls_db := d, ls_held := (ls_held s)(owner := None)\<rparr>)"

inductive lock_reachable :: "(int \<Rightarrow> string) \<Rightarrow> int \<Rightarrow> lock_system \<Rightarrow> bool"
  for utc_text stale_after where
  start: "locks_ok (ls_db s) \<Longrightarrow> ls_held s = (\<lambda>_. None) \<Longrightarrow> lock_reachable utc_text stale_after s"
| step: "lock_reachable utc_text stale_after s \<Longrightarrow> lock_step utc_text stale_after s s' \<Longrightarrow>
    lock_reachable utc_text stale_after s'"

text \<open>A holder owns the row with its last heartbeat, or that heartbeat is stale by now.\<close>

definition owns_row :: "lock_system \<Rightarrow> string \<Rightarrow> int \<Rightarrow> bool" where
  "owns_row s owner t = (\<exists>r. run_lock_row (ls_db s) = Some r \<and> lw_owner r = owner \<and>
     lw_heartbeat_unix_seconds r = t)"

definition lock_inv :: "int \<Rightarrow> lock_system \<Rightarrow> bool" where
  "lock_inv stale_after s =
     (locks_ok (ls_db s) \<and>
      (\<forall>owner t. ls_held s owner = Some t \<longrightarrow> owns_row s owner t \<or> t + stale_after < ls_now s))"

lemma lock_inv_step:
  assumes "lock_step utc_text stale_after s s'" and "lock_inv stale_after s"
  shows "lock_inv stale_after s'"
  using assms
proof (cases rule: lock_step.cases)
  case (tick dt)
  then show ?thesis using assms(2) by (fastforce simp: lock_inv_def owns_row_def)
next
  case (acquire owner g d)
  have ok: "locks_ok (ls_db s)" using assms(2) by (simp add: lock_inv_def)
  note eq = try_acquire_run_lock_eq [OF ok acquire(3)]
  show ?thesis
  proof (cases "acquirable (ls_now s) stale_after (ls_db s)")
    case True
    then have "\<forall>o' t. ls_held s o' = Some t \<longrightarrow> t + stale_after < ls_now s"
      using assms(2) by (fastforce simp: lock_inv_def owns_row_def acquirable_def)
    with True show ?thesis
      using acquire(1) eq by (simp add: lock_inv_def owns_row_def lock_row_of_def)
  next
    case False
    then show ?thesis
      using acquire(1) eq assms(2) by (auto simp: lock_inv_def owns_row_def)
  qed
next
  case (heartbeat owner t at b d)
  have ok: "locks_ok (ls_db s)" using assms(2) by (simp add: lock_inv_def)
  note eq = heartbeat_run_lock_eq [OF ok heartbeat(3)]
  show ?thesis
  proof (cases "\<exists>r. run_lock_row (ls_db s) = Some r \<and> lw_owner r = owner")
    case True
    then obtain r where r: "run_lock_row (ls_db s) = Some r" "lw_owner r = owner" by blast
    then have "\<forall>o' t. o' \<noteq> owner \<longrightarrow> ls_held s o' = Some t \<longrightarrow> t + stale_after < ls_now s"
      using assms(2) by (auto simp: lock_inv_def owns_row_def)
    with r show ?thesis
      using heartbeat(1) eq by (simp add: lock_inv_def owns_row_def)
  next
    case False
    then have "b = False" and "run_lock_row d = run_lock_row (ls_db s)"
      using eq(1,2) by (auto split: option.split intro: option.map_ident_strong)
    then show ?thesis
      using heartbeat(1) eq(3) assms(2) by (simp add: lock_inv_def owns_row_def)
  qed
next
  case (release owner t at b d)
  have ok: "locks_ok (ls_db s)" using assms(2) by (simp add: lock_inv_def)
  note eq = release_run_lock_eq [OF ok release(3)]
  show ?thesis
    using release(1) eq assms(2) by (fastforce simp: lock_inv_def owns_row_def)
qed

lemma lock_reachable_inv: "lock_reachable utc_text stale_after s \<Longrightarrow> lock_inv stale_after s"
proof (induction rule: lock_reachable.induct)
  case (step s s')
  then show ?case by (blast intro: lock_inv_step)
qed (simp add: lock_inv_def)

text \<open>
  C5. However processes acquire, heartbeat and release the run lock, two holders whose last
  heartbeat is not older than the stale limit are one and the same.
\<close>

theorem run_lock_exclusive:
  assumes "lock_reachable utc_text stale_after s"
    and "ls_held s o1 = Some t1" "ls_now s \<le> t1 + stale_after"
    and "ls_held s o2 = Some t2" "ls_now s \<le> t2 + stale_after"
  shows "o1 = o2"
proof -
  have "owns_row s o1 t1" and "owns_row s o2 t2"
    using lock_reachable_inv [OF assms(1)] assms(2-) by (force simp: lock_inv_def)+
  then show ?thesis by (auto simp: owns_row_def)
qed

definition empty_db :: db where
  "empty_db =
     \<lparr>db_sync_runs = [], db_runs_seq = 0, db_sync_roots = [], db_file_state = [],
      db_directory_state = [], db_remote_resource_state = [], db_skipped_items = [],
      db_failed_items = [], db_operation_journal = [], db_journal_seq = 0,
      db_migration_map_state = [], db_state_locks = [], db_root_remote_inventory_status = [],
      db_deleted_subtrees = []\<rparr>"

lemma locks_ok_empty [simp]: "locks_ok empty_db"
  by (simp add: locks_ok_def empty_db_def tbl_keyed_def)

lemma run_lock_row_empty [simp]: "run_lock_row empty_db = None"
  by (simp add: run_lock_row_def empty_db_def)

definition taken_lock_db :: db where
  "taken_lock_db = empty_db\<lparr>db_state_locks := [lock_row_of (\<lambda>t. ''t'') ''a'' 5]\<rparr>"

definition taken_system :: lock_system where
  "taken_system = \<lparr>ls_db = taken_lock_db, ls_now = 5, ls_held = (\<lambda>_. None)(''a'' := Some 5)\<rparr>"

lemma taken_lock_reachable: "lock_reachable (\<lambda>t. ''t'') 10 taken_system"
proof -
  let ?s = "\<lparr>ls_db = empty_db, ls_now = 5, ls_held = (\<lambda>_. None)\<rparr>"
  have "try_acquire_run_lock (\<lambda>t. ''t'') ''a'' (ls_now ?s) 10 (ls_db ?s) =
      (Inr (Some (lock_guard ''a'' ''t'')), taken_lock_db)"
    using try_acquire_free [OF run_lock_row_empty, of "\<lambda>t. ''t''" "''a''" 5 10]
    by (simp add: taken_lock_db_def) (simp add: empty_db_def)
  then have "lock_step (\<lambda>t. ''t'') 10 ?s
      (?s\<lparr>ls_db := taken_lock_db, ls_held := (\<lambda>_. None)(''a'' := Some 5)\<rparr>)"
    using lock_step.acquire [of ?s "''a''" "\<lambda>t. ''t''" 10 "Some (lock_guard ''a'' ''t'')" taken_lock_db]
    by simp
  moreover have "lock_reachable (\<lambda>t. ''t'') 10 ?s"
    by (rule lock_reachable.start) simp_all
  ultimately show ?thesis
    using lock_reachable.step by (fastforce simp: taken_system_def)
qed

theorem run_lock_exclusive_witness:
  "lock_reachable (\<lambda>t. ''t'') 10 taken_system \<and> ls_held taken_system ''a'' = Some 5 \<and>
   \<not> (ls_held taken_system ''b'' = Some 5 \<and> ls_now taken_system \<le> 5 + 10)"
proof -
  have "ls_held taken_system ''b'' = Some 5 \<Longrightarrow> ls_now taken_system \<le> 5 + 10 \<Longrightarrow> ''a'' = ''b''"
    by (rule run_lock_exclusive [OF taken_lock_reachable, of "''a''" 5 "''b''" 5])
      (simp_all add: taken_system_def)
  then show ?thesis using taken_lock_reachable by (auto simp: taken_system_def)
qed

text \<open>
  Acquiring the run lock succeeds exactly when no row holds it or the row's heartbeat is
  older than the stale limit; on success the row is the caller's with a heartbeat of now, and
  otherwise it is the row it was.
\<close>

theorem try_acquire_run_lock_spec:
  assumes "locks_ok d"
    and "try_acquire_run_lock utc_text owner now stale_after d = (res, d')"
  shows "if acquirable now stale_after d
     then res = Inr (Some (lock_guard owner (utc_text now))) \<and>
          run_lock_row d' = Some (lock_row_of utc_text owner now)
     else res = Inr None \<and> run_lock_row d' = run_lock_row d"
  using try_acquire_run_lock_eq [OF assms] by simp

theorem try_acquire_run_lock_spec_witness:
  "fst (try_acquire_run_lock (\<lambda>t. ''t'') ''b'' 20 10 taken_lock_db) = Inr (Some (lock_guard ''b'' ''t'')) \<and>
   fst (try_acquire_run_lock (\<lambda>t. ''t'') ''b'' 15 10 taken_lock_db) = Inr None"
proof -
  have ok: "locks_ok taken_lock_db"
    by (simp add: taken_lock_db_def empty_db_def locks_ok_def tbl_keyed_def)
  have "acquirable 20 10 taken_lock_db" "\<not> acquirable 15 10 taken_lock_db"
    by (simp_all add: acquirable_def run_lock_row_def taken_lock_db_def empty_db_def tbl_find_Cons lock_row_of_def)
  then show ?thesis
    using try_acquire_run_lock_spec [OF ok prod.collapse [symmetric],
        where utc_text = "\<lambda>t. ''t''" and owner = "''b''" and now = 20 and stale_after = 10]
      try_acquire_run_lock_spec [OF ok prod.collapse [symmetric],
        where utc_text = "\<lambda>t. ''t''" and owner = "''b''" and now = 15 and stale_after = 10]
    by simp
qed

text \<open>
  Releasing the run lock deletes the row of its own owner and tells so; after another owner
  took the lock over, a late release changes nothing.
\<close>

theorem release_run_lock_spec:
  assumes "locks_ok d"
    and "release_run_lock (lock_guard owner at) d = (res, d')"
  shows "(\<exists>r. run_lock_row d = Some r \<and> lw_owner r = owner) \<and> res = Inr True \<and> run_lock_row d' = None \<or>
         (\<forall>r. run_lock_row d = Some r \<longrightarrow> lw_owner r \<noteq> owner) \<and> res = Inr False \<and>
           run_lock_row d' = run_lock_row d"
  using release_run_lock_eq [OF assms] by (cases "run_lock_row d") auto

theorem release_run_lock_spec_witness:
  "run_lock_row (snd (release_run_lock (lock_guard ''b'' ''t'') taken_lock_db)) = run_lock_row taken_lock_db"
proof -
  have ok: "locks_ok taken_lock_db"
    by (simp add: taken_lock_db_def empty_db_def locks_ok_def tbl_keyed_def)
  have "run_lock_row taken_lock_db = Some (lock_row_of (\<lambda>t. ''t'') ''a'' 5)"
    by (simp add: run_lock_row_def taken_lock_db_def empty_db_def tbl_find_Cons lock_row_of_def)
  then show ?thesis
    using release_run_lock_spec [OF ok prod.collapse [symmetric], where owner = "''b''" and at = "''t''"]
    by (auto simp: lock_row_of_def)
qed

end
