(* ===== verification/Sync_Env.thy ===== *)
theory Sync_Env
  imports Sync_Plan State_Lock
begin

text \<open>
  What the sync engine of \<open>crates/yds-sync/src/lib.rs\<close> runs in. Its state is the state database, the
  report of the run and a world \<open>'w\<close>: everything outside the program, which changes at every
  call. The environment is the interface to that world: the remote client, the clock, the
  cancellation flag that another thread may set, the local file system, the scanner, the order in
  which concurrent tasks finish, and a failure of the database engine before any statement. A task
  set runs its tasks in the order the environment chooses; the environment also decides how many
  tasks have run when the next result is taken, and those not run by then never run if the engine
  leaves the loop.
\<close>

section \<open>Errors, reports, state\<close>

datatype SyncError =
    ConfigInvalid string
  | AlreadyRunning
  | SyncPathMapping string PathMappingError
  | SyncScanner string
  | SyncState StateError
  | SyncMigration string

definition show_int :: "int \<Rightarrow> string" where
  "show_int i = (if i < 0 then ''-'' @ show_nat (nat (- i)) else show_nat (nat i))"

fun StateError_text :: "StateError \<Rightarrow> string" where
  "StateError_text (SqliteConstraint text) = ''SQLite error: '' @ text"
| "StateError_text (NotFound entity i) = entity @ '' not found: '' @ show_int i"
| "StateError_text (NotFoundText entity i) = entity @ '' not found: '' @ i"

fun SyncError_text :: "SyncError \<Rightarrow> string" where
  "SyncError_text (ConfigInvalid text) = ''config validation failed: '' @ text"
| "SyncError_text AlreadyRunning = ''sync run is already running''"
| "SyncError_text (SyncPathMapping root_id e) =
     ''path mapping error for root '' @ root_id @ '': '' @ format_path_error e"
| "SyncError_text (SyncScanner text) = ''scanner error: '' @ text"
| "SyncError_text (SyncState e) = ''state error: '' @ StateError_text e"
| "SyncError_text (SyncMigration text) = ''migration error: '' @ text"

definition YandexDiskError_text :: "YandexDiskError \<Rightarrow> string" where
  "YandexDiskError_text e = YandexDiskErrorKind_as_str (ye_kind e) @ '': '' @ ye_message e"

record SyncRunReport =
  sp_run_id :: rowid
  sp_status :: SyncRunStatus
  sp_summary :: SyncRunSummary
  sp_roots :: "RootSyncSummary list"
  sp_plan :: "SyncPlanOperation list"

record 'w sync_state =
  st_world :: 'w
  st_db :: db
  st_report :: SyncRunReport

type_synonym ('w, 'e, 'a) sync_m = "('w sync_state, 'e, 'a) m"
type_synonym ('w, 'a) sync = "('w sync_state, SyncError, 'a) m"

datatype remove_result = Removed | RemoveNotFound | RemoveFailed string

record ScanOptions =
  so_global_excludes :: "string list"
  so_absolute_excludes :: "string list"
  so_max_file_size_bytes :: u64
  so_full_hash_max_bytes :: u64
  so_large_file_name_size_only_min_bytes :: u64
  so_scan_concurrency :: nat
  so_staging_dir :: local_path

definition scan_options_from_config :: "SyncConfig \<Rightarrow> string list \<Rightarrow> string list \<Rightarrow> local_path \<Rightarrow> ScanOptions" where
  "scan_options_from_config sync globals absolutes staging_dir =
     \<lparr>so_global_excludes = globals, so_absolute_excludes = absolutes,
      so_max_file_size_bytes = sy_max_file_size_bytes sync,
      so_full_hash_max_bytes = sy_full_hash_max_bytes sync,
      so_large_file_name_size_only_min_bytes = sy_large_file_name_size_only_min_bytes sync,
      so_scan_concurrency = sy_scan_concurrency sync, so_staging_dir = staging_dir\<rparr>"

record ScanRoot =
  sn_id :: string
  sn_local_path :: local_path
  sn_canonical_remote_path :: string
  sn_excludes :: "string list"

record 'w sync_env =
  ev_client :: "'w disk_client"
  ev_now :: "'w \<Rightarrow> int \<times> 'w"
    \<comment> \<open>nanoseconds since the epoch\<close>
  ev_utc_text :: "int \<Rightarrow> string"
  ev_parse_rfc3339 :: "string \<Rightarrow> int option"
  ev_is_cancelled :: "'w \<Rightarrow> bool \<times> 'w"
  ev_fs :: "'w \<Rightarrow> fs_view \<times> 'w"
  ev_remove_file :: "local_path \<Rightarrow> 'w \<Rightarrow> remove_result \<times> 'w"
  ev_scan :: "ScanOptions \<Rightarrow> ScanRoot \<Rightarrow> FileStateRecord list \<Rightarrow> ('w, string, ScanReport) m"
  ev_order :: "nat \<Rightarrow> 'w \<Rightarrow> nat list \<times> 'w"
  ev_ahead :: "'w \<Rightarrow> nat \<times> 'w"
  ev_db_fault :: "'w \<Rightarrow> StateError option \<times> 'w"
  ev_gitignore :: gitignore_api

section \<open>Access to the state\<close>

definition world_read :: "('w \<Rightarrow> 'a \<times> 'w) \<Rightarrow> ('w, 'e, 'a) sync_m" where
  "world_read f = (\<lambda>s. case f (st_world s) of (x, w) \<Rightarrow> (Inr x, s\<lparr>st_world := w\<rparr>))"

text \<open>A call of the client, its error a value.\<close>

definition world_call :: "('w, 'f, 'a) m \<Rightarrow> ('w, 'e, 'f + 'a) sync_m" where
  "world_call f = (\<lambda>s. case f (st_world s) of (r, w) \<Rightarrow> (Inr r, s\<lparr>st_world := w\<rparr>))"

text \<open>A statement of the repository: the engine may fail first, leaving the database alone.\<close>

definition db_run :: "'a repo \<Rightarrow> ('w, StateError, 'a) sync_m" where
  "db_run f = (\<lambda>s. case f (st_db s) of (r, d) \<Rightarrow> (r, s\<lparr>st_db := d\<rparr>))"

definition repo_call :: "'w sync_env \<Rightarrow> 'a repo \<Rightarrow> ('w, StateError, 'a) sync_m" where
  "repo_call env f =
     bindM (world_read (ev_db_fault env)) (\<lambda>fault.
       case fault of Some e \<Rightarrow> throw e | None \<Rightarrow> db_run f)"

definition repo :: "'w sync_env \<Rightarrow> 'a repo \<Rightarrow> ('w, 'a) sync" where
  "repo env f = errM SyncState (repo_call env f)"

text \<open>A statement that stores the time it runs at.\<close>

definition repo_at_call :: "'w sync_env \<Rightarrow> (string \<Rightarrow> 'a repo) \<Rightarrow> ('w, StateError, 'a) sync_m" where
  "repo_at_call env f = bindM (world_read (ev_now env)) (\<lambda>t. repo_call env (f (ev_utc_text env t)))"

definition repo_at :: "'w sync_env \<Rightarrow> (string \<Rightarrow> 'a repo) \<Rightarrow> ('w, 'a) sync" where
  "repo_at env f = errM SyncState (repo_at_call env f)"

definition is_cancelled :: "'w sync_env \<Rightarrow> ('w, bool) sync" where
  "is_cancelled env = world_read (ev_is_cancelled env)"

definition modify_report :: "(SyncRunReport \<Rightarrow> SyncRunReport) \<Rightarrow> ('w, unit) sync" where
  "modify_report f = (\<lambda>s. (Inr (), s\<lparr>st_report := f (st_report s)\<rparr>))"

definition get_report :: "('w, SyncRunReport) sync" where
  "get_report = (\<lambda>s. (Inr (st_report s), s))"

section \<open>Loops and task sets\<close>

primrec mapM :: "('a \<Rightarrow> ('s, 'e, 'b) m) \<Rightarrow> 'a list \<Rightarrow> ('s, 'e, 'b list) m" where
  "mapM f [] = ret []"
| "mapM f (x # xs) = bindM (f x) (\<lambda>y. bindM (mapM f xs) (\<lambda>ys. ret (y # ys)))"

primrec foldM :: "('a \<Rightarrow> 'b \<Rightarrow> ('s, 'e, 'b) m) \<Rightarrow> 'a list \<Rightarrow> 'b \<Rightarrow> ('s, 'e, 'b) m" where
  "foldM f [] acc = ret acc"
| "foldM f (x # xs) acc = bindM (f x acc) (\<lambda>acc. foldM f xs acc)"

text \<open>The tasks in the order chosen by the environment, which is always a permutation.\<close>

definition permuted :: "nat list \<Rightarrow> 'a list \<Rightarrow> 'a list" where
  "permuted order xs =
     (let chosen = remdups (filter (\<lambda>i. i < length xs) order)
      in map (\<lambda>i. xs ! i) (chosen @ filter (\<lambda>i. i \<notin> set chosen) [0..<length xs]))"

text \<open>
  \<open>join_next\<close> until the set is empty: at least one task has run when a result is taken. The body
  says whether to leave the loop; its accumulator is what the loop changes.
\<close>

primrec join_loop ::
  "'w sync_env \<Rightarrow> ('t \<Rightarrow> ('w, 'e, 'o) sync_m) \<Rightarrow> ('o \<Rightarrow> 'b \<Rightarrow> ('w, 'e, bool \<times> 'b) sync_m) \<Rightarrow>
   nat \<Rightarrow> 't list \<Rightarrow> 'o list \<Rightarrow> 'b \<Rightarrow> ('w, 'e, bool \<times> 'b) sync_m" where
  "join_loop env task body 0 spawned finished acc = ret (False, acc)"
| "join_loop env task body (Suc n) spawned finished acc =
     bindM (world_read (ev_ahead env)) (\<lambda>ahead.
       let k = (if finished = [] then max 1 ahead else ahead)
       in bindM (mapM task (take k spawned)) (\<lambda>outcomes.
            case finished @ outcomes of
              [] \<Rightarrow> ret (False, acc)
            | outcome # finished \<Rightarrow>
                bindM (body outcome acc) (\<lambda>(stop, acc).
                  if stop then ret (True, acc)
                  else join_loop env task body n (drop k spawned) finished acc)))"

definition join_tasks ::
  "'w sync_env \<Rightarrow> ('t \<Rightarrow> ('w, 'e, 'o) sync_m) \<Rightarrow> ('o \<Rightarrow> 'b \<Rightarrow> ('w, 'e, bool \<times> 'b) sync_m) \<Rightarrow>
   't list \<Rightarrow> 'b \<Rightarrow> ('w, 'e, bool \<times> 'b) sync_m" where
  "join_tasks env task body tasks acc =
     bindM (world_read (ev_order env (length tasks))) (\<lambda>order.
       join_loop env task body (length tasks) (permuted order tasks) [] acc)"

section \<open>What calls keep\<close>

lemma keeps_mapM [intro]: "(\<And>x. keeps P (f x)) \<Longrightarrow> keeps P (mapM f xs)"
  by (induction xs) auto

lemma keeps_foldM [intro]: "(\<And>x acc. keeps P (f x acc)) \<Longrightarrow> keeps P (foldM f xs acc)"
  by (induction xs arbitrary: acc) auto

lemma permuted_perm: "length xs = n \<Longrightarrow> \<exists>is. permuted order xs = map (\<lambda>i. xs ! i) is \<and> distinct is \<and> set is = {0..<n}"
  by (rule exI [of _ "remdups (filter (\<lambda>i. i < n) order) @
      filter (\<lambda>i. i \<notin> set (remdups (filter (\<lambda>i. i < n) order))) [0..<n]"])
    (auto simp: permuted_def Let_def)

lemma set_permuted [simp]: "set (permuted order xs) = set xs"
proof -
  obtain "is" where "permuted order xs = map (\<lambda>i. xs ! i) is" "set is = {0..<length xs}"
    using permuted_perm [of xs "length xs" order] by blast
  then show ?thesis by (simp add: nth_image)
qed

lemma length_permuted [simp]: "length (permuted order xs) = length xs"
proof -
  obtain "is" where "permuted order xs = map (\<lambda>i. xs ! i) is" "distinct is" "set is = {0..<length xs}"
    using permuted_perm [of xs "length xs" order] by blast
  then show ?thesis using distinct_card [of "is"] by simp
qed

lemma keeps_join_loop:
  assumes "\<And>t. keeps P (task t)" "\<And>o' acc. keeps P (body o' acc)" "keeps P (world_read (ev_ahead env) :: ('w, 'e, nat) sync_m)"
  shows "keeps P (join_loop (env :: 'w sync_env) (task :: 't \<Rightarrow> ('w, 'e, 'o) sync_m) body n spawned finished acc)"
  using assms
  by (induction n arbitrary: spawned finished acc)
    (auto simp: Let_def intro!: keeps_bindM keeps_mapM split: list.split prod.split)

end
