(* ===== verification/Sync_Exec.thy ===== *)
theory Sync_Exec
  imports Sync_Plan Sync_Env
begin

text \<open>
  \<open>crates/yds-sync/src/lib.rs\<close>: the steps of a run on one root. Deleted subtrees and failures are
  recorded, the remote inventory is read from the cache or the remote, directories are created
  level by level, files uploaded batch by batch, and remote extras deleted last. What the Rust code
  changes through \<open>&mut\<close> references (the live plan, the summary of the root) is passed in and
  returned; a loop \<open>while !pending.is_empty()\<close> has the length of \<open>pending\<close> as its bound, which
  each turn shortens.
\<close>

section \<open>Recording\<close>

definition persist_root_progress ::
  "'w sync_env \<Rightarrow> rowid \<Rightarrow> SyncRunSummary \<Rightarrow> RootSyncSummary \<Rightarrow> ('w, unit) sync" where
  "persist_root_progress env run_id base rs =
     repo env (update_run_progress run_id (add_root_summary base rs))"

definition record_deleted_subtree ::
  "'w sync_env \<Rightarrow> rowid \<Rightarrow> DeletedLocalSubtree \<Rightarrow> RootSyncSummary \<Rightarrow> ('w, RootSyncSummary) sync" where
  "record_deleted_subtree env run_id subtree rs =
     seqM (repo_at env (\<lambda>now. mark_subtree_deleted now (ds_root_id subtree)
             (ds_relative_prefix subtree) (ds_remote_prefix subtree) run_id))
    (seqM (repo_at env (\<lambda>now. mark_skipped now
             \<lparr>sk_root_id = ds_root_id subtree, sk_local_path = ds_relative_prefix subtree,
              sk_relative_path = Some (ds_relative_prefix subtree),
              sk_remote_path = Some (ds_remote_prefix subtree),
              sk_reason_code = ''local_subtree_deleted'',
              sk_reason_details = Some ''local subtree deleted during sync preparation or execution'',
              sk_size_bytes = None\<rparr>))
    (seqM (repo_at env (\<lambda>now. append_operations_succeeded now
             [\<lparr>or_run_id = run_id, or_operation = ''skipped_local_subtree_deleted'',
               or_local_path = Some (ds_relative_prefix subtree),
               or_remote_path = Some (ds_remote_prefix subtree)\<rparr>]))
       (ret (rs\<lparr>rt_skipped_files := rt_skipped_files rs + 1\<rparr>))))"

definition record_deleted_subtrees ::
  "'w sync_env \<Rightarrow> rowid \<Rightarrow> LiveScanPlan \<Rightarrow> RootSyncSummary \<Rightarrow> ('w, RootSyncSummary) sync" where
  "record_deleted_subtrees env run_id live rs =
     foldM (record_deleted_subtree env run_id) (lp_deleted_subtrees live) rs"

definition failed_item ::
  "string \<Rightarrow> string option \<Rightarrow> string option \<Rightarrow> string \<Rightarrow> string \<Rightarrow> string \<Rightarrow> FailedItemRecord" where
  "failed_item root_id local_path remote_path operation kind message =
     \<lparr>fa_root_id = root_id, fa_local_path = local_path, fa_remote_path = remote_path,
      fa_operation = operation, fa_error_kind = kind, fa_error_message = message,
      fa_retry_count = 0, fa_next_retry_at_utc = None\<rparr>"

text \<open>\<open>fail_root\<close> and \<open>partial_fail_root\<close> differ in the status they record.\<close>

definition fail_root_as ::
  "string \<Rightarrow> 'w sync_env \<Rightarrow> SyncRootConfig \<Rightarrow> string \<Rightarrow> string \<Rightarrow> string \<Rightarrow> RootSyncSummary \<Rightarrow>
   ('w, RootSyncSummary) sync" where
  "fail_root_as status env root operation kind message rs =
     seqM (repo_at env (\<lambda>now. mark_failed now
             (failed_item (rc_id root) (Some (rc_local_path root)) (Some (rt_canonical_remote_path rs))
                operation kind message)))
    (seqM (repo env (update_sync_root_status (rc_id root) status (Some message)))
       (ret (rs\<lparr>rt_status := status, rt_failed_files := rt_failed_files rs + 1,
                rt_error_summary := Some message\<rparr>)))"

definition fail_root ::
  "'w sync_env \<Rightarrow> SyncRootConfig \<Rightarrow> string \<Rightarrow> string \<Rightarrow> string \<Rightarrow> RootSyncSummary \<Rightarrow> ('w, RootSyncSummary) sync" where
  "fail_root = fail_root_as ROOT_STATUS_FAILED"

definition partial_fail_root ::
  "'w sync_env \<Rightarrow> SyncRootConfig \<Rightarrow> string \<Rightarrow> string \<Rightarrow> string \<Rightarrow> RootSyncSummary \<Rightarrow> ('w, RootSyncSummary) sync" where
  "partial_fail_root = fail_root_as ROOT_STATUS_PARTIAL_FAILED"

definition finish_root_cancelled_or_failed ::
  "'w sync_env \<Rightarrow> SyncRootConfig \<Rightarrow> RootSyncSummary \<Rightarrow> ('w, RootSyncSummary) sync" where
  "finish_root_cancelled_or_failed env root rs =
     bindM (is_cancelled env) (\<lambda>cancelled.
       if cancelled then
         let rs = rs\<lparr>rt_status := ROOT_STATUS_CANCELLED, rt_error_summary := Some ''sync run cancelled''\<rparr>
         in seqM (repo env (update_sync_root_status (rc_id root) ROOT_STATUS_CANCELLED (rt_error_summary rs)))
              (ret rs)
       else if rt_status rs = ROOT_STATUS_FAILED then
         seqM (repo env (update_sync_root_status (rc_id root) ROOT_STATUS_FAILED (rt_error_summary rs)))
           (ret rs)
       else if i64_pos (rt_failed_files rs) then
         seqM (repo env (update_sync_root_status (rc_id root) ROOT_STATUS_PARTIAL_FAILED (rt_error_summary rs)))
           (ret (rs\<lparr>rt_status := ROOT_STATUS_PARTIAL_FAILED\<rparr>))
       else
         seqM (repo env (update_sync_root_status (rc_id root) ROOT_STATUS_SUCCEEDED None))
           (ret (rs\<lparr>rt_status := ROOT_STATUS_SUCCEEDED\<rparr>)))"

section \<open>The remote inventory\<close>

record RemoteInventorySnapshot =
  iv_resources :: "(string, ResourceMetadata) btree"
  iv_from_cache :: bool

definition is_remote_inventory_expired :: "'w sync_env \<Rightarrow> RootRemoteInventoryStatus \<Rightarrow> ('w, 'e, bool) sync_m" where
  "is_remote_inventory_expired env status =
     (case ri_snapshot_expires_at_utc status of
        None \<Rightarrow> ret True
      | Some text \<Rightarrow>
          (case ev_parse_rfc3339 env text of
             None \<Rightarrow> ret True
           | Some expires_at \<Rightarrow> bindM (world_read (ev_now env)) (\<lambda>now. ret (expires_at \<le> now))))"

definition resources_by_path :: "ResourceMetadata list \<Rightarrow> (string, ResourceMetadata) btree \<Rightarrow> (string, ResourceMetadata) btree" where
  "resources_by_path rs m = foldl (\<lambda>m r. bt_insert (rs_path r) r m) m rs"

text \<open>The time to live is a \<open>u64\<close> cast to \<open>i64\<close>; a duration of hours is multiplied out.\<close>

definition persist_remote_inventory_snapshot ::
  "'w sync_env \<Rightarrow> SyncConfig \<Rightarrow> string \<Rightarrow> ResourceMetadata list \<Rightarrow> ('w, unit) sync" where
  "persist_remote_inventory_snapshot env sync root_id resources =
     (let records = map (remote_resource_record root_id) resources
      in seqM (repo_at env (\<lambda>now. replace_remote_resources_for_root now root_id records))
          (bindM (world_read (ev_now env)) (\<lambda>now.
             let expires_at = now + sint (sy_remote_inventory_cache_ttl_hours sync) * 3600 * 1000000000
             in repo env (set_root_remote_inventory_status
                  \<lparr>ri_root_id = root_id, ri_is_complete = True,
                   ri_snapshot_completed_at_utc = Some (ev_utc_text env now),
                   ri_snapshot_expires_at_utc = Some (ev_utc_text env expires_at),
                   ri_resource_count = u64_to_i64 (of_nat (length records)), ri_last_error = None\<rparr>))))"

definition critical_text :: "('e \<Rightarrow> string) \<Rightarrow> 'e \<Rightarrow> YandexDiskError" where
  "critical_text text e = error_critical (text e)"

text \<open>The cached inventory, when it may be used.\<close>

definition cached_inventory ::
  "'w sync_env \<Rightarrow> SyncRootConfig \<Rightarrow> string \<Rightarrow> bool \<Rightarrow> ('w, YandexDiskError, RemoteInventorySnapshot option) sync_m" where
  "cached_inventory env root canonical force_remote_rescan =
     (if force_remote_rescan then ret None
      else bindM (errM (critical_text StateError_text) (repo_call env (get_root_remote_inventory_status (rc_id root))))
        (\<lambda>status.
          case status of
            None \<Rightarrow> ret None
          | Some status \<Rightarrow>
              if \<not> ri_is_complete status then ret None
              else bindM (is_remote_inventory_expired env status) (\<lambda>expired.
                if expired then ret None
                else bindM (errM (critical_text StateError_text)
                             (repo_call env (list_remote_resources_for_root (rc_id root))))
                       (\<lambda>cached. ret (Some
                          \<lparr>iv_resources = resources_by_path
                             (List.map_filter (cached_resource_to_metadata canonical) cached) [],
                           iv_from_cache = True\<rparr>)))))"

definition fresh_inventory ::
  "'w sync_env \<Rightarrow> SyncConfig \<Rightarrow> SyncRootConfig \<Rightarrow> string \<Rightarrow> LiveScanPlan \<Rightarrow>
   ('w, YandexDiskError, RemoteInventorySnapshot) sync_m" where
  "fresh_inventory env sync root canonical live =
     bindM (world_call (dc_metadata (ev_client env) canonical)) (\<lambda>meta.
       case meta of
         Inl e \<Rightarrow> if ye_kind e = YkNotFound then ret \<lparr>iv_resources = [], iv_from_cache = False\<rparr> else throw e
       | Inr own \<Rightarrow>
           let resources = bt_insert (rs_path own) own []
           in bindM (world_call (dc_list_recursive_with_options (ev_client env) canonical
                       (prune_remote_prefixes live))) (\<lambda>listing.
             case listing of
               Inl e \<Rightarrow>
                 if ye_kind e = YkNotFound then ret \<lparr>iv_resources = resources, iv_from_cache = False\<rparr>
                 else throw e
             | Inr listed \<Rightarrow>
                 let resources = resources_by_path listed resources
                 in seqM (errM (critical_text SyncError_text)
                      (persist_remote_inventory_snapshot env sync (rc_id root) (bt_values resources)))
                    (ret \<lparr>iv_resources = resources, iv_from_cache = False\<rparr>)))"

definition remote_inventory ::
  "'w sync_env \<Rightarrow> SyncConfig \<Rightarrow> SyncRootConfig \<Rightarrow> string \<Rightarrow> LiveScanPlan \<Rightarrow> bool \<Rightarrow>
   ('w, YandexDiskError, RemoteInventorySnapshot) sync_m" where
  "remote_inventory env sync root canonical live force_remote_rescan =
     bindM (cached_inventory env root canonical force_remote_rescan) (\<lambda>cached.
       case cached of
         Some snapshot \<Rightarrow> ret snapshot
       | None \<Rightarrow> fresh_inventory env sync root canonical live)"

section \<open>Creating directories\<close>

definition directory_state_of :: "LocalDirectoryEntry \<Rightarrow> rowid \<Rightarrow> DirectoryStateRecord" where
  "directory_state_of d run_id =
     \<lparr>dr_root_id = ld_root_id d, dr_local_path = path_to_stable_string (ld_local_path d),
      dr_relative_path = ld_relative_path d, dr_remote_path = ld_remote_path d,
      dr_normalized_remote_path = ld_normalized_remote_path d, dr_last_run_id = Some run_id,
      dr_status = DsSynced, dr_last_error = None\<rparr>"

text \<open>What \<open>join_next\<close> returns for a directory is processed here; the flag stops the run.\<close>

definition finish_create_directory ::
  "'w sync_env \<Rightarrow> rowid \<Rightarrow> SyncRootConfig \<Rightarrow> SyncRunSummary \<Rightarrow>
   LocalDirectoryEntry \<times> rowid \<times> (YandexDiskError + unit) \<Rightarrow> RootSyncSummary \<Rightarrow>
   ('w, bool \<times> RootSyncSummary) sync" where
  "finish_create_directory env run_id root base outcome rs =
     (case outcome of (d, operation_id, result) \<Rightarrow>
        (case result of
           Inr _ \<Rightarrow>
             seqM (repo_at env (\<lambda>now. finish_operation now operation_id OpSucceeded None None))
            (seqM (repo_at env (\<lambda>now. upsert_directory_state now (directory_state_of d run_id)))
            (seqM (repo_at env (\<lambda>now. upsert_remote_resource now
                     \<lparr>rm_root_id = ld_root_id d, rm_remote_path = ld_remote_path d, rm_resource_type = RrDir,
                      rm_size_bytes = None, rm_mtime_remote = None, rm_remote_md5 = None\<rparr>))
               (ret (False, rs))))
         | Inl e \<Rightarrow>
             seqM (repo_at env (\<lambda>now. finish_operation now operation_id OpFailed
                     (Some (YandexDiskErrorKind_as_str (ye_kind e))) (Some (ye_message e))))
            (seqM (repo_at env (\<lambda>now. mark_failed now
                     (failed_item (rc_id root) (Some (path_to_stable_string (ld_local_path d)))
                        (Some (ld_remote_path d)) ''create_directory''
                        (YandexDiskErrorKind_as_str (ye_kind e)) (ye_message e))))
              (let rs = rs\<lparr>rt_failed_files := rt_failed_files rs + 1, rt_error_summary := Some (ye_message e)\<rparr>
               in seqM (persist_root_progress env run_id base rs)
                    (if is_stop_error (ye_kind e)
                     then ret (True, rs\<lparr>rt_status := ROOT_STATUS_FAILED,
                                       rt_error_summary := Some (YandexDiskError_text e)\<rparr>)
                     else ret (False, rs))))))"

definition create_directory_task ::
  "'w sync_env \<Rightarrow> LocalDirectoryEntry \<times> rowid \<Rightarrow>
   ('w, LocalDirectoryEntry \<times> rowid \<times> (YandexDiskError + unit)) sync" where
  "create_directory_task env task =
     (case task of (d, operation_id) \<Rightarrow>
        bindM (world_call (dc_create_directory (ev_client env) (ld_remote_path d))) (\<lambda>result.
          ret (d, operation_id, result)))"

text \<open>The batch, what stays pending, and the plan and summary after missing directories.\<close>

primrec fill_batch ::
  "'w sync_env \<Rightarrow> rowid \<Rightarrow> SyncRunSummary \<Rightarrow> nat \<Rightarrow> LocalDirectoryEntry list \<Rightarrow> LocalDirectoryEntry list \<Rightarrow>
   LiveScanPlan \<Rightarrow> RootSyncSummary \<Rightarrow>
   ('w, LocalDirectoryEntry list \<times> LocalDirectoryEntry list \<times> LiveScanPlan \<times> RootSyncSummary) sync" where
  "fill_batch env run_id base concurrency [] batch live rs = ret (batch, [], live, rs)"
| "fill_batch env run_id base concurrency (d # pending) batch live rs =
     (if \<not> length batch < concurrency then ret (batch, d # pending, live, rs)
      else if is_deleted_relative_path live (ld_relative_path d)
      then fill_batch env run_id base concurrency pending batch live rs
      else bindM (world_read (ev_fs env)) (\<lambda>fs.
        case register_missing_local_path fs (ld_local_path d) (ld_relative_path d) (ld_remote_path d) live of
          (Some subtree, live) \<Rightarrow>
            bindM (record_deleted_subtree env run_id subtree rs) (\<lambda>rs.
              seqM (persist_root_progress env run_id base rs)
                (fill_batch env run_id base concurrency pending batch live rs))
        | (None, live) \<Rightarrow> fill_batch env run_id base concurrency pending (batch @ [d]) live rs))"

definition start_create_directory :: "'w sync_env \<Rightarrow> rowid \<Rightarrow> LocalDirectoryEntry \<Rightarrow> ('w, LocalDirectoryEntry \<times> rowid) sync" where
  "start_create_directory env run_id d =
     bindM (repo_at env (\<lambda>now. append_operation_started now
              \<lparr>or_run_id = run_id, or_operation = ''create_directory'',
               or_local_path = Some (path_to_stable_string (ld_local_path d)),
               or_remote_path = Some (ld_remote_path d)\<rparr>))
       (\<lambda>operation_id. ret (d, operation_id))"

text \<open>The directories of one depth; the bound is the number of directories pending.\<close>

primrec create_level ::
  "'w sync_env \<Rightarrow> rowid \<Rightarrow> SyncRootConfig \<Rightarrow> SyncRunSummary \<Rightarrow> nat \<Rightarrow> nat \<Rightarrow> LocalDirectoryEntry list \<Rightarrow>
   LiveScanPlan \<Rightarrow> RootSyncSummary \<Rightarrow> ('w, bool \<times> LiveScanPlan \<times> RootSyncSummary) sync" where
  "create_level env run_id root base concurrency 0 pending live rs = ret (False, live, rs)"
| "create_level env run_id root base concurrency (Suc n) pending live rs =
     (if pending = [] then ret (False, live, rs)
      else bindM (is_cancelled env) (\<lambda>cancelled.
        if cancelled then ret (True, live, rs)
        else bindM (fill_batch env run_id base concurrency pending [] live rs)
          (\<lambda>(batch, pending, live, rs).
            if batch = [] then create_level env run_id root base concurrency n pending live rs
            else bindM (mapM (start_create_directory env run_id) batch) (\<lambda>tasks.
              bindM (join_tasks env (create_directory_task env)
                       (finish_create_directory env run_id root base) tasks rs)
                (\<lambda>(stop, rs).
                  if stop then ret (True, live, rs)
                  else create_level env run_id root base concurrency n pending live rs)))))"

definition push_depth ::
  "LocalDirectoryEntry \<Rightarrow> (nat, LocalDirectoryEntry list) btree \<Rightarrow> (nat, LocalDirectoryEntry list) btree" where
  "push_depth d m =
     (let k = relative_depth (ld_relative_path d)
      in bt_insert k ((case bt_get m k of None \<Rightarrow> [] | Some ds \<Rightarrow> ds) @ [d]) m)"

definition by_depth :: "LiveScanPlan \<Rightarrow> SyncPlanOperation list \<Rightarrow> (nat, LocalDirectoryEntry list) btree" where
  "by_depth live plan =
     foldl (\<lambda>m d. push_depth d m) []
       (filter (\<lambda>d. \<not> is_deleted_relative_path live (ld_relative_path d)) (plan_create_directories plan))"

primrec create_levels ::
  "'w sync_env \<Rightarrow> rowid \<Rightarrow> SyncRootConfig \<Rightarrow> SyncRunSummary \<Rightarrow> nat \<Rightarrow> LocalDirectoryEntry list list \<Rightarrow>
   LiveScanPlan \<Rightarrow> RootSyncSummary \<Rightarrow> ('w, bool \<times> LiveScanPlan \<times> RootSyncSummary) sync" where
  "create_levels env run_id root base concurrency [] live rs = ret (False, live, rs)"
| "create_levels env run_id root base concurrency (ds # levels) live rs =
     bindM (create_level env run_id root base concurrency (length ds) ds live rs) (\<lambda>(stop, live, rs).
       if stop then ret (True, live, rs)
       else create_levels env run_id root base concurrency levels live rs)"

definition apply_create_directories ::
  "'w sync_env \<Rightarrow> SyncConfig \<Rightarrow> rowid \<Rightarrow> SyncRootConfig \<Rightarrow> SyncPlanOperation list \<Rightarrow> SyncRunSummary \<Rightarrow>
   LiveScanPlan \<Rightarrow> RootSyncSummary \<Rightarrow> ('w, bool \<times> LiveScanPlan \<times> RootSyncSummary) sync" where
  "apply_create_directories env sync run_id root plan base live rs =
     create_levels env run_id root base (max (sy_create_directory_concurrency sync) 1)
       (bt_values (by_depth live plan)) live rs"

section \<open>Uploading files\<close>

record UploadTaskOutcome =
  uo_operation_id :: rowid
  uo_file :: LocalFileEntry
  uo_is_update :: bool
  uo_result :: "UploadTaskFailure + unit"

definition upload_task :: "'w sync_env \<Rightarrow> rowid \<times> LocalFileEntry \<times> bool \<Rightarrow> ('w, UploadTaskOutcome) sync" where
  "upload_task env task =
     (case task of (operation_id, f, is_update) \<Rightarrow>
        bindM (is_cancelled env) (\<lambda>cancelled.
          if cancelled then
            ret \<lparr>uo_operation_id = operation_id, uo_file = f, uo_is_update = is_update,
                 uo_result = Inl \<lparr>uf_error_kind = ''cancelled'', uf_error_message = ''sync run cancelled'',
                                  uf_should_stop = True, uf_skip_reason_code = None\<rparr>\<rparr>
          else
            bindM (world_call (dc_upload_source (ev_client env) (lf_remote_path f)
                     (UploadFile (lf_upload_source f)) True)) (\<lambda>result.
              ret \<lparr>uo_operation_id = operation_id, uo_file = f, uo_is_update = is_update,
                   uo_result = map_err upload_failure result\<rparr>)))"

definition upload_operation :: "bool \<Rightarrow> string" where
  "upload_operation is_update = (if is_update then ''update_file'' else ''upload_file'')"

definition finish_upload_ok ::
  "'w sync_env \<Rightarrow> rowid \<Rightarrow> SyncRunSummary \<Rightarrow> UploadTaskOutcome \<Rightarrow> LiveScanPlan \<times> RootSyncSummary \<times> u64 \<Rightarrow>
   ('w, bool \<times> LiveScanPlan \<times> RootSyncSummary \<times> u64) sync" where
  "finish_upload_ok env run_id base outcome acc =
     (case acc of (live, rs, bytes_uploaded) \<Rightarrow>
        let f = uo_file outcome
        in seqM (repo_at env (\<lambda>now. finish_operation now (uo_operation_id outcome) OpSucceeded None None))
          (bindM (world_read (ev_fs env)) (\<lambda>fs.
            seqM (repo_at env (\<lambda>now. upsert_file_state now
                   (file_state_record f run_id (file_status_after_upload fs f) None)))
           (seqM (repo_at env (\<lambda>now. upsert_remote_resource now
                   \<lparr>rm_root_id = lf_root_id f, rm_remote_path = lf_remote_path f, rm_resource_type = RrFile,
                    rm_size_bytes = Some (u64_to_i64 (lf_size_bytes f)), rm_mtime_remote = None,
                    rm_remote_md5 = fp_local_md5 (lf_fingerprint f)\<rparr>))
             (let rs = (if uo_is_update outcome then rs\<lparr>rt_updated_files := rt_updated_files rs + 1\<rparr>
                        else rs\<lparr>rt_uploaded_files := rt_uploaded_files rs + 1\<rparr>);
                  rs = rs\<lparr>rt_bytes_uploaded := rt_bytes_uploaded rs + u64_to_i64 (lf_size_bytes f)\<rparr>
              in seqM (persist_root_progress env run_id base rs)
                   (ret (False, live, rs, saturating_add bytes_uploaded (lf_size_bytes f))))))))"

definition finish_upload_skipped ::
  "'w sync_env \<Rightarrow> rowid \<Rightarrow> SyncRunSummary \<Rightarrow> UploadTaskOutcome \<Rightarrow> UploadTaskFailure \<Rightarrow> string \<Rightarrow>
   LiveScanPlan \<times> RootSyncSummary \<times> u64 \<Rightarrow> ('w, bool \<times> LiveScanPlan \<times> RootSyncSummary \<times> u64) sync" where
  "finish_upload_skipped env run_id base outcome failure reason_code acc =
     (case acc of (live, rs, bytes_uploaded) \<Rightarrow>
        let f = uo_file outcome
        in seqM (repo_at env (\<lambda>now. finish_operation now (uo_operation_id outcome) OpCancelled
                  (Some reason_code) (Some (uf_error_message failure))))
          (seqM (repo_at env (\<lambda>now. mark_skipped now
                  \<lparr>sk_root_id = lf_root_id f, sk_local_path = path_to_stable_string (lf_local_path f),
                   sk_relative_path = Some (lf_relative_path f), sk_remote_path = Some (lf_remote_path f),
                   sk_reason_code = reason_code, sk_reason_details = Some (uf_error_message failure),
                   sk_size_bytes = Some (u64_to_i64 (lf_size_bytes f))\<rparr>))
          (seqM (repo_at env (\<lambda>now. upsert_file_state now
                  (file_state_record f run_id FsSkipped (Some (uf_error_message failure)))))
            (let rs = rs\<lparr>rt_skipped_files := rt_skipped_files rs + 1\<rparr>
             in seqM (persist_root_progress env run_id base rs)
                  (ret (False, live, rs, bytes_uploaded))))))"

definition finish_upload_failed ::
  "'w sync_env \<Rightarrow> rowid \<Rightarrow> SyncRunSummary \<Rightarrow> UploadTaskOutcome \<Rightarrow> UploadTaskFailure \<Rightarrow>
   LiveScanPlan \<times> RootSyncSummary \<times> u64 \<Rightarrow> ('w, bool \<times> LiveScanPlan \<times> RootSyncSummary \<times> u64) sync" where
  "finish_upload_failed env run_id base outcome failure acc =
     (case acc of (live, rs, bytes_uploaded) \<Rightarrow>
        let f = uo_file outcome
        in seqM (repo_at env (\<lambda>now. finish_operation now (uo_operation_id outcome) OpFailed
                  (Some (uf_error_kind failure)) (Some (uf_error_message failure))))
          (seqM (repo_at env (\<lambda>now. mark_failed now
                  (failed_item (lf_root_id f) (Some (path_to_stable_string (lf_local_path f)))
                     (Some (lf_remote_path f)) (upload_operation (uo_is_update outcome))
                     (uf_error_kind failure) (uf_error_message failure))))
            (let rs = rs\<lparr>rt_failed_files := rt_failed_files rs + 1,
                         rt_error_summary := Some (uf_error_message failure)\<rparr>
             in seqM (persist_root_progress env run_id base rs)
                  (if uf_should_stop failure
                   then ret (True, live, rs\<lparr>rt_status := ROOT_STATUS_FAILED\<rparr>, bytes_uploaded)
                   else ret (False, live, rs, bytes_uploaded)))))"

definition finish_upload ::
  "'w sync_env \<Rightarrow> rowid \<Rightarrow> SyncRunSummary \<Rightarrow> UploadTaskOutcome \<Rightarrow> LiveScanPlan \<times> RootSyncSummary \<times> u64 \<Rightarrow>
   ('w, bool \<times> LiveScanPlan \<times> RootSyncSummary \<times> u64) sync" where
  "finish_upload env run_id base outcome acc =
     (case uo_result outcome of
        Inr _ \<Rightarrow> finish_upload_ok env run_id base outcome acc
      | Inl failure \<Rightarrow>
          (case acc of (live, rs, bytes_uploaded) \<Rightarrow>
             bindM (world_read (ev_fs env)) (\<lambda>fs.
               case register_missing_local_path fs (lf_local_path (uo_file outcome))
                      (lf_relative_path (uo_file outcome)) (lf_remote_path (uo_file outcome)) live of
                 (Some subtree, live) \<Rightarrow>
                   seqM (repo_at env (\<lambda>now. finish_operation now (uo_operation_id outcome) OpCancelled
                           (Some ''local_subtree_deleted'') (Some ''local subtree deleted during sync run'')))
                     (bindM (record_deleted_subtree env run_id subtree rs) (\<lambda>rs.
                       seqM (persist_root_progress env run_id base rs)
                         (ret (False, live, rs, bytes_uploaded))))
               | (None, live) \<Rightarrow>
                   (case uf_skip_reason_code failure of
                      Some reason_code \<Rightarrow>
                        finish_upload_skipped env run_id base outcome failure reason_code (live, rs, bytes_uploaded)
                    | None \<Rightarrow> finish_upload_failed env run_id base outcome failure (live, rs, bytes_uploaded)))))"

text \<open>The tasks of a batch: deleted files are left out, missing ones recorded.\<close>

primrec start_uploads ::
  "'w sync_env \<Rightarrow> rowid \<Rightarrow> SyncRunSummary \<Rightarrow> (LocalFileEntry \<times> bool) list \<Rightarrow> LiveScanPlan \<Rightarrow> RootSyncSummary \<Rightarrow>
   ('w, (rowid \<times> LocalFileEntry \<times> bool) list \<times> LiveScanPlan \<times> RootSyncSummary) sync" where
  "start_uploads env run_id base [] live rs = ret ([], live, rs)"
| "start_uploads env run_id base (c # batch) live rs =
     (case c of (f, is_update) \<Rightarrow>
        if is_deleted_relative_path live (lf_relative_path f)
        then start_uploads env run_id base batch live rs
        else bindM (world_read (ev_fs env)) (\<lambda>fs.
          case register_missing_local_path fs (lf_local_path f) (lf_relative_path f) (lf_remote_path f) live of
            (Some subtree, live) \<Rightarrow>
              bindM (record_deleted_subtree env run_id subtree rs) (\<lambda>rs.
                seqM (persist_root_progress env run_id base rs)
                  (start_uploads env run_id base batch live rs))
          | (None, live) \<Rightarrow>
              bindM (repo_at env (\<lambda>now. append_operation_started now
                       \<lparr>or_run_id = run_id, or_operation = upload_operation is_update,
                        or_local_path = Some (path_to_stable_string (lf_local_path f)),
                        or_remote_path = Some (lf_remote_path f)\<rparr>))
                (\<lambda>operation_id. bindM (start_uploads env run_id base batch live rs)
                  (\<lambda>(tasks, live, rs). ret ((operation_id, f, is_update) # tasks, live, rs)))))"

primrec upload_batches ::
  "'w sync_env \<Rightarrow> rowid \<Rightarrow> SyncRunSummary \<Rightarrow> nat \<Rightarrow> u64 \<Rightarrow> nat \<Rightarrow> (LocalFileEntry \<times> bool) list \<Rightarrow>
   LiveScanPlan \<times> RootSyncSummary \<times> u64 \<Rightarrow> ('w, bool \<times> LiveScanPlan \<times> RootSyncSummary \<times> u64) sync" where
  "upload_batches env run_id base concurrency large_threshold 0 pending acc = ret (False, acc)"
| "upload_batches env run_id base concurrency large_threshold (Suc n) pending acc =
     (if pending = [] then ret (False, acc)
      else bindM (is_cancelled env) (\<lambda>cancelled.
        if cancelled then ret (True, acc)
        else case take_upload_batch pending concurrency large_threshold of (batch, pending) \<Rightarrow>
          if batch = [] then ret (False, acc)
          else case acc of (live, rs, bytes_uploaded) \<Rightarrow>
            bindM (start_uploads env run_id base batch live rs) (\<lambda>(tasks, live, rs).
              bindM (join_tasks env (upload_task env) (finish_upload env run_id base) tasks
                       (live, rs, bytes_uploaded))
                (\<lambda>(stop, acc).
                  if stop then ret (True, acc)
                  else upload_batches env run_id base concurrency large_threshold n pending acc))))"

definition apply_uploads ::
  "'w sync_env \<Rightarrow> SyncConfig \<Rightarrow> rowid \<Rightarrow> SyncPlanOperation list \<Rightarrow> SyncRunSummary \<Rightarrow> LiveScanPlan \<Rightarrow>
   RootSyncSummary \<Rightarrow> ('w, bool \<times> LiveScanPlan \<times> RootSyncSummary \<times> u64) sync" where
  "apply_uploads env sync run_id plan base live rs =
     upload_batches env run_id base (max (sy_upload_concurrency sync) 1)
       (sy_large_file_name_size_only_min_bytes sync) (length (plan_uploads plan)) (plan_uploads plan)
       (live, rs, 0)"

end
