(* ===== verification/Migration_Model.thy ===== *)
theory Migration_Model
  imports Sync_Env
begin

text \<open>
  \<open>crates/yds-sync/src/migration.rs\<close>: the data of the migration and its pure functions. The migration
  brings what lies in the legacy folders of a root under its canonical path: it moves what matches,
  adopts what is there already, uploads the rest and deletes what is left over. The file has private
  copies, word for word, of \<open>is_stop_error\<close>, \<open>remote_resource_record\<close>, \<open>file_status_after_upload\<close>,
  \<open>relative_remote_path\<close>, \<open>parent_remote_paths\<close>, \<open>last_remote_segment\<close>, \<open>u64_to_i64\<close>,
  \<open>path_to_stable_string\<close> and \<open>is_skippable_local_io_error\<close>; one definition stands for the copies of each.
\<close>

section \<open>Errors, options, reports\<close>

datatype MigrationError =
    MgConfigInvalid string
  | MgAlreadyRunning
  | MgIo local_path io_error
  | MgPathMapping string PathMappingError
  | MgScanner string
  | MgState StateError
  | MgYandexDisk YandexDiskError

fun MigrationError_text :: "MigrationError \<Rightarrow> string" where
  "MigrationError_text (MgConfigInvalid text) = ''config validation failed: '' @ text"
| "MigrationError_text MgAlreadyRunning = ''migration run is already running''"
| "MigrationError_text (MgIo p e) = ''I/O error at '' @ path_string p @ '': '' @ io_text e"
| "MigrationError_text (MgPathMapping root_id e) =
     ''path mapping error for root '' @ root_id @ '': '' @ format_path_error e"
| "MigrationError_text (MgScanner text) = ''scanner error: '' @ text"
| "MigrationError_text (MgState e) = ''state error: '' @ StateError_text e"
| "MigrationError_text (MgYandexDisk e) = ''Yandex Disk error: '' @ YandexDiskError_text e"

record MigrationRunOptions =
  mo_lock_owner :: string
  mo_stale_lock_after :: int
    \<comment> \<open>whole seconds\<close>
  mo_force_remote_rescan :: bool

definition DEFAULT_STALE_LOCK_HOURS :: int where "DEFAULT_STALE_LOCK_HOURS = 6"

definition migration_run_options_default :: "string \<Rightarrow> MigrationRunOptions" where
  "migration_run_options_default uuid =
     \<lparr>mo_lock_owner = ''yds-migration-'' @ uuid, mo_stale_lock_after = DEFAULT_STALE_LOCK_HOURS * 3600,
      mo_force_remote_rescan = False\<rparr>"

datatype MigrationPlanOperation =
    CreateCanonicalDirectory string
  | MoveLegacyResource string string
    \<comment> \<open>from, to\<close>
  | AdoptRemoteFile string string string
    \<comment> \<open>relative path, remote path, method\<close>
  | MgUploadFile string string bool
    \<comment> \<open>relative path, remote path, whether a remote file is replaced\<close>
  | MgDeleteRemote string ResourceType

record MigrationRootSummary =
  mg_root_id :: string
  mg_local_path :: string
  mg_canonical_remote_path :: string
  mg_legacy_remote_paths :: "string list"
  mg_status :: string
  mg_scanned_files :: i64
  mg_adopted_files :: i64
  mg_moved_resources :: i64
  mg_uploaded_files :: i64
  mg_updated_files :: i64
  mg_deleted_files :: i64
  mg_skipped_files :: i64
  mg_failed_files :: i64
  mg_bytes_uploaded :: i64
  mg_error_summary :: "string option"

record MigrationRunReport =
  mr_run_id :: rowid
  mr_status :: SyncRunStatus
  mr_summary :: SyncRunSummary
  mr_roots :: "MigrationRootSummary list"
  mr_plan :: "MigrationPlanOperation list"

definition migration_status_from_summary :: "SyncRunSummary \<Rightarrow> MigrationRootSummary list \<Rightarrow> SyncRunStatus" where
  "migration_status_from_summary summary roots =
     (if list_ex (\<lambda>r. mg_status r = ROOT_STATUS_FAILED) roots then RunFailed
      else if list_ex (\<lambda>r. mg_status r = ROOT_STATUS_SKIPPED \<or> mg_status r = ROOT_STATUS_PARTIAL_FAILED) roots
      then RunPartialFailed
      else if i64_pos (su_failed_files summary)
      then (if i64_pos (su_uploaded_files summary) \<or> i64_pos (su_updated_files summary) \<or>
               i64_pos (su_deleted_files summary)
            then RunPartialFailed else RunFailed)
      else RunSucceeded)"

definition migration_add_root_summary :: "SyncRunSummary \<Rightarrow> MigrationRootSummary \<Rightarrow> SyncRunSummary" where
  "migration_add_root_summary acc root =
     \<lparr>su_scanned_files = su_scanned_files acc + mg_scanned_files root,
      su_uploaded_files = su_uploaded_files acc + mg_uploaded_files root,
      su_updated_files = su_updated_files acc + mg_updated_files root,
      su_deleted_files = su_deleted_files acc + mg_deleted_files root,
      su_skipped_files = su_skipped_files acc + mg_skipped_files root,
      su_failed_files = su_failed_files acc + mg_failed_files root,
      su_bytes_uploaded = su_bytes_uploaded acc + mg_bytes_uploaded root,
      su_error_summary =
        (case su_error_summary acc of None \<Rightarrow> mg_error_summary root | Some e \<Rightarrow> Some e)\<rparr>"

definition migration_initial_root_summary :: "AppConfig \<Rightarrow> SyncRootConfig \<Rightarrow> MigrationError + MigrationRootSummary" where
  "migration_initial_root_summary config root =
     (case canonical_remote_path (in_remote_root (cf_instance config)) (rc_local_path root)
             (rc_remote_path_override root) of
        Inl e \<Rightarrow> Inl (MgPathMapping (rc_id root) e)
      | Inr canonical \<Rightarrow> Inr
          \<lparr>mg_root_id = rc_id root, mg_local_path = rc_local_path root, mg_canonical_remote_path = canonical,
           mg_legacy_remote_paths = rc_legacy_remote_paths root, mg_status = ROOT_STATUS_SUCCEEDED,
           mg_scanned_files = 0, mg_adopted_files = 0, mg_moved_resources = 0, mg_uploaded_files = 0,
           mg_updated_files = 0, mg_deleted_files = 0, mg_skipped_files = 0, mg_failed_files = 0,
           mg_bytes_uploaded = 0, mg_error_summary = None\<rparr>)"

definition migration_ensure_valid_config :: "gitignore_api \<Rightarrow> AppConfig \<Rightarrow> MigrationError + unit" where
  "migration_ensure_valid_config gi config =
     (let report = validate_config gi config
      in if report_is_valid report then Inr ()
         else Inl (MgConfigInvalid (str_join ''; '' (map ce_message report))))"

section \<open>Errors of one file\<close>

fun per_file_processing_error :: "MigrationError \<Rightarrow> (string \<times> string) option" where
  "per_file_processing_error (MgIo p e) = Some (''local_io'', MigrationError_text (MgIo p e))"
| "per_file_processing_error (MgYandexDisk e) =
     (if is_stop_error (ye_kind e) then None else Some (YandexDiskErrorKind_as_str (ye_kind e), ye_message e))"
| "per_file_processing_error _ = None"

fun skippable_local_processing_error :: "MigrationError \<Rightarrow> (string \<times> string) option" where
  "skippable_local_processing_error (MgIo p e) =
     (if is_skippable_local_io_error e then Some (''local_file_unavailable'', MigrationError_text (MgIo p e)) else None)"
| "skippable_local_processing_error (MgYandexDisk e) =
     (if is_local_upload_source_unavailable e then Some (''local_file_unavailable'', ye_message e) else None)"
| "skippable_local_processing_error _ = None"

section \<open>Remote paths and inventories\<close>

definition migration_remote_path_for_relative :: "string \<Rightarrow> string \<Rightarrow> string" where
  "migration_remote_path_for_relative root relative_path =
     (if relative_path = '''' then root else trim_end_slash root @ ''/'' @ relative_path)"

definition legacy_remote_prefix :: "string \<Rightarrow> string \<Rightarrow> string" where
  "legacy_remote_prefix legacy_root relative_prefix = migration_remote_path_for_relative legacy_root relative_prefix"

definition legacy_to_canonical_path :: "string \<Rightarrow> string \<Rightarrow> string \<Rightarrow> string" where
  "legacy_to_canonical_path legacy_root canonical_root legacy_path =
     migration_remote_path_for_relative canonical_root (relative_remote_path legacy_root legacy_path)"

record LegacyInventory =
  li_root_path :: string
  li_resources :: "(string, ResourceMetadata) btree"

record RemoteSets =
  rx_canonical :: "(string, ResourceMetadata) btree"
  rx_legacy :: "LegacyInventory list"
  rx_from_cache :: bool

text \<open>The first legacy folder that has a file at the relative path: its index, the path, the file.\<close>

fun find_legacy_file_from :: "nat \<Rightarrow> LegacyInventory list \<Rightarrow> string \<Rightarrow> (nat \<times> string \<times> ResourceMetadata) option" where
  "find_legacy_file_from index [] relative_path = None"
| "find_legacy_file_from index (legacy # legacies) relative_path =
     (let remote_path = migration_remote_path_for_relative (li_root_path legacy) relative_path
      in case bt_get (li_resources legacy) remote_path of
           Some resource \<Rightarrow>
             if rs_resource_type resource = RtFile then Some (index, remote_path, resource)
             else find_legacy_file_from (Suc index) legacies relative_path
         | None \<Rightarrow> find_legacy_file_from (Suc index) legacies relative_path)"

definition find_legacy_file :: "RemoteSets \<Rightarrow> string \<Rightarrow> (nat \<times> string \<times> ResourceMetadata) option" where
  "find_legacy_file sets relative_path = find_legacy_file_from 0 (rx_legacy sets) relative_path"

text \<open>A cached record outside the canonical path is taken as well.\<close>

definition cached_resource_elsewhere :: "RemoteResourceRecord \<Rightarrow> ResourceMetadata" where
  "cached_resource_elsewhere r =
     \<lparr>rs_path = rm_remote_path r, rs_name = last_remote_segment (rm_remote_path r),
      rs_resource_type = (case rm_resource_type r of RrFile \<Rightarrow> RtFile | RrDir \<Rightarrow> RtDirectory),
      rs_size_bytes = Option.bind (rm_size_bytes r) u64_try_from, rs_md5 = rm_remote_md5 r,
      rs_revision = None, rs_created = None, rs_modified = rm_mtime_remote r\<rparr>"

definition belongs_to :: "string \<Rightarrow> string \<Rightarrow> bool" where
  "belongs_to root path = (path = root \<or> starts_with (trim_end_slash root @ ''/'') path)"

primrec insert_legacy_resource :: "ResourceMetadata \<Rightarrow> LegacyInventory list \<Rightarrow> LegacyInventory list" where
  "insert_legacy_resource resource [] = []"
| "insert_legacy_resource resource (inventory # legacies) =
     (if belongs_to (li_root_path inventory) (rs_path resource)
      then inventory\<lparr>li_resources := bt_insert (rs_path resource) resource (li_resources inventory)\<rparr> # legacies
      else inventory # insert_legacy_resource resource legacies)"

definition split_cached_record :: "string \<Rightarrow> RemoteResourceRecord \<Rightarrow> RemoteSets \<Rightarrow> RemoteSets" where
  "split_cached_record canonical record_row sets =
     (let resource = (case cached_resource_to_metadata canonical record_row of
                        Some resource \<Rightarrow> resource
                      | None \<Rightarrow> cached_resource_elsewhere record_row)
      in if belongs_to canonical (rs_path resource)
         then sets\<lparr>rx_canonical := bt_insert (rs_path resource) resource (rx_canonical sets)\<rparr>
         else sets\<lparr>rx_legacy := insert_legacy_resource resource (rx_legacy sets)\<rparr>)"

definition split_cached_remote_sets ::
  "SyncRootConfig \<Rightarrow> string \<Rightarrow> RemoteResourceRecord list \<Rightarrow> bool \<Rightarrow> RemoteSets" where
  "split_cached_remote_sets root canonical records from_cache =
     fold (split_cached_record canonical) records
       \<lparr>rx_canonical = [],
        rx_legacy = map (\<lambda>root_path. \<lparr>li_root_path = root_path, li_resources = []\<rparr>) (rc_legacy_remote_paths root),
        rx_from_cache = from_cache\<rparr>"

section \<open>Files\<close>

definition migration_file_state_record ::
  "LocalFileEntry \<Rightarrow> rowid \<Rightarrow> FileStateStatus \<Rightarrow> string option \<Rightarrow> string option \<Rightarrow> FileStateRecord" where
  "migration_file_state_record f run_id status last_error remote_md5 =
     \<lparr>fr_root_id = lf_root_id f, fr_local_path = path_to_stable_string (lf_local_path f),
      fr_relative_path = lf_relative_path f, fr_remote_path = lf_remote_path f,
      fr_normalized_remote_path = lf_normalized_remote_path f,
      fr_size_bytes = u64_to_i64 (lf_size_bytes f), fr_mtime_ns = lf_mtime_ns f, fr_ctime_ns = lf_ctime_ns f,
      fr_fingerprint_kind = FingerprintKind_as_str (fp_kind (lf_fingerprint f)),
      fr_fingerprint_value = Some (fp_value (lf_fingerprint f)),
      fr_full_sha256 = fp_full_sha256 (lf_fingerprint f), fr_remote_etag = None,
      fr_remote_md5 = remote_md5, fr_last_run_id = Some run_id,
      fr_status = status, fr_last_error = last_error\<rparr>"

definition directory_state_record :: "LocalDirectoryEntry \<Rightarrow> rowid \<Rightarrow> DirectoryStateRecord" where
  "directory_state_record d run_id =
     \<lparr>dr_root_id = ld_root_id d, dr_local_path = path_to_stable_string (ld_local_path d),
      dr_relative_path = ld_relative_path d, dr_remote_path = ld_remote_path d,
      dr_normalized_remote_path = ld_normalized_remote_path d, dr_last_run_id = Some run_id,
      dr_status = DsSynced, dr_last_error = None\<rparr>"

record AdoptionDecision =
  ad_matches :: bool
  ad_method :: string

text \<open>A file recorded as synchronised is left alone when neither side has changed since.\<close>

definition can_resume_synced_file ::
  "FileStateRecord \<Rightarrow> LocalFileEntry \<Rightarrow> ResourceMetadata \<Rightarrow> SyncConfig \<Rightarrow> MigrationError + bool" where
  "can_resume_synced_file previous f remote sync =
     (if fr_status previous \<noteq> FsSynced then Inr False
      else if fr_remote_path previous \<noteq> lf_remote_path f \<or>
              fr_normalized_remote_path previous \<noteq> lf_normalized_remote_path f \<or>
              fr_size_bytes previous \<noteq> u64_to_i64 (lf_size_bytes f) \<or>
              fr_mtime_ns previous \<noteq> lf_mtime_ns f \<or>
              fr_fingerprint_kind previous \<noteq> FingerprintKind_as_str (fp_kind (lf_fingerprint f)) \<or>
              fr_fingerprint_value previous \<noteq> Some (fp_value (lf_fingerprint f)) \<or>
              fr_full_sha256 previous \<noteq> fp_full_sha256 (lf_fingerprint f)
      then Inr False
      else if rs_resource_type remote \<noteq> RtFile \<or> rs_size_bytes remote \<noteq> Some (lf_size_bytes f)
      then Inr False
      else if lf_size_bytes f \<le> sy_full_hash_max_bytes sync
      then (case rs_md5 remote of
              Some remote_md5 \<Rightarrow>
                (case fp_local_md5 (lf_fingerprint f) of
                   Some local_md5 \<Rightarrow> Inr (eq_ignore_ascii_case local_md5 remote_md5)
                 | None \<Rightarrow>
                     (case fr_remote_md5 previous of
                        Some previous_md5 \<Rightarrow> Inr (eq_ignore_ascii_case previous_md5 remote_md5)
                      | None \<Rightarrow> Inr False))
            | None \<Rightarrow> Inr False)
      else Inr True)"

section \<open>Upload batches\<close>

record MigrationUploadCandidate =
  mc_operation_id :: rowid
  mc_file :: LocalFileEntry
  mc_is_update :: bool

fun migration_batch_loop ::
  "nat \<Rightarrow> u64 \<Rightarrow> MigrationUploadCandidate list \<Rightarrow> MigrationUploadCandidate list \<Rightarrow> bool \<Rightarrow>
   MigrationUploadCandidate list \<Rightarrow> MigrationUploadCandidate list \<times> MigrationUploadCandidate list" where
  "migration_batch_loop limit large_threshold selected deferred large_used [] = (selected, deferred)"
| "migration_batch_loop limit large_threshold selected deferred large_used (c # pending) =
     (let is_large = large_threshold \<le> lf_size_bytes (mc_file c)
      in if length selected < limit \<and> (\<not> is_large \<or> \<not> large_used)
         then migration_batch_loop limit large_threshold (selected @ [c]) deferred (large_used \<or> is_large) pending
         else migration_batch_loop limit large_threshold selected (deferred @ [c]) large_used pending)"

definition take_migration_upload_batch ::
  "MigrationUploadCandidate list \<Rightarrow> nat \<Rightarrow> u64 \<Rightarrow> MigrationUploadCandidate list \<times> MigrationUploadCandidate list" where
  "take_migration_upload_batch pending limit large_threshold =
     migration_batch_loop limit large_threshold [] [] False pending"

definition migration_upload_failure :: "YandexDiskError \<Rightarrow> UploadTaskFailure" where
  "migration_upload_failure e =
     \<lparr>uf_error_kind = YandexDiskErrorKind_as_str (ye_kind e), uf_error_message = ye_message e,
      uf_should_stop = is_stop_error (ye_kind e),
      uf_skip_reason_code =
        (if is_persistent_uploader_conflict e then Some ''remote_uploader_content_conflict''
         else if is_local_upload_source_unavailable e then Some ''local_file_unavailable''
         else None)\<rparr>"

section \<open>Deletions\<close>

record DeleteCandidate =
  dn_remote_path :: string
  dn_relative_path :: string
  dn_resource_type :: ResourceType
  dn_canonical_path :: string

definition legacy_candidates :: "LegacyInventory \<Rightarrow> ResourceMetadata list" where
  "legacy_candidates legacy =
     sort_key (\<lambda>r. rs_resource_type r \<noteq> RtDirectory)
       (sort_key (\<lambda>r. slash_count (rs_path r)) (sort_key rs_path (bt_values (li_resources legacy))))"

definition collect_legacy_resource ::
  "string \<Rightarrow> string \<Rightarrow> ResourceMetadata \<Rightarrow> string list \<times> DeleteCandidate list \<Rightarrow> string list \<times> DeleteCandidate list" where
  "collect_legacy_resource legacy_root canonical_root r acc =
     (case remote_delete_candidate_relative_path legacy_root (rs_path r) of
        Inl _ \<Rightarrow> acc
      | Inr relative_path \<Rightarrow>
          if suppressed (fst acc) (rs_path r) then acc
          else (if rs_resource_type r = RtDirectory then fst acc @ [rs_path r] else fst acc,
                snd acc @
                  [\<lparr>dn_remote_path = rs_path r, dn_relative_path = relative_path,
                    dn_resource_type = rs_resource_type r,
                    dn_canonical_path = legacy_to_canonical_path legacy_root canonical_root (rs_path r)\<rparr>]))"

definition collect_legacy_delete_candidates :: "LegacyInventory \<Rightarrow> string \<Rightarrow> DeleteCandidate list" where
  "collect_legacy_delete_candidates legacy canonical_root =
     snd (fold (collect_legacy_resource (li_root_path legacy) canonical_root) (legacy_candidates legacy) ([], []))"

definition canonical_delete_candidate :: "RemoteDeleteOperation \<Rightarrow> DeleteCandidate" where
  "canonical_delete_candidate d =
     \<lparr>dn_remote_path = rd_remote_path d, dn_relative_path = rd_relative_path d,
      dn_resource_type = rd_resource_type d, dn_canonical_path = rd_remote_path d\<rparr>"

text \<open>Everything the migration of a root deletes, the deepest paths first.\<close>

definition migration_delete_candidates ::
  "SyncRootConfig \<Rightarrow> string \<Rightarrow> LiveScanPlan \<Rightarrow> RemoteSets \<Rightarrow> DeleteCandidate list" where
  "migration_delete_candidates root canonical live sets =
     sort_desc (\<lambda>d. slash_count (dn_remote_path d))
       (sort_key dn_remote_path
         (map canonical_delete_candidate
            (collect_coalesced_delete_operations root canonical live (rx_canonical sets)) @
          concat (map (\<lambda>legacy. collect_legacy_delete_candidates legacy canonical) (rx_legacy sets))))"

end
