(* ===== verification/Sync_Run.thy ===== *)
theory Sync_Run
  imports Sync_Exec Migration_Model
begin

text \<open>
  \<open>crates/yds-sync/src/lib.rs\<close>: the delete phase, the whole of one root and the whole of a run.
  Of \<open>crates/yds-scanner/src/lib.rs\<close>, what the engine does around a scan: the options, the previous
  file states, the findings recorded and the staging files removed. The scan itself is a field of
  the environment, the migration an argument of \<open>run_once\<close>.
\<close>

section \<open>Deleting remote extras\<close>

definition mark_remote_deleted :: "'w sync_env \<Rightarrow> rowid \<Rightarrow> RemoteDeleteOperation \<Rightarrow> ('w, unit) sync" where
  "mark_remote_deleted env run_id delete =
     (case rd_resource_type delete of
        RtFile \<Rightarrow> repo_at env (\<lambda>now. mark_deleted now (rd_root_id delete) (rd_relative_path delete)
                    (rd_remote_path delete) (Some run_id))
      | RtDirectory \<Rightarrow> repo_at env (\<lambda>now. mark_directory_deleted now (rd_root_id delete)
                    (rd_relative_path delete) (rd_remote_path delete) (Some run_id)))"

text \<open>Both failures of a deletion are recorded alike; the flag stops the run.\<close>

definition delete_failed ::
  "'w sync_env \<Rightarrow> rowid \<Rightarrow> SyncRootConfig \<Rightarrow> SyncRunSummary \<Rightarrow> string \<Rightarrow> RemoteDeleteOperation \<Rightarrow> rowid \<Rightarrow>
   YandexDiskError \<Rightarrow> RootSyncSummary \<Rightarrow> ('w, bool \<times> RootSyncSummary) sync" where
  "delete_failed env run_id root base operation delete operation_id e rs =
     seqM (repo_at env (\<lambda>now. finish_operation now operation_id OpFailed
             (Some (YandexDiskErrorKind_as_str (ye_kind e))) (Some (ye_message e))))
    (seqM (repo_at env (\<lambda>now. mark_failed now
             (failed_item (rc_id root) None (Some (rd_remote_path delete)) operation
                (YandexDiskErrorKind_as_str (ye_kind e)) (ye_message e))))
       (let rs = rs\<lparr>rt_failed_files := rt_failed_files rs + 1, rt_error_summary := Some (ye_message e)\<rparr>
        in seqM (persist_root_progress env run_id base rs)
             (if is_stop_error (ye_kind e)
              then ret (True, rs\<lparr>rt_status := ROOT_STATUS_FAILED,
                                rt_error_summary := Some (YandexDiskError_text e)\<rparr>)
              else ret (False, rs))))"

definition delete_remote ::
  "'w sync_env \<Rightarrow> rowid \<Rightarrow> SyncRootConfig \<Rightarrow> SyncRunSummary \<Rightarrow> RemoteDeleteOperation \<Rightarrow> rowid \<Rightarrow>
   RootSyncSummary \<Rightarrow> ('w, bool \<times> RootSyncSummary) sync" where
  "delete_remote env run_id root base delete operation_id rs =
     bindM (world_call (dc_delete_permanently (ev_client env) (rd_remote_path delete))) (\<lambda>result.
       case result of
         Inr _ \<Rightarrow>
           seqM (repo_at env (\<lambda>now. finish_operation now operation_id OpSucceeded None None))
          (seqM (mark_remote_deleted env run_id delete)
          (seqM (repo env (delete_remote_resource_subtree (rd_root_id delete) (rd_remote_path delete)))
             (let rs = rs\<lparr>rt_deleted_files := rt_deleted_files rs + 1\<rparr>
              in seqM (persist_root_progress env run_id base rs) (ret (False, rs)))))
       | Inl e \<Rightarrow>
           if ye_kind e = YkNotFound then
             seqM (repo_at env (\<lambda>now. finish_operation now operation_id OpSucceeded None None))
            (seqM (mark_remote_deleted env run_id delete)
            (seqM (repo env (delete_remote_resource_subtree (rd_root_id delete) (rd_remote_path delete)))
               (ret (False, rs))))
           else delete_failed env run_id root base ''delete_remote'' delete operation_id e rs)"

text \<open>A path known from the cache only is looked up before it is deleted.\<close>

definition delete_step ::
  "'w sync_env \<Rightarrow> rowid \<Rightarrow> SyncRootConfig \<Rightarrow> bool \<Rightarrow> SyncRunSummary \<Rightarrow> RemoteDeleteOperation \<Rightarrow>
   RootSyncSummary \<Rightarrow> ('w, bool \<times> RootSyncSummary) sync" where
  "delete_step env run_id root inventory_from_cache base delete rs =
     bindM (repo_at env (\<lambda>now. append_operation_started now
              \<lparr>or_run_id = run_id, or_operation = ''delete_remote'', or_local_path = None,
               or_remote_path = Some (rd_remote_path delete)\<rparr>)) (\<lambda>operation_id.
       if inventory_from_cache then
         bindM (world_call (dc_metadata (ev_client env) (rd_remote_path delete))) (\<lambda>meta.
           case meta of
             Inr _ \<Rightarrow> delete_remote env run_id root base delete operation_id rs
           | Inl e \<Rightarrow>
               if ye_kind e = YkNotFound then
                 seqM (repo_at env (\<lambda>now. finish_operation now operation_id OpSucceeded None None))
                (seqM (repo env (delete_remote_resource_subtree (rd_root_id delete) (rd_remote_path delete)))
                   (ret (False, rs)))
               else delete_failed env run_id root base ''delete_remote_metadata_check'' delete operation_id e rs)
       else delete_remote env run_id root base delete operation_id rs)"

primrec delete_loop ::
  "'w sync_env \<Rightarrow> rowid \<Rightarrow> SyncRootConfig \<Rightarrow> bool \<Rightarrow> SyncRunSummary \<Rightarrow> RemoteDeleteOperation list \<Rightarrow>
   RootSyncSummary \<Rightarrow> ('w, bool \<times> RootSyncSummary) sync" where
  "delete_loop env run_id root inventory_from_cache base [] rs = ret (False, rs)"
| "delete_loop env run_id root inventory_from_cache base (delete # deletes) rs =
     bindM (is_cancelled env) (\<lambda>cancelled.
       if cancelled then ret (True, rs)
       else bindM (delete_step env run_id root inventory_from_cache base delete rs) (\<lambda>(stop, rs).
         if stop then ret (True, rs)
         else delete_loop env run_id root inventory_from_cache base deletes rs))"

definition apply_deletes ::
  "'w sync_env \<Rightarrow> rowid \<Rightarrow> SyncRootConfig \<Rightarrow> LiveScanPlan \<Rightarrow> (string, ResourceMetadata) btree \<Rightarrow> bool \<Rightarrow>
   SyncRunSummary \<Rightarrow> RootSyncSummary \<Rightarrow> ('w, bool \<times> RootSyncSummary) sync" where
  "apply_deletes env run_id root live inventory inventory_from_cache base rs =
     delete_loop env run_id root inventory_from_cache base
       (collect_coalesced_delete_operations root (rt_canonical_remote_path rs) live inventory) rs"

section \<open>Around the scan\<close>

definition scanner_state_text :: "StateError \<Rightarrow> string" where
  "scanner_state_text e = ''state error: '' @ StateError_text e"

definition scan_root_with_repository ::
  "'w sync_env \<Rightarrow> ScanOptions \<Rightarrow> ScanRoot \<Rightarrow> ('w, string, ScanReport) sync_m" where
  "scan_root_with_repository env options root =
     bindM (errM scanner_state_text (repo_call env (list_file_states_for_root (sn_id root)))) (\<lambda>previous.
       bindM (world_call (ev_scan env options root previous)) (\<lambda>result.
         case result of Inl e \<Rightarrow> throw e | Inr report \<Rightarrow> ret report))"

primrec eachM :: "('a \<Rightarrow> ('s, 'e, unit) m) \<Rightarrow> 'a list \<Rightarrow> ('s, 'e, unit) m" where
  "eachM f [] = ret ()"
| "eachM f (x # xs) = seqM (f x) (eachM f xs)"

definition scan_skipped_record :: "SkippedScanItem \<Rightarrow> SkippedItemRecord" where
  "scan_skipped_record skipped =
     \<lparr>sk_root_id = ss_root_id skipped, sk_local_path = path_to_stable_string (ss_local_path skipped),
      sk_relative_path = Some (ss_relative_path skipped), sk_remote_path = ss_remote_path skipped,
      sk_reason_code = ss_reason_code skipped, sk_reason_details = ss_reason_details skipped,
      sk_size_bytes = Option.bind (ss_size_bytes skipped) i64_try_from\<rparr>"

definition scan_failed_record :: "FailedScanItem \<Rightarrow> FailedItemRecord" where
  "scan_failed_record failed =
     failed_item (sf_root_id failed) (map_option path_to_stable_string (sf_local_path failed))
       (sf_remote_path failed) ''scan'' (sf_error_kind failed) (sf_error_message failed)"

definition scan_findings_call :: "'w sync_env \<Rightarrow> ScanReport \<Rightarrow> ('w, string, unit) sync_m" where
  "scan_findings_call env report =
     errM scanner_state_text
       (seqM (eachM (\<lambda>skipped. repo_at_call env (\<lambda>now. mark_skipped now (scan_skipped_record skipped)))
                (sc_skipped report))
          (eachM (\<lambda>failed. repo_at_call env (\<lambda>now. mark_failed now (scan_failed_record failed)))
             (sc_failed report)))"

definition record_scan_findings :: "'w sync_env \<Rightarrow> ScanReport \<Rightarrow> ('w, unit) sync" where
  "record_scan_findings env report = errM SyncScanner (scan_findings_call env report)"

definition staging_cleanup_call :: "'w sync_env \<Rightarrow> ScanReport \<Rightarrow> ('w, string, unit) sync_m" where
  "staging_cleanup_call env report =
     eachM (\<lambda>f. case lf_sqlite_backup_staging_path f of
              None \<Rightarrow> ret ()
            | Some staging_path \<Rightarrow>
                bindM (world_read (ev_remove_file env staging_path)) (\<lambda>result.
                  case result of
                    RemoveFailed source \<Rightarrow> throw (''I/O error at '' @ path_string staging_path @ '': '' @ source)
                  | _ \<Rightarrow> ret ()))
       (sc_files report)"

definition cleanup_staging_files :: "'w sync_env \<Rightarrow> ScanReport \<Rightarrow> ('w, unit) sync" where
  "cleanup_staging_files env report = errM SyncScanner (staging_cleanup_call env report)"

section \<open>One root\<close>

record RootExecutionResult =
  er_should_stop :: bool
  er_bytes_uploaded :: "u64 option"

definition root_stop :: "bool \<Rightarrow> RootExecutionResult" where
  "root_stop should_stop = \<lparr>er_should_stop = should_stop, er_bytes_uploaded = None\<rparr>"

definition available_remote_bytes :: "'w sync_env \<Rightarrow> ('w, u64 option) sync" where
  "available_remote_bytes env =
     bindM (world_call (dc_disk_info (ev_client env))) (\<lambda>result.
       case result of
         Inr info \<Rightarrow>
           ret (case (qi_total_space (di_quota info), qi_used_space (di_quota info)) of
                  (Some t, Some used) \<Rightarrow> Some (saturating_sub t used)
                | _ \<Rightarrow> None)
       | Inl e \<Rightarrow>
           seqM (modify_report (\<lambda>r. r\<lparr>sp_summary := (sp_summary r)\<lparr>su_error_summary := Some (YandexDiskError_text e)\<rparr>\<rparr>))
             (ret None))"

definition initial_root_summary :: "AppConfig \<Rightarrow> SyncRootConfig \<Rightarrow> SyncError + RootSyncSummary" where
  "initial_root_summary config root =
     (case canonical_remote_path (in_remote_root (cf_instance config)) (rc_local_path root)
             (rc_remote_path_override root) of
        Inl e \<Rightarrow> Inl (SyncPathMapping (rc_id root) e)
      | Inr canonical \<Rightarrow> Inr
          \<lparr>rt_root_id = rc_id root, rt_local_path = rc_local_path root, rt_canonical_remote_path = canonical,
           rt_status = ROOT_STATUS_SUCCEEDED, rt_scanned_files = 0, rt_uploaded_files = 0,
           rt_updated_files = 0, rt_deleted_files = 0, rt_skipped_files = 0, rt_failed_files = 0,
           rt_bytes_uploaded = 0, rt_error_summary = None\<rparr>)"

definition record_missing_root :: "'w sync_env \<Rightarrow> SyncRootConfig \<Rightarrow> RootSyncSummary \<Rightarrow> ('w, RootSyncSummary) sync" where
  "record_missing_root env root rs =
     (let message = ''local root is missing or not a directory: '' @ rc_local_path root
      in seqM (repo_at env (\<lambda>now. mark_skipped now
                 \<lparr>sk_root_id = rc_id root, sk_local_path = rc_local_path root, sk_relative_path = None,
                  sk_remote_path = Some (rt_canonical_remote_path rs), sk_reason_code = ''missing_root'',
                  sk_reason_details = Some message, sk_size_bytes = None\<rparr>))
        (seqM (repo env (update_sync_root_status (rc_id root) ROOT_STATUS_SKIPPED (Some message)))
           (ret (rs\<lparr>rt_status := ROOT_STATUS_SKIPPED, rt_skipped_files := 1,
                    rt_error_summary := Some message\<rparr>))))"

text \<open>The inventory could not be read: what is recorded does not depend on whether the run stops.\<close>

definition inventory_failed ::
  "'w sync_env \<Rightarrow> SyncRootConfig \<Rightarrow> YandexDiskError \<Rightarrow> RootSyncSummary \<Rightarrow>
   ('w, RootExecutionResult \<times> RootSyncSummary) sync" where
  "inventory_failed env root e rs =
     seqM (repo env (set_root_remote_inventory_status
             \<lparr>ri_root_id = rc_id root, ri_is_complete = False, ri_snapshot_completed_at_utc = None,
              ri_snapshot_expires_at_utc = None, ri_resource_count = 0,
              ri_last_error = Some (ye_message e)\<rparr>))
       (if is_stop_error (ye_kind e)
        then bindM (fail_root env root ''remote_inventory'' (YandexDiskErrorKind_as_str (ye_kind e))
                      (ye_message e) rs) (\<lambda>rs. ret (root_stop True, rs))
        else bindM (partial_fail_root env root ''remote_inventory'' (YandexDiskErrorKind_as_str (ye_kind e))
                      (ye_message e) rs) (\<lambda>rs. ret (root_stop False, rs)))"

text \<open>From the quota check to the deletions.\<close>

definition quota_message :: "u64 \<Rightarrow> u64 \<Rightarrow> string" where
  "quota_message upload_bytes available =
     ''planned upload size '' @ show_nat (unat upload_bytes) @
     '' bytes exceeds available Yandex Disk quota '' @ show_nat (unat available) @ '' bytes''"

definition apply_root_plan ::
  "'w sync_env \<Rightarrow> AppConfig \<Rightarrow> rowid \<Rightarrow> SyncRootConfig \<Rightarrow> ScanReport \<Rightarrow> RemoteInventorySnapshot \<Rightarrow>
   SyncPlanOperation list \<Rightarrow> SyncRunSummary \<Rightarrow> LiveScanPlan \<Rightarrow> RootSyncSummary \<Rightarrow>
   ('w, RootExecutionResult \<times> RootSyncSummary) sync" where
  "apply_root_plan env config run_id root scan_report snapshot plan base live rs =
     seqM (modify_report (\<lambda>r. r\<lparr>sp_plan := sp_plan r @ plan\<rparr>))
    (bindM (apply_create_directories env (cf_sync config) run_id root plan base live rs) (\<lambda>(stop, live, rs).
     bindM (if stop then ret True else is_cancelled env) (\<lambda>leave.
       if leave then
         seqM (cleanup_staging_files env scan_report)
           (bindM (finish_root_cancelled_or_failed env root rs) (\<lambda>rs. ret (root_stop True, rs)))
       else
         bindM (apply_uploads env (cf_sync config) run_id plan base live rs)
           (\<lambda>(stop, live, rs, bytes_uploaded).
            seqM (cleanup_staging_files env scan_report)
           (bindM (if stop then ret True else is_cancelled env) (\<lambda>leave.
              if leave then
                bindM (finish_root_cancelled_or_failed env root rs) (\<lambda>rs.
                  ret (\<lparr>er_should_stop = True, er_bytes_uploaded = Some bytes_uploaded\<rparr>, rs))
              else
                bindM (apply_deletes env run_id root live (iv_resources snapshot) (iv_from_cache snapshot) base rs)
                  (\<lambda>(stop, rs).
                  bindM (finish_root_cancelled_or_failed env root rs) (\<lambda>rs.
                  seqM (persist_root_progress env run_id base rs)
                    (ret (\<lparr>er_should_stop = stop, er_bytes_uploaded = Some bytes_uploaded\<rparr>, rs))))))))))"

definition check_quota_and_apply ::
  "'w sync_env \<Rightarrow> AppConfig \<Rightarrow> rowid \<Rightarrow> SyncRootConfig \<Rightarrow> u64 option \<Rightarrow> ScanReport \<Rightarrow>
   RemoteInventorySnapshot \<Rightarrow> SyncPlanOperation list \<Rightarrow> SyncRunSummary \<Rightarrow> LiveScanPlan \<Rightarrow> RootSyncSummary \<Rightarrow>
   ('w, RootExecutionResult \<times> RootSyncSummary) sync" where
  "check_quota_and_apply env config run_id root quota scan_report snapshot plan base live rs =
     (let upload_bytes = plan_upload_bytes plan
      in case quota of
           Some available \<Rightarrow>
             if available < upload_bytes then
               let message = quota_message upload_bytes available
               in bindM (fail_root env root ''quota_check'' (YandexDiskErrorKind_as_str YkQuotaExceeded) message rs)
                    (\<lambda>rs. seqM (modify_report (\<lambda>r. r\<lparr>sp_summary :=
                              (sp_summary r)\<lparr>su_error_summary := Some message\<rparr>\<rparr>))
                            (ret (root_stop True, rs)))
             else apply_root_plan env config run_id root scan_report snapshot plan base live rs
         | None \<Rightarrow> apply_root_plan env config run_id root scan_report snapshot plan base live rs)"

definition execute_scanned_root ::
  "'w sync_env \<Rightarrow> AppConfig \<Rightarrow> rowid \<Rightarrow> SyncRootConfig \<Rightarrow> u64 option \<Rightarrow> bool \<Rightarrow> SyncRunSummary \<Rightarrow>
   ScanReport \<Rightarrow> RootSyncSummary \<Rightarrow> ('w, RootExecutionResult \<times> RootSyncSummary) sync" where
  "execute_scanned_root env config run_id root quota force_remote_rescan base scan_report rs =
     seqM (record_scan_findings env scan_report)
    (bindM (world_read (ev_fs env)) (\<lambda>fs.
     let live = from_scan_report (fv_is_dir fs) (path_from (rc_local_path root)) scan_report;
         rs = rs\<lparr>rt_scanned_files := of_nat (length (lp_files live)),
                 rt_skipped_files := of_nat (length (sc_skipped scan_report)),
                 rt_failed_files := of_nat (length (sc_failed scan_report))\<rparr>
     in bindM (record_deleted_subtrees env run_id live rs) (\<lambda>rs.
        seqM (persist_root_progress env run_id base rs)
          (case local_remote_collision (lp_directories live) (lp_files live) of
             Some message \<Rightarrow>
               bindM (fail_root env root ''plan'' ''path_collision'' message rs) (\<lambda>rs.
                 ret (root_stop False, rs))
           | None \<Rightarrow>
               bindM (catchM (remote_inventory env (cf_sync config) root (rt_canonical_remote_path rs) live
                        force_remote_rescan)) (\<lambda>inventory.
                 case inventory of
                   Inl e \<Rightarrow> inventory_failed env root e rs
                 | Inr snapshot \<Rightarrow>
                     check_quota_and_apply env config run_id root quota scan_report snapshot
                       (build_root_plan root (rt_canonical_remote_path rs) live (iv_resources snapshot))
                       base live rs)))))"

definition execute_root ::
  "'w sync_env \<Rightarrow> AppConfig \<Rightarrow> rowid \<Rightarrow> SyncRootConfig \<Rightarrow> ScanOptions \<Rightarrow> u64 option \<Rightarrow> bool \<Rightarrow>
   RootSyncSummary \<Rightarrow> ('w, RootExecutionResult \<times> RootSyncSummary) sync" where
  "execute_root env config run_id root options quota force_remote_rescan rs =
     bindM get_report (\<lambda>report.
       bindM (catchM (scan_root_with_repository env options
                \<lparr>sn_id = rc_id root, sn_local_path = path_from (rc_local_path root),
                 sn_canonical_remote_path = rt_canonical_remote_path rs, sn_excludes = rc_excludes root\<rparr>))
         (\<lambda>scan.
           case scan of
             Inl message \<Rightarrow>
               bindM (fail_root env root ''scan'' ''scanner'' message rs) (\<lambda>rs. ret (root_stop False, rs))
           | Inr scan_report \<Rightarrow>
               execute_scanned_root env config run_id root quota force_remote_rescan (sp_summary report)
                 scan_report rs))"

section \<open>One run\<close>

definition finish_root ::
  "RootSyncSummary \<Rightarrow> ('w, unit) sync" where
  "finish_root rs =
     modify_report (\<lambda>r. r\<lparr>sp_summary := add_root_summary (sp_summary r) rs, sp_roots := sp_roots r @ [rs]\<rparr>)"

text \<open>The roots of the loop are the enabled ones; the quota left is what the loop changes.\<close>

primrec execute_roots ::
  "'w sync_env \<Rightarrow> AppConfig \<Rightarrow> rowid \<Rightarrow> ScanOptions \<Rightarrow> bool \<Rightarrow> u64 option \<Rightarrow> SyncRootConfig list \<Rightarrow>
   ('w, unit) sync" where
  "execute_roots env config run_id options force_remote_rescan quota [] = ret ()"
| "execute_roots env config run_id options force_remote_rescan quota (root # roots) =
     bindM (is_cancelled env) (\<lambda>cancelled.
       if cancelled then
         modify_report (\<lambda>r. r\<lparr>sp_summary := (sp_summary r)\<lparr>su_error_summary := Some ''sync run cancelled''\<rparr>\<rparr>)
       else case initial_root_summary config root of
         Inl e \<Rightarrow> throw e
       | Inr rs \<Rightarrow>
           seqM (repo_at env (\<lambda>now. upsert_sync_root now (rc_id root) (rc_local_path root)
                   (in_remote_root (cf_instance config)) (rt_canonical_remote_path rs) (rc_enabled root)))
          (bindM (world_read (ev_fs env)) (\<lambda>fs.
             if \<not> fv_is_dir fs (path_from (rc_local_path root)) then
               bindM (record_missing_root env root rs) (\<lambda>rs.
                 seqM (finish_root rs)
                   (execute_roots env config run_id options force_remote_rescan quota roots))
             else
               bindM (execute_root env config run_id root options quota force_remote_rescan rs)
                 (\<lambda>(result, rs).
                   let quota = (case er_bytes_uploaded result of
                                  Some consumed \<Rightarrow> map_option (\<lambda>a. saturating_sub a consumed) quota
                                | None \<Rightarrow> quota)
                   in seqM (finish_root rs)
                     (bindM (if er_should_stop result then ret True else is_cancelled env) (\<lambda>leave.
                        if leave then ret ()
                        else execute_roots env config run_id options force_remote_rescan quota roots))))))"

definition execute_run :: "'w sync_env \<Rightarrow> AppConfig \<Rightarrow> rowid \<Rightarrow> bool \<Rightarrow> ('w, unit) sync" where
  "execute_run env config run_id force_remote_rescan =
     bindM (available_remote_bytes env) (\<lambda>quota.
       execute_roots env config run_id
         (scan_options_from_config (cf_sync config) (cf_global_excludes config) (cf_absolute_excludes config)
            (path_from (pa_staging_dir (cf_paths config))))
         force_remote_rescan quota (filter rc_enabled (cf_roots config)))"

definition ensure_valid_config :: "gitignore_api \<Rightarrow> AppConfig \<Rightarrow> SyncError + unit" where
  "ensure_valid_config gi config =
     (let report = validate_config gi config
      in if report_is_valid report then Inr ()
         else Inl (ConfigInvalid (str_join ''; '' (map ce_message report))))"

primrec should_auto_migrate_roots :: "'w sync_env \<Rightarrow> SyncRootConfig list \<Rightarrow> ('w, bool) sync" where
  "should_auto_migrate_roots env [] = ret False"
| "should_auto_migrate_roots env (root # roots) =
     bindM (world_read (ev_fs env)) (\<lambda>fs.
       if fv_is_dir fs (path_from (rc_local_path root)) then
         bindM (repo env (has_snapshot_for_root (rc_id root))) (\<lambda>has_snapshot.
           if \<not> has_snapshot then ret True else should_auto_migrate_roots env roots)
       else should_auto_migrate_roots env roots)"

definition should_auto_migrate :: "'w sync_env \<Rightarrow> AppConfig \<Rightarrow> ('w, bool) sync" where
  "should_auto_migrate env config = should_auto_migrate_roots env (filter rc_enabled (cf_roots config))"

record SyncRunOptions =
  sro_trigger :: SyncRunTrigger
  sro_lock_owner :: string
  sro_stale_lock_after :: int
    \<comment> \<open>whole seconds\<close>
  sro_force_remote_rescan :: bool

definition sync_run_options_default :: "string \<Rightarrow> SyncRunOptions" where
  "sync_run_options_default uuid =
     \<lparr>sro_trigger = TrCli, sro_lock_owner = ''yds-sync-'' @ uuid, sro_stale_lock_after = 6 * 3600,
      sro_force_remote_rescan = False\<rparr>"

definition sync_report_from_migration :: "MigrationRunReport \<Rightarrow> SyncRunReport" where
  "sync_report_from_migration report =
     \<lparr>sp_run_id = mr_run_id report, sp_status = mr_status report, sp_summary = mr_summary report,
      sp_roots = map (\<lambda>root.
        \<lparr>rt_root_id = mg_root_id root, rt_local_path = mg_local_path root,
         rt_canonical_remote_path = mg_canonical_remote_path root, rt_status = mg_status root,
         rt_scanned_files = mg_scanned_files root, rt_uploaded_files = mg_uploaded_files root,
         rt_updated_files = mg_updated_files root, rt_deleted_files = mg_deleted_files root,
         rt_skipped_files = mg_skipped_files root, rt_failed_files = mg_failed_files root,
         rt_bytes_uploaded = mg_bytes_uploaded root, rt_error_summary = mg_error_summary root\<rparr>)
        (mr_roots report),
      sp_plan = []\<rparr>"

definition new_report :: "rowid \<Rightarrow> SyncRunReport" where
  "new_report run_id =
     \<lparr>sp_run_id = run_id, sp_status = RunRunning, sp_summary = summary_default, sp_roots = [], sp_plan = []\<rparr>"

text \<open>The status of the report after \<open>execute_run\<close>.\<close>

definition conclude_run :: "'w sync_env \<Rightarrow> SyncError + unit \<Rightarrow> ('w, unit) sync" where
  "conclude_run env execution =
     (case execution of
        Inl e \<Rightarrow>
          modify_report (\<lambda>r. r\<lparr>sp_status := RunFailed, sp_summary := (sp_summary r)
            \<lparr>su_failed_files := su_failed_files (sp_summary r) + 1,
             su_error_summary := Some (SyncError_text e)\<rparr>\<rparr>)
      | Inr _ \<Rightarrow>
          bindM (is_cancelled env) (\<lambda>cancelled.
            if cancelled then
              modify_report (\<lambda>r. r\<lparr>sp_status := RunCancelled, sp_summary :=
                (case su_error_summary (sp_summary r) of
                   None \<Rightarrow> (sp_summary r)\<lparr>su_error_summary := Some ''sync run cancelled''\<rparr>
                 | Some _ \<Rightarrow> sp_summary r)\<rparr>)
            else modify_report (\<lambda>r. r\<lparr>sp_status := status_from_summary (sp_summary r) (sp_roots r)\<rparr>)))"

definition acquire_lock :: "'w sync_env \<Rightarrow> SyncRunOptions \<Rightarrow> ('w, RunLockGuard option) sync" where
  "acquire_lock env options =
     bindM (world_read (ev_now env)) (\<lambda>now.
       repo env (try_acquire_run_lock (\<lambda>_. ev_utc_text env now) (sro_lock_owner options)
                   (now div 1000000000) (sro_stale_lock_after options)))"

text \<open>The run once the lock is held; both statements at the end run before either error is returned.\<close>

definition run_locked ::
  "'w sync_env \<Rightarrow> AppConfig \<Rightarrow> SyncRunOptions \<Rightarrow> RunLockGuard \<Rightarrow> ('w, SyncRunReport) sync" where
  "run_locked env config options guard =
     seqM (repo_at env repair_interrupted_runs)
    (bindM (repo_at env (\<lambda>now. begin_run now (sro_trigger options))) (\<lambda>run_id.
     seqM (modify_report (\<lambda>_. new_report run_id))
    (bindM (catchM (execute_run env config run_id
              (sro_force_remote_rescan options \<or> sy_force_remote_rescan (cf_sync config)))) (\<lambda>execution.
     seqM (conclude_run env execution)
    (bindM get_report (\<lambda>report.
     bindM (catchM (repo_at env (\<lambda>now. finish_run now run_id (sp_status report) (sp_summary report))))
       (\<lambda>finish_result.
     bindM (catchM (repo env (release_run_lock guard))) (\<lambda>release_result.
       case finish_result of
         Inl e \<Rightarrow> throw e
       | Inr _ \<Rightarrow> (case release_result of Inl e \<Rightarrow> throw e | Inr _ \<Rightarrow> ret report)))))))))"

definition run_once ::
  "'w sync_env \<Rightarrow> AppConfig \<Rightarrow> (MigrationRunOptions \<Rightarrow> ('w, MigrationRunReport) sync) \<Rightarrow> SyncRunOptions \<Rightarrow>
   ('w, SyncRunReport) sync" where
  "run_once env config migrate options =
     (case ensure_valid_config (ev_gitignore env) config of
        Inl e \<Rightarrow> throw e
      | Inr _ \<Rightarrow>
          bindM (if sro_trigger options = TrMigration then ret False else should_auto_migrate env config)
            (\<lambda>auto_migrate.
              if auto_migrate then
                bindM (migrate \<lparr>mo_lock_owner = sro_lock_owner options,
                                mo_stale_lock_after = sro_stale_lock_after options,
                                mo_force_remote_rescan = sro_force_remote_rescan options\<rparr>)
                  (\<lambda>report. ret (sync_report_from_migration report))
              else
                bindM (acquire_lock env options) (\<lambda>guard.
                  case guard of
                    None \<Rightarrow> throw AlreadyRunning
                  | Some guard \<Rightarrow> run_locked env config options guard)))"

end
