(* ===== verification/Sync_Yield.thy ===== *)
theory Sync_Yield
  imports Sync_Run Delete_Plan
begin

text \<open>
  What the steps of a run return, whatever the state: the summary a step returns is still that of
  the root it was given, and every deletion planned for a root names a path below it.
\<close>

section \<open>Results\<close>

definition yields :: "('a \<Rightarrow> bool) \<Rightarrow> ('s, 'e, 'a) m \<Rightarrow> bool" where
  "yields Q f = (\<forall>s x s'. f s = (Inr x, s') \<longrightarrow> Q x)"

lemma yields_ret [simp]: "yields Q (ret x) = Q x"
  by (simp add: yields_def ret_def)

lemma yields_throw [simp]: "yields Q (throw e)"
  by (simp add: yields_def throw_def)

lemma yields_bindM: "yields R f \<Longrightarrow> (\<And>x. R x \<Longrightarrow> yields Q (g x)) \<Longrightarrow> yields Q (bindM f g)"
  unfolding yields_def bindM_def by (fastforce split: prod.splits sum.splits)

lemma yields_bindM_any: "(\<And>x. yields Q (g x)) \<Longrightarrow> yields Q (bindM f g)"
  by (rule yields_bindM [of "\<lambda>_. True"]) (simp_all add: yields_def)

lemma yields_seqM: "yields Q g \<Longrightarrow> yields Q (seqM f g)"
  unfolding seqM_def by (rule yields_bindM_any)

lemmas yields_plain =
  yields_seqM
  yields_bindM_any [where f = "world_read f" for f]
  yields_bindM_any [where f = "world_call f" for f]
  yields_bindM_any [where f = "repo_at env f" for env f]
  yields_bindM_any [where f = "Sync_Env.is_cancelled env" for env]
  yields_bindM_any [where f = "mapM f xs" for f xs]
  yields_bindM_any [where f = "if b then ret True else Sync_Env.is_cancelled env" for b env]

lemma yields_weaken: "yields Q f \<Longrightarrow> (\<And>x. Q x \<Longrightarrow> R x) \<Longrightarrow> yields R f"
  by (auto simp: yields_def)

lemma keeps_bindM_yields:
  "keeps P f \<Longrightarrow> yields Q f \<Longrightarrow> (\<And>x. Q x \<Longrightarrow> keeps P (g x)) \<Longrightarrow> keeps P (bindM f g)"
  unfolding keeps_def bindM_def yields_def by (fastforce split: prod.splits sum.splits)

lemma yields_foldM: "(\<And>x acc. Q acc \<Longrightarrow> yields Q (f x acc)) \<Longrightarrow> Q acc \<Longrightarrow> yields Q (foldM f xs acc)"
  by (induction xs arbitrary: acc) (auto intro: yields_bindM)

lemma yields_join_loop:
  assumes "\<And>x acc. Q acc \<Longrightarrow> yields (\<lambda>r. Q (snd r)) (body x acc)" "Q acc"
  shows "yields (\<lambda>r. Q (snd r)) (join_loop env task body n spawned finished acc)"
  using assms(2)
  by (induction n arbitrary: spawned finished acc)
    (auto simp: Let_def split: list.split intro!: yields_plain yields_bindM [OF assms(1)])

lemma yields_join_tasks:
  assumes "\<And>x acc. Q acc \<Longrightarrow> yields (\<lambda>r. Q (snd r)) (body x acc)" "Q acc"
  shows "yields (\<lambda>r. Q (snd r)) (join_tasks env task body tasks acc)"
  unfolding join_tasks_def by (intro yields_plain yields_join_loop assms)

section \<open>The summary of the root\<close>

definition of_root :: "string \<Rightarrow> string \<Rightarrow> RootSyncSummary \<Rightarrow> bool" where
  "of_root rid canonical rs = (rt_root_id rs = rid \<and> rt_canonical_remote_path rs = canonical)"

lemma of_root_simps [simp]:
  "of_root r c (rs\<lparr>rt_status := a\<rparr>) = of_root r c rs"
  "of_root r c (rs\<lparr>rt_scanned_files := n1\<rparr>) = of_root r c rs"
  "of_root r c (rs\<lparr>rt_uploaded_files := n2\<rparr>) = of_root r c rs"
  "of_root r c (rs\<lparr>rt_updated_files := n3\<rparr>) = of_root r c rs"
  "of_root r c (rs\<lparr>rt_deleted_files := n4\<rparr>) = of_root r c rs"
  "of_root r c (rs\<lparr>rt_skipped_files := n5\<rparr>) = of_root r c rs"
  "of_root r c (rs\<lparr>rt_failed_files := n6\<rparr>) = of_root r c rs"
  "of_root r c (rs\<lparr>rt_bytes_uploaded := n7\<rparr>) = of_root r c rs"
  "of_root r c (rs\<lparr>rt_error_summary := e\<rparr>) = of_root r c rs"
  by (simp_all add: of_root_def)

lemma record_deleted_subtree_root:
  "of_root r c rs \<Longrightarrow> yields (of_root r c) (record_deleted_subtree env n subtree rs)"
  unfolding record_deleted_subtree_def by (simp add: yields_seqM)

lemma record_deleted_subtrees_root:
  "of_root r c rs \<Longrightarrow> yields (of_root r c) (record_deleted_subtrees env n live rs)"
  unfolding record_deleted_subtrees_def by (intro yields_foldM record_deleted_subtree_root)

lemma fail_root_as_root: "of_root r c rs \<Longrightarrow> yields (of_root r c) (fail_root_as st env root operation k msg rs)"
  unfolding fail_root_as_def by (simp add: yields_seqM)

lemma finish_root_cancelled_or_failed_root:
  "of_root r c rs \<Longrightarrow> yields (of_root r c) (finish_root_cancelled_or_failed env root rs)"
  unfolding finish_root_cancelled_or_failed_def Let_def by (auto intro!: yields_plain)

lemma finish_create_directory_root:
  "of_root r c rs \<Longrightarrow> yields (\<lambda>x. of_root r c (snd x)) (finish_create_directory env n root base outcome rs)"
  unfolding finish_create_directory_def Let_def
  by (auto intro!: yields_plain split: prod.split sum.split)

lemma fill_batch_root:
  "of_root r c rs \<Longrightarrow> yields (\<lambda>x. of_root r c (snd (snd (snd x)))) (fill_batch env n base k pending batch live rs)"
  by (induction pending arbitrary: batch live rs)
    (auto intro!: yields_plain yields_bindM [OF record_deleted_subtree_root]
      split: prod.split option.split)

lemma create_level_root:
  "of_root r c rs \<Longrightarrow> yields (\<lambda>x. of_root r c (snd (snd x))) (create_level env n root base k m pending live rs)"
proof (induction m arbitrary: pending live rs)
  case (Suc m)
  note join = yields_join_tasks [where Q = "of_root r c", OF finish_create_directory_root]
  show ?case
    using Suc
    by (auto intro!: yields_plain yields_bindM [OF fill_batch_root] yields_bindM [OF join]
        split: prod.split)
qed simp

lemma create_levels_root:
  "of_root r c rs \<Longrightarrow> yields (\<lambda>x. of_root r c (snd (snd x))) (create_levels env n root base k levels live rs)"
  by (induction levels arbitrary: live rs)
    (auto intro!: yields_bindM [OF create_level_root] split: prod.split)

lemma apply_create_directories_root:
  "of_root r c rs \<Longrightarrow> yields (\<lambda>x. of_root r c (snd (snd x))) (apply_create_directories env sync n root plan base live rs)"
  unfolding apply_create_directories_def by (rule create_levels_root)

lemma finish_upload_root:
  "of_root r c (fst (snd acc)) \<Longrightarrow>
   yields (\<lambda>x. of_root r c (fst (snd (snd x)))) (finish_upload env n base outcome acc)"
  unfolding finish_upload_def finish_upload_ok_def finish_upload_skipped_def finish_upload_failed_def Let_def
  by (auto intro!: yields_plain yields_bindM [OF record_deleted_subtree_root]
      split: prod.split sum.split option.split)

lemma start_uploads_root:
  "of_root r c rs \<Longrightarrow> yields (\<lambda>x. of_root r c (snd (snd x))) (start_uploads env n base batch live rs)"
proof (induction batch arbitrary: live rs)
  case (Cons f batch)
  show ?case
    using Cons.prems
    by (auto intro!: yields_plain yields_bindM [OF record_deleted_subtree_root]
        yields_bindM [OF Cons.IH] Cons.IH split: prod.split option.split)
qed simp

lemma upload_batches_root:
  "of_root r c (fst (snd acc)) \<Longrightarrow>
   yields (\<lambda>x. of_root r c (fst (snd (snd x)))) (upload_batches env n base k large m pending acc)"
proof (induction m arbitrary: pending acc)
  case (Suc m)
  note join = yields_join_tasks [where Q = "\<lambda>acc. of_root r c (fst (snd acc))", OF finish_upload_root]
  show ?case
    using Suc
    by (auto intro!: yields_plain yields_bindM [OF start_uploads_root] yields_bindM [OF join]
        split: prod.split)
qed simp

lemma apply_uploads_root:
  "of_root r c rs \<Longrightarrow> yields (\<lambda>x. of_root r c (fst (snd (snd x)))) (apply_uploads env sync n plan base live rs)"
  unfolding apply_uploads_def by (rule upload_batches_root) simp

section \<open>Planned deletions lie below the root\<close>

definition below_root :: "string \<Rightarrow> string \<Rightarrow> bool" where
  "below_root canonical path =
     (case strip_prefix (trim_end_slash canonical @ ''/'') path of None \<Rightarrow> False | Some rel \<Rightarrow> rel \<noteq> [])"

lemma below_root_iff:
  "below_root canonical path \<longleftrightarrow> (\<exists>rel. rel \<noteq> [] \<and> path = trim_end_slash canonical @ ''/'' @ rel)"
  by (auto simp: below_root_def strip_prefix_Some_iff split: option.split)
    (metis append.assoc append_Cons append_Nil option.distinct(1) strip_prefix_Some_iff)

lemma top_missing_loop_below:
  "top_missing_loop known pre segments = Some p \<Longrightarrow> (\<forall>s\<in>set segments. s \<noteq> []) \<Longrightarrow>
   (\<exists>rel. rel \<noteq> [] \<and> p = pre @ ''/'' @ rel)"
proof (induction known pre segments rule: top_missing_loop.induct)
  case (2 known pre segment segments)
  let ?next = "pre @ ''/'' @ segment"
  have "p = ?next \<or> (\<exists>rel. rel \<noteq> [] \<and> p = ?next @ ''/'' @ rel)"
    using 2 by (auto simp: Let_def split: if_splits)
  then show ?case using "2.prems"(2) by auto
qed simp

lemma collect_resource_below:
  assumes "\<forall>op\<in>set (snd acc). below_root canonical (rd_remote_path op)"
  shows "\<forall>op\<in>set (snd (collect_resource rid canonical known r acc)). below_root canonical (rd_remote_path op)"
proof (cases "remote_delete_candidate_relative_path canonical (rs_path r)")
  case (Inr rel)
  then have own: "below_root canonical (rs_path r)"
    by (auto simp: remote_delete_candidate_relative_path_def Let_def below_root_iff strip_prefix_Some_iff
        split: if_splits option.splits)
  have "below_root canonical d" if "top_missing_remote_directory_prefix canonical (rs_path r) known = Some d" for d
    using that unfolding below_root_iff
    by (auto simp: top_missing_remote_directory_prefix_def Let_def split: if_splits
        dest!: top_missing_loop_below dest: in_set_butlastD)
  then show ?thesis
    using assms own
    by (auto simp: collect_resource_def Inr collect_directory_def delete_operation_def split: option.splits)
qed (use assms in \<open>simp add: collect_resource_def\<close>)

lemma planned_deletion_below:
  assumes "op \<in> set (collect_coalesced_delete_operations root canonical live inventory)"
  shows "below_root canonical (rd_remote_path op)"
proof -
  have "\<forall>op\<in>set (snd (fold (collect_resource rid canonical known) rs acc)). below_root canonical (rd_remote_path op)"
    if "\<forall>op\<in>set (snd acc). below_root canonical (rd_remote_path op)" for rid known rs acc
    using that
  proof (induction rs arbitrary: acc)
    case (Cons r rs)
    from Cons.IH [OF collect_resource_below [OF Cons.prems]] show ?case by simp
  qed simp
  from this [of "([], [])"] assms show ?thesis
    by (auto simp: collect_coalesced_delete_operations_def Let_def deepest_first_def)
qed

end
