(* ===== verification/State_Inv.thy ===== *)
theory State_Inv
  imports State_Items State_Lock
begin

text \<open>
  What the state repository promises: primary keys stay unique and row identifiers fresh, whatever
  sequence of operations ran (\<open>db_reachable_wf\<close>), and what the operations return and leave
  unchanged. The tables written by an upsert are interpretations of \<open>keyed_table\<close>.
\<close>

section \<open>The tables with a primary key\<close>

interpretation roots_tbl: keyed_table sr_id merge_sync_root
  by unfold_locales (simp add: merge_sync_root_def)

interpretation inventory_tbl: keyed_table ri_root_id "\<lambda>new old. new"
  by unfold_locales simp

interpretation files_tbl: keyed_table file_key "\<lambda>new old. new"
  by unfold_locales simp

interpretation files_deleted_tbl: keyed_table file_key merge_deleted_file
  by unfold_locales (simp add: merge_deleted_file_def file_key_def)

interpretation dirs_tbl: keyed_table directory_key "\<lambda>new old. new"
  by unfold_locales simp

interpretation dirs_deleted_tbl: keyed_table directory_key merge_deleted_directory
  by unfold_locales (simp add: merge_deleted_directory_def directory_key_def)

interpretation skipped_tbl: keyed_table skipped_key "\<lambda>new old. new"
  by unfold_locales simp

interpretation failed_tbl: keyed_table failed_key "\<lambda>new old. new"
  by unfold_locales simp

interpretation remote_tbl: keyed_table remote_key "\<lambda>new old. new"
  by unfold_locales simp

interpretation map_tbl: keyed_table map_key "\<lambda>new old. new"
  by unfold_locales simp

interpretation subtree_tbl: keyed_table subtree_key "\<lambda>new old. new"
  by unfold_locales simp

lemmas keyed_upserts =
  roots_tbl.keyed_upsert inventory_tbl.keyed_upsert files_tbl.keyed_upsert
  files_deleted_tbl.keyed_upsert dirs_tbl.keyed_upsert dirs_deleted_tbl.keyed_upsert
  skipped_tbl.keyed_upsert failed_tbl.keyed_upsert remote_tbl.keyed_upsert
  map_tbl.keyed_upsert subtree_tbl.keyed_upsert

section \<open>The invariant of the database\<close>

text \<open>Row identifiers are distinct and none is above the sequence that assigns them.\<close>

definition ids_ok :: "rowid list \<Rightarrow> rowid \<Rightarrow> bool" where
  "ids_ok ids seq = (distinct ids \<and> (\<forall>i\<in>set ids. i \<le> seq))"

definition db_wf :: "db \<Rightarrow> bool" where
  "db_wf d =
     (ids_ok (map rr_id (db_sync_runs d)) (db_runs_seq d) \<and>
      ids_ok (map oj_id (db_operation_journal d)) (db_journal_seq d) \<and>
      tbl_keyed sr_id (db_sync_roots d) \<and>
      tbl_keyed ri_root_id (db_root_remote_inventory_status d) \<and>
      tbl_keyed file_key (db_file_state d) \<and>
      tbl_keyed directory_key (db_directory_state d) \<and>
      tbl_keyed skipped_key (db_skipped_items d) \<and>
      tbl_keyed failed_key (db_failed_items d) \<and>
      tbl_keyed remote_key (db_remote_resource_state d) \<and>
      tbl_keyed map_key (db_migration_map_state d) \<and>
      tbl_keyed subtree_key (db_deleted_subtrees d) \<and>
      locks_ok d)"

lemma ids_ok_snoc: "ids_ok ids seq \<Longrightarrow> ids_ok (ids @ [seq + 1]) (seq + 1)"
  by (auto simp: ids_ok_def)

lemma map_id_update:
  "(\<And>r. key (f r) = key r) \<Longrightarrow> map key (snd (tbl_update p f rows)) = map key rows"
  by (auto simp: tbl_update_def)

lemma keyed_fold:
  assumes "\<And>r rows. tbl_keyed key rows \<Longrightarrow> tbl_keyed key (f r rows)"
  shows "tbl_keyed key rows \<Longrightarrow> tbl_keyed key (fold f rs rows)"
  using assms by (induction rs arbitrary: rows) auto

lemma keeps_modify: "(\<And>d. P d \<Longrightarrow> P (f d)) \<Longrightarrow> keeps P (repo_modify f)"
  by (simp add: keeps_def repo_modify_def)

lemma keeps_read [simp]: "keeps P (repo_read f)"
  by (simp add: keeps_def repo_read_def)

lemma locks_ok_update [simp]:
  "locks_ok (d\<lparr>db_sync_runs := a\<rparr>) = locks_ok d"
  "locks_ok (d\<lparr>db_runs_seq := n\<rparr>) = locks_ok d"
  "locks_ok (d\<lparr>db_sync_roots := b\<rparr>) = locks_ok d"
  "locks_ok (d\<lparr>db_file_state := c\<rparr>) = locks_ok d"
  "locks_ok (d\<lparr>db_directory_state := e\<rparr>) = locks_ok d"
  "locks_ok (d\<lparr>db_remote_resource_state := f\<rparr>) = locks_ok d"
  "locks_ok (d\<lparr>db_skipped_items := g\<rparr>) = locks_ok d"
  "locks_ok (d\<lparr>db_failed_items := h\<rparr>) = locks_ok d"
  "locks_ok (d\<lparr>db_operation_journal := i\<rparr>) = locks_ok d"
  "locks_ok (d\<lparr>db_journal_seq := n\<rparr>) = locks_ok d"
  "locks_ok (d\<lparr>db_migration_map_state := j\<rparr>) = locks_ok d"
  "locks_ok (d\<lparr>db_root_remote_inventory_status := k\<rparr>) = locks_ok d"
  "locks_ok (d\<lparr>db_deleted_subtrees := l\<rparr>) = locks_ok d"
  by (simp_all add: locks_ok_def)

section \<open>Every operation keeps the invariant\<close>

lemma begin_run_wf: "keeps db_wf (begin_run at trigger)"
  using ids_ok_snoc by (auto simp: keeps_def begin_run_def db_wf_def Let_def)

lemma repair_interrupted_runs_wf: "keeps db_wf (repair_interrupted_runs now)"
  unfolding repair_interrupted_runs_def
  by (rule keeps_modify)
    (simp add: db_wf_def map_id_update repair_operation_def repair_run_def)

lemma finish_run_wf: "keeps db_wf (finish_run now i status summary)"
  unfolding finish_run_def keeps_def
  by (auto simp: db_wf_def case_prod_beta map_id_update)

lemma update_run_progress_wf: "keeps db_wf (update_run_progress i summary)"
  unfolding update_run_progress_def keeps_def
  by (auto simp: db_wf_def case_prod_beta map_id_update)

lemma upsert_sync_root_wf: "keeps db_wf (upsert_sync_root now i l r c e)"
  unfolding upsert_sync_root_def
  by (rule keeps_modify) (simp add: db_wf_def keyed_upserts)

lemma update_sync_root_status_wf: "keeps db_wf (update_sync_root_status i st er)"
  unfolding update_sync_root_status_def keeps_def tbl_keyed_def
  by (auto simp: db_wf_def case_prod_beta tbl_keyed_def map_id_update)

lemma set_root_remote_inventory_status_wf: "keeps db_wf (set_root_remote_inventory_status st)"
  unfolding set_root_remote_inventory_status_def
  by (rule keeps_modify) (simp add: db_wf_def keyed_upserts)

lemma upsert_file_state_wf: "keeps db_wf (upsert_file_state now r)"
  unfolding upsert_file_state_def upsert_file_row_def
  by (rule keeps_modify) (simp add: db_wf_def keyed_upserts)

lemma upsert_file_states_wf: "keeps db_wf (upsert_file_states now rs)"
  unfolding upsert_file_states_def
  by (rule keeps_modify) (auto simp: db_wf_def upsert_file_row_def intro!: keyed_fold keyed_upserts)

lemma upsert_directory_state_wf: "keeps db_wf (upsert_directory_state now r)"
  unfolding upsert_directory_state_def
  by (rule keeps_modify) (simp add: db_wf_def keyed_upserts)

lemma mark_deleted_wf: "keeps db_wf (mark_deleted now i p q run)"
  unfolding mark_deleted_def
  by (rule keeps_modify) (simp add: db_wf_def keyed_upserts)

lemma mark_directory_deleted_wf: "keeps db_wf (mark_directory_deleted now i p q run)"
  unfolding mark_directory_deleted_def
  by (rule keeps_modify) (simp add: db_wf_def keyed_upserts)

lemma mark_skipped_wf: "keeps db_wf (mark_skipped now r)"
  unfolding mark_skipped_def
  by (rule keeps_modify) (simp add: db_wf_def keyed_upserts)

lemma mark_failed_wf: "keeps db_wf (mark_failed now r)"
  unfolding mark_failed_def
  by (rule keeps_modify) (simp add: db_wf_def keyed_upserts)

lemma upsert_remote_resource_wf: "keeps db_wf (upsert_remote_resource now r)"
  unfolding upsert_remote_resource_def upsert_remote_row_def
  by (rule keeps_modify) (simp add: db_wf_def keyed_upserts)

lemma upsert_remote_resources_wf: "keeps db_wf (upsert_remote_resources now rs)"
  unfolding upsert_remote_resources_def
  by (rule keeps_modify) (auto simp: db_wf_def upsert_remote_row_def intro!: keyed_fold keyed_upserts)

lemma insert_remote_rows_append:
  "insert_remote_rows now rs rows = Some rows' \<Longrightarrow> rows' = rows @ map (remote_row_of now) rs"
  by (induction now rs rows rule: insert_remote_rows.induct) (auto split: if_splits)

lemma insert_remote_rows_iff:
  "tbl_keyed remote_key rows \<Longrightarrow>
   (insert_remote_rows now rs rows = None) = (\<not> tbl_keyed remote_key (rows @ map (remote_row_of now) rs))"
proof (induction now rs rows rule: insert_remote_rows.induct)
  case (2 now r rs rows)
  show ?case
  proof (cases "\<exists>row\<in>set rows. remote_key row = remote_key (remote_row_of now r)")
    case True
    then show ?thesis by (auto simp: tbl_keyed_def) (metis imageI)
  next
    case False
    then have "tbl_keyed remote_key (rows @ [remote_row_of now r])"
      using 2(2) by (auto simp: tbl_keyed_def)
    with False 2(1) show ?thesis by simp
  qed
qed simp

lemma replace_remote_resources_for_root_wf: "keeps db_wf (replace_remote_resources_for_root now i rs)"
proof -
  have "tbl_keyed remote_key rows'"
    if "insert_remote_rows now rs rows = Some rows'" "tbl_keyed remote_key rows" for rows rows'
    using that insert_remote_rows_iff [OF that(2), of now rs] insert_remote_rows_append [OF that(1)]
    by simp
  then show ?thesis
    unfolding replace_remote_resources_for_root_def keeps_def
    by (auto simp: db_wf_def tbl_delete_def tbl_keyed_filter split: option.split)
qed

lemma delete_remote_resource_subtree_wf: "keeps db_wf (delete_remote_resource_subtree i p)"
  unfolding delete_remote_resource_subtree_def
  by (rule keeps_modify) (simp add: db_wf_def tbl_delete_def tbl_keyed_filter)

lemma upsert_migration_map_wf: "keeps db_wf (upsert_migration_map now r)"
  unfolding upsert_migration_map_def upsert_map_row_def
  by (rule keeps_modify) (simp add: db_wf_def keyed_upserts)

lemma upsert_migration_maps_wf: "keeps db_wf (upsert_migration_maps now rs)"
  unfolding upsert_migration_maps_def
  by (rule keeps_modify) (auto simp: db_wf_def upsert_map_row_def intro!: keyed_fold keyed_upserts)

lemma append_operation_started_wf: "keeps db_wf (append_operation_started now r)"
  using ids_ok_snoc by (auto simp: keeps_def append_operation_started_def db_wf_def Let_def)

lemma append_operation_succeeded_wf: "db_wf d \<Longrightarrow> db_wf (append_operation_succeeded now r d)"
  using ids_ok_snoc by (auto simp: append_operation_succeeded_def db_wf_def Let_def)

lemma append_operations_succeeded_wf: "keeps db_wf (append_operations_succeeded now rs)"
proof -
  have "db_wf d \<Longrightarrow> db_wf (fold (append_operation_succeeded now) rs d)" for d
    by (induction rs arbitrary: d) (auto simp: append_operation_succeeded_wf)
  then show ?thesis
    unfolding append_operations_succeeded_def by (intro keeps_modify) simp
qed

lemma finish_operation_wf: "keeps db_wf (finish_operation now i st k msg)"
  unfolding finish_operation_def keeps_def
  by (auto simp: db_wf_def case_prod_beta map_id_update)

lemma mark_subtree_deleted_wf: "keeps db_wf (mark_subtree_deleted now i p q run)"
  unfolding mark_subtree_deleted_def
  by (rule keeps_modify) (simp add: db_wf_def keyed_upserts)

lemma db_wf_locks_cong:
  "locks_ok (d\<lparr>db_state_locks := rows\<rparr>) \<Longrightarrow> db_wf d \<Longrightarrow> db_wf (d\<lparr>db_state_locks := rows\<rparr>)"
  by (simp add: db_wf_def)

lemma try_acquire_run_lock_wf: "keeps db_wf (try_acquire_run_lock utc_text owner now stale)"
proof (unfold keeps_def, intro allI impI)
  fix d assume wf: "db_wf d"
  obtain rows where "snd (try_acquire_run_lock utc_text owner now stale d) = d\<lparr>db_state_locks := rows\<rparr>"
    by (cases "run_lock_row d") (simp_all add: try_acquire_free try_acquire_taken tbl_update_def)
  then show "db_wf (snd (try_acquire_run_lock utc_text owner now stale d))"
    using try_acquire_run_lock_eq(3) [OF _ prod.collapse [symmetric]] wf db_wf_locks_cong
    by (metis db_wf_def)
qed

lemma heartbeat_run_lock_wf: "keeps db_wf (heartbeat_run_lock utc_text guard now)"
  unfolding heartbeat_run_lock_def keeps_def
  by (auto simp: db_wf_def locks_ok_def case_prod_beta tbl_keyed_def map_id_update)

lemma release_run_lock_wf: "keeps db_wf (release_run_lock guard)"
  unfolding release_run_lock_def keeps_def
  by (auto simp: db_wf_def locks_ok_def case_prod_beta tbl_delete_def tbl_keyed_filter)

lemmas repo_wf =
  begin_run_wf repair_interrupted_runs_wf finish_run_wf update_run_progress_wf upsert_sync_root_wf
  update_sync_root_status_wf set_root_remote_inventory_status_wf upsert_file_state_wf
  upsert_file_states_wf upsert_directory_state_wf mark_deleted_wf mark_directory_deleted_wf
  mark_skipped_wf mark_failed_wf upsert_remote_resource_wf upsert_remote_resources_wf
  replace_remote_resources_for_root_wf delete_remote_resource_subtree_wf upsert_migration_map_wf
  upsert_migration_maps_wf append_operation_started_wf append_operations_succeeded_wf
  finish_operation_wf mark_subtree_deleted_wf try_acquire_run_lock_wf heartbeat_run_lock_wf
  release_run_lock_wf

section \<open>Reachable databases\<close>

text \<open>Any sequence of the operations that write, each with any arguments and outcome.\<close>

inductive db_step :: "db \<Rightarrow> db \<Rightarrow> bool" where
  "begin_run at trigger d = (res, d') \<Longrightarrow> db_step d d'"
| "repair_interrupted_runs now d = (res1, d') \<Longrightarrow> db_step d d'"
| "finish_run now i st summary d = (res2, d') \<Longrightarrow> db_step d d'"
| "update_run_progress i summary d = (res3, d') \<Longrightarrow> db_step d d'"
| "upsert_sync_root now k l r c e d = (res4, d') \<Longrightarrow> db_step d d'"
| "update_sync_root_status k s er d = (res5, d') \<Longrightarrow> db_step d d'"
| "set_root_remote_inventory_status ri d = (res6, d') \<Longrightarrow> db_step d d'"
| "upsert_file_state now fr d = (res7, d') \<Longrightarrow> db_step d d'"
| "upsert_file_states now frs d = (res8, d') \<Longrightarrow> db_step d d'"
| "upsert_directory_state now dr d = (res9, d') \<Longrightarrow> db_step d d'"
| "mark_deleted now k p q run d = (res10, d') \<Longrightarrow> db_step d d'"
| "mark_directory_deleted now k p q run d = (res11, d') \<Longrightarrow> db_step d d'"
| "mark_skipped now sk d = (res12, d') \<Longrightarrow> db_step d d'"
| "mark_failed now fa d = (res13, d') \<Longrightarrow> db_step d d'"
| "upsert_remote_resource now rm d = (res14, d') \<Longrightarrow> db_step d d'"
| "upsert_remote_resources now rms d = (res15, d') \<Longrightarrow> db_step d d'"
| "replace_remote_resources_for_root now k rms d = (res16, d') \<Longrightarrow> db_step d d'"
| "delete_remote_resource_subtree k p d = (res17, d') \<Longrightarrow> db_step d d'"
| "upsert_migration_map now mm d = (res18, d') \<Longrightarrow> db_step d d'"
| "upsert_migration_maps now mms d = (res19, d') \<Longrightarrow> db_step d d'"
| "append_operation_started now rec d = (res20, d') \<Longrightarrow> db_step d d'"
| "append_operations_succeeded now recs d = (res21, d') \<Longrightarrow> db_step d d'"
| "finish_operation now i ost ek em d = (res22, d') \<Longrightarrow> db_step d d'"
| "mark_subtree_deleted now k p q runid d = (res23, d') \<Longrightarrow> db_step d d'"
| "try_acquire_run_lock utc_text owner clock stale d = (res24, d') \<Longrightarrow> db_step d d'"
| "heartbeat_run_lock utc_text guard clock d = (res25, d') \<Longrightarrow> db_step d d'"
| "release_run_lock guard d = (res26, d') \<Longrightarrow> db_step d d'"

inductive db_reachable :: "db \<Rightarrow> bool" where
  created: "db_reachable empty_db"
| written: "db_reachable d \<Longrightarrow> db_step d d' \<Longrightarrow> db_reachable d'"

lemmas repo_wf_after = repo_wf [THEN keepsD]

lemma db_step_wf: "db_step d d' \<Longrightarrow> db_wf d \<Longrightarrow> db_wf d'"
  by (induction rule: db_step.induct) (erule (1) repo_wf_after)+

lemma empty_db_wf: "db_wf empty_db"
  by (simp add: db_wf_def ids_ok_def tbl_keyed_def) (simp add: empty_db_def)

lemma db_reachable_imp_wf: "db_reachable d \<Longrightarrow> db_wf d"
  by (induction rule: db_reachable.induct) (auto intro: empty_db_wf db_step_wf)

text \<open>
  After any sequence of repository operations on a new database, every table still has one
  row per primary key, and run and journal identifiers are distinct and not above their sequence.
\<close>

theorem db_reachable_wf:
  assumes "db_reachable d"
  shows "db_wf d"
  by (rule db_reachable_imp_wf [OF assms])

lemma reachable_after_begin: "db_reachable d \<Longrightarrow> db_reachable (snd (begin_run at trigger d))"
  by (rule db_reachable.written) (auto intro: db_step.intros(1) prod.collapse [symmetric])

theorem db_reachable_wf_witness:
  "db_wf (snd (begin_run ''t2'' TrManual (snd (begin_run ''t1'' TrScheduled empty_db))))"
  by (rule db_reachable_wf) (intro reachable_after_begin db_reachable.created)

end
