(* ===== verification/Sync_Keep.thy ===== *)
theory Sync_Keep
  imports Sync_Yield State_Inv
begin

text \<open>
  What the engine of \<open>crates/yds-sync/src/lib.rs\<close> keeps. Every change of the database goes through
  a statement of the repository and every change of the world through the environment, so a property
  of databases kept by the statements and a property of worlds kept by the calls is kept by each
  step, by a root and by a run. The two interfaces are locales: \<open>database_invariant\<close> lists the
  statements the engine uses, \<open>engine_reads\<close> the calls that do not change the remote; the calls that
  do are in \<open>engine_writes\<close>, and deletion is a premise on the paths that are deleted.
\<close>

section \<open>Access to the state\<close>

definition stable :: "('w \<Rightarrow> bool) \<Rightarrow> ('w \<Rightarrow> 'a \<times> 'w) \<Rightarrow> bool" where
  "stable P f = (\<forall>w. P w \<longrightarrow> P (snd (f w)))"

definition engine_ok :: "('w \<Rightarrow> bool) \<Rightarrow> (db \<Rightarrow> bool) \<Rightarrow> rowid \<Rightarrow> 'w sync_state \<Rightarrow> bool" where
  "engine_ok P D i s = (P (st_world s) \<and> D (st_db s) \<and> sp_run_id (st_report s) = i)"

lemma keeps_world_read: "stable P f \<Longrightarrow> keeps (engine_ok P D i) (world_read f)"
  by (auto simp: stable_def keeps_def engine_ok_def world_read_def split: prod.split)

lemma keeps_world_call: "keeps P f \<Longrightarrow> keeps (engine_ok P D i) (world_call f)"
  by (auto simp: keeps_def engine_ok_def world_call_def split: prod.split)

lemma keeps_db_run: "keeps D f \<Longrightarrow> keeps (engine_ok P D i) (db_run f)"
  by (auto simp: keeps_def engine_ok_def db_run_def split: prod.split)

lemma keeps_modify_report:
  "(\<And>r. sp_run_id (f r) = sp_run_id r) \<Longrightarrow> keeps (engine_ok P D i) (modify_report f)"
  by (simp add: keeps_def engine_ok_def modify_report_def)

lemma keeps_get_report [intro, simp]: "keeps Q get_report"
  by (simp add: keeps_def get_report_def)

lemma keeps_if [intro]: "(b \<Longrightarrow> keeps Q f) \<Longrightarrow> (\<not> b \<Longrightarrow> keeps Q g) \<Longrightarrow> keeps Q (if b then f else g)"
  by simp

lemma keeps_repo_call: "stable P (ev_db_fault env) \<Longrightarrow> keeps D f \<Longrightarrow> keeps (engine_ok P D i) (repo_call env f)"
  unfolding repo_call_def
  by (auto intro!: keeps_bindM keeps_world_read keeps_db_run split: option.split)

lemma keeps_eachM [intro]: "(\<And>x. keeps Q (f x)) \<Longrightarrow> keeps Q (eachM f xs)"
  by (induction xs) auto

lemma keeps_join_tasks:
  assumes "\<And>t. keeps (engine_ok P D i) (task t)" "\<And>x acc. keeps (engine_ok P D i) (body x acc)"
    "stable P (ev_ahead env)" "\<And>n. stable P (ev_order env n)"
  shows "keeps (engine_ok P D i) (join_tasks env task body tasks acc)"
  unfolding join_tasks_def
  by (intro keeps_bindM keeps_world_read keeps_join_loop assms)

section \<open>The interfaces\<close>

locale database_invariant =
  fixes D :: "db \<Rightarrow> bool"
  assumes update_run_progress_keeps: "keeps D (update_run_progress n summary)"
    and mark_subtree_deleted_keeps: "keeps D (mark_subtree_deleted now rid p q n)"
    and mark_skipped_keeps: "keeps D (mark_skipped now sk)"
    and mark_failed_keeps: "keeps D (mark_failed now fa)"
    and append_operations_succeeded_keeps: "keeps D (append_operations_succeeded now ops)"
    and append_operation_started_keeps: "keeps D (append_operation_started now rec)"
    and finish_operation_keeps: "keeps D (finish_operation now n st k msg)"
    and update_sync_root_status_keeps: "keeps D (update_sync_root_status rid status err)"
    and upsert_sync_root_keeps: "keeps D (upsert_sync_root now rid lp rr cp en)"
    and get_root_remote_inventory_status_keeps: "keeps D (get_root_remote_inventory_status rid)"
    and set_root_remote_inventory_status_keeps: "keeps D (set_root_remote_inventory_status ri)"
    and list_remote_resources_for_root_keeps: "keeps D (list_remote_resources_for_root rid)"
    and replace_remote_resources_for_root_keeps: "keeps D (replace_remote_resources_for_root now rid rms)"
    and upsert_remote_resource_keeps: "keeps D (upsert_remote_resource now rm)"
    and delete_remote_resource_subtree_keeps: "keeps D (delete_remote_resource_subtree rid p)"
    and upsert_directory_state_keeps: "keeps D (upsert_directory_state now dr)"
    and upsert_file_state_keeps: "keeps D (upsert_file_state now fr)"
    and mark_deleted_keeps: "keeps D (mark_deleted now rid p q run)"
    and mark_directory_deleted_keeps: "keeps D (mark_directory_deleted now rid p q run)"
    and list_file_states_for_root_keeps: "keeps D (list_file_states_for_root rid)"

locale engine_reads = database_invariant D for D :: "db \<Rightarrow> bool" +
  fixes env :: "'w sync_env" and P :: "'w \<Rightarrow> bool" and i :: rowid
  assumes now_keeps: "stable P (ev_now env)"
    and is_cancelled_keeps: "stable P (ev_is_cancelled env)"
    and fs_keeps: "stable P (ev_fs env)"
    and remove_file_keeps: "stable P (ev_remove_file env p)"
    and scan_keeps: "keeps P (ev_scan env options root previous)"
    and order_keeps: "stable P (ev_order env n)"
    and ahead_keeps: "stable P (ev_ahead env)"
    and db_fault_keeps: "stable P (ev_db_fault env)"
    and disk_info_keeps: "keeps P (dc_disk_info (ev_client env))"
    and metadata_keeps: "keeps P (dc_metadata (ev_client env) path)"
    and list_keeps: "keeps P (dc_list_recursive_with_options (ev_client env) path pruned)"

locale engine_writes = engine_reads D env P i
  for D :: "db \<Rightarrow> bool" and env :: "'w sync_env" and P :: "'w \<Rightarrow> bool" and i :: rowid +
  assumes create_keeps: "keeps P (dc_create_directory (ev_client env) path)"
    and upload_keeps: "keeps P (dc_upload_source (ev_client env) path source overwrite)"

section \<open>Up to the remote inventory\<close>

context engine_reads begin

abbreviation ok :: "'w sync_state \<Rightarrow> bool" where
  "ok \<equiv> engine_ok P D i"

lemma repo_keeps: "keeps D f \<Longrightarrow> keeps ok (repo env f)"
  unfolding repo_def by (intro keeps_errM keeps_repo_call db_fault_keeps)

lemma repo_at_call_keeps: "(\<And>now. keeps D (f now)) \<Longrightarrow> keeps ok (repo_at_call env f)"
  unfolding repo_at_call_def
  by (intro keeps_bindM keeps_world_read keeps_repo_call db_fault_keeps now_keeps)

lemma repo_at_keeps: "(\<And>now. keeps D (f now)) \<Longrightarrow> keeps ok (repo_at env f)"
  unfolding repo_at_def by (intro keeps_errM repo_at_call_keeps)

lemma cancelled_keeps: "keeps ok (Sync_Env.is_cancelled env)"
  unfolding is_cancelled_def by (intro keeps_world_read is_cancelled_keeps)

lemma read_fs_keeps: "keeps ok (world_read (ev_fs env))"
  by (intro keeps_world_read fs_keeps)

lemmas statements =
  update_run_progress_keeps mark_subtree_deleted_keeps mark_skipped_keeps mark_failed_keeps
  append_operations_succeeded_keeps append_operation_started_keeps finish_operation_keeps
  update_sync_root_status_keeps upsert_sync_root_keeps get_root_remote_inventory_status_keeps
  set_root_remote_inventory_status_keeps list_remote_resources_for_root_keeps
  replace_remote_resources_for_root_keeps upsert_remote_resource_keeps
  delete_remote_resource_subtree_keeps upsert_directory_state_keeps upsert_file_state_keeps
  mark_deleted_keeps mark_directory_deleted_keeps list_file_states_for_root_keeps

lemmas calls =
  keeps_bindM keeps_seqM keeps_errM keeps_catchM keeps_ret keeps_throw keeps_if keeps_get_report
  keeps_foldM keeps_mapM keeps_eachM repo_keeps repo_at_keeps repo_at_call_keeps cancelled_keeps
  read_fs_keeps statements

lemma persist_root_progress_keeps: "keeps ok (persist_root_progress env n base rs)"
  unfolding persist_root_progress_def by (intro calls)

lemma record_deleted_subtree_keeps: "keeps ok (record_deleted_subtree env n subtree rs)"
  unfolding record_deleted_subtree_def by (intro calls)

lemma record_deleted_subtrees_keeps: "keeps ok (record_deleted_subtrees env n live rs)"
  unfolding record_deleted_subtrees_def by (intro calls record_deleted_subtree_keeps)

lemma fail_root_as_keeps: "keeps ok (fail_root_as status env root operation kind message rs)"
  unfolding fail_root_as_def by (intro calls)

lemma finish_root_keeps: "keeps ok (finish_root_cancelled_or_failed env root rs)"
  unfolding finish_root_cancelled_or_failed_def Let_def by (intro calls)

lemma expired_keeps: "keeps ok (is_remote_inventory_expired env status)"
  unfolding is_remote_inventory_expired_def
  by (auto intro!: calls keeps_world_read now_keeps split: option.split)

lemma persist_snapshot_keeps: "keeps ok (persist_remote_inventory_snapshot env sync rid resources)"
  unfolding persist_remote_inventory_snapshot_def Let_def
  by (intro calls keeps_world_read now_keeps)

lemma cached_inventory_keeps: "keeps ok (cached_inventory env root canonical force)"
  unfolding cached_inventory_def
  by (auto intro!: calls keeps_repo_call db_fault_keeps expired_keeps split: option.split)

lemma fresh_inventory_keeps: "keeps ok (fresh_inventory env sync root canonical live)"
  unfolding fresh_inventory_def Let_def
  by (auto intro!: calls keeps_world_call metadata_keeps list_keeps persist_snapshot_keeps split: sum.split)

lemma remote_inventory_keeps: "keeps ok (remote_inventory env sync root canonical live force)"
  unfolding remote_inventory_def
  by (auto intro!: calls cached_inventory_keeps fresh_inventory_keeps split: option.split)

lemma scan_root_keeps: "keeps ok (scan_root_with_repository env options root)"
  unfolding scan_root_with_repository_def
  by (auto intro!: calls keeps_repo_call db_fault_keeps keeps_world_call scan_keeps split: sum.split)

lemma record_scan_findings_keeps: "keeps ok (record_scan_findings env report)"
  unfolding record_scan_findings_def scan_findings_call_def by (intro calls)

lemma cleanup_staging_files_keeps: "keeps ok (cleanup_staging_files env report)"
  unfolding cleanup_staging_files_def staging_cleanup_call_def
  by (auto intro!: calls keeps_world_read remove_file_keeps split: option.split remove_result.split)

lemma available_remote_bytes_keeps: "keeps ok (available_remote_bytes env)"
  unfolding available_remote_bytes_def
  by (auto intro!: calls keeps_modify_report keeps_world_call disk_info_keeps split: sum.split)

lemma record_missing_root_keeps: "keeps ok (record_missing_root env root rs)"
  unfolding record_missing_root_def Let_def by (intro calls)

lemma inventory_failed_keeps: "keeps ok (inventory_failed env root e rs)"
  unfolding inventory_failed_def fail_root_def partial_fail_root_def by (intro calls fail_root_as_keeps)

end

section \<open>The phases of a root\<close>

context engine_writes begin

lemma finish_create_directory_keeps: "keeps ok (finish_create_directory env n root base outcome rs)"
  unfolding finish_create_directory_def Let_def
  by (auto intro!: calls persist_root_progress_keeps split: prod.split sum.split)

lemma create_directory_task_keeps: "keeps ok (create_directory_task env task)"
  unfolding create_directory_task_def
  by (auto intro!: calls keeps_world_call create_keeps split: prod.split)

lemma fill_batch_keeps: "keeps ok (fill_batch env n base concurrency pending batch live rs)"
  by (induction pending arbitrary: batch live rs)
    (auto intro!: calls record_deleted_subtree_keeps persist_root_progress_keeps split: prod.split option.split)

lemma create_level_keeps: "keeps ok (create_level env n root base concurrency k pending live rs)"
proof (induction k arbitrary: pending live rs)
  case (Suc k)
  have start: "keeps ok (start_create_directory env n d)" for d
    unfolding start_create_directory_def by (intro calls)
  then show ?case
    by (auto intro!: calls keeps_join_tasks fill_batch_keeps create_directory_task_keeps
        finish_create_directory_keeps ahead_keeps order_keeps start Suc split: prod.split)
qed simp

lemma create_levels_keeps: "keeps ok (create_levels env n root base concurrency levels live rs)"
  by (induction levels arbitrary: live rs) (auto intro!: calls create_level_keeps split: prod.split)

lemma apply_create_directories_keeps: "keeps ok (apply_create_directories env sync n root plan base live rs)"
  unfolding apply_create_directories_def by (rule create_levels_keeps)

lemma upload_task_keeps: "keeps ok (upload_task env task)"
  unfolding upload_task_def
  by (auto intro!: calls keeps_world_call upload_keeps split: prod.split)

lemma finish_upload_keeps: "keeps ok (finish_upload env n base outcome acc)"
  unfolding finish_upload_def finish_upload_ok_def finish_upload_skipped_def finish_upload_failed_def Let_def
  by (auto intro!: calls record_deleted_subtree_keeps persist_root_progress_keeps
      split: prod.split sum.split option.split)

lemma start_uploads_keeps: "keeps ok (start_uploads env n base batch live rs)"
  by (induction batch arbitrary: live rs)
    (auto intro!: calls record_deleted_subtree_keeps persist_root_progress_keeps split: prod.split option.split)

lemma upload_batches_keeps: "keeps ok (upload_batches env n base concurrency large k pending acc)"
  by (induction k arbitrary: pending acc)
    (auto intro!: calls keeps_join_tasks start_uploads_keeps upload_task_keeps finish_upload_keeps
      ahead_keeps order_keeps split: prod.split)

lemma apply_uploads_keeps: "keeps ok (apply_uploads env sync n plan base live rs)"
  unfolding apply_uploads_def by (rule upload_batches_keeps)

lemma mark_remote_deleted_keeps: "keeps ok (mark_remote_deleted env n delete)"
  unfolding mark_remote_deleted_def by (auto intro!: calls split: ResourceType.split)

lemma delete_failed_keeps: "keeps ok (delete_failed env n root base operation delete j e rs)"
  unfolding delete_failed_def Let_def by (intro calls persist_root_progress_keeps)

lemma delete_step_keeps:
  assumes "keeps P (dc_delete_permanently (ev_client env) (rd_remote_path delete))"
  shows "keeps ok (delete_step env n root from_cache base delete rs)"
proof -
  have "keeps ok (delete_remote env n root base delete j rs)" for j rs
    unfolding delete_remote_def Let_def
    by (auto intro!: calls keeps_world_call assms mark_remote_deleted_keeps delete_failed_keeps
        persist_root_progress_keeps split: sum.split)
  then show ?thesis
    unfolding delete_step_def
    by (auto intro!: calls keeps_world_call metadata_keeps delete_failed_keeps split: sum.split)
qed

lemma delete_loop_keeps:
  "(\<And>delete. delete \<in> set deletes \<Longrightarrow> keeps P (dc_delete_permanently (ev_client env) (rd_remote_path delete))) \<Longrightarrow>
   keeps ok (delete_loop env n root from_cache base deletes rs)"
  by (induction deletes arbitrary: rs) (auto intro!: calls delete_step_keeps split: prod.split)

lemma apply_deletes_keeps:
  assumes "\<And>p. below_root (rt_canonical_remote_path rs) p \<Longrightarrow> keeps P (dc_delete_permanently (ev_client env) p)"
  shows "keeps ok (apply_deletes env n root live inventory from_cache base rs)"
  unfolding apply_deletes_def by (intro delete_loop_keeps assms planned_deletion_below)

section \<open>A root\<close>

text \<open>The root may delete below its canonical path.\<close>

definition deletes_kept :: "string \<Rightarrow> bool" where
  "deletes_kept c = (\<forall>p. below_root c p \<longrightarrow> keeps P (dc_delete_permanently (ev_client env) p))"

lemma deletes_keptD: "deletes_kept c \<Longrightarrow> below_root c p \<Longrightarrow> keeps P (dc_delete_permanently (ev_client env) p)"
  by (simp add: deletes_kept_def)

lemma apply_root_plan_keeps:
  assumes "deletes_kept c" "of_root r c rs"
  shows "keeps ok (apply_root_plan env config n root report snapshot plan base live rs)"
proof -
  have deletes: "keeps ok (apply_deletes env n root live' inventory from_cache base rs')"
    if "of_root r c rs'" for live' inventory from_cache rs'
    using that by (intro apply_deletes_keeps deletes_keptD [OF assms(1)]) (simp add: of_root_def)
  have after_uploads: "keeps ok (bindM (if stop then ret True else Sync_Env.is_cancelled env) (\<lambda>leave.
      if leave then
        bindM (finish_root_cancelled_or_failed env root rs') (\<lambda>rs.
          ret (\<lparr>er_should_stop = True, er_bytes_uploaded = Some bytes\<rparr>, rs))
      else
        bindM (apply_deletes env n root live' (iv_resources snapshot) (iv_from_cache snapshot) base rs')
          (\<lambda>(stop, rs).
          bindM (finish_root_cancelled_or_failed env root rs) (\<lambda>rs.
          seqM (persist_root_progress env n base rs)
            (ret (\<lparr>er_should_stop = stop, er_bytes_uploaded = Some bytes\<rparr>, rs))))))"
    if "of_root r c rs'" for rs' live' bytes stop
    using deletes [OF that]
    by (auto intro!: calls finish_root_keeps persist_root_progress_keeps split: prod.split)
  have uploads: "keeps ok (bindM (apply_uploads env (cf_sync config) n plan base live' rs')
      (\<lambda>(stop, live, rs, bytes_uploaded).
         seqM (cleanup_staging_files env report)
        (bindM (if stop then ret True else Sync_Env.is_cancelled env) (\<lambda>leave.
           if leave then
             bindM (finish_root_cancelled_or_failed env root rs) (\<lambda>rs.
               ret (\<lparr>er_should_stop = True, er_bytes_uploaded = Some bytes_uploaded\<rparr>, rs))
           else
             bindM (apply_deletes env n root live (iv_resources snapshot) (iv_from_cache snapshot) base rs)
               (\<lambda>(stop, rs).
               bindM (finish_root_cancelled_or_failed env root rs) (\<lambda>rs.
               seqM (persist_root_progress env n base rs)
                 (ret (\<lparr>er_should_stop = stop, er_bytes_uploaded = Some bytes_uploaded\<rparr>, rs))))))))"
    if "of_root r c rs'" for rs' live'
    using after_uploads
    by (auto intro!: keeps_bindM_yields [OF apply_uploads_keeps apply_uploads_root [OF that]]
        keeps_seqM cleanup_staging_files_keeps split: prod.split)
  show ?thesis
    unfolding apply_root_plan_def
    using uploads
    by (auto intro!: keeps_seqM keeps_modify_report
        keeps_bindM_yields [OF apply_create_directories_keeps apply_create_directories_root [OF assms(2)]]
        keeps_bindM [where f = "if b then ret True else Sync_Env.is_cancelled env" for b]
        keeps_bindM [OF finish_root_keeps] cancelled_keeps cleanup_staging_files_keeps split: prod.split)
qed

lemma check_quota_and_apply_keeps:
  assumes "deletes_kept c" "of_root r c rs"
  shows "keeps ok (check_quota_and_apply env config n root quota report snapshot plan base live rs)"
  unfolding check_quota_and_apply_def Let_def fail_root_def
  by (auto intro!: apply_root_plan_keeps [OF assms] keeps_bindM [OF fail_root_as_keeps] keeps_seqM
      keeps_modify_report split: option.split)

lemma execute_scanned_root_keeps:
  assumes "deletes_kept c" "of_root r c rs"
  shows "keeps ok (execute_scanned_root env config n root quota force base report rs)"
proof -
  have inventory: "keeps ok (bindM (catchM (remote_inventory env sync root p live force)) (\<lambda>inventory.
      case inventory of
        Inl e \<Rightarrow> inventory_failed env root e rs'
      | Inr snapshot \<Rightarrow> check_quota_and_apply env config n root quota report snapshot (plan snapshot) base live rs'))"
    if "of_root r c rs'" for sync p live rs' plan
    by (intro keeps_bindM keeps_catchM remote_inventory_keeps)
      (auto intro: inventory_failed_keeps check_quota_and_apply_keeps [OF assms(1) that] split: sum.split)
  have subtrees: "of_root r c (rs\<lparr>rt_scanned_files := x, rt_skipped_files := y, rt_failed_files := z\<rparr>)" for x y z
    using assms(2) by simp
  show ?thesis
    unfolding execute_scanned_root_def Let_def fail_root_def
    using inventory
    by (auto intro!: keeps_seqM record_scan_findings_keeps keeps_bindM [OF read_fs_keeps]
        keeps_bindM_yields [OF record_deleted_subtrees_keeps record_deleted_subtrees_root [OF subtrees]]
        persist_root_progress_keeps keeps_bindM [OF fail_root_as_keeps] split: option.split)
qed

lemma execute_root_keeps:
  assumes "deletes_kept c" "of_root r c rs"
  shows "keeps ok (execute_root env config n root options quota force rs)"
  unfolding execute_root_def fail_root_def
  by (auto intro!: keeps_bindM [OF keeps_get_report] keeps_bindM [OF keeps_catchM [OF scan_root_keeps]]
      keeps_bindM [OF fail_root_as_keeps] execute_scanned_root_keeps [OF assms] split: sum.split)

section \<open>A run\<close>

lemma keeps_finish_root: "keeps ok (finish_root rs)"
  unfolding finish_root_def by (simp add: keeps_modify_report)

lemma execute_roots_keeps:
  assumes "\<And>root c. root \<in> set roots \<Longrightarrow> canonical_remote_path (in_remote_root (cf_instance config))
      (rc_local_path root) (rc_remote_path_override root) = Inr c \<Longrightarrow> deletes_kept c"
  shows "keeps ok (execute_roots env config n options force quota roots)"
  using assms
proof (induction roots arbitrary: quota)
  case (Cons root roots)
  have rest: "keeps ok (execute_roots env config n options force q roots)" for q
    using Cons by auto
  have root: "keeps ok (execute_root env config n root options q force rs)"
    if "initial_root_summary config root = Inr rs" for rs q
  proof -
    have "canonical_remote_path (in_remote_root (cf_instance config))
        (rc_local_path root) (rc_remote_path_override root) = Inr (rt_canonical_remote_path rs)"
      "of_root (rc_id root) (rt_canonical_remote_path rs) rs"
      using that by (auto simp: initial_root_summary_def of_root_def split: sum.splits)
    then show ?thesis using Cons.prems by (meson execute_root_keeps list.set_intros(1))
  qed
  show ?case
    using rest root
    by (auto simp: Let_def intro!: calls keeps_modify_report record_missing_root_keeps keeps_finish_root
        split: sum.split)
qed simp

lemma execute_run_keeps:
  assumes "\<And>root c. root \<in> set (cf_roots config) \<Longrightarrow> rc_enabled root \<Longrightarrow>
      canonical_remote_path (in_remote_root (cf_instance config)) (rc_local_path root)
        (rc_remote_path_override root) = Inr c \<Longrightarrow> deletes_kept c"
  shows "keeps ok (execute_run env config n force)"
  unfolding execute_run_def
  by (intro keeps_bindM available_remote_bytes_keeps execute_roots_keeps assms) auto

lemma conclude_run_keeps: "keeps ok (conclude_run env execution)"
  unfolding conclude_run_def
  by (auto intro!: keeps_modify_report keeps_bindM cancelled_keeps split: sum.split option.split)

end

end
