(* ===== verification/State_Props.thy ===== *)
theory State_Props
  imports State_Inv
begin

text \<open>
  What single operations of the state repository return, change and leave unchanged: runs and their
  repair, file states, the cached remote resources and the deletion of a subtree of them.
\<close>

section \<open>Runs\<close>

definition run_with_id :: "rowid \<Rightarrow> db \<Rightarrow> SyncRunRecord option" where
  "run_with_id i d = tbl_find rr_id i (db_sync_runs d)"

lemma first_sorted:
  assumes "y \<in> set rows" and "\<And>r. r \<in> set rows \<Longrightarrow> r \<noteq> y \<Longrightarrow> (f y :: int) < f r"
  shows "first_row (sort_key f rows) = Some y"
proof (cases "sort_key f rows")
  case Nil
  then have "set (sort_key f rows) = {}" by simp
  with assms(1) show ?thesis by simp
next
  case (Cons h t)
  have "set (h # t) = set rows" using Cons [symmetric] by simp
  moreover have "\<forall>x\<in>set t. f h \<le> f x"
    using sorted_sort_key [of f rows] Cons by simp
  ultimately have "f h \<le> f y" and "h \<in> set rows"
    using assms(1) by auto
  then have "h = y" using assms(2) [of h] by fastforce
  with Cons show ?thesis by (simp add: first_row_def)
qed

definition running_run :: "rowid \<Rightarrow> string \<Rightarrow> SyncRunTrigger \<Rightarrow> SyncRunRecord" where
  "running_run i at trigger =
     \<lparr>rr_id = i, rr_started_at_utc = at, rr_finished_at_utc = None,
      rr_trigger = trigger, rr_status = RunRunning, rr_summary = summary_default\<rparr>"

lemma begin_run_eq:
  "begin_run at trigger d =
     (Inr (db_runs_seq d + 1),
      d\<lparr>db_sync_runs := db_sync_runs d @ [running_run (db_runs_seq d + 1) at trigger],
        db_runs_seq := db_runs_seq d + 1\<rparr>)"
  by (simp add: begin_run_def running_run_def Let_def)

text \<open>
  Beginning a run inserts a running row under an identifier no run has, leaves every other run
  as it was, and makes it the latest run.
\<close>

theorem begin_run_fresh:
  assumes "db_wf d" and "begin_run at trigger d = (res, d')"
  shows "\<exists>i. res = Inr i \<and> run_with_id i d = None \<and>
     run_with_id i d' = Some (running_run i at trigger) \<and>
     (\<forall>j. j = i \<or> run_with_id j d' = run_with_id j d) \<and>
     fst (get_latest_run d') = Inr (Some (running_run i at trigger))"
proof -
  let ?i = "db_runs_seq d + 1"
  have below: "\<forall>r\<in>set (db_sync_runs d). rr_id r < ?i"
    using assms(1) by (auto simp: db_wf_def ids_ok_def)
  then have none: "run_with_id ?i d = None"
    by (auto simp: run_with_id_def tbl_find_None_iff)
  have id: "rr_id (running_run ?i at trigger) = ?i"
    by (simp add: running_run_def)
  have "first_row (runs_desc (db_sync_runs d @ [running_run ?i at trigger])) =
      Some (running_run ?i at trigger)"
    unfolding runs_desc_def by (rule first_sorted) (use below id in auto)
  then show ?thesis
    using assms(2) none id
    by (auto simp: begin_run_eq run_with_id_def tbl_find_append tbl_find_Cons get_latest_run_def
      repo_read_def split: option.split)
qed

theorem begin_run_fresh_witness:
  "fst (get_latest_run (snd (begin_run ''t'' TrCli empty_db))) = Inr (Some (running_run 1 ''t'' TrCli))"
proof -
  have "\<exists>i. fst (begin_run ''t'' TrCli empty_db) = Inr i \<and>
      fst (get_latest_run (snd (begin_run ''t'' TrCli empty_db))) = Inr (Some (running_run i ''t'' TrCli))"
    using begin_run_fresh [OF empty_db_wf prod.collapse [symmetric], where at = "''t''" and trigger = TrCli] by blast
  moreover have "fst (begin_run ''t'' TrCli empty_db) = Inr 1"
    by (simp add: begin_run_eq) (simp add: empty_db_def)
  ultimately show ?thesis by auto
qed

definition finished_run :: "string \<Rightarrow> SyncRunStatus \<Rightarrow> SyncRunSummary \<Rightarrow> SyncRunRecord \<Rightarrow> SyncRunRecord" where
  "finished_run now status summary r =
     r\<lparr>rr_finished_at_utc := Some now, rr_status := status, rr_summary := summary\<rparr>"

lemma keyed_count_id:
  "distinct (map key rows) \<Longrightarrow>
   length (filter (\<lambda>r. key r = k) rows) = (case tbl_find key k rows of None \<Rightarrow> 0 | Some r \<Rightarrow> 1)"
proof (induction rows)
  case (Cons r rows)
  have "key r = k \<Longrightarrow> filter (\<lambda>r. key r = k) rows = []"
    using Cons.prems by (auto simp: filter_empty_conv image_iff)
  with Cons show ?case by (auto simp: tbl_find_Cons)
qed simp

text \<open>
  Finishing a run that exists records its status, summary and finish time in that row and in no
  other; for an identifier without a row it is the error \<open>NotFound\<close> and nothing changes.
\<close>

theorem finish_run_spec:
  assumes "db_wf d" and "finish_run now i status summary d = (res, d')"
  shows "case run_with_id i d of
       None \<Rightarrow> res = Inl (NotFound ''sync_run'' i) \<and> d' = d
     | Some r \<Rightarrow> res = Inr () \<and> run_with_id i d' = Some (finished_run now status summary r) \<and>
         (\<forall>j. j = i \<or> run_with_id j d' = run_with_id j d)"
proof -
  let ?g = "\<lambda>r. if rr_id r = i then finished_run now status summary r else r"
  have "distinct (map rr_id (db_sync_runs d))"
    using assms(1) by (simp add: db_wf_def ids_ok_def)
  note count = keyed_count_id [OF this, of i]
  have d': "d' = d\<lparr>db_sync_runs := map ?g (db_sync_runs d)\<rparr>"
    and res: "res = ensure_updated (length (filter (\<lambda>r. rr_id r = i) (db_sync_runs d))) ''sync_run'' i"
    using assms(2) by (auto simp: finish_run_def tbl_update_def finished_run_def)
  have id: "rr_id (?g r) = rr_id r" for r by (simp add: finished_run_def)
  have find: "run_with_id j d' = map_option ?g (run_with_id j d)" for j
    unfolding d' run_with_id_def using tbl_find_map_same [where f = ?g and key = rr_id, OF id] by simp
  have key: "run_with_id j d = Some r \<Longrightarrow> rr_id r = j" for j r
    unfolding run_with_id_def using tbl_find_SomeD by metis
  show ?thesis
  proof (cases "run_with_id i d")
    case None
    then have "map ?g (db_sync_runs d) = db_sync_runs d"
      by (intro map_idI) (auto simp: run_with_id_def tbl_find_None_iff)
    then have "d' = d" unfolding d' by simp
    with None show ?thesis
      using res count by (simp add: run_with_id_def ensure_updated_def)
  next
    case (Some r)
    have "run_with_id j d' = run_with_id j d" if "j \<noteq> i" for j
      using that key by (cases "run_with_id j d") (auto simp: find)
    with Some show ?thesis
      using res count find [of i] key [OF Some] by (auto simp: run_with_id_def ensure_updated_def)
  qed
qed

theorem finish_run_spec_witness:
  "run_with_id 1 (snd (finish_run ''u'' 1 RunSucceeded summary_default (snd (begin_run ''t'' TrCli empty_db)))) =
     Some (finished_run ''u'' RunSucceeded summary_default (running_run 1 ''t'' TrCli))"
proof -
  let ?d = "snd (begin_run ''t'' TrCli empty_db)"
  have "db_wf ?d"
    using begin_run_wf empty_db_wf by (simp add: keeps_def)
  moreover have "run_with_id 1 ?d = Some (running_run 1 ''t'' TrCli)"
    by (simp add: run_with_id_def begin_run_eq empty_db_def running_run_def tbl_find_Cons)
  ultimately show ?thesis
    using finish_run_spec [OF _ prod.collapse [symmetric], of ?d "''u''" 1 RunSucceeded summary_default]
    by simp
qed

definition run_interrupted :: "SyncRunRecord \<Rightarrow> bool" where
  "run_interrupted r = (rr_status r = RunRunning \<and> rr_finished_at_utc r = None)"

lemma filter_map_none: "(\<And>x. x \<in> set xs \<Longrightarrow> \<not> p (f x)) \<Longrightarrow> filter p (map f xs) = []"
  by (auto simp: filter_empty_conv)

lemma repair_runs_eq:
  "db_sync_runs (snd (repair_interrupted_runs now d)) =
     map (\<lambda>r. if run_interrupted r then repair_run now r else r) (db_sync_runs d)"
  by (simp add: repair_interrupted_runs_def repo_modify_def tbl_update_def run_interrupted_def)

lemma repair_journal_eq:
  "db_operation_journal (snd (repair_interrupted_runs now d)) =
     map (\<lambda>r. if oj_status r = OpRunning then repair_operation now r else r) (db_operation_journal d)"
  by (simp add: repair_interrupted_runs_def repo_modify_def tbl_update_def)

text \<open>What the repair makes of a run and of an operation, field by field.\<close>

definition run_repaired :: "string \<Rightarrow> SyncRunRecord \<Rightarrow> SyncRunRecord \<Rightarrow> bool" where
  "run_repaired now r r' =
     (rr_id r' = rr_id r \<and> rr_started_at_utc r' = rr_started_at_utc r \<and> rr_trigger r' = rr_trigger r \<and>
      rr_status r' = RunCancelled \<and> rr_finished_at_utc r' = Some now \<and>
      rr_summary r' = (rr_summary r)\<lparr>su_error_summary := Some (case su_error_summary (rr_summary r) of
        None \<Rightarrow> ''run interrupted before completion'' | Some own \<Rightarrow> own)\<rparr>)"

definition operation_repaired :: "string \<Rightarrow> OperationJournalRecord \<Rightarrow> OperationJournalRecord \<Rightarrow> bool" where
  "operation_repaired now r r' =
     (oj_id r' = oj_id r \<and> oj_run_id r' = oj_run_id r \<and> oj_operation r' = oj_operation r \<and>
      oj_local_path r' = oj_local_path r \<and> oj_remote_path r' = oj_remote_path r \<and>
      oj_started_at_utc r' = oj_started_at_utc r \<and>
      oj_status r' = OpCancelled \<and> oj_finished_at_utc r' = Some now \<and>
      oj_error_kind r' = Some (case oj_error_kind r of None \<Rightarrow> ''cancelled'' | Some own \<Rightarrow> own) \<and>
      oj_error_message r' = Some (case oj_error_message r of
        None \<Rightarrow> ''run interrupted before completion'' | Some own \<Rightarrow> own))"

text \<open>
  C33. The repair touches exactly what was interrupted. Every run that was running with no finish time is
  cancelled and finished now, with an error summary if it had none, its identifier, start, trigger and counts kept;
  every running operation of the journal is cancelled and finished now, with an error if it had none, the rest of
  it kept; every other run and operation, and every other table, stays as it was. So a second repair, whenever it
  comes, changes nothing, and a run begun next is the only one running.
\<close>

theorem repair_interrupted_runs_spec:
  "let d' = snd (repair_interrupted_runs now d) in
   list_all2 (\<lambda>r r'. if run_interrupted r then run_repaired now r r' else r' = r) (db_sync_runs d) (db_sync_runs d') \<and>
   list_all2 (\<lambda>r r'. if oj_status r = OpRunning then operation_repaired now r r' else r' = r)
     (db_operation_journal d) (db_operation_journal d') \<and>
   d' = d\<lparr>db_sync_runs := db_sync_runs d', db_operation_journal := db_operation_journal d'\<rparr> \<and>
   snd (repair_interrupted_runs later d') = d' \<and>
   map rr_id (filter run_interrupted (db_sync_runs (snd (begin_run at trigger d')))) = [db_runs_seq d + 1]"
proof -
  let ?d = "snd (repair_interrupted_runs now d)"
  have run: "\<not> run_interrupted (repair_run now r)" for r
    by (simp add: run_interrupted_def repair_run_def)
  have operation: "oj_status (repair_operation now r) \<noteq> OpRunning" for r
    by (simp add: repair_operation_def)
  have "list_all2 (\<lambda>r r'. if run_interrupted r then run_repaired now r r' else r' = r) (db_sync_runs d) (db_sync_runs ?d)"
    unfolding repair_runs_eq list_all2_map2
    by (rule list_all2_refl) (simp add: repair_run_def run_repaired_def coalesce_def split: option.split)
  moreover have "list_all2 (\<lambda>r r'. if oj_status r = OpRunning then operation_repaired now r r' else r' = r)
      (db_operation_journal d) (db_operation_journal ?d)"
    unfolding repair_journal_eq list_all2_map2
    by (rule list_all2_refl) (simp add: repair_operation_def operation_repaired_def coalesce_def split: option.split)
  moreover have "?d = d\<lparr>db_sync_runs := db_sync_runs ?d, db_operation_journal := db_operation_journal ?d\<rparr>"
    by (simp add: repair_interrupted_runs_def repo_modify_def)
  moreover have "snd (repair_interrupted_runs later ?d) = ?d"
  proof -
    have "db_sync_runs (snd (repair_interrupted_runs later ?d)) = db_sync_runs ?d"
      unfolding repair_runs_eq [of later] by (rule map_idI) (auto simp: repair_runs_eq run)
    moreover have "db_operation_journal (snd (repair_interrupted_runs later ?d)) = db_operation_journal ?d"
      unfolding repair_journal_eq [of later] by (rule map_idI) (auto simp: repair_journal_eq operation)
    ultimately show ?thesis by (simp add: repair_interrupted_runs_def repo_modify_def)
  qed
  moreover have "map rr_id (filter run_interrupted (db_sync_runs (snd (begin_run at trigger ?d)))) = [db_runs_seq d + 1]"
  proof -
    have "db_runs_seq ?d = db_runs_seq d" by (simp add: repair_interrupted_runs_def repo_modify_def)
    moreover have "run_interrupted (running_run i at trigger)" for i by (simp add: run_interrupted_def running_run_def)
    moreover have "filter run_interrupted (db_sync_runs ?d) = []"
      unfolding repair_runs_eq by (rule filter_map_none) (simp add: run)
    ultimately show ?thesis by (simp add: begin_run_eq running_run_def)
  qed
  ultimately show ?thesis by (simp only: Let_def)
qed

section \<open>File states\<close>

lemma find_upsert_file_row:
  "tbl_find file_key k (upsert_file_row now r rows) =
     (if (fr_root_id r, fr_relative_path r) = k then Some \<lparr>fw_record = r, fw_last_synced_at_utc = now\<rparr>
      else tbl_find file_key k rows)"
proof -
  have "file_key \<lparr>fw_record = r, fw_last_synced_at_utc = now\<rparr> = (fr_root_id r, fr_relative_path r)"
    by (simp add: file_key_def)
  then show ?thesis
    by (auto simp: upsert_file_row_def files_tbl.find_upsert split: option.split)
qed

lemma find_fold_upsert_file:
  "tbl_find file_key k (fold (upsert_file_row now) rs rows) =
     (case find (\<lambda>r. (fr_root_id r, fr_relative_path r) = k) (rev rs) of
        None \<Rightarrow> tbl_find file_key k rows
      | Some r \<Rightarrow> Some \<lparr>fw_record = r, fw_last_synced_at_utc = now\<rparr>)"
proof (induction rs rule: rev_induct)
  case (snoc r rs)
  then show ?case
    by (simp add: find_upsert_file_row)
qed simp

text \<open>
  After a batch of upserts, reading a file state returns the last record of the batch for that
  root and relative path, and what was stored before for every other path.
\<close>

theorem upsert_file_states_get:
  "fst (get_file_state root_id path (snd (upsert_file_states now records d))) =
     Inr (case find (\<lambda>r. fr_root_id r = root_id \<and> fr_relative_path r = path) (rev records) of
            None \<Rightarrow> map_option fw_record (tbl_find file_key (root_id, path) (db_file_state d))
          | Some r \<Rightarrow> Some r)"
  by (auto simp: get_file_state_def repo_read_def upsert_file_states_def repo_modify_def
    find_fold_upsert_file split: option.splits)

section \<open>Cached remote resources\<close>

definition cached_of_root :: "string \<Rightarrow> db \<Rightarrow> RemoteResourceRecord list" where
  "cached_of_root root_id d =
     filter (\<lambda>r. rm_root_id r = root_id) (map rw_record (db_remote_resource_state d))"

lemma list_remote_resources_eq:
  "list_remote_resources_for_root root_id d = (Inr (sort_key rm_remote_path (cached_of_root root_id d)), d)"
  by (simp add: list_remote_resources_for_root_def repo_read_def cached_of_root_def)

lemma other_roots_kept:
  assumes "\<forall>r\<in>set rs. rm_root_id r = root_id" and "other \<noteq> root_id"
  shows "filter (\<lambda>r. rm_root_id r = other)
      (map rw_record (filter (\<lambda>row. rm_root_id (rw_record row) \<noteq> root_id) rows @ map (remote_row_of now) rs)) =
    filter (\<lambda>r. rm_root_id r = other) (map rw_record rows)"
proof -
  have "filter (\<lambda>r. rm_root_id r = other) rs = []"
    using assms by (auto simp: filter_empty_conv)
  then show ?thesis
    using assms(2) by (induction rows) (auto simp: remote_row_of_def comp_def filter_map)
qed

text \<open>
  Replacing the cached resources of a root by records of that root with distinct paths makes
  the list of its resources those records, sorted by path, and keeps the list of every other root.
  With a repeated path it is an error that leaves the cache as it was.
\<close>

theorem replace_remote_resources_for_root_spec:
  assumes "db_wf d" and own: "\<forall>r\<in>set records. rm_root_id r = root_id"
    and "replace_remote_resources_for_root now root_id records d = (res, d')"
  shows "if distinct (map rm_remote_path records)
     then res = Inr () \<and>
          fst (list_remote_resources_for_root root_id d') = Inr (sort_key rm_remote_path records) \<and>
          (\<forall>other. other = root_id \<or>
             fst (list_remote_resources_for_root other d') = fst (list_remote_resources_for_root other d))
     else res = Inl (SqliteConstraint ''remote_resource_state'') \<and> d' = d"
proof -
  let ?kept = "filter (\<lambda>row. rm_root_id (rw_record row) \<noteq> root_id) (db_remote_resource_state d)"
  have kept: "tbl_keyed remote_key ?kept"
    using assms(1) by (simp add: db_wf_def tbl_keyed_filter)
  have keys: "map (remote_key \<circ> remote_row_of now) records = map (\<lambda>p. (root_id, p)) (map rm_remote_path records)"
    using own by (simp add: remote_key_def remote_row_of_def comp_def)
  have "distinct (map (remote_key \<circ> remote_row_of now) records) = distinct (map rm_remote_path records)"
    unfolding keys by (simp add: distinct_map inj_on_def)
  moreover have "set (map remote_key ?kept) \<inter> set (map (remote_key \<circ> remote_row_of now) records) = {}"
    unfolding keys by (auto simp: remote_key_def)
  ultimately have "tbl_keyed remote_key (?kept @ map (remote_row_of now) records) =
      distinct (map rm_remote_path records)"
    using kept by (simp add: tbl_keyed_def)
  with insert_remote_rows_iff [OF kept, of now records]
  have ins: "insert_remote_rows now records ?kept =
      (if distinct (map rm_remote_path records) then Some (?kept @ map (remote_row_of now) records) else None)"
    using insert_remote_rows_append by (cases "insert_remote_rows now records ?kept") auto
  have eq: "replace_remote_resources_for_root now root_id records d =
      (case insert_remote_rows now records ?kept of
         None \<Rightarrow> (Inl (SqliteConstraint ''remote_resource_state''), d)
       | Some rows \<Rightarrow> (Inr (), d\<lparr>db_remote_resource_state := rows\<rparr>))"
    by (simp add: replace_remote_resources_for_root_def tbl_delete_def)
  show ?thesis
  proof (cases "distinct (map rm_remote_path records)")
    case True
    then have d': "res = Inr ()" "d' = d\<lparr>db_remote_resource_state := ?kept @ map (remote_row_of now) records\<rparr>"
      using assms(3) by (simp_all add: eq ins)
    have "filter (\<lambda>r. rm_root_id r = root_id) (map rw_record ?kept) = []"
      by (auto simp: filter_empty_conv)
    moreover have "filter (\<lambda>r. rm_root_id r = root_id) records = records"
      using own by (simp add: filter_id_conv)
    ultimately have "cached_of_root root_id d' = records"
      by (simp add: cached_of_root_def d' remote_row_of_def comp_def)
    moreover have "cached_of_root other d' = cached_of_root other d" if "other \<noteq> root_id" for other
      using other_roots_kept [OF own that] by (simp add: cached_of_root_def d')
    ultimately show ?thesis
      using True d'(1) unfolding list_remote_resources_eq fst_conv by (simp only: if_True) metis
  next
    case False
    then show ?thesis using assms(3) by (simp add: eq ins)
  qed
qed

definition resource_at :: "string \<Rightarrow> string \<Rightarrow> RemoteResourceRecord" where
  "resource_at root_id path =
     \<lparr>rm_root_id = root_id, rm_remote_path = path, rm_resource_type = RrFile,
      rm_size_bytes = None, rm_mtime_remote = None, rm_remote_md5 = None\<rparr>"

theorem replace_remote_resources_for_root_spec_witness:
  "fst (list_remote_resources_for_root ''r'' (snd (replace_remote_resources_for_root ''t'' ''r''
      [resource_at ''r'' ''b'', resource_at ''r'' ''a''] empty_db))) =
     Inr [resource_at ''r'' ''a'', resource_at ''r'' ''b'']"
  using replace_remote_resources_for_root_spec [OF empty_db_wf _ prod.collapse [symmetric],
      of "[resource_at ''r'' ''b'', resource_at ''r'' ''a'']" "''r''" "''t''"]
  by (simp add: resource_at_def)

section \<open>Deleting a subtree of the cache\<close>

lemma sql_like_percent: "sql_like ''%'' s"
  by (auto simp: list_ex_iff intro: bexI [where x = "length s"])

text \<open>The pattern \<open>prefix/%\<close> matches at least what lies below the prefix, wildcards or not.\<close>

lemma sql_like_below: "sql_like (p @ ''%'') (p @ t)"
proof (induction p)
  case Nil
  then show ?case using sql_like_percent [of t] by simp
next
  case (Cons c p)
  have "\<exists>k<Suc (length ((c # p) @ t)). sql_like (p @ ''%'') (drop k ((c # p) @ t))"
    using Cons by (intro exI [of _ 1]) simp
  then show ?case using Cons by (auto simp: list_ex_iff simp del: upt_Suc)
qed

text \<open>Without wildcards it matches the prefix in either case of its ASCII letters.\<close>

lemma sql_like_literal:
  assumes "CHR ''%'' \<notin> set p" and "CHR ''_'' \<notin> set p"
  shows "sql_like (p @ ''%'') s \<longleftrightarrow>
    length p \<le> length s \<and> to_ascii_lowercase (take (length p) s) = to_ascii_lowercase p"
  using assms
proof (induction p arbitrary: s)
  case Nil
  then show ?case using sql_like_percent [of s] by (simp add: to_ascii_lowercase_def)
next
  case (Cons c p)
  then show ?case by (cases s) (auto simp: to_ascii_lowercase_def)
qed

lemma sql_like_under: "path_under p path \<Longrightarrow> path = p \<or> sql_like (p @ ''/%'') path"
  using sql_like_below [of "p @ ''/''"] by (auto simp: path_under_iff)

lemma sql_like_slash:
  assumes "CHR ''%'' \<notin> set p" and "CHR ''_'' \<notin> set p"
  shows "sql_like (p @ ''/%'') s \<longleftrightarrow> starts_with (to_ascii_lowercase (p @ ''/'')) (to_ascii_lowercase s)"
proof -
  have "sql_like ((p @ ''/'') @ ''%'') s \<longleftrightarrow>
      length (p @ ''/'') \<le> length s \<and>
      to_ascii_lowercase (take (length (p @ ''/'')) s) = to_ascii_lowercase (p @ ''/'')"
    by (rule sql_like_literal) (use assms in auto)
  moreover have "length a \<le> length s \<and> map f (take (length a) s) = map f a \<longleftrightarrow> (\<exists>r. map f s = map f a @ r)"
    for a :: string and f :: "char \<Rightarrow> char"
  proof
    assume "length a \<le> length s \<and> map f (take (length a) s) = map f a"
    then have "map f s = map f a @ map f (drop (length a) s)"
      by (metis append_take_drop_id map_append)
    then show "\<exists>r. map f s = map f a @ r" ..
  next
    assume "\<exists>r. map f s = map f a @ r"
    then obtain r where r: "map f s = map f a @ r" ..
    have "length a \<le> length s" using arg_cong [OF r, of length] by simp
    moreover have "map f (take (length a) s) = map f a"
      using arg_cong [OF r, of "take (length a)"] by (simp add: take_map)
    ultimately show "length a \<le> length s \<and> map f (take (length a) s) = map f a" ..
  qed
  ultimately show ?thesis
    unfolding starts_with_iff to_ascii_lowercase_def by (simp only: append_assoc append.simps)
qed

lemma delete_subtree_eq:
  "cached_of_root other (snd (delete_remote_resource_subtree root_id p d)) =
     filter (\<lambda>r. \<not> (other = root_id \<and>
         (rm_remote_path r = p \<or> sql_like (p @ ''/%'') (rm_remote_path r))))
       (cached_of_root other d)"
  by (auto simp: cached_of_root_def delete_remote_resource_subtree_def repo_modify_def tbl_delete_def
    filter_map comp_def intro!: filter_cong arg_cong [where f = "map rw_record"])

text \<open>
  After deleting the cached subtree of a prefix, no cached resource of the root is the prefix
  or lies below it, and the other roots keep theirs. When the prefix has no wildcard of \<open>LIKE\<close>, a
  resource goes exactly when its path is the prefix or starts with the prefix and a slash up to
  the case of ASCII letters.
\<close>

theorem delete_remote_resource_subtree_spec:
  assumes "CHR ''%'' \<notin> set p" and "CHR ''_'' \<notin> set p"
  shows "filter (\<lambda>r. path_under p (rm_remote_path r))
       (cached_of_root root_id (snd (delete_remote_resource_subtree root_id p d))) = [] \<and>
     cached_of_root other (snd (delete_remote_resource_subtree root_id p d)) =
       (if other = root_id
        then filter (\<lambda>r. \<not> (rm_remote_path r = p \<or>
            starts_with (to_ascii_lowercase (p @ ''/'')) (to_ascii_lowercase (rm_remote_path r))))
          (cached_of_root other d)
        else cached_of_root other d)"
proof
  show "filter (\<lambda>r. path_under p (rm_remote_path r))
       (cached_of_root root_id (snd (delete_remote_resource_subtree root_id p d))) = []"
    using sql_like_under by (auto simp: delete_subtree_eq filter_empty_conv)
  show "cached_of_root other (snd (delete_remote_resource_subtree root_id p d)) =
       (if other = root_id
        then filter (\<lambda>r. \<not> (rm_remote_path r = p \<or>
            starts_with (to_ascii_lowercase (p @ ''/'')) (to_ascii_lowercase (rm_remote_path r))))
          (cached_of_root other d)
        else cached_of_root other d)"
    using assms by (simp add: delete_subtree_eq sql_like_slash del: append.simps)
qed

definition cache_of :: "string list \<Rightarrow> db" where
  "cache_of paths = snd (upsert_remote_resources ''t'' (map (resource_at ''r'') paths) empty_db)"

theorem delete_remote_resource_subtree_spec_witness:
  "map rm_remote_path (cached_of_root ''r''
     (snd (delete_remote_resource_subtree ''r'' ''/a'' (cache_of [''/a'', ''/ab'', ''/a/x'', ''/A/y''])))) = [''/ab'']"
proof -
  have cache: "cached_of_root ''r'' (cache_of [''/a'', ''/ab'', ''/a/x'', ''/A/y'']) =
      map (resource_at ''r'') [''/a'', ''/ab'', ''/a/x'', ''/A/y'']"
    by (simp add: cache_of_def upsert_remote_resources_def repo_modify_def cached_of_root_def
      upsert_remote_row_def tbl_upsert_def remote_key_def remote_row_of_def resource_at_def empty_db_def)
  have "filter (\<lambda>r. \<not> (rm_remote_path r = ''/a'' \<or>
        starts_with (to_ascii_lowercase (''/a'' @ ''/'')) (to_ascii_lowercase (rm_remote_path r))))
      (map (resource_at ''r'') [''/a'', ''/ab'', ''/a/x'', ''/A/y'']) = [resource_at ''r'' ''/ab'']"
    by code_simp
  then show ?thesis
    using delete_remote_resource_subtree_spec [of "''/a''" "''r''" "cache_of [''/a'', ''/ab'', ''/a/x'', ''/A/y'']" "''r''"]
    unfolding cache by (simp only: resource_at_def) simp
qed

text \<open>
  The prefix reaches the pattern unescaped: deleting the cached subtree of \<open>/a_b\<close> also drops the
  resources below \<open>/axb\<close>, which is another directory.
\<close>

theorem delete_remote_resource_subtree_overreach:
  "cached_of_root ''r'' (snd (delete_remote_resource_subtree ''r'' ''/a_b'' (cache_of [''/axb/file'']))) = []"
proof -
  have cache: "cached_of_root ''r'' (cache_of [''/axb/file'']) = [resource_at ''r'' ''/axb/file'']"
    by (simp add: cache_of_def upsert_remote_resources_def repo_modify_def cached_of_root_def
      upsert_remote_row_def tbl_upsert_def remote_key_def remote_row_of_def resource_at_def empty_db_def)
  have "sql_like ''/a_b/%'' ''/axb/file''"
    by code_simp
  then show ?thesis unfolding delete_subtree_eq cache by (simp add: resource_at_def)
qed

end
