(* ===== verification/Sync_Props.thy ===== *)
theory Sync_Props
  imports Sync_Keep State_Props
begin

text \<open>
  The runs of \<open>crates/yds-sync/src/lib.rs\<close>: the invariant of the database, what a run does to the
  remote, the run lock and the record of the run. An environment that records the calls of its
  client that change the remote gives the trace the properties speak of.
\<close>

section \<open>The interfaces, provided by the repository and by every environment\<close>

lemma repo_reads:
  "keeps D (list_remote_resources_for_root rid)"
  "keeps D (get_root_remote_inventory_status rid)"
  "keeps D (list_file_states_for_root rid)"
  "keeps D (has_snapshot_for_root rid)"
  by (simp_all add: list_remote_resources_for_root_def get_root_remote_inventory_status_def
      list_file_states_for_root_def has_snapshot_for_root_def)

interpretation wf: database_invariant db_wf
  by unfold_locales (rule repo_wf repo_reads)+

text \<open>No statement of a run but its first and last ones touches the lock table or adds a run.\<close>

definition frame :: "db \<Rightarrow> lock_row list \<times> rowid list" where
  "frame d = (db_state_locks d, map rr_id (db_sync_runs d))"

lemma frame_update [simp]:
  "frame (d\<lparr>db_runs_seq := n\<rparr>) = frame d"
  "frame (d\<lparr>db_sync_roots := b\<rparr>) = frame d"
  "frame (d\<lparr>db_file_state := c\<rparr>) = frame d"
  "frame (d\<lparr>db_directory_state := e\<rparr>) = frame d"
  "frame (d\<lparr>db_remote_resource_state := f\<rparr>) = frame d"
  "frame (d\<lparr>db_skipped_items := g\<rparr>) = frame d"
  "frame (d\<lparr>db_failed_items := h\<rparr>) = frame d"
  "frame (d\<lparr>db_operation_journal := i\<rparr>) = frame d"
  "frame (d\<lparr>db_journal_seq := n\<rparr>) = frame d"
  "frame (d\<lparr>db_root_remote_inventory_status := k\<rparr>) = frame d"
  "frame (d\<lparr>db_deleted_subtrees := l\<rparr>) = frame d"
  by (simp_all add: frame_def)

lemma frame_append_operations: "frame (fold (append_operation_succeeded now) records d) = frame d"
  by (induction records arbitrary: d) (simp_all add: append_operation_succeeded_def Let_def)

lemma frame_runs: "map rr_id rows = map rr_id (db_sync_runs d) \<Longrightarrow> frame (d\<lparr>db_sync_runs := rows\<rparr>) = frame d"
  by (simp add: frame_def)

interpretation framed: database_invariant "\<lambda>d. frame d = fr" for fr
proof (unfold_locales, goal_cases)
  case (1 n summary)
  show ?case
    unfolding keeps_def update_run_progress_def
    by (auto simp: Let_def split: prod.splits intro!: frame_runs [THEN trans])
      (metis map_id_update SyncRunRecord.select_convs(1) SyncRunRecord.surjective SyncRunRecord.update_convs(6) snd_conv)
next
  case (5 now ops)
  show ?case by (simp add: keeps_def append_operations_succeeded_def repo_modify_def frame_append_operations)
next
  case (13 now rid rms)
  show ?case by (auto simp: keeps_def replace_remote_resources_for_root_def split: option.split)
qed (simp_all add: keeps_def repo_modify_def repo_read_def list_remote_resources_for_root_def
    get_root_remote_inventory_status_def list_file_states_for_root_def mark_subtree_deleted_def
    mark_skipped_def mark_failed_def append_operation_started_def finish_operation_def Let_def
    update_sync_root_status_def upsert_sync_root_def set_root_remote_inventory_status_def
    upsert_remote_resource_def delete_remote_resource_subtree_def upsert_directory_state_def
    upsert_file_state_def mark_deleted_def mark_directory_deleted_def split: prod.split)

interpretation any_world: engine_writes "\<lambda>d. frame d = fr" env "\<lambda>_. True" i for fr env i
  by unfold_locales (simp_all add: stable_def keeps_def)

interpretation wf_world: engine_writes db_wf env "\<lambda>_. True" i for env i
  by unfold_locales (simp_all add: stable_def keeps_def)

lemma framed_run:
  "keeps (engine_ok (\<lambda>_. True) (\<lambda>d. frame d = fr) i) (execute_run env config run_id force)"
  by (rule any_world.execute_run_keeps) (simp add: any_world.deletes_kept_def keeps_def)

lemma wf_run: "keeps (engine_ok (\<lambda>_. True) db_wf i) (execute_run env config run_id force)"
  by (rule wf_world.execute_run_keeps) (simp add: wf_world.deletes_kept_def keeps_def)

lemma any_database: "database_invariant (\<lambda>_. True)"
  by unfold_locales (simp_all add: keeps_def)

section \<open>A recording environment\<close>

datatype remote_call = CreateCall string | UploadCall string | DeleteCall string | MoveCall string string bool

definition with_log :: "('w \<Rightarrow> 'a \<times> 'w) \<Rightarrow> 'w \<times> 'l \<Rightarrow> 'a \<times> 'w \<times> 'l" where
  "with_log f wl = (case f (fst wl) of (x, w) \<Rightarrow> (x, w, snd wl))"

definition logged :: "remote_call \<Rightarrow> ('w \<Rightarrow> 'a \<times> 'w) \<Rightarrow> 'w \<times> remote_call list \<Rightarrow> 'a \<times> 'w \<times> remote_call list" where
  "logged call f wl = (case f (fst wl) of (x, w) \<Rightarrow> (x, w, snd wl @ [call]))"

definition recording_client :: "'w disk_client \<Rightarrow> ('w \<times> remote_call list) disk_client" where
  "recording_client c =
     \<lparr>dc_disk_info = with_log (dc_disk_info c),
      dc_metadata = (\<lambda>p. with_log (dc_metadata c p)),
      dc_list_recursive_with_options = (\<lambda>p ps. with_log (dc_list_recursive_with_options c p ps)),
      dc_create_directory = (\<lambda>p. logged (CreateCall p) (dc_create_directory c p)),
      dc_upload_source = (\<lambda>p src ow. logged (UploadCall p) (dc_upload_source c p src ow)),
      dc_download = (\<lambda>p. with_log (dc_download c p)),
      dc_move_resource = (\<lambda>p q ow. logged (MoveCall p q ow) (dc_move_resource c p q ow)),
      dc_copy_resource = (\<lambda>p q ow. with_log (dc_copy_resource c p q ow)),
      dc_delete_permanently = (\<lambda>p. logged (DeleteCall p) (dc_delete_permanently c p)),
      dc_poll_operation = (\<lambda>href. with_log (dc_poll_operation c href))\<rparr>"

definition recording :: "'w sync_env \<Rightarrow> ('w \<times> remote_call list) sync_env" where
  "recording env =
     \<lparr>ev_client = recording_client (ev_client env), ev_now = with_log (ev_now env),
      ev_utc_text = ev_utc_text env, ev_parse_rfc3339 = ev_parse_rfc3339 env,
      ev_is_cancelled = with_log (ev_is_cancelled env), ev_fs = with_log (ev_fs env),
      ev_remove_file = (\<lambda>p. with_log (ev_remove_file env p)),
      ev_scan = (\<lambda>options root previous. with_log (ev_scan env options root previous)),
      ev_order = (\<lambda>n. with_log (ev_order env n)), ev_ahead = with_log (ev_ahead env),
      ev_db_fault = with_log (ev_db_fault env), ev_gitignore = ev_gitignore env\<rparr>"

lemma fst_with_log [simp]: "fst (with_log f wl) = fst (f (fst wl))"
  by (simp add: with_log_def split: prod.split)

lemma stable_with_log: "(\<And>w w' l. P (w, l) \<Longrightarrow> P (w', l)) \<Longrightarrow> stable P (with_log f)"
  by (auto simp: stable_def with_log_def split: prod.split)

lemma keeps_with_log: "(\<And>w w' l. P (w, l) \<Longrightarrow> P (w', l)) \<Longrightarrow> keeps P (with_log f)"
  by (auto simp: keeps_def with_log_def split: prod.split)

text \<open>A property of the log is kept by every call that the log does not show.\<close>

lemma recording_reads:
  "database_invariant D \<Longrightarrow> engine_reads D (recording env) (\<lambda>w. L (snd w))"
  by (intro engine_reads.intro engine_reads_axioms.intro)
    (auto simp: recording_def recording_client_def intro: stable_with_log keeps_with_log)

lemma recording_writes:
  assumes "database_invariant D" "\<And>l p. L l \<Longrightarrow> L (l @ [CreateCall p])" "\<And>l p. L l \<Longrightarrow> L (l @ [UploadCall p])"
  shows "engine_writes D (recording env) (\<lambda>w. L (snd w))"
  by (intro engine_writes.intro engine_writes_axioms.intro recording_reads assms(1))
    (auto simp: recording_def recording_client_def keeps_def logged_def assms split: prod.split)

lemma recording_delete:
  "(\<And>l. L l \<Longrightarrow> L (l @ [DeleteCall p])) \<Longrightarrow>
   keeps (\<lambda>w. L (snd w)) (dc_delete_permanently (ev_client (recording env)) p)"
  by (auto simp: recording_def recording_client_def keeps_def logged_def split: prod.split)

definition log_of :: "('w \<times> remote_call list) sync_state \<Rightarrow> remote_call list" where
  "log_of s = snd (st_world s)"

definition start_log :: "'w sync_state \<Rightarrow> ('w \<times> remote_call list) sync_state" where
  "start_log s = \<lparr>st_world = (st_world s, []), st_db = st_db s, st_report = st_report s\<rparr>"

section \<open>What a run does to the remote\<close>

definition enabled_canonicals :: "AppConfig \<Rightarrow> string list" where
  "enabled_canonicals config =
     List.map_filter (\<lambda>root.
       case canonical_remote_path (in_remote_root (cf_instance config)) (rc_local_path root)
              (rc_remote_path_override root) of
         Inl _ \<Rightarrow> None | Inr c \<Rightarrow> if rc_enabled root then Some c else None)
     (cf_roots config)"

primrec stray_delete :: "AppConfig \<Rightarrow> remote_call \<Rightarrow> bool" where
  "stray_delete config (CreateCall p) = False"
| "stray_delete config (UploadCall p) = False"
| "stray_delete config (MoveCall p q overwrite) = False"
| "stray_delete config (DeleteCall p) = (\<not> list_ex (\<lambda>c. below_root c p) (enabled_canonicals config))"

text \<open>
  C2. Whatever the remote lists, the cache holds and the scan finds, in any environment and with
  any failures, a run deletes only paths strictly below the remote folder of an enabled root: never
  that folder itself, never anything outside the managed folders.
\<close>

theorem execute_run_deletes_confined:
  "filter (stray_delete config) (log_of (snd (execute_run (recording env) config run_id force (start_log s)))) = []"
proof -
  let ?L = "\<lambda>l. filter (stray_delete config) l = []"
  have writes: "engine_writes (\<lambda>_. True) (recording env) (\<lambda>w. ?L (snd w))"
    by (rule recording_writes) (auto simp: any_database)
  have kept: "engine_writes.deletes_kept (recording env) (\<lambda>w. ?L (snd w)) c"
    if "root \<in> set (cf_roots config)" "rc_enabled root"
      "canonical_remote_path (in_remote_root (cf_instance config)) (rc_local_path root)
         (rc_remote_path_override root) = Inr c" for root c
  proof -
    have "c \<in> set (enabled_canonicals config)"
      using that by (force simp: enabled_canonicals_def List.map_filter_def)
    then show ?thesis
      unfolding engine_writes.deletes_kept_def [OF writes]
      by (auto intro!: recording_delete simp: list_ex_iff)
  qed
  have "keeps (engine_ok (\<lambda>w. ?L (snd w)) (\<lambda>_. True) (sp_run_id (st_report (start_log s))))
      (execute_run (recording env) config run_id force)"
    by (rule engine_writes.execute_run_keeps [OF writes]) (rule kept)
  from this [unfolded keeps_def, rule_format, of "start_log s"] show ?thesis
    by (simp add: engine_ok_def start_log_def log_of_def)
qed

text \<open>
  A remote that cannot list a folder: the look at the folder may succeed or fail, the listing fails,
  and no error says that the folder does not exist.
\<close>

definition unlistable :: "'w disk_client \<Rightarrow> string \<Rightarrow> bool" where
  "unlistable c p =
     ((\<forall>w. case fst (dc_metadata c p w) of Inl e \<Rightarrow> ye_kind e \<noteq> YkNotFound | Inr _ \<Rightarrow> True) \<and>
      (\<forall>ps w. case fst (dc_list_recursive_with_options c p ps w) of
         Inl e \<Rightarrow> ye_kind e \<noteq> YkNotFound | Inr _ \<Rightarrow> False))"

lemma yields_world_call: "(\<And>w. R (fst (f w))) \<Longrightarrow> yields R (world_call f)"
  by (auto simp: yields_def world_call_def split: prod.splits) (metis fst_conv)

lemma fresh_inventory_fails:
  assumes "unlistable (ev_client env) canonical"
  shows "yields (\<lambda>_. False) (fresh_inventory env sync root canonical live)"
proof -
  have meta: "yields (\<lambda>r. case r of Inl e \<Rightarrow> ye_kind e \<noteq> YkNotFound | Inr _ \<Rightarrow> True)
      (world_call (dc_metadata (ev_client env) canonical))"
    using assms by (auto intro!: yields_world_call simp: unlistable_def)
  have listing: "yields (\<lambda>r. case r of Inl e \<Rightarrow> ye_kind e \<noteq> YkNotFound | Inr _ \<Rightarrow> False)
      (world_call (dc_list_recursive_with_options (ev_client env) canonical pruned))" for pruned
    using assms by (auto intro!: yields_world_call simp: unlistable_def)
  show ?thesis
    unfolding fresh_inventory_def Let_def
    by (rule yields_bindM [OF meta]) (auto intro!: yields_bindM [OF listing] split: sum.splits)
qed

lemma unlistable_recording: "unlistable (ev_client env) p \<Longrightarrow> unlistable (ev_client (recording env)) p"
  by (simp add: unlistable_def recording_def recording_client_def)

text \<open>No cached snapshot of a root that some reading of the clock finds complete and in date.\<close>

definition no_snapshot_in_date :: "'w sync_env \<Rightarrow> string \<Rightarrow> db \<Rightarrow> bool" where
  "no_snapshot_in_date env root_id d =
     (case tbl_find ri_root_id root_id (db_root_remote_inventory_status d) of
        None \<Rightarrow> True
      | Some status \<Rightarrow>
          ri_is_complete status \<longrightarrow>
          (case ri_snapshot_expires_at_utc status of
             None \<Rightarrow> True
           | Some text \<Rightarrow>
               (case ev_parse_rfc3339 env text of
                  None \<Rightarrow> True
                | Some expires_at \<Rightarrow> \<forall>w. expires_at \<le> fst (ev_now env w))))"

lemma no_snapshot_recording [simp]: "no_snapshot_in_date (recording env) = no_snapshot_in_date env"
proof -
  have "(\<forall>wl. e \<le> fst (ev_now (recording env) wl)) = (\<forall>w. e \<le> fst (ev_now env w))" for e
    by (auto simp: recording_def)
  moreover have "ev_parse_rfc3339 (recording env) = ev_parse_rfc3339 env" by (simp add: recording_def)
  ultimately show ?thesis
    unfolding no_snapshot_in_date_def fun_eq_iff by (simp split: option.split)
qed

lemma remote_inventory_fails:
  assumes "unlistable (ev_client env) canonical" "force \<or> no_snapshot_in_date env (rc_id root) (st_db s)"
  shows "isl (fst (remote_inventory env sync root canonical live force s))"
proof -
  have fresh: "isl (fst (fresh_inventory env sync root canonical live s'))" for s'
    using fresh_inventory_fails [OF assms(1)] unfolding yields_def by (metis isl_def prod.collapse sum.exhaust_sel)
  have "x = None" if "cached_inventory env root canonical force s = (Inr x, s')" for x s'
    using that assms(2)
    by (auto simp: cached_inventory_def no_snapshot_in_date_def bindM_def errM_def map_err_def repo_call_def world_read_def
        db_run_def get_root_remote_inventory_status_def repo_read_def ret_def throw_def is_remote_inventory_expired_def
        split: if_splits prod.splits sum.splits option.splits) (metis fst_conv not_less)+
  then show ?thesis
    using fresh by (auto simp: remote_inventory_def bindM_def split: prod.split sum.split)
qed

text \<open>From states with one property into states with another, whatever the result.\<close>

definition lands :: "('s \<Rightarrow> bool) \<Rightarrow> ('s, 'e, 'a) m \<Rightarrow> ('s \<Rightarrow> bool) \<Rightarrow> bool" where
  "lands P f Q = (\<forall>s. P s \<longrightarrow> Q (snd (f s)))"

lemma lands_keeps: "keeps Q f \<Longrightarrow> (\<And>s. P s \<Longrightarrow> Q s) \<Longrightarrow> lands P f Q"
  by (simp add: lands_def keeps_def)

lemma lands_bindM:
  assumes "keeps P f" "yields R f" "\<And>s. P s \<Longrightarrow> Q s" "\<And>x. R x \<Longrightarrow> lands P (g x) Q"
  shows "lands P (bindM f g) Q"
  using assms unfolding lands_def keeps_def yields_def bindM_def by (fastforce split: prod.splits sum.splits)

lemma yields_any: "yields (\<lambda>_. True) f"
  by (simp add: yields_def)

lemmas lands_bindM_any = lands_bindM [OF _ yields_any]

lemma lands_seqM: "keeps P f \<Longrightarrow> (\<And>s. P s \<Longrightarrow> Q s) \<Longrightarrow> lands P g Q \<Longrightarrow> lands P (seqM f g) Q"
  unfolding seqM_def by (rule lands_bindM_any)

lemma lands_catchM:
  assumes "\<And>s. P s \<Longrightarrow> isl (fst (f s))" "keeps Q f" "\<And>s. P s \<Longrightarrow> Q s" "\<And>e. keeps Q (g (Inl e))"
  shows "lands P (bindM (catchM f) g) Q"
  unfolding lands_def
proof (intro allI impI)
  fix s assume s: "P s"
  obtain e s' where f: "f s = (Inl e, s')" using assms(1) [OF s] by (metis isl_def prod.collapse)
  then have "Q s'" using assms(2,3) s unfolding keeps_def by (metis snd_conv)
  then show "Q (snd (bindM (catchM f) g s))"
    using assms(4) by (simp add: bindM_def catchM_def f keeps_def)
qed

text \<open>The statements up to the inventory leave the snapshots alone.\<close>

lemma no_snapshot_kept:
  "keeps (no_snapshot_in_date env rid) (list_file_states_for_root r)"
  "keeps (no_snapshot_in_date env rid) (mark_skipped now sk)"
  "keeps (no_snapshot_in_date env rid) (mark_failed now fa)"
  "keeps (no_snapshot_in_date env rid) (mark_subtree_deleted now r p q n)"
  "keeps (no_snapshot_in_date env rid) (append_operations_succeeded now ops)"
  "keeps (no_snapshot_in_date env rid) (update_run_progress n summary)"
  "keeps (no_snapshot_in_date env rid) (update_sync_root_status r st err)"
proof -
  have journal: "db_root_remote_inventory_status (fold (append_operation_succeeded now) ops d) = db_root_remote_inventory_status d" for d
    by (induction ops arbitrary: d) (simp_all add: append_operation_succeeded_def Let_def)
  show "keeps (no_snapshot_in_date env rid) (append_operations_succeeded now ops)"
    by (simp add: keeps_def append_operations_succeeded_def repo_modify_def journal no_snapshot_in_date_def)
qed (simp_all add: keeps_def repo_modify_def repo_read_def list_file_states_for_root_def mark_subtree_deleted_def
    mark_skipped_def mark_failed_def update_run_progress_def update_sync_root_status_def Let_def no_snapshot_in_date_def
    split: prod.split)

text \<open>
  The states before the inventory is fetched, with nothing in the log and no use for the cache, and
  the states with nothing in the log.
\<close>

definition before_inventory :: "'w sync_env \<Rightarrow> string \<Rightarrow> bool \<Rightarrow> rowid \<Rightarrow> ('w \<times> remote_call list) sync_state \<Rightarrow> bool" where
  "before_inventory env rid force i =
     engine_ok (\<lambda>w. snd w = []) (\<lambda>d. force \<or> no_snapshot_in_date env rid d) i"

definition nothing_called :: "rowid \<Rightarrow> ('w \<times> remote_call list) sync_state \<Rightarrow> bool" where
  "nothing_called i = engine_ok (\<lambda>w. snd w = []) (\<lambda>_. True) i"

lemma before_nothing_called: "before_inventory env rid force i s \<Longrightarrow> nothing_called i s"
  by (simp add: before_inventory_def nothing_called_def engine_ok_def)

lemma recording_stable:
  "stable (\<lambda>w. snd w = []) (ev_now (recording env))" "stable (\<lambda>w. snd w = []) (ev_db_fault (recording env))"
  "stable (\<lambda>w. snd w = []) (ev_fs (recording env))"
  "keeps (\<lambda>w. snd w = []) (ev_scan (recording env) options r previous)"
  by (auto simp: recording_def intro: stable_with_log keeps_with_log)

lemma before_inventory_call:
  "keeps (no_snapshot_in_date env rid) f \<Longrightarrow> keeps (before_inventory env rid force i) (repo_call (recording env) f)"
  unfolding before_inventory_def
  by (intro keeps_repo_call recording_stable) (auto simp: keeps_def)

lemma before_inventory_read_now: "keeps (before_inventory env rid force i) (world_read (ev_now (recording env)))"
  by (simp add: before_inventory_def keeps_world_read recording_stable)

lemma before_inventory_calls:
  "keeps (no_snapshot_in_date env rid) f \<Longrightarrow> keeps (before_inventory env rid force i) (repo (recording env) f)"
  "(\<And>now. keeps (no_snapshot_in_date env rid) (g now)) \<Longrightarrow>
   keeps (before_inventory env rid force i) (repo_at_call (recording env) g)"
  "(\<And>now. keeps (no_snapshot_in_date env rid) (g now)) \<Longrightarrow> keeps (before_inventory env rid force i) (repo_at (recording env) g)"
  unfolding repo_def repo_at_def repo_at_call_def
  by (intro keeps_errM keeps_bindM before_inventory_call before_inventory_read_now; simp)+

lemmas before_inventory_steps = keeps_bindM keeps_seqM keeps_errM keeps_catchM keeps_ret keeps_foldM keeps_eachM
  no_snapshot_kept before_inventory_call before_inventory_calls

lemma before_inventory_keeps:
  "keeps (before_inventory env rid force i) (record_scan_findings (recording env) report)"
  "keeps (before_inventory env rid force i) (record_deleted_subtrees (recording env) run_id live rs)"
  "keeps (before_inventory env rid force i) (persist_root_progress (recording env) run_id base rs)"
  "keeps (before_inventory env rid force i) (world_read (ev_fs (recording env)))"
  unfolding record_scan_findings_def scan_findings_call_def record_deleted_subtrees_def record_deleted_subtree_def
    persist_root_progress_def
  by (intro before_inventory_steps)+ (simp add: before_inventory_def keeps_world_read recording_stable)

lemma scan_before_inventory: "keeps (before_inventory env rid force i) (scan_root_with_repository (recording env) options r)"
proof -
  have "keeps (before_inventory env rid force i) (world_call (ev_scan (recording env) options r previous))" for previous
    unfolding before_inventory_def by (rule keeps_world_call) (rule recording_stable)
  then show ?thesis
    unfolding scan_root_with_repository_def by (auto intro!: before_inventory_steps split: sum.split)
qed

lemma deleted_subtrees_root:
  "yields (\<lambda>rs'. rt_canonical_remote_path rs' = rt_canonical_remote_path rs) (record_deleted_subtrees env run_id live rs)"
  unfolding record_deleted_subtrees_def record_deleted_subtree_def
  by (intro yields_foldM) (auto intro!: yields_plain)

lemma nothing_called_fails:
  "keeps (nothing_called i) (inventory_failed (recording env) root e rs)"
  "keeps (nothing_called i) (fail_root_as status (recording env) root operation kind message rs)"
  "keeps (nothing_called i) (remote_inventory (recording env) sync root canonical live force)"
  unfolding nothing_called_def
  by (rule engine_reads.inventory_failed_keeps engine_reads.fail_root_as_keeps engine_reads.remote_inventory_keeps,
      rule recording_reads, rule any_database)+

lemma unlisted_lands:
  assumes "unlistable (ev_client env) (rt_canonical_remote_path rs)"
  shows "lands (before_inventory env (rc_id root) force i)
    (bindM (catchM (remote_inventory (recording env) sync root (rt_canonical_remote_path rs) live force)) (\<lambda>inventory.
       case inventory of Inl e \<Rightarrow> inventory_failed (recording env) root e rs' | Inr snapshot \<Rightarrow> k snapshot))
    (nothing_called i)"
proof (rule lands_catchM [OF _ nothing_called_fails(3) before_nothing_called])
  fix s assume "before_inventory env (rc_id root) force i s"
  then show "isl (fst (remote_inventory (recording env) sync root (rt_canonical_remote_path rs) live force s))"
    by (intro remote_inventory_fails unlistable_recording assms) (simp add: before_inventory_def engine_ok_def)
qed (simp_all add: nothing_called_fails)

lemma scanned_lands:
  assumes "unlistable (ev_client env) (rt_canonical_remote_path rs)"
  shows "lands (before_inventory env (rc_id root) force i)
    (execute_scanned_root (recording env) config run_id root quota force base report rs) (nothing_called i)"
proof -
  note weak = before_nothing_called
  have failed: "lands (before_inventory env (rc_id root) force i)
      (bindM (fail_root_as st (recording env) root op kind message rs') (\<lambda>rs. ret (root_stop False, rs))) (nothing_called i)"
    for st op kind message rs'
    by (rule lands_keeps [OF _ weak]) (intro keeps_bindM keeps_ret nothing_called_fails)
  show ?thesis
    unfolding execute_scanned_root_def Let_def fail_root_def
    by (rule lands_seqM [OF before_inventory_keeps(1) weak], assumption,
        rule lands_bindM_any [OF before_inventory_keeps(4) weak], assumption,
        rule lands_bindM [OF before_inventory_keeps(2) deleted_subtrees_root weak], assumption,
        rule lands_seqM [OF before_inventory_keeps(3) weak], assumption)
      (simp add: failed unlisted_lands assms split: option.split)
qed

text \<open>
  C8. When the remote cannot list the folder of a root, and the scan of the remote is forced or no complete
  snapshot in date is in the cache, nothing of the root is changed on the remote: no directory created, no
  file uploaded, nothing deleted, whatever the scan of the local tree found. A folder that the remote says does
  not exist is no failure here: it counts as empty.
\<close>

theorem unlisted_root_untouched:
  assumes "unlistable (ev_client env) (rt_canonical_remote_path rs)"
    and "force \<or> no_snapshot_in_date env (rc_id root) (st_db s)"
  shows "log_of (snd (execute_root (recording env) config run_id root options quota force rs (start_log s))) = []"
proof -
  let ?i = "sp_run_id (st_report s)"
  have "lands (before_inventory env (rc_id root) force ?i)
      (execute_root (recording env) config run_id root options quota force rs) (nothing_called ?i)"
    unfolding execute_root_def fail_root_def
    by (rule lands_bindM_any [OF keeps_get_report before_nothing_called], assumption,
        rule lands_bindM_any [OF keeps_catchM [OF scan_before_inventory] before_nothing_called], assumption)
      (auto intro!: scanned_lands assms(1) lands_keeps [OF _ before_nothing_called] keeps_bindM nothing_called_fails
        split: sum.split)
  then show ?thesis
    using assms(2) by (auto simp: lands_def before_inventory_def nothing_called_def engine_ok_def start_log_def log_of_def)
qed

section \<open>The record of a run and its lock\<close>

lemma bindM_Inr:
  "bindM f g s = (Inr y, s') \<longleftrightarrow> (\<exists>x s1. f s = (Inr x, s1) \<and> g x s1 = (Inr y, s'))"
  by (auto simp: bindM_def split: prod.split sum.split)

lemma seqM_Inr:
  "seqM f g s = (Inr y, s') \<longleftrightarrow> (\<exists>s1. f s = (Inr (), s1) \<and> g s1 = (Inr y, s'))"
  by (simp add: seqM_def bindM_Inr)

lemma catchM_Inr: "catchM f s = (Inr r, s') \<longleftrightarrow> f s = (r, s')"
  by (auto simp: catchM_def split: prod.split)

lemma case_throw_Inr:
  "(case r of Inl e \<Rightarrow> throw e | Inr x \<Rightarrow> g x) s = (Inr y, s') \<longleftrightarrow> (\<exists>x. r = Inr x \<and> g x s = (Inr y, s'))"
  by (simp add: throw_def split: sum.split)

lemma repo_Inr:
  assumes "repo env f s = (Inr x, s')"
  shows "f (st_db s) = (Inr x, st_db s') \<and> st_report s' = st_report s"
  using assms
  by (auto simp: repo_def errM_def repo_call_def bindM_def world_read_def db_run_def throw_def map_err_def
      split: prod.splits sum.splits option.splits)

lemma repo_at_Inr:
  assumes "repo_at env f s = (Inr x, s')"
  shows "\<exists>now. f now (st_db s) = (Inr x, st_db s') \<and> st_report s' = st_report s"
proof -
  obtain t w where "ev_now env (st_world s) = (t, w)" by fastforce
  then have "repo env (f (ev_utc_text env t)) (s\<lparr>st_world := w\<rparr>) = (Inr x, s')"
    using assms by (simp add: repo_at_def repo_def repo_at_call_def errM_def bindM_def world_read_def)
  from repo_Inr [OF this] show ?thesis by auto
qed

lemma finish_run_row:
  assumes "finish_run now i status summary d = (Inr x, d')"
  shows "\<exists>r. run_with_id i d' = Some (finished_run now status summary r)"
proof -
  let ?g = "\<lambda>r. if rr_id r = i then finished_run now status summary r else r"
  have d': "db_sync_runs d' = map ?g (db_sync_runs d)"
    and one: "length (filter (\<lambda>r. rr_id r = i) (db_sync_runs d)) = 1"
    using assms by (auto simp: finish_run_def tbl_update_def finished_run_def ensure_updated_def split: if_splits)
  have id: "rr_id (?g r) = rr_id r" for r by (simp add: finished_run_def)
  from one have "filter (\<lambda>r. rr_id r = i) (db_sync_runs d) \<noteq> []" by auto
  then obtain r where "tbl_find rr_id i (db_sync_runs d) = Some r"
    by (metis (mono_tags, lifting) filter_empty_conv not_None_eq tbl_find_None_iff)
  then show ?thesis
    using tbl_find_map_same [where f = ?g and key = rr_id, OF id] tbl_find_SomeD
    by (fastforce simp: run_with_id_def d')
qed

lemma release_run_lock_rows:
  assumes "release_run_lock guard d = (r, d')"
  shows "db_state_locks d' =
      filter (\<lambda>r. \<not> (lw_name r = lg_name guard \<and> lw_owner r = lg_owner guard)) (db_state_locks d)"
    and "db_sync_runs d' = db_sync_runs d"
  using assms by (auto simp: release_run_lock_def tbl_delete_def)

lemma conclude_run_status:
  assumes "conclude_run env execution s = (r, s')"
  shows "sp_status (st_report s') \<noteq> RunRunning"
  using assms
  by (auto simp: conclude_run_def bindM_def modify_report_def is_cancelled_def world_read_def status_from_summary_def
      split: sum.splits prod.splits if_splits)

lemma run_locked_records:
  assumes "run_locked env config options guard s = (Inr report, s')"
  shows "(case run_with_id (sp_run_id report) (st_db s') of
       None \<Rightarrow> False
     | Some r \<Rightarrow> rr_status r = sp_status report \<and> rr_summary r = sp_summary report \<and>
         rr_finished_at_utc r \<noteq> None) \<and>
     sp_status report \<noteq> RunRunning \<and>
     filter (\<lambda>r. lw_name r = lg_name guard \<and> lw_owner r = lg_owner guard) (db_state_locks (st_db s')) = []"
proof -
  from assms obtain run_id s2 s3 execution s4 s5 s6 b where
    begun: "modify_report (\<lambda>_. new_report run_id) s2 = (Inr (), s3)"
    and executed: "execute_run env config run_id (sro_force_remote_rescan options \<or>
        sy_force_remote_rescan (cf_sync config)) s3 = (execution, s4)"
    and concluded: "conclude_run env execution s4 = (Inr (), s5)"
    and report: "report = st_report s5"
    and finished: "repo_at env (\<lambda>now. finish_run now run_id (sp_status report) (sp_summary report)) s5 = (Inr (), s6)"
    and released: "repo env (release_run_lock guard) s6 = (Inr b, s')"
    unfolding run_locked_def bindM_Inr seqM_Inr catchM_Inr case_throw_Inr
    by (auto simp: get_report_def ret_def)
  have "engine_ok (\<lambda>_. True) (\<lambda>d. frame d = frame (st_db s3)) run_id s3"
    using begun by (auto simp: engine_ok_def modify_report_def new_report_def)
  then have "engine_ok (\<lambda>_. True) (\<lambda>d. frame d = frame (st_db s3)) run_id s4"
    by (rule keepsD [OF framed_run _ executed])
  then have "engine_ok (\<lambda>_. True) (\<lambda>d. frame d = frame (st_db s3)) run_id s5"
    by (rule keepsD [OF any_world.conclude_run_keeps _ concluded])
  then have id: "sp_run_id report = run_id" by (simp add: engine_ok_def report)
  obtain now where now: "finish_run now run_id (sp_status report) (sp_summary report) (st_db s5) = (Inr (), st_db s6)"
    using repo_at_Inr [OF finished] by auto
  note released_rows = release_run_lock_rows [OF conjunct1 [OF repo_Inr [OF released]]]
  obtain r where "run_with_id run_id (st_db s') = Some (finished_run now (sp_status report) (sp_summary report) r)"
    using finish_run_row [OF now] by (auto simp: run_with_id_def released_rows)
  then show ?thesis
    using conclude_run_status [OF concluded] by (simp add: id finished_run_def released_rows flip: report)
qed

text \<open>The database alone: what is kept whatever the number of the run in the report.\<close>

definition db_ok :: "(db \<Rightarrow> bool) \<Rightarrow> 'w sync_state \<Rightarrow> bool" where
  "db_ok D s = D (st_db s)"

lemma keeps_db_ok: "(\<And>i. keeps (engine_ok (\<lambda>_. True) D i) f) \<Longrightarrow> keeps (db_ok D) f"
  by (auto simp: keeps_def engine_ok_def db_ok_def)

lemma keeps_db_repo: "keeps D f \<Longrightarrow> keeps (db_ok D) (repo env f)"
  unfolding repo_def by (intro keeps_db_ok keeps_errM keeps_repo_call) (simp_all add: stable_def)

lemma keeps_db_world: "keeps (db_ok D) (world_read f)"
  by (intro keeps_db_ok keeps_world_read) (simp add: stable_def)

lemma keeps_db_repo_at: "(\<And>now. keeps D (f now)) \<Longrightarrow> keeps (db_ok D) (repo_at env f)"
  unfolding repo_at_def repo_at_call_def
  by (intro keeps_db_ok keeps_errM keeps_bindM keeps_world_read keeps_repo_call) (simp_all add: stable_def)

lemma keeps_db_report: "keeps (db_ok D) (modify_report f)"
  by (simp add: keeps_def db_ok_def modify_report_def)

lemma should_auto_migrate_keeps: "keeps (db_ok D) (should_auto_migrate env config)"
proof -
  have "keeps (db_ok D) (should_auto_migrate_roots env roots)" for roots
    by (induction roots) (auto intro!: keeps_bindM keeps_db_world keeps_db_repo repo_reads)
  then show ?thesis by (simp add: should_auto_migrate_def)
qed

lemma acquire_lock_keeps: "(\<And>t. keeps D (try_acquire_run_lock (\<lambda>_. ev_utc_text env t) (sro_lock_owner options)
    (t div 1000000000) (sro_stale_lock_after options))) \<Longrightarrow> keeps (db_ok D) (acquire_lock env options)"
  unfolding acquire_lock_def by (intro keeps_bindM keeps_db_world keeps_db_repo)

lemma run_locked_wf: "keeps (db_ok db_wf) (run_locked env config options guard)"
proof -
  have "keeps (db_ok db_wf) (conclude_run env execution)" for execution
    by (rule keeps_db_ok) (rule wf_world.conclude_run_keeps)
  moreover have "keeps (db_ok db_wf) (execute_run env config n force)" for n force
    by (rule keeps_db_ok) (rule wf_run)
  ultimately show ?thesis
    unfolding run_locked_def
    by (auto intro!: keeps_seqM keeps_bindM keeps_catchM keeps_db_repo_at keeps_db_repo keeps_db_report
        repo_wf split: sum.split)
qed

text \<open>
  A run keeps the state database well formed, with one row per key and run and operation ids
  that grow, whatever the remote, the file system, the scan and the other thread do, whichever
  statement fails and wherever the run stops; the migration it may start first has to keep it too.
\<close>

theorem run_once_keeps_db_wf:
  assumes "db_wf (st_db s)" and "\<And>o' s. db_wf (st_db s) \<Longrightarrow> db_wf (st_db (snd (migrate o' s)))"
  shows "db_wf (st_db (snd (run_once env config migrate options s)))"
proof -
  have "keeps (db_ok db_wf) (migrate o')" for o'
    using assms(2) by (simp add: keeps_def db_ok_def)
  then have "keeps (db_ok db_wf) (run_once env config migrate options)"
    unfolding run_once_def
    by (auto intro!: keeps_bindM keeps_catchM should_auto_migrate_keeps acquire_lock_keeps run_locked_wf
        repo_wf split: sum.split option.split)
  then show ?thesis using assms(1) by (simp add: keeps_def db_ok_def)
qed

section \<open>Taking the lock\<close>

text \<open>An environment whose database never fails.\<close>

definition db_sound :: "'w sync_env \<Rightarrow> bool" where
  "db_sound env = (\<forall>w. fst (ev_db_fault env w) = None)"

lemma repo_sound:
  assumes "db_sound env"
  obtains w where "repo env f s = (map_err SyncState (fst (f (st_db s))), s\<lparr>st_world := w, st_db := snd (f (st_db s))\<rparr>)"
proof -
  obtain w where "ev_db_fault env (st_world s) = (None, w)"
    using assms unfolding db_sound_def by (metis prod.collapse)
  then show ?thesis
    by (intro that [of w])
      (simp add: repo_def errM_def repo_call_def bindM_def world_read_def db_run_def split: prod.split)
qed

lemma finish_run_existing:
  assumes "db_wf d" and "i \<in> set (map rr_id (db_sync_runs d))"
  shows "fst (finish_run now i status summary d) = Inr ()"
proof -
  have "length (filter (\<lambda>r. rr_id r = i) (db_sync_runs d)) =
      (case tbl_find rr_id i (db_sync_runs d) of None \<Rightarrow> 0 | Some r \<Rightarrow> 1)"
    by (rule keyed_count_id) (use assms(1) in \<open>simp add: db_wf_def ids_ok_def\<close>)
  moreover have "tbl_find rr_id i (db_sync_runs d) \<noteq> None"
    using assms(2) by (auto simp: tbl_find_None_iff)
  ultimately show ?thesis
    by (auto simp: finish_run_def tbl_update_def ensure_updated_def)
qed

lemma repo_at_sound:
  assumes "db_sound env" and "\<And>now. \<exists>d. f now (st_db s) = (Inr (g now), d)"
  obtains now s1 where "repo_at env f s = (Inr (g now), s1)" "f now (st_db s) = (Inr (g now), st_db s1)"
    "st_report s1 = st_report s"
proof -
  obtain t w where t: "ev_now env (st_world s) = (t, w)" by fastforce
  let ?now = "ev_utc_text env t"
  obtain d where d: "f ?now (st_db s) = (Inr (g ?now), d)" using assms(2) by blast
  obtain w' where "repo env (f ?now) (s\<lparr>st_world := w\<rparr>) = (Inr (g ?now), s\<lparr>st_world := w', st_db := d\<rparr>)"
    by (rule repo_sound [OF assms(1), of "f ?now" "s\<lparr>st_world := w\<rparr>"]) (use d in \<open>auto simp: map_err_def\<close>)
  then have "repo_at env f s = (Inr (g ?now), s\<lparr>st_world := w', st_db := d\<rparr>)"
    using t by (simp add: repo_at_def repo_def repo_at_call_def errM_def bindM_def world_read_def)
  with d show ?thesis by (intro that [of ?now "s\<lparr>st_world := w', st_db := d\<rparr>"]) simp_all
qed

lemma conclude_run_returns: "\<exists>s'. conclude_run env execution s = (Inr (), s')"
  by (simp add: conclude_run_def modify_report_def bindM_def is_cancelled_def world_read_def split: sum.split prod.split)

lemma run_locked_returns:
  assumes wf: "db_wf (st_db s)" and sound: "db_sound env"
  shows "\<exists>report s'. run_locked env config options guard s = (Inr report, s')"
proof -
  let ?id = "db_runs_seq (st_db s) + 1"
  obtain now1 s1 where s1: "repo_at env repair_interrupted_runs s = (Inr (), s1)"
      "repair_interrupted_runs now1 (st_db s) = (Inr (), st_db s1)"
    by (rule repo_at_sound [OF sound, of repair_interrupted_runs s "\<lambda>_. ()"]) (simp add: repair_interrupted_runs_def repo_modify_def)
  have wf1: "db_wf (st_db s1)" by (rule keepsD [OF repair_interrupted_runs_wf wf s1(2)])
  have "st_db s1 = snd (repair_interrupted_runs now1 (st_db s))" using s1(2) by simp
  then have seq: "db_runs_seq (st_db s1) = db_runs_seq (st_db s)"
    by (simp add: repair_interrupted_runs_def repo_modify_def)
  obtain now2 s2 where s2: "repo_at env (\<lambda>now. begin_run now (sro_trigger options)) s1 = (Inr ?id, s2)"
      "begin_run now2 (sro_trigger options) (st_db s1) = (Inr ?id, st_db s2)"
    by (rule repo_at_sound [OF sound, of "\<lambda>now. begin_run now (sro_trigger options)" s1 "\<lambda>_. ?id"])
      (simp add: begin_run_def Let_def seq)
  have wf2: "db_wf (st_db s2)" by (rule keepsD [OF begin_run_wf wf1 s2(2)])
  have "st_db s2 = snd (begin_run now2 (sro_trigger options) (st_db s1))" using s2(2) by simp
  then have in2: "?id \<in> set (map rr_id (db_sync_runs (st_db s2)))"
    using seq by (simp add: begin_run_def Let_def)
  let ?s3 = "s2\<lparr>st_report := new_report ?id\<rparr>"
  let ?force = "sro_force_remote_rescan options \<or> sy_force_remote_rescan (cf_sync config)"
  obtain execution s4 where s4: "execute_run env config ?id ?force ?s3 = (execution, s4)" by fastforce
  obtain s5 where s5: "conclude_run env execution s4 = (Inr (), s5)"
    using conclude_run_returns by blast
  let ?I = "\<lambda>s. engine_ok (\<lambda>_. True) db_wf ?id s \<and> engine_ok (\<lambda>_. True) (\<lambda>d. frame d = frame (st_db s2)) ?id s"
  have "?I ?s3" using wf2 by (simp add: engine_ok_def new_report_def)
  then have "?I s4" using keepsD [OF wf_run _ s4] keepsD [OF framed_run _ s4] by blast
  then have I5: "?I s5"
    using keepsD [OF wf_world.conclude_run_keeps _ s5] keepsD [OF any_world.conclude_run_keeps _ s5] by blast
  then have "?id \<in> set (map rr_id (db_sync_runs (st_db s5)))"
    using in2 by (simp add: engine_ok_def frame_def)
  then have finish: "\<exists>d. finish_run now ?id st su (st_db s5) = (Inr (), d)" for now st su
    using finish_run_existing [of "st_db s5"] I5 by (metis engine_ok_def prod.collapse)
  obtain s6 where s6: "repo_at env (\<lambda>now. finish_run now ?id (sp_status (st_report s5)) (sp_summary (st_report s5))) s5 = (Inr (), s6)"
    by (rule repo_at_sound [OF sound, of "\<lambda>now. finish_run now ?id (sp_status (st_report s5)) (sp_summary (st_report s5))" s5 "\<lambda>_. ()"])
      (use finish in auto)
  obtain b d where "release_run_lock guard (st_db s6) = (Inr b, d)"
    by (simp add: release_run_lock_def tbl_delete_def)
  then obtain s7 where "repo env (release_run_lock guard) s6 = (Inr b, s7)"
    by (rule_tac repo_sound [OF sound, of "release_run_lock guard" s6]) (auto simp: map_err_def)
  then have "run_locked env config options guard s = (Inr (st_report s5), s7)"
    unfolding run_locked_def bindM_Inr seqM_Inr catchM_Inr case_throw_Inr
    using s1 s2 s4 s5 s6 by (fastforce simp: modify_report_def get_report_def ret_def)
  then show ?thesis by blast
qed

text \<open>
  C4. With a database whose statements do not fail, a run that holds the lock always comes back
  with a report, whatever the remote, the scan and the local files do, and it has recorded it: the
  row of the run holds the final status and the summary of the report and a finish time, and the run
  lock is released.
\<close>

theorem run_locked_records_and_releases:
  assumes "db_wf (st_db s)" and "db_sound env"
  shows "\<exists>report s'. run_locked env config options guard s = (Inr report, s') \<and>
    (case run_with_id (sp_run_id report) (st_db s') of
       None \<Rightarrow> False
     | Some r \<Rightarrow> rr_status r = sp_status report \<and> rr_summary r = sp_summary report \<and>
         rr_finished_at_utc r \<noteq> None) \<and>
     sp_status report \<noteq> RunRunning \<and>
     filter (\<lambda>r. lw_name r = lg_name guard \<and> lw_owner r = lg_owner guard) (db_state_locks (st_db s')) = []"
proof -
  obtain report s' where run: "run_locked env config options guard s = (Inr report, s')"
    using run_locked_returns [OF assms] by blast
  show ?thesis using run_locked_records [OF run] run by blast
qed

lemma try_acquire_refused:
  assumes "locks_ok d" and "\<not> acquirable now stale_after d"
  shows "try_acquire_run_lock utc_text owner now stale_after d = (Inr None, d)"
proof -
  obtain r where r: "run_lock_row d = Some r" "\<not> lw_heartbeat_unix_seconds r < now - stale_after"
    using assms(2) by (auto simp: acquirable_def split: option.splits)
  have "x = r" if "x \<in> set (db_state_locks d)" "lw_name x = RUN_LOCK_NAME" for x
    using that r(1) run_lock_row_iff [OF assms(1), of x] by simp
  then have none: "\<not> (lw_name x = RUN_LOCK_NAME \<and> lw_heartbeat_unix_seconds x < now - stale_after)"
    if "x \<in> set (db_state_locks d)" for x
    using that r(2) by blast
  then have "filter (\<lambda>x. lw_name x = RUN_LOCK_NAME \<and> lw_heartbeat_unix_seconds x < now - stale_after)
      (db_state_locks d) = []"
    by (simp add: filter_empty_conv)
  moreover have "map (\<lambda>x. if lw_name x = RUN_LOCK_NAME \<and> lw_heartbeat_unix_seconds x < now - stale_after
      then f x else x) (db_state_locks d) = db_state_locks d" for f
    by (rule map_idI) (use none in auto)
  ultimately show ?thesis
    unfolding try_acquire_taken [OF r(1)] by (simp add: tbl_update_def)
qed

lemma no_auto_migration:
  assumes "db_sound env" and "list_all (\<lambda>root. has_snapshot_for_root (rc_id root) (st_db s) = (Inr True, st_db s)) roots"
  shows "\<exists>w. should_auto_migrate_roots env roots s = (Inr False, s\<lparr>st_world := w\<rparr>)"
  using assms(2)
proof (induction roots arbitrary: s)
  case Nil
  show ?case by (intro exI [of _ "st_world s"]) (simp add: ret_def)
next
  case (Cons root roots)
  obtain fs w where fs: "ev_fs env (st_world s) = (fs, w)" by fastforce
  let ?s = "s\<lparr>st_world := w\<rparr>"
  obtain w' where "repo env (has_snapshot_for_root (rc_id root)) ?s = (Inr True, ?s\<lparr>st_world := w'\<rparr>)"
    using Cons.prems by (rule_tac repo_sound [OF assms(1), of "has_snapshot_for_root (rc_id root)" ?s]) (auto simp: map_err_def)
  then show ?case
    using Cons.IH [of ?s] Cons.IH [of "s\<lparr>st_world := w'\<rparr>"] Cons.prems
    by (simp add: bindM_def world_read_def fs)
qed

text \<open>
  While another owner holds a lock whose heartbeat is not stale, a run that starts is refused
  with \<open>AlreadyRunning\<close> and writes nothing to the database, every enabled root having a snapshot. The
  heartbeat is compared with the clock of the environment, whatever that reads.
\<close>

theorem run_once_already_running:
  assumes "ensure_valid_config (ev_gitignore env) config = Inr ()" and "db_sound env" and "locks_ok (st_db s)"
    and "list_all (\<lambda>root. has_snapshot_for_root (rc_id root) (st_db s) = (Inr True, st_db s))
      (filter rc_enabled (cf_roots config))"
    and "\<And>w. \<not> acquirable (fst (ev_now env w) div 1000000000) (sro_stale_lock_after options) (st_db s)"
  shows "\<exists>w. run_once env config migrate options s = (Inl AlreadyRunning, s\<lparr>st_world := w\<rparr>)"
proof -
  obtain w where auto: "(if sro_trigger options = TrMigration then ret False else should_auto_migrate env config) s =
      (Inr False, s\<lparr>st_world := w\<rparr>)"
    using no_auto_migration [OF assms(2,4)]
    by (cases "sro_trigger options = TrMigration") (auto simp: should_auto_migrate_def ret_def intro: that [of "st_world s"])
  obtain now w1 where now: "ev_now env w = (now, w1)" by fastforce
  let ?attempt = "try_acquire_run_lock (\<lambda>_. ev_utc_text env now) (sro_lock_owner options) (now div 1000000000)
      (sro_stale_lock_after options)"
  have "?attempt (st_db s) = (Inr None, st_db s)"
    using try_acquire_refused [OF assms(3)] assms(5) [of w] now by simp
  then obtain w2 where "repo env ?attempt (s\<lparr>st_world := w1\<rparr>) = (Inr None, s\<lparr>st_world := w2\<rparr>)"
    by (rule_tac repo_sound [OF assms(2), of ?attempt "s\<lparr>st_world := w1\<rparr>"]) (auto simp: map_err_def)
  then show ?thesis
    using auto assms(1) now
    by (auto simp: run_once_def bindM_def acquire_lock_def world_read_def throw_def)
qed

text \<open>
  Until it is released the lock is the one taken: no step of a run touches the lock table, so
  no other run can have taken it over unnoticed, and the heartbeat is never refreshed.
\<close>

theorem execute_run_keeps_lock_rows:
  "db_state_locks (st_db (snd (execute_run env config run_id force s))) = db_state_locks (st_db s)"
  using framed_run [of "frame (st_db s)" "sp_run_id (st_report s)" env config run_id force]
  by (auto simp: keeps_def engine_ok_def frame_def)

text \<open>
  The lock outlives a run that cannot start: when the statement that repairs interrupted runs
  fails, \<open>run_once\<close> returns the error and the lock it has taken stays in the database, where it
  refuses every other run until it is stale.
\<close>

theorem failed_start_keeps_lock:
  assumes "repo_at env repair_interrupted_runs s = (Inl e, s1)"
  shows "run_locked env config options guard s = (Inl e, s1) \<and>
    db_state_locks (st_db s1) = db_state_locks (st_db s)"
proof
  show "run_locked env config options guard s = (Inl e, s1)"
    using assms by (simp add: run_locked_def seqM_def bindM_def)
  have "keeps (db_ok (\<lambda>d. db_state_locks d = db_state_locks (st_db s))) (repo_at env repair_interrupted_runs)"
    by (intro keeps_db_repo_at) (simp add: keeps_def repair_interrupted_runs_def repo_modify_def)
  from keepsD [OF this _ assms] show "db_state_locks (st_db s1) = db_state_locks (st_db s)"
    by (simp add: db_ok_def)
qed

section \<open>Examples\<close>

text \<open>A world that counts the statements, a remote that answers but cannot list, and no local tree.\<close>

definition mute_client :: "nat disk_client" where
  "mute_client =
     \<lparr>dc_disk_info = throw (error_critical ''no quota''),
      dc_metadata = (\<lambda>p. ret (resource_directory p)),
      dc_list_recursive_with_options = (\<lambda>p ps. throw (error_critical ''no listing'')),
      dc_create_directory = (\<lambda>p. ret ()), dc_upload_source = (\<lambda>p src ow. ret ()),
      dc_download = (\<lambda>p. ret []), dc_move_resource = (\<lambda>p q ow. ret ()),
      dc_copy_resource = (\<lambda>p q ow. ret ()), dc_delete_permanently = (\<lambda>p. ret ()),
      dc_poll_operation = (\<lambda>href. ret OsSuccess)\<rparr>"

definition quiet_env :: "nat sync_env" where
  "quiet_env =
     \<lparr>ev_client = mute_client, ev_now = (\<lambda>w. (7000000000, w)), ev_utc_text = (\<lambda>t. show_int t),
      ev_parse_rfc3339 = (\<lambda>_. None), ev_is_cancelled = (\<lambda>w. (False, w)),
      ev_fs = (\<lambda>w. (\<lparr>fv_is_dir = (\<lambda>_. False), fv_exists = (\<lambda>_. False), fv_metadata = (\<lambda>_. None)\<rparr>, w)),
      ev_remove_file = (\<lambda>p w. (Removed, w)),
      ev_scan = (\<lambda>options root previous. ret (scan_report_new (sn_id root))),
      ev_order = (\<lambda>n w. ([], w)), ev_ahead = (\<lambda>w. (0, w)), ev_db_fault = (\<lambda>w. (None, w + 1)),
      ev_gitignore = permissive_gitignore\<rparr>"

definition idle_report :: SyncRunReport where
  "idle_report = new_report 0"

definition start_state :: "db \<Rightarrow> nat sync_state" where
  "start_state d = \<lparr>st_world = 0, st_db = d, st_report = idle_report\<rparr>"

definition cli_options :: SyncRunOptions where
  "cli_options = sync_run_options_default ''0''"

definition cli_guard :: RunLockGuard where
  "cli_guard = lock_guard ''yds-sync-0'' ''t''"

definition work_config :: AppConfig where
  "work_config = default_config ''Work'' ''Docs''"

lemma work_config_valid: "ensure_valid_config permissive_gitignore work_config = Inr ()"
proof -
  have "report_is_valid (validate_config permissive_gitignore work_config)"
    unfolding work_config_def
  proof (rule default_config_report)
    show "str_trim ''Work'' \<noteq> []" "str_trim ''Docs'' \<noteq> []" by code_simp+
  qed (simp add: permissive_gitignore_def)
  then show ?thesis by (simp add: ensure_valid_config_def)
qed

lemma quiet_client: "ev_client quiet_env = mute_client"
  by (simp add: quiet_env_def)

theorem unlisted_root_untouched_witness:
  "log_of (snd (execute_root (recording quiet_env) work_config 1 example_root_config
     (scan_options_from_config (cf_sync work_config) [] [] []) None False
     (\<lparr>rt_root_id = ''r'', rt_local_path = ''/d'', rt_canonical_remote_path = ''disk:/r'',
       rt_status = ROOT_STATUS_SUCCEEDED, rt_scanned_files = 0, rt_uploaded_files = 0,
       rt_updated_files = 0, rt_deleted_files = 0, rt_skipped_files = 0, rt_failed_files = 0,
       rt_bytes_uploaded = 0, rt_error_summary = None\<rparr>)
     (start_log (start_state empty_db)))) = []"
  by (rule unlisted_root_untouched)
    (simp_all add: unlistable_def quiet_client mute_client_def ret_def throw_def error_critical_def error_new_def
      no_snapshot_in_date_def start_state_def empty_db_def)

theorem run_once_keeps_db_wf_witness:
  "db_wf (st_db (snd (run_once quiet_env work_config (\<lambda>_. throw AlreadyRunning) cli_options
     (start_state empty_db))))"
  by (rule run_once_keeps_db_wf) (simp_all add: start_state_def empty_db_wf throw_def)

theorem run_locked_records_and_releases_witness:
  "\<exists>report s'. run_locked quiet_env work_config cli_options cli_guard (start_state empty_db) = (Inr report, s') \<and>
     sp_status report \<noteq> RunRunning"
proof -
  have "db_wf (st_db (start_state empty_db))" "db_sound quiet_env"
    by (simp_all add: start_state_def empty_db_wf db_sound_def quiet_env_def)
  from run_locked_records_and_releases [OF this, of work_config cli_options cli_guard] show ?thesis by blast
qed

text \<open>A database with a snapshot of both roots and the lock of another owner, taken at second 5.\<close>

definition seen_file :: "string \<Rightarrow> file_row" where
  "seen_file root_id =
     \<lparr>fw_record = file_state_record ((example_file ''a'')\<lparr>lf_root_id := root_id\<rparr>) 1 FsSynced None,
      fw_last_synced_at_utc = ''t''\<rparr>"

definition busy_db :: db where
  "busy_db = taken_lock_db\<lparr>db_file_state := [seen_file ''projects'', seen_file ''documents'']\<rparr>"

theorem run_once_already_running_witness:
  "fst (run_once quiet_env work_config (\<lambda>_. throw AlreadyRunning) cli_options (start_state busy_db)) =
   Inl AlreadyRunning"
proof -
  have "\<exists>w. run_once quiet_env work_config (\<lambda>_. throw AlreadyRunning) cli_options (start_state busy_db) =
      (Inl AlreadyRunning, (start_state busy_db)\<lparr>st_world := w\<rparr>)"
  proof (rule run_once_already_running)
    show "ensure_valid_config (ev_gitignore quiet_env) work_config = Inr ()"
      using work_config_valid by (simp add: quiet_env_def)
    show "db_sound quiet_env" by (simp add: db_sound_def quiet_env_def)
    show "locks_ok (st_db (start_state busy_db))"
      by (simp add: start_state_def busy_db_def taken_lock_db_def locks_ok_def tbl_keyed_def)
    show "list_all (\<lambda>root. has_snapshot_for_root (rc_id root) (st_db (start_state busy_db)) =
        (Inr True, st_db (start_state busy_db))) (filter rc_enabled (cf_roots work_config))"
      by (simp add: work_config_def default_config_def default_example_roots_def example_root_def
          has_snapshot_for_root_def repo_read_def start_state_def busy_db_def seen_file_def
          file_state_record_def example_file_def)
    show "\<not> acquirable (fst (ev_now quiet_env w) div 1000000000) (sro_stale_lock_after cli_options)
        (st_db (start_state busy_db))" for w
      by (simp add: quiet_env_def start_state_def busy_db_def taken_lock_db_def acquirable_def run_lock_row_def
          tbl_find_Cons lock_row_of_def cli_options_def sync_run_options_default_def)
  qed
  then show ?thesis by auto
qed

definition faulty_env :: "nat sync_env" where
  "faulty_env = quiet_env\<lparr>ev_db_fault := (\<lambda>w. (Some (SqliteConstraint ''disk full''), w + 1))\<rparr>"

theorem failed_start_keeps_lock_witness:
  "isl (fst (run_locked faulty_env work_config cli_options cli_guard (start_state taken_lock_db))) \<and>
   run_lock_row (st_db (snd (run_locked faulty_env work_config cli_options cli_guard (start_state taken_lock_db)))) =
     Some (lock_row_of (\<lambda>t. ''t'') ''a'' 5)"
proof -
  have "repo_at faulty_env repair_interrupted_runs (start_state taken_lock_db) =
      (Inl (SyncState (SqliteConstraint ''disk full'')), (start_state taken_lock_db)\<lparr>st_world := 1\<rparr>)"
    by (simp add: faulty_env_def quiet_env_def repo_at_def repo_at_call_def errM_def bindM_def world_read_def
        repo_call_def throw_def start_state_def map_err_def)
  from failed_start_keeps_lock [OF this, of work_config cli_options cli_guard] show ?thesis
    by (simp add: start_state_def taken_lock_db_def run_lock_row_def tbl_find_Cons lock_row_of_def)
qed

end
