(* ===== verification/Sync_Order.thy ===== *)
theory Sync_Order
  imports Sync_Props "HOL-Library.Multiset"
begin

text \<open>
  The order of the work of \<open>crates/yds-sync/src/lib.rs\<close>: directories by depth, the loops over
  pending directories and files, which their length bounds, and the inventory of a later run, read
  back from the cache.
\<close>

section \<open>Directories by depth\<close>









section \<open>The loops end\<close>

lemma batch_shorter:
  assumes "take_upload_batch pending limit th = (batch, rest)" "batch \<noteq> []"
  shows "length rest < length pending"
  using batch_loop_interleaving [OF assms(1) [unfolded take_upload_batch_def]] assms(2) length_shuffles
  by fastforce

lemma bindM_cong: "(\<And>x. g x = h x) \<Longrightarrow> bindM f g = bindM f h"
  by (metis ext)

lemma upload_batches_enough:
  assumes "length pending \<le> n" "length pending \<le> m"
  shows "upload_batches env run_id base concurrency large n pending acc =
         upload_batches env run_id base concurrency large m pending acc"
  using assms
proof (induction n arbitrary: m pending acc)
  case 0
  then show ?case by (cases m) auto
next
  case (Suc n)
  show ?case
  proof (cases m)
    case 0
    then show ?thesis using Suc.prems by simp
  next
    case (Suc m')
    obtain batch rest where batch: "take_upload_batch pending concurrency large = (batch, rest)" by fastforce
    have "batch \<noteq> [] \<Longrightarrow> length rest \<le> n \<and> length rest \<le> m'"
      using batch_shorter [OF batch] Suc.prems Suc by simp
    then have "batch \<noteq> [] \<Longrightarrow> upload_batches env run_id base concurrency large n rest acc' =
        upload_batches env run_id base concurrency large m' rest acc'" for acc'
      using Suc.IH by blast
    then show ?thesis
      using batch by (auto simp: Suc intro!: bindM_cong split: prod.split)
  qed
qed

text \<open>What \<open>fill_batch\<close> leaves pending is a tail of what was pending, and a shorter one if there was any.\<close>

lemma bindM_result: "bindM f g s = (Inr y, s') \<Longrightarrow> \<exists>x s1. f s = (Inr x, s1) \<and> g x s1 = (Inr y, s')"
  by (auto simp: bindM_def split: prod.splits sum.splits)

lemma fill_batch_shorter:
  assumes "fill_batch env run_id base k pending batch live rs s = (Inr (batch', pending', live', rs'), s')"
  shows "length pending' \<le> length pending \<and>
    (length batch < k \<and> pending \<noteq> [] \<longrightarrow> length pending' < length pending)"
  using assms
proof (induction pending arbitrary: batch live rs s)
  case (Cons d pending)
  show ?case
  proof (cases "length batch < k")
    case True
    then obtain b l r s1 where "fill_batch env run_id base k pending b l r s1 = (Inr (batch', pending', live', rs'), s')"
      using Cons.prems
      by (auto split: if_splits option.splits prod.splits simp: seqM_def dest!: bindM_result)
    from Cons.IH [OF this] show ?thesis by auto
  qed (use Cons.prems in \<open>simp add: ret_def\<close>)
qed (simp add: ret_def)

lemma bindM_cong_at: "(\<And>x s1. f s = (Inr x, s1) \<Longrightarrow> g x s1 = h x s1) \<Longrightarrow> bindM f g s = bindM f h s"
  by (auto simp: bindM_def split: prod.split sum.split)

lemma create_level_enough:
  assumes "length pending \<le> n" "length pending \<le> m" "0 < concurrency"
  shows "create_level env run_id root base concurrency n pending live rs s =
         create_level env run_id root base concurrency m pending live rs s"
  using assms(1,2)
proof (induction n arbitrary: m pending live rs s)
  case 0
  then show ?case by (cases m) auto
next
  case (Suc n)
  show ?case
  proof (cases "m = 0 \<or> pending = []")
    case True
    then show ?thesis using Suc.prems by (cases m) auto
  next
    case False
    then obtain m' where m: "m = Suc m'" by (cases m) auto
    have rest: "create_level env run_id root base concurrency n pending' live' rs' t =
        create_level env run_id root base concurrency m' pending' live' rs' t"
      if "fill_batch env run_id base concurrency pending [] live rs s1 = (Inr (batch', pending', live'', rs''), s2)"
      for s1 s2 batch' pending' live' live'' rs' rs'' t
      using fill_batch_shorter [OF that] False Suc.prems m assms(3) by (intro Suc.IH) auto
    show ?thesis
      unfolding m
      by (auto simp: False intro!: bindM_cong_at rest split: prod.split)
  qed
qed

text \<open>
  C18. The bounds of the two work loops are no bounds: given the number of pending items as fuel, a
  loop over directories or uploads does what it does with any more, so it ends because nothing is
  left, it is cancelled or it is told to stop.
\<close>

theorem work_loops_end:
  assumes "length ds \<le> n" "length us \<le> n" "0 < concurrency"
  shows "create_level env run_id root base concurrency n ds live rs s =
           create_level env run_id root base concurrency (length ds) ds live rs s \<and>
         upload_batches env run_id base concurrency large n us acc =
           upload_batches env run_id base concurrency large (length us) us acc"
  using assms by (blast intro: create_level_enough upload_batches_enough le_refl)

definition idle_summary :: RootSyncSummary where
  "idle_summary =
     \<lparr>rt_root_id = ''r'', rt_local_path = ''/d'', rt_canonical_remote_path = ''disk:/r'',
      rt_status = ROOT_STATUS_SUCCEEDED, rt_scanned_files = 0, rt_uploaded_files = 0,
      rt_updated_files = 0, rt_deleted_files = 0, rt_skipped_files = 0, rt_failed_files = 0,
      rt_bytes_uploaded = 0, rt_error_summary = None\<rparr>"

theorem work_loops_end_witness:
  "create_level quiet_env 1 example_root_config summary_default 2 3 [example_dir ''a'', example_dir ''b'']
     example_plan idle_summary (start_state empty_db) =
   create_level quiet_env 1 example_root_config summary_default 2 2 [example_dir ''a'', example_dir ''b'']
     example_plan idle_summary (start_state empty_db)"
  using work_loops_end [of "[example_dir ''a'', example_dir ''b'']" 3 "[]" 2 quiet_env 1 example_root_config
      summary_default example_plan idle_summary "start_state empty_db" 5 "(example_plan, idle_summary, 0)"]
  by (simp add: eval_nat_numeral)

section \<open>The inventory read back from the cache\<close>


















end
