(* ===== verification/Scanner.thy ===== *)
theory Scanner
  imports Sync_Env
begin

text \<open>
  \<open>crates/yds-scanner/src/lib.rs\<close>: the scan of a root. What the scan asks of the operating system is
  the record \<open>scan_env\<close>: the parallel walker of the \<open>ignore\<close> crate, which calls the handler for each
  entry in an order of its own and does not descend where the handler says so; the metadata and the
  contents of files; the digests; the backup of an SQLite database by steps. Each entry pushes at
  most one item, under a lock, so the order of the calls is the order of the pushes.
\<close>

section \<open>Errors\<close>

datatype sqlite_code = DatabaseBusy | DatabaseLocked | OtherCode

datatype sqlite_error = SqliteFailure sqlite_code string | SqliteMisuse string

fun sqlite_text :: "sqlite_error \<Rightarrow> string" where
  "sqlite_text (SqliteFailure _ text) = text"
| "sqlite_text (SqliteMisuse text) = text"

datatype ScannerError =
    ScIo local_path io_error
  | ScExclusion ExclusionError
  | ScPathMapping PathMappingError
  | ScState StateError
  | ScSqliteBackup local_path sqlite_error
  | ScSqliteBackupTimedOut local_path nat

fun ScannerError_text :: "ScannerError \<Rightarrow> string" where
  "ScannerError_text (ScIo p e) = ''I/O error at '' @ path_string p @ '': '' @ io_text e"
| "ScannerError_text (ScExclusion (InvalidRule index message)) =
     ''invalid exclude rules: invalid exclude rule at index '' @ show_nat index @ '': '' @ message"
| "ScannerError_text (ScPathMapping e) = ''path mapping error: '' @ format_path_error e"
| "ScannerError_text (ScState e) = ''state error: '' @ StateError_text e"
| "ScannerError_text (ScSqliteBackup p e) = ''SQLite backup error at '' @ path_string p @ '': '' @ sqlite_text e"
| "ScannerError_text (ScSqliteBackupTimedOut p elapsed) =
     ''SQLite backup timed out at '' @ path_string p @ '' after '' @ show_nat elapsed @ ''s''"

fun is_skippable_sqlite_backup_error :: "sqlite_error \<Rightarrow> bool" where
  "is_skippable_sqlite_backup_error (SqliteFailure c _) = (c = DatabaseBusy \<or> c = DatabaseLocked)"
| "is_skippable_sqlite_backup_error (SqliteMisuse _) = False"

fun is_skippable_scan_error :: "ScannerError \<Rightarrow> bool" where
  "is_skippable_scan_error (ScIo _ e) = is_skippable_local_io_error e"
| "is_skippable_scan_error (ScSqliteBackupTimedOut _ _) = True"
| "is_skippable_scan_error (ScSqliteBackup _ e) = is_skippable_sqlite_backup_error e"
| "is_skippable_scan_error _ = False"

section \<open>Paths of an entry\<close>

definition remote_path_for_relative :: "string \<Rightarrow> string \<Rightarrow> ScannerError + string" where
  "remote_path_for_relative canonical relative =
     map_err ScPathMapping
       (sanitize_remote_path (trim_end_slash canonical @ ''/'' @ back_to_slash relative))"

definition relative_path :: "local_path \<Rightarrow> local_path \<Rightarrow> string + string" where
  "relative_path root p =
     (case path_strip_prefix root p of
        None \<Rightarrow> Inl ''prefix not found''
      | Some rest \<Rightarrow> Inr (trim_slashes (back_to_slash (path_string rest))))"

text \<open>\<open>Path::extension\<close>: what follows the last dot of the last component, if something precedes it.\<close>

definition path_extension :: "local_path \<Rightarrow> string option" where
  "path_extension p =
     (if p = [] \<or> last p = ''..'' then None
      else let parts = str_split (\<lambda>c. c = CHR ''.'') (last p)
           in if length parts < 2 \<or> str_join ''.'' (butlast parts) = [] then None else Some (last parts))"

definition is_sqlite_candidate :: "local_path \<Rightarrow> bool" where
  "is_sqlite_candidate p =
     (case path_extension p of
        None \<Rightarrow> False
      | Some ext \<Rightarrow> to_ascii_lowercase ext \<in> {''sqlite'', ''sqlite3'', ''db''})"

definition sanitize_file_name :: "string \<Rightarrow> string" where
  "sanitize_file_name v =
     (let sanitized = filter (\<lambda>ch. is_ascii_alpha ch \<or> is_ascii_digit ch \<or> ch = CHR ''-'' \<or> ch = CHR ''_'') v
      in if sanitized = [] then ''root'' else sanitized)"

section \<open>Backup of an SQLite database\<close>

text \<open>
  The loop of steps against two deadlines, in nanoseconds since it began. The clock is monotone and
  a sleep lasts at least what it is asked for, so the times of an iteration are durations: of the
  step, from there to the checks, and what the sleep takes beyond the pause.
\<close>

record backup_tick =
  bk_step :: "sqlite_error + bool"
    \<comment> \<open>whether the backup is done\<close>
  bk_remaining :: int
  bk_step_time :: nat
  bk_check_time :: nat
  bk_oversleep :: nat

definition SQLITE_BACKUP_PAUSE :: nat where "SQLITE_BACKUP_PAUSE = 5000000"

definition SQLITE_BACKUP_NO_PROGRESS_TIMEOUT :: nat where
  "SQLITE_BACKUP_NO_PROGRESS_TIMEOUT = 30 * 1000000000"

definition SQLITE_BACKUP_TOTAL_TIMEOUT :: nat where
  "SQLITE_BACKUP_TOTAL_TIMEOUT = 120 * 1000000000"

function run_sqlite_backup ::
  "(nat \<Rightarrow> backup_tick) \<Rightarrow> local_path \<Rightarrow> nat \<Rightarrow> nat \<Rightarrow> nat \<Rightarrow> nat \<Rightarrow> nat \<Rightarrow> int option \<Rightarrow> ScannerError + unit" where
  "run_sqlite_backup ticks source no_progress limit i now last_progress last_remaining =
     (case bk_step (ticks i) of
        Inl e \<Rightarrow> Inl (ScSqliteBackup source e)
      | Inr finished \<Rightarrow>
          let stepped = now + bk_step_time (ticks i);
              progressed = last_remaining \<noteq> Some (bk_remaining (ticks i));
              last_progress = (if progressed then stepped else last_progress);
              elapsed = stepped + bk_check_time (ticks i)
          in if finished then Inr ()
             else if limit \<le> elapsed \<or> no_progress \<le> elapsed - last_progress
             then Inl (ScSqliteBackupTimedOut source (elapsed div 1000000000))
             else run_sqlite_backup ticks source no_progress limit (Suc i)
                    (elapsed + SQLITE_BACKUP_PAUSE + bk_oversleep (ticks i))
                    last_progress (Some (bk_remaining (ticks i))))"
  by pat_completeness auto
termination
  by (relation "measure (\<lambda>(ticks, source, no_progress, limit, i, now, lp, lr). limit - now)")
    (auto simp: SQLITE_BACKUP_PAUSE_def)

declare run_sqlite_backup.simps [simp del]

text \<open>The answers to one backup; what an incomplete one leaves is removed, unless it never began.\<close>

record backup_answers =
  ba_create_dir :: "io_error option"
  ba_uuid :: string
  ba_open_source :: "sqlite_error option"
  ba_open_destination :: "sqlite_error option"
  ba_new :: "sqlite_error option"
  ba_ticks :: "nat \<Rightarrow> backup_tick"

definition backup_staging_path :: "local_path \<Rightarrow> string \<Rightarrow> string \<Rightarrow> local_path" where
  "backup_staging_path staging_dir root_id uuid =
     staging_dir @ [''yds-sqlite-backup-'' @ sanitize_file_name root_id @ ''-'' @ uuid @ ''.sqlite'']"

definition cleanup_incomplete_sqlite_backup :: "local_path \<Rightarrow> local_path list" where
  "cleanup_incomplete_sqlite_backup staging_path =
     [staging_path, butlast staging_path @ [last staging_path @ ''-journal'']]"

text \<open>What a backup does to the staging directory. SQLite makes the file when the first page is written.\<close>

datatype staging_effect = Staged local_path | Unstaged local_path

definition backup_sqlite_to_staging_with_timeouts ::
  "backup_answers \<Rightarrow> local_path \<Rightarrow> local_path \<Rightarrow> string \<Rightarrow> nat \<Rightarrow> nat \<Rightarrow> (ScannerError + local_path) \<times> staging_effect list" where
  "backup_sqlite_to_staging_with_timeouts ba source staging_dir root_id no_progress limit =
     (let staging_path = backup_staging_path staging_dir root_id (ba_uuid ba)
      in case ba_create_dir ba of
           Some e \<Rightarrow> (Inl (ScIo staging_dir e), [])
         | None \<Rightarrow>
             (case ba_open_source ba of
                Some e \<Rightarrow> (Inl (ScSqliteBackup source e), [])
              | None \<Rightarrow>
                  (case ba_open_destination ba of
                     Some e \<Rightarrow> (Inl (ScSqliteBackup staging_path e), [])
                   | None \<Rightarrow>
                       (case ba_new ba of
                          Some e \<Rightarrow> (Inl (ScSqliteBackup source e), [])
                        | None \<Rightarrow>
                            (case run_sqlite_backup (ba_ticks ba) source no_progress limit 0 0 0 None of
                               Inl e \<Rightarrow> (Inl e, Staged staging_path # map Unstaged (cleanup_incomplete_sqlite_backup staging_path))
                             | Inr _ \<Rightarrow> (Inr staging_path, [Staged staging_path]))))))"

definition backup_sqlite_to_staging ::
  "backup_answers \<Rightarrow> local_path \<Rightarrow> local_path \<Rightarrow> string \<Rightarrow> (ScannerError + local_path) \<times> staging_effect list" where
  "backup_sqlite_to_staging ba source staging_dir root_id =
     backup_sqlite_to_staging_with_timeouts ba source staging_dir root_id
       SQLITE_BACKUP_NO_PROGRESS_TIMEOUT SQLITE_BACKUP_TOTAL_TIMEOUT"

section \<open>Fingerprints\<close>

definition system_time_to_ns :: "int \<Rightarrow> i64 option" where
  "system_time_to_ns t = (if 0 \<le> t \<and> t < 2 ^ 63 then Some (of_int t) else None)"

definition metadata_fingerprint_value :: "u64 \<Rightarrow> i64 option \<Rightarrow> string" where
  "metadata_fingerprint_value size_bytes mtime_ns =
     ''size='' @ show_nat (unat size_bytes) @ '';mtime_ns='' @
     show_int (sint (case mtime_ns of None \<Rightarrow> 0 | Some ns \<Rightarrow> ns))"

text \<open>Times of the metadata are nanoseconds since the epoch, None where the system has none.\<close>

record file_metadata =
  fm_len :: u64
  fm_modified :: "int option"
  fm_created :: "int option"

datatype walk_kind = WalkDir | WalkFile | WalkOther

datatype walk_item = WalkEntry local_path walk_kind | WalkError string

datatype WalkState = WalkContinue | WalkSkip

record scan_env =
  se_metadata :: "local_path \<Rightarrow> io_error + file_metadata"
  se_metadata_again :: "local_path \<Rightarrow> io_error + file_metadata"
    \<comment> \<open>the second reading, made after an error\<close>
  se_open :: "local_path \<Rightarrow> io_error + (io_error + bytes) list"
    \<comment> \<open>the results of the reads of the file\<close>
  se_sha256 :: "bytes \<Rightarrow> string"
  se_md5 :: "bytes \<Rightarrow> string"
  se_backup :: "local_path \<Rightarrow> backup_answers"
  se_walk :: "local_path \<Rightarrow> (walk_item \<Rightarrow> WalkState) \<Rightarrow> walk_item list"
    \<comment> \<open>the items in the order they are handled\<close>
  se_gitignore :: gitignore_api

text \<open>The read loop: up to the first empty read, which also the end of the answers stands for.\<close>

fun read_chunks :: "local_path \<Rightarrow> bytes \<Rightarrow> (io_error + bytes) list \<Rightarrow> ScannerError + bytes" where
  "read_chunks p acc [] = Inr acc"
| "read_chunks p acc (Inl e # reads) = Inl (ScIo p e)"
| "read_chunks p acc (Inr chunk # reads) = (if chunk = [] then Inr acc else read_chunks p (acc @ chunk) reads)"

definition sha256_and_md5_file :: "scan_env \<Rightarrow> local_path \<Rightarrow> ScannerError + string \<times> string" where
  "sha256_and_md5_file se p =
     (case se_open se p of
        Inl e \<Rightarrow> Inl (ScIo p e)
      | Inr reads \<Rightarrow>
          (case read_chunks p [] reads of
             Inl e \<Rightarrow> Inl e
           | Inr content \<Rightarrow> Inr (se_sha256 se content, se_md5 se content)))"

definition fingerprint_path ::
  "scan_env \<Rightarrow> ScanOptions \<Rightarrow> local_path \<Rightarrow> u64 \<Rightarrow> i64 option \<Rightarrow> ScannerError + Fingerprint" where
  "fingerprint_path se options p source_len source_mtime_ns =
     (if source_len \<le> so_full_hash_max_bytes options
      then (case sha256_and_md5_file se p of
              Inl e \<Rightarrow> Inl e
            | Inr (sha256, md5) \<Rightarrow>
                Inr \<lparr>fp_kind = FpSha256, fp_value = sha256, fp_full_sha256 = Some sha256,
                     fp_local_md5 = Some md5, fp_reused_from_state = False\<rparr>)
      else Inr \<lparr>fp_kind = FpMetadata, fp_value = metadata_fingerprint_value source_len source_mtime_ns,
                fp_full_sha256 = None, fp_local_md5 = None, fp_reused_from_state = False\<rparr>)"

section \<open>Entries\<close>

text \<open>The map of the previous states by relative path: the last record of a path is the one kept.\<close>

definition previous_state_get :: "FileStateRecord list \<Rightarrow> string \<Rightarrow> FileStateRecord option" where
  "previous_state_get previous relative = List.find (\<lambda>r. fr_relative_path r = relative) (rev previous)"

definition can_reuse :: "FileStateRecord \<Rightarrow> u64 \<Rightarrow> i64 option \<Rightarrow> string \<Rightarrow> bool" where
  "can_reuse previous source_len mtime_ns normalized =
     (fr_size_bytes previous = source_len \<and> fr_mtime_ns previous = mtime_ns \<and>
      fr_normalized_remote_path previous = normalized)"

definition reused_fingerprint :: "FileStateRecord \<Rightarrow> Fingerprint" where
  "reused_fingerprint previous =
     \<lparr>fp_kind = FingerprintKind_from_state (fr_fingerprint_kind previous),
      fp_value = (case fr_fingerprint_value previous of None \<Rightarrow> [] | Some v \<Rightarrow> v),
      fp_full_sha256 = fr_full_sha256 previous, fp_local_md5 = fr_remote_md5 previous,
      fp_reused_from_state = True\<rparr>"

record scan_context =
  cx_options :: ScanOptions
  cx_root :: ScanRoot
  cx_pattern_matcher :: ExclusionMatcher
  cx_absolute_matcher :: ExclusionMatcher
  cx_previous_states :: "FileStateRecord list"

datatype FileEntryResult = FileEntry LocalFileEntry | FileSkipped SkippedScanItem

definition option_bind :: "'a option \<Rightarrow> ('a \<Rightarrow> 'b option) \<Rightarrow> 'b option" where
  "option_bind v f = (case v of None \<Rightarrow> None | Some x \<Rightarrow> f x)"

definition too_large_item :: "scan_context \<Rightarrow> local_path \<Rightarrow> string \<Rightarrow> string \<Rightarrow> u64 \<Rightarrow> SkippedScanItem" where
  "too_large_item cx p relative remote source_len =
     \<lparr>ss_root_id = sn_id (cx_root cx), ss_local_path = p, ss_relative_path = relative,
      ss_remote_path = Some remote, ss_reason_code = ''file_too_large'',
      ss_reason_details = Some (''file size '' @ show_nat (unat source_len) @
        '' exceeds configured max '' @ show_nat (unat (so_max_file_size_bytes (cx_options cx)))),
      ss_size_bytes = Some source_len\<rparr>"

definition local_file ::
  "scan_context \<Rightarrow> local_path \<Rightarrow> string \<Rightarrow> string \<Rightarrow> file_metadata \<Rightarrow> local_path option \<Rightarrow> Fingerprint \<Rightarrow> LocalFileEntry" where
  "local_file cx p relative remote metadata staging fingerprint =
     \<lparr>lf_root_id = sn_id (cx_root cx), lf_local_path = p, lf_relative_path = relative,
      lf_remote_path = remote, lf_normalized_remote_path = to_lowercase remote,
      lf_upload_source = (case staging of None \<Rightarrow> p | Some s \<Rightarrow> s), lf_size_bytes = fm_len metadata,
      lf_mtime_ns = option_bind (fm_modified metadata) system_time_to_ns,
      lf_ctime_ns = option_bind (fm_created metadata) system_time_to_ns,
      lf_fingerprint = fingerprint, lf_sqlite_backup_staging_path = staging\<rparr>"

text \<open>The source of a new fingerprint: the staged copy of an SQLite database, else the file itself.\<close>

definition staged_source ::
  "scan_env \<Rightarrow> scan_context \<Rightarrow> local_path \<Rightarrow> (ScannerError + local_path option) \<times> staging_effect list" where
  "staged_source se cx p =
     (if is_sqlite_candidate p
      then (case backup_sqlite_to_staging (se_backup se p) p (so_staging_dir (cx_options cx)) (sn_id (cx_root cx)) of
              (Inl e, effects) \<Rightarrow> (Inl e, effects)
            | (Inr staging_path, effects) \<Rightarrow> (Inr (Some staging_path), effects))
      else (Inr None, []))"

definition new_file_entry ::
  "scan_env \<Rightarrow> scan_context \<Rightarrow> local_path \<Rightarrow> string \<Rightarrow> string \<Rightarrow> file_metadata \<Rightarrow>
   (ScannerError + FileEntryResult) \<times> staging_effect list" where
  "new_file_entry se cx p relative remote metadata =
     (case staged_source se cx p of
        (Inl e, effects) \<Rightarrow> (Inl e, effects)
      | (Inr staging, effects) \<Rightarrow>
          (case fingerprint_path se (cx_options cx) (case staging of None \<Rightarrow> p | Some s \<Rightarrow> s) (fm_len metadata)
                  (option_bind (fm_modified metadata) system_time_to_ns) of
             Inl e \<Rightarrow> (Inl e, effects)
           | Inr fingerprint \<Rightarrow>
               (Inr (FileEntry (local_file cx p relative remote metadata staging fingerprint)), effects)))"

definition file_entry ::
  "scan_env \<Rightarrow> scan_context \<Rightarrow> local_path \<Rightarrow> string \<Rightarrow> (ScannerError + FileEntryResult) \<times> staging_effect list" where
  "file_entry se cx p relative =
     (case se_metadata se p of
        Inl e \<Rightarrow> (Inl (ScIo p e), [])
      | Inr metadata \<Rightarrow>
          (case remote_path_for_relative (sn_canonical_remote_path (cx_root cx)) relative of
             Inl e \<Rightarrow> (Inl e, [])
           | Inr remote \<Rightarrow>
               let source_len = fm_len metadata;
                   mtime_ns = option_bind (fm_modified metadata) system_time_to_ns
               in if so_max_file_size_bytes (cx_options cx) < source_len
                  then (Inr (FileSkipped (too_large_item cx p relative remote source_len)), [])
                  else
                    case previous_state_get (cx_previous_states cx) relative of
                      Some previous \<Rightarrow>
                        if can_reuse previous source_len mtime_ns (to_lowercase remote)
                        then (Inr (FileEntry (local_file cx p relative remote metadata None (reused_fingerprint previous))), [])
                        else new_file_entry se cx p relative remote metadata
                    | None \<Rightarrow> new_file_entry se cx p relative remote metadata))"

definition directory_entry :: "scan_context \<Rightarrow> local_path \<Rightarrow> string \<Rightarrow> ScannerError + LocalDirectoryEntry" where
  "directory_entry cx p relative =
     (case remote_path_for_relative (sn_canonical_remote_path (cx_root cx)) relative of
        Inl e \<Rightarrow> Inl e
      | Inr remote \<Rightarrow>
          Inr \<lparr>ld_root_id = sn_id (cx_root cx), ld_local_path = p, ld_relative_path = relative,
               ld_remote_path = remote, ld_normalized_remote_path = to_lowercase remote\<rparr>)"

definition exclusion_decision ::
  "gitignore_api \<Rightarrow> scan_context \<Rightarrow> local_path \<Rightarrow> string \<Rightarrow> bool \<Rightarrow> ExclusionDecision option" where
  "exclusion_decision gi cx absolute_path relative is_dir =
     (let absolute = decision_for_path gi (cx_absolute_matcher cx) (path_string absolute_path) is_dir
      in if excluded absolute \<and> reason absolute = Absolute then Some absolute
         else let pattern = decision_for_path gi (cx_pattern_matcher cx) relative is_dir
              in if excluded pattern then Some pattern else None)"

section \<open>The handler of the walk\<close>

datatype scan_push =
    PushFile LocalFileEntry
  | PushDirectory LocalDirectoryEntry
  | PushSkipped SkippedScanItem
  | PushFailed FailedScanItem

fun ExclusionReason_debug :: "ExclusionReason \<Rightarrow> string" where
  "ExclusionReason_debug Absolute = ''Absolute''"
| "ExclusionReason_debug Pattern = ''Pattern''"
| "ExclusionReason_debug IncludedByNegation = ''IncludedByNegation''"
| "ExclusionReason_debug NotMatched = ''NotMatched''"

definition scan_failed_item :: "scan_context \<Rightarrow> local_path option \<Rightarrow> string \<Rightarrow> string option \<Rightarrow> string \<Rightarrow> string \<Rightarrow> FailedScanItem" where
  "scan_failed_item cx p relative remote kind message =
     \<lparr>sf_root_id = sn_id (cx_root cx), sf_local_path = p, sf_relative_path = relative,
      sf_remote_path = remote, sf_error_kind = kind, sf_error_message = message\<rparr>"

definition scan_skipped_item ::
  "scan_context \<Rightarrow> local_path \<Rightarrow> string \<Rightarrow> string option \<Rightarrow> string \<Rightarrow> string \<Rightarrow> u64 option \<Rightarrow> SkippedScanItem" where
  "scan_skipped_item cx p relative remote reason_code details size_bytes =
     \<lparr>ss_root_id = sn_id (cx_root cx), ss_local_path = p, ss_relative_path = relative,
      ss_remote_path = remote, ss_reason_code = reason_code, ss_reason_details = Some details,
      ss_size_bytes = size_bytes\<rparr>"

text \<open>A file the scan could not read: skipped when the error is one that passes, else failed.\<close>

definition file_error_push :: "scan_env \<Rightarrow> scan_context \<Rightarrow> local_path \<Rightarrow> string \<Rightarrow> ScannerError \<Rightarrow> scan_push" where
  "file_error_push se cx p relative error =
     (let remote = result_ok (remote_path_for_relative (sn_canonical_remote_path (cx_root cx)) relative)
      in if is_skippable_scan_error error
         then PushSkipped (scan_skipped_item cx p relative remote ''local_file_unavailable'' (ScannerError_text error)
                (map_option fm_len (result_ok (se_metadata_again se p))))
         else PushFailed (scan_failed_item cx (Some p) relative remote ''scan'' (ScannerError_text error)))"

definition handle_included_entry ::
  "scan_env \<Rightarrow> scan_context \<Rightarrow> local_path \<Rightarrow> walk_kind \<Rightarrow> string \<Rightarrow> WalkState \<times> scan_push option \<times> staging_effect list" where
  "handle_included_entry se cx p kind relative =
     (case kind of
        WalkDir \<Rightarrow>
          (case directory_entry cx p relative of
             Inl error \<Rightarrow> (WalkContinue, Some (PushFailed
               (scan_failed_item cx (Some p) relative None ''path_mapping'' (ScannerError_text error))), [])
           | Inr directory \<Rightarrow> (WalkContinue, Some (PushDirectory directory), []))
      | WalkFile \<Rightarrow>
          (case file_entry se cx p relative of
             (Inr (FileEntry entry), effects) \<Rightarrow> (WalkContinue, Some (PushFile entry), effects)
           | (Inr (FileSkipped item), effects) \<Rightarrow> (WalkContinue, Some (PushSkipped item), effects)
           | (Inl error, effects) \<Rightarrow> (WalkContinue, Some (file_error_push se cx p relative error), effects))
      | WalkOther \<Rightarrow> (WalkContinue, None, []))"

definition handle_walk_entry ::
  "scan_env \<Rightarrow> scan_context \<Rightarrow> local_path \<Rightarrow> walk_kind \<Rightarrow> WalkState \<times> scan_push option \<times> staging_effect list" where
  "handle_walk_entry se cx p kind =
     (if p = sn_local_path (cx_root cx) then (WalkContinue, None, [])
      else case relative_path (sn_local_path (cx_root cx)) p of
        Inl message \<Rightarrow> (WalkContinue, Some (PushFailed (scan_failed_item cx (Some p) [] None ''relative_path'' message)), [])
      | Inr relative \<Rightarrow>
          (case exclusion_decision (se_gitignore se) cx p relative (kind = WalkDir) of
             Some decision \<Rightarrow>
               if excluded decision
               then (if kind = WalkDir then WalkSkip else WalkContinue,
                     Some (PushSkipped (scan_skipped_item cx p relative
                       (result_ok (remote_path_for_relative (sn_canonical_remote_path (cx_root cx)) relative))
                       ''excluded'' (ExclusionReason_debug (reason decision)) None)), [])
               else handle_included_entry se cx p kind relative
           | None \<Rightarrow> handle_included_entry se cx p kind relative))"

fun handle_walk_item :: "scan_env \<Rightarrow> scan_context \<Rightarrow> walk_item \<Rightarrow> WalkState \<times> scan_push option \<times> staging_effect list" where
  "handle_walk_item se cx (WalkEntry p kind) = handle_walk_entry se cx p kind"
| "handle_walk_item se cx (WalkError message) =
     (WalkContinue, Some (PushFailed (scan_failed_item cx None [] None ''walk'' message)), [])"

fun push :: "scan_push option \<Rightarrow> ScanReport \<Rightarrow> ScanReport" where
  "push None r = r"
| "push (Some (PushFile f)) r = r\<lparr>sc_files := sc_files r @ [f]\<rparr>"
| "push (Some (PushDirectory d)) r = r\<lparr>sc_directories := sc_directories r @ [d]\<rparr>"
| "push (Some (PushSkipped s)) r = r\<lparr>sc_skipped := sc_skipped r @ [s]\<rparr>"
| "push (Some (PushFailed f)) r = r\<lparr>sc_failed := sc_failed r @ [f]\<rparr>"

section \<open>The scan of a root\<close>

definition scan_context_new ::
  "gitignore_api \<Rightarrow> ScanOptions \<Rightarrow> ScanRoot \<Rightarrow> FileStateRecord list \<Rightarrow> ScannerError + scan_context" where
  "scan_context_new gi options root previous =
     (case matcher_new gi (so_global_excludes options) (sn_excludes root) [] of
        Inl e \<Rightarrow> Inl (ScExclusion e)
      | Inr pattern_matcher \<Rightarrow>
          (case matcher_new gi [] [] (so_absolute_excludes options @ [path_to_stable_string (so_staging_dir options)]) of
             Inl e \<Rightarrow> Inl (ScExclusion e)
           | Inr absolute_matcher \<Rightarrow>
               Inr \<lparr>cx_options = options, cx_root = root, cx_pattern_matcher = pattern_matcher,
                    cx_absolute_matcher = absolute_matcher, cx_previous_states = previous\<rparr>))"

definition walk_items :: "scan_env \<Rightarrow> scan_context \<Rightarrow> walk_item list" where
  "walk_items se cx = se_walk se (sn_local_path (cx_root cx)) (\<lambda>item. fst (handle_walk_item se cx item))"

definition collect_report :: "scan_env \<Rightarrow> scan_context \<Rightarrow> walk_item list \<Rightarrow> ScanReport" where
  "collect_report se cx items =
     fold (\<lambda>item. push (fst (snd (handle_walk_item se cx item)))) items (scan_report_new (sn_id (cx_root cx)))"

definition scan_effects :: "scan_env \<Rightarrow> scan_context \<Rightarrow> walk_item list \<Rightarrow> staging_effect list" where
  "scan_effects se cx items = concat (map (\<lambda>item. snd (snd (handle_walk_item se cx item))) items)"

definition scan_root ::
  "scan_env \<Rightarrow> ScanOptions \<Rightarrow> ScanRoot \<Rightarrow> FileStateRecord list \<Rightarrow> ScannerError + ScanReport" where
  "scan_root se options root previous =
     (case scan_context_new (se_gitignore se) options root previous of
        Inl e \<Rightarrow> Inl e
      | Inr cx \<Rightarrow> Inr (sort_deterministically (collect_report se cx (walk_items se cx))))"

end
