(* ===== verification/Scan_Props.thy ===== *)
theory Scan_Props
  imports Scanner Delete_Plan "HOL-Library.Multiset"
begin

text \<open>
  What a scan reports: the report as a function of the items walked, the remote paths of the
  entries, and the tree that the deletion plan rests on.
\<close>

section \<open>The report as the list of pushes\<close>

definition pushed :: "scan_env \<Rightarrow> scan_context \<Rightarrow> walk_item \<Rightarrow> scan_push option" where
  "pushed se cx item = fst (snd (handle_walk_item se cx item))"

fun file_of :: "scan_push option \<Rightarrow> LocalFileEntry list" where
  "file_of (Some (PushFile f)) = [f]"
| "file_of _ = []"

fun directory_of :: "scan_push option \<Rightarrow> LocalDirectoryEntry list" where
  "directory_of (Some (PushDirectory d)) = [d]"
| "directory_of _ = []"

fun skipped_of :: "scan_push option \<Rightarrow> SkippedScanItem list" where
  "skipped_of (Some (PushSkipped s)) = [s]"
| "skipped_of _ = []"

fun failed_of :: "scan_push option \<Rightarrow> FailedScanItem list" where
  "failed_of (Some (PushFailed f)) = [f]"
| "failed_of _ = []"

lemma push_fields:
  "sc_files (push x r) = sc_files r @ file_of x"
  "sc_directories (push x r) = sc_directories r @ directory_of x"
  "sc_skipped (push x r) = sc_skipped r @ skipped_of x"
  "sc_failed (push x r) = sc_failed r @ failed_of x"
  by (cases "(x, r)" rule: push.cases; simp)+

lemma fold_push_fields:
  "sc_files (fold (\<lambda>i. push (f i)) items r) = sc_files r @ concat (map (\<lambda>i. file_of (f i)) items)"
  "sc_directories (fold (\<lambda>i. push (f i)) items r) = sc_directories r @ concat (map (\<lambda>i. directory_of (f i)) items)"
  "sc_skipped (fold (\<lambda>i. push (f i)) items r) = sc_skipped r @ concat (map (\<lambda>i. skipped_of (f i)) items)"
  "sc_failed (fold (\<lambda>i. push (f i)) items r) = sc_failed r @ concat (map (\<lambda>i. failed_of (f i)) items)"
  by (induction items arbitrary: r) (simp_all add: push_fields)

lemma collect_report_fields:
  "sc_files (collect_report se cx items) = concat (map (\<lambda>i. file_of (pushed se cx i)) items)"
  "sc_directories (collect_report se cx items) = concat (map (\<lambda>i. directory_of (pushed se cx i)) items)"
  "sc_skipped (collect_report se cx items) = concat (map (\<lambda>i. skipped_of (pushed se cx i)) items)"
  "sc_failed (collect_report se cx items) = concat (map (\<lambda>i. failed_of (pushed se cx i)) items)"
  by (simp_all add: collect_report_def fold_push_fields scan_report_new_def flip: pushed_def)

lemma push_cases:
  "f \<in> set (file_of x) \<longleftrightarrow> x = Some (PushFile f)"
  "d \<in> set (directory_of x) \<longleftrightarrow> x = Some (PushDirectory d)"
  "s \<in> set (skipped_of x) \<longleftrightarrow> x = Some (PushSkipped s)"
  "e \<in> set (failed_of x) \<longleftrightarrow> x = Some (PushFailed e)"
  by (cases x rule: file_of.cases; auto)+

lemma sorted_report_fields [simp]:
  "set (sc_files (sort_deterministically r)) = set (sc_files r)"
  "set (sc_directories (sort_deterministically r)) = set (sc_directories r)"
  "set (sc_skipped (sort_deterministically r)) = set (sc_skipped r)"
  "set (sc_failed (sort_deterministically r)) = set (sc_failed r)"
  by (simp_all add: sort_deterministically_def)

lemma scan_root_report:
  assumes "scan_root se options root previous = Inr report"
  obtains cx where "scan_context_new (se_gitignore se) options root previous = Inr cx"
    and "report = sort_deterministically (collect_report se cx (walk_items se cx))"
    and "cx_root cx = root" "cx_options cx = options" "cx_previous_states cx = previous"
  using assms by (auto simp: scan_root_def scan_context_new_def split: sum.splits)

lemma report_sets:
  "f \<in> set (sc_files (collect_report se cx items)) \<longleftrightarrow>
   (\<exists>i\<in>set items. pushed se cx i = Some (PushFile f))"
  "d \<in> set (sc_directories (collect_report se cx items)) \<longleftrightarrow>
   (\<exists>i\<in>set items. pushed se cx i = Some (PushDirectory d))"
  "s \<in> set (sc_skipped (collect_report se cx items)) \<longleftrightarrow>
   (\<exists>i\<in>set items. pushed se cx i = Some (PushSkipped s))"
  "e \<in> set (sc_failed (collect_report se cx items)) \<longleftrightarrow>
   (\<exists>i\<in>set items. pushed se cx i = Some (PushFailed e))"
  by (auto simp: collect_report_fields push_cases)

section \<open>What an entry pushes\<close>

lemma exclusion_decision_excluded: "exclusion_decision gi cx p relative is_dir = Some d \<Longrightarrow> excluded d"
  by (auto simp: exclusion_decision_def Let_def split: if_splits)

lemma pushed_entry:
  "pushed se cx (WalkEntry p kind) = fst (snd (handle_walk_entry se cx p kind))"
  by (simp add: pushed_def)

lemma file_entry_file:
  assumes "file_entry se cx p relative = (Inr (FileEntry f), effects)"
  shows "lf_local_path f = p" "lf_relative_path f = relative"
    "remote_path_for_relative (sn_canonical_remote_path (cx_root cx)) relative = Inr (lf_remote_path f)"
    "lf_size_bytes f \<le> so_max_file_size_bytes (cx_options cx)"
    "lf_normalized_remote_path f = to_lowercase (lf_remote_path f)"
  using assms
  by (auto simp: file_entry_def new_file_entry_def local_file_def Let_def split: sum.splits if_splits option.splits prod.splits)

lemma file_entry_skipped:
  assumes "file_entry se cx p relative = (Inr (FileSkipped s), effects)"
  shows "ss_local_path s = p \<and> ss_relative_path s = relative"
  using assms
  by (auto simp: file_entry_def new_file_entry_def too_large_item_def Let_def split: sum.splits if_splits option.splits prod.splits)

lemma included_file:
  assumes "fst (snd (handle_included_entry se cx p kind relative)) = Some (PushFile f)"
  obtains effects where "kind = WalkFile" "file_entry se cx p relative = (Inr (FileEntry f), effects)"
  using assms
  by (auto simp: handle_included_entry_def file_error_push_def Let_def
      split: walk_kind.splits sum.splits prod.splits FileEntryResult.splits if_splits)

lemma included_directory:
  "fst (snd (handle_included_entry se cx p kind relative)) = Some (PushDirectory d) \<longleftrightarrow>
   kind = WalkDir \<and> directory_entry cx p relative = Inr d"
  by (auto simp: handle_included_entry_def file_error_push_def Let_def
      split: walk_kind.splits sum.splits prod.splits FileEntryResult.splits if_splits)

lemma pushed_file:
  assumes "pushed se cx i = Some (PushFile f)"
  obtains p relative effects where "i = WalkEntry p WalkFile" "p \<noteq> sn_local_path (cx_root cx)"
    "relative_path (sn_local_path (cx_root cx)) p = Inr relative"
    "exclusion_decision (se_gitignore se) cx p relative False = None"
    "file_entry se cx p relative = (Inr (FileEntry f), effects)"
proof (cases i)
  case (WalkEntry p kind)
  show thesis
    using assms that unfolding WalkEntry pushed_entry handle_walk_entry_def
    by (auto split: if_splits sum.splits option.splits dest: exclusion_decision_excluded elim!: included_file)
next
  case (WalkError message)
  with assms show thesis by (simp add: pushed_def)
qed

lemma pushed_directory:
  "pushed se cx i = Some (PushDirectory d) \<longleftrightarrow>
   (\<exists>p relative. i = WalkEntry p WalkDir \<and> p \<noteq> sn_local_path (cx_root cx) \<and>
      relative_path (sn_local_path (cx_root cx)) p = Inr relative \<and>
      exclusion_decision (se_gitignore se) cx p relative True = None \<and>
      directory_entry cx p relative = Inr d)"
proof (cases i)
  case (WalkEntry p kind)
  show ?thesis
    unfolding WalkEntry pushed_entry handle_walk_entry_def
    by (auto split: if_splits sum.splits option.splits dest: exclusion_decision_excluded simp: included_directory)
next
  case (WalkError message)
  then show ?thesis by (simp add: pushed_def)
qed

section \<open>Remote paths of the entries\<close>

text \<open>
  A component of a path is never empty and holds no slash. On the mapping side a backslash counts as
  a slash and white space at the end of a path is trimmed: \<open>plain_name\<close> is a name neither touches.
\<close>

definition path_name :: "string \<Rightarrow> bool" where
  "path_name name = (name \<noteq> [] \<and> slash \<notin> set name)"

definition no_backslash :: "string \<Rightarrow> bool" where
  "no_backslash name = (backslash \<notin> set name)"

definition plain_name :: "string \<Rightarrow> bool" where
  "plain_name name = (name \<noteq> [] \<and> slash \<notin> set name \<and> backslash \<notin> set name \<and> \<not> is_ws (last name))"

lemma plain_name_parts: "plain_name n \<Longrightarrow> path_name n" "plain_name n \<Longrightarrow> no_backslash n"
  by (simp_all add: plain_name_def path_name_def no_backslash_def)

lemma path_clean: "\<forall>n\<in>set names. path_name n \<Longrightarrow> clean_segs names"
  by (auto simp: clean_segs_def path_name_def)

lemma str_join_append:
  "xs \<noteq> [] \<Longrightarrow> ys \<noteq> [] \<Longrightarrow> str_join sep (xs @ ys) = str_join sep xs @ sep @ str_join sep ys"
proof (induction xs)
  case (Cons x xs)
  then show ?case by (cases xs) (simp_all add: str_join_Cons)
qed simp

lemma set_str_join: "set (str_join sep segs) \<subseteq> set sep \<union> \<Union> (set ` set segs)"
  by (induction sep segs rule: str_join.induct) auto

lemma join_names:
  assumes "names \<noteq> []" "\<forall>n\<in>set names. path_name n" "\<forall>n\<in>set names. no_backslash n"
  shows "back_to_slash (str_join ''/'' names) = str_join ''/'' names"
    and "trim_slashes (str_join ''/'' names) = str_join ''/'' names"
proof -
  have ne: "\<forall>n\<in>set names. n \<noteq> []" using assms(2) by (auto simp: path_name_def)
  then have j: "str_join ''/'' names \<noteq> []" "last (str_join ''/'' names) = last (last names)"
      "hd (str_join ''/'' names) = hd (hd names)"
    using assms(1) join_not_Nil last_join hd_join by auto
  have "path_name (last names)" "path_name (hd names)" using assms by auto
  then have l: "last (last names) \<noteq> slash" "hd (hd names) \<noteq> slash"
    by (auto simp: path_name_def) (metis last_in_set hd_in_set)+
  then show "trim_slashes (str_join ''/'' names) = str_join ''/'' names"
    using j by (simp add: trim_slashes_ident)
  have "backslash \<notin> set (str_join ''/'' names)"
    using set_str_join [of "''/''" names] assms(3) by (fastforce simp: no_backslash_def backslash_def)
  then show "back_to_slash (str_join ''/'' names) = str_join ''/'' names"
    unfolding back_to_slash_def by (intro map_idI) auto
qed

lemma plain_names: "\<forall>n\<in>set names. plain_name n \<Longrightarrow> \<forall>n\<in>set names. path_name n"
  "\<forall>n\<in>set names. plain_name n \<Longrightarrow> \<forall>n\<in>set names. no_backslash n"
  using plain_name_parts by blast+

lemmas join_plain_names = join_names [OF _ plain_names]

lemma collect_results_append:
  "collect_results (xs @ ys) =
   (case collect_results xs of Inl e \<Rightarrow> Inl e
    | Inr a \<Rightarrow> (case collect_results ys of Inl e \<Rightarrow> Inl e | Inr b \<Rightarrow> Inr (a @ b)))"
  by (induction xs rule: collect_results.induct) (auto split: sum.splits)

text \<open>An entry is mapped name by name below the canonical path.\<close>

lemma remote_path_for_names:
  assumes canonical: "remote_path_wf canonical" and names: "names \<noteq> []" "\<forall>n\<in>set names. plain_name n"
  shows "remote_path_for_relative canonical (str_join ''/'' names) =
    (case collect_results (map sanitize_segment names) of
       Inl e \<Rightarrow> Inl (ScPathMapping e) | Inr segs \<Rightarrow> Inr (join_path canonical segs))"
proof -
  obtain cs where cs: "cs \<noteq> []" "\<forall>s\<in>set cs. clean_segment s" "canonical = REMOTE_PREFIX @ str_join [slash] cs"
    using canonical by (auto simp: remote_path_wf_def)
  have ne: "\<forall>s\<in>set (cs @ names). s \<noteq> []" "\<forall>s\<in>set (cs @ names). slash \<notin> set s"
    using cs(2) names(2) by (auto simp: clean_segment_def plain_name_def keep_remote_char_def)
  note canon_end = remote_path_wf_trim [OF canonical]
  let ?body = "str_join [slash] (cs @ names)"
  have join: "canonical @ ''/'' @ str_join ''/'' names = REMOTE_PREFIX @ ?body"
    using cs(1,3) names(1) by (simp add: str_join_append)
  have body: "?body \<noteq> []" "last ?body = last (last names)" "hd ?body = hd (hd cs)"
    using ne(1) cs(1) names(1) join_not_Nil [of "cs @ names" "[slash]"] last_join [of "cs @ names" "[slash]"]
      hd_join [of "cs @ names" "[slash]"] by auto
  have "last (last names) \<in> set (last names)" "hd (hd cs) \<in> set (hd cs)"
    using ne(1) cs(1) names(1) by auto
  then have "last ?body \<noteq> slash" "hd ?body \<noteq> slash"
    using body ne(2) cs(1) names(1) by (metis Un_iff hd_in_set last_in_set set_append)+
  then have trim: "trim_slashes ?body = ?body" using body by (simp add: trim_slashes_ident)
  have "str_trim (REMOTE_PREFIX @ ?body) = REMOTE_PREFIX @ ?body"
  proof (rule str_trim_ident)
    show "\<not> is_ws (hd (REMOTE_PREFIX @ ?body))" by (simp add: REMOTE_PREFIX_def is_ws_def code_def)
    show "\<not> is_ws (last (REMOTE_PREFIX @ ?body))"
      using body names by (simp add: plain_name_def)
  qed (simp add: REMOTE_PREFIX_def)
  moreover have "split_slash ?body = cs @ names"
    using cs(1) ne(2) by (intro str_split_join) auto
  moreover have "collect_results (map sanitize_segment cs) = Inr cs"
    using cs(2) by (intro collect_results_map_fix) (simp add: sanitize_segment_fix)
  ultimately have segs: "remote_root_segments (REMOTE_PREFIX @ ?body) =
      (case collect_results (map sanitize_segment names) of Inl e \<Rightarrow> Inl e | Inr segs \<Rightarrow> Inr (cs @ segs))"
    using body trim by (simp add: remote_root_segments_def starts_with_iff collect_results_append)
  have built: "build_remote_path (cs @ segs) = Inr (join_path canonical segs)" for segs
  proof (cases "segs = []")
    case True
    then show ?thesis using cs by (simp add: build_remote_path_def join_path_def)
  next
    case False
    then show ?thesis
      using cs by (simp add: build_remote_path_def str_join_append join_path_str_join)
  qed
  show ?thesis
    using segs built join names
    by (simp add: remote_path_for_relative_def canon_end join_plain_names sanitize_remote_path_def map_err_def split: sum.split)
qed

section \<open>The tree a scan reports\<close>

text \<open>
  What the walker promises of the items it hands to a handler: no path twice; every path the root or
  below it, by path components; an entry deeper than that only where the handler let it descend into the
  directory. It promises nothing of the characters of a name, so where the mapping to remote paths needs
  them to be plain, \<open>walk_names plain_name\<close> is a hypothesis of its own.
\<close>

definition walked :: "walk_item list \<Rightarrow> local_path list" where
  "walked items = concat (map (\<lambda>i. case i of WalkEntry p kind \<Rightarrow> [p] | WalkError message \<Rightarrow> []) items)"

definition entry_reached :: "local_path \<Rightarrow> (walk_item \<Rightarrow> WalkState) \<Rightarrow> walk_item list \<Rightarrow> local_path \<Rightarrow> bool" where
  "entry_reached root handler items p =
     (p = root \<or>
      (case path_strip_prefix root p of
         None \<Rightarrow> False
       | Some names \<Rightarrow>
           list_all path_name names \<and>
           (length names = 1 \<or>
            WalkEntry (butlast p) WalkDir \<in> set items \<and>
            handler (WalkEntry (butlast p) WalkDir) = WalkContinue)))"

definition walk_contract :: "local_path \<Rightarrow> (walk_item \<Rightarrow> WalkState) \<Rightarrow> walk_item list \<Rightarrow> bool" where
  "walk_contract root handler items =
     (distinct (walked items) \<and> list_all (entry_reached root handler items) (walked items))"

definition walker_ok :: "scan_env \<Rightarrow> local_path \<Rightarrow> bool" where
  "walker_ok se root = (\<forall>handler. walk_contract root handler (se_walk se root handler))"

definition names_walked :: "(string \<Rightarrow> bool) \<Rightarrow> local_path \<Rightarrow> walk_item list \<Rightarrow> bool" where
  "names_walked ok root items =
     list_all (\<lambda>p. case path_strip_prefix root p of None \<Rightarrow> True | Some names \<Rightarrow> list_all ok names) (walked items)"

definition walk_names :: "(string \<Rightarrow> bool) \<Rightarrow> scan_env \<Rightarrow> local_path \<Rightarrow> bool" where
  "walk_names ok se root = (\<forall>handler. names_walked ok root (se_walk se root handler))"

lemma names_walked_mono: "names_walked ok root items \<Longrightarrow> (\<And>n. ok n \<Longrightarrow> ok' n) \<Longrightarrow> names_walked ok' root items"
  by (auto simp: names_walked_def list_all_iff split: option.splits)

lemma walked_iff: "p \<in> set (walked items) \<longleftrightarrow> (\<exists>kind. WalkEntry p kind \<in> set items)"
  by (force simp: walked_def split: walk_item.splits)

lemma relative_of_names:
  assumes "names \<noteq> []" "\<forall>n\<in>set names. path_name n" "\<forall>n\<in>set names. no_backslash n"
  shows "relative_path root (root @ names) = Inr (str_join ''/'' names)"
proof -
  have "names \<noteq> ['''']" using assms(2) by (auto simp: path_name_def)
  then show ?thesis using assms by (simp add: relative_path_def path_string_def join_names)
qed

lemmas relative_of_plain_names = relative_of_names [OF _ plain_names]

lemma contract_entry:
  assumes "walk_contract root handler items" "names_walked ok root items" "WalkEntry p kind \<in> set items" "p \<noteq> root"
  obtains names where "p = root @ names" "names \<noteq> []" "\<forall>n\<in>set names. path_name n" "\<forall>n\<in>set names. ok n"
    "length names = 1 \<or> WalkEntry (root @ butlast names) WalkDir \<in> set items \<and>
       handler (WalkEntry (root @ butlast names) WalkDir) = WalkContinue"
proof -
  have p: "p \<in> set (walked items)" using assms(3) walked_iff by blast
  then have "entry_reached root handler items p"
    using assms(1) by (auto simp: walk_contract_def list_all_iff)
  then obtain names where n: "p = root @ names" "\<forall>n\<in>set names. path_name n"
    "length names = 1 \<or> WalkEntry (butlast p) WalkDir \<in> set items \<and>
       handler (WalkEntry (butlast p) WalkDir) = WalkContinue"
    using assms(4) by (auto simp: entry_reached_def list_all_iff path_strip_prefix_Some_iff split: option.splits)
  have "names \<noteq> []" using n(1) assms(4) by auto
  moreover have "\<forall>n\<in>set names. ok n"
    using assms(2) p n(1) by (fastforce simp: names_walked_def list_all_iff)
  ultimately show thesis using that n by (auto simp: butlast_append)
qed

lemma sanitize_butlast:
  "collect_results (map sanitize_segment names) = Inr segs \<Longrightarrow>
   collect_results (map sanitize_segment (butlast names)) = Inr (butlast segs) \<and> length segs = length names"
  by (auto simp: collect_results_Inr map_butlast dest: map_eq_imp_length_eq)

lemma sanitize_clean:
  assumes "collect_results (map sanitize_segment names) = Inr segs" shows "clean_segs segs"
proof -
  have "clean_segment s" if "s \<in> set segs" for s
  proof -
    have "Inr s \<in> set (map Inr segs)" using that by simp
    then have "Inr s \<in> set (map sanitize_segment names)" using assms by (simp add: collect_results_Inr)
    then obtain n where "sanitize_segment n = Inr s" by auto
    then show ?thesis by (rule sanitize_segment_clean)
  qed
  then show ?thesis by (auto simp: clean_segs_def clean_segment_def keep_remote_char_def)
qed

text \<open>An entry reported, by the names below the root and the segments below the canonical path.\<close>

definition placed :: "scan_context \<Rightarrow> string list \<Rightarrow> string \<Rightarrow> string \<Rightarrow> bool" where
  "placed cx names relative remote =
     (names \<noteq> [] \<and> (\<forall>n\<in>set names. plain_name n) \<and> relative = str_join ''/'' names \<and>
      (\<exists>segs. collect_results (map sanitize_segment names) = Inr segs \<and>
        remote = join_path (sn_canonical_remote_path (cx_root cx)) segs))"

lemma placedI:
  assumes "remote_path_wf (sn_canonical_remote_path (cx_root cx))"
    and "names \<noteq> []" "\<forall>n\<in>set names. plain_name n"
    and "remote_path_for_relative (sn_canonical_remote_path (cx_root cx)) (str_join ''/'' names) = Inr remote"
  shows "placed cx names (str_join ''/'' names) remote"
  using assms by (auto simp: placed_def remote_path_for_names split: sum.splits)

lemma directory_entry_fields:
  "directory_entry cx p relative = Inr d \<Longrightarrow>
   ld_local_path d = p \<and> ld_relative_path d = relative \<and>
   remote_path_for_relative (sn_canonical_remote_path (cx_root cx)) relative = Inr (ld_remote_path d)"
  by (auto simp: directory_entry_def split: sum.splits)

lemma entry_placed:
  assumes "walk_contract (sn_local_path (cx_root cx)) handler items"
    and "names_walked plain_name (sn_local_path (cx_root cx)) items"
    and "remote_path_wf (sn_canonical_remote_path (cx_root cx))"
    and "WalkEntry p kind \<in> set items" "p \<noteq> sn_local_path (cx_root cx)"
    and "relative_path (sn_local_path (cx_root cx)) p = Inr relative"
    and "remote_path_for_relative (sn_canonical_remote_path (cx_root cx)) relative = Inr remote"
  obtains names where "placed cx names relative remote" "p = sn_local_path (cx_root cx) @ names"
    "length names = 1 \<or> WalkEntry (sn_local_path (cx_root cx) @ butlast names) WalkDir \<in> set items \<and>
       handler (WalkEntry (sn_local_path (cx_root cx) @ butlast names) WalkDir) = WalkContinue"
proof -
  obtain names where n: "p = sn_local_path (cx_root cx) @ names" "names \<noteq> []" "\<forall>n\<in>set names. plain_name n"
    "length names = 1 \<or> WalkEntry (sn_local_path (cx_root cx) @ butlast names) WalkDir \<in> set items \<and>
       handler (WalkEntry (sn_local_path (cx_root cx) @ butlast names) WalkDir) = WalkContinue"
    using contract_entry [OF assms(1,2,4,5)] by metis
  have "relative = str_join ''/'' names" using assms(6) n relative_of_plain_names by simp
  then show thesis using that n assms(7) placedI [OF assms(3) n(2,3)] by simp
qed

text \<open>The directory an entry lies in, where the handler let the walk descend, is reported.\<close>

lemma descended_directory:
  assumes wf: "remote_path_wf (sn_canonical_remote_path (cx_root cx))"
    and placed: "placed cx names relative remote" "length names \<noteq> 1"
    and h: "fst (handle_walk_item se cx (WalkEntry (sn_local_path (cx_root cx) @ butlast names) WalkDir)) = WalkContinue"
  shows "\<exists>d. pushed se cx (WalkEntry (sn_local_path (cx_root cx) @ butlast names) WalkDir) = Some (PushDirectory d) \<and>
     placed cx (butlast names) (ld_relative_path d) (ld_remote_path d)"
proof -
  let ?ns = "butlast names" and ?root = "sn_local_path (cx_root cx)"
  obtain segs where segs: "collect_results (map sanitize_segment names) = Inr segs" "names \<noteq> []"
      "\<forall>n\<in>set names. plain_name n"
    using placed(1) by (auto simp: placed_def)
  have ns: "?ns \<noteq> []" "\<forall>n\<in>set ?ns. plain_name n"
    using segs(2,3) placed(2) by (cases names rule: rev_cases; auto)+
  have rel: "relative_path ?root (?root @ ?ns) = Inr (str_join ''/'' ?ns)"
    by (rule relative_of_plain_names [OF ns ns(2)])
  have remote: "remote_path_for_relative (sn_canonical_remote_path (cx_root cx)) (str_join ''/'' ?ns) =
      Inr (join_path (sn_canonical_remote_path (cx_root cx)) (butlast segs))"
    using remote_path_for_names [OF wf ns] sanitize_butlast [OF segs(1)] by simp
  have "exclusion_decision (se_gitignore se) cx (?root @ ?ns) (str_join ''/'' ?ns) True = None"
    using h ns rel by (auto simp: handle_walk_entry_def handle_included_entry_def
        split: option.splits if_splits dest: exclusion_decision_excluded)
  then have "pushed se cx (WalkEntry (?root @ ?ns) WalkDir) = Some (PushDirectory
      \<lparr>ld_root_id = sn_id (cx_root cx), ld_local_path = ?root @ ?ns, ld_relative_path = str_join ''/'' ?ns,
       ld_remote_path = join_path (sn_canonical_remote_path (cx_root cx)) (butlast segs),
       ld_normalized_remote_path = to_lowercase (join_path (sn_canonical_remote_path (cx_root cx)) (butlast segs))\<rparr>)"
    using ns rel remote by (simp add: pushed_directory directory_entry_def)
  then show ?thesis
    using placedI [OF wf ns remote] by auto
qed

section \<open>One report item for a path\<close>

definition relative_key :: "local_path \<Rightarrow> local_path \<Rightarrow> string" where
  "relative_key root p = (case relative_path root p of Inl message \<Rightarrow> [] | Inr relative \<Rightarrow> relative)"

lemma relative_key_inj:
  assumes "walk_contract root handler items" "names_walked no_backslash root items"
  shows "inj_on (relative_key root) (set (walked items) - {root})"
proof (rule inj_onI)
  fix p q assume pq: "p \<in> set (walked items) - {root}" "q \<in> set (walked items) - {root}"
    and eq: "relative_key root p = relative_key root q"
  have names: "\<exists>ns. p = root @ ns \<and> ns \<noteq> [] \<and> (\<forall>n\<in>set ns. path_name n) \<and> relative_key root p = str_join ''/'' ns"
    if m: "p \<in> set (walked items) - {root}" for p
  proof -
    obtain kind where i: "WalkEntry p kind \<in> set items" "p \<noteq> root" using m by (auto simp: walked_iff)
    obtain ns where "p = root @ ns" "ns \<noteq> []" "\<forall>n\<in>set ns. path_name n" "\<forall>n\<in>set ns. no_backslash n"
      using contract_entry [OF assms i] by metis
    then show ?thesis by (auto simp: relative_key_def relative_of_names)
  qed
  obtain a b where ab: "p = root @ a" "q = root @ b" "a \<noteq> []" "b \<noteq> []" "clean_segs a" "clean_segs b"
    "str_join ''/'' a = str_join ''/'' b"
    using names [OF pq(1)] names [OF pq(2)] eq path_clean by metis
  then show "p = q" using split_str_join by metis
qed

lemma distinct_pushes:
  assumes "distinct (walked items)" "inj_on key (set (walked items) - {root})"
    and "\<And>i. i \<in> set items \<Longrightarrow> g i = [] \<or>
      (\<exists>p kind d. i = WalkEntry p kind \<and> p \<noteq> root \<and> g i = [d] \<and> k d = key p)"
  shows "distinct (map k (concat (map g items)))"
proof -
  define paths where "paths = concat (map (\<lambda>i. case i of WalkEntry p kind \<Rightarrow> if g i = [] then [] else [p] | WalkError m \<Rightarrow> []) items)"
  have sub: "set paths \<subseteq> set (walked items) - {root}"
    using assms(3) unfolding paths_def walked_iff by (fastforce split: walk_item.splits if_splits simp: walked_iff)
  have dist: "distinct paths"
    using assms(1) unfolding paths_def walked_def
  proof (induction items)
    case (Cons i items)
    then show ?case by (cases i) (auto split: walk_item.splits if_splits)
  qed simp
  have "map k (concat (map g items)) = map key paths"
    using assms(3) unfolding paths_def
  proof (induction items)
    case (Cons i items)
    have "map k (g i) = map key (case i of WalkEntry p kind \<Rightarrow> if g i = [] then [] else [p] | WalkError m \<Rightarrow> [])"
      using Cons.prems [of i] by (auto split: walk_item.splits)
    then show ?case using Cons.IH Cons.prems by simp
  qed simp
  then show ?thesis
    using dist sub assms(2) by (auto simp: distinct_map intro: inj_on_subset)
qed

lemma pushed_cases:
  assumes "pushed se cx i = Some (PushFile f) \<or> pushed se cx i = Some (PushDirectory d) \<or>
    pushed se cx i = Some (PushSkipped s)"
  obtains p kind relative where "i = WalkEntry p kind" "p \<noteq> sn_local_path (cx_root cx)"
    "relative_path (sn_local_path (cx_root cx)) p = Inr relative"
proof (cases i)
  case (WalkEntry p kind)
  then show thesis
    using assms that unfolding WalkEntry pushed_entry handle_walk_entry_def
    by (fastforce split: if_splits sum.splits)
next
  case (WalkError m)
  then show thesis using assms by (simp add: pushed_def)
qed

lemma pushed_keys:
  "pushed se cx i = Some (PushFile f) \<Longrightarrow>
     \<exists>p kind. i = WalkEntry p kind \<and> p \<noteq> sn_local_path (cx_root cx) \<and>
       lf_local_path f = p \<and> lf_relative_path f = relative_key (sn_local_path (cx_root cx)) p"
  "pushed se cx i = Some (PushDirectory d) \<Longrightarrow>
     \<exists>p kind. i = WalkEntry p kind \<and> p \<noteq> sn_local_path (cx_root cx) \<and>
       ld_local_path d = p \<and> ld_relative_path d = relative_key (sn_local_path (cx_root cx)) p"
  by (auto simp: relative_key_def pushed_directory file_entry_file(1,2) elim!: pushed_file dest: directory_entry_fields)

lemma included_skipped:
  "fst (snd (handle_included_entry se cx p kind relative)) = Some (PushSkipped s) \<Longrightarrow>
   ss_local_path s = p \<and> ss_relative_path s = relative"
  by (auto simp: handle_included_entry_def file_error_push_def scan_skipped_item_def Let_def dest: file_entry_skipped
      split: walk_kind.splits sum.splits prod.splits FileEntryResult.splits if_splits)

lemma pushed_skipped_keys:
  assumes "pushed se cx i = Some (PushSkipped s)"
  shows "\<exists>p kind. i = WalkEntry p kind \<and> p \<noteq> sn_local_path (cx_root cx) \<and>
    ss_local_path s = p \<and> ss_relative_path s = relative_key (sn_local_path (cx_root cx)) p"
proof (cases i)
  case (WalkEntry p kind)
  then show ?thesis
    using assms unfolding WalkEntry pushed_entry handle_walk_entry_def relative_key_def
    by (fastforce split: if_splits sum.splits option.splits simp: scan_skipped_item_def dest: included_skipped)
next
  case (WalkError m)
  then show ?thesis using assms by (simp add: pushed_def)
qed

lemma report_keys_distinct:
  assumes "walk_contract (sn_local_path (cx_root cx)) handler items"
    and "names_walked no_backslash (sn_local_path (cx_root cx)) items"
  shows "distinct (map lf_relative_path (sc_files (collect_report se cx items)))"
    "distinct (map ld_relative_path (sc_directories (collect_report se cx items)))"
    "distinct (map ss_relative_path (sc_skipped (collect_report se cx items)))"
proof -
  let ?root = "sn_local_path (cx_root cx)"
  note inj = relative_key_inj [OF assms]
  have d: "distinct (walked items)" using assms(1) by (simp add: walk_contract_def)
  have f: "file_of x = [] \<or> (\<exists>f. file_of x = [f] \<and> x = Some (PushFile f))"
    and g: "directory_of x = [] \<or> (\<exists>f. directory_of x = [f] \<and> x = Some (PushDirectory f))"
    and h: "skipped_of x = [] \<or> (\<exists>f. skipped_of x = [f] \<and> x = Some (PushSkipped f))" for x
    by (cases x rule: file_of.cases; simp)+
  show "distinct (map lf_relative_path (sc_files (collect_report se cx items)))"
    unfolding collect_report_fields
    by (rule distinct_pushes [OF d inj]) (metis f pushed_keys(1))
  show "distinct (map ld_relative_path (sc_directories (collect_report se cx items)))"
    unfolding collect_report_fields
    by (rule distinct_pushes [OF d inj]) (metis g pushed_keys(2))
  show "distinct (map ss_relative_path (sc_skipped (collect_report se cx items)))"
    unfolding collect_report_fields
    by (rule distinct_pushes [OF d inj]) (metis h pushed_skipped_keys)
qed

section \<open>The scan feeds the deletion plan\<close>

lemma scanned_parent:
  assumes wf: "remote_path_wf (sn_canonical_remote_path (cx_root cx))"
    and placed: "placed cx names relative remote"
    and up: "length names = 1 \<or> WalkEntry (sn_local_path (cx_root cx) @ butlast names) WalkDir \<in> set items \<and>
       fst (handle_walk_item se cx (WalkEntry (sn_local_path (cx_root cx) @ butlast names) WalkDir)) = WalkContinue"
  shows "normal_path (sn_canonical_remote_path (cx_root cx)) remote \<and>
    (length (path_segs (sn_canonical_remote_path (cx_root cx)) remote) = 1 \<or>
     (\<exists>d\<in>set (sc_directories (collect_report se cx items)).
        ld_remote_path d = join_path (sn_canonical_remote_path (cx_root cx))
          (butlast (path_segs (sn_canonical_remote_path (cx_root cx)) remote)) \<and>
        path_under (ld_relative_path d) relative))"
proof -
  let ?base = "sn_canonical_remote_path (cx_root cx)"
  obtain segs where segs: "collect_results (map sanitize_segment names) = Inr segs" "remote = join_path ?base segs"
    and names: "names \<noteq> []" "\<forall>n\<in>set names. plain_name n" "relative = str_join ''/'' names"
    using placed by (auto simp: placed_def)
  have base: "trim_end_slash ?base = ?base"
    by (rule remote_path_wf_trim [OF wf])
  have len: "length segs = length names" using sanitize_butlast [OF segs(1)] by simp
  have clean: "clean_segs segs" "segs \<noteq> []" using sanitize_clean [OF segs(1)] len names by auto
  have psegs: "path_segs ?base remote = segs"
    using path_segs_join [OF base clean] segs(2) by simp
  have "\<exists>d\<in>set (sc_directories (collect_report se cx items)).
        ld_remote_path d = join_path ?base (butlast segs) \<and> path_under (ld_relative_path d) relative"
    if deep: "length names \<noteq> 1"
  proof -
    obtain d where d: "pushed se cx (WalkEntry (sn_local_path (cx_root cx) @ butlast names) WalkDir) = Some (PushDirectory d)"
        "placed cx (butlast names) (ld_relative_path d) (ld_remote_path d)"
      using descended_directory [OF wf placed deep] up deep by blast
    have mem: "d \<in> set (sc_directories (collect_report se cx items))"
      using d(1) up deep by (auto simp: collect_report_fields push_cases)
    have "path_under (ld_relative_path d) relative"
    proof -
      have "names = butlast names @ [last names]" "butlast names \<noteq> []"
        using names(1) deep by (cases names rule: rev_cases; auto)+
      then have "str_join ''/'' names = str_join ''/'' (butlast names) @ slash # str_join ''/'' [last names]"
        using str_join_append [of "butlast names" "[last names]" "''/''"] by simp
      then show ?thesis using d(2) names(3) by (auto simp: placed_def path_under_iff)
    qed
    moreover have "ld_remote_path d = join_path ?base (butlast segs)"
      using d(2) sanitize_butlast [OF segs(1)] by (auto simp: placed_def)
    ultimately show ?thesis using mem by blast
  qed
  then show ?thesis
    using normal_join [OF base clean] psegs segs(2) len by auto
qed

lemma report_lists:
  "mset (map lf_relative_path (sc_files (sort_deterministically r))) = mset (map lf_relative_path (sc_files r))"
  "mset (map ld_relative_path (sc_directories (sort_deterministically r))) = mset (map ld_relative_path (sc_directories r))"
  by (simp_all add: sort_deterministically_def)

lemma distinct_mset: "mset xs = mset ys \<Longrightarrow> distinct xs = distinct ys"
  by (metis mset_eq_imp_distinct_iff)

lemma relative_deleted:
  "is_relative_path_deleted q (lp_deleted_subtrees plan) = is_deleted_relative_path plan q"
  by (simp add: is_relative_path_deleted_def is_deleted_relative_path_def)

lemma gone_down: "\<not> gone is_dir ds q \<Longrightarrow> path_under p q \<Longrightarrow> \<not> gone is_dir ds p"
  using path_under_trans by (auto simp: gone_def)

lemma set_directories_by_depth: "set (directories_by_depth ds) = set ds"
  by (simp add: directories_by_depth_def)

lemma scan_live_paths:
  assumes "distinct (map ld_relative_path (sc_directories report))"
  shows "set (live_paths canonical (from_scan_report is_dir root report)) =
    insert canonical
      (ld_remote_path ` {d \<in> set (sc_directories report). \<not> gone is_dir (sc_directories report) (ld_relative_path d)} \<union>
       lf_remote_path ` {f \<in> set (sc_files report). \<not> gone is_dir (sc_directories report) (lf_relative_path f)})"
  using from_scan_report_spec [OF assms, of is_dir root]
  by (auto simp: live_paths_def known_live_remote_paths_def relative_deleted set_directories_by_depth)

lemma scan_root_items:
  assumes "scan_root se options root previous = Inr report" "walker_ok se (sn_local_path root)"
    and "walk_names ok se (sn_local_path root)" "\<And>n. ok n \<Longrightarrow> no_backslash n"
  obtains cx where "report = sort_deterministically (collect_report se cx (walk_items se cx))" "cx_root cx = root"
    "scan_context_new (se_gitignore se) options root previous = Inr cx" "cx_options cx = options"
    "walk_contract (sn_local_path (cx_root cx)) (\<lambda>i. fst (handle_walk_item se cx i)) (walk_items se cx)"
    "names_walked ok (sn_local_path (cx_root cx)) (walk_items se cx)"
    "distinct (map ld_relative_path (sc_directories report))"
proof (rule scan_root_report [OF assms(1)])
  fix cx
  assume cx: "scan_context_new (se_gitignore se) options root previous = Inr cx" "cx_root cx = root" "cx_options cx = options"
    and r: "report = sort_deterministically (collect_report se cx (walk_items se cx))"
  have wc: "walk_contract (sn_local_path (cx_root cx)) (\<lambda>i. fst (handle_walk_item se cx i)) (walk_items se cx)"
    using assms(2) by (simp add: walker_ok_def walk_items_def cx)
  have wn: "names_walked ok (sn_local_path (cx_root cx)) (walk_items se cx)"
    using assms(3) by (simp add: walk_names_def walk_items_def cx)
  have "distinct (map ld_relative_path (sc_directories report))"
    using report_keys_distinct(2) [OF wc names_walked_mono [OF wn assms(4)], of se] distinct_mset [OF report_lists(2)] r by blast
  with cx r wc wn show thesis using that by blast
qed

lemma scan_live_tree:
  assumes scan: "scan_root se options root previous = Inr report"
    and contract: "walker_ok se (sn_local_path root)" and plain: "walk_names plain_name se (sn_local_path root)"
    and wf: "remote_path_wf (sn_canonical_remote_path root)"
  shows "live_tree (sn_canonical_remote_path root)
    (live_paths (sn_canonical_remote_path root) (from_scan_report is_dir local_root report))"
proof -
  obtain cx where r: "report = sort_deterministically (collect_report se cx (walk_items se cx))"
    and cx: "cx_root cx = root"
    and wc: "walk_contract (sn_local_path (cx_root cx)) (\<lambda>i. fst (handle_walk_item se cx i)) (walk_items se cx)"
    and wn: "names_walked plain_name (sn_local_path (cx_root cx)) (walk_items se cx)"
    and dist: "distinct (map ld_relative_path (sc_directories report))"
    using scan contract plain plain_name_parts(2) by (rule scan_root_items)
  let ?items = "walk_items se cx" and ?base = "sn_canonical_remote_path root" and ?h = "\<lambda>i. fst (handle_walk_item se cx i)"
  let ?gone = "gone is_dir (sc_directories report)"
  let ?live = "set (live_paths ?base (from_scan_report is_dir local_root report))"
  have step: "normal_path ?base remote \<and>
      (length (path_segs ?base remote) = 1 \<or> join_path ?base (butlast (path_segs ?base remote)) \<in> ?live)"
    if mem: "WalkEntry p kind \<in> set ?items" "p \<noteq> sn_local_path root"
      "relative_path (sn_local_path root) p = Inr relative"
      "remote_path_for_relative ?base relative = Inr remote" "\<not> ?gone relative" for p kind relative remote
  proof -
    obtain names where n: "placed cx names relative remote"
      "length names = 1 \<or> WalkEntry (sn_local_path (cx_root cx) @ butlast names) WalkDir \<in> set ?items \<and>
       ?h (WalkEntry (sn_local_path (cx_root cx) @ butlast names) WalkDir) = WalkContinue"
      by (rule entry_placed [OF wc wn, of p kind relative remote]) (use mem wf cx in auto)
    have parent: "ld_remote_path d \<in> ?live"
      if "d \<in> set (sc_directories report)" "path_under (ld_relative_path d) relative" for d
      using that gone_down [OF mem(5)] scan_live_paths [OF dist] by blast
    show ?thesis
      using scanned_parent [of cx, OF _ n] wf parent by (auto simp: cx r) metis
  qed
  show ?thesis
    unfolding live_tree_def
  proof (intro conjI ballI)
    fix k assume "k \<in> ?live"
    then consider "k = ?base"
      | d where "d \<in> set (sc_directories report)" "k = ld_remote_path d" "\<not> ?gone (ld_relative_path d)"
      | f where "f \<in> set (sc_files report)" "k = lf_remote_path f" "\<not> ?gone (lf_relative_path f)"
      unfolding scan_live_paths [OF dist] by blast
    then show "k = ?base \<or> normal_path ?base k \<and>
        (length (path_segs ?base k) = 1 \<or> join_path ?base (butlast (path_segs ?base k)) \<in> ?live)"
    proof cases
      case 2
      then obtain i where i: "i \<in> set ?items" "pushed se cx i = Some (PushDirectory d)" by (auto simp: r report_sets)
      then obtain p relative where p: "i = WalkEntry p WalkDir" "p \<noteq> sn_local_path root"
          "relative_path (sn_local_path root) p = Inr relative" "directory_entry cx p relative = Inr d"
        by (auto simp: pushed_directory cx)
      then show ?thesis
        using 2 step [of p WalkDir relative] directory_entry_fields [OF p(4)] i(1) by (simp add: cx)
    next
      case 3
      then obtain i where i: "i \<in> set ?items" "pushed se cx i = Some (PushFile f)" by (auto simp: r report_sets)
      then obtain p relative effects where p: "i = WalkEntry p WalkFile" "p \<noteq> sn_local_path root"
          "relative_path (sn_local_path root) p = Inr relative"
          "file_entry se cx p relative = (Inr (FileEntry f), effects)"
        by (auto simp: cx elim: pushed_file)
      then show ?thesis
        using 3 step [of p WalkFile relative] file_entry_file(2,3) [OF p(4)] i(1) by (simp add: cx)
    qed blast
  qed (rule remote_path_wf_trim [OF wf])
qed

text \<open>
  C3. The scan and the deletion plan together, for a tree in which no name ends in white space or holds
  a backslash (\<open>walk_names plain_name\<close>; see \<open>trailing_blank_directory_is_deleted\<close> for one that does).
  After a scan of a root, a remote resource that is a candidate for deletion at all
  (\<open>deletable\<close>: below the canonical path, with no \<open>disk:\<close> among its segments) lies at or below a planned
  deletion exactly when it is not the root itself and is not the remote path of a
  file or directory reported by the scan, those at or below a directory that vanished since then apart:
  what was scanned and is still there survives, and what is left over goes.
\<close>

theorem scan_deletions_exact:
  assumes "scan_root se options root previous = Inr report"
    and "walker_ok se (sn_local_path root)" "walk_names plain_name se (sn_local_path root)"
    and "remote_path_wf (sn_canonical_remote_path root)"
    and "normal_inventory (sn_canonical_remote_path root) inventory"
    and "r \<in> set (bt_values inventory)" "deletable (sn_canonical_remote_path root) (rs_path r)"
  shows "(\<exists>op\<in>set (collect_coalesced_delete_operations config (sn_canonical_remote_path root)
        (from_scan_report is_dir (sn_local_path root) report) inventory). path_under (rd_remote_path op) (rs_path r)) \<longleftrightarrow>
    rs_path r \<noteq> sn_canonical_remote_path root \<and>
    rs_path r \<notin> ld_remote_path ` {d \<in> set (sc_directories report). \<not> gone is_dir (sc_directories report) (ld_relative_path d)} \<and>
    rs_path r \<notin> lf_remote_path ` {f \<in> set (sc_files report). \<not> gone is_dir (sc_directories report) (lf_relative_path f)}"
proof -
  have dist: "distinct (map ld_relative_path (sc_directories report))"
    using assms(1-3) plain_name_parts(2) by (rule scan_root_items)
  show ?thesis
    using delete_plan_exact [OF scan_live_tree [OF assms(1-4)] assms(5-7)]
    unfolding scan_live_paths [OF dist] by blast
qed











section \<open>Order of the walk\<close>

lemma sort_key_perm: "mset xs = mset ys \<Longrightarrow> distinct (map k ys) \<Longrightarrow> sort_key k xs = sort_key k ys"
  by (rule sort_key_inj_key_eq) (auto simp: distinct_map dest: mset_eq_setD intro: inj_on_subset)

lemma sorted_keys_perm:
  assumes "mset xs = mset ys" shows "map k (sort_key k xs) = map k (sort_key k ys)"
proof -
  have "map k (sort_key k zs) = sort (map k zs)" for zs
    by (rule properties_for_sort [symmetric]) simp_all
  then show ?thesis using assms by (metis mset_map sorted_list_of_multiset_mset)
qed

lemma mset_pushes: "mset xs = mset ys \<Longrightarrow> mset (concat (map g xs)) = mset (concat (map g ys))"
  by (simp add: mset_concat flip: mset_map) (metis mset_map sum_mset_sum_list)

lemma rewalk_fields:
  "se_metadata (se\<lparr>se_walk := w\<rparr>) = se_metadata se"
  "se_metadata_again (se\<lparr>se_walk := w\<rparr>) = se_metadata_again se"
  "se_open (se\<lparr>se_walk := w\<rparr>) = se_open se" "se_sha256 (se\<lparr>se_walk := w\<rparr>) = se_sha256 se"
  "se_md5 (se\<lparr>se_walk := w\<rparr>) = se_md5 se" "se_backup (se\<lparr>se_walk := w\<rparr>) = se_backup se"
  "se_gitignore (se\<lparr>se_walk := w\<rparr>) = se_gitignore se"
  by simp_all

lemma handler_rewalk [simp]: "handle_walk_item (se\<lparr>se_walk := w\<rparr>) cx item = handle_walk_item se cx item"
proof (cases item)
  case (WalkEntry p kind)
  show ?thesis
    unfolding WalkEntry handle_walk_item.simps handle_walk_entry_def handle_included_entry_def file_entry_def
      new_file_entry_def staged_source_def fingerprint_path_def sha256_and_md5_file_def file_error_push_def rewalk_fields
    by (rule refl)
qed simp

text \<open>
  C14. What of the report depends on how the parallel walker orders its entries. Two walks that
  hand over the same entries in whatever order, with no backslash in a name, give the same files, directories
  and skipped items, in the same order, and the same failures up to the order among failures with equal relative
  paths (walk errors, which have none, keep the order of the walk).
\<close>

theorem scan_order_independent:
  assumes "walker_ok se (sn_local_path root)" "walk_names no_backslash se (sn_local_path root)"
    and "\<And>h. mset (w (sn_local_path root) h) = mset (se_walk se (sn_local_path root) h)"
    and "scan_root se options root previous = Inr r1"
    and "scan_root (se\<lparr>se_walk := w\<rparr>) options root previous = Inr r2"
  shows "sc_files r1 = sc_files r2 \<and> sc_directories r1 = sc_directories r2 \<and> sc_skipped r1 = sc_skipped r2 \<and>
    mset (sc_failed r1) = mset (sc_failed r2) \<and>
    map sf_relative_path (sc_failed r1) = map sf_relative_path (sc_failed r2)"
proof -
  obtain cx where r1: "r1 = sort_deterministically (collect_report se cx (walk_items se cx))"
    and cx: "cx_root cx = root" "scan_context_new (se_gitignore se) options root previous = Inr cx"
    and wc: "walk_contract (sn_local_path (cx_root cx)) (\<lambda>i. fst (handle_walk_item se cx i)) (walk_items se cx)"
    and wn: "names_walked no_backslash (sn_local_path (cx_root cx)) (walk_items se cx)"
    using assms(4,1,2) by (rule scan_root_items)
  have r2: "r2 = sort_deterministically (collect_report se cx (walk_items (se\<lparr>se_walk := w\<rparr>) cx))"
    using assms(5) cx(2) by (auto simp: scan_root_def collect_report_def)
  have perm: "mset (walk_items (se\<lparr>se_walk := w\<rparr>) cx) = mset (walk_items se cx)"
    using assms(3) by (simp add: walk_items_def cx)
  note eq = mset_pushes [OF perm]
  have same: "pushed (se\<lparr>se_walk := w\<rparr>) cx = pushed se cx"
    by (simp add: pushed_def fun_eq_iff)
  note fields = r1 r2 collect_report_fields [of "se\<lparr>se_walk := w\<rparr>", unfolded same] sort_deterministically_def
  note keys = report_keys_distinct [OF wc wn, of se, unfolded collect_report_fields]
  note sorts = keys [THEN sort_key_perm [OF eq]] sorted_keys_perm [OF eq]
  show ?thesis
    by (simp add: fields sorts eq collect_report_fields [of se])
qed

section \<open>The backup ends\<close>

text \<open>The steps that fit into what is left of the limit, with the pause between them.\<close>

definition within :: "nat \<Rightarrow> nat \<Rightarrow> nat \<Rightarrow> nat \<Rightarrow> bool" where
  "within limit now i j = (i \<le> j \<and> (j - i) * SQLITE_BACKUP_PAUSE < limit - now + SQLITE_BACKUP_PAUSE)"

lemma within_first: "within limit now i i"
  by (simp add: within_def SQLITE_BACKUP_PAUSE_def)

lemma within_later:
  assumes "within limit later (Suc i) j" "now + SQLITE_BACKUP_PAUSE \<le> later" "now < limit"
  shows "within limit now i j"
proof -
  have "(j - i) * SQLITE_BACKUP_PAUSE = (j - Suc i) * SQLITE_BACKUP_PAUSE + SQLITE_BACKUP_PAUSE"
    using assms(1) by (metis Suc_diff_Suc Suc_le_lessD add.commute mult_Suc within_def)
  moreover have "(j - Suc i) * SQLITE_BACKUP_PAUSE < limit - later + SQLITE_BACKUP_PAUSE"
    using assms(1) by (simp add: within_def)
  moreover have "limit - later + SQLITE_BACKUP_PAUSE \<le> limit - now \<or> j = Suc i"
  proof (cases "later \<le> limit")
    case True
    then show ?thesis using assms(2) by linarith
  next
    case False
    then have "(j - Suc i) * SQLITE_BACKUP_PAUSE < 1 * SQLITE_BACKUP_PAUSE"
      using assms(1) by (simp add: within_def)
    then have "j - Suc i < 1" using mult_less_cancel2 by blast
    then show ?thesis using assms(1) by (simp add: within_def)
  qed
  ultimately show ?thesis
    using assms(1,3) by (auto simp: within_def)
qed

lemma endless_backup_times_out:
  assumes "\<And>j. within limit now i j \<Longrightarrow> bk_step (ticks j) = Inr False"
  shows "\<exists>seconds. run_sqlite_backup ticks source no_progress limit i now lp lr = Inl (ScSqliteBackupTimedOut source seconds)"
  using assms
proof (induction ticks source no_progress limit i now lp lr rule: run_sqlite_backup.induct)
  case (1 ticks source no_progress limit i now lp lr)
  have step: "bk_step (ticks i) = Inr False" using 1(2) within_first by blast
  let ?e = "now + bk_step_time (ticks i) + bk_check_time (ticks i)"
  let ?lp = "if lr \<noteq> Some (bk_remaining (ticks i)) then now + bk_step_time (ticks i) else lp"
  show ?case
  proof (cases "limit \<le> ?e \<or> no_progress \<le> ?e - ?lp")
    case True
    then show ?thesis by (subst run_sqlite_backup.simps) (auto simp: step Let_def)
  next
    case False
    have "\<exists>seconds. run_sqlite_backup ticks source no_progress limit (Suc i) (?e + SQLITE_BACKUP_PAUSE + bk_oversleep (ticks i)) ?lp
        (Some (bk_remaining (ticks i))) = Inl (ScSqliteBackupTimedOut source seconds)"
    proof (rule 1(1) [OF step refl refl refl refl])
      fix j assume "within limit (?e + SQLITE_BACKUP_PAUSE + bk_oversleep (ticks i)) (Suc i) j"
      then have "within limit now i j"
        using False by (elim within_later) auto
      then show "bk_step (ticks j) = Inr False" by (rule 1(2))
    qed (use False in auto)
    moreover have "\<not> (limit \<le> ?e)" "\<not> (no_progress \<le> ?e - ?lp)" using False by blast+
    ultimately show ?thesis
      by (simp only: run_sqlite_backup.simps [of ticks source no_progress limit i] step sum.case Let_def if_False simp_thms)
  qed
qed

text \<open>
  C15. The backup of an SQLite database never runs away: if no step that fits into the total limit, at
  one pause each, reports its end, the database is given up as timed out and what was staged is
  removed, however long the steps take and whatever they report of their progress.
\<close>

theorem endless_sqlite_backup_is_given_up:
  assumes "\<And>j. j * SQLITE_BACKUP_PAUSE < SQLITE_BACKUP_TOTAL_TIMEOUT + SQLITE_BACKUP_PAUSE \<Longrightarrow>
      bk_step (ba_ticks ba j) = Inr False"
    and "ba_create_dir ba = None" "ba_open_source ba = None" "ba_open_destination ba = None" "ba_new ba = None"
  shows "\<exists>seconds. fst (backup_sqlite_to_staging ba source staging_dir root_id) =
      Inl (ScSqliteBackupTimedOut source seconds) \<and>
    is_skippable_scan_error (ScSqliteBackupTimedOut source seconds) \<and>
    Unstaged (backup_staging_path staging_dir root_id (ba_uuid ba)) \<in>
      set (snd (backup_sqlite_to_staging ba source staging_dir root_id))"
proof -
  obtain seconds where "run_sqlite_backup (ba_ticks ba) source SQLITE_BACKUP_NO_PROGRESS_TIMEOUT
      SQLITE_BACKUP_TOTAL_TIMEOUT 0 0 0 None = Inl (ScSqliteBackupTimedOut source seconds)"
    using endless_backup_times_out [of SQLITE_BACKUP_TOTAL_TIMEOUT 0 0 "ba_ticks ba"] assms(1)
    by (simp add: within_def) metis
  then show ?thesis
    using assms(2-) by (auto simp: backup_sqlite_to_staging_def backup_sqlite_to_staging_with_timeouts_def
        cleanup_incomplete_sqlite_backup_def Let_def)
qed

section \<open>Examples\<close>

text \<open>A root with one directory and one file in it.\<close>

definition example_walk :: "string \<Rightarrow> local_path \<Rightarrow> (walk_item \<Rightarrow> WalkState) \<Rightarrow> walk_item list" where
  "example_walk name root h =
     [WalkEntry root WalkDir, WalkEntry (root @ [name]) WalkDir] @
     (if h (WalkEntry (root @ [name]) WalkDir) = WalkContinue
      then [WalkEntry (root @ [name, ''x.txt'']) WalkFile] else [])"

definition no_backup :: backup_answers where
  "no_backup = \<lparr>ba_create_dir = None, ba_uuid = ''u'', ba_open_source = None, ba_open_destination = None,
     ba_new = None, ba_ticks = (\<lambda>_. \<lparr>bk_step = Inr False, bk_remaining = 1, bk_step_time = 0, bk_check_time = 0, bk_oversleep = 0\<rparr>)\<rparr>"

definition example_scan_env :: "string \<Rightarrow> scan_env" where
  "example_scan_env name =
     \<lparr>se_metadata = (\<lambda>p. Inr \<lparr>fm_len = 3, fm_modified = Some 7, fm_created = None\<rparr>),
      se_metadata_again = (\<lambda>p. Inr \<lparr>fm_len = 3, fm_modified = Some 7, fm_created = None\<rparr>),
      se_open = (\<lambda>p. Inr [Inr [1, 2], Inr [3]]), se_sha256 = (\<lambda>b. ''sha''), se_md5 = (\<lambda>b. ''md5''),
      se_backup = (\<lambda>p. no_backup), se_walk = example_walk name, se_gitignore = permissive_gitignore\<rparr>"

definition example_scan_options :: ScanOptions where
  "example_scan_options =
     \<lparr>so_global_excludes = [], so_absolute_excludes = [], so_max_file_size_bytes = 10,
      so_full_hash_max_bytes = 10, so_large_file_name_size_only_min_bytes = 10,
      so_scan_concurrency = 1, so_staging_dir = path_from ''/var/staging''\<rparr>"

definition example_scan_root :: ScanRoot where
  "example_scan_root =
     \<lparr>sn_id = ''r'', sn_local_path = path_from ''/d'', sn_canonical_remote_path = ''disk:/r'', sn_excludes = []\<rparr>"

definition example_scan :: "string \<Rightarrow> ScannerError + ScanReport" where
  "example_scan name = scan_root (example_scan_env name) example_scan_options example_scan_root []"

definition scan_report_of :: "ScannerError + ScanReport \<Rightarrow> ScanReport" where
  "scan_report_of r = (case r of Inl e \<Rightarrow> scan_report_new [] | Inr report \<Rightarrow> report)"

lemma example_scan_runs: "example_scan name = Inr (scan_report_of (example_scan name))"
  by (simp add: example_scan_def scan_root_def scan_context_new_def scan_report_of_def matcher_new_def
      example_scan_env_def example_scan_options_def example_scan_root_def permissive_gitignore_def)

lemma example_walker: "path_name name \<Longrightarrow> walker_ok (example_scan_env name) root"
  by (simp add: walker_ok_def walk_contract_def example_scan_env_def example_walk_def walked_def entry_reached_def)
    (simp add: path_name_def butlast_append)

lemma example_names: "ok name \<Longrightarrow> ok ''x.txt'' \<Longrightarrow> walk_names ok (example_scan_env name) root"
  by (auto simp: walk_names_def names_walked_def example_scan_env_def example_walk_def walked_def path_strip_prefix_Some_iff
      split: option.split)

lemma example_canonical: "remote_path_wf ''disk:/r''"
  unfolding remote_path_wf_def by (rule exI [of _ "[''r'']"]) code_simp

definition left_over :: "(string, ResourceMetadata) btree" where
  "left_over = inventory_of [resource_directory ''disk:/r'', resource_directory ''disk:/r/a'',
     resource_file ''disk:/r/a/x.txt'' 3, resource_file ''disk:/r/a/y.txt'' 3]"

lemma left_over_normal: "normal_inventory ''disk:/r'' left_over"
  by code_simp

lemma example_remote_paths:
  "map ld_remote_path (sc_directories (scan_report_of (example_scan ''a''))) = [''disk:/r/a''] \<and>
   map lf_remote_path (sc_files (scan_report_of (example_scan ''a''))) = [''disk:/r/a/x.txt'']"
  by code_simp

text \<open>
  A local directory whose name ends in white space. The path of the directory is trimmed as a whole,
  so its own remote path loses the blank; the paths of its entries keep it. The remote directory they
  lie in is then no live path, and is planned for deletion with the live files in it.
\<close>

theorem trailing_blank_directory_is_deleted:
  "map ld_remote_path (sc_directories (scan_report_of (example_scan ''a ''))) = [''disk:/r/a''] \<and>
   map lf_remote_path (sc_files (scan_report_of (example_scan ''a ''))) = [''disk:/r/a /x.txt''] \<and>
   collect_coalesced_delete_operations example_root_config ''disk:/r''
     (from_scan_report (\<lambda>p. True) (path_from ''/d'') (scan_report_of (example_scan ''a '')))
     (inventory_of [resource_directory ''disk:/r'', resource_directory ''disk:/r/a '', resource_file ''disk:/r/a /x.txt'' 3]) =
   [delete_operation ''r'' ''disk:/r'' ''disk:/r/a '' RtDirectory]"
  by (intro conjI) code_simp+

text \<open>With a file left over in that directory, a deletion is planned below another one.\<close>

lemma trailing_blank_deletions_nest:
  "map rd_remote_path (collect_coalesced_delete_operations example_root_config ''disk:/r''
     (from_scan_report (\<lambda>p. True) (path_from ''/d'') (scan_report_of (example_scan ''a '')))
     (inventory_of [resource_directory ''disk:/r'', resource_directory ''disk:/r/a '', resource_file ''disk:/r/a /x.txt'' 3,
        resource_file ''disk:/r/a /y.txt'' 3])) = [''disk:/r/a /y.txt'', ''disk:/r/a '']"
  by code_simp

lemma plain_a: "plain_name ''a''" "path_name ''a''" "no_backslash ''a''" "plain_name ''x.txt''" "no_backslash ''x.txt''"
  by code_simp+

theorem scan_deletions_exact_witness:
  "\<exists>op\<in>set (collect_coalesced_delete_operations example_root_config ''disk:/r''
      (from_scan_report (\<lambda>p. True) (path_from ''/d'') (scan_report_of (example_scan ''a''))) left_over).
     path_under (rd_remote_path op) ''disk:/r/a/y.txt''"
proof -
  have run: "scan_root (example_scan_env ''a'') example_scan_options example_scan_root [] =
      Inr (scan_report_of (example_scan ''a''))"
    using example_scan_runs by (simp add: example_scan_def)
  have root: "sn_canonical_remote_path example_scan_root = ''disk:/r''" "sn_local_path example_scan_root = path_from ''/d''"
    by (simp_all add: example_scan_root_def)
  have mem: "resource_file ''disk:/r/a/y.txt'' 3 \<in> set (bt_values left_over)"
    and del: "deletable ''disk:/r'' (rs_path (resource_file ''disk:/r/a/y.txt'' 3))"
    by code_simp+
  have path: "rs_path (resource_file ''disk:/r/a/y.txt'' 3) = ''disk:/r/a/y.txt''" by code_simp
  have "''disk:/r/a/y.txt'' \<notin> ld_remote_path ` set (sc_directories (scan_report_of (example_scan ''a'')))"
    "''disk:/r/a/y.txt'' \<notin> lf_remote_path ` set (sc_files (scan_report_of (example_scan ''a'')))"
    using example_remote_paths by (simp_all flip: list.set_map)
  then show ?thesis
    using scan_deletions_exact [OF run, of left_over "resource_file ''disk:/r/a/y.txt'' 3" example_root_config "\<lambda>p. True"]
      example_walker [OF plain_a(2)] example_names [of plain_name, OF plain_a(1,4)] example_canonical left_over_normal mem del
    unfolding root path by auto
qed


theorem scan_order_independent_witness:
  "sc_files (scan_report_of (scan_root ((example_scan_env ''a'')\<lparr>se_walk := \<lambda>root h. rev (example_walk ''a'' root h)\<rparr>)
      example_scan_options example_scan_root [])) = sc_files (scan_report_of (example_scan ''a''))"
proof -
  let ?w = "\<lambda>root h. rev (example_walk ''a'' root h)"
  have run: "scan_root (example_scan_env ''a'') example_scan_options example_scan_root [] =
      Inr (scan_report_of (example_scan ''a''))"
    using example_scan_runs by (simp add: example_scan_def)
  have run': "\<exists>r. scan_root ((example_scan_env ''a'')\<lparr>se_walk := ?w\<rparr>) example_scan_options example_scan_root [] = Inr r"
    using run by (auto simp: scan_root_def split: sum.splits)
  then obtain r where r: "scan_root ((example_scan_env ''a'')\<lparr>se_walk := ?w\<rparr>) example_scan_options example_scan_root [] = Inr r" ..
  have "sc_files (scan_report_of (example_scan ''a'')) = sc_files r"
    using scan_order_independent [OF example_walker [OF plain_a(2)] example_names [of no_backslash, OF plain_a(3,5)] _ run r] by (auto simp: example_scan_env_def)
  then show ?thesis by (simp add: r scan_report_of_def)
qed

theorem endless_sqlite_backup_is_given_up_witness:
  "Unstaged [''stage'', ''yds-sqlite-backup-r-u.sqlite''] \<in>
     set (snd (backup_sqlite_to_staging no_backup [''db.sqlite''] [''stage''] ''r''))"
proof -
  have "backup_staging_path [''stage''] ''r'' (ba_uuid no_backup) = [''stage'', ''yds-sqlite-backup-r-u.sqlite'']"
    by code_simp
  then show ?thesis
    using endless_sqlite_backup_is_given_up [of no_backup "[''db.sqlite'']" "[''stage'']" "''r''"]
    by (auto simp: no_backup_def)
qed

end
