(* ===== verification/Remote_Store.thy ===== *)
theory Remote_Store
  imports Delete_Plan Path_Mapping
begin

text \<open>
  What a client of the remote storage promises, over an abstract store: a map from remote paths to
  folders and documents. The locale \<open>remote_store\<close> states one law per operation of the interface
  \<open>YandexDiskClient\<close>; a failed operation leaves the store as it was. What follows from the laws
  alone, whichever client it is, is proved inside the locale.
\<close>

section \<open>Segments of remote paths\<close>

lemma remote_path_wf_iff:
  "remote_path_wf p \<longleftrightarrow> (\<exists>body. p = REMOTE_PREFIX @ body \<and> (\<forall>s\<in>set (split_slash body). clean_segment s))"
proof
  assume "remote_path_wf p"
  then obtain segs where segs: "segs \<noteq> []" "\<forall>s\<in>set segs. clean_segment s" "p = REMOTE_PREFIX @ str_join [slash] segs"
    by (auto simp: remote_path_wf_def)
  have "split_slash (str_join [slash] segs) = segs"
    using segs clean_no_slash by (intro str_split_join) blast+
  then show "\<exists>body. p = REMOTE_PREFIX @ body \<and> (\<forall>s\<in>set (split_slash body). clean_segment s)"
    using segs by auto
next
  assume "\<exists>body. p = REMOTE_PREFIX @ body \<and> (\<forall>s\<in>set (split_slash body). clean_segment s)"
  then obtain body where "p = REMOTE_PREFIX @ body" "\<forall>s\<in>set (split_slash body). clean_segment s" by blast
  then show "remote_path_wf p"
    unfolding remote_path_wf_def by (intro exI [of _ "split_slash body"]) auto
qed

lemma remote_path_wf_code [code]:
  "remote_path_wf p =
     (case strip_prefix REMOTE_PREFIX p of None \<Rightarrow> False | Some body \<Rightarrow> list_all clean_segment (split_slash body))"
  by (auto simp: remote_path_wf_iff list_all_iff strip_prefix_Some_iff strip_prefix_None_iff split: option.split)

lemma split_slash_append: "split_slash (a @ slash # b) = split_slash a @ split_slash b"
  by (induction a) (auto split: list.splits simp: neq_Nil_conv)

text \<open>Paths of something below the root of the disk, with any names.\<close>

definition addressable :: "string \<Rightarrow> bool" where
  "addressable p =
     (case strip_prefix REMOTE_PREFIX p of None \<Rightarrow> False | Some body \<Rightarrow> clean_segs (split_slash body))"

lemma remote_prefix: "REMOTE_PREFIX @ body = ''disk:'' @ slash # body"
  by (simp add: REMOTE_PREFIX_def)

lemma addressable_iff: "addressable p \<longleftrightarrow> (\<exists>segs. segs \<noteq> [] \<and> clean_segs segs \<and> p = join_path ''disk:'' segs)"
proof
  assume "addressable p"
  then obtain body where body: "p = REMOTE_PREFIX @ body" "clean_segs (split_slash body)"
    by (auto simp: addressable_def strip_prefix_Some_iff split: option.splits)
  have "p = join_path ''disk:'' (split_slash body)"
    using join_path_str_join [of "split_slash body" "''disk:''"] str_join_split [of slash body]
    by (simp add: body(1) remote_prefix)
  then show "\<exists>segs. segs \<noteq> [] \<and> clean_segs segs \<and> p = join_path ''disk:'' segs"
    using body(2) by (intro exI [of _ "split_slash body"]) simp
next
  assume "\<exists>segs. segs \<noteq> [] \<and> clean_segs segs \<and> p = join_path ''disk:'' segs"
  then obtain segs where segs: "segs \<noteq> []" "clean_segs segs" "p = join_path ''disk:'' segs" by blast
  then have "p = REMOTE_PREFIX @ str_join [slash] segs" by (simp add: join_path_str_join remote_prefix)
  moreover have "split_slash (str_join [slash] segs) = segs" using split_str_join [OF segs(2,1)] by simp
  moreover have "strip_prefix REMOTE_PREFIX (REMOTE_PREFIX @ str_join [slash] segs) = Some (str_join [slash] segs)"
    by (simp add: strip_prefix_Some_iff)
  ultimately show "addressable p" using segs(2) by (simp add: addressable_def)
qed

lemma addressable_join: "addressable p \<Longrightarrow> clean_segs segs \<Longrightarrow> addressable (join_path p segs)"
proof -
  assume "addressable p" "clean_segs segs"
  then obtain front where front: "front \<noteq> []" "clean_segs front" "p = join_path ''disk:'' front"
    by (auto simp: addressable_iff)
  have "join_path p segs = join_path ''disk:'' (front @ segs)" using front(3) by (simp add: join_path_def)
  then show ?thesis
    unfolding addressable_iff using front(1,2) \<open>clean_segs segs\<close> by (metis append_is_Nil_conv clean_segs_simps(3))
qed

lemma clean_segment_segs: "\<forall>s\<in>set segs. clean_segment s \<Longrightarrow> clean_segs segs"
  by (auto simp: clean_segs_def clean_segment_def keep_remote_char_def)

lemma addressable_wf:
  assumes "remote_path_wf p" shows "addressable p"
proof -
  obtain segs where "segs \<noteq> []" "\<forall>s\<in>set segs. clean_segment s" "p = REMOTE_PREFIX @ str_join [slash] segs"
    using assms by (auto simp: remote_path_wf_def)
  then show ?thesis
    unfolding addressable_iff using clean_segment_segs
    by (intro exI [of _ segs]) (auto simp: join_path_str_join remote_prefix)
qed

lemma addressable_trim:
  assumes "addressable p" shows "trim_end_slash p = p"
proof -
  obtain segs where segs: "segs \<noteq> []" "clean_segs segs" "p = join_path ''disk:'' segs"
    using assms by (auto simp: addressable_iff)
  then have p: "p = ''disk:'' @ slash # str_join [slash] segs" by (simp add: join_path_str_join)
  have "str_join [slash] segs \<noteq> []" "last (str_join [slash] segs) = last (last segs)"
    using segs(1,2) join_not_Nil last_join by (auto simp: clean_segs_def)
  moreover have "last segs \<noteq> [] \<and> slash \<notin> set (last segs)" using segs(1,2) by (auto simp: clean_segs_def)
  then have "last (last segs) \<noteq> slash" by (metis last_in_set)
  ultimately show ?thesis unfolding p by (intro trim_end_slash_ident) auto
qed

section \<open>The abstract store\<close>

datatype entry = Folder | Doc "8 word list"

type_synonym store = "string \<Rightarrow> entry option"

definition entry_type :: "entry \<Rightarrow> ResourceType" where
  "entry_type e = (case e of Folder \<Rightarrow> RtDirectory | Doc content \<Rightarrow> RtFile)"

definition strictly_under :: "string \<Rightarrow> string \<Rightarrow> bool" where
  "strictly_under p q = (path_under p q \<and> q \<noteq> p)"

text \<open>What an operation on a path reaches: the path, and everything below if it is a folder.\<close>

definition reaches :: "store \<Rightarrow> string \<Rightarrow> string \<Rightarrow> bool" where
  "reaches \<sigma> p q = (q = p \<or> \<sigma> p = Some Folder \<and> path_under p q)"

definition delete_tree :: "string \<Rightarrow> store \<Rightarrow> store" where
  "delete_tree p \<sigma> = (\<lambda>q. if reaches \<sigma> p q then None else \<sigma> q)"

definition rebase :: "string \<Rightarrow> string \<Rightarrow> string \<Rightarrow> string" where
  "rebase from' to' q = to' @ drop (length from') q"

definition copy_tree :: "string \<Rightarrow> string \<Rightarrow> store \<Rightarrow> store" where
  "copy_tree from' to' \<sigma> = (\<lambda>q.
     if path_under to' q \<and> reaches \<sigma> from' (rebase to' from' q) \<and> \<sigma> (rebase to' from' q) \<noteq> None
     then \<sigma> (rebase to' from' q) else \<sigma> q)"

definition move_tree :: "string \<Rightarrow> string \<Rightarrow> store \<Rightarrow> store" where
  "move_tree from' to' \<sigma> = (\<lambda>q. if reaches \<sigma> from' q then None else copy_tree from' to' \<sigma> q)"

definition listed :: "string \<Rightarrow> string list \<Rightarrow> string \<Rightarrow> bool" where
  "listed root prune_prefixes q =
     (strictly_under root q \<and> \<not> list_ex (\<lambda>p. strictly_under (trim_end_slash p) q) prune_prefixes)"

section \<open>The laws of a client\<close>

text \<open>
  What a call that changes the store leaves. A call that reports an error may have been carried out all
  the same: the answer can be lost on the way.
\<close>

definition settled :: "'e + 'a \<Rightarrow> store \<Rightarrow> store \<Rightarrow> store \<Rightarrow> bool" where
  "settled r before after now = (case r of Inl e \<Rightarrow> now = before \<or> now = after | Inr _ \<Rightarrow> now = after)"

lemma settled_simps [simp]:
  "settled (Inl e) before after now = (now = before \<or> now = after)"
  "settled (Inr x) before after now = (now = after)"
  by (simp_all add: settled_def)

locale remote_store =
  fixes client :: "'w disk_client" and store :: "'w \<Rightarrow> store" and ok :: "'w \<Rightarrow> bool"
  assumes create_directory:
    "ok w \<Longrightarrow> remote_path_wf p \<Longrightarrow> dc_create_directory client p w = (r, w') \<Longrightarrow>
     ok w' \<and> settled r (store w) ((store w)(p \<mapsto> Folder)) (store w')"
  and upload_bytes:
    "ok w \<Longrightarrow> remote_path_wf p \<Longrightarrow> upload client p content overwrite w = (r, w') \<Longrightarrow>
     ok w' \<and> settled r (store w) ((store w)(p \<mapsto> Doc content)) (store w')"
  and delete_permanently:
    "ok w \<Longrightarrow> addressable p \<Longrightarrow> dc_delete_permanently client p w = (r, w') \<Longrightarrow>
     ok w' \<and> settled r (store w) (delete_tree p (store w)) (store w') \<and>
     (case r of Inl e \<Rightarrow> ye_kind e = YkNotFound \<longrightarrow> store w' = delete_tree p (store w) | Inr _ \<Rightarrow> True)"
  and copy_resource:
    "ok w \<Longrightarrow> remote_path_wf p \<Longrightarrow> remote_path_wf q \<Longrightarrow> \<not> path_under p q \<Longrightarrow> \<not> path_under q p \<Longrightarrow>
     dc_copy_resource client p q overwrite w = (r, w') \<Longrightarrow>
     ok w' \<and> settled r (store w) (copy_tree p q (store w)) (store w')"
  and move_resource:
    "ok w \<Longrightarrow> remote_path_wf p \<Longrightarrow> remote_path_wf q \<Longrightarrow> \<not> path_under p q \<Longrightarrow> \<not> path_under q p \<Longrightarrow>
     dc_move_resource client p q overwrite w = (r, w') \<Longrightarrow>
     ok w' \<and> settled r (store w) (move_tree p q (store w)) (store w')"
  and list_with_options:
    "ok w \<Longrightarrow> addressable p \<Longrightarrow> dc_list_recursive_with_options client p prune w = (found, w') \<Longrightarrow>
     ok w' \<and> store w' = store w \<and>
     (case found of Inl e \<Rightarrow> True
      | Inr rs \<Rightarrow> sorted_wrt (<) (map rs_path rs) \<and>
          (\<forall>q t. (\<exists>x\<in>set rs. rs_path x = q \<and> rs_resource_type x = t) \<longleftrightarrow>
             listed p prune q \<and> map_option entry_type (store w q) = Some t))"
  and metadata:
    "ok w \<Longrightarrow> addressable p \<Longrightarrow> dc_metadata client p w = (res, w') \<Longrightarrow>
     ok w' \<and> store w' = store w \<and>
     (case res of Inl e \<Rightarrow> ye_kind e = YkNotFound \<longrightarrow> store w p = None
      | Inr x \<Rightarrow> rs_path x = p \<and> map_option entry_type (store w p) = Some (rs_resource_type x))"
  and download:
    "ok w \<Longrightarrow> addressable p \<Longrightarrow> dc_download client p w = (data, w') \<Longrightarrow>
     ok w' \<and> store w' = store w \<and> (case data of Inl e \<Rightarrow> True | Inr c \<Rightarrow> store w p = Some Folder \<or> store w p = Some (Doc c))"
begin

text \<open>What was uploaded is what is downloaded, until something is stored over it.\<close>

lemma download_after_upload:
  assumes "ok w" "remote_path_wf p" "upload client p content overwrite w = (Inr (), w')"
    and "dc_download client p w' = (Inr c, w'')"
  shows "c = content"
  using upload_bytes [OF assms(1-3)] download [OF _ addressable_wf [OF assms(2)] assms(4)] by auto

lemma listing_after_delete:
  assumes "ok w" "addressable p" "dc_delete_permanently client p w = (Inr u, w')"
    and "addressable root" "dc_list_recursive_with_options client root prune w' = (Inr rs, w'')"
    and "x \<in> set rs"
  shows "\<not> reaches (store w) p (rs_path x)"
  using delete_permanently [OF assms(1-3)] list_with_options [OF _ assms(4,5)] assms(6)
  by (fastforce simp: delete_tree_def split: if_splits)

end

text \<open>A client whose errors mean that nothing was done.\<close>

locale exact_store = remote_store +
  assumes failed_create:
    "ok w \<Longrightarrow> remote_path_wf p \<Longrightarrow> dc_create_directory client p w = (Inl e, w') \<Longrightarrow> store w' = store w"
  and failed_upload:
    "ok w \<Longrightarrow> remote_path_wf p \<Longrightarrow> upload client p content overwrite w = (Inl e, w') \<Longrightarrow> store w' = store w"
  and failed_delete:
    "ok w \<Longrightarrow> addressable p \<Longrightarrow> dc_delete_permanently client p w = (Inl e, w') \<Longrightarrow> store w' = store w"
  and failed_copy:
    "ok w \<Longrightarrow> remote_path_wf p \<Longrightarrow> remote_path_wf q \<Longrightarrow> \<not> path_under p q \<Longrightarrow> \<not> path_under q p \<Longrightarrow>
     dc_copy_resource client p q overwrite w = (Inl e, w') \<Longrightarrow> store w' = store w"
  and failed_move:
    "ok w \<Longrightarrow> remote_path_wf p \<Longrightarrow> remote_path_wf q \<Longrightarrow> \<not> path_under p q \<Longrightarrow> \<not> path_under q p \<Longrightarrow>
     dc_move_resource client p q overwrite w = (Inl e, w') \<Longrightarrow> store w' = store w"

section \<open>Facts on the abstract operations\<close>

text \<open>In a tree every entry lies in folders, all the way up from it to the paths managed.\<close>

definition tree_shaped :: "store \<Rightarrow> bool" where
  "tree_shaped \<sigma> = (\<forall>p q. strictly_under p q \<longrightarrow> \<sigma> q \<noteq> None \<longrightarrow> \<sigma> p \<noteq> None \<longrightarrow> \<sigma> p = Some Folder)"

lemma delete_tree_absent: "\<sigma> p = None \<Longrightarrow> delete_tree p \<sigma> = \<sigma>"
  by (auto simp: delete_tree_def reaches_def fun_eq_iff)

lemma reaches_tree: "tree_shaped \<sigma> \<Longrightarrow> \<sigma> p \<noteq> None \<Longrightarrow> \<sigma> q \<noteq> None \<Longrightarrow> reaches \<sigma> p q \<longleftrightarrow> path_under p q"
  by (auto simp: reaches_def tree_shaped_def strictly_under_def)

lemma delete_tree_shaped: "tree_shaped \<sigma> \<Longrightarrow> tree_shaped (delete_tree p \<sigma>)"
  by (auto simp: tree_shaped_def delete_tree_def split: if_splits)

lemma strictly_under_iff: "strictly_under p q \<longleftrightarrow> (\<exists>r. q = p @ slash # r)"
  by (auto simp: strictly_under_def path_under_iff)

lemma rebase_under: "path_under from' q \<Longrightarrow> path_under to' (rebase from' to' q)"
  by (auto simp: path_under_iff rebase_def)

lemma rebase_rebase: "path_under from' q \<Longrightarrow> rebase to' from' (rebase from' to' q) = q"
  by (auto simp: path_under_iff rebase_def)

lemma rebase_self: "rebase from' to' from' = to'"
  by (simp add: rebase_def)

text \<open>Moving an entry where nothing was and back again restores the store.\<close>

lemma move_and_back:
  assumes "\<not> path_under p q" "\<not> path_under q p" "\<sigma> p \<noteq> None"
    and "\<And>x. path_under q x \<Longrightarrow> \<sigma> x = None"
    and "\<sigma> p = Some Folder \<or> (\<forall>x. strictly_under p x \<longrightarrow> \<sigma> x = None)"
  shows "move_tree q p (move_tree p q \<sigma>) = \<sigma>"
proof -
  have apart: "\<not> path_under p x" if "path_under q x" for x
    using that assms(1,2) path_under_linear by blast
  let ?m = "move_tree p q \<sigma>"
  have at: "?m x = \<sigma> (rebase q p x)" if "path_under q x" for x
  proof -
    have "path_under p (rebase q p x)" using that by (rule rebase_under)
    then show ?thesis
      using apart [OF that] that assms(4,5) by (auto simp: move_tree_def copy_tree_def reaches_def strictly_under_def)
  qed
  have off: "?m x = (if path_under p x then None else \<sigma> x)" if "\<not> path_under q x" for x
    using that assms(5) by (auto simp: move_tree_def copy_tree_def reaches_def strictly_under_def)
  have root: "?m q = \<sigma> p" using at [of q] by (simp add: rebase_self)
  have "move_tree q p ?m x = \<sigma> x" for x
  proof (cases "path_under q x")
    case True
    then have "\<sigma> x = None" by (rule assms(4))
    moreover have "\<not> path_under p x" by (rule apart [OF True])
    moreover have "\<sigma> (rebase q p x) = None" if "\<not> reaches ?m q x"
      using that True root assms(5) rebase_under [OF True, of p]
      by (auto simp: reaches_def strictly_under_def) (metis rebase_rebase rebase_self)
    ultimately show ?thesis
      using at [OF True] by (auto simp: move_tree_def copy_tree_def)
  next
    case False
    then have nr: "\<not> reaches ?m q x" by (auto simp: reaches_def)
    show ?thesis
    proof (cases "path_under p x")
      case True
      have u: "path_under q (rebase p q x)" using True by (rule rebase_under)
      have there: "?m (rebase p q x) = \<sigma> x" using at [OF u] True by (simp add: rebase_rebase)
      show ?thesis
      proof (cases "\<sigma> x = None")
        case True
        then show ?thesis
          using nr off [OF False] there \<open>path_under p x\<close> by (simp add: move_tree_def copy_tree_def)
      next
        case filled: False
        have "reaches ?m q (rebase p q x)"
          using filled assms(5) True root u by (auto simp: reaches_def strictly_under_def rebase_self)
        then show ?thesis
          using nr True there filled by (simp add: move_tree_def [of q p] copy_tree_def)
      qed
    next
      case outside: False
      then show ?thesis using nr off [OF False] by (simp add: move_tree_def copy_tree_def)
    qed
  qed
  then show ?thesis by blast
qed

end
