(* ===== verification/Sync_Mirror.thy ===== *)
theory Sync_Mirror
  imports Remote_Store Sync_Props Scan_Props
begin

text \<open>
  The engine over a client that keeps the laws of \<open>remote_store\<close>: what the deletions of a root
  leave on the remote. Together with the plan of deletions: of what the inventory lists below the
  managed path, exactly what is live.
\<close>

section \<open>Purging\<close>

definition purge :: "string \<Rightarrow> store \<Rightarrow> store" where
  "purge p \<sigma> = (\<lambda>q. if path_under p q then None else \<sigma> q)"

text \<open>Below the managed path every entry lies in folders.\<close>

definition folders_below :: "string \<Rightarrow> store \<Rightarrow> bool" where
  "folders_below base \<sigma> =
     (\<forall>p q. strictly_under base p \<longrightarrow> strictly_under p q \<longrightarrow> \<sigma> q \<noteq> None \<longrightarrow> \<sigma> p = Some Folder)"

lemma delete_tree_purge:
  "folders_below base \<sigma> \<Longrightarrow> strictly_under base p \<Longrightarrow> delete_tree p \<sigma> = purge p \<sigma>"
  by (auto simp: delete_tree_def purge_def reaches_def folders_below_def strictly_under_def fun_eq_iff)

lemma purge_absent: "folders_below base \<sigma> \<Longrightarrow> strictly_under base p \<Longrightarrow> \<sigma> p = None \<Longrightarrow> purge p \<sigma> = \<sigma>"
  unfolding purge_def folders_below_def strictly_under_def fun_eq_iff by (metis option.distinct(1))

lemma folders_below_purge: "folders_below base \<sigma> \<Longrightarrow> folders_below base (purge p \<sigma>)"
  using path_under_trans by (auto simp: folders_below_def purge_def strictly_under_def)

lemma fold_purge: "fold purge ps \<sigma> q = (if \<exists>p\<in>set ps. path_under p q then None else \<sigma> q)"
  by (induction ps arbitrary: \<sigma>) (auto simp: purge_def)

section \<open>One deletion\<close>

definition has_store :: "('w \<Rightarrow> bool) \<Rightarrow> ('w \<Rightarrow> store) \<Rightarrow> store \<Rightarrow> 'w \<Rightarrow> bool" where
  "has_store ok store \<sigma> w = (ok w \<and> store w = \<sigma>)"

abbreviation at_store :: "('w \<Rightarrow> bool) \<Rightarrow> ('w \<Rightarrow> store) \<Rightarrow> store \<Rightarrow> rowid \<Rightarrow> 'w sync_state \<Rightarrow> bool" where
  "at_store ok store \<sigma> \<equiv> engine_ok (has_store ok store \<sigma>) (\<lambda>_. True)"

text \<open>Calls that read do not change the store.\<close>

definition reads_only :: "'w sync_env \<Rightarrow> ('w \<Rightarrow> bool) \<Rightarrow> ('w \<Rightarrow> store) \<Rightarrow> bool" where
  "reads_only env ok store = (\<forall>\<sigma>. engine_reads (\<lambda>_. True) env (has_store ok store \<sigma>))"

text \<open>What holds of the result and the state a step returns with, if it returns normally.\<close>

definition leads :: "('s \<Rightarrow> bool) \<Rightarrow> ('s, 'e, 'a) m \<Rightarrow> ('a \<Rightarrow> 's \<Rightarrow> bool) \<Rightarrow> bool" where
  "leads P f Q = (\<forall>s x s'. P s \<longrightarrow> f s = (Inr x, s') \<longrightarrow> Q x s')"

lemma leads_bindM: "leads P f R \<Longrightarrow> (\<And>x. leads (R x) (g x) Q) \<Longrightarrow> leads P (bindM f g) Q"
  unfolding leads_def bindM_Inr by blast

lemma leads_seqM: "leads P f (\<lambda>x. R) \<Longrightarrow> leads R g Q \<Longrightarrow> leads P (seqM f g) Q"
  unfolding seqM_def by (rule leads_bindM) simp_all

lemma leads_ret: "(\<And>s. P s \<Longrightarrow> Q x s) \<Longrightarrow> leads P (ret x) Q"
  by (auto simp: leads_def ret_def)

lemma leads_keeps: "keeps P f \<Longrightarrow> leads P f (\<lambda>x. P)"
  by (auto simp: leads_def keeps_def)

lemma leads_yields: "yields Q f \<Longrightarrow> leads P f (\<lambda>x s. Q x)"
  by (auto simp: leads_def yields_def)

lemma leads_weaken: "leads P f Q \<Longrightarrow> (\<And>x s. Q x s \<Longrightarrow> R x s) \<Longrightarrow> leads P f R"
  by (auto simp: leads_def)

lemma leads_conj: "leads P f Q \<Longrightarrow> leads P f R \<Longrightarrow> leads P f (\<lambda>x s. Q x s \<and> R x s)"
  by (auto simp: leads_def)

lemma leads_stronger: "leads P f Q \<Longrightarrow> (\<And>s. R s \<Longrightarrow> P s) \<Longrightarrow> leads R f Q"
  by (auto simp: leads_def)

definition failed :: "bool \<times> RootSyncSummary \<Rightarrow> bool" where
  "failed x = (rt_error_summary (snd x) \<noteq> None)"

lemma delete_failed_error: "yields failed (delete_failed env n root base operation delete j e rs)"
  unfolding delete_failed_def Let_def by (auto intro!: yields_seqM simp: failed_def)

text \<open>A step either records an error or has removed the path and what lies below it.\<close>

definition removed ::
  "('w \<Rightarrow> bool) \<Rightarrow> ('w \<Rightarrow> store) \<Rightarrow> store \<Rightarrow> rowid \<Rightarrow> RootSyncSummary \<Rightarrow> bool \<times> RootSyncSummary \<Rightarrow>
   'w sync_state \<Rightarrow> bool" where
  "removed ok store \<sigma> i rs x s =
     (failed x \<or>
      rt_error_summary (snd x) = rt_error_summary rs \<and> \<not> fst x \<and> at_store ok store \<sigma> i s)"

lemma leads_failed:
  "leads P (delete_failed env n root base operation delete j e rs) (removed ok store \<sigma> i rs')"
  by (rule leads_weaken [OF leads_yields [OF delete_failed_error]]) (simp add: removed_def)

lemma leads_removed:
  "(\<And>s. P s \<Longrightarrow> at_store ok store \<sigma> i s) \<Longrightarrow> rt_error_summary rs' = rt_error_summary rs \<Longrightarrow>
   leads P (ret (False, rs')) (removed ok store \<sigma> i rs)"
  by (rule leads_ret) (simp add: removed_def)

context engine_reads begin

lemma mark_deleted_record_keeps: "keeps ok (mark_remote_deleted env n delete)"
  unfolding mark_remote_deleted_def by (auto intro!: calls split: ResourceType.split)

end

lemma delete_remote_removes:
  assumes contract: "remote_store (ev_client env) store ok" and reads: "reads_only env ok store"
    and below: "folders_below base \<sigma>" "strictly_under base (rd_remote_path delete)"
    and place: "addressable (rd_remote_path delete)"
  shows "leads (at_store ok store \<sigma> i) (delete_remote env n root summary delete j rs)
    (removed ok store (purge (rd_remote_path delete) \<sigma>) i rs)"
proof -
  let ?p = "rd_remote_path delete" and ?after = "at_store ok store (purge (rd_remote_path delete) \<sigma>) i"
  have reads': "engine_reads (\<lambda>_. True) env (has_store ok store \<tau>)" for \<tau>
    using reads by (simp add: reads_only_def)
  have call: "leads (at_store ok store \<sigma> i) (world_call (dc_delete_permanently (ev_client env) ?p))
      (\<lambda>r s. case r of Inl e \<Rightarrow> (ye_kind e = YkNotFound \<longrightarrow> ?after s) | Inr _ \<Rightarrow> ?after s)"
    unfolding leads_def
  proof (intro allI impI)
    fix s r s' assume s: "at_store ok store \<sigma> i s"
      and run: "world_call (dc_delete_permanently (ev_client env) ?p) s = (Inr r, s')"
    then have c: "dc_delete_permanently (ev_client env) ?p (st_world s) = (r, st_world s')"
      and s': "st_report s' = st_report s"
      by (auto simp: world_call_def split: prod.splits)
    have "ok (st_world s)" "store (st_world s) = \<sigma>" using s by (auto simp: engine_ok_def has_store_def)
    then show "case r of Inl e \<Rightarrow> (ye_kind e = YkNotFound \<longrightarrow> ?after s') | Inr _ \<Rightarrow> ?after s'"
      using remote_store.delete_permanently [OF contract _ place c] s s'
        delete_tree_purge [OF below] purge_absent [OF below]
      by (auto simp: engine_ok_def has_store_def split: sum.split)
  qed
  note keep = engine_reads.mark_deleted_record_keeps [OF reads'] engine_reads.persist_root_progress_keeps [OF reads']
    engine_reads.repo_at_keeps [OF reads'] engine_reads.repo_keeps [OF reads']
    engine_reads.statements [OF reads']
  show ?thesis
    unfolding delete_remote_def
    by (rule leads_bindM [OF call])
      (auto simp: Let_def split: sum.split intro!: leads_failed leads_removed leads_seqM [OF leads_keeps] keep)
qed

lemma delete_step_removes:
  assumes contract: "remote_store (ev_client env) store ok" and reads: "reads_only env ok store"
    and below: "folders_below base \<sigma>" "strictly_under base (rd_remote_path delete)"
    and place: "addressable (rd_remote_path delete)"
  shows "leads (at_store ok store \<sigma> i) (delete_step env n root from_cache summary delete rs)
    (removed ok store (purge (rd_remote_path delete) \<sigma>) i rs)"
proof -
  let ?p = "rd_remote_path delete" and ?after = "at_store ok store (purge (rd_remote_path delete) \<sigma>) i"
  have reads': "engine_reads (\<lambda>_. True) env (has_store ok store \<tau>)" for \<tau>
    using reads by (simp add: reads_only_def)
  have look: "leads (at_store ok store \<sigma> i) (world_call (dc_metadata (ev_client env) ?p))
      (\<lambda>r s. case r of Inl e \<Rightarrow> (ye_kind e = YkNotFound \<longrightarrow> ?after s) | Inr _ \<Rightarrow> at_store ok store \<sigma> i s)"
    unfolding leads_def
  proof (intro allI impI)
    fix s r s' assume s: "at_store ok store \<sigma> i s"
      and run: "world_call (dc_metadata (ev_client env) ?p) s = (Inr r, s')"
    then have c: "dc_metadata (ev_client env) ?p (st_world s) = (r, st_world s')"
      and s': "st_report s' = st_report s"
      by (auto simp: world_call_def split: prod.splits)
    have "ok (st_world s)" "store (st_world s) = \<sigma>" using s by (auto simp: engine_ok_def has_store_def)
    then show "case r of Inl e \<Rightarrow> (ye_kind e = YkNotFound \<longrightarrow> ?after s') | Inr _ \<Rightarrow> at_store ok store \<sigma> i s'"
      using remote_store.metadata [OF contract _ place c] s s' purge_absent [OF below]
      by (auto simp: engine_ok_def has_store_def split: sum.splits)
  qed
  note keep = engine_reads.repo_at_keeps [OF reads'] engine_reads.repo_keeps [OF reads']
    engine_reads.statements [OF reads']
  show ?thesis
    unfolding delete_step_def
    by (rule leads_bindM [OF leads_keeps], intro keep)
      (auto split: sum.split intro!: leads_bindM [OF look] leads_failed leads_removed leads_seqM [OF leads_keeps]
        keep delete_remote_removes [OF contract reads below place])
qed

lemma failed_simps [simp]:
  "failed (b, rs\<lparr>rt_deleted_files := k\<rparr>) = failed (True, rs)" "failed (False, rs) = failed (True, rs)"
  by (simp_all add: failed_def)

lemma delete_step_sticky:
  assumes "failed (True, rs)"
  shows "yields failed (delete_step env n root from_cache summary delete rs)"
proof -
  have "yields failed (delete_remote env n root summary delete j rs)" for j
    unfolding delete_remote_def Let_def
    using assms by (auto intro!: yields_plain delete_failed_error split: sum.split)
  then show ?thesis
    unfolding delete_step_def
    using assms by (auto intro!: yields_plain delete_failed_error split: sum.split)
qed

lemma delete_loop_sticky:
  "failed (True, rs) \<Longrightarrow> yields failed (delete_loop env n root from_cache summary deletes rs)"
proof (induction deletes arbitrary: rs)
  case (Cons delete deletes)
  have "yields failed (if stop then ret (True, rs') else delete_loop env n root from_cache summary deletes rs')"
    if "failed (stop, rs')" for stop rs'
    using that Cons.IH [of rs'] by (cases stop) auto
  then show ?case
    using Cons.prems by (auto intro!: yields_plain yields_bindM [OF delete_step_sticky] split: prod.split)
qed simp

lemma delete_loop_removes:
  assumes contract: "remote_store (ev_client env) store ok" and reads: "reads_only env ok store"
    and "folders_below base \<sigma>"
    and "\<forall>delete\<in>set deletes. strictly_under base (rd_remote_path delete) \<and>
      addressable (rd_remote_path delete)"
  shows "leads (at_store ok store \<sigma> i) (delete_loop env n root from_cache summary deletes rs)
    (\<lambda>x s. \<not> fst x \<and> \<not> failed x \<longrightarrow>
       at_store ok store (fold purge (map rd_remote_path deletes) \<sigma>) i s)"
  using assms(3,4)
proof (induction deletes arbitrary: \<sigma> rs)
  case (Cons delete deletes)
  let ?p = "rd_remote_path delete"
  have reads': "engine_reads (\<lambda>_. True) env (has_store ok store \<tau>)" for \<tau>
    using reads by (simp add: reads_only_def)
  have step: "leads (at_store ok store \<sigma> i) (delete_step env n root from_cache summary delete rs)
      (removed ok store (purge ?p \<sigma>) i rs)"
    using Cons.prems by (intro delete_step_removes [OF contract reads]) auto
  have rest: "leads (removed ok store (purge ?p \<sigma>) i rs (stop, rs'))
      (if stop then ret (True, rs') else delete_loop env n root from_cache summary deletes rs')
      (\<lambda>x s. \<not> fst x \<and> \<not> failed x \<longrightarrow>
         at_store ok store (fold purge (map rd_remote_path (delete # deletes)) \<sigma>) i s)" for stop rs'
  proof (cases "stop \<or> failed (stop, rs')")
    case True
    then have "stop \<or> failed (True, rs')" by (cases stop) auto
    then show ?thesis
      using leads_weaken [OF leads_yields [OF delete_loop_sticky [of rs' env n root from_cache summary deletes]]]
      by (auto intro!: leads_ret)
  next
    case False
    have "folders_below base (purge ?p \<sigma>)" using Cons.prems by (simp add: folders_below_purge)
    from Cons.IH [OF this, of rs'] have "leads (at_store ok store (purge ?p \<sigma>) i)
      (delete_loop env n root from_cache summary deletes rs')
      (\<lambda>x s. \<not> fst x \<and> \<not> failed x \<longrightarrow>
         at_store ok store (fold purge (map rd_remote_path deletes) (purge ?p \<sigma>)) i s)"
      using Cons.prems by auto
    then show ?thesis
      using False by (auto simp: removed_def elim!: leads_stronger)
  qed
  show ?case
    unfolding delete_loop.simps
    by (rule leads_bindM [OF leads_keeps [OF engine_reads.cancelled_keeps [OF reads']]])
      (auto intro!: leads_ret leads_bindM [OF step] rest [where stop = True, simplified]
        rest [where stop = False, simplified] split: prod.split)
qed (auto intro: leads_ret)

section \<open>What a root holds after its deletions\<close>

lemma remote_path_wf_below:
  assumes "remote_path_wf base" "remote_path_wf q" "strictly_under base q"
  obtains segs where "segs \<noteq> []" "\<forall>s\<in>set segs. clean_segment s" "q = join_path base segs"
proof -
  obtain r where r: "q = base @ slash # r" using assms(3) by (auto simp: strictly_under_iff)
  obtain a where a: "base = REMOTE_PREFIX @ a" using assms(1) by (auto simp: remote_path_wf_def)
  obtain segs where segs: "segs \<noteq> []" "\<forall>s\<in>set segs. clean_segment s" "q = REMOTE_PREFIX @ str_join [slash] segs"
    using assms(2) by (auto simp: remote_path_wf_def)
  have "split_slash (str_join [slash] segs) = segs" using segs clean_no_slash by (intro str_split_join) blast+
  moreover have "str_join [slash] segs = a @ slash # r" using segs(3) unfolding r a by simp
  ultimately have "split_slash a @ split_slash r = segs" by (simp add: split_slash_append)
  then have clean: "\<forall>s\<in>set (split_slash r). clean_segment s" using segs(2) by auto
  have "q = join_path base (split_slash r)"
    using r join_path_str_join [of "split_slash r" base] str_join_split [of slash r] by simp
  then show thesis using that [of "split_slash r"] clean by simp
qed

lemma ascii_lower_colon: "CHR '':'' = ascii_lower_char c \<Longrightarrow> c = CHR '':''"
proof -
  assume l: "CHR '':'' = ascii_lower_char c"
  show "c = CHR '':''"
  proof (cases "65 \<le> code c \<and> code c \<le> 90")
    case True
    then have "code (CHR '':'') = code c + 32"
      using l by (simp add: ascii_lower_char_def code_char_of)
    moreover have "code (CHR '':'') = 58" by code_simp
    ultimately show ?thesis using True by simp
  qed (use l in \<open>auto simp: ascii_lower_char_def Let_def\<close>)
qed

lemma wf_normal_path:
  assumes "remote_path_wf base" "remote_path_wf q" "strictly_under base q"
  shows "normal_path base q" "deletable base q"
proof -
  obtain segs where segs: "segs \<noteq> []" "\<forall>s\<in>set segs. clean_segment s" "q = join_path base segs"
    using remote_path_wf_below [OF assms] .
  note clean = clean_segment_segs [OF segs(2)] and trim = remote_path_wf_trim [OF assms(1)]
  show "normal_path base q" unfolding segs(3) by (rule normal_join [OF trim clean segs(1)])
  have q: "q = base @ slash # str_join ''/'' segs" using segs(1,3) by (simp add: join_path_str_join)
  have split: "split_slash (str_join ''/'' segs) = segs" by (rule split_str_join [OF clean segs(1)])
  have "\<not> eq_ignore_ascii_case s ''disk:''" if "s \<in> set segs" for s
  proof
    assume "eq_ignore_ascii_case s ''disk:''"
    then have "CHR '':'' \<in> set (map ascii_lower_char s)"
      unfolding eq_ignore_ascii_case_def to_ascii_lowercase_def by (simp add: ascii_lower_char_def code_def)
    then have "CHR '':'' \<in> set s" by (auto dest: ascii_lower_colon)
    then show False
      using segs(2) that by (auto simp: clean_segment_def keep_remote_char_def RESERVED_REMOTE_CHARS_def)
  qed
  then have no_disk: "\<not> list_ex (\<lambda>s. eq_ignore_ascii_case s ''disk:'') segs" by (auto simp: list_ex_iff)
  have strip: "strip_prefix (base @ ''/'') q = Some (str_join ''/'' segs)"
    by (simp add: strip_prefix_Some_iff q)
  have "str_join ''/'' segs \<noteq> []"
    using segs(1,2) by (intro join_not_Nil) (auto simp: clean_segment_def)
  then show "deletable base q"
    unfolding deletable_def remote_delete_candidate_relative_path_def trim
    using assms(3) strip no_disk split by (simp add: strictly_under_def)
qed

lemma deletable_below: "trim_end_slash base = base \<Longrightarrow> deletable base q \<Longrightarrow> strictly_under base q"
  by (auto simp: deletable_def remote_delete_candidate_relative_path_def Let_def strictly_under_iff strip_prefix_Some_iff
      split: if_splits option.splits)

lemma wf_inventory_normal:
  assumes "remote_path_wf base" "\<forall>r\<in>set (bt_values inventory). remote_path_wf (rs_path r)"
  shows "normal_inventory base inventory"
  using assms deletable_below [OF remote_path_wf_trim [OF assms(1)]] wf_normal_path(1) [OF assms(1)]
  by (auto simp: normal_inventory_def)

lemma normal_path_addressable:
  assumes "remote_path_wf base" "normal_path base q" "q \<noteq> base"
  shows "strictly_under base q \<and> addressable q"
proof -
  obtain segs where segs: "segs \<noteq> []" "clean_segs segs" "q = join_path base segs"
    using assms(2) by (rule normalE)
  have q: "q = base @ slash # str_join ''/'' segs" using segs(1,3) by (simp add: join_path_str_join)
  have "addressable q" unfolding segs(3) by (rule addressable_join [OF addressable_wf [OF assms(1)] segs(2)])
  then show ?thesis using q by (auto simp: strictly_under_iff)
qed

text \<open>
  C1. Over any client that keeps the laws of the remote storage, the deletions of a root bring the remote
  into line with the live paths, as far as the inventory goes. When the phase ends normally without an error,
  a path outside the managed path, or live, holds what it held; any other path that held nothing or is a
  candidate of the inventory holds nothing; and one that was stored but that the inventory does not list (a
  stale one, from the cache) is as it was or went with a directory above it. So with everything stored below the
  managed path listed or live, exactly what is live remains. It rests on the live paths forming a
  tree (\<open>live_tree\<close>, which \<open>scan_live_tree\<close> gives for a scan without trailing blanks and backslashes in
  names), on candidates made of non-empty segments (\<open>normal_inventory\<close>), and on stored entries lying in stored
  folders.
\<close>

theorem apply_deletes_mirrors:
  assumes contract: "remote_store (ev_client env) store ok" and reads: "reads_only env ok store"
    and base: "remote_path_wf base" "rt_canonical_remote_path rs = base"
    and tree: "live_tree base (live_paths base live)"
    and listed: "normal_inventory base inventory" and folders: "folders_below base (store (st_world s))"
    and run: "ok (st_world s)"
      "apply_deletes env n root live inventory from_cache summary rs s = (Inr (False, rs'), s')"
      "rt_error_summary rs' = None"
  shows "if strictly_under base q \<and> q \<notin> set (live_paths base live)
    then (if store (st_world s) q = None \<or> deletable base q \<and> q \<in> rs_path ` set (bt_values inventory)
      then store (st_world s') q = None
      else store (st_world s') q \<in> {None, store (st_world s) q})
    else store (st_world s') q = store (st_world s) q"
proof -
  let ?ops = "collect_coalesced_delete_operations root base live inventory" and ?\<sigma> = "store (st_world s)"
  have root_live: "base \<in> set (live_paths base live)"
    by (simp add: live_paths_def known_live_remote_paths_def)
  have op: "strictly_under base (rd_remote_path op) \<and> addressable (rd_remote_path op)"
    if "op \<in> set ?ops" for op
    using delete_plan_spares_live [OF tree listed that root_live] normal_path_addressable [OF base(1)] by blast
  have "at_store ok store ?\<sigma> (sp_run_id (st_report s)) s"
    using run(1) by (simp add: engine_ok_def has_store_def)
  moreover have "leads (at_store ok store ?\<sigma> (sp_run_id (st_report s)))
      (delete_loop env n root from_cache summary ?ops rs)
      (\<lambda>x s. \<not> fst x \<and> \<not> failed x \<longrightarrow>
         at_store ok store (fold purge (map rd_remote_path ?ops) ?\<sigma>) (sp_run_id (st_report s)) s)"
    using op by (intro leads_weaken [OF delete_loop_removes [OF contract reads folders]]) (auto simp: engine_ok_def)
  ultimately have after: "store (st_world s') = fold purge (map rd_remote_path ?ops) ?\<sigma>"
    using run(2,3) unfolding apply_deletes_def base(2) leads_def failed_def engine_ok_def has_store_def
    by (metis fst_conv snd_conv)
  show ?thesis
  proof (cases "strictly_under base q \<and> q \<notin> set (live_paths base live)")
    case True
    have "\<exists>op\<in>set ?ops. path_under (rd_remote_path op) q"
      if "deletable base q" "q \<in> rs_path ` set (bt_values inventory)"
      using delete_plan_exact [OF tree listed] that True by blast
    then show ?thesis using True by (auto simp: after fold_purge)
  next
    case False
    have "\<not> path_under (rd_remote_path op) q" if "op \<in> set ?ops" for op
      using False delete_plan_spares_live [OF tree listed that] op [OF that] path_under_trans
      by (metis strictly_under_def path_under_antisym)
    then show ?thesis using False by (auto simp: after fold_purge)
  qed
qed

end
