(* ===== verification/Mock_Client.thy ===== *)
theory Mock_Client
  imports Disk_Client Path_Mapping "HOL-Library.Product_Lexorder"
begin

text \<open>
  The in-memory client of \<open>crates/yds-yandex-disk/src/lib.rs\<close> (\<open>MockYandexDiskClient\<close>): a remote
  storage as two ordered maps, of the resources and of the contents of files, with a log of the
  operations and errors to be returned by the next ones. It is the reference the engine is tested
  against. The lock around the state is never poisoned here.
\<close>

section \<open>State\<close>

datatype MockOperationKind =
  MkDiskInfo | MkMetadata | MkListRecursive | MkCreateDirectory | MkUpload | MkDownload | MkMove | MkCopy
| MkDeletePermanently | MkPollOperation

fun MockOperationKind_as_str :: "MockOperationKind \<Rightarrow> string" where
  "MockOperationKind_as_str MkDiskInfo = ''disk_info''"
| "MockOperationKind_as_str MkMetadata = ''metadata''"
| "MockOperationKind_as_str MkListRecursive = ''list_recursive''"
| "MockOperationKind_as_str MkCreateDirectory = ''create_directory''"
| "MockOperationKind_as_str MkUpload = ''upload''"
| "MockOperationKind_as_str MkDownload = ''download''"
| "MockOperationKind_as_str MkMove = ''move''"
| "MockOperationKind_as_str MkCopy = ''copy''"
| "MockOperationKind_as_str MkDeletePermanently = ''delete_permanently''"
| "MockOperationKind_as_str MkPollOperation = ''poll_operation''"

text \<open>The derived order: that of the declaration.\<close>

fun kind_index :: "MockOperationKind \<Rightarrow> nat" where
  "kind_index MkDiskInfo = 0"
| "kind_index MkMetadata = 1"
| "kind_index MkListRecursive = 2"
| "kind_index MkCreateDirectory = 3"
| "kind_index MkUpload = 4"
| "kind_index MkDownload = 5"
| "kind_index MkMove = 6"
| "kind_index MkCopy = 7"
| "kind_index MkDeletePermanently = 8"
| "kind_index MkPollOperation = 9"

lemma kind_index_inj: "kind_index a = kind_index b \<Longrightarrow> a = b"
  by (cases a; cases b) simp_all

instantiation MockOperationKind :: linorder
begin

definition less_eq_MockOperationKind :: "MockOperationKind \<Rightarrow> MockOperationKind \<Rightarrow> bool" where
  "less_eq_MockOperationKind a b = (kind_index a \<le> kind_index b)"

definition less_MockOperationKind :: "MockOperationKind \<Rightarrow> MockOperationKind \<Rightarrow> bool" where
  "less_MockOperationKind a b = (kind_index a < kind_index b)"

instance
  by standard (auto simp: less_eq_MockOperationKind_def less_MockOperationKind_def intro: kind_index_inj)

end

record MockOperation =
  mo_kind :: MockOperationKind
  mo_remote_path :: string
  mo_secondary_path :: "string option"

type_synonym content = "8 word list"

record mock_state =
  ms_disk_info :: DiskInfo
  ms_resources :: "(string, ResourceMetadata) btree"
  ms_contents :: "(string, content) btree"
  ms_operation_log :: "MockOperation list"
  ms_failures :: "(MockOperationKind \<times> string, YandexDiskError list) btree"

definition mock_state_default :: mock_state where
  "mock_state_default =
     \<lparr>ms_disk_info = \<lparr>di_quota = \<lparr>qi_total_space = Some 1000000000, qi_used_space = Some 0, qi_trash_size = Some 0\<rparr>,
                      di_system_folders = []\<rparr>,
      ms_resources = [], ms_contents = [], ms_operation_log = [], ms_failures = []\<rparr>"

type_synonym 'a mock = "(mock_state, YandexDiskError, 'a) m"

definition mock_get :: "(mock_state \<Rightarrow> 'a) \<Rightarrow> 'a mock" where
  "mock_get f = (\<lambda>s. (Inr (f s), s))"

definition mock_modify :: "(mock_state \<Rightarrow> mock_state) \<Rightarrow> unit mock" where
  "mock_modify f = (\<lambda>s. (Inr (), f s))"

section \<open>Setting up\<close>

definition add_parents :: "string \<Rightarrow> (string, ResourceMetadata) btree \<Rightarrow> (string, ResourceMetadata) btree" where
  "add_parents path resources =
     fold (\<lambda>parent m. case bt_get m parent of Some _ \<Rightarrow> m | None \<Rightarrow> bt_insert parent (resource_directory parent) m)
       (parent_remote_paths path) resources"

definition insert_resource :: "ResourceMetadata \<Rightarrow> unit mock" where
  "insert_resource resource =
     mock_modify (\<lambda>s. s\<lparr>ms_resources := bt_insert (rs_path resource) resource (add_parents (rs_path resource) (ms_resources s))\<rparr>)"

definition insert_file :: "string \<Rightarrow> content \<Rightarrow> unit mock" where
  "insert_file remote_path content =
     mock_modify (\<lambda>s. s\<lparr>ms_resources := bt_insert remote_path (resource_file remote_path (of_nat (length content)))
                          (add_parents remote_path (ms_resources s)),
                        ms_contents := bt_insert remote_path content (ms_contents s)\<rparr>)"

definition set_disk_info :: "DiskInfo \<Rightarrow> unit mock" where
  "set_disk_info disk_info = mock_modify (\<lambda>s. s\<lparr>ms_disk_info := disk_info\<rparr>)"

definition resources :: "ResourceMetadata list mock" where
  "resources = mock_get (\<lambda>s. bt_values (ms_resources s))"

definition operation_log :: "MockOperation list mock" where
  "operation_log = mock_get ms_operation_log"

definition clear_operation_log :: "unit mock" where
  "clear_operation_log = mock_modify (\<lambda>s. s\<lparr>ms_operation_log := []\<rparr>)"

definition fail_next :: "MockOperationKind \<Rightarrow> string \<Rightarrow> YandexDiskError \<Rightarrow> unit mock" where
  "fail_next kind remote_path e =
     mock_modify (\<lambda>s. s\<lparr>ms_failures := bt_insert (kind, remote_path)
       ((case bt_get (ms_failures s) (kind, remote_path) of None \<Rightarrow> [] | Some queue \<Rightarrow> queue) @ [e]) (ms_failures s)\<rparr>)"

definition record_operation :: "MockOperationKind \<Rightarrow> string \<Rightarrow> string option \<Rightarrow> unit mock" where
  "record_operation kind remote_path secondary_path = (\<lambda>s.
     let s = s\<lparr>ms_operation_log := ms_operation_log s @
                [\<lparr>mo_kind = kind, mo_remote_path = remote_path, mo_secondary_path = secondary_path\<rparr>]\<rparr>;
         key = (kind, remote_path)
     in case bt_get (ms_failures s) key of
          None \<Rightarrow> (Inr (), s)
        | Some [] \<Rightarrow> (Inr (), s\<lparr>ms_failures := bt_remove key (ms_failures s)\<rparr>)
        | Some (e # queue) \<Rightarrow>
            (Inl e, s\<lparr>ms_failures := (if queue = [] then bt_remove key (ms_failures s)
                                      else bt_insert key queue (ms_failures s))\<rparr>))"

section \<open>The client\<close>

definition mock_last_remote_segment :: "string \<Rightarrow> string option" where
  "mock_last_remote_segment path =
     (let segment = last (split_slash path) in if segment = '''' then None else Some segment)"

definition mock_not_found :: "string \<Rightarrow> YandexDiskError" where
  "mock_not_found remote_path = error_with_status YkNotFound 404 (''mock resource not found: '' @ remote_path)"

definition mock_disk_info :: "DiskInfo mock" where
  "mock_disk_info = seqM (record_operation MkDiskInfo [] None) (mock_get ms_disk_info)"

definition mock_metadata :: "string \<Rightarrow> ResourceMetadata mock" where
  "mock_metadata remote_path =
     seqM (record_operation MkMetadata remote_path None)
       (\<lambda>s. case bt_get (ms_resources s) remote_path of
              None \<Rightarrow> (Inl (mock_not_found remote_path), s)
            | Some resource \<Rightarrow> (Inr resource, s))"

definition mock_pruned :: "string list \<Rightarrow> string \<Rightarrow> bool" where
  "mock_pruned prune_prefixes path =
     list_ex (\<lambda>pruned. path \<noteq> pruned \<and>
        (case strip_prefix pruned path of None \<Rightarrow> False | Some rest \<Rightarrow> starts_with ''/'' rest))
       (map trim_end_slash prune_prefixes)"

definition mock_list_recursive :: "string \<Rightarrow> string list \<Rightarrow> ResourceMetadata list mock" where
  "mock_list_recursive remote_path prune_prefixes =
     seqM (record_operation MkListRecursive remote_path None)
       (mock_get (\<lambda>s. filter (\<lambda>r. \<not> mock_pruned prune_prefixes (rs_path r))
          (filter (\<lambda>r. starts_with (trim_end_slash remote_path @ ''/'') (rs_path r)) (bt_values (ms_resources s)))))"

definition mock_create_directory :: "string \<Rightarrow> unit mock" where
  "mock_create_directory remote_path =
     seqM (record_operation MkCreateDirectory remote_path None)
       (mock_modify (\<lambda>s. s\<lparr>ms_resources := bt_insert remote_path (resource_directory remote_path) (ms_resources s)\<rparr>))"

text \<open>A file is read through the argument \<open>read_file\<close>, before anything is recorded.\<close>

definition mock_upload_source ::
  "(local_path \<Rightarrow> string + content) \<Rightarrow> (local_path \<Rightarrow> string) \<Rightarrow> string \<Rightarrow> UploadSource \<Rightarrow> bool \<Rightarrow> unit mock" where
  "mock_upload_source read_file display remote_path source overwrite =
     (case (case source of
              UploadBytes content \<Rightarrow> Inr content
            | UploadFile p \<Rightarrow> map_err (local_upload_source_unavailable (display p)) (read_file p)) of
        Inl e \<Rightarrow> throw e
      | Inr content \<Rightarrow>
          seqM (record_operation MkUpload remote_path None)
            (mock_modify (\<lambda>s. s\<lparr>ms_resources := bt_insert remote_path (resource_file remote_path (of_nat (length content))) (ms_resources s),
                                ms_contents := bt_insert remote_path content (ms_contents s)\<rparr>)))"

definition mock_download :: "string \<Rightarrow> content mock" where
  "mock_download remote_path =
     seqM (record_operation MkDownload remote_path None)
       (\<lambda>s. case bt_get (ms_resources s) remote_path of
              None \<Rightarrow> (Inl (mock_not_found remote_path), s)
            | Some resource \<Rightarrow>
                (Inr (case bt_get (ms_contents s) remote_path of
                        Some content \<Rightarrow> content
                      | None \<Rightarrow> replicate (case rs_size_bytes resource of None \<Rightarrow> 0 | Some n \<Rightarrow> unat n) 0), s))"

text \<open>\<open>trim_start_matches\<close> with a string: every leading occurrence goes.\<close>

function trim_start_matches :: "string \<Rightarrow> string \<Rightarrow> string" where
  "trim_start_matches p s =
     (if p = [] then s else case strip_prefix p s of None \<Rightarrow> s | Some rest \<Rightarrow> trim_start_matches p rest)"
  by pat_completeness auto
termination
  by (relation "measure (\<lambda>(p, s). length s)") (auto simp: strip_prefix_Some_iff)

declare trim_start_matches.simps [simp del]

definition relocated :: "string \<Rightarrow> ResourceMetadata \<Rightarrow> ResourceMetadata" where
  "relocated path resource = resource\<lparr>rs_path := path, rs_name := mock_last_remote_segment path\<rparr>"

definition descendants :: "string \<Rightarrow> mock_state \<Rightarrow> string list" where
  "descendants path s = filter (starts_with (trim_end_slash path @ ''/'')) (bt_keys (ms_resources s))"

definition new_path :: "string \<Rightarrow> string \<Rightarrow> string \<Rightarrow> string" where
  "new_path from' to' old_path =
     trim_end_slash to' @ ''/'' @ trim_start_matches (trim_end_slash from' @ ''/'') old_path"

definition move_child :: "string \<Rightarrow> string \<Rightarrow> string \<Rightarrow> mock_state \<Rightarrow> mock_state" where
  "move_child from' to' old_path s =
     (case bt_get (ms_resources s) old_path of
        None \<Rightarrow> s
      | Some resource \<Rightarrow>
          let path = new_path from' to' old_path;
              s = s\<lparr>ms_resources := bt_insert path (relocated path resource) (bt_remove old_path (ms_resources s))\<rparr>
          in case bt_get (ms_contents s) old_path of
               None \<Rightarrow> s
             | Some content \<Rightarrow> s\<lparr>ms_contents := bt_insert path content (bt_remove old_path (ms_contents s))\<rparr>)"

definition mock_move_resource :: "string \<Rightarrow> string \<Rightarrow> bool \<Rightarrow> unit mock" where
  "mock_move_resource from' to' overwrite =
     seqM (record_operation MkMove from' (Some to'))
       (\<lambda>s. case bt_get (ms_resources s) from' of
              None \<Rightarrow> (Inl (mock_not_found from'), s)
            | Some resource \<Rightarrow>
                let s = s\<lparr>ms_resources := bt_insert to' (relocated to' resource) (bt_remove from' (ms_resources s))\<rparr>;
                    s = (case bt_get (ms_contents s) from' of
                           None \<Rightarrow> s
                         | Some content \<Rightarrow> s\<lparr>ms_contents := bt_insert to' content (bt_remove from' (ms_contents s))\<rparr>)
                in (Inr (), if rs_resource_type resource = RtDirectory
                            then fold (move_child from' to') (descendants from' s) s else s))"

definition copy_child :: "string \<Rightarrow> string \<Rightarrow> string \<Rightarrow> mock_state \<Rightarrow> mock_state" where
  "copy_child from' to' old_path s =
     (case bt_get (ms_resources s) old_path of
        None \<Rightarrow> s
      | Some resource \<Rightarrow>
          let path = new_path from' to' old_path;
              s = s\<lparr>ms_resources := bt_insert path (relocated path resource) (ms_resources s)\<rparr>
          in case bt_get (ms_contents s) old_path of
               None \<Rightarrow> s
             | Some content \<Rightarrow> s\<lparr>ms_contents := bt_insert path content (ms_contents s)\<rparr>)"

definition mock_copy_resource :: "string \<Rightarrow> string \<Rightarrow> bool \<Rightarrow> unit mock" where
  "mock_copy_resource from' to' overwrite =
     seqM (record_operation MkCopy from' (Some to'))
       (\<lambda>s. case bt_get (ms_resources s) from' of
              None \<Rightarrow> (Inl (mock_not_found from'), s)
            | Some resource \<Rightarrow>
                let s = s\<lparr>ms_resources := bt_insert to' (relocated to' resource) (ms_resources s)\<rparr>;
                    s = (case bt_get (ms_contents s) from' of
                           None \<Rightarrow> s
                         | Some content \<Rightarrow> s\<lparr>ms_contents := bt_insert to' content (ms_contents s)\<rparr>)
                in (Inr (), if rs_resource_type resource = RtDirectory
                            then fold (copy_child from' to') (descendants from' s) s else s))"

definition remove_entry :: "string \<Rightarrow> mock_state \<Rightarrow> mock_state" where
  "remove_entry path s = s\<lparr>ms_resources := bt_remove path (ms_resources s), ms_contents := bt_remove path (ms_contents s)\<rparr>"

definition mock_delete_permanently :: "string \<Rightarrow> unit mock" where
  "mock_delete_permanently remote_path =
     seqM (record_operation MkDeletePermanently remote_path None)
       (mock_modify (\<lambda>s.
          let s = (if map_option rs_resource_type (bt_get (ms_resources s) remote_path) = Some RtDirectory
                   then fold remove_entry (descendants remote_path s) s else s)
          in remove_entry remote_path s))"

definition mock_poll_operation :: "string \<Rightarrow> DiskOperationStatus mock" where
  "mock_poll_operation href = seqM (record_operation MkPollOperation href None) (ret OsSuccess)"

definition mock_client :: "(local_path \<Rightarrow> string + content) \<Rightarrow> (local_path \<Rightarrow> string) \<Rightarrow> mock_state disk_client" where
  "mock_client read_file display =
     \<lparr>dc_disk_info = mock_disk_info, dc_metadata = mock_metadata,
      dc_list_recursive_with_options = mock_list_recursive,
      dc_create_directory = mock_create_directory,
      dc_upload_source = mock_upload_source read_file display,
      dc_download = mock_download, dc_move_resource = mock_move_resource,
      dc_copy_resource = mock_copy_resource, dc_delete_permanently = mock_delete_permanently,
      dc_poll_operation = mock_poll_operation\<rparr>"

end
