(* ===== verification/Mock_Props.thy ===== *)
theory Mock_Props
  imports Mock_Client Remote_Store Scan_Props
begin

text \<open>
  The in-memory client refines the abstract store: \<open>mock_store\<close> reads the store off the two maps,
  \<open>mock_ok\<close> is their invariant, and every operation is the abstract one, on success, or leaves the
  store alone. This makes it an instance of \<open>remote_store\<close>.
\<close>

section \<open>The store of a state\<close>

text \<open>Errors set up with \<open>fail_next\<close> do not claim that something is missing.\<close>

definition honest :: "mock_state \<Rightarrow> bool" where
  "honest s = list_all (\<lambda>entry. list_all (\<lambda>e. ye_kind e \<noteq> YkNotFound) (snd entry)) (ms_failures s)"

definition mock_ok :: "mock_state \<Rightarrow> bool" where
  "mock_ok s =
     (honest s \<and> bt_wf (ms_resources s) \<and> bt_wf (ms_contents s) \<and>
      (\<forall>(p, r)\<in>set (ms_resources s). rs_path r = p \<and> remote_path_wf p \<and>
         (rs_resource_type r = RtFile \<longrightarrow> bt_get (ms_contents s) p \<noteq> None)))"

definition entry_of :: "content option \<Rightarrow> ResourceMetadata \<Rightarrow> entry" where
  "entry_of c r =
     (if rs_resource_type r = RtDirectory then Folder
      else Doc (case c of None \<Rightarrow> [] | Some content \<Rightarrow> content))"

definition mock_store :: "mock_state \<Rightarrow> store" where
  "mock_store s p =
     (case bt_get (ms_resources s) p of
        None \<Rightarrow> None
      | Some r \<Rightarrow> Some (entry_of (bt_get (ms_contents s) p) r))"

lemma type_cases: "t \<noteq> RtDirectory \<longleftrightarrow> t = RtFile"
  by (cases t) auto

lemma bt_get_iff: "bt_wf m \<Longrightarrow> bt_get m k = Some v \<longleftrightarrow> (k, v) \<in> set m"
  by (simp add: bt_get_def bt_wf_distinct)

lemma mock_ok_iff:
  "mock_ok s \<longleftrightarrow> honest s \<and> bt_wf (ms_resources s) \<and> bt_wf (ms_contents s) \<and>
     (\<forall>p r. bt_get (ms_resources s) p = Some r \<longrightarrow> rs_path r = p \<and> remote_path_wf p \<and>
        (rs_resource_type r = RtFile \<longrightarrow> bt_get (ms_contents s) p \<noteq> None))"
  by (auto simp: mock_ok_def bt_get_iff)

definition same_maps :: "mock_state \<Rightarrow> mock_state \<Rightarrow> bool" where
  "same_maps s t = (ms_resources s = ms_resources t \<and> ms_contents s = ms_contents t)"

lemma honest_simps [simp]:
  "honest (s\<lparr>ms_resources := x\<rparr>) = honest s" "honest (s\<lparr>ms_contents := y\<rparr>) = honest s"
  "honest (s\<lparr>ms_operation_log := z\<rparr>) = honest s"
  by (simp_all add: honest_def)

lemma same_maps_store:
  "same_maps s t \<Longrightarrow> honest s = honest t \<Longrightarrow> mock_store s = mock_store t \<and> mock_ok s = mock_ok t"
  by (auto simp: same_maps_def mock_store_def mock_ok_def fun_eq_iff split: option.splits)

lemma record_operation_same: "record_operation kind p x s = (r, t) \<Longrightarrow> same_maps t s"
  by (auto simp: record_operation_def same_maps_def Let_def split: option.splits list.splits)

lemma honest_insert:
  "list_all f m \<Longrightarrow> f (k, v) \<Longrightarrow> list_all f (bt_insert k v m)"
  by (induction k v m rule: bt_insert.induct) auto

lemma record_operation_honest:
  assumes "record_operation kind p x s = (r, t)" "honest s"
  shows "honest t \<and> (case r of Inl e \<Rightarrow> ye_kind e \<noteq> YkNotFound | Inr _ \<Rightarrow> True)"
proof (cases "bt_get (ms_failures s) (kind, p)")
  case None
  then show ?thesis using assms by (auto simp: record_operation_def Let_def)
next
  case (Some queue)
  then have q: "list_all (\<lambda>e. ye_kind e \<noteq> YkNotFound) queue"
    using assms(2) by (auto simp: honest_def list_all_iff bt_get_def dest!: map_of_SomeD)
  have removed: "honest (s\<lparr>ms_failures := bt_remove k (ms_failures s), ms_operation_log := l\<rparr>)" for k l
    using assms(2) by (auto simp: honest_def bt_remove_def list_all_iff)
  show ?thesis
  proof (cases queue)
    case Nil
    then show ?thesis
      using assms Some removed by (auto simp: record_operation_def Let_def honest_def)
  next
    case (Cons e rest)
    have "honest (s\<lparr>ms_failures := bt_insert k rest (ms_failures s), ms_operation_log := l\<rparr>)" for k l
      using assms(2) q Cons unfolding honest_def by (simp add: honest_insert)
    then show ?thesis
      using assms Some removed q Cons by (auto simp: record_operation_def Let_def honest_def split: if_splits)
  qed
qed

lemma entry_type_of [simp]: "entry_type (entry_of c r) = rs_resource_type r"
  by (simp add: entry_type_def entry_of_def type_cases)

lemma mock_store_folder:
  "mock_store s p = Some Folder \<longleftrightarrow> map_option rs_resource_type (bt_get (ms_resources s) p) = Some RtDirectory"
  by (auto simp: mock_store_def entry_of_def split: option.splits)

lemma mock_store_Some: "mock_store s q \<noteq> None \<Longrightarrow> q \<in> set (bt_keys (ms_resources s))"
  by (auto simp: mock_store_def bt_get_def bt_keys_def split: option.splits dest!: map_of_SomeD intro!: image_eqI)

text \<open>An operation after its call was recorded: the recorded error, or the operation proper.\<close>

lemma recordedE:
  assumes "seqM (record_operation kind p x) f s = (r, s')"
  obtains e t where "record_operation kind p x s = (Inl e, t)" "r = Inl e" "s' = t"
  | t where "record_operation kind p x s = (Inr (), t)" "f t = (r, s')"
  using assms by (auto simp: seqM_def bindM_def split: prod.splits sum.splits)

lemma recorded_law:
  assumes "seqM (record_operation kind p x) f s = (r, s')" "mock_ok s"
    and "\<And>t. mock_ok t \<Longrightarrow> mock_store t = mock_store s \<Longrightarrow> f t = (r, s') \<Longrightarrow> P"
    and "\<And>e. r = Inl e \<Longrightarrow> ye_kind e \<noteq> YkNotFound \<Longrightarrow> mock_ok s' \<Longrightarrow> mock_store s' = mock_store s \<Longrightarrow> P"
  shows P
proof -
  have keep: "mock_ok t \<and> mock_store t = mock_store s" if "record_operation kind p x s = (y, t)" for y t
    using record_operation_honest [OF that] same_maps_store [OF record_operation_same [OF that]] assms(2)
    by (auto simp: mock_ok_def)
  from assms(1) show P
  proof (cases rule: recordedE)
    case (1 e t)
    then have "ye_kind e \<noteq> YkNotFound"
      using record_operation_honest [OF 1(1)] assms(2) by (auto simp: mock_ok_def)
    then show P using assms(4) keep 1 by blast
  next
    case (2 t)
    then show P using assms(3) keep by blast
  qed
qed

section \<open>Storing\<close>

lemma store_directory:
  assumes "mock_ok s" "remote_path_wf p"
  shows "mock_ok (s\<lparr>ms_resources := bt_insert p (resource_directory p) (ms_resources s)\<rparr>) \<and>
    mock_store (s\<lparr>ms_resources := bt_insert p (resource_directory p) (ms_resources s)\<rparr>) = (mock_store s)(p \<mapsto> Folder)"
  using assms by (auto simp: mock_ok_iff mock_store_def entry_of_def fun_eq_iff resource_directory_def
      split: if_splits option.splits)

lemma store_file:
  assumes "mock_ok s" "remote_path_wf p" "rs_path r = p" "rs_resource_type r = RtFile"
  shows "mock_ok (s\<lparr>ms_resources := bt_insert p r (ms_resources s), ms_contents := bt_insert p c (ms_contents s)\<rparr>) \<and>
    mock_store (s\<lparr>ms_resources := bt_insert p r (ms_resources s), ms_contents := bt_insert p c (ms_contents s)\<rparr>) =
      (mock_store s)(p \<mapsto> Doc c)"
  using assms by (auto simp: mock_ok_iff mock_store_def entry_of_def fun_eq_iff
      split: if_splits option.splits)

section \<open>Removing\<close>

lemma fold_remove_entry:
  "bt_get (ms_resources (fold remove_entry xs s)) q = (if q \<in> set xs then None else bt_get (ms_resources s) q)"
  "bt_get (ms_contents (fold remove_entry xs s)) q = (if q \<in> set xs then None else bt_get (ms_contents s) q)"
  "bt_wf (ms_resources s) \<Longrightarrow> bt_wf (ms_resources (fold remove_entry xs s))"
  "bt_wf (ms_contents s) \<Longrightarrow> bt_wf (ms_contents (fold remove_entry xs s))"
  by (induction xs arbitrary: s) (auto simp: remove_entry_def)

lemma children_honest [simp]:
  "honest (fold remove_entry xs s) = honest s" "honest (fold (move_child a b) xs s) = honest s"
  "honest (fold (copy_child a b) xs s) = honest s" "honest (remove_entry p s) = honest s"
  by (induction xs arbitrary: s)
    (simp_all add: remove_entry_def move_child_def copy_child_def Let_def split: option.split)

lemma starts_with_below: "starts_with (p @ ''/'') q \<longleftrightarrow> strictly_under p q"
  by (auto simp: starts_with_iff strictly_under_iff)

lemma descendants_iff:
  assumes "trim_end_slash p = p" "bt_wf (ms_resources s)"
  shows "q \<in> set (descendants p s) \<longleftrightarrow> strictly_under p q \<and> bt_get (ms_resources s) q \<noteq> None"
  using bt_get_iff [OF assms(2)] assms(1) starts_with_below [of p q]
  by (force simp: descendants_def bt_keys_def)

lemma distinct_descendants: "bt_wf (ms_resources s) \<Longrightarrow> distinct (descendants p s)"
  by (simp add: descendants_def bt_keys_def bt_wf_distinct)

definition deleted_state :: "string \<Rightarrow> mock_state \<Rightarrow> mock_state" where
  "deleted_state p s = remove_entry p
     (if map_option rs_resource_type (bt_get (ms_resources s) p) = Some RtDirectory
      then fold remove_entry (descendants p s) s else s)"

lemma deleted_state_get:
  assumes "trim_end_slash p = p" "bt_wf (ms_resources s)"
  shows "bt_get (ms_resources (deleted_state p s)) q =
      (if reaches (mock_store s) p q then None else bt_get (ms_resources s) q)"
    and "\<not> reaches (mock_store s) p q \<Longrightarrow> bt_get (ms_contents (deleted_state p s)) q = bt_get (ms_contents s) q
      \<or> bt_get (ms_resources s) q = None"
  using descendants_iff [OF assms]
  by (auto simp: deleted_state_def reaches_def strictly_under_def fold_remove_entry mock_store_folder remove_entry_def)

lemma delete_state:
  assumes "mock_ok s" "trim_end_slash p = p"
  shows "mock_ok (deleted_state p s) \<and> mock_store (deleted_state p s) = delete_tree p (mock_store s)"
proof
  have wf: "bt_wf (ms_resources s)" "bt_wf (ms_contents s)" using assms(1) by (auto simp: mock_ok_iff)
  note get = deleted_state_get [OF assms(2) wf(1)]
  show "mock_ok (deleted_state p s)"
    unfolding mock_ok_iff
  proof (intro conjI allI impI)
    show "bt_wf (ms_resources (deleted_state p s))" "bt_wf (ms_contents (deleted_state p s))"
      using wf by (auto simp: deleted_state_def remove_entry_def fold_remove_entry)
    show "honest (deleted_state p s)" using assms(1) by (simp add: deleted_state_def mock_ok_def)
  qed (use get assms(1) in \<open>auto simp: mock_ok_iff split: if_splits, metis option.distinct(1)\<close>)
  show "mock_store (deleted_state p s) = delete_tree p (mock_store s)"
  proof
    fix q
    show "mock_store (deleted_state p s) q = delete_tree p (mock_store s) q"
      using get [of q] by (auto simp: mock_store_def delete_tree_def entry_of_def split: option.splits)
  qed
qed

section \<open>Copying and moving\<close>

lemma trim_start_once:
  assumes "p \<noteq> []" "\<not> starts_with p rest" shows "trim_start_matches p (p @ rest) = rest"
proof -
  have "strip_prefix p rest = None" using assms(2) by (auto simp: strip_prefix_None_iff starts_with_iff)
  then show ?thesis
    using assms(1) by (simp add: trim_start_matches.simps [of p "p @ rest"] trim_start_matches.simps [of p rest])
qed

lemma wf_no_second_prefix:
  assumes "remote_path_wf (p @ slash # rest)" "remote_path_wf p" shows "\<not> starts_with (p @ ''/'') rest"
proof
  assume "starts_with (p @ ''/'') rest"
  then obtain z where rest: "rest = p @ slash # z" by (auto simp: starts_with_iff)
  obtain segs body where segs: "\<forall>s\<in>set segs. clean_segment s" "p @ slash # rest = REMOTE_PREFIX @ str_join [slash] segs"
    and body: "p = REMOTE_PREFIX @ body"
    using assms by (auto simp: remote_path_wf_def)
  have "CHR '':'' \<in> set (str_join [slash] segs)"
    using segs(2) unfolding rest body by (simp add: REMOTE_PREFIX_def) (metis (no_types, opaque_lifting)
      Un_iff list.set_intros(1) list.set_intros(2) set_append)
  then have "\<exists>s\<in>set segs. CHR '':'' \<in> set s"
    using set_str_join [of "[slash]" segs] by auto
  then show False
    using segs(1) by (auto simp: clean_segment_def keep_remote_char_def RESERVED_REMOTE_CHARS_def)
qed

lemma new_path_rebase:
  assumes "remote_path_wf from'" "remote_path_wf to'" "strictly_under from' old" "remote_path_wf old"
  shows "new_path from' to' old = rebase from' to' old"
proof -
  obtain r where r: "old = from' @ slash # r" using assms(3) by (auto simp: strictly_under_iff)
  have "trim_start_matches (from' @ ''/'') ((from' @ ''/'') @ r) = r"
    using wf_no_second_prefix assms(1,4) r by (intro trim_start_once) auto
  then show ?thesis
    using r by (simp add: new_path_def remote_path_wf_trim [OF assms(1)] remote_path_wf_trim [OF assms(2)] rebase_def)
qed

text \<open>
  Children are handled one by one; \<open>gone\<close> says whether they leave their old place. No new place is
  an old one.
\<close>

definition transfers :: "bool \<Rightarrow> (string \<Rightarrow> string) \<Rightarrow> (string \<Rightarrow> mock_state \<Rightarrow> mock_state) \<Rightarrow> bool" where
  "transfers leaves f step =
     (\<forall>old s r. bt_get (ms_resources s) old = Some r \<longrightarrow> f old \<noteq> old \<longrightarrow>
        (\<forall>q. bt_get (ms_resources (step old s)) q =
           (if q = f old then Some (relocated q r) else if leaves \<and> q = old then None else bt_get (ms_resources s) q)) \<and>
        (\<forall>q. bt_get (ms_contents (step old s)) q =
           (if q = f old \<and> bt_get (ms_contents s) old \<noteq> None then bt_get (ms_contents s) old
            else if leaves \<and> q = old then None else bt_get (ms_contents s) q)))"

lemma move_transfers: "transfers True (new_path from' to') (move_child from' to')"
  by (auto simp: transfers_def move_child_def Let_def split: option.splits)

lemma copy_transfers: "transfers False (new_path from' to') (copy_child from' to')"
  by (auto simp: transfers_def copy_child_def Let_def split: option.splits)

lemma fold_transfers:
  assumes "transfers leaves f step" "distinct xs" "inj_on f (set xs)" "\<forall>x\<in>set xs. f x \<notin> set xs"
    and "\<forall>x\<in>set xs. bt_get (ms_resources s) x \<noteq> None"
  shows "(\<forall>x\<in>set xs. bt_get (ms_resources (fold step xs s)) (f x) = map_option (relocated (f x)) (bt_get (ms_resources s) x) \<and>
           bt_get (ms_contents (fold step xs s)) (f x) =
             (if bt_get (ms_contents s) x \<noteq> None then bt_get (ms_contents s) x else bt_get (ms_contents s) (f x))) \<and>
    (\<forall>q. q \<notin> f ` set xs \<longrightarrow>
       bt_get (ms_resources (fold step xs s)) q = (if leaves \<and> q \<in> set xs then None else bt_get (ms_resources s) q) \<and>
       bt_get (ms_contents (fold step xs s)) q = (if leaves \<and> q \<in> set xs then None else bt_get (ms_contents s) q))"
  using assms(2-5)
proof (induction xs arbitrary: s)
  case (Cons x xs)
  obtain r where r: "bt_get (ms_resources s) x = Some r" using Cons.prems(4) by auto
  have fx: "f x \<noteq> x" "f x \<notin> set xs" "f x \<notin> f ` set xs" "\<forall>y\<in>set xs. f y \<noteq> x \<and> f y \<noteq> f x \<and> y \<noteq> x"
    using Cons.prems by (auto simp: inj_on_def)
  let ?t = "step x s"
  have res: "bt_get (ms_resources ?t) q =
      (if q = f x then Some (relocated q r) else if leaves \<and> q = x then None else bt_get (ms_resources s) q)"
    and con: "bt_get (ms_contents ?t) q =
      (if q = f x \<and> bt_get (ms_contents s) x \<noteq> None then bt_get (ms_contents s) x
       else if leaves \<and> q = x then None else bt_get (ms_contents s) q)" for q
    using assms(1) r fx(1) unfolding transfers_def by blast+
  have "\<forall>y\<in>set xs. bt_get (ms_resources ?t) y \<noteq> None" using Cons.prems fx by (auto simp: res)
  moreover have "distinct xs" "inj_on f (set xs)" "\<forall>y\<in>set xs. f y \<notin> set xs"
    using Cons.prems by (auto intro: inj_on_subset)
  ultimately have IH: "(\<forall>y\<in>set xs. bt_get (ms_resources (fold step xs ?t)) (f y) = map_option (relocated (f y)) (bt_get (ms_resources ?t) y) \<and>
           bt_get (ms_contents (fold step xs ?t)) (f y) =
             (if bt_get (ms_contents ?t) y \<noteq> None then bt_get (ms_contents ?t) y else bt_get (ms_contents ?t) (f y)))"
    "\<And>q. q \<notin> f ` set xs \<Longrightarrow>
       bt_get (ms_resources (fold step xs ?t)) q = (if leaves \<and> q \<in> set xs then None else bt_get (ms_resources ?t) q) \<and>
       bt_get (ms_contents (fold step xs ?t)) q = (if leaves \<and> q \<in> set xs then None else bt_get (ms_contents ?t) q)"
    using Cons.IH [of ?t] by blast+
  show ?case
  proof (intro conjI ballI allI impI)
    fix y assume "y \<in> set (x # xs)"
    then consider "y = x" | "y \<in> set xs" by auto
    then show "bt_get (ms_resources (fold step (x # xs) s)) (f y) = map_option (relocated (f y)) (bt_get (ms_resources s) y)"
    proof cases
      case 1
      then show ?thesis using IH(2) [OF fx(3)] fx r by (simp add: res)
    next
      case 2
      then have "bt_get (ms_resources ?t) y = bt_get (ms_resources s) y" using fx by (auto simp: res)
      then show ?thesis using IH(1) 2 by simp
    qed
  next
    fix y assume "y \<in> set (x # xs)"
    then consider "y = x" | "y \<in> set xs" by auto
    then show "bt_get (ms_contents (fold step (x # xs) s)) (f y) =
        (if bt_get (ms_contents s) y \<noteq> None then bt_get (ms_contents s) y else bt_get (ms_contents s) (f y))"
    proof cases
      case 1
      then show ?thesis using IH(2) [OF fx(3)] fx by (simp add: con)
    next
      case 2
      then have "bt_get (ms_contents ?t) y = bt_get (ms_contents s) y" "bt_get (ms_contents ?t) (f y) = bt_get (ms_contents s) (f y)"
        using fx by (auto simp: con)
      then show ?thesis using IH(1) 2 by simp
    qed
  next
    fix q assume q: "q \<notin> f ` set (x # xs)"
    then have n: "q \<notin> f ` set xs" "q \<noteq> f x" by auto
    show "bt_get (ms_resources (fold step (x # xs) s)) q = (if leaves \<and> q \<in> set (x # xs) then None else bt_get (ms_resources s) q)"
      "bt_get (ms_contents (fold step (x # xs) s)) q = (if leaves \<and> q \<in> set (x # xs) then None else bt_get (ms_contents s) q)"
      using IH(2) [OF n(1)] n(2) by (auto simp: res con)
  qed
qed simp

lemma fold_transfers_wf:
  "bt_wf (ms_resources s) \<Longrightarrow> bt_wf (ms_resources (fold (move_child a b) xs s))"
  "bt_wf (ms_contents s) \<Longrightarrow> bt_wf (ms_contents (fold (move_child a b) xs s))"
  "bt_wf (ms_resources s) \<Longrightarrow> bt_wf (ms_resources (fold (copy_child a b) xs s))"
  "bt_wf (ms_contents s) \<Longrightarrow> bt_wf (ms_contents (fold (copy_child a b) xs s))"
  by (induction xs arbitrary: s) (simp_all add: move_child_def copy_child_def Let_def split: option.split)

lemma remote_path_wf_rebase:
  assumes "remote_path_wf to'" "remote_path_wf old" "remote_path_wf from'" "path_under from' old"
  shows "remote_path_wf (rebase from' to' old)"
proof (cases "old = from'")
  case True
  then show ?thesis using assms(1) by (simp add: rebase_self)
next
  case False
  then obtain r where r: "old = from' @ slash # r" using assms(4) by (auto simp: path_under_iff)
  obtain a b where ab: "from' = REMOTE_PREFIX @ a" "to' = REMOTE_PREFIX @ b" "\<forall>s\<in>set (split_slash b). clean_segment s"
    "\<forall>s\<in>set (split_slash (a @ slash # r)). clean_segment s"
    using assms(1-3) unfolding remote_path_wf_iff r by auto
  have "\<forall>s\<in>set (split_slash (b @ slash # r)). clean_segment s"
    using ab(3,4) unfolding split_slash_append by auto
  then show ?thesis
    unfolding remote_path_wf_iff r rebase_def using ab(2) by (intro exI [of _ "b @ slash # r"]) simp
qed

lemma rebase_inj: "path_under a x \<Longrightarrow> path_under a y \<Longrightarrow> rebase a b x = rebase a b y \<Longrightarrow> x = y"
  by (auto simp: path_under_iff rebase_def)

lemma relocated_simps [simp]: "rs_path (relocated p r) = p" "rs_resource_type (relocated p r) = rs_resource_type r"
  by (simp_all add: relocated_def)

definition transferred :: "bool \<Rightarrow> string \<Rightarrow> string \<Rightarrow> store \<Rightarrow> store" where
  "transferred leaves from' to' \<sigma> = (if leaves then move_tree from' to' \<sigma> else copy_tree from' to' \<sigma>)"

text \<open>The state after the entry itself was transferred, and then its descendants if it is a folder.\<close>

lemma transfer_maps:
  assumes ok: "mock_ok s" and wf: "remote_path_wf from'" "remote_path_wf to'"
    and apart: "\<not> path_under from' to'" "\<not> path_under to' from'"
    and r: "bt_get (ms_resources s) from' = Some r"
    and res: "\<And>q. bt_get (ms_resources s1) q =
      (if q = to' then Some (relocated to' r) else if leaves \<and> q = from' then None else bt_get (ms_resources s) q)"
    and con: "\<And>q. bt_get (ms_contents s1) q =
      (if q = to' \<and> bt_get (ms_contents s) from' \<noteq> None then bt_get (ms_contents s) from'
       else if leaves \<and> q = from' then None else bt_get (ms_contents s) q)"
    and s1: "bt_wf (ms_resources s1)"
    and step: "transfers leaves (new_path from' to') step"
    and t: "t = (if rs_resource_type r = RtDirectory then fold step (descendants from' s1) s1 else s1)"
  defines "src \<equiv> \<lambda>q. if path_under to' q \<and> reaches (mock_store s) from' (rebase to' from' q) \<and>
      bt_get (ms_resources s) (rebase to' from' q) \<noteq> None then rebase to' from' q else q"
  shows "bt_get (ms_resources t) q =
      (if leaves \<and> reaches (mock_store s) from' q then None
       else map_option (\<lambda>r. if src q = q then r else relocated q r) (bt_get (ms_resources s) (src q)))"
    and "\<not> (leaves \<and> reaches (mock_store s) from' q) \<Longrightarrow> bt_get (ms_contents t) q =
      (if bt_get (ms_contents s) (src q) \<noteq> None then bt_get (ms_contents s) (src q) else bt_get (ms_contents s) q)"
proof -
  have linear: "\<not> (path_under to' q \<and> path_under from' q)" for q using apart path_under_linear by blast
  have src_self: "src q = q \<or> path_under from' (src q)" for q
    unfolding src_def using rebase_under by auto
  have folder: "mock_store s from' = Some Folder \<longleftrightarrow> rs_resource_type r = RtDirectory"
    using r by (simp add: mock_store_folder)
  have main: "bt_get (ms_resources t) q =
      (if leaves \<and> reaches (mock_store s) from' q then None
       else map_option (\<lambda>r. if src q = q then r else relocated q r) (bt_get (ms_resources s) (src q))) \<and>
    (\<not> (leaves \<and> reaches (mock_store s) from' q) \<longrightarrow> bt_get (ms_contents t) q =
      (if bt_get (ms_contents s) (src q) \<noteq> None then bt_get (ms_contents s) (src q) else bt_get (ms_contents s) q))"
  proof (cases "rs_resource_type r = RtDirectory")
    case False
    have "src q = (if q = to' then from' else q)"
      using False folder r by (auto simp: src_def reaches_def rebase_self) (auto simp: path_under_iff rebase_def)
    then show ?thesis
      using False folder t r apart by (auto simp: res con reaches_def option.map_ident)
  next
    case True
    let ?xs = "descendants from' s1"
    have xs: "x \<in> set ?xs \<longleftrightarrow> strictly_under from' x \<and> bt_get (ms_resources s) x \<noteq> None" for x
      using descendants_iff [OF remote_path_wf_trim [OF wf(1)] s1] apart by (auto simp: res strictly_under_def)
    have f: "new_path from' to' x = rebase from' to' x" if "x \<in> set ?xs" for x
      using that xs ok new_path_rebase [OF wf] by (auto simp: mock_ok_iff)
    have "inj_on (new_path from' to') (set ?xs)"
      using f xs rebase_inj by (auto simp: inj_on_def strictly_under_def)
    moreover have "\<forall>x\<in>set ?xs. new_path from' to' x \<notin> set ?xs"
      using f xs linear rebase_under by (metis strictly_under_def)
    moreover have "\<forall>x\<in>set ?xs. bt_get (ms_resources s1) x \<noteq> None"
      using xs apart by (auto simp: res strictly_under_def)
    ultimately have fold: "\<And>x. x \<in> set ?xs \<Longrightarrow>
        bt_get (ms_resources t) (rebase from' to' x) = map_option (relocated (rebase from' to' x)) (bt_get (ms_resources s1) x) \<and>
        bt_get (ms_contents t) (rebase from' to' x) =
          (if bt_get (ms_contents s1) x \<noteq> None then bt_get (ms_contents s1) x else bt_get (ms_contents s1) (rebase from' to' x))"
      "\<And>q. q \<notin> rebase from' to' ` set ?xs \<Longrightarrow>
        bt_get (ms_resources t) q = (if leaves \<and> q \<in> set ?xs then None else bt_get (ms_resources s1) q) \<and>
        bt_get (ms_contents t) q = (if leaves \<and> q \<in> set ?xs then None else bt_get (ms_contents s1) q)"
      using fold_transfers [OF step distinct_descendants [OF s1, of from'], of s1] f True t by (auto simp: image_iff)
    show ?thesis
    proof (cases "strictly_under to' q \<and> bt_get (ms_resources s) (rebase to' from' q) \<noteq> None")
      case True
      let ?x = "rebase to' from' q"
      obtain z where z: "q = to' @ slash # z" using True by (auto simp: strictly_under_iff)
      have xz: "?x = from' @ slash # z" by (simp add: z rebase_def)
      have x: "?x \<in> set ?xs" using True by (auto simp: xs xz strictly_under_iff)
      have back_to: "rebase from' to' ?x = q" by (simp add: xz z rebase_def)
      have ne: "?x \<noteq> to'" "?x \<noteq> from'" "q \<noteq> from'" "q \<noteq> to'"
        using apart by (auto simp: z rebase_def path_under_iff)
      have qf: "\<not> path_under from' q" using linear [of q] True by (auto simp: strictly_under_def)
      have dir: "mock_store s from' = Some Folder" using folder \<open>rs_resource_type r = RtDirectory\<close> by simp
      have src: "src q = ?x"
        using True x dir by (auto simp: src_def reaches_def strictly_under_def xs)
      have "?x \<noteq> q" using qf by (auto simp: xz path_under_iff)
      then show ?thesis
        using fold(1) [OF x] ne qf by (simp add: src back_to res con reaches_def dir)
    next
      case out: False
      then have "q \<notin> rebase from' to' ` set ?xs"
        using xs by (auto simp: strictly_under_iff rebase_def)
      note fold = fold(2) [OF this]
      have "src q = (if q = to' then from' else q)"
        using out r folder True by (auto simp: src_def reaches_def strictly_under_def rebase_self)
      then show ?thesis
        using fold xs [of q] True folder apart r
        by (auto simp: res con reaches_def strictly_under_def option.map_ident)
    qed
  qed
  then show "bt_get (ms_resources t) q =
      (if leaves \<and> reaches (mock_store s) from' q then None
       else map_option (\<lambda>r. if src q = q then r else relocated q r) (bt_get (ms_resources s) (src q)))"
    "\<not> (leaves \<and> reaches (mock_store s) from' q) \<Longrightarrow> bt_get (ms_contents t) q =
      (if bt_get (ms_contents s) (src q) \<noteq> None then bt_get (ms_contents s) (src q) else bt_get (ms_contents s) q)"
    by blast+
qed

lemma transfer_state:
  assumes "mock_ok s" "remote_path_wf from'" "remote_path_wf to'" "\<not> path_under from' to'" "\<not> path_under to' from'"
    and r: "bt_get (ms_resources s) from' = Some r"
    and res: "\<And>q. bt_get (ms_resources s1) q =
      (if q = to' then Some (relocated to' r) else if leaves \<and> q = from' then None else bt_get (ms_resources s) q)"
    and con: "\<And>q. bt_get (ms_contents s1) q =
      (if q = to' \<and> bt_get (ms_contents s) from' \<noteq> None then bt_get (ms_contents s) from'
       else if leaves \<and> q = from' then None else bt_get (ms_contents s) q)"
    and s1: "bt_wf (ms_resources s1)" "bt_wf (ms_resources t)" "bt_wf (ms_contents t)" "honest t"
    and step: "transfers leaves (new_path from' to') step"
    and t: "t = (if rs_resource_type r = RtDirectory then fold step (descendants from' s1) s1 else s1)"
  shows "mock_ok t \<and> mock_store t = transferred leaves from' to' (mock_store s)"
proof -
  define src where "src = (\<lambda>q. if path_under to' q \<and> reaches (mock_store s) from' (rebase to' from' q) \<and>
      bt_get (ms_resources s) (rebase to' from' q) \<noteq> None then rebase to' from' q else q)"
  have get: "bt_get (ms_resources t) q =
      (if leaves \<and> reaches (mock_store s) from' q then None
       else map_option (\<lambda>r. if src q = q then r else relocated q r) (bt_get (ms_resources s) (src q)))"
    and cont: "\<not> (leaves \<and> reaches (mock_store s) from' q) \<Longrightarrow> bt_get (ms_contents t) q =
      (if bt_get (ms_contents s) (src q) \<noteq> None then bt_get (ms_contents s) (src q) else bt_get (ms_contents s) q)" for q
    unfolding src_def using transfer_maps [OF assms(1-6) res con s1(1) step t] by blast+
  have ok: "rs_path x = q \<and> remote_path_wf q \<and> (rs_resource_type x = RtFile \<longrightarrow> bt_get (ms_contents s) q \<noteq> None)"
    if "bt_get (ms_resources s) q = Some x" for q x
    using assms(1) that by (auto simp: mock_ok_iff)
  have "mock_ok t"
    unfolding mock_ok_iff
  proof (intro conjI allI impI s1)
    fix q x assume x: "bt_get (ms_resources t) q = Some x"
    then have nr: "\<not> (leaves \<and> reaches (mock_store s) from' q)" by (auto simp: get split: if_splits)
    obtain y where y: "bt_get (ms_resources s) (src q) = Some y" "x = (if src q = q then y else relocated q y)"
      using x nr by (auto simp: get)
    show "rs_path x = q" using y ok by auto
    show "remote_path_wf q"
    proof (cases "src q = q")
      case False
      then have "src q = rebase to' from' q" "path_under to' q" by (auto simp: src_def split: if_splits)
      then have "path_under from' (src q)" "rebase from' to' (src q) = q"
        by (simp_all add: rebase_under rebase_rebase)
      then show ?thesis
        using remote_path_wf_rebase [OF assms(3) _ assms(2), of "src q"] ok [OF y(1)] by simp
    qed (use y ok in auto)
    assume "rs_resource_type x = RtFile"
    then have "rs_resource_type y = RtFile" using y(2) by (auto split: if_splits)
    then show "bt_get (ms_contents t) q \<noteq> None" using ok [OF y(1)] by (simp add: cont [OF nr])
  qed
  moreover have "mock_store t q = transferred leaves from' to' (mock_store s) q" for q
  proof (cases "leaves \<and> reaches (mock_store s) from' q")
    case True
    then show ?thesis by (simp add: mock_store_def transferred_def move_tree_def get)
  next
    case False
    have "mock_store t q = mock_store s (src q)"
    proof (cases "bt_get (ms_resources s) (src q)")
      case None
      then show ?thesis using False by (simp add: mock_store_def get)
    next
      case (Some y)
      have "rs_resource_type y = RtFile \<Longrightarrow> bt_get (ms_contents s) (src q) \<noteq> None" using ok [OF Some] by simp
      then show ?thesis using False Some cont [OF False]
        by (cases "rs_resource_type y") (auto simp: mock_store_def get entry_of_def)
    qed
    moreover have "mock_store s (rebase to' from' q) \<noteq> None \<longleftrightarrow> bt_get (ms_resources s) (rebase to' from' q) \<noteq> None"
      by (auto simp: mock_store_def split: option.splits)
    ultimately show ?thesis
      using False by (auto simp: transferred_def move_tree_def copy_tree_def src_def)
  qed
  ultimately show ?thesis by blast
qed

lemma mock_move_law:
  assumes "mock_ok s" "remote_path_wf p" "remote_path_wf q" "\<not> path_under p q" "\<not> path_under q p"
    and "mock_move_resource p q overwrite s = (r, s')"
  shows "mock_ok s' \<and> mock_store s' = (case r of Inl e \<Rightarrow> mock_store s | Inr _ \<Rightarrow> move_tree p q (mock_store s))"
  using assms(6,1) unfolding mock_move_resource_def
proof (rule recorded_law)
  fix t assume t: "mock_ok t" "mock_store t = mock_store s"
    and run: "(case bt_get (ms_resources t) p of
              None \<Rightarrow> (Inl (mock_not_found p), t)
            | Some resource \<Rightarrow>
                let s = t\<lparr>ms_resources := bt_insert q (relocated q resource) (bt_remove p (ms_resources t))\<rparr>;
                    s = (case bt_get (ms_contents s) p of
                           None \<Rightarrow> s
                         | Some content \<Rightarrow> s\<lparr>ms_contents := bt_insert q content (bt_remove p (ms_contents s))\<rparr>)
                in (Inr (), if rs_resource_type resource = RtDirectory
                            then fold (move_child p q) (descendants p s) s else s)) = (r, s')"
  show ?thesis
  proof (cases "bt_get (ms_resources t) p")
    case None
    then show ?thesis using run t by auto
  next
    case (Some x)
    define s1 where "s1 = (let s = t\<lparr>ms_resources := bt_insert q (relocated q x) (bt_remove p (ms_resources t))\<rparr> in
        case bt_get (ms_contents s) p of
          None \<Rightarrow> s | Some content \<Rightarrow> s\<lparr>ms_contents := bt_insert q content (bt_remove p (ms_contents s))\<rparr>)"
    have r: "r = Inr ()" "s' = (if rs_resource_type x = RtDirectory then fold (move_child p q) (descendants p s1) s1 else s1)"
      using run Some by (auto simp: s1_def Let_def)
    have wf: "bt_wf (ms_resources t)" "bt_wf (ms_contents t)" "honest t" using t(1) by (auto simp: mock_ok_iff)
    then have "bt_wf (ms_resources s1)" "bt_wf (ms_contents s1)" "honest s1" by (auto simp: s1_def Let_def split: option.split)
    moreover have "q \<noteq> p" using assms(4) by auto
    ultimately have "mock_ok s' \<and> mock_store s' = transferred True p q (mock_store t)"
      by (intro transfer_state [OF t(1) assms(2-5) Some, of s1 True s' "move_child p q"])
        (auto simp: s1_def Let_def r(2) move_transfers fold_transfers_wf split: option.splits)
    then show ?thesis by (simp add: r(1) t(2) transferred_def)
  qed
qed (use assms(1) in auto)

lemma mock_copy_law:
  assumes "mock_ok s" "remote_path_wf p" "remote_path_wf q" "\<not> path_under p q" "\<not> path_under q p"
    and "mock_copy_resource p q overwrite s = (r, s')"
  shows "mock_ok s' \<and> mock_store s' = (case r of Inl e \<Rightarrow> mock_store s | Inr _ \<Rightarrow> copy_tree p q (mock_store s))"
  using assms(6,1) unfolding mock_copy_resource_def
proof (rule recorded_law)
  fix t assume t: "mock_ok t" "mock_store t = mock_store s"
    and run: "(case bt_get (ms_resources t) p of
              None \<Rightarrow> (Inl (mock_not_found p), t)
            | Some resource \<Rightarrow>
                let s = t\<lparr>ms_resources := bt_insert q (relocated q resource) (ms_resources t)\<rparr>;
                    s = (case bt_get (ms_contents s) p of
                           None \<Rightarrow> s
                         | Some content \<Rightarrow> s\<lparr>ms_contents := bt_insert q content (ms_contents s)\<rparr>)
                in (Inr (), if rs_resource_type resource = RtDirectory
                            then fold (copy_child p q) (descendants p s) s else s)) = (r, s')"
  show ?thesis
  proof (cases "bt_get (ms_resources t) p")
    case None
    then show ?thesis using run t by auto
  next
    case (Some x)
    define s1 where "s1 = (let s = t\<lparr>ms_resources := bt_insert q (relocated q x) (ms_resources t)\<rparr> in
        case bt_get (ms_contents s) p of
          None \<Rightarrow> s | Some content \<Rightarrow> s\<lparr>ms_contents := bt_insert q content (ms_contents s)\<rparr>)"
    have r: "r = Inr ()" "s' = (if rs_resource_type x = RtDirectory then fold (copy_child p q) (descendants p s1) s1 else s1)"
      using run Some by (auto simp: s1_def Let_def)
    have wf: "bt_wf (ms_resources t)" "bt_wf (ms_contents t)" "honest t" using t(1) by (auto simp: mock_ok_iff)
    then have "bt_wf (ms_resources s1)" "bt_wf (ms_contents s1)" "honest s1" by (auto simp: s1_def Let_def split: option.split)
    moreover have "q \<noteq> p" using assms(4) by auto
    ultimately have "mock_ok s' \<and> mock_store s' = transferred False p q (mock_store t)"
      by (intro transfer_state [OF t(1) assms(2-5) Some, of s1 False s' "copy_child p q"])
        (auto simp: s1_def Let_def r(2) copy_transfers fold_transfers_wf split: option.splits)
    then show ?thesis by (simp add: r(1) t(2) transferred_def)
  qed
qed (use assms(1) in auto)

section \<open>The laws\<close>

lemma mock_create_law:
  assumes "mock_ok s" "remote_path_wf p" "mock_create_directory p s = (r, s')"
  shows "mock_ok s' \<and> mock_store s' = (case r of Inl e \<Rightarrow> mock_store s | Inr _ \<Rightarrow> (mock_store s)(p \<mapsto> Folder))"
  using assms(3,1) unfolding mock_create_directory_def
  by (rule recorded_law) (use assms(2) store_directory in \<open>auto simp: mock_modify_def\<close>)

lemma mock_upload_law:
  assumes "mock_ok s" "remote_path_wf p" "mock_upload_source read_file display p (UploadBytes c) overwrite s = (r, s')"
  shows "mock_ok s' \<and> mock_store s' = (case r of Inl e \<Rightarrow> mock_store s | Inr _ \<Rightarrow> (mock_store s)(p \<mapsto> Doc c))"
proof -
  have "seqM (record_operation MkUpload p None)
      (mock_modify (\<lambda>s. s\<lparr>ms_resources := bt_insert p (resource_file p (of_nat (length c))) (ms_resources s),
        ms_contents := bt_insert p c (ms_contents s)\<rparr>)) s = (r, s')"
    using assms(3) by (simp add: mock_upload_source_def)
  then show ?thesis
    using assms(1)
  proof (rule recorded_law)
    fix t assume "mock_ok t" "mock_store t = mock_store s"
      and "mock_modify (\<lambda>s. s\<lparr>ms_resources := bt_insert p (resource_file p (of_nat (length c))) (ms_resources s),
        ms_contents := bt_insert p c (ms_contents s)\<rparr>) t = (r, s')"
    then show ?thesis
      using store_file [of t p "resource_file p (of_nat (length c))" c] assms(2)
      by (auto simp: mock_modify_def resource_file_def)
  qed auto
qed

lemma mock_delete_law:
  assumes "mock_ok s" "trim_end_slash p = p" "mock_delete_permanently p s = (r, s')"
  shows "mock_ok s' \<and> mock_store s' = (case r of Inl e \<Rightarrow> mock_store s | Inr _ \<Rightarrow> delete_tree p (mock_store s)) \<and>
    (case r of Inl e \<Rightarrow> ye_kind e = YkNotFound \<longrightarrow> mock_store s p = None | Inr _ \<Rightarrow> True)"
  using assms(3,1) unfolding mock_delete_permanently_def Let_def deleted_state_def [symmetric]
  by (rule recorded_law) (use assms(2) delete_state in \<open>auto simp: mock_modify_def\<close>)

lemma strip_prefix_strict:
  "(case strip_prefix p q of None \<Rightarrow> False | Some rest \<Rightarrow> starts_with ''/'' rest) \<longleftrightarrow> strictly_under p q"
  by (auto simp: strictly_under_iff strip_prefix_Some_iff starts_with_iff strip_prefix_None_iff split: option.splits)

lemma mock_pruned_iff: "mock_pruned prune q \<longleftrightarrow> list_ex (\<lambda>p. strictly_under (trim_end_slash p) q) prune"
  unfolding mock_pruned_def strip_prefix_strict by (auto simp: list_ex_iff strictly_under_def)

lemma mock_list_law:
  assumes "mock_ok s" "addressable p" "mock_list_recursive p prune s = (r, s')"
  shows "mock_ok s' \<and> mock_store s' = mock_store s \<and>
    (case r of Inl e \<Rightarrow> True
     | Inr rs \<Rightarrow> sorted_wrt (<) (map rs_path rs) \<and>
         (\<forall>q t. (\<exists>x\<in>set rs. rs_path x = q \<and> rs_resource_type x = t) \<longleftrightarrow>
            listed p prune q \<and> map_option entry_type (mock_store s q) = Some t))"
  using assms(3,1) unfolding mock_list_recursive_def
proof (rule recorded_law)
  fix t assume t: "mock_ok t" "mock_store t = mock_store s"
    and run: "mock_get (\<lambda>s. filter (\<lambda>r. \<not> mock_pruned prune (rs_path r))
          (filter (\<lambda>r. starts_with (trim_end_slash p @ ''/'') (rs_path r)) (bt_values (ms_resources s)))) t = (r, s')"
  have wf: "bt_wf (ms_resources t)" and keyed: "\<And>q x. bt_get (ms_resources t) q = Some x \<Longrightarrow> rs_path x = q"
    using t(1) by (auto simp: mock_ok_iff)
  have paths: "map rs_path (bt_values (ms_resources t)) = map fst (ms_resources t)"
    using keyed bt_get_iff [OF wf] by (auto simp: bt_values_def)
  have "sorted_wrt (<) (map rs_path (bt_values (ms_resources t)))"
    using wf unfolding paths bt_wf_def .
  then have sorted: "sorted_wrt (<) (map rs_path (filter P (bt_values (ms_resources t))))" for P
    by (simp add: sorted_wrt_map sorted_wrt_filter)
  have mem: "x \<in> set (bt_values (ms_resources t)) \<longleftrightarrow> bt_get (ms_resources t) (rs_path x) = Some x" for x
    using bt_values_iff [OF wf] keyed by metis
  have store: "map_option entry_type (mock_store s q) = Some ty \<longleftrightarrow>
      (\<exists>x. bt_get (ms_resources t) q = Some x \<and> rs_resource_type x = ty)" for q ty
    unfolding t(2) [symmetric] by (auto simp: mock_store_def split: option.splits)
  let ?rs = "filter (\<lambda>r. \<not> mock_pruned prune (rs_path r)) (filter (\<lambda>r. starts_with (p @ ''/'') (rs_path r)) (bt_values (ms_resources t)))"
  have r: "r = Inr ?rs" "s' = t"
    using run by (auto simp: mock_get_def addressable_trim [OF assms(2)])
  have "(\<exists>x\<in>set ?rs. rs_path x = q \<and> rs_resource_type x = ty) \<longleftrightarrow>
      listed p prune q \<and> (\<exists>x. bt_get (ms_resources t) q = Some x \<and> rs_resource_type x = ty)" for q ty
  proof -
    have "(\<exists>x\<in>set ?rs. rs_path x = q \<and> rs_resource_type x = ty) \<longleftrightarrow>
        listed p prune q \<and> (\<exists>x\<in>set (bt_values (ms_resources t)). rs_path x = q \<and> rs_resource_type x = ty)"
      by (auto simp: listed_def mock_pruned_iff starts_with_below)
    also have "\<dots> \<longleftrightarrow> listed p prune q \<and> (\<exists>x. bt_get (ms_resources t) q = Some x \<and> rs_resource_type x = ty)"
      unfolding Bex_def mem using keyed by blast
    finally show ?thesis .
  qed
  moreover have "sorted_wrt (<) (map rs_path ?rs)"
    unfolding filter_filter by (rule sorted)
  ultimately show ?thesis
    unfolding r sum.case store using t by blast
qed auto

lemma mock_metadata_law:
  assumes "mock_ok s" "mock_metadata p s = (r, s')"
  shows "mock_ok s' \<and> mock_store s' = mock_store s \<and>
    (case r of Inl e \<Rightarrow> ye_kind e = YkNotFound \<longrightarrow> mock_store s p = None
     | Inr x \<Rightarrow> rs_path x = p \<and> map_option entry_type (mock_store s p) = Some (rs_resource_type x))"
  using assms(2,1) unfolding mock_metadata_def
proof (rule recorded_law)
  fix t assume t: "mock_ok t" "mock_store t = mock_store s"
    and run: "(case bt_get (ms_resources t) p of None \<Rightarrow> (Inl (mock_not_found p), t)
      | Some resource \<Rightarrow> (Inr resource, t)) = (r, s')"
  then show ?thesis
    unfolding t(2) [symmetric] by (auto simp: mock_store_def mock_ok_iff split: option.splits)
qed auto

lemma mock_download_law:
  assumes "mock_ok s" "mock_download p s = (r, s')"
  shows "mock_ok s' \<and> mock_store s' = mock_store s \<and>
    (case r of Inl e \<Rightarrow> True | Inr c \<Rightarrow> mock_store s p = Some Folder \<or> mock_store s p = Some (Doc c))"
  using assms(2,1) unfolding mock_download_def
proof (rule recorded_law)
  fix t assume t: "mock_ok t" "mock_store t = mock_store s"
    and run: "(case bt_get (ms_resources t) p of None \<Rightarrow> (Inl (mock_not_found p), t)
      | Some resource \<Rightarrow>
          (Inr (case bt_get (ms_contents t) p of
                  Some content \<Rightarrow> content
                | None \<Rightarrow> replicate (case rs_size_bytes resource of None \<Rightarrow> 0 | Some n \<Rightarrow> unat n) 0), t)) = (r, s')"
  have "\<forall>x. bt_get (ms_resources t) p = Some x \<longrightarrow> rs_resource_type x \<noteq> RtDirectory \<longrightarrow> bt_get (ms_contents t) p \<noteq> None"
    using t(1) by (simp add: mock_ok_iff type_cases)
  then show ?thesis
    using run t(1) unfolding t(2) [symmetric]
    by (cases "bt_get (ms_resources t) p"; cases "bt_get (ms_contents t) p")
      (auto simp: mock_store_def entry_of_def)
qed auto

lemma settled_exactly: "now = (case r of Inl e \<Rightarrow> before | Inr x \<Rightarrow> after) \<Longrightarrow> settled r before after now"
  by (cases r) auto

interpretation mock: exact_store "mock_client read_file display" mock_store mock_ok
proof (unfold_locales, unfold mock_client_def upload_def disk_client.simps, goal_cases)
  case (1 w p r w')
  then show ?case using mock_create_law [of w p r w'] by (auto intro: settled_exactly)
next
  case (2 w p content overwrite r w')
  then show ?case using mock_upload_law [of w p read_file display content overwrite r w'] by (auto intro: settled_exactly)
next
  case (3 w p r w')
  then show ?case using mock_delete_law [of w p r w'] addressable_trim by (auto intro: settled_exactly simp: delete_tree_absent split: sum.splits)
next
  case (4 w p q overwrite r w')
  then show ?case using mock_copy_law [of w p q overwrite r w'] by (auto intro: settled_exactly)
next
  case (5 w p q overwrite r w')
  then show ?case using mock_move_law [of w p q overwrite r w'] by (auto intro: settled_exactly)
next
  case 6 then show ?case by (rule mock_list_law)
next
  case 7 then show ?case by (intro mock_metadata_law)
next
  case 8 then show ?case by (intro mock_download_law)
next
  case (9 w p e w')
  then show ?case using mock_create_law [of w p "Inl e" w'] by simp
next
  case (10 w p content overwrite e w')
  then show ?case using mock_upload_law [of w p read_file display content overwrite "Inl e" w'] by simp
next
  case (11 w p e w')
  then show ?case using mock_delete_law [of w p "Inl e" w'] addressable_trim by simp
next
  case (12 w p q overwrite e w')
  then show ?case using mock_copy_law [of w p q overwrite "Inl e" w'] by simp
next
  case (13 w p q overwrite e w')
  then show ?case using mock_move_law [of w p q overwrite "Inl e" w'] by simp
qed

end
