(* ===== verification/Sync_Mock.thy ===== *)
theory Sync_Mock
  imports Sync_Mirror Mock_Props Sync_Order
begin

text \<open>
  The engine over the in-memory client of the tests: its properties as a remote storage, and an
  environment whose world is its state.
\<close>

section \<open>An environment over the in-memory client\<close>

definition mock_remote :: "mock_state disk_client" where
  "mock_remote = mock_client (\<lambda>p. Inl ''no such file'') path_string"

definition mock_env :: "mock_state sync_env" where
  "mock_env =
     \<lparr>ev_client = mock_remote, ev_now = (\<lambda>w. (0, w)), ev_utc_text = (\<lambda>t. ''t''),
      ev_parse_rfc3339 = (\<lambda>_. None), ev_is_cancelled = (\<lambda>w. (False, w)),
      ev_fs = (\<lambda>w. (\<lparr>fv_is_dir = (\<lambda>_. True), fv_exists = (\<lambda>_. True), fv_metadata = (\<lambda>_. None)\<rparr>, w)),
      ev_remove_file = (\<lambda>p w. (Removed, w)),
      ev_scan = (\<lambda>options root previous. ret (scan_report_new (sn_id root))),
      ev_order = (\<lambda>n w. ([], w)), ev_ahead = (\<lambda>w. (0, w)), ev_db_fault = (\<lambda>w. (None, w)),
      ev_gitignore = permissive_gitignore\<rparr>"

lemma recorded_keeps:
  assumes "\<And>t. snd (f t) = t"
  shows "keeps (has_store mock_ok mock_store \<sigma>) (seqM (record_operation kind p x) f)"
  unfolding keeps_def
proof (intro allI impI)
  fix s assume s: "has_store mock_ok mock_store \<sigma> s"
  have ok: "mock_ok s" using s by (simp add: has_store_def)
  obtain r s' where run: "seqM (record_operation kind p x) f s = (r, s')" by (metis surj_pair)
  have "has_store mock_ok mock_store \<sigma> s'"
  proof (rule recorded_law [OF run ok])
    fix t assume t: "mock_ok t" "mock_store t = mock_store s" "f t = (r, s')"
    have "t = s'" using assms [of t] t(3) by simp
    then show "has_store mock_ok mock_store \<sigma> s'" using t s by (simp add: has_store_def)
  next
    assume "mock_ok s'" "mock_store s' = mock_store s"
    then show "has_store mock_ok mock_store \<sigma> s'" using s by (simp add: has_store_def)
  qed
  then show "has_store mock_ok mock_store \<sigma> (snd (seqM (record_operation kind p x) f s))" using run by simp
qed

lemma mock_env_reads: "reads_only mock_env mock_ok mock_store"
  unfolding reads_only_def
proof
  fix \<sigma>
  show "engine_reads (\<lambda>_. True) mock_env (has_store mock_ok mock_store \<sigma>)"
    by unfold_locales
      (auto simp: mock_env_def mock_remote_def mock_client_def stable_def mock_disk_info_def mock_metadata_def
        mock_list_recursive_def mock_get_def keeps_def ret_def
        intro!: recorded_keeps [unfolded keeps_def, rule_format] split: option.splits)
qed

lemma mock_env_contract: "remote_store (ev_client mock_env) mock_store mock_ok"
  unfolding mock_env_def mock_remote_def sync_env.simps by (rule mock.remote_store_axioms)

section \<open>A root brought into line\<close>

definition mirror_state :: mock_state where
  "mirror_state = snd (seqM (insert_file ''disk:/r/a/x'' []) (insert_file ''disk:/r/old/z'' []) mock_state_default)"

definition mirror_delete :: RemoteDeleteOperation where
  "mirror_delete = \<lparr>rd_root_id = ''r'', rd_remote_path = ''disk:/r/old'', rd_relative_path = ''old'',
     rd_resource_type = RtDirectory\<rparr>"

definition mirror_operation :: OperationRecord where
  "mirror_operation = \<lparr>or_run_id = 1, or_operation = ''delete_remote'', or_local_path = None,
     or_remote_path = Some ''disk:/r/old''\<rparr>"

definition mirror_summary :: RootSyncSummary where
  "mirror_summary = idle_summary\<lparr>rt_deleted_files := 1\<rparr>"

text \<open>The database before the deletion and after each of its statements.\<close>

definition mirror_db0 :: db where "mirror_db0 = snd (begin_run ''t'' TrCli empty_db)"
definition mirror_db1 :: db where "mirror_db1 = snd (append_operation_started ''t'' mirror_operation mirror_db0)"
definition mirror_db2 :: db where "mirror_db2 = snd (finish_operation ''t'' 1 OpSucceeded None None mirror_db1)"
definition mirror_db3 :: db where
  "mirror_db3 = snd (mark_directory_deleted ''t'' ''r'' ''old'' ''disk:/r/old'' (Some 1) mirror_db2)"
definition mirror_db4 :: db where
  "mirror_db4 = snd (delete_remote_resource_subtree ''r'' ''disk:/r/old'' mirror_db3)"
definition mirror_db5 :: db where
  "mirror_db5 = snd (update_run_progress 1 (add_root_summary summary_default mirror_summary) mirror_db4)"

lemma settle: "fst (f d) = Inr x \<Longrightarrow> f d = (Inr x, snd (f d))"
  by (metis prod.collapse)

lemma mirror_statements:
  "append_operation_started ''t'' mirror_operation mirror_db0 = (Inr 1, mirror_db1)"
  "finish_operation ''t'' 1 OpSucceeded None None mirror_db1 = (Inr (), mirror_db2)"
  "mark_directory_deleted ''t'' ''r'' ''old'' ''disk:/r/old'' (Some 1) mirror_db2 = (Inr (), mirror_db3)"
  "delete_remote_resource_subtree ''r'' ''disk:/r/old'' mirror_db3 = (Inr (), mirror_db4)"
  "update_run_progress 1 (add_root_summary summary_default mirror_summary) mirror_db4 = (Inr (), mirror_db5)"
  by (simp_all only: mirror_db1_def mirror_db2_def mirror_db3_def mirror_db4_def mirror_db5_def,
      (rule settle, code_simp)+)

lemma mirror_operations:
  "collect_coalesced_delete_operations example_root_config ''disk:/r'' example_plan (ms_resources mirror_state) =
   [mirror_delete]"
  by code_simp

lemma mirror_call: "fst (mock_delete_permanently ''disk:/r/old'' mirror_state) = Inr ()"
  by code_simp

lemma repo_run:
  "ev_db_fault env = Pair None \<Longrightarrow> f (st_db s) = (Inr x, d) \<Longrightarrow> repo env f s = (Inr x, s\<lparr>st_db := d\<rparr>)"
  by (simp add: repo_def errM_def repo_call_def bindM_def world_read_def db_run_def map_err_def)

lemma repo_at_run:
  "ev_db_fault env = Pair None \<Longrightarrow> ev_now env = Pair n \<Longrightarrow> f (ev_utc_text env n) (st_db s) = (Inr x, d) \<Longrightarrow>
   repo_at env f s = (Inr x, s\<lparr>st_db := d\<rparr>)"
  by (simp add: repo_at_def repo_at_call_def errM_def repo_call_def bindM_def world_read_def db_run_def map_err_def)

lemma mock_env_simps:
  "ev_db_fault mock_env = Pair None" "ev_now mock_env = Pair 0" "ev_utc_text mock_env = (\<lambda>t. ''t'')"
  "ev_is_cancelled mock_env = Pair False" "ev_client mock_env = mock_remote"
  "dc_delete_permanently mock_remote = mock_delete_permanently"
  by (auto simp: mock_env_def mock_remote_def mock_client_def)

definition mirror_at :: "mock_state \<Rightarrow> db \<Rightarrow> mock_state sync_state" where
  "mirror_at w d = \<lparr>st_world = w, st_db = d, st_report = idle_report\<rparr>"

definition mirror_start :: "mock_state sync_state" where
  "mirror_start = mirror_at mirror_state mirror_db0"

definition mirror_end :: "mock_state sync_state" where
  "mirror_end = mirror_at (snd (mock_delete_permanently ''disk:/r/old'' mirror_state)) mirror_db5"

lemma bindM_run: "f s = (Inr x, t) \<Longrightarrow> g x t = r \<Longrightarrow> bindM f g s = r"
  by (simp add: bindM_def)

lemma seqM_run: "f s = (Inr x, t) \<Longrightarrow> g t = r \<Longrightarrow> seqM f g s = r"
  by (simp add: seqM_def bindM_def)

lemma mirror_run:
  "apply_deletes mock_env 1 example_root_config example_plan (ms_resources mirror_state) False summary_default
     idle_summary mirror_start = (Inr (False, mirror_summary), mirror_end)"
proof -
  have base: "rt_canonical_remote_path idle_summary = ''disk:/r''" by (simp add: idle_summary_def)
  have op: "rd_remote_path mirror_delete = ''disk:/r/old''" "rd_root_id mirror_delete = ''r''"
    "rd_relative_path mirror_delete = ''old''" "rd_resource_type mirror_delete = RtDirectory"
    by (simp_all add: mirror_delete_def)
  have summary: "idle_summary\<lparr>rt_deleted_files := rt_deleted_files idle_summary + 1\<rparr> = mirror_summary"
    by (simp add: mirror_summary_def) (simp add: idle_summary_def)
  note run = mirror_statements [unfolded mirror_operation_def]
  have call: "world_call (dc_delete_permanently (ev_client mock_env) ''disk:/r/old'') (mirror_at mirror_state d) =
      (Inr (Inr ()), mirror_at (snd (mock_delete_permanently ''disk:/r/old'' mirror_state)) d)" for d
    by (simp add: world_call_def mock_env_simps mirror_at_def mirror_call case_prod_beta)
  have cancelled: "is_cancelled mock_env s = (Inr False, s)" for s
    by (simp add: is_cancelled_def world_read_def mock_env_simps)
  have db: "st_db (mirror_at w d) = d" "(mirror_at w d)\<lparr>st_db := d'\<rparr> = mirror_at w d'" for w d d'
    by (simp_all add: mirror_at_def)
  have remove: "delete_remote mock_env 1 example_root_config summary_default mirror_delete 1 idle_summary
      (mirror_at mirror_state mirror_db1) = (Inr (False, mirror_summary), mirror_end)"
    unfolding delete_remote_def op mark_remote_deleted_def persist_root_progress_def summary Let_def
    apply (rule bindM_run, rule call, simp only: sum.case ResourceType.case)
    apply (rule seqM_run, rule repo_at_run [OF mock_env_simps(1,2)])
     apply (simp only: db mock_env_simps run)
    apply (rule seqM_run, rule repo_at_run [OF mock_env_simps(1,2)])
     apply (simp only: db mock_env_simps run)
    apply (rule seqM_run, rule repo_run [OF mock_env_simps(1)])
     apply (simp only: db run)
    apply (rule seqM_run, rule repo_run [OF mock_env_simps(1)])
     apply (simp only: db run)
    apply (simp add: ret_def db mirror_end_def)
    done
  have step: "delete_step mock_env 1 example_root_config False summary_default mirror_delete idle_summary
      (mirror_at mirror_state mirror_db0) = (Inr (False, mirror_summary), mirror_end)"
    unfolding delete_step_def op if_False
    by (rule bindM_run, rule repo_at_run [OF mock_env_simps(1,2)], simp only: db mock_env_simps run,
        simp only: db, rule remove)
  show ?thesis
    unfolding apply_deletes_def base mirror_operations delete_loop.simps mirror_start_def
    by (rule bindM_run, rule cancelled, simp only: if_False, rule bindM_run, rule step) (simp add: ret_def)
qed

lemma mock_inventory_normal:
  assumes "mock_ok s" "remote_path_wf base" shows "normal_inventory base (ms_resources s)"
proof (rule wf_inventory_normal [OF assms(2)])
  show "\<forall>r\<in>set (bt_values (ms_resources s)). remote_path_wf (rs_path r)"
    using assms(1) by (fastforce simp: mock_ok_def bt_values_def)
qed

lemma mirror_ok: "mock_ok mirror_state"
  by code_simp

lemma folders_below_check:
  assumes "list_all (\<lambda>q. list_all (\<lambda>n. strictly_under base (take n q) \<longrightarrow> strictly_under (take n q) q \<longrightarrow>
      mock_store s (take n q) = Some Folder) [0..<length q]) (bt_keys (ms_resources s))"
  shows "folders_below base (mock_store s)"
  unfolding folders_below_def
proof (intro allI impI)
  fix p q assume pq: "strictly_under base p" "strictly_under p q" "mock_store s q \<noteq> None"
  have "take (length p) q = p" "length p < length q" using pq(2) by (auto simp: strictly_under_iff)
  then show "mock_store s p = Some Folder"
    using assms mock_store_Some [OF pq(3)] pq(1,2) unfolding list_all_iff
    by (metis atLeastLessThan_iff le0 set_upt)
qed

lemma mirror_folders: "folders_below ''disk:/r'' (mock_store mirror_state)"
  by (rule folders_below_check) code_simp

theorem apply_deletes_mirrors_witness:
  "mock_store (st_world mirror_end) ''disk:/r/old/z'' = None \<and>
   mock_store (st_world mirror_end) ''disk:/r/a/x'' = mock_store mirror_state ''disk:/r/a/x''"
proof -
  have base: "remote_path_wf ''disk:/r''" by code_simp
  have start: "st_world mirror_start = mirror_state" by (simp add: mirror_start_def mirror_at_def)
  have canon: "rt_canonical_remote_path idle_summary = ''disk:/r''" by (simp add: idle_summary_def)
  have rs: "rt_error_summary mirror_summary = None" by (simp add: mirror_summary_def idle_summary_def)
  have after: "if strictly_under ''disk:/r'' q \<and> q \<notin> set (live_paths ''disk:/r'' example_plan)
    then (if mock_store mirror_state q = None \<or>
        deletable ''disk:/r'' q \<and> q \<in> rs_path ` set (bt_values (ms_resources mirror_state))
      then mock_store (st_world mirror_end) q = None
      else mock_store (st_world mirror_end) q \<in> {None, mock_store mirror_state q})
    else mock_store (st_world mirror_end) q = mock_store mirror_state q" for q
    by (rule apply_deletes_mirrors [OF mock_env_contract mock_env_reads base canon example_tree
        mock_inventory_normal [OF mirror_ok base] _ _ mirror_run rs, unfolded start, OF mirror_folders mirror_ok])
  have "strictly_under ''disk:/r'' ''disk:/r/old/z'' \<and> ''disk:/r/old/z'' \<notin> set (live_paths ''disk:/r'' example_plan) \<and>
      deletable ''disk:/r'' ''disk:/r/old/z'' \<and> ''disk:/r/old/z'' \<in> rs_path ` set (bt_values (ms_resources mirror_state))"
    "''disk:/r/a/x'' \<in> set (live_paths ''disk:/r'' example_plan)"
    by code_simp+
  then show ?thesis using after [of "''disk:/r/old/z''"] after [of "''disk:/r/a/x''"] by auto
qed

end
