(* ===== verification/Store_Ops.thy ===== *)
theory Store_Ops
  imports Mock_Props
begin

text \<open>
  Sequences of operations that change a remote storage, run by a client and performed on the abstract
  store: what the client stores after any sequence, whatever failed in it, is what the operations that
  succeeded make of the store it began with.
\<close>

section \<open>Operations and their performance\<close>

datatype store_op =
    CreateFolder string
  | PutFile string content bool
  | Remove string
  | CopyTo string string bool
  | MoveTo string string bool

fun perform :: "store_op \<Rightarrow> store \<Rightarrow> store" where
  "perform (CreateFolder p) \<sigma> = \<sigma>(p \<mapsto> Folder)"
| "perform (PutFile p c overwrite) \<sigma> = \<sigma>(p \<mapsto> Doc c)"
| "perform (Remove p) \<sigma> = delete_tree p \<sigma>"
| "perform (CopyTo p q overwrite) \<sigma> = copy_tree p q \<sigma>"
| "perform (MoveTo p q overwrite) \<sigma> = move_tree p q \<sigma>"

fun run_op :: "'w disk_client \<Rightarrow> store_op \<Rightarrow> ('w, YandexDiskError, unit) m" where
  "run_op client (CreateFolder p) = dc_create_directory client p"
| "run_op client (PutFile p c overwrite) = upload client p c overwrite"
| "run_op client (Remove p) = dc_delete_permanently client p"
| "run_op client (CopyTo p q overwrite) = dc_copy_resource client p q overwrite"
| "run_op client (MoveTo p q overwrite) = dc_move_resource client p q overwrite"

text \<open>What the laws ask of an operation: clean paths, and no transfer of a tree into itself.\<close>

definition apart :: "string \<Rightarrow> string \<Rightarrow> bool" where
  "apart p q = (remote_path_wf p \<and> remote_path_wf q \<and> \<not> path_under p q \<and> \<not> path_under q p)"

fun op_clean :: "store_op \<Rightarrow> bool" where
  "op_clean (CreateFolder p) = remote_path_wf p"
| "op_clean (PutFile p c overwrite) = remote_path_wf p"
| "op_clean (Remove p) = addressable p"
| "op_clean (CopyTo p q overwrite) = apart p q"
| "op_clean (MoveTo p q overwrite) = apart p q"

text \<open>The operations one after another, each with its result.\<close>

fun run_ops :: "'w disk_client \<Rightarrow> store_op list \<Rightarrow> 'w \<Rightarrow> (YandexDiskError + unit) list \<times> 'w" where
  "run_ops client [] w = ([], w)"
| "run_ops client (op # ops) w =
     (let (r, w) = run_op client op w; (rs, w) = run_ops client ops w in (r # rs, w))"

definition succeeded :: "store_op list \<Rightarrow> (YandexDiskError + unit) list \<Rightarrow> store_op list" where
  "succeeded ops rs = map fst (filter (\<lambda>(op, r). \<not> isl r) (zip ops rs))"

lemma succeeded_simps [simp]:
  "succeeded [] rs = []"
  "succeeded (op # ops) (r # rs) = (if isl r then succeeded ops rs else op # succeeded ops rs)"
  by (simp_all add: succeeded_def)

context exact_store
begin

lemma run_op_law:
  assumes "ok w" "op_clean op" "run_op client op w = (r, w')"
  shows "ok w' \<and> store w' = (if isl r then store w else perform op (store w))"
proof (cases op)
  case (CreateFolder p)
  then show ?thesis using create_directory [of w p r w'] failed_create [of w p _ w'] assms by (cases r) auto
next
  case (PutFile p c overwrite)
  then show ?thesis
    using upload_bytes [of w p c overwrite r w'] failed_upload [of w p c overwrite _ w'] assms by (cases r) auto
next
  case (Remove p)
  then show ?thesis using delete_permanently [of w p r w'] failed_delete [of w p _ w'] assms by (cases r) auto
next
  case (CopyTo p q overwrite)
  then show ?thesis
    using copy_resource [of w p q overwrite r w'] failed_copy [of w p q overwrite _ w'] assms
    by (cases r) (auto simp: apart_def)
next
  case (MoveTo p q overwrite)
  then show ?thesis
    using move_resource [of w p q overwrite r w'] failed_move [of w p q overwrite _ w'] assms
    by (cases r) (auto simp: apart_def)
qed

lemma run_ops_law:
  assumes "ok w" "list_all op_clean ops" "run_ops client ops w = (rs, w')"
  shows "ok w' \<and> store w' = fold perform (succeeded ops rs) (store w)"
  using assms
proof (induction ops arbitrary: w rs)
  case (Cons op ops)
  obtain r w1 where step: "run_op client op w = (r, w1)" by fastforce
  obtain rs1 w2 where rest: "run_ops client ops w1 = (rs1, w2)" by fastforce
  have "ok w1 \<and> store w1 = (if isl r then store w else perform op (store w))"
    using run_op_law [OF Cons.prems(1) _ step] Cons.prems(2) by simp
  then show ?case
    using Cons.IH [of w1 rs1] Cons.prems step rest by auto
qed simp

text \<open>What a listing shows after a sequence of operations.\<close>

lemma list_after_ops:
  assumes "ok w" "list_all op_clean ops" "run_ops client ops w = (rs, w')" "addressable root"
    and "dc_list_recursive_with_options client root prune w' = (Inr found, w'')"
  shows "(\<exists>x\<in>set found. rs_path x = q) \<longleftrightarrow>
    listed root prune q \<and> fold perform (succeeded ops rs) (store w) q \<noteq> None"
proof -
  have "(\<exists>x\<in>set found. rs_path x = q \<and> rs_resource_type x = t) \<longleftrightarrow>
      listed root prune q \<and> map_option entry_type (store w' q) = Some t" for t
    using list_with_options [OF _ assms(4,5)] run_ops_law [OF assms(1-3)] by auto
  then show ?thesis
    using run_ops_law [OF assms(1-3)] by (metis (no_types, lifting) not_Some_eq option.map_disc_iff option.simps(9))
qed

end

section \<open>The client of the tests\<close>

lemma mock_move_found:
  assumes "mock_ok s" "mock_move_resource p q overwrite s = (Inr (), s')"
  shows "mock_store s p \<noteq> None"
  using assms(2,1) unfolding mock_move_resource_def
proof (rule recorded_law)
  fix t assume same: "mock_store t = mock_store s"
    and run: "(case bt_get (ms_resources t) p of
          None \<Rightarrow> (Inl (mock_not_found p), t)
        | Some resource \<Rightarrow>
            let s = t\<lparr>ms_resources := bt_insert q (relocated q resource) (bt_remove p (ms_resources t))\<rparr>;
                s = (case bt_get (ms_contents s) p of
                       None \<Rightarrow> s
                     | Some content \<Rightarrow> s\<lparr>ms_contents := bt_insert q content (bt_remove p (ms_contents s))\<rparr>)
            in (Inr (), if rs_resource_type resource = RtDirectory
                        then fold (move_child p q) (descendants p s) s else s)) = (Inr (), s')"
  from run have "mock_store t p \<noteq> None" by (cases "bt_get (ms_resources t) p") (auto simp: mock_store_def)
  then show ?thesis unfolding same .
qed auto

text \<open>
  C13. The in-memory client refines the abstract store: from a state with its invariant (\<open>mock_ok\<close>), after any
  sequence of operations on well-formed paths, copies and moves between paths of which neither lies at or below the
  other (\<open>op_clean\<close>), failures made to happen included, it stores what the operations that succeeded make of the store it
  began with, and its invariant holds.
\<close>

theorem mock_refines_store:
  assumes "mock_ok s" "list_all op_clean ops" "run_ops (mock_client read_file display) ops s = (rs, s')"
  shows "mock_ok s' \<and> mock_store s' = fold perform (succeeded ops rs) (mock_store s)"
  using assms by (rule mock.run_ops_law)

definition refine_ops :: "store_op list" where
  "refine_ops = [CreateFolder ''disk:/a'', PutFile ''disk:/a/x'' [1, 2] True, MoveTo ''disk:/a'' ''disk:/b'' True,
     CopyTo ''disk:/b/x'' ''disk:/c'' True, Remove ''disk:/b'']"

theorem mock_refines_store_witness:
  "mock_store (snd (run_ops (mock_client (\<lambda>p. Inl []) path_string) refine_ops mock_state_default)) =
   fold perform refine_ops (\<lambda>p. None) \<and>
   mock_store (snd (run_ops (mock_client (\<lambda>p. Inl []) path_string) refine_ops mock_state_default)) ''disk:/c'' =
   Some (Doc [1, 2])"
proof -
  let ?c = "mock_client (\<lambda>p. Inl []) path_string"
  have start: "mock_ok mock_state_default" "mock_store mock_state_default = (\<lambda>p. None)"
    by (code_simp, simp add: fun_eq_iff mock_store_def mock_state_default_def)
  have clean: "list_all op_clean refine_ops" by code_simp
  have "succeeded refine_ops (fst (run_ops ?c refine_ops mock_state_default)) = refine_ops" by code_simp
  then have "mock_store (snd (run_ops ?c refine_ops mock_state_default)) = fold perform refine_ops (\<lambda>p. None)"
    using mock_refines_store [OF start(1) clean, of "\<lambda>p. Inl []" path_string] start(2) by (metis prod.collapse)
  moreover have "fold perform refine_ops (\<lambda>p. None) ''disk:/c'' = Some (Doc [1, 2])" by code_simp
  ultimately show ?thesis by simp
qed

text \<open>
  Moving a folder or file to a free place and back again restores what the in-memory client stores.
\<close>

theorem mock_move_round_trip:
  assumes "mock_ok s" "apart p q"
    and "mock_store s p = Some Folder \<or> (\<forall>x. strictly_under p x \<longrightarrow> mock_store s x = None)"
    and "\<And>x. path_under q x \<Longrightarrow> mock_store s x = None"
    and "mock_move_resource p q overwrite s = (Inr (), s1)" "mock_move_resource q p overwrite s1 = (Inr (), s2)"
  shows "mock_store s2 = mock_store s"
proof -
  let ?ops = "[MoveTo p q overwrite, MoveTo q p overwrite]" and ?c = "mock_client (\<lambda>p. Inl []) path_string"
  have "run_ops ?c ?ops s = ([Inr (), Inr ()], s2)"
    using assms(5,6) by (simp add: mock_client_def)
  moreover have "list_all op_clean ?ops" using assms(2) by (simp add: apart_def)
  ultimately have "mock_store s2 = move_tree q p (move_tree p q (mock_store s))"
    using mock.run_ops_law [OF assms(1)] by fastforce
  moreover have "mock_store s p \<noteq> None"
    using mock_move_found [OF assms(1) assms(5)] .
  ultimately show ?thesis
    using move_and_back [of p q "mock_store s"] assms(2-4) by (simp add: apart_def)
qed


theorem mock_move_round_trip_witness:
  "mock_store (snd (mock_move_resource ''disk:/b'' ''disk:/a'' True
     (snd (mock_move_resource ''disk:/a'' ''disk:/b'' True
       (snd (insert_file ''disk:/a/x'' [7] mock_state_default)))))) ''disk:/a/x'' = Some (Doc [7])"
proof -
  define s where "s = snd (insert_file ''disk:/a/x'' [7] mock_state_default)"
  define s1 where "s1 = snd (mock_move_resource ''disk:/a'' ''disk:/b'' True s)"
  define s2 where "s2 = snd (mock_move_resource ''disk:/b'' ''disk:/a'' True s1)"
  have "fst (mock_move_resource ''disk:/a'' ''disk:/b'' True s) = Inr ()"
    "fst (mock_move_resource ''disk:/b'' ''disk:/a'' True s1) = Inr ()"
    unfolding s1_def s_def by code_simp+
  then have moves: "mock_move_resource ''disk:/a'' ''disk:/b'' True s = (Inr (), s1)"
    "mock_move_resource ''disk:/b'' ''disk:/a'' True s1 = (Inr (), s2)"
    unfolding s1_def s2_def by (metis prod.collapse)+
  have ok: "mock_ok s" "apart ''disk:/a'' ''disk:/b''" unfolding s_def by code_simp+
  have at: "mock_store s ''disk:/a'' = Some Folder" "mock_store s ''disk:/a/x'' = Some (Doc [7])"
    unfolding s_def by code_simp+
  have "list_all (\<lambda>x. \<not> path_under ''disk:/b'' x) (bt_keys (ms_resources s))" unfolding s_def by code_simp
  then have free: "mock_store s x = None" if "path_under ''disk:/b'' x" for x
    using mock_store_Some [of s x] that unfolding list_all_iff by (cases "mock_store s x = None") simp_all
  show ?thesis
    using mock_move_round_trip [OF ok _ free moves] at
    unfolding s_def s1_def s2_def by simp
qed

end
