(* ===== verification/Http_Base.thy ===== *)
theory Http_Base
  imports Scan_Model
begin

text \<open>
  What the HTTP code of \<open>crates/yds-yandex-disk\<close> exchanges with its libraries: requests and responses
  of \<open>reqwest\<close>, JSON as \<open>serde_json\<close> reads it, and the answers of the Yandex Disk interface
  (\<open>models.rs\<close>, \<open>error.rs\<close>). Sending, parsing and the clock are fields of \<open>http_env\<close>.
\<close>

section \<open>Requests and responses\<close>

datatype http_method = GetMethod | PutMethod | PostMethod | DeleteMethod

record http_request =
  hq_method :: http_method
  hq_url :: string
  hq_authorization :: "string option"
  hq_query :: "(string \<times> string) list"
  hq_form :: "(string \<times> string) list"
  hq_body :: "bytes option"
  hq_content_length :: "u64 option"

record reqwest_error =
  re_is_timeout :: bool
  re_is_connect :: bool
  re_is_request :: bool
  re_is_body :: bool
  re_is_decode :: bool
  re_text :: string

text \<open>The body of a response is what reading it gives; \<open>hp_status_text\<close> is the status as printed.\<close>

record http_response =
  hp_status :: nat
  hp_status_text :: string
  hp_body :: "reqwest_error + bytes"

definition is_success :: "http_response \<Rightarrow> bool" where
  "is_success r = (200 \<le> hp_status r \<and> hp_status r < 300)"

definition error_from_reqwest :: "reqwest_error \<Rightarrow> YandexDiskError" where
  "error_from_reqwest e =
     (if re_is_timeout e \<or> re_is_connect e \<or> re_is_request e \<or> re_is_body e \<or> re_is_decode e
      then error_new YkTransient (re_text e)
      else error_new YkPermanent (re_text e))"

section \<open>Answers of the interface\<close>

datatype ApiResourceType = ApiFile | ApiDirectory

datatype ApiResource =
  ApiResource (ar_path: string) (ar_name: "string option") (ar_resource_type: ApiResourceType)
    (ar_size: "u64 option") (ar_md5: "string option") (ar_revision: "u64 option")
    (ar_created: "string option") (ar_modified: "string option") (ar_embedded: "ApiEmbeddedResources option")
and ApiEmbeddedResources =
  ApiEmbeddedResources (ae_items: "ApiResource list") (ae_limit: "u64 option") (ae_offset: "u64 option")
    (ae_total: "u64 option")

fun resource_type_from_api :: "ApiResourceType \<Rightarrow> ResourceType" where
  "resource_type_from_api ApiFile = RtFile"
| "resource_type_from_api ApiDirectory = RtDirectory"

definition metadata_from_api :: "ApiResource \<Rightarrow> ResourceMetadata" where
  "metadata_from_api r =
     \<lparr>rs_path = ar_path r, rs_name = ar_name r, rs_resource_type = resource_type_from_api (ar_resource_type r),
      rs_size_bytes = ar_size r, rs_md5 = ar_md5 r, rs_revision = ar_revision r,
      rs_created = ar_created r, rs_modified = ar_modified r\<rparr>"

record ApiDiskInfo =
  ad_total_space :: "u64 option"
  ad_used_space :: "u64 option"
  ad_trash_size :: "u64 option"
  ad_system_folders :: "(string, string) btree"

definition disk_info_from_api :: "ApiDiskInfo \<Rightarrow> DiskInfo" where
  "disk_info_from_api info =
     \<lparr>di_quota = \<lparr>qi_total_space = ad_total_space info, qi_used_space = ad_used_space info,
                  qi_trash_size = ad_trash_size info\<rparr>,
      di_system_folders = ad_system_folders info\<rparr>"

record LinkResponse =
  lr_href :: string
  lr_method :: "string option"
  lr_templated :: "bool option"

record OAuthTokenResponse =
  ot_access_token :: string
  ot_token_type :: "string option"
  ot_expires_in :: "i64 option"
  ot_refresh_token :: "string option"
  ot_scope :: "string option"

text \<open>One parser per type that a body is decoded to; a body that does not fit is an error of decoding.\<close>

record json_api =
  ja_disk_info :: "bytes \<Rightarrow> reqwest_error + ApiDiskInfo"
  ja_resource :: "bytes \<Rightarrow> reqwest_error + ApiResource"
  ja_link :: "bytes \<Rightarrow> reqwest_error + LinkResponse"
  ja_operation :: "bytes \<Rightarrow> reqwest_error + string"
  ja_token :: "bytes \<Rightarrow> reqwest_error + OAuthTokenResponse"
  ja_error :: "bytes \<Rightarrow> reqwest_error + ApiErrorPayload"

definition response_json :: "(bytes \<Rightarrow> reqwest_error + 'a) \<Rightarrow> http_response \<Rightarrow> reqwest_error + 'a" where
  "response_json parse r = (case hp_body r of Inl e \<Rightarrow> Inl e | Inr body \<Rightarrow> parse body)"

definition response_json_with_context ::
  "(bytes \<Rightarrow> reqwest_error + 'a) \<Rightarrow> http_response \<Rightarrow> string \<Rightarrow> YandexDiskError + 'a" where
  "response_json_with_context parse r context =
     (case response_json parse r of
        Inr x \<Rightarrow> Inr x
      | Inl e \<Rightarrow>
          let e = error_from_reqwest e
          in Inl (error_new (ye_kind e) (ye_message e @ '' while decoding JSON response for '' @ context)))"

definition error_of_response :: "json_api \<Rightarrow> http_response \<Rightarrow> YandexDiskError" where
  "error_of_response json r =
     error_from_response (hp_status_text r) (hp_status r)
       (case response_json (ja_error json) r of Inl e \<Rightarrow> None | Inr payload \<Rightarrow> Some payload)"

section \<open>Tokens\<close>

record StoredToken =
  st_access_token :: string
  st_refresh_token :: "string option"
  st_expires_at_unix :: "i64 option"
  st_scope :: "string option"
  st_token_type :: "string option"
  st_client_id :: "string option"

record 'w token_store =
  ts_load :: "string \<Rightarrow> ('w, StoredToken option) disk_call"
  ts_save :: "string \<Rightarrow> StoredToken \<Rightarrow> ('w, unit) disk_call"
  ts_delete :: "string \<Rightarrow> ('w, bool) disk_call"

section \<open>The environment\<close>

text \<open>The three clients of \<open>reqwest\<close> the program builds; they differ in timeouts and redirects.\<close>

datatype http_channel = ApiHttp | PlainHttp | OAuthHttp

record 'w http_env =
  he_send :: "http_channel \<Rightarrow> http_request \<Rightarrow> 'w \<Rightarrow> (reqwest_error + http_response) \<times> 'w"
  he_json :: json_api
  he_tokens :: "'w token_store"
  he_unix :: "'w \<Rightarrow> i64 \<times> 'w"
  he_instant :: "'w \<Rightarrow> nat \<times> 'w"
    \<comment> \<open>a monotone clock, in nanoseconds\<close>
  he_sleep :: "nat \<Rightarrow> 'w \<Rightarrow> 'w"
  he_open :: "local_path \<Rightarrow> 'w \<Rightarrow> (string + u64 option \<times> bytes) \<times> 'w"
    \<comment> \<open>a file opened for upload: its size where known, and what is read from it\<close>
  he_origin :: "string \<Rightarrow> string + string"
    \<comment> \<open>\<open>Url::parse\<close> and the origin of the result\<close>
  he_expired :: "nat \<Rightarrow> 'w \<Rightarrow> bool \<times> 'w"
    \<comment> \<open>whether a task is cut off by its time limit; if it is, what it did before\<close>
  he_pick :: "nat \<Rightarrow> 'w \<Rightarrow> nat \<times> 'w"
    \<comment> \<open>which of the running tasks ends next\<close>

definition env_read :: "('w \<Rightarrow> 'a \<times> 'w) \<Rightarrow> ('w, 'e, 'a) m" where
  "env_read f = (\<lambda>w. case f w of (x, w') \<Rightarrow> (Inr x, w'))"

definition env_do :: "('w \<Rightarrow> 'w) \<Rightarrow> ('w, 'e, unit) m" where
  "env_do f = (\<lambda>w. (Inr (), f w))"

definition of_result :: "'e + 'a \<Rightarrow> ('w, 'e, 'a) m" where
  "of_result r = (case r of Inl e \<Rightarrow> throw e | Inr x \<Rightarrow> ret x)"

text \<open>\<open>send\<close>, with an error of the library turned into one of the program.\<close>

definition send_request ::
  "'w http_env \<Rightarrow> http_channel \<Rightarrow> http_request \<Rightarrow> ('w, 'e, YandexDiskError + http_response) m" where
  "send_request env channel request =
     env_read (\<lambda>w. case he_send env channel request w of (r, w') \<Rightarrow> (map_err error_from_reqwest r, w'))"

end
