(* ===== verification/Http_Client.thy ===== *)
theory Http_Client
  imports Http_Base
begin

text \<open>
  \<open>HttpYandexDiskClient\<close> of \<open>crates/yds-yandex-disk/src/lib.rs\<close>: requests with their retries and the
  refresh of the token, the listing of a directory page by page, the walk over directories, transfers
  and the polling of operations. The two loops whose end the server decides, the walk and the polling,
  take fuel; a computation that runs out of it ends in \<open>OutOfFuel\<close>, which is no error of the program.
\<close>

section \<open>Constants and options\<close>

definition DEFAULT_API_BASE_URL :: string where
  "DEFAULT_API_BASE_URL = ''https://cloud-api.yandex.net/v1/disk''"

definition DEFAULT_LIST_LIMIT :: nat where "DEFAULT_LIST_LIMIT = 1000"

definition DEFAULT_LIST_DIRECTORY_CONCURRENCY :: nat where "DEFAULT_LIST_DIRECTORY_CONCURRENCY = 8"

text \<open>Times in nanoseconds.\<close>

definition seconds :: "nat \<Rightarrow> nat" where "seconds n = n * 1000000000"

record HttpClientOptions =
  ho_base_url :: string
  ho_api_request_timeout :: nat
  ho_transfer_request_timeout :: nat
  ho_operation_poll_interval :: nat
  ho_operation_poll_timeout :: nat

definition http_client_options_default :: HttpClientOptions where
  "http_client_options_default =
     \<lparr>ho_base_url = DEFAULT_API_BASE_URL, ho_api_request_timeout = seconds 120,
      ho_transfer_request_timeout = seconds (6 * 60 * 60), ho_operation_poll_interval = seconds 2,
      ho_operation_poll_timeout = seconds 300\<rparr>"

record OAuthFlow =
  of_client_id :: string
  of_scope :: string
  of_client_name :: string
  of_authorize_url :: string
  of_token_url :: string

record 'w http_client =
  hc_env :: "'w http_env"
  hc_account_alias :: string
  hc_retry_policy :: RetryPolicy
  hc_oauth_flow :: "OAuthFlow option"
  hc_options :: HttpClientOptions

definition retry_delay :: "RetryPolicy \<Rightarrow> nat" where
  "retry_delay policy = seconds (unat (rp_delay_seconds policy))"

section \<open>Tokens\<close>

definition into_stored_token :: "OAuthTokenResponse \<Rightarrow> string \<Rightarrow> i64 \<Rightarrow> StoredToken" where
  "into_stored_token response client_id now =
     \<lparr>st_access_token = ot_access_token response, st_refresh_token = ot_refresh_token response,
      st_expires_at_unix =
        (case ot_expires_in response of
           None \<Rightarrow> None
         | Some s \<Rightarrow> if - (2 ^ 63) \<le> sint now + sint s \<and> sint now + sint s < 2 ^ 63 then Some (now + s) else None),
      st_scope = ot_scope response, st_token_type = ot_token_type response, st_client_id = Some client_id\<rparr>"

definition post_token_form ::
  "'w http_env \<Rightarrow> OAuthFlow \<Rightarrow> (string \<times> string) list \<Rightarrow> ('w, StoredToken) disk_call" where
  "post_token_form env flow form =
     bindM (send_request env OAuthHttp
              \<lparr>hq_method = PostMethod, hq_url = of_token_url flow, hq_authorization = None, hq_query = [],
               hq_form = form, hq_body = None, hq_content_length = None\<rparr>) (\<lambda>sent.
     bindM (of_result sent) (\<lambda>response.
       if \<not> is_success response then throw (error_of_response (he_json env) response)
       else
         case response_json (ja_token (he_json env)) response of
           Inl e \<Rightarrow> throw (error_from_reqwest e)
         | Inr token \<Rightarrow>
             if ot_expires_in token = None then ret (into_stored_token token (of_client_id flow) 0)
             else bindM (env_read (he_unix env)) (\<lambda>now. ret (into_stored_token token (of_client_id flow) now))))"

definition refresh_access_token :: "'w http_env \<Rightarrow> OAuthFlow \<Rightarrow> string \<Rightarrow> ('w, StoredToken) disk_call" where
  "refresh_access_token env flow refresh_token =
     post_token_form env flow
       [(''grant_type'', ''refresh_token''), (''refresh_token'', refresh_token), (''client_id'', of_client_id flow)]"

definition exchange_code :: "'w http_env \<Rightarrow> OAuthFlow \<Rightarrow> string \<Rightarrow> string \<Rightarrow> ('w, StoredToken) disk_call" where
  "exchange_code env flow received_code pkce_verifier =
     post_token_form env flow
       [(''grant_type'', ''authorization_code''), (''code'', received_code), (''client_id'', of_client_id flow),
        (''code_verifier'', pkce_verifier)]"

definition load_required_token :: "'w http_client \<Rightarrow> ('w, StoredToken) disk_call" where
  "load_required_token c =
     bindM (ts_load (he_tokens (hc_env c)) (hc_account_alias c)) (\<lambda>stored.
       case stored of
         Some token \<Rightarrow> ret token
       | None \<Rightarrow> throw (error_auth_unavailable
           (''Yandex Disk account '' @ [CHR 0x27] @ hc_account_alias c @ [CHR 0x27] @ '' is not authenticated'')))"

definition refresh_stored_token :: "'w http_client \<Rightarrow> StoredToken \<Rightarrow> ('w, unit) disk_call" where
  "refresh_stored_token c current =
     (case hc_oauth_flow c of
        None \<Rightarrow> throw (error_auth_unavailable ''cannot refresh token without OAuth flow'')
      | Some flow \<Rightarrow>
          (case st_refresh_token current of
             None \<Rightarrow> throw (error_auth_unavailable ''stored token does not contain refresh_token'')
           | Some refresh_token \<Rightarrow>
               bindM (refresh_access_token (hc_env c) flow refresh_token) (\<lambda>refreshed.
                 ts_save (he_tokens (hc_env c)) (hc_account_alias c) refreshed)))"

section \<open>Requests with retries\<close>

definition attempts_of :: "RetryPolicy \<Rightarrow> u32 list" where
  "attempts_of policy = map of_nat [1..<Suc (unat (rp_attempts policy))]"

definition sleep_before_retry :: "'w http_client \<Rightarrow> ('w, 'e, unit) m" where
  "sleep_before_retry c =
     (if rp_delay_seconds (hc_retry_policy c) = 0 then ret ()
      else env_do (he_sleep (hc_env c) (retry_delay (hc_retry_policy c))))"

text \<open>An error is tried again after a pause, or it is the result.\<close>

definition retry_or ::
  "'w http_client \<Rightarrow> u32 \<Rightarrow> YandexDiskError \<Rightarrow> ('w, 'a) disk_call \<Rightarrow> ('w, 'a) disk_call" where
  "retry_or c attempt e again =
     (if should_retry (hc_retry_policy c) e attempt then seqM (sleep_before_retry c) again else throw e)"

definition may_refresh :: "'w http_client \<Rightarrow> StoredToken \<Rightarrow> bool \<Rightarrow> http_response \<Rightarrow> bool" where
  "may_refresh c token refreshed response =
     (hp_status response = 401 \<and> \<not> refreshed \<and> st_refresh_token token \<noteq> None \<and> hc_oauth_flow c \<noteq> None)"

definition authorization_of :: "StoredToken \<Rightarrow> string" where
  "authorization_of token = ''OAuth '' @ st_access_token token"

text \<open>
  One attempt after the other; \<open>accept\<close> is what a successful response is taken as: itself, or what its
  body decodes to. The text of the error after the last one is \<open>exhausted\<close>.
\<close>

primrec authorized_loop ::
  "'w http_client \<Rightarrow> string \<Rightarrow> (http_response \<Rightarrow> YandexDiskError + 'a) \<Rightarrow> (string \<Rightarrow> http_request) \<Rightarrow>
   u32 list \<Rightarrow> bool \<Rightarrow> ('w, 'a) disk_call" where
  "authorized_loop c exhausted accept make_request [] refreshed = throw (error_new YkTransient exhausted)"
| "authorized_loop c exhausted accept make_request (attempt # attempts) refreshed =
     bindM (load_required_token c) (\<lambda>token.
     bindM (send_request (hc_env c) ApiHttp (make_request (authorization_of token))) (\<lambda>sent.
       case sent of
         Inr response \<Rightarrow>
           if may_refresh c token refreshed response
           then seqM (refresh_stored_token c token)
                  (authorized_loop c exhausted accept make_request attempts True)
           else if is_success response
           then (case accept response of
                   Inr x \<Rightarrow> ret x
                 | Inl e \<Rightarrow> retry_or c attempt e
                     (authorized_loop c exhausted accept make_request attempts refreshed))
           else retry_or c attempt (error_of_response (he_json (hc_env c)) response)
                  (authorized_loop c exhausted accept make_request attempts refreshed)
       | Inl e \<Rightarrow> retry_or c attempt e (authorized_loop c exhausted accept make_request attempts refreshed)))"

definition send_authorized :: "'w http_client \<Rightarrow> (string \<Rightarrow> http_request) \<Rightarrow> ('w, http_response) disk_call" where
  "send_authorized c make_request =
     authorized_loop c ''request retry attempts were exhausted'' Inr make_request
       (attempts_of (hc_retry_policy c)) False"

definition send_authorized_json ::
  "'w http_client \<Rightarrow> (bytes \<Rightarrow> reqwest_error + 'a) \<Rightarrow> string \<Rightarrow> (string \<Rightarrow> http_request) \<Rightarrow> ('w, 'a) disk_call" where
  "send_authorized_json c parse context make_request =
     authorized_loop c (''JSON request retry attempts were exhausted: '' @ context)
       (\<lambda>response. response_json_with_context parse response context) make_request
       (attempts_of (hc_retry_policy c)) False"

text \<open>Requests without a token, each attempt preparing its own; \<open>accept\<close> is applied to a success.\<close>

primrec plain_loop ::
  "'w http_client \<Rightarrow> string \<Rightarrow> ('w, http_request) disk_call \<Rightarrow> u32 list \<Rightarrow> ('w, http_response) disk_call" where
  "plain_loop c exhausted make_request [] = throw (error_new YkTransient exhausted)"
| "plain_loop c exhausted make_request (attempt # attempts) =
     bindM make_request (\<lambda>request.
     bindM (send_request (hc_env c) PlainHttp request) (\<lambda>sent.
       case sent of
         Inr response \<Rightarrow>
           if is_success response then ret response
           else retry_or c attempt (error_of_response (he_json (hc_env c)) response)
                  (plain_loop c exhausted make_request attempts)
       | Inl e \<Rightarrow> retry_or c attempt e (plain_loop c exhausted make_request attempts)))"

definition send_plain :: "'w http_client \<Rightarrow> http_request \<Rightarrow> ('w, http_response) disk_call" where
  "send_plain c request =
     plain_loop c ''request retry attempts were exhausted'' (ret request) (attempts_of (hc_retry_policy c))"

definition api_url :: "'w http_client \<Rightarrow> string \<Rightarrow> string" where
  "api_url c endpoint = trim_end_slash (ho_base_url (hc_options c)) @ endpoint"

definition api_request ::
  "http_method \<Rightarrow> string \<Rightarrow> (string \<times> string) list \<Rightarrow> string \<Rightarrow> http_request" where
  "api_request verb url query authorization =
     \<lparr>hq_method = verb, hq_url = url, hq_authorization = Some authorization, hq_query = query, hq_form = [],
      hq_body = None, hq_content_length = None\<rparr>"

definition show_bool :: "bool \<Rightarrow> string" where
  "show_bool b = (if b then ''true'' else ''false'')"

definition get_disk_info :: "'w http_client \<Rightarrow> ('w, DiskInfo) disk_call" where
  "get_disk_info c =
     bindM (send_authorized_json c (ja_disk_info (he_json (hc_env c))) ''disk_info''
              (api_request GetMethod (api_url c '''') [])) (\<lambda>info.
       ret (disk_info_from_api info))"

definition get_resource_page :: "'w http_client \<Rightarrow> string \<Rightarrow> nat \<Rightarrow> nat \<Rightarrow> ('w, ApiResource) disk_call" where
  "get_resource_page c remote_path offset limit =
     send_authorized_json c (ja_resource (he_json (hc_env c)))
       (''resource page path='' @ remote_path @ '' offset='' @ show_nat offset)
       (api_request GetMethod (api_url c ''/resources'')
          [(''path'', remote_path), (''limit'', show_nat limit), (''offset'', show_nat offset)])"

definition get_metadata :: "'w http_client \<Rightarrow> string \<Rightarrow> ('w, ResourceMetadata) disk_call" where
  "get_metadata c remote_path =
     bindM (get_resource_page c remote_path 0 DEFAULT_LIST_LIMIT) (\<lambda>resource. ret (metadata_from_api resource))"

definition create_directory_inner :: "'w http_client \<Rightarrow> string \<Rightarrow> ('w, unit) disk_call" where
  "create_directory_inner c remote_path =
     bindM (catchM (send_authorized c (api_request PutMethod (api_url c ''/resources'') [(''path'', remote_path)])))
       (\<lambda>result. case result of
          Inr _ \<Rightarrow> ret ()
        | Inl e \<Rightarrow> if is_directory_already_exists e then ret () else throw e)"

section \<open>Listing\<close>

text \<open>One page of a directory: what is to be walked and what is listed, appended.\<close>

definition collect_item ::
  "string list \<Rightarrow> ApiResource \<Rightarrow> string list \<times> ResourceMetadata list \<Rightarrow> string list \<times> ResourceMetadata list" where
  "collect_item prune_prefixes item = (\<lambda>(pending, listed).
     (if ar_resource_type item = ApiDirectory \<and> \<not> is_pruned_remote_path (ar_path item) prune_prefixes
      then pending @ [ar_path item] else pending,
      listed @ [metadata_from_api item]))"

definition collect_embedded_page ::
  "string list \<Rightarrow> ApiResource \<Rightarrow> string list \<times> ResourceMetadata list \<Rightarrow> string list \<times> ResourceMetadata list" where
  "collect_embedded_page prune_prefixes page acc =
     (case ar_embedded page of None \<Rightarrow> acc | Some embedded \<Rightarrow> fold (collect_item prune_prefixes) (ae_items embedded) acc)"

definition page_total :: "ApiResource \<Rightarrow> u64" where
  "page_total page =
     (case ar_embedded page of
        None \<Rightarrow> 0
      | Some embedded \<Rightarrow> (case ae_total embedded of None \<Rightarrow> 0 | Some n \<Rightarrow> n))"

definition page_returned :: "ApiResource \<Rightarrow> nat" where
  "page_returned page = (case ar_embedded page of None \<Rightarrow> 0 | Some embedded \<Rightarrow> length (ae_items embedded))"

text \<open>
  The pages of a directory. The offset grows with every page that is followed by another one, and stays
  below the total of that page, a 64-bit number: so the loop ends, whatever the server answers.
\<close>

function page_loop ::
  "'w http_client \<Rightarrow> string \<Rightarrow> string list \<Rightarrow> nat \<Rightarrow> string list \<times> ResourceMetadata list \<Rightarrow>
   ('w, string list \<times> ResourceMetadata list) disk_call" where
  "page_loop c remote_path prune_prefixes offset acc =
     bindM (get_resource_page c remote_path offset DEFAULT_LIST_LIMIT) (\<lambda>page.
       let acc = collect_embedded_page prune_prefixes page acc;
           offset' = offset + page_returned page
       in if page_returned page = 0 \<or> unat (page_total page) \<le> offset' then ret acc
          else page_loop c remote_path prune_prefixes offset' acc)"
  by pat_completeness auto
termination
proof (relation "measure (\<lambda>(c, remote_path, prune_prefixes, offset, acc). 2 ^ 64 - offset)", goal_cases)
  case (2 c remote_path prune_prefixes offset acc page acc' offset')
  have "unat (page_total page) < 2 ^ 64" using unsigned_less [of "page_total page", where ?'a = nat] by simp
  then show ?case using 2 by auto
qed simp

declare page_loop.simps [simp del]

definition list_directory_children ::
  "'w http_client \<Rightarrow> string \<Rightarrow> string list \<Rightarrow> ('w, string list \<times> ResourceMetadata list) disk_call" where
  "list_directory_children c remote_path prune_prefixes = page_loop c remote_path prune_prefixes 0 ([], [])"

text \<open>Durations saturate at the largest one.\<close>

definition DURATION_MAX :: nat where "DURATION_MAX = 2 ^ 64 * 1000000000 - 1"

definition list_directory_task_timeout :: "'w http_client \<Rightarrow> nat" where
  "list_directory_task_timeout c =
     (let attempts = unat (rp_attempts (hc_retry_policy c));
          request_time = min DURATION_MAX (ho_api_request_timeout (hc_options c) * attempts);
          delay = min DURATION_MAX (retry_delay (hc_retry_policy c) * (attempts - 1))
      in min DURATION_MAX (request_time + delay))"

text \<open>A task of the walk, cut off by its time limit or not.\<close>

definition list_directory_task ::
  "'w http_client \<Rightarrow> string list \<Rightarrow> string \<Rightarrow> ('w, string list \<times> ResourceMetadata list) disk_call" where
  "list_directory_task c prune_prefixes path =
     bindM (env_read (he_expired (hc_env c) (list_directory_task_timeout c))) (\<lambda>expired.
       if expired
       then throw (error_new YkTransient
              (''recursive listing directory timed out after '' @
               show_nat (list_directory_task_timeout c div 1000000000) @ '' seconds: '' @ path))
       else list_directory_children c path prune_prefixes)"

text \<open>The stack of directories to be walked has its top in front. Tasks are started up to the limit.\<close>

fun start_tasks :: "string list \<Rightarrow> string list \<Rightarrow> string list \<Rightarrow> string list \<times> string list" where
  "start_tasks prune_prefixes [] active = ([], active)"
| "start_tasks prune_prefixes (path # pending) active =
     (if length active < DEFAULT_LIST_DIRECTORY_CONCURRENCY
      then start_tasks prune_prefixes pending
             (if is_pruned_remote_path path prune_prefixes then active else active @ [path])
      else (path # pending, active))"

datatype http_stop = OutOfFuel | Failed YandexDiskError

type_synonym ('w, 'a) http_loop = "('w, http_stop, 'a) m"

definition remove_nth :: "nat \<Rightarrow> 'a list \<Rightarrow> 'a list" where
  "remove_nth i xs = take i xs @ drop (Suc i) xs"

primrec walk_loop ::
  "'w http_client \<Rightarrow> string list \<Rightarrow> nat \<Rightarrow> string list \<Rightarrow> string list \<Rightarrow> ResourceMetadata list \<Rightarrow>
   ('w, ResourceMetadata list) http_loop" where
  "walk_loop c prune_prefixes 0 pending active listed = throw OutOfFuel"
| "walk_loop c prune_prefixes (Suc fuel) pending active listed =
     (case start_tasks prune_prefixes pending active of
        (pending, active) \<Rightarrow>
          if active = [] then ret listed
          else bindM (env_read (he_pick (hc_env c) (length active))) (\<lambda>picked.
                 let i = picked mod length active
                 in bindM (errM Failed (list_directory_task c prune_prefixes (active ! i))) (\<lambda>(children, found).
                      walk_loop c prune_prefixes fuel (rev children @ pending) (remove_nth i active) (listed @ found))))"

definition list_recursive_by_directory_walk ::
  "nat \<Rightarrow> 'w http_client \<Rightarrow> string \<Rightarrow> string list \<Rightarrow> ('w, ResourceMetadata list) http_loop" where
  "list_recursive_by_directory_walk fuel c root_path prune_remote_prefixes =
     bindM (walk_loop c (normalized_prune_prefixes prune_remote_prefixes) fuel [root_path] [] []) (\<lambda>listed.
       ret (sort_key rs_path listed))"

definition list_recursive_inner ::
  "nat \<Rightarrow> 'w http_client \<Rightarrow> string \<Rightarrow> string list \<Rightarrow> ('w, ResourceMetadata list) http_loop" where
  "list_recursive_inner fuel c remote_path prune_remote_prefixes =
     bindM (errM Failed (get_resource_page c remote_path 0 DEFAULT_LIST_LIMIT)) (\<lambda>root.
       if ar_resource_type root \<noteq> ApiDirectory then ret [metadata_from_api root]
       else bindM (list_recursive_by_directory_walk fuel c remote_path prune_remote_prefixes) (\<lambda>listed.
              ret (sort_key rs_path listed)))"

section \<open>Transfers\<close>

definition upload_request :: "'w http_client \<Rightarrow> string \<Rightarrow> UploadSource \<Rightarrow> ('w, http_request) disk_call" where
  "upload_request c upload_url source =
     (let request = \<lparr>hq_method = PutMethod, hq_url = upload_url, hq_authorization = None, hq_query = [],
                     hq_form = [], hq_body = None, hq_content_length = None\<rparr>
      in case source of
           UploadBytes content \<Rightarrow> ret (request\<lparr>hq_body := Some content\<rparr>)
         | UploadFile path \<Rightarrow>
             bindM (env_read (he_open (hc_env c) path)) (\<lambda>opened.
               case opened of
                 Inl e \<Rightarrow> throw (local_upload_source_unavailable (path_string path) e)
               | Inr (file_size, content) \<Rightarrow>
                   ret (request\<lparr>hq_body := Some content, hq_content_length := file_size\<rparr>)))"

definition send_upload_source :: "'w http_client \<Rightarrow> string \<Rightarrow> UploadSource \<Rightarrow> ('w, unit) disk_call" where
  "send_upload_source c upload_url source =
     bindM (plain_loop c ''upload retry attempts were exhausted'' (upload_request c upload_url source)
              (attempts_of (hc_retry_policy c))) (\<lambda>_. ret ())"

primrec upload_loop ::
  "'w http_client \<Rightarrow> string \<Rightarrow> UploadSource \<Rightarrow> bool \<Rightarrow> u32 list \<Rightarrow> YandexDiskError option \<Rightarrow> ('w, unit) disk_call" where
  "upload_loop c remote_path source overwrite [] last_conflict =
     (if last_conflict \<noteq> None then throw (persistent_uploader_conflict remote_path)
      else throw (error_new YkTransient (''upload retry attempts were exhausted: '' @ remote_path)))"
| "upload_loop c remote_path source overwrite (attempt # attempts) last_conflict =
     bindM (send_authorized_json c (ja_link (he_json (hc_env c))) (''upload link path='' @ remote_path)
              (api_request GetMethod (api_url c ''/resources/upload'')
                 [(''path'', remote_path), (''overwrite'', show_bool overwrite)])) (\<lambda>link.
     bindM (catchM (send_upload_source c (lr_href link) source)) (\<lambda>result.
       case result of
         Inr _ \<Rightarrow> ret ()
       | Inl e \<Rightarrow>
           if is_retryable_upload_conflict e \<and> rp_attempts (hc_retry_policy c) \<le> attempt
           then throw (persistent_uploader_conflict remote_path)
           else if should_retry_upload_conflict e attempt (rp_attempts (hc_retry_policy c))
           then seqM (sleep_before_retry c) (upload_loop c remote_path source overwrite attempts (Some e))
           else throw e))"

definition upload_inner :: "'w http_client \<Rightarrow> string \<Rightarrow> UploadSource \<Rightarrow> bool \<Rightarrow> ('w, unit) disk_call" where
  "upload_inner c remote_path source overwrite =
     upload_loop c remote_path source overwrite (attempts_of (hc_retry_policy c)) None"

definition download_inner :: "'w http_client \<Rightarrow> string \<Rightarrow> ('w, bytes) disk_call" where
  "download_inner c remote_path =
     bindM (send_authorized_json c (ja_link (he_json (hc_env c))) (''download link path='' @ remote_path)
              (api_request GetMethod (api_url c ''/resources/download'') [(''path'', remote_path)])) (\<lambda>link.
     bindM (send_plain c
              \<lparr>hq_method = GetMethod, hq_url = lr_href link, hq_authorization = None, hq_query = [], hq_form = [],
               hq_body = None, hq_content_length = None\<rparr>) (\<lambda>response.
       case hp_body response of Inl e \<Rightarrow> throw (error_from_reqwest e) | Inr content \<Rightarrow> ret content))"

section \<open>Operations that the server finishes later\<close>

definition absolute_href :: "'w http_client \<Rightarrow> string \<Rightarrow> YandexDiskError + string" where
  "absolute_href c href =
     (if starts_with ''http://'' href \<or> starts_with ''https://'' href then Inr href
      else if starts_with ''/'' href
      then (case he_origin (hc_env c) (ho_base_url (hc_options c)) of
              Inl e \<Rightarrow> Inl (error_permanent (''invalid Yandex Disk base URL: '' @ e))
            | Inr origin \<Rightarrow> Inr (origin @ href))
      else Inl (error_permanent (''operation href is not absolute: '' @ href)))"

primrec poll_loop ::
  "'w http_client \<Rightarrow> string \<Rightarrow> string \<Rightarrow> nat \<Rightarrow> nat \<Rightarrow> ('w, DiskOperationStatus) http_loop" where
  "poll_loop c href url started 0 = throw OutOfFuel"
| "poll_loop c href url started (Suc fuel) =
     bindM (errM Failed (send_authorized_json c (ja_operation (he_json (hc_env c))) (''operation poll href='' @ href)
              (api_request GetMethod url []))) (\<lambda>payload.
     bindM (errM Failed (of_result (operation_status_from_api payload))) (\<lambda>status.
       case status of
         OsSuccess \<Rightarrow> ret status
       | OsFailed \<Rightarrow> throw (Failed (error_new YkPermanent ''Yandex Disk async operation failed''))
       | OsInProgress \<Rightarrow>
           bindM (env_read (he_instant (hc_env c))) (\<lambda>now.
             if ho_operation_poll_timeout (hc_options c) \<le> now - started
             then throw (Failed (error_new YkTransient ''Yandex Disk async operation polling timed out''))
             else seqM (env_do (he_sleep (hc_env c) (ho_operation_poll_interval (hc_options c))))
                    (poll_loop c href url started fuel))))"

definition poll_operation_inner :: "nat \<Rightarrow> 'w http_client \<Rightarrow> string \<Rightarrow> ('w, DiskOperationStatus) http_loop" where
  "poll_operation_inner fuel c href =
     bindM (errM Failed (of_result (absolute_href c href))) (\<lambda>url.
     bindM (env_read (he_instant (hc_env c))) (\<lambda>started.
       poll_loop c href url started fuel))"

text \<open>A response with status 202 holds a link to the operation that goes on; others are its end.\<close>

definition finish_accepted :: "nat \<Rightarrow> 'w http_client \<Rightarrow> string \<Rightarrow> http_response \<Rightarrow> ('w, unit) http_loop" where
  "finish_accepted fuel c context response =
     (if hp_status response = 202
      then bindM (errM Failed (of_result (response_json_with_context (ja_link (he_json (hc_env c))) response context)))
             (\<lambda>link. bindM (poll_operation_inner fuel c (lr_href link)) (\<lambda>_. ret ()))
      else ret ())"

definition move_or_copy_inner ::
  "nat \<Rightarrow> 'w http_client \<Rightarrow> string \<Rightarrow> string \<Rightarrow> string \<Rightarrow> bool \<Rightarrow> ('w, unit) http_loop" where
  "move_or_copy_inner fuel c endpoint from' to' overwrite =
     bindM (errM Failed (send_authorized c (api_request PostMethod (api_url c endpoint)
              [(''from'', from'), (''path'', to'), (''overwrite'', show_bool overwrite)])))
       (finish_accepted fuel c (''operation link endpoint='' @ endpoint @ '' from='' @ from' @ '' to='' @ to'))"

definition delete_permanently_inner :: "nat \<Rightarrow> 'w http_client \<Rightarrow> string \<Rightarrow> ('w, unit) http_loop" where
  "delete_permanently_inner fuel c remote_path =
     bindM (errM Failed (send_authorized c (api_request DeleteMethod (api_url c ''/resources'')
              [(''path'', remote_path), (''permanently'', ''true'')])))
       (finish_accepted fuel c (''operation link delete path='' @ remote_path))"

section \<open>The client\<close>

text \<open>The interface has no value for running out of fuel: \<open>stuck\<close> stands for it.\<close>

fun settle_stop :: "YandexDiskError \<Rightarrow> http_stop \<Rightarrow> YandexDiskError" where
  "settle_stop stuck OutOfFuel = stuck"
| "settle_stop stuck (Failed e) = e"

definition http_disk_client :: "nat \<Rightarrow> YandexDiskError \<Rightarrow> 'w http_client \<Rightarrow> 'w disk_client" where
  "http_disk_client fuel stuck c =
     \<lparr>dc_disk_info = get_disk_info c, dc_metadata = get_metadata c,
      dc_list_recursive_with_options = (\<lambda>p prune. errM (settle_stop stuck) (list_recursive_inner fuel c p prune)),
      dc_create_directory = create_directory_inner c, dc_upload_source = upload_inner c,
      dc_download = download_inner c,
      dc_move_resource = (\<lambda>p q overwrite.
        errM (settle_stop stuck) (move_or_copy_inner fuel c ''/resources/move'' p q overwrite)),
      dc_copy_resource = (\<lambda>p q overwrite.
        errM (settle_stop stuck) (move_or_copy_inner fuel c ''/resources/copy'' p q overwrite)),
      dc_delete_permanently = (\<lambda>p. errM (settle_stop stuck) (delete_permanently_inner fuel c p)),
      dc_poll_operation = (\<lambda>href. errM (settle_stop stuck) (poll_operation_inner fuel c href))\<rparr>"

end
