(* ===== verification/Http_Rules.thy ===== *)
theory Http_Rules
  imports Http_Client
begin

text \<open>
  Rules for the computations of the HTTP client: what holds after a computation for its result and the
  state of the world, errors apart, and the laws of the two retry loops.
\<close>

section \<open>Specifications\<close>

definition after_run :: "('a \<Rightarrow> 's \<Rightarrow> bool) \<Rightarrow> ('e \<Rightarrow> 's \<Rightarrow> bool) \<Rightarrow> ('e + 'a) \<times> 's \<Rightarrow> bool" where
  "after_run Q E p = (case p of (r, s) \<Rightarrow> (case r of Inl e \<Rightarrow> E e s | Inr x \<Rightarrow> Q x s))"

lemma after_run_simps [simp]: "after_run Q E (Inl e, s) = E e s" "after_run Q E (Inr x, s) = Q x s"
  by (simp_all add: after_run_def)

definition spec :: "('s \<Rightarrow> bool) \<Rightarrow> ('s, 'e, 'a) m \<Rightarrow> ('a \<Rightarrow> 's \<Rightarrow> bool) \<Rightarrow> ('e \<Rightarrow> 's \<Rightarrow> bool) \<Rightarrow> bool" where
  "spec P f Q E = (\<forall>s. P s \<longrightarrow> after_run Q E (f s))"

lemma specD: "spec P f Q E \<Longrightarrow> P s \<Longrightarrow> f s = (r, s') \<Longrightarrow> after_run Q E (r, s')"
  unfolding spec_def by metis

lemma spec_ret: "(\<And>s. P s \<Longrightarrow> Q x s) \<Longrightarrow> spec P (ret x) Q E"
  by (auto simp: spec_def ret_def)

lemma spec_throw: "(\<And>s. P s \<Longrightarrow> E e s) \<Longrightarrow> spec P (throw e) Q E"
  by (auto simp: spec_def throw_def)

lemma spec_bindM: "spec P f R E \<Longrightarrow> (\<And>x. spec (R x) (g x) Q E) \<Longrightarrow> spec P (bindM f g) Q E"
  unfolding spec_def bindM_def after_run_def by (fastforce split: prod.splits sum.splits)

lemma spec_seqM: "spec P f (\<lambda>_. R) E \<Longrightarrow> spec R g Q E \<Longrightarrow> spec P (seqM f g) Q E"
  unfolding seqM_def by (rule spec_bindM)

lemma spec_weaken:
  assumes "spec P' f Q' E'" "\<And>s. P s \<Longrightarrow> P' s" "\<And>x s. Q' x s \<Longrightarrow> Q x s" "\<And>e s. E' e s \<Longrightarrow> E e s"
  shows "spec P f Q E"
  using assms unfolding spec_def after_run_def by (fastforce split: prod.splits sum.splits)

lemma spec_errM: "spec P f Q (\<lambda>e. E (h e)) \<Longrightarrow> spec P (errM h f) Q E"
  unfolding spec_def errM_def after_run_def map_err_def by (fastforce split: prod.splits sum.splits)

lemma spec_catchM: "spec P f (\<lambda>x. Q (Inr x)) (\<lambda>e. Q (Inl e)) \<Longrightarrow> spec P (catchM f) Q E"
  unfolding spec_def catchM_def after_run_def by (fastforce split: prod.splits sum.splits)

lemma spec_of_result:
  "(\<And>x s. P s \<Longrightarrow> r = Inr x \<Longrightarrow> Q x s) \<Longrightarrow> (\<And>e s. P s \<Longrightarrow> r = Inl e \<Longrightarrow> E e s) \<Longrightarrow> spec P (of_result r) Q E"
  by (cases r) (auto simp: of_result_def intro!: spec_ret spec_throw)

lemma spec_env_read: "(\<And>s x s'. P s \<Longrightarrow> f s = (x, s') \<Longrightarrow> Q x s') \<Longrightarrow> spec P (env_read f) Q E"
  by (auto simp: spec_def env_read_def split: prod.splits)

lemma spec_env_do: "(\<And>s. P s \<Longrightarrow> Q () (f s)) \<Longrightarrow> spec P (env_do f) Q E"
  by (auto simp: spec_def env_do_def)

lemma spec_keeps: "keeps P f \<longleftrightarrow> spec P f (\<lambda>_. P) (\<lambda>_. P)"
  unfolding keeps_def spec_def after_run_def by (simp add: case_prod_beta split: sum.split)

lemma spec_assume: "(\<And>s. P s \<Longrightarrow> spec ((=) s) f Q E) \<Longrightarrow> spec P f Q E"
  by (auto simp: spec_def)

section \<open>Requests with retries\<close>

text \<open>
  What holds before keeps holding around the requests: \<open>P\<close> of the world, and \<open>T\<close> of the errors that come
  from the tokens or are made by the program itself.
\<close>

locale http_frame =
  fixes c :: "'w http_client" and P :: "'w \<Rightarrow> bool" and T :: "YandexDiskError \<Rightarrow> bool"
  assumes load: "spec P (ts_load (he_tokens (hc_env c)) (hc_account_alias c)) (\<lambda>_. P) (\<lambda>e w. P w \<and> T e)"
    and save: "spec P (ts_save (he_tokens (hc_env c)) (hc_account_alias c) token) (\<lambda>_. P) (\<lambda>e w. P w \<and> T e)"
    and oauth: "P w \<Longrightarrow> hq_authorization request = None \<Longrightarrow>
      he_send (hc_env c) OAuthHttp request w = (sent, w') \<Longrightarrow>
      P w' \<and> (case sent of Inl e \<Rightarrow> True
        | Inr response \<Rightarrow> \<not> is_success response \<longrightarrow> T (error_of_response (he_json (hc_env c)) response))"
    and unix: "P w \<Longrightarrow> he_unix (hc_env c) w = (t, w') \<Longrightarrow> P w'"
    and sleep: "P w \<Longrightarrow> P (he_sleep (hc_env c) n w)"
    and own: "k \<noteq> YkNotFound \<Longrightarrow> T (error_new k message)"
begin

lemma own_errors [simp]:
  "T (error_from_reqwest e)" "T (error_auth_unavailable m)" "T (error_permanent m)" "T (error_critical m)"
  using own by (auto simp: error_from_reqwest_def error_auth_unavailable_def error_permanent_def error_critical_def)

lemma decode_error: "response_json_with_context parse response context = Inl e \<Longrightarrow> T e"
  using own by (auto simp: response_json_with_context_def Let_def error_from_reqwest_def error_new_def
      split: sum.splits if_splits)

lemma sleep_spec: "(\<And>w. P w \<Longrightarrow> Q w) \<Longrightarrow> spec P (sleep_before_retry c) (\<lambda>_. Q) E"
  unfolding sleep_before_retry_def using sleep by (auto intro!: spec_ret spec_env_do)

lemma send_spec:
  assumes "\<And>w sent w'. P w \<Longrightarrow> he_send (hc_env c) channel request w = (sent, w') \<Longrightarrow>
      Q (map_err error_from_reqwest sent) w'"
  shows "spec P (send_request (hc_env c) channel request) Q E"
  unfolding send_request_def by (rule spec_env_read) (auto split: prod.splits dest: assms)

lemma post_token_form_spec:
  "spec P (post_token_form (hc_env c) flow form) (\<lambda>_. P) (\<lambda>e w. P w \<and> T e)"
  unfolding post_token_form_def
proof (rule spec_bindM [where R = "\<lambda>sent w. P w \<and> (case sent of Inl e \<Rightarrow> T e
      | Inr response \<Rightarrow> \<not> is_success response \<longrightarrow> T (error_of_response (he_json (hc_env c)) response))"])
  show "spec P (send_request (hc_env c) OAuthHttp
       \<lparr>hq_method = PostMethod, hq_url = of_token_url flow, hq_authorization = None, hq_query = [], hq_form = form,
        hq_body = None, hq_content_length = None\<rparr>)
     (\<lambda>sent w. P w \<and> (case sent of Inl e \<Rightarrow> T e
      | Inr response \<Rightarrow> \<not> is_success response \<longrightarrow> T (error_of_response (he_json (hc_env c)) response)))
     (\<lambda>e w. P w \<and> T e)"
  proof (rule send_spec)
    fix w sent w'
    assume "P w" and "he_send (hc_env c) OAuthHttp
       \<lparr>hq_method = PostMethod, hq_url = of_token_url flow, hq_authorization = None, hq_query = [], hq_form = form,
        hq_body = None, hq_content_length = None\<rparr> w = (sent, w')"
    then show "P w' \<and> (case map_err error_from_reqwest sent of Inl e \<Rightarrow> T e
      | Inr response \<Rightarrow> \<not> is_success response \<longrightarrow> T (error_of_response (he_json (hc_env c)) response))"
      using oauth [OF _ _ \<open>he_send _ _ _ _ = _\<close>] by (cases sent) (auto simp: map_err_def)
  qed
next
  fix sent
  have now: "spec P (bindM (env_read (he_unix (hc_env c))) (\<lambda>now. ret (into_stored_token token owner now)))
      (\<lambda>_. P) (\<lambda>e w. P w \<and> T e)" for token owner
    by (rule spec_bindM [OF spec_env_read, where R = "\<lambda>_. P"]) (auto intro: spec_ret unix)
  show "spec (\<lambda>w. P w \<and> (case sent of Inl e \<Rightarrow> T e
      | Inr response \<Rightarrow> \<not> is_success response \<longrightarrow> T (error_of_response (he_json (hc_env c)) response)))
     (bindM (of_result sent) (\<lambda>response.
       if \<not> is_success response then throw (error_of_response (he_json (hc_env c)) response)
       else
         case response_json (ja_token (he_json (hc_env c))) response of
           Inl e \<Rightarrow> throw (error_from_reqwest e)
         | Inr token \<Rightarrow>
             if ot_expires_in token = None then ret (into_stored_token token (of_client_id flow) 0)
             else bindM (env_read (he_unix (hc_env c))) (\<lambda>now. ret (into_stored_token token (of_client_id flow) now))))
     (\<lambda>_. P) (\<lambda>e w. P w \<and> T e)"
    by (rule spec_bindM [where R = "\<lambda>response w. P w \<and>
        (\<not> is_success response \<longrightarrow> T (error_of_response (he_json (hc_env c)) response))"])
      (auto intro!: spec_of_result spec_throw spec_ret now split: sum.split)
qed

lemma refresh_spec: "spec P (refresh_stored_token c token) (\<lambda>_. P) (\<lambda>e w. P w \<and> T e)"
  unfolding refresh_stored_token_def refresh_access_token_def
  by (auto intro!: spec_throw spec_bindM [OF post_token_form_spec] save split: option.split)

lemma load_required_spec: "spec P (load_required_token c) (\<lambda>_. P) (\<lambda>e w. P w \<and> T e)"
  unfolding load_required_token_def
  by (rule spec_bindM [OF load]) (auto intro!: spec_ret spec_throw split: option.split)

text \<open>What is sent and how it is answered: \<open>G\<close> holds of a success, \<open>E\<close> of an error.\<close>

definition answered ::
  "(http_response \<Rightarrow> 'w \<Rightarrow> bool) \<Rightarrow> (YandexDiskError \<Rightarrow> 'w \<Rightarrow> bool) \<Rightarrow> YandexDiskError + http_response \<Rightarrow> 'w \<Rightarrow> bool" where
  "answered G E sent w =
     (P w \<and>
      (case sent of
         Inl e \<Rightarrow> E e w
       | Inr response \<Rightarrow> if is_success response then G response w
                        else E (error_of_response (he_json (hc_env c)) response) w))"

definition answers ::
  "http_channel \<Rightarrow> http_request \<Rightarrow> (http_response \<Rightarrow> 'w \<Rightarrow> bool) \<Rightarrow> (YandexDiskError \<Rightarrow> 'w \<Rightarrow> bool) \<Rightarrow> bool" where
  "answers channel request G E =
     (\<forall>w sent w'. P w \<longrightarrow> he_send (hc_env c) channel request w = (sent, w') \<longrightarrow>
        answered G E (map_err error_from_reqwest sent) w')"

lemma answersI:
  assumes "\<And>w e w'. P w \<Longrightarrow> he_send (hc_env c) channel request w = (Inl e, w') \<Longrightarrow> P w' \<and> E (error_from_reqwest e) w'"
    and "\<And>w response w'. P w \<Longrightarrow> he_send (hc_env c) channel request w = (Inr response, w') \<Longrightarrow> is_success response \<Longrightarrow>
      P w' \<and> G response w'"
    and "\<And>w response w'. P w \<Longrightarrow> he_send (hc_env c) channel request w = (Inr response, w') \<Longrightarrow> \<not> is_success response \<Longrightarrow>
      P w' \<and> E (error_of_response (he_json (hc_env c)) response) w'"
  shows "answers channel request G E"
  unfolding answers_def answered_def
proof (intro allI impI)
  fix w sent w' assume "P w" "he_send (hc_env c) channel request w = (sent, w')"
  show "P w' \<and> (case map_err error_from_reqwest sent of Inl e \<Rightarrow> E e w'
       | Inr response \<Rightarrow> if is_success response then G response w'
                        else E (error_of_response (he_json (hc_env c)) response) w')"
  proof (cases sent)
    case (Inl e)
    then show ?thesis using assms(1) \<open>P w\<close> \<open>he_send _ _ _ _ = _\<close> by (simp add: map_err_def)
  next
    case (Inr response)
    then show ?thesis
      using assms(2,3) [OF \<open>P w\<close>] \<open>he_send _ _ _ _ = _\<close> by (simp add: map_err_def)
  qed
qed

lemma answers_spec: "answers channel request G E \<Longrightarrow> spec P (send_request (hc_env c) channel request) (answered G E) E'"
  unfolding answers_def by (rule send_spec) blast

lemma again_spec:
  assumes "spec P again Q E"
  shows "spec (\<lambda>w. P w \<and> E e w) (retry_or c attempt e again) Q E"
proof -
  have "spec (\<lambda>w. P w \<and> E e w) (sleep_before_retry c) (\<lambda>_. P) E"
    by (rule spec_weaken [OF sleep_spec]) auto
  then show ?thesis
    unfolding retry_or_def by (auto intro: spec_throw spec_seqM [OF _ assms])
qed

lemma authorized_loop_spec:
  assumes send: "\<And>authorization. answers ApiHttp (make_request authorization) G E"
    and errors: "\<And>e w. P w \<Longrightarrow> T e \<Longrightarrow> E e w"
    and accept: "\<And>response e. accept response = Inl e \<Longrightarrow> T e"
  shows "spec P (authorized_loop c exhausted accept make_request attempts refreshed)
    (\<lambda>x w. P w \<and> (\<exists>response. is_success response \<and> G response w \<and> accept response = Inr x)) E"
    (is "spec P _ ?Q E")
proof (induction attempts arbitrary: refreshed)
  case Nil
  then show ?case using own errors by (auto intro!: spec_throw)
next
  case (Cons attempt attempts)
  let ?loop = "authorized_loop c exhausted accept make_request attempts"
  have again: "spec (\<lambda>w. P w \<and> E e w) (retry_or c attempt e (?loop refreshed)) ?Q E" for e refreshed
    by (rule again_spec [OF Cons.IH])
  have refresh: "spec P (seqM (refresh_stored_token c token) (?loop True)) ?Q E" for token
    by (rule spec_seqM [OF spec_weaken [OF refresh_spec] Cons.IH]) (auto intro: errors)
  have step: "spec (answered G E sent) (case sent of
           Inl e \<Rightarrow> retry_or c attempt e (?loop refreshed)
         | Inr response \<Rightarrow>
             if may_refresh c token refreshed response
             then seqM (refresh_stored_token c token) (?loop True)
             else if is_success response
             then case accept response of Inl e \<Rightarrow> retry_or c attempt e (?loop refreshed) | Inr x \<Rightarrow> ret x
             else retry_or c attempt (error_of_response (he_json (hc_env c)) response) (?loop refreshed)) ?Q E"
    for sent token
  proof (cases sent)
    case (Inl e)
    then show ?thesis by (auto simp: answered_def intro: spec_weaken [OF again])
  next
    case (Inr response)
    show ?thesis
    proof (cases "may_refresh c token refreshed response")
      case True
      then show ?thesis using Inr by (auto simp: answered_def intro: spec_weaken [OF refresh])
    next
      case False
      then show ?thesis
        using Inr accept errors
        by (cases "accept response")
          (auto simp: answered_def intro!: spec_ret intro: spec_weaken [OF again])
    qed
  qed
  show ?case
    unfolding authorized_loop.simps
    by (rule spec_bindM [OF spec_weaken [OF load_required_spec]], assumption, assumption)
      (auto intro: errors spec_bindM [OF answers_spec [OF send] step])
qed

lemma plain_loop_spec:
  assumes request: "spec P make_request (\<lambda>request w. P w \<and> R request) E"
    and send: "\<And>request. R request \<Longrightarrow> answers PlainHttp request G E"
    and errors: "\<And>e w. P w \<Longrightarrow> T e \<Longrightarrow> E e w"
  shows "spec P (plain_loop c exhausted make_request attempts)
    (\<lambda>response w. P w \<and> is_success response \<and> G response w) E" (is "spec P _ ?Q E")
proof (induction attempts)
  case Nil
  then show ?case using own errors by (auto intro!: spec_throw)
next
  case (Cons attempt attempts)
  let ?loop = "plain_loop c exhausted make_request attempts"
  have again: "spec (\<lambda>w. P w \<and> E e w) (retry_or c attempt e ?loop) ?Q E" for e
    by (rule again_spec [OF Cons.IH])
  have step: "spec (answered G E sent) (case sent of
           Inl e \<Rightarrow> retry_or c attempt e ?loop
         | Inr response \<Rightarrow>
             if is_success response then ret response
             else retry_or c attempt (error_of_response (he_json (hc_env c)) response) ?loop) ?Q E" for sent
    by (cases sent) (auto simp: answered_def intro!: spec_ret intro: spec_weaken [OF again])
  have one: "spec (\<lambda>w. P w \<and> R request) (bindM (send_request (hc_env c) PlainHttp request) (\<lambda>sent. case sent of
           Inl e \<Rightarrow> retry_or c attempt e ?loop
         | Inr response \<Rightarrow>
             if is_success response then ret response
             else retry_or c attempt (error_of_response (he_json (hc_env c)) response) ?loop)) ?Q E" for request
  proof (cases "R request")
    case True
    then show ?thesis by (auto intro: spec_weaken [OF spec_bindM [OF answers_spec [OF send [OF True]] step]])
  qed (simp add: spec_def)
  show ?case
    unfolding plain_loop.simps by (rule spec_bindM [OF request one])
qed

end

end
