(* ===== verification/Migration_Run.thy ===== *)
theory Migration_Run
  imports Sync_Run
begin

text \<open>
  \<open>crates/yds-sync/src/migration.rs\<close>: the steps of the migration of one root. What the code changes
  through \<open>&mut\<close> references is passed in and returned: the live plan, the summary of the root, the
  remote sets. The report of the run, which keeps the operations done even when a later step fails, is
  part of the state. A summary that is lost because a step fails is not returned by it.
\<close>

section \<open>State and access\<close>

record 'w migration_env =
  mv_sync :: "'w sync_env"
  mv_read_file :: "local_path \<Rightarrow> 'w \<Rightarrow> (io_error + bytes) \<times> 'w"
  mv_is_file :: "local_path \<Rightarrow> 'w \<Rightarrow> bool \<times> 'w"

type_synonym ('w, 'a) mig_sync = "('w, MigrationError, 'a) sync_m"
type_synonym ('w, 'a) mig = "(MigrationRunReport \<times> 'w sync_state, MigrationError, 'a) m"

definition on_sync :: "('w, 'a) mig_sync \<Rightarrow> ('w, 'a) mig" where
  "on_sync f = (\<lambda>(report, s). case f s of (r, s') \<Rightarrow> (r, (report, s')))"

definition modify_migration_report :: "(MigrationRunReport \<Rightarrow> MigrationRunReport) \<Rightarrow> ('w, unit) mig" where
  "modify_migration_report f = (\<lambda>(report, s). (Inr (), (f report, s)))"

definition get_migration_report :: "('w, MigrationRunReport) mig" where
  "get_migration_report = (\<lambda>(report, s). (Inr report, (report, s)))"

definition plan_push :: "MigrationPlanOperation \<Rightarrow> ('w, unit) mig" where
  "plan_push p = modify_migration_report (\<lambda>r. r\<lparr>mr_plan := mr_plan r @ [p]\<rparr>)"

definition mig_repo :: "'w sync_env \<Rightarrow> 'a repo \<Rightarrow> ('w, 'a) mig_sync" where
  "mig_repo env f = errM MgState (repo_call env f)"

definition mig_repo_at :: "'w sync_env \<Rightarrow> (string \<Rightarrow> 'a repo) \<Rightarrow> ('w, 'a) mig_sync" where
  "mig_repo_at env f = errM MgState (repo_at_call env f)"

definition mig_cancelled :: "'w sync_env \<Rightarrow> ('w, bool) mig_sync" where
  "mig_cancelled env = world_read (ev_is_cancelled env)"

section \<open>Recording\<close>

definition migration_persist_root_progress ::
  "'w sync_env \<Rightarrow> rowid \<Rightarrow> SyncRunSummary \<Rightarrow> MigrationRootSummary \<Rightarrow> ('w, unit) mig_sync" where
  "migration_persist_root_progress env run_id base rs =
     mig_repo env (update_run_progress run_id (migration_add_root_summary base rs))"

definition migration_record_deleted_subtree ::
  "'w sync_env \<Rightarrow> rowid \<Rightarrow> DeletedLocalSubtree \<Rightarrow> MigrationRootSummary \<Rightarrow> ('w, MigrationRootSummary) mig_sync" where
  "migration_record_deleted_subtree env run_id subtree rs =
     seqM (mig_repo_at env (\<lambda>now. mark_subtree_deleted now (ds_root_id subtree)
             (ds_relative_prefix subtree) (ds_remote_prefix subtree) run_id))
    (seqM (mig_repo_at env (\<lambda>now. mark_skipped now
             \<lparr>sk_root_id = ds_root_id subtree, sk_local_path = ds_relative_prefix subtree,
              sk_relative_path = Some (ds_relative_prefix subtree),
              sk_remote_path = Some (ds_remote_prefix subtree),
              sk_reason_code = ''local_subtree_deleted'',
              sk_reason_details = Some ''local subtree deleted during migration preparation or execution'',
              sk_size_bytes = None\<rparr>))
    (seqM (mig_repo_at env (\<lambda>now. append_operations_succeeded now
             [\<lparr>or_run_id = run_id, or_operation = ''skipped_local_subtree_deleted'',
               or_local_path = Some (ds_relative_prefix subtree),
               or_remote_path = Some (ds_remote_prefix subtree)\<rparr>]))
       (ret (rs\<lparr>mg_skipped_files := mg_skipped_files rs + 1\<rparr>))))"

definition migration_record_deleted_subtrees ::
  "'w sync_env \<Rightarrow> rowid \<Rightarrow> LiveScanPlan \<Rightarrow> MigrationRootSummary \<Rightarrow> ('w, MigrationRootSummary) mig_sync" where
  "migration_record_deleted_subtrees env run_id live rs =
     foldM (migration_record_deleted_subtree env run_id) (lp_deleted_subtrees live) rs"

definition migration_fail_root_as ::
  "string \<Rightarrow> 'w sync_env \<Rightarrow> SyncRootConfig \<Rightarrow> string \<Rightarrow> string \<Rightarrow> string \<Rightarrow> MigrationRootSummary \<Rightarrow>
   ('w, MigrationRootSummary) mig_sync" where
  "migration_fail_root_as status env root operation kind message rs =
     seqM (mig_repo_at env (\<lambda>now. mark_failed now
             (failed_item (rc_id root) (Some (rc_local_path root)) (Some (mg_canonical_remote_path rs))
                operation kind message)))
    (seqM (mig_repo env (update_sync_root_status (rc_id root) status (Some message)))
       (ret (rs\<lparr>mg_status := status, mg_failed_files := mg_failed_files rs + 1,
                mg_error_summary := Some message\<rparr>)))"

definition migration_fail_root ::
  "'w sync_env \<Rightarrow> SyncRootConfig \<Rightarrow> string \<Rightarrow> string \<Rightarrow> string \<Rightarrow> MigrationRootSummary \<Rightarrow>
   ('w, MigrationRootSummary) mig_sync" where
  "migration_fail_root = migration_fail_root_as ROOT_STATUS_FAILED"

definition migration_partial_fail_root ::
  "'w sync_env \<Rightarrow> SyncRootConfig \<Rightarrow> string \<Rightarrow> string \<Rightarrow> string \<Rightarrow> MigrationRootSummary \<Rightarrow>
   ('w, MigrationRootSummary) mig_sync" where
  "migration_partial_fail_root = migration_fail_root_as ROOT_STATUS_PARTIAL_FAILED"

definition migration_map_row ::
  "SyncRootConfig \<Rightarrow> string \<Rightarrow> string \<Rightarrow> MigrationMapStatus \<Rightarrow> string option \<Rightarrow> MigrationMapRecord" where
  "migration_map_row root legacy canonical status last_error =
     \<lparr>mm_root_id = rc_id root, mm_legacy_remote_path = legacy, mm_canonical_remote_path = canonical,
      mm_status = status, mm_last_error = last_error\<rparr>"

definition record_migration_failure ::
  "'w sync_env \<Rightarrow> SyncRootConfig \<Rightarrow> string option \<Rightarrow> string option \<Rightarrow> string \<Rightarrow> YandexDiskError \<Rightarrow>
   ('w, unit) mig_sync" where
  "record_migration_failure env root legacy_path canonical_path operation e =
     (let legacy = (case legacy_path of
                      Some p \<Rightarrow> p
                    | None \<Rightarrow> (case canonical_path of Some p \<Rightarrow> p | None \<Rightarrow> ''''));
          canonical = (case canonical_path of Some p \<Rightarrow> p | None \<Rightarrow> legacy)
      in seqM (mig_repo_at env (\<lambda>now. mark_failed now
                 (failed_item (rc_id root) None (Some canonical) operation
                    (YandexDiskErrorKind_as_str (ye_kind e)) (ye_message e))))
           (mig_repo_at env (\<lambda>now. upsert_migration_map now
              (migration_map_row root legacy canonical MmFailed (Some (ye_message e))))))"

text \<open>\<open>failure\<close> is \<open>FileProcessingFailure\<close>: the file, the operation, its remote path, the error.\<close>

record FileProcessingFailure =
  fl_run_id :: rowid
  fl_root :: SyncRootConfig
  fl_file :: LocalFileEntry
  fl_operation :: string
  fl_operation_remote_path :: string
  fl_error :: MigrationError

definition file_skipped ::
  "'w sync_env \<Rightarrow> FileProcessingFailure \<Rightarrow> rowid \<Rightarrow> string \<Rightarrow> string \<Rightarrow> MigrationRootSummary \<Rightarrow>
   ('w, MigrationRootSummary) mig_sync" where
  "file_skipped env failure operation_id reason_code reason_details rs =
     (let f = fl_file failure
      in seqM (mig_repo_at env (\<lambda>now. finish_operation now operation_id OpCancelled (Some reason_code) (Some reason_details)))
        (seqM (mig_repo_at env (\<lambda>now. mark_skipped now
                 \<lparr>sk_root_id = rc_id (fl_root failure), sk_local_path = path_to_stable_string (lf_local_path f),
                  sk_relative_path = Some (lf_relative_path f), sk_remote_path = Some (lf_remote_path f),
                  sk_reason_code = reason_code, sk_reason_details = Some reason_details,
                  sk_size_bytes = Some (u64_to_i64 (lf_size_bytes f))\<rparr>))
        (seqM (mig_repo_at env (\<lambda>now. upsert_file_state now
                 (migration_file_state_record f (fl_run_id failure) FsSkipped (Some reason_details) None)))
        (seqM (mig_repo_at env (\<lambda>now. upsert_migration_map now
                 (migration_map_row (fl_root failure) (fl_operation_remote_path failure) (lf_remote_path f)
                    MmSkipped (Some reason_details))))
           (ret (rs\<lparr>mg_skipped_files := mg_skipped_files rs + 1\<rparr>))))))"

definition file_failed ::
  "'w sync_env \<Rightarrow> FileProcessingFailure \<Rightarrow> rowid \<Rightarrow> string \<Rightarrow> string \<Rightarrow> MigrationRootSummary \<Rightarrow>
   ('w, MigrationRootSummary) mig_sync" where
  "file_failed env failure operation_id kind message rs =
     (let f = fl_file failure
      in seqM (mig_repo_at env (\<lambda>now. finish_operation now operation_id OpFailed (Some kind) (Some message)))
        (seqM (mig_repo_at env (\<lambda>now. mark_failed now
                 (failed_item (rc_id (fl_root failure)) (Some (path_to_stable_string (lf_local_path f)))
                    (Some (lf_remote_path f)) (fl_operation failure) kind message)))
        (seqM (mig_repo_at env (\<lambda>now. upsert_file_state now
                 (migration_file_state_record f (fl_run_id failure) FsFailed (Some message) None)))
        (seqM (mig_repo_at env (\<lambda>now. upsert_migration_map now
                 (migration_map_row (fl_root failure) (fl_operation_remote_path failure) (lf_remote_path f)
                    MmFailed (Some message))))
           (ret (rs\<lparr>mg_failed_files := mg_failed_files rs + 1, mg_error_summary := Some message\<rparr>))))))"

definition record_file_processing_failure ::
  "'w sync_env \<Rightarrow> FileProcessingFailure \<Rightarrow> MigrationRootSummary \<Rightarrow> ('w, MigrationRootSummary) mig_sync" where
  "record_file_processing_failure env failure rs =
     (case per_file_processing_error (fl_error failure) of
        None \<Rightarrow> throw (MgYandexDisk (error_new YkCritical
          (''non per-file error passed to file failure recorder: '' @ MigrationError_text (fl_error failure))))
      | Some (kind, message) \<Rightarrow>
          bindM (mig_repo_at env (\<lambda>now. append_operation_started now
                   \<lparr>or_run_id = fl_run_id failure, or_operation = fl_operation failure,
                    or_local_path = Some (path_to_stable_string (lf_local_path (fl_file failure))),
                    or_remote_path = Some (fl_operation_remote_path failure)\<rparr>)) (\<lambda>operation_id.
            case skippable_local_processing_error (fl_error failure) of
              Some (reason_code, reason_details) \<Rightarrow> file_skipped env failure operation_id reason_code reason_details rs
            | None \<Rightarrow> file_failed env failure operation_id kind message rs))"

definition migration_finish_root ::
  "'w sync_env \<Rightarrow> SyncRootConfig \<Rightarrow> MigrationRootSummary \<Rightarrow> ('w, MigrationRootSummary) mig_sync" where
  "migration_finish_root env root rs =
     bindM (mig_cancelled env) (\<lambda>cancelled.
       if cancelled then
         let rs = rs\<lparr>mg_status := ROOT_STATUS_CANCELLED, mg_error_summary := Some ''migration run cancelled''\<rparr>
         in seqM (mig_repo env (update_sync_root_status (rc_id root) ROOT_STATUS_CANCELLED (mg_error_summary rs)))
              (ret rs)
       else if mg_status rs = ROOT_STATUS_FAILED then
         seqM (mig_repo env (update_sync_root_status (rc_id root) ROOT_STATUS_FAILED (mg_error_summary rs)))
           (ret rs)
       else if i64_pos (mg_failed_files rs) then
         seqM (mig_repo env (update_sync_root_status (rc_id root) ROOT_STATUS_PARTIAL_FAILED (mg_error_summary rs)))
           (ret (rs\<lparr>mg_status := ROOT_STATUS_PARTIAL_FAILED\<rparr>))
       else
         seqM (mig_repo env (update_sync_root_status (rc_id root) ROOT_STATUS_SUCCEEDED None))
           (ret (rs\<lparr>mg_status := ROOT_STATUS_SUCCEEDED\<rparr>)))"

definition migration_record_missing_root ::
  "'w sync_env \<Rightarrow> SyncRootConfig \<Rightarrow> MigrationRootSummary \<Rightarrow> ('w, MigrationRootSummary) mig_sync" where
  "migration_record_missing_root env root rs =
     (let message = ''local root is missing or not a directory: '' @ rc_local_path root
      in seqM (mig_repo_at env (\<lambda>now. mark_skipped now
                 \<lparr>sk_root_id = rc_id root, sk_local_path = rc_local_path root, sk_relative_path = None,
                  sk_remote_path = Some (mg_canonical_remote_path rs), sk_reason_code = ''missing_root'',
                  sk_reason_details = Some message, sk_size_bytes = None\<rparr>))
        (seqM (mig_repo env (update_sync_root_status (rc_id root) ROOT_STATUS_SKIPPED (Some message)))
        (seqM (eachM (\<lambda>legacy. mig_repo_at env (\<lambda>now. upsert_migration_map now
                 (migration_map_row root legacy (mg_canonical_remote_path rs) MmSkipped (Some message))))
                 (rc_legacy_remote_paths root))
           (ret (rs\<lparr>mg_status := ROOT_STATUS_SKIPPED, mg_skipped_files := 1,
                    mg_error_summary := Some message\<rparr>)))))"

section \<open>Remote inventories\<close>

definition migration_remote_inventory ::
  "'w sync_env \<Rightarrow> string \<Rightarrow> string list \<Rightarrow> ('w, YandexDiskError, (string, ResourceMetadata) btree) sync_m" where
  "migration_remote_inventory env remote_path pruned =
     bindM (world_call (dc_metadata (ev_client env) remote_path)) (\<lambda>meta.
       case meta of
         Inl e \<Rightarrow> if ye_kind e = YkNotFound then ret [] else throw e
       | Inr root \<Rightarrow>
           let resources = bt_insert (rs_path root) root []
           in bindM (world_call (dc_list_recursive_with_options (ev_client env) remote_path pruned)) (\<lambda>listing.
                case listing of
                  Inr listed \<Rightarrow> ret (resources_by_path listed resources)
                | Inl e \<Rightarrow> if ye_kind e = YkNotFound then ret resources else throw e))"

definition load_legacy ::
  "'w sync_env \<Rightarrow> LiveScanPlan \<Rightarrow> string \<Rightarrow> ('w, YandexDiskError, LegacyInventory) sync_m" where
  "load_legacy env live legacy_root =
     bindM (migration_remote_inventory env legacy_root
              (map (\<lambda>subtree. legacy_remote_prefix legacy_root (ds_relative_prefix subtree)) (lp_deleted_subtrees live)))
       (\<lambda>inventory. ret \<lparr>li_root_path = legacy_root, li_resources = inventory\<rparr>)"

definition load_cached_sets ::
  "'w sync_env \<Rightarrow> SyncRootConfig \<Rightarrow> string \<Rightarrow> bool \<Rightarrow> ('w, YandexDiskError, RemoteSets option) sync_m" where
  "load_cached_sets env root canonical force_remote_rescan =
     (if force_remote_rescan then ret None
      else bindM (errM (critical_text StateError_text) (repo_call env (get_root_remote_inventory_status (rc_id root))))
        (\<lambda>status.
          case status of
            None \<Rightarrow> ret None
          | Some status \<Rightarrow>
              if \<not> ri_is_complete status then ret None
              else bindM (is_remote_inventory_expired env status) (\<lambda>expired.
                if expired then ret None
                else bindM (errM (critical_text StateError_text)
                             (repo_call env (list_remote_resources_for_root (rc_id root))))
                       (\<lambda>cached. ret (Some (split_cached_remote_sets root canonical cached True))))))"

definition load_remote_sets ::
  "'w sync_env \<Rightarrow> SyncRootConfig \<Rightarrow> string \<Rightarrow> LiveScanPlan \<Rightarrow> bool \<Rightarrow> ('w, YandexDiskError, RemoteSets) sync_m" where
  "load_remote_sets env root canonical live force_remote_rescan =
     bindM (load_cached_sets env root canonical force_remote_rescan) (\<lambda>cached.
       case cached of
         Some sets \<Rightarrow> ret sets
       | None \<Rightarrow>
           bindM (migration_remote_inventory env canonical (prune_remote_prefixes live)) (\<lambda>inventory.
           bindM (mapM (load_legacy env live) (rc_legacy_remote_paths root)) (\<lambda>legacy.
             ret \<lparr>rx_canonical = inventory, rx_legacy = legacy, rx_from_cache = False\<rparr>)))"

definition all_resources :: "RemoteSets \<Rightarrow> ResourceMetadata list" where
  "all_resources sets =
     bt_values (rx_canonical sets) @ concat (map (\<lambda>legacy. bt_values (li_resources legacy)) (rx_legacy sets))"

definition record_remote_resources ::
  "'w sync_env \<Rightarrow> SyncConfig \<Rightarrow> SyncRootConfig \<Rightarrow> RemoteSets \<Rightarrow> ('w, unit) mig_sync" where
  "record_remote_resources env sync root sets =
     (let records = map (remote_resource_record (rc_id root)) (all_resources sets)
      in seqM (mig_repo_at env (\<lambda>now. replace_remote_resources_for_root now (rc_id root) records))
          (bindM (world_read (ev_now env)) (\<lambda>now.
             let expires_at = now + sint (sy_remote_inventory_cache_ttl_hours sync) * 3600 * 1000000000
             in mig_repo env (set_root_remote_inventory_status
                  \<lparr>ri_root_id = rc_id root, ri_is_complete = True,
                   ri_snapshot_completed_at_utc = Some (ev_utc_text env now),
                   ri_snapshot_expires_at_utc = Some (ev_utc_text env expires_at),
                   ri_resource_count = u64_to_i64 (of_nat (length records)), ri_last_error = None\<rparr>))))"

section \<open>Directories\<close>

definition yandex :: "('w, YandexDiskError, 'a) sync_m \<Rightarrow> ('w, 'a) mig_sync" where
  "yandex f = errM MgYandexDisk f"

definition migration_create_directory :: "'w sync_env \<Rightarrow> rowid \<Rightarrow> string \<Rightarrow> ('w, unit) mig" where
  "migration_create_directory env run_id remote_path =
     bindM (on_sync (mig_repo_at env (\<lambda>now. append_operation_started now
              \<lparr>or_run_id = run_id, or_operation = ''migration_create_directory'', or_local_path = None,
               or_remote_path = Some remote_path\<rparr>))) (\<lambda>operation_id.
     bindM (on_sync (world_call (dc_create_directory (ev_client env) remote_path))) (\<lambda>result.
       case result of
         Inr _ \<Rightarrow>
           seqM (on_sync (mig_repo_at env (\<lambda>now. finish_operation now operation_id OpSucceeded None None)))
             (plan_push (CreateCanonicalDirectory remote_path))
       | Inl e \<Rightarrow>
           seqM (on_sync (mig_repo_at env (\<lambda>now. finish_operation now operation_id OpFailed
                   (Some (YandexDiskErrorKind_as_str (ye_kind e))) (Some (ye_message e)))))
             (throw (MgYandexDisk e))))"

definition is_directory_in :: "(string, ResourceMetadata) btree \<Rightarrow> string \<Rightarrow> bool" where
  "is_directory_in inventory path = (map_option rs_resource_type (bt_get inventory path) = Some RtDirectory)"

primrec ensure_directories ::
  "'w sync_env \<Rightarrow> rowid \<Rightarrow> string list \<Rightarrow> (string, ResourceMetadata) btree \<Rightarrow>
   ('w, (string, ResourceMetadata) btree) mig" where
  "ensure_directories env run_id [] inventory = ret inventory"
| "ensure_directories env run_id (parent # parents) inventory =
     bindM (on_sync (mig_cancelled env)) (\<lambda>cancelled.
       if cancelled then ret inventory
       else if is_directory_in inventory parent then ensure_directories env run_id parents inventory
       else seqM (migration_create_directory env run_id parent)
              (ensure_directories env run_id parents (bt_insert parent (resource_directory parent) inventory)))"

definition ensure_parent_directories ::
  "'w sync_env \<Rightarrow> rowid \<Rightarrow> string \<Rightarrow> (string, ResourceMetadata) btree \<Rightarrow>
   ('w, (string, ResourceMetadata) btree) mig" where
  "ensure_parent_directories env run_id remote_path inventory =
     ensure_directories env run_id (parent_remote_paths remote_path) inventory"

definition ensure_directory ::
  "'w sync_env \<Rightarrow> rowid \<Rightarrow> string \<Rightarrow> (string, ResourceMetadata) btree \<Rightarrow>
   ('w, (string, ResourceMetadata) btree) mig" where
  "ensure_directory env run_id remote_path inventory =
     (if is_directory_in inventory remote_path then ret inventory
      else bindM (ensure_parent_directories env run_id remote_path inventory) (\<lambda>inventory.
           bindM (on_sync (mig_cancelled env)) (\<lambda>cancelled.
             if cancelled then ret inventory
             else seqM (migration_create_directory env run_id remote_path)
                    (ret (bt_insert remote_path (resource_directory remote_path) inventory)))))"

section \<open>Moving the whole legacy folder\<close>

definition set_legacy :: "nat \<Rightarrow> ((string, ResourceMetadata) btree \<Rightarrow> (string, ResourceMetadata) btree) \<Rightarrow> RemoteSets \<Rightarrow> RemoteSets" where
  "set_legacy i f sets =
     sets\<lparr>rx_legacy := (rx_legacy sets)[i := (rx_legacy sets ! i)\<lparr>li_resources := f (li_resources (rx_legacy sets ! i))\<rparr>]\<rparr>"

text \<open>A move that failed, of the folder or of a file.\<close>

definition move_failed ::
  "'w sync_env \<Rightarrow> SyncRootConfig \<Rightarrow> string \<Rightarrow> string \<Rightarrow> string \<Rightarrow> rowid \<Rightarrow> YandexDiskError \<Rightarrow>
   MigrationRootSummary \<Rightarrow> ('w, MigrationRootSummary) mig_sync" where
  "move_failed env root from' to' operation operation_id e rs =
     seqM (mig_repo_at env (\<lambda>now. finish_operation now operation_id OpFailed
             (Some (YandexDiskErrorKind_as_str (ye_kind e))) (Some (ye_message e))))
    (seqM (record_migration_failure env root (Some from') (Some to') operation e)
       (ret (rs\<lparr>mg_failed_files := mg_failed_files rs + 1, mg_error_summary := Some (YandexDiskError_text e)\<rparr>)))"

definition move_legacy_root ::
  "'w sync_env \<Rightarrow> rowid \<Rightarrow> SyncRootConfig \<Rightarrow> nat \<Rightarrow> RemoteSets \<Rightarrow> MigrationRootSummary \<Rightarrow>
   ('w, bool \<times> RemoteSets \<times> MigrationRootSummary) mig" where
  "move_legacy_root env run_id root legacy_index sets rs =
     (let from' = li_root_path (rx_legacy sets ! legacy_index);
          to' = mg_canonical_remote_path rs
      in bindM (ensure_parent_directories env run_id to' (rx_canonical sets)) (\<lambda>inventory.
         let sets = sets\<lparr>rx_canonical := inventory\<rparr>
         in bindM (on_sync (mig_cancelled env)) (\<lambda>cancelled.
              if cancelled then ret (True, sets, rs)
              else
                bindM (on_sync (mig_repo_at env (\<lambda>now. append_operation_started now
                         \<lparr>or_run_id = run_id, or_operation = ''migration_move_legacy_root'', or_local_path = None,
                          or_remote_path = Some from'\<rparr>))) (\<lambda>operation_id.
                bindM (on_sync (world_call (dc_move_resource (ev_client env) from' to' False))) (\<lambda>result.
                  case result of
                    Inr _ \<Rightarrow>
                      seqM (on_sync (mig_repo_at env (\<lambda>now. finish_operation now operation_id OpSucceeded None None)))
                     (seqM (on_sync (mig_repo_at env (\<lambda>now. upsert_migration_map now
                              (migration_map_row root from' to' MmMoved None))))
                     (seqM (plan_push (MoveLegacyResource from' to'))
                     (bindM (on_sync (yandex (migration_remote_inventory env to' []))) (\<lambda>inventory.
                        ret (False, set_legacy legacy_index (\<lambda>_. []) (sets\<lparr>rx_canonical := inventory\<rparr>),
                             rs\<lparr>mg_moved_resources := mg_moved_resources rs + 1\<rparr>)))))
                  | Inl e \<Rightarrow>
                      bindM (on_sync (move_failed env root from' to' ''migration_move_legacy_root'' operation_id e rs))
                        (\<lambda>rs. ret (is_stop_error (ye_kind e), sets, rs)))))))"

definition legacy_root_index :: "LegacyInventory list \<Rightarrow> nat option" where
  "legacy_root_index legacies =
     List.find (\<lambda>i. bt_get (li_resources (legacies ! i)) (li_root_path (legacies ! i)) \<noteq> None) [0..<length legacies]"

definition try_top_level_move ::
  "'w sync_env \<Rightarrow> rowid \<Rightarrow> SyncRootConfig \<Rightarrow> RemoteSets \<Rightarrow> MigrationRootSummary \<Rightarrow>
   ('w, bool \<times> RemoteSets \<times> MigrationRootSummary) mig" where
  "try_top_level_move env run_id root sets rs =
     bindM (on_sync (mig_cancelled env)) (\<lambda>cancelled.
       if cancelled \<or> rx_canonical sets \<noteq> [] then ret (False, sets, rs)
       else case legacy_root_index (rx_legacy sets) of
              None \<Rightarrow> ret (False, sets, rs)
            | Some legacy_index \<Rightarrow> move_legacy_root env run_id root legacy_index sets rs)"

section \<open>Moving what matches\<close>

definition remote_matches_local ::
  "'w migration_env \<Rightarrow> SyncConfig \<Rightarrow> LocalFileEntry \<Rightarrow> ResourceMetadata \<Rightarrow> ('w, AdoptionDecision) mig_sync" where
  "remote_matches_local mv sync f remote =
     (if rs_resource_type remote \<noteq> RtFile \<or> rs_size_bytes remote \<noteq> Some (lf_size_bytes f)
      then ret \<lparr>ad_matches = False, ad_method = ''type_or_size_mismatch''\<rparr>
      else if lf_size_bytes f \<le> sy_full_hash_max_bytes sync
      then (case rs_md5 remote of
              Some remote_md5 \<Rightarrow>
                ret \<lparr>ad_matches = (case fp_local_md5 (lf_fingerprint f) of
                                     Some local_md5 \<Rightarrow> eq_ignore_ascii_case local_md5 remote_md5
                                   | None \<Rightarrow> False),
                     ad_method = ''md5''\<rparr>
            | None \<Rightarrow>
                bindM (world_read (mv_read_file mv (lf_upload_source f))) (\<lambda>content.
                  case content of
                    Inl e \<Rightarrow> throw (MgIo (lf_upload_source f) e)
                  | Inr local \<Rightarrow>
                      bindM (world_call (dc_download (ev_client (mv_sync mv)) (rs_path remote))) (\<lambda>downloaded.
                        case downloaded of
                          Inl e \<Rightarrow> throw (MgYandexDisk e)
                        | Inr content \<Rightarrow>
                            ret \<lparr>ad_matches = (local = content), ad_method = ''download_full_compare''\<rparr>)))
      else ret \<lparr>ad_matches = True, ad_method = ''path_name_size''\<rparr>)"

primrec merge_directories ::
  "'w sync_env \<Rightarrow> rowid \<Rightarrow> SyncRunSummary \<Rightarrow> LocalDirectoryEntry list \<Rightarrow> RemoteSets \<Rightarrow> MigrationRootSummary \<Rightarrow>
   ('w, bool \<times> RemoteSets) mig" where
  "merge_directories env run_id base [] sets rs = ret (False, sets)"
| "merge_directories env run_id base (d # directories) sets rs =
     bindM (ensure_directory env run_id (ld_remote_path d) (rx_canonical sets)) (\<lambda>inventory.
     seqM (on_sync (mig_repo_at env (\<lambda>now. upsert_directory_state now (directory_state_record d run_id))))
    (bindM (on_sync (mig_cancelled env)) (\<lambda>cancelled.
       if cancelled then ret (True, sets\<lparr>rx_canonical := inventory\<rparr>)
       else seqM (on_sync (migration_persist_root_progress env run_id base rs))
              (merge_directories env run_id base directories (sets\<lparr>rx_canonical := inventory\<rparr>) rs))))"

text \<open>A legacy file that matches is moved; the flag stops the run.\<close>

definition move_legacy_file ::
  "'w sync_env \<Rightarrow> rowid \<Rightarrow> SyncRootConfig \<Rightarrow> LocalFileEntry \<Rightarrow> nat \<times> string \<times> ResourceMetadata \<Rightarrow>
   RemoteSets \<Rightarrow> MigrationRootSummary \<Rightarrow> ('w, bool \<times> RemoteSets \<times> MigrationRootSummary) mig" where
  "move_legacy_file env run_id root f found sets rs =
     (case found of (legacy_index, legacy_path, legacy_resource) \<Rightarrow>
        bindM (ensure_parent_directories env run_id (lf_remote_path f) (rx_canonical sets)) (\<lambda>inventory.
        let sets = sets\<lparr>rx_canonical := inventory\<rparr>
        in bindM (on_sync (mig_cancelled env)) (\<lambda>cancelled.
             if cancelled then ret (True, sets, rs)
             else
               bindM (on_sync (mig_repo_at env (\<lambda>now. append_operation_started now
                        \<lparr>or_run_id = run_id, or_operation = ''migration_move_legacy_file'',
                         or_local_path = Some (path_to_stable_string (lf_local_path f)),
                         or_remote_path = Some legacy_path\<rparr>))) (\<lambda>operation_id.
               bindM (on_sync (world_call (dc_move_resource (ev_client env) legacy_path (lf_remote_path f) False)))
                 (\<lambda>result.
                   case result of
                     Inr _ \<Rightarrow>
                       seqM (on_sync (mig_repo_at env (\<lambda>now. finish_operation now operation_id OpSucceeded None None)))
                      (seqM (on_sync (mig_repo_at env (\<lambda>now. upsert_migration_map now
                               (migration_map_row root legacy_path (lf_remote_path f) MmMerged None))))
                        (let moved = legacy_resource\<lparr>rs_path := lf_remote_path f,
                                                     rs_name := last_remote_segment (lf_remote_path f)\<rparr>;
                             sets = set_legacy legacy_index (bt_remove legacy_path)
                                      (sets\<lparr>rx_canonical := bt_insert (lf_remote_path f) moved (rx_canonical sets)\<rparr>)
                         in seqM (plan_push (MoveLegacyResource legacy_path (lf_remote_path f)))
                              (ret (False, sets, rs\<lparr>mg_moved_resources := mg_moved_resources rs + 1\<rparr>))))
                   | Inl e \<Rightarrow>
                       bindM (on_sync (move_failed env root legacy_path (lf_remote_path f)
                                ''migration_move_legacy_file'' operation_id e rs))
                         (\<lambda>rs. ret (is_stop_error (ye_kind e), sets, rs)))))))"

definition merge_file ::
  "'w migration_env \<Rightarrow> SyncConfig \<Rightarrow> rowid \<Rightarrow> SyncRootConfig \<Rightarrow> LocalFileEntry \<Rightarrow> RemoteSets \<Rightarrow>
   MigrationRootSummary \<Rightarrow> ('w, bool \<times> RemoteSets \<times> MigrationRootSummary) mig" where
  "merge_file mv sync run_id root f sets rs =
     (let env = mv_sync mv
      in bindM (on_sync (mig_cancelled env)) (\<lambda>cancelled.
           if cancelled then ret (True, sets, rs)
           else if map_option rs_resource_type (bt_get (rx_canonical sets) (lf_remote_path f)) = Some RtFile
           then ret (False, sets, rs)
           else case find_legacy_file sets (lf_relative_path f) of
                  None \<Rightarrow> ret (False, sets, rs)
                | Some (legacy_index, legacy_path, legacy_resource) \<Rightarrow>
                    bindM (on_sync (catchM (remote_matches_local mv sync f legacy_resource))) (\<lambda>decision.
                      case decision of
                        Inl e \<Rightarrow>
                          if per_file_processing_error e \<noteq> None
                          then bindM (on_sync (record_file_processing_failure env
                                 \<lparr>fl_run_id = run_id, fl_root = root, fl_file = f,
                                  fl_operation = ''migration_compare_legacy_file'',
                                  fl_operation_remote_path = legacy_path, fl_error = e\<rparr> rs))
                                 (\<lambda>rs. ret (False, sets, rs))
                          else throw e
                      | Inr decision \<Rightarrow>
                          if \<not> ad_matches decision then ret (False, sets, rs)
                          else move_legacy_file env run_id root f (legacy_index, legacy_path, legacy_resource) sets rs)))"

primrec merge_files ::
  "'w migration_env \<Rightarrow> SyncConfig \<Rightarrow> rowid \<Rightarrow> SyncRootConfig \<Rightarrow> LocalFileEntry list \<Rightarrow> RemoteSets \<Rightarrow>
   MigrationRootSummary \<Rightarrow> ('w, bool \<times> RemoteSets \<times> MigrationRootSummary) mig" where
  "merge_files mv sync run_id root [] sets rs = ret (False, sets, rs)"
| "merge_files mv sync run_id root (f # files) sets rs =
     bindM (merge_file mv sync run_id root f sets rs) (\<lambda>(stop, sets, rs).
       if stop then ret (True, sets, rs) else merge_files mv sync run_id root files sets rs)"

definition apply_merge_moves ::
  "'w migration_env \<Rightarrow> SyncConfig \<Rightarrow> rowid \<Rightarrow> SyncRootConfig \<Rightarrow> LiveScanPlan \<Rightarrow> SyncRunSummary \<Rightarrow> RemoteSets \<Rightarrow>
   MigrationRootSummary \<Rightarrow> ('w, bool \<times> RemoteSets \<times> MigrationRootSummary) mig" where
  "apply_merge_moves mv sync run_id root live base sets rs =
     (let env = mv_sync mv
      in bindM (ensure_directory env run_id (mg_canonical_remote_path rs) (rx_canonical sets)) (\<lambda>inventory.
         let sets = sets\<lparr>rx_canonical := inventory\<rparr>
         in bindM (on_sync (mig_cancelled env)) (\<lambda>cancelled.
              if cancelled then ret (True, sets, rs)
              else
                seqM (on_sync (mig_repo_at env (\<lambda>now. upsert_directory_state now
                        (directory_state_record (root_directory_entry root (mg_canonical_remote_path rs)) run_id))))
               (bindM (merge_directories env run_id base (lp_directories live) sets rs) (\<lambda>(stop, sets).
                  if stop then ret (True, sets, rs)
                  else merge_files mv sync run_id root (lp_files live) sets rs)))))"

section \<open>Adopting and uploading\<close>

record AdoptionBatch =
  ab_operations :: "OperationRecord list"
  ab_file_states :: "FileStateRecord list"
  ab_remote_resources :: "RemoteResourceRecord list"
  ab_migration_maps :: "MigrationMapRecord list"

definition adoption_batch_default :: AdoptionBatch where
  "adoption_batch_default =
     \<lparr>ab_operations = [], ab_file_states = [], ab_remote_resources = [], ab_migration_maps = []\<rparr>"

definition adoption_batch_push ::
  "OperationRecord \<Rightarrow> FileStateRecord \<Rightarrow> RemoteResourceRecord \<Rightarrow> MigrationMapRecord \<Rightarrow> AdoptionBatch \<Rightarrow> AdoptionBatch" where
  "adoption_batch_push operation file_state remote_resource migration_map batch =
     \<lparr>ab_operations = ab_operations batch @ [operation], ab_file_states = ab_file_states batch @ [file_state],
      ab_remote_resources = ab_remote_resources batch @ [remote_resource],
      ab_migration_maps = ab_migration_maps batch @ [migration_map]\<rparr>"

definition adoption_batch_flush :: "'w sync_env \<Rightarrow> AdoptionBatch \<Rightarrow> ('w, AdoptionBatch) mig_sync" where
  "adoption_batch_flush env batch =
     (if ab_file_states batch = [] then ret batch
      else seqM (mig_repo_at env (\<lambda>now. upsert_file_states now (ab_file_states batch)))
          (seqM (mig_repo_at env (\<lambda>now. upsert_remote_resources now (ab_remote_resources batch)))
          (seqM (mig_repo_at env (\<lambda>now. upsert_migration_maps now (ab_migration_maps batch)))
          (seqM (mig_repo_at env (\<lambda>now. append_operations_succeeded now (ab_operations batch)))
             (ret adoption_batch_default)))))"

definition ADOPTION_BATCH_SIZE :: nat where "ADOPTION_BATCH_SIZE = 1000"

text \<open>What the loop over the files changes.\<close>

record adopt_state =
  as_live :: LiveScanPlan
  as_summary :: MigrationRootSummary
  as_sets :: RemoteSets
  as_bytes_uploaded :: u64
  as_adoptions :: AdoptionBatch
  as_uploads :: "MigrationUploadCandidate list"

record MigrationUploadTaskOutcome =
  mt_operation_id :: rowid
  mt_file :: LocalFileEntry
  mt_is_update :: bool
  mt_result :: "UploadTaskFailure + unit"

definition migration_upload_task ::
  "'w sync_env \<Rightarrow> MigrationUploadCandidate \<Rightarrow> ('w, MigrationUploadTaskOutcome) mig_sync" where
  "migration_upload_task env c =
     bindM (mig_cancelled env) (\<lambda>cancelled.
       if cancelled then
         ret \<lparr>mt_operation_id = mc_operation_id c, mt_file = mc_file c, mt_is_update = mc_is_update c,
              mt_result = Inl \<lparr>uf_error_kind = ''cancelled'', uf_error_message = ''migration run cancelled'',
                               uf_should_stop = True, uf_skip_reason_code = None\<rparr>\<rparr>
       else
         bindM (world_call (dc_upload_source (ev_client env) (lf_remote_path (mc_file c))
                  (UploadFile (lf_upload_source (mc_file c))) True)) (\<lambda>result.
           ret \<lparr>mt_operation_id = mc_operation_id c, mt_file = mc_file c, mt_is_update = mc_is_update c,
                mt_result = map_err migration_upload_failure result\<rparr>))"

definition migration_upload_operation :: "bool \<Rightarrow> string" where
  "migration_upload_operation is_update = (if is_update then ''migration_update_file'' else ''migration_upload_file'')"

text \<open>What the loop over a batch changes: whether to stop, the live plan, the sets, the summary, the bytes.\<close>

record upload_state =
  us_should_stop :: bool
  us_live :: LiveScanPlan
  us_sets :: RemoteSets
  us_summary :: MigrationRootSummary
  us_bytes_uploaded :: u64

definition migration_subtree_gone ::
  "'w sync_env \<Rightarrow> rowid \<Rightarrow> SyncRunSummary \<Rightarrow> rowid \<Rightarrow> DeletedLocalSubtree \<Rightarrow> MigrationRootSummary \<Rightarrow>
   ('w, MigrationRootSummary) mig_sync" where
  "migration_subtree_gone env run_id base operation_id subtree rs =
     seqM (mig_repo_at env (\<lambda>now. finish_operation now operation_id OpCancelled
             (Some ''local_subtree_deleted'') (Some ''local subtree deleted during migration run'')))
    (bindM (migration_record_deleted_subtree env run_id subtree rs) (\<lambda>rs.
     seqM (migration_persist_root_progress env run_id base rs) (ret rs)))"

definition migration_upload_ok ::
  "'w sync_env \<Rightarrow> rowid \<Rightarrow> SyncRootConfig \<Rightarrow> MigrationUploadTaskOutcome \<Rightarrow> upload_state \<Rightarrow> ('w, upload_state) mig_sync" where
  "migration_upload_ok env run_id root outcome us =
     (let f = mt_file outcome; rs = us_summary us;
          remote = (resource_file (lf_remote_path f) (lf_size_bytes f))\<lparr>rs_md5 := fp_local_md5 (lf_fingerprint f)\<rparr>
      in seqM (mig_repo_at env (\<lambda>now. finish_operation now (mt_operation_id outcome) OpSucceeded None None))
        (bindM (world_read (ev_fs env)) (\<lambda>fs.
         seqM (mig_repo_at env (\<lambda>now. upsert_file_state now
                 (migration_file_state_record f run_id (file_status_after_upload fs f) None (fp_local_md5 (lf_fingerprint f)))))
        (seqM (mig_repo_at env (\<lambda>now. upsert_remote_resource now (remote_resource_record (rc_id root) remote)))
        (seqM (mig_repo_at env (\<lambda>now. upsert_migration_map now
                 (migration_map_row root (lf_remote_path f) (lf_remote_path f) MmUploaded None)))
          (let rs = (if mt_is_update outcome then rs\<lparr>mg_updated_files := mg_updated_files rs + 1\<rparr>
                     else rs\<lparr>mg_uploaded_files := mg_uploaded_files rs + 1\<rparr>)
           in ret (us\<lparr>us_sets := (us_sets us)\<lparr>rx_canonical := bt_insert (lf_remote_path f) remote (rx_canonical (us_sets us))\<rparr>,
                     us_summary := rs\<lparr>mg_bytes_uploaded := mg_bytes_uploaded rs + u64_to_i64 (lf_size_bytes f)\<rparr>,
                     us_bytes_uploaded := saturating_add (us_bytes_uploaded us) (lf_size_bytes f)\<rparr>)))))))"

definition migration_upload_skipped ::
  "'w sync_env \<Rightarrow> rowid \<Rightarrow> SyncRootConfig \<Rightarrow> SyncRunSummary \<Rightarrow> MigrationUploadTaskOutcome \<Rightarrow> UploadTaskFailure \<Rightarrow>
   string \<Rightarrow> upload_state \<Rightarrow> ('w, upload_state) mig_sync" where
  "migration_upload_skipped env run_id root base outcome failure reason_code us =
     (let f = mt_file outcome; rs = us_summary us
      in seqM (mig_repo_at env (\<lambda>now. finish_operation now (mt_operation_id outcome) OpCancelled
                (Some reason_code) (Some (uf_error_message failure))))
        (seqM (mig_repo_at env (\<lambda>now. mark_skipped now
                \<lparr>sk_root_id = rc_id root, sk_local_path = path_to_stable_string (lf_local_path f),
                 sk_relative_path = Some (lf_relative_path f), sk_remote_path = Some (lf_remote_path f),
                 sk_reason_code = reason_code, sk_reason_details = Some (uf_error_message failure),
                 sk_size_bytes = Some (u64_to_i64 (lf_size_bytes f))\<rparr>))
        (seqM (mig_repo_at env (\<lambda>now. upsert_file_state now
                (migration_file_state_record f run_id FsSkipped (Some (uf_error_message failure)) None)))
        (seqM (mig_repo_at env (\<lambda>now. upsert_migration_map now
                (migration_map_row root (lf_remote_path f) (lf_remote_path f) MmSkipped (Some (uf_error_message failure)))))
          (let rs = rs\<lparr>mg_skipped_files := mg_skipped_files rs + 1\<rparr>
           in seqM (migration_persist_root_progress env run_id base rs) (ret (us\<lparr>us_summary := rs\<rparr>)))))))"

definition migration_upload_failed ::
  "'w sync_env \<Rightarrow> SyncRootConfig \<Rightarrow> MigrationUploadTaskOutcome \<Rightarrow> UploadTaskFailure \<Rightarrow> upload_state \<Rightarrow>
   ('w, upload_state) mig_sync" where
  "migration_upload_failed env root outcome failure us =
     (let f = mt_file outcome; rs = us_summary us
      in seqM (mig_repo_at env (\<lambda>now. finish_operation now (mt_operation_id outcome) OpFailed
                (Some (uf_error_kind failure)) (Some (uf_error_message failure))))
        (seqM (mig_repo_at env (\<lambda>now. mark_failed now
                (failed_item (rc_id root) None (Some (lf_remote_path f))
                   (migration_upload_operation (mt_is_update outcome))
                   (uf_error_kind failure) (uf_error_message failure))))
        (seqM (mig_repo_at env (\<lambda>now. upsert_migration_map now
                (migration_map_row root (lf_remote_path f) (lf_remote_path f) MmFailed (Some (uf_error_message failure)))))
          (ret (us\<lparr>us_summary := rs\<lparr>mg_failed_files := mg_failed_files rs + 1,
                                    mg_error_summary := Some (uf_error_message failure)\<rparr>,
                   us_should_stop := us_should_stop us \<or> uf_should_stop failure\<rparr>)))))"

text \<open>The outcome of one upload; the loop over the results is never left early.\<close>

definition finish_migration_upload ::
  "'w sync_env \<Rightarrow> rowid \<Rightarrow> SyncRootConfig \<Rightarrow> SyncRunSummary \<Rightarrow> MigrationUploadTaskOutcome \<Rightarrow> upload_state \<Rightarrow>
   ('w, bool \<times> upload_state) mig_sync" where
  "finish_migration_upload env run_id root base outcome us =
     (case mt_result outcome of
        Inr _ \<Rightarrow>
          bindM (migration_upload_ok env run_id root outcome us) (\<lambda>us.
            seqM (migration_persist_root_progress env run_id base (us_summary us)) (ret (False, us)))
      | Inl failure \<Rightarrow>
          bindM (world_read (ev_fs env)) (\<lambda>fs.
            case register_missing_local_path fs (lf_local_path (mt_file outcome))
                   (lf_relative_path (mt_file outcome)) (lf_remote_path (mt_file outcome)) (us_live us) of
              (Some subtree, live) \<Rightarrow>
                bindM (migration_subtree_gone env run_id base (mt_operation_id outcome) subtree (us_summary us)) (\<lambda>rs.
                  ret (False, us\<lparr>us_live := live, us_summary := rs\<rparr>))
            | (None, live) \<Rightarrow>
                (case uf_skip_reason_code failure of
                   Some reason_code \<Rightarrow>
                     bindM (migration_upload_skipped env run_id root base outcome failure reason_code
                              (us\<lparr>us_live := live\<rparr>)) (\<lambda>us. ret (False, us))
                 | None \<Rightarrow>
                     bindM (migration_upload_failed env root outcome failure (us\<lparr>us_live := live\<rparr>)) (\<lambda>us.
                       seqM (migration_persist_root_progress env run_id base (us_summary us)) (ret (False, us))))))"

text \<open>The tasks of a batch; the operation of a file in a subtree already known to be gone stays open.\<close>

primrec start_migration_uploads ::
  "'w sync_env \<Rightarrow> rowid \<Rightarrow> SyncRunSummary \<Rightarrow> MigrationUploadCandidate list \<Rightarrow> upload_state \<Rightarrow>
   ('w, MigrationUploadCandidate list \<times> upload_state) mig_sync" where
  "start_migration_uploads env run_id base [] us = ret ([], us)"
| "start_migration_uploads env run_id base (c # scheduled) us =
     (if is_deleted_relative_path (us_live us) (lf_relative_path (mc_file c))
      then start_migration_uploads env run_id base scheduled us
      else bindM (world_read (ev_fs env)) (\<lambda>fs.
        case register_missing_local_path fs (lf_local_path (mc_file c)) (lf_relative_path (mc_file c))
               (lf_remote_path (mc_file c)) (us_live us) of
          (Some subtree, live) \<Rightarrow>
            bindM (migration_subtree_gone env run_id base (mc_operation_id c) subtree (us_summary us)) (\<lambda>rs.
              start_migration_uploads env run_id base scheduled (us\<lparr>us_live := live, us_summary := rs\<rparr>))
        | (None, live) \<Rightarrow>
            bindM (start_migration_uploads env run_id base scheduled (us\<lparr>us_live := live\<rparr>)) (\<lambda>(tasks, us).
              ret (c # tasks, us))))"

text \<open>Until the batch is empty; each turn shortens it, so its length is bound enough.\<close>

primrec migration_upload_batches ::
  "'w sync_env \<Rightarrow> SyncConfig \<Rightarrow> rowid \<Rightarrow> SyncRootConfig \<Rightarrow> SyncRunSummary \<Rightarrow> nat \<Rightarrow>
   MigrationUploadCandidate list \<Rightarrow> upload_state \<Rightarrow> ('w, upload_state) mig_sync" where
  "migration_upload_batches env sync run_id root base 0 pending us = ret us"
| "migration_upload_batches env sync run_id root base (Suc n) pending us =
     (if pending = [] then ret us
      else case take_migration_upload_batch pending (max (sy_upload_concurrency sync) 1)
                  (sy_large_file_name_size_only_min_bytes sync) of (scheduled, pending) \<Rightarrow>
        bindM (start_migration_uploads env run_id base scheduled us) (\<lambda>(tasks, us).
        bindM (join_tasks env (migration_upload_task env) (finish_migration_upload env run_id root base) tasks us)
          (\<lambda>(_, us). migration_upload_batches env sync run_id root base n pending us)))"

definition apply_migration_upload_batch ::
  "'w sync_env \<Rightarrow> SyncConfig \<Rightarrow> rowid \<Rightarrow> SyncRootConfig \<Rightarrow> SyncRunSummary \<Rightarrow> adopt_state \<Rightarrow>
   ('w, bool \<times> adopt_state) mig_sync" where
  "apply_migration_upload_batch env sync run_id root base st =
     bindM (migration_upload_batches env sync run_id root base (length (as_uploads st)) (as_uploads st)
              \<lparr>us_should_stop = False, us_live = as_live st, us_sets = as_sets st, us_summary = as_summary st,
               us_bytes_uploaded = 0\<rparr>) (\<lambda>us.
       ret (us_should_stop us,
            st\<lparr>as_live := us_live us, as_sets := us_sets us, as_summary := us_summary us, as_uploads := [],
               as_bytes_uploaded := saturating_add (as_bytes_uploaded st) (us_bytes_uploaded us)\<rparr>))"

section \<open>One file of the live plan\<close>

definition flush_adoptions :: "'w sync_env \<Rightarrow> adopt_state \<Rightarrow> ('w, adopt_state) mig_sync" where
  "flush_adoptions env st = bindM (adoption_batch_flush env (as_adoptions st)) (\<lambda>batch. ret (st\<lparr>as_adoptions := batch\<rparr>))"

text \<open>A failure of one file: the adoptions so far are written, then the failure is recorded.\<close>

definition adopt_failed ::
  "'w sync_env \<Rightarrow> rowid \<Rightarrow> SyncRootConfig \<Rightarrow> SyncRunSummary \<Rightarrow> LocalFileEntry \<Rightarrow> string \<Rightarrow> MigrationError \<Rightarrow>
   adopt_state \<Rightarrow> ('w, bool \<times> adopt_state) mig_sync" where
  "adopt_failed env run_id root base f operation e st =
     bindM (flush_adoptions env st) (\<lambda>st.
     bindM (record_file_processing_failure env
              \<lparr>fl_run_id = run_id, fl_root = root, fl_file = f, fl_operation = operation,
               fl_operation_remote_path = lf_remote_path f, fl_error = e\<rparr> (as_summary st)) (\<lambda>rs.
     seqM (migration_persist_root_progress env run_id base rs)
       (ret (False, st\<lparr>as_summary := rs\<rparr>))))"

definition adopt_matching ::
  "'w sync_env \<Rightarrow> rowid \<Rightarrow> SyncRootConfig \<Rightarrow> SyncRunSummary \<Rightarrow> LocalFileEntry \<Rightarrow> ResourceMetadata \<Rightarrow> string \<Rightarrow>
   adopt_state \<Rightarrow> ('w, bool \<times> adopt_state) mig" where
  "adopt_matching env run_id root base f remote decision_method st =
     (let batch = adoption_batch_push
            \<lparr>or_run_id = run_id, or_operation = ''migration_adopt_remote_file'',
             or_local_path = Some (path_to_stable_string (lf_local_path f)), or_remote_path = Some (lf_remote_path f)\<rparr>
            (migration_file_state_record f run_id FsSynced None (rs_md5 remote))
            (remote_resource_record (rc_id root) remote)
            (migration_map_row root (lf_remote_path f) (lf_remote_path f) MmAdopted None) (as_adoptions st);
          rs = as_summary st;
          rs = rs\<lparr>mg_adopted_files := mg_adopted_files rs + 1\<rparr>;
          st = st\<lparr>as_adoptions := batch, as_summary := rs\<rparr>
      in seqM (plan_push (AdoptRemoteFile (lf_relative_path f) (lf_remote_path f) decision_method))
          (bindM (on_sync (if ADOPTION_BATCH_SIZE \<le> length (ab_file_states batch) then flush_adoptions env st else ret st))
            (\<lambda>st. seqM (on_sync (migration_persist_root_progress env run_id base (as_summary st)))
                    (ret (False, st)))))"

definition migration_quota_message :: "u64 \<Rightarrow> string" where
  "migration_quota_message available =
     ''planned migration upload size exceeds available Yandex Disk quota '' @ show_nat (unat available) @ '' bytes''"

definition pending_upload_bytes :: "adopt_state \<Rightarrow> u64" where
  "pending_upload_bytes st = foldl saturating_add 0 (map (\<lambda>c. lf_size_bytes (mc_file c)) (as_uploads st))"

definition over_quota :: "u64 option \<Rightarrow> LocalFileEntry \<Rightarrow> adopt_state \<Rightarrow> bool" where
  "over_quota quota f st =
     (case quota of
        None \<Rightarrow> False
      | Some available \<Rightarrow>
          available < saturating_add (saturating_add (as_bytes_uploaded st) (pending_upload_bytes st)) (lf_size_bytes f))"

definition queue_upload ::
  "'w sync_env \<Rightarrow> SyncConfig \<Rightarrow> rowid \<Rightarrow> SyncRootConfig \<Rightarrow> u64 option \<Rightarrow> SyncRunSummary \<Rightarrow> LocalFileEntry \<Rightarrow> bool \<Rightarrow>
   adopt_state \<Rightarrow> ('w, bool \<times> adopt_state) mig" where
  "queue_upload env sync run_id root quota base f is_update st =
     bindM (on_sync (flush_adoptions env st)) (\<lambda>st.
       if over_quota quota f st
       then bindM (on_sync (migration_fail_root env root ''migration_quota_check'' (YandexDiskErrorKind_as_str YkQuotaExceeded)
                     (case quota of Some available \<Rightarrow> migration_quota_message available | None \<Rightarrow> '''') (as_summary st)))
              (\<lambda>rs. ret (True, st\<lparr>as_summary := rs\<rparr>))
       else
         bindM (on_sync (mig_repo_at env (\<lambda>now. append_operation_started now
                  \<lparr>or_run_id = run_id, or_operation = migration_upload_operation is_update,
                   or_local_path = Some (path_to_stable_string (lf_local_path f)),
                   or_remote_path = Some (lf_remote_path f)\<rparr>))) (\<lambda>operation_id.
         seqM (plan_push (MgUploadFile (lf_relative_path f) (lf_remote_path f) is_update))
           (let st = st\<lparr>as_uploads := as_uploads st @
                        [\<lparr>mc_operation_id = operation_id, mc_file = f, mc_is_update = is_update\<rparr>]\<rparr>
            in if max (sy_upload_concurrency sync) 1 \<le> length (as_uploads st)
               then on_sync (apply_migration_upload_batch env sync run_id root base st)
               else ret (False, st))))"

text \<open>A remote file at the path of the file: it is left, adopted, or a new upload replaces it.\<close>

definition adopt_or_replace ::
  "'w migration_env \<Rightarrow> SyncConfig \<Rightarrow> rowid \<Rightarrow> SyncRootConfig \<Rightarrow> u64 option \<Rightarrow> SyncRunSummary \<Rightarrow> LocalFileEntry \<Rightarrow>
   ResourceMetadata \<Rightarrow> adopt_state \<Rightarrow> ('w, bool \<times> adopt_state) mig" where
  "adopt_or_replace mv sync run_id root quota base f remote st =
     (let env = mv_sync mv
      in bindM (on_sync (catchM (remote_matches_local mv sync f remote))) (\<lambda>decision.
           case decision of
             Inl e \<Rightarrow>
               if per_file_processing_error e \<noteq> None
               then on_sync (adopt_failed env run_id root base f ''migration_adopt_remote_file'' e st)
               else throw e
           | Inr decision \<Rightarrow>
               if ad_matches decision
               then adopt_matching env run_id root base f remote (ad_method decision) st
               else queue_upload env sync run_id root quota base f True st))"

definition resume_or_adopt ::
  "'w migration_env \<Rightarrow> SyncConfig \<Rightarrow> rowid \<Rightarrow> SyncRootConfig \<Rightarrow> u64 option \<Rightarrow> SyncRunSummary \<Rightarrow>
   FileStateRecord option \<Rightarrow> LocalFileEntry \<Rightarrow> ResourceMetadata \<Rightarrow> adopt_state \<Rightarrow>
   ('w, bool \<times> adopt_state) mig" where
  "resume_or_adopt mv sync run_id root quota base previous f remote st =
     (case previous of
        None \<Rightarrow> adopt_or_replace mv sync run_id root quota base f remote st
      | Some previous \<Rightarrow>
          (case can_resume_synced_file previous f remote sync of
             Inr True \<Rightarrow>
               ret (False, st\<lparr>as_summary :=
                 (as_summary st)\<lparr>mg_adopted_files := mg_adopted_files (as_summary st) + 1\<rparr>\<rparr>)
           | Inr False \<Rightarrow> adopt_or_replace mv sync run_id root quota base f remote st
           | Inl e \<Rightarrow>
               if per_file_processing_error e \<noteq> None
               then on_sync (adopt_failed (mv_sync mv) run_id root base f ''migration_resume_file'' e st)
               else throw e))"

definition disappeared :: "LocalFileEntry \<Rightarrow> MigrationError" where
  "disappeared f =
     MgIo (lf_local_path f)
       \<lparr>io_kind = IoNotFound, io_raw_os_error = None, io_text = ''local file disappeared after scan''\<rparr>"

definition adopt_present_file ::
  "'w migration_env \<Rightarrow> SyncConfig \<Rightarrow> rowid \<Rightarrow> SyncRootConfig \<Rightarrow> u64 option \<Rightarrow> SyncRunSummary \<Rightarrow>
   (string, FileStateRecord) btree \<Rightarrow> LocalFileEntry \<Rightarrow> adopt_state \<Rightarrow> ('w, bool \<times> adopt_state) mig" where
  "adopt_present_file mv sync run_id root quota base previous_states f st =
     (case bt_get (rx_canonical (as_sets st)) (lf_remote_path f) of
        Some remote \<Rightarrow>
          if rs_resource_type remote = RtFile
          then resume_or_adopt mv sync run_id root quota base (bt_get previous_states (lf_relative_path f)) f remote st
          else queue_upload (mv_sync mv) sync run_id root quota base f False st
      | None \<Rightarrow> queue_upload (mv_sync mv) sync run_id root quota base f False st)"

text \<open>The body of the loop over the files; the flag leaves it.\<close>

definition adopt_file ::
  "'w migration_env \<Rightarrow> SyncConfig \<Rightarrow> rowid \<Rightarrow> SyncRootConfig \<Rightarrow> u64 option \<Rightarrow> SyncRunSummary \<Rightarrow>
   (string, FileStateRecord) btree \<Rightarrow> LocalFileEntry \<Rightarrow> adopt_state \<Rightarrow> ('w, bool \<times> adopt_state) mig" where
  "adopt_file mv sync run_id root quota base previous_states f st =
     (let env = mv_sync mv
      in bindM (on_sync (mig_cancelled env)) (\<lambda>cancelled.
           if cancelled then bindM (on_sync (flush_adoptions env st)) (\<lambda>st. ret (True, st))
           else if is_deleted_relative_path (as_live st) (lf_relative_path f) then ret (False, st)
           else bindM (on_sync (world_read (ev_fs env))) (\<lambda>fs.
             case register_missing_local_path fs (lf_local_path f) (lf_relative_path f) (lf_remote_path f) (as_live st) of
               (Some subtree, live) \<Rightarrow>
                 bindM (on_sync (flush_adoptions env (st\<lparr>as_live := live\<rparr>))) (\<lambda>st.
                 bindM (on_sync (migration_record_deleted_subtree env run_id subtree (as_summary st))) (\<lambda>rs.
                 seqM (on_sync (migration_persist_root_progress env run_id base rs))
                   (ret (False, st\<lparr>as_summary := rs\<rparr>))))
             | (None, live) \<Rightarrow>
                 bindM (on_sync (world_read (mv_is_file mv (lf_local_path f)))) (\<lambda>is_file.
                   if \<not> is_file
                   then on_sync (adopt_failed env run_id root base f ''migration_adopt_remote_file''
                          (disappeared f) (st\<lparr>as_live := live\<rparr>))
                   else adopt_present_file mv sync run_id root quota base previous_states f (st\<lparr>as_live := live\<rparr>)))))"

primrec adopt_files ::
  "'w migration_env \<Rightarrow> SyncConfig \<Rightarrow> rowid \<Rightarrow> SyncRootConfig \<Rightarrow> u64 option \<Rightarrow> SyncRunSummary \<Rightarrow>
   (string, FileStateRecord) btree \<Rightarrow> LocalFileEntry list \<Rightarrow> adopt_state \<Rightarrow> ('w, bool \<times> adopt_state) mig" where
  "adopt_files mv sync run_id root quota base previous_states [] st = ret (False, st)"
| "adopt_files mv sync run_id root quota base previous_states (f # files) st =
     bindM (adopt_file mv sync run_id root quota base previous_states f st) (\<lambda>(stop, st).
       if stop then ret (True, st) else adopt_files mv sync run_id root quota base previous_states files st)"

definition states_by_relative_path :: "FileStateRecord list \<Rightarrow> (string, FileStateRecord) btree" where
  "states_by_relative_path records = foldl (\<lambda>m r. bt_insert (fr_relative_path r) r m) [] records"

definition apply_adopt_or_upload ::
  "'w migration_env \<Rightarrow> SyncConfig \<Rightarrow> rowid \<Rightarrow> SyncRootConfig \<Rightarrow> u64 option \<Rightarrow> SyncRunSummary \<Rightarrow> LiveScanPlan \<Rightarrow>
   RemoteSets \<Rightarrow> MigrationRootSummary \<Rightarrow> ('w, bool \<times> adopt_state) mig" where
  "apply_adopt_or_upload mv sync run_id root quota base live sets rs =
     (let env = mv_sync mv
      in bindM (on_sync (mig_repo env (list_file_states_for_root (rc_id root)))) (\<lambda>records.
         bindM (adopt_files mv sync run_id root quota base (states_by_relative_path records) (lp_files live)
                  \<lparr>as_live = live, as_summary = rs, as_sets = sets, as_bytes_uploaded = 0,
                   as_adoptions = adoption_batch_default, as_uploads = []\<rparr>) (\<lambda>(stop, st).
           if stop then ret (True, st)
           else bindM (on_sync (flush_adoptions env st)) (\<lambda>st.
             if as_uploads st = [] then ret (False, st)
             else on_sync (apply_migration_upload_batch env sync run_id root base st)))))"

section \<open>Deleting what is left\<close>

definition migration_mark_deleted ::
  "'w sync_env \<Rightarrow> rowid \<Rightarrow> SyncRootConfig \<Rightarrow> DeleteCandidate \<Rightarrow> ('w, unit) mig_sync" where
  "migration_mark_deleted env run_id root d =
     (case dn_resource_type d of
        RtFile \<Rightarrow> mig_repo_at env (\<lambda>now. mark_deleted now (rc_id root) (dn_relative_path d) (dn_remote_path d) (Some run_id))
      | RtDirectory \<Rightarrow> mig_repo_at env (\<lambda>now. mark_directory_deleted now (rc_id root) (dn_relative_path d)
                          (dn_remote_path d) (Some run_id)))"

definition migration_delete_failed ::
  "'w sync_env \<Rightarrow> rowid \<Rightarrow> SyncRootConfig \<Rightarrow> SyncRunSummary \<Rightarrow> string \<Rightarrow> DeleteCandidate \<Rightarrow> rowid \<Rightarrow> YandexDiskError \<Rightarrow>
   MigrationRootSummary \<Rightarrow> ('w, bool \<times> MigrationRootSummary) mig_sync" where
  "migration_delete_failed env run_id root base operation d operation_id e rs =
     seqM (mig_repo_at env (\<lambda>now. finish_operation now operation_id OpFailed
             (Some (YandexDiskErrorKind_as_str (ye_kind e))) (Some (ye_message e))))
    (seqM (record_migration_failure env root (Some (dn_remote_path d)) (Some (dn_canonical_path d)) operation e)
       (let rs = rs\<lparr>mg_failed_files := mg_failed_files rs + 1, mg_error_summary := Some (YandexDiskError_text e)\<rparr>
        in seqM (migration_persist_root_progress env run_id base rs) (ret (is_stop_error (ye_kind e), rs))))"

definition migration_forget ::
  "'w sync_env \<Rightarrow> rowid \<Rightarrow> SyncRootConfig \<Rightarrow> DeleteCandidate \<Rightarrow> rowid \<Rightarrow> ('w, unit) mig_sync" where
  "migration_forget env run_id root d operation_id =
     seqM (mig_repo_at env (\<lambda>now. finish_operation now operation_id OpSucceeded None None))
    (seqM (migration_mark_deleted env run_id root d)
    (seqM (mig_repo env (delete_remote_resource_subtree (rc_id root) (dn_remote_path d)))
       (mig_repo_at env (\<lambda>now. upsert_migration_map now
          (migration_map_row root (dn_remote_path d) (dn_canonical_path d) MmDeleted None)))))"

definition migration_delete_remote ::
  "'w sync_env \<Rightarrow> rowid \<Rightarrow> SyncRootConfig \<Rightarrow> SyncRunSummary \<Rightarrow> DeleteCandidate \<Rightarrow> rowid \<Rightarrow> MigrationRootSummary \<Rightarrow>
   ('w, bool \<times> MigrationRootSummary) mig" where
  "migration_delete_remote env run_id root base d operation_id rs =
     bindM (on_sync (world_call (dc_delete_permanently (ev_client env) (dn_remote_path d)))) (\<lambda>result.
       case result of
         Inr _ \<Rightarrow>
           seqM (on_sync (migration_forget env run_id root d operation_id))
          (seqM (plan_push (MgDeleteRemote (dn_remote_path d) (dn_resource_type d)))
             (let rs = rs\<lparr>mg_deleted_files := mg_deleted_files rs + 1\<rparr>
              in seqM (on_sync (migration_persist_root_progress env run_id base rs)) (ret (False, rs))))
       | Inl e \<Rightarrow>
           if ye_kind e = YkNotFound then
             seqM (on_sync (migration_forget env run_id root d operation_id))
            (seqM (on_sync (migration_persist_root_progress env run_id base rs)) (ret (False, rs)))
           else on_sync (migration_delete_failed env run_id root base ''migration_delete_remote_extra'' d operation_id e rs))"

definition migration_delete_step ::
  "'w sync_env \<Rightarrow> rowid \<Rightarrow> SyncRootConfig \<Rightarrow> bool \<Rightarrow> SyncRunSummary \<Rightarrow> DeleteCandidate \<Rightarrow> MigrationRootSummary \<Rightarrow>
   ('w, bool \<times> MigrationRootSummary) mig" where
  "migration_delete_step env run_id root from_cache base d rs =
     bindM (on_sync (mig_repo_at env (\<lambda>now. append_operation_started now
              \<lparr>or_run_id = run_id, or_operation = ''migration_delete_remote_extra'', or_local_path = None,
               or_remote_path = Some (dn_remote_path d)\<rparr>))) (\<lambda>operation_id.
       if from_cache then
         bindM (on_sync (world_call (dc_metadata (ev_client env) (dn_remote_path d)))) (\<lambda>meta.
           case meta of
             Inr _ \<Rightarrow> migration_delete_remote env run_id root base d operation_id rs
           | Inl e \<Rightarrow>
               if ye_kind e = YkNotFound then
                 on_sync (seqM (mig_repo_at env (\<lambda>now. finish_operation now operation_id OpSucceeded None None))
                   (seqM (mig_repo env (delete_remote_resource_subtree (rc_id root) (dn_remote_path d)))
                      (ret (False, rs))))
               else on_sync (migration_delete_failed env run_id root base ''migration_delete_remote_metadata_check''
                      d operation_id e rs))
       else migration_delete_remote env run_id root base d operation_id rs)"

primrec migration_delete_loop ::
  "'w sync_env \<Rightarrow> rowid \<Rightarrow> SyncRootConfig \<Rightarrow> bool \<Rightarrow> SyncRunSummary \<Rightarrow> DeleteCandidate list \<Rightarrow> MigrationRootSummary \<Rightarrow>
   ('w, bool \<times> MigrationRootSummary) mig" where
  "migration_delete_loop env run_id root from_cache base [] rs = ret (False, rs)"
| "migration_delete_loop env run_id root from_cache base (d # deletes) rs =
     bindM (on_sync (mig_cancelled env)) (\<lambda>cancelled.
       if cancelled then ret (True, rs)
       else bindM (migration_delete_step env run_id root from_cache base d rs) (\<lambda>(stop, rs).
         if stop then ret (True, rs)
         else migration_delete_loop env run_id root from_cache base deletes rs))"

definition migration_apply_deletes ::
  "'w sync_env \<Rightarrow> rowid \<Rightarrow> SyncRootConfig \<Rightarrow> LiveScanPlan \<Rightarrow> RemoteSets \<Rightarrow> SyncRunSummary \<Rightarrow> MigrationRootSummary \<Rightarrow>
   ('w, bool \<times> MigrationRootSummary) mig" where
  "migration_apply_deletes env run_id root live sets base rs =
     migration_delete_loop env run_id root (rx_from_cache sets) base
       (migration_delete_candidates root (mg_canonical_remote_path rs) live sets) rs"

section \<open>One root\<close>

text \<open>What \<open>finish_root_cancelled_or_failed\<close> and the clean-up do when the root is left early.\<close>

definition leave_root ::
  "'w sync_env \<Rightarrow> SyncRootConfig \<Rightarrow> ScanReport \<Rightarrow> MigrationRootSummary \<Rightarrow>
   ('w, RootExecutionResult \<times> MigrationRootSummary) mig_sync" where
  "leave_root env root scan_report rs =
     seqM (errM MgScanner (staging_cleanup_call env scan_report))
       (bindM (migration_finish_root env root rs) (\<lambda>rs. ret (root_stop True, rs)))"

definition migration_inventory_failed ::
  "'w sync_env \<Rightarrow> SyncRootConfig \<Rightarrow> ScanReport \<Rightarrow> YandexDiskError \<Rightarrow> MigrationRootSummary \<Rightarrow>
   ('w, RootExecutionResult \<times> MigrationRootSummary) mig_sync" where
  "migration_inventory_failed env root scan_report e rs =
     seqM (mig_repo env (set_root_remote_inventory_status
             \<lparr>ri_root_id = rc_id root, ri_is_complete = False, ri_snapshot_completed_at_utc = None,
              ri_snapshot_expires_at_utc = None, ri_resource_count = 0,
              ri_last_error = Some (ye_message e)\<rparr>))
       (bindM (if is_stop_error (ye_kind e)
               then migration_fail_root env root ''remote_inventory'' (YandexDiskErrorKind_as_str (ye_kind e)) (ye_message e) rs
               else migration_partial_fail_root env root ''remote_inventory''
                      (YandexDiskErrorKind_as_str (ye_kind e)) (ye_message e) rs) (\<lambda>rs.
          seqM (errM MgScanner (staging_cleanup_call env scan_report))
            (ret (root_stop (is_stop_error (ye_kind e)), rs))))"

text \<open>The phases of a root, each of which may stop the run.\<close>

definition finish_migrated_root ::
  "'w sync_env \<Rightarrow> rowid \<Rightarrow> SyncRootConfig \<Rightarrow> SyncRunSummary \<Rightarrow> ScanReport \<Rightarrow> bool \<Rightarrow> adopt_state \<Rightarrow>
   ('w, RootExecutionResult \<times> MigrationRootSummary) mig" where
  "finish_migrated_root env run_id root base scan_report stop st =
     seqM (on_sync (errM MgScanner (staging_cleanup_call env scan_report)))
    (bindM (if stop then ret True else on_sync (mig_cancelled env)) (\<lambda>leave.
       if leave then
         bindM (on_sync (migration_finish_root env root (as_summary st))) (\<lambda>rs.
           ret (\<lparr>er_should_stop = True, er_bytes_uploaded = Some (as_bytes_uploaded st)\<rparr>, rs))
       else
         bindM (migration_apply_deletes env run_id root (as_live st) (as_sets st) base (as_summary st)) (\<lambda>(stop, rs).
         bindM (on_sync (migration_finish_root env root rs)) (\<lambda>rs.
         seqM (on_sync (migration_persist_root_progress env run_id base rs))
           (ret (\<lparr>er_should_stop = stop, er_bytes_uploaded = Some (as_bytes_uploaded st)\<rparr>, rs))))))"

definition migrate_root ::
  "'w migration_env \<Rightarrow> SyncConfig \<Rightarrow> rowid \<Rightarrow> SyncRootConfig \<Rightarrow> u64 option \<Rightarrow> SyncRunSummary \<Rightarrow> ScanReport \<Rightarrow>
   LiveScanPlan \<Rightarrow> RemoteSets \<Rightarrow> MigrationRootSummary \<Rightarrow> ('w, RootExecutionResult \<times> MigrationRootSummary) mig" where
  "migrate_root mv sync run_id root quota base scan_report live sets rs =
     (let env = mv_sync mv
      in seqM (on_sync (record_remote_resources env sync root sets))
        (bindM (try_top_level_move env run_id root sets rs) (\<lambda>(stop, sets, rs).
         bindM (if stop then ret True else on_sync (mig_cancelled env)) (\<lambda>leave.
         if leave then on_sync (leave_root env root scan_report rs)
         else bindM (apply_merge_moves mv sync run_id root live base sets rs) (\<lambda>(stop, sets, rs).
         bindM (if stop then ret True else on_sync (mig_cancelled env)) (\<lambda>leave.
         if leave then on_sync (leave_root env root scan_report rs)
         else bindM (apply_adopt_or_upload mv sync run_id root quota base live sets rs) (\<lambda>(stop, st).
           finish_migrated_root env run_id root base scan_report stop st)))))))"

definition migrate_scanned_root ::
  "'w migration_env \<Rightarrow> AppConfig \<Rightarrow> rowid \<Rightarrow> SyncRootConfig \<Rightarrow> u64 option \<Rightarrow> bool \<Rightarrow> SyncRunSummary \<Rightarrow>
   ScanReport \<Rightarrow> MigrationRootSummary \<Rightarrow> ('w, RootExecutionResult \<times> MigrationRootSummary) mig" where
  "migrate_scanned_root mv config run_id root quota force_remote_rescan base scan_report rs =
     (let env = mv_sync mv
      in seqM (on_sync (errM MgScanner (scan_findings_call env scan_report)))
        (bindM (on_sync (world_read (ev_fs env))) (\<lambda>fs.
         let live = from_scan_report (fv_is_dir fs) (path_from (rc_local_path root)) scan_report;
             rs = rs\<lparr>mg_scanned_files := of_nat (length (lp_files live)),
                     mg_skipped_files := of_nat (length (sc_skipped scan_report)),
                     mg_failed_files := of_nat (length (sc_failed scan_report))\<rparr>
         in bindM (on_sync (migration_record_deleted_subtrees env run_id live rs)) (\<lambda>rs.
            seqM (on_sync (migration_persist_root_progress env run_id base rs))
              (case local_remote_collision (lp_directories live) (lp_files live) of
                 Some message \<Rightarrow>
                   on_sync (bindM (migration_fail_root env root ''plan'' ''path_collision'' message rs) (\<lambda>rs.
                     seqM (errM MgScanner (staging_cleanup_call env scan_report)) (ret (root_stop False, rs))))
               | None \<Rightarrow>
                   bindM (on_sync (catchM (load_remote_sets env root (mg_canonical_remote_path rs) live force_remote_rescan)))
                     (\<lambda>loaded.
                       case loaded of
                         Inl e \<Rightarrow> on_sync (migration_inventory_failed env root scan_report e rs)
                       | Inr sets \<Rightarrow> migrate_root mv (cf_sync config) run_id root quota base scan_report live sets rs))))))"

definition migration_execute_root ::
  "'w migration_env \<Rightarrow> AppConfig \<Rightarrow> rowid \<Rightarrow> SyncRootConfig \<Rightarrow> ScanOptions \<Rightarrow> u64 option \<Rightarrow> bool \<Rightarrow>
   MigrationRootSummary \<Rightarrow> ('w, RootExecutionResult \<times> MigrationRootSummary) mig" where
  "migration_execute_root mv config run_id root options quota force_remote_rescan rs =
     bindM get_migration_report (\<lambda>report.
       bindM (on_sync (catchM (scan_root_with_repository (mv_sync mv) options
                \<lparr>sn_id = rc_id root, sn_local_path = path_from (rc_local_path root),
                 sn_canonical_remote_path = mg_canonical_remote_path rs, sn_excludes = rc_excludes root\<rparr>)))
         (\<lambda>scan.
           case scan of
             Inl message \<Rightarrow>
               on_sync (bindM (migration_fail_root (mv_sync mv) root ''scan'' ''scanner'' message rs) (\<lambda>rs.
                 ret (root_stop False, rs)))
           | Inr scan_report \<Rightarrow>
               migrate_scanned_root mv config run_id root quota force_remote_rescan (mr_summary report) scan_report rs))"

section \<open>One run\<close>

definition migration_available_remote_bytes :: "'w sync_env \<Rightarrow> ('w, u64 option) mig" where
  "migration_available_remote_bytes env =
     bindM (on_sync (world_call (dc_disk_info (ev_client env)))) (\<lambda>result.
       case result of
         Inr info \<Rightarrow>
           ret (case (qi_total_space (di_quota info), qi_used_space (di_quota info)) of
                  (Some t, Some used) \<Rightarrow> Some (saturating_sub t used)
                | _ \<Rightarrow> None)
       | Inl e \<Rightarrow>
           seqM (modify_migration_report (\<lambda>r. r\<lparr>mr_summary :=
                  (mr_summary r)\<lparr>su_error_summary := Some (YandexDiskError_text e)\<rparr>\<rparr>))
             (ret None))"

definition migration_root_done :: "MigrationRootSummary \<Rightarrow> ('w, unit) mig" where
  "migration_root_done rs = modify_migration_report (\<lambda>r.
     r\<lparr>mr_summary := migration_add_root_summary (mr_summary r) rs, mr_roots := mr_roots r @ [rs]\<rparr>)"

primrec migration_execute_roots ::
  "'w migration_env \<Rightarrow> AppConfig \<Rightarrow> rowid \<Rightarrow> ScanOptions \<Rightarrow> bool \<Rightarrow> u64 option \<Rightarrow> SyncRootConfig list \<Rightarrow>
   ('w, unit) mig" where
  "migration_execute_roots mv config run_id options force_remote_rescan quota [] = ret ()"
| "migration_execute_roots mv config run_id options force_remote_rescan quota (root # roots) =
     bindM (on_sync (mig_cancelled (mv_sync mv))) (\<lambda>cancelled.
       if cancelled then
         modify_migration_report (\<lambda>r. r\<lparr>mr_summary :=
           (mr_summary r)\<lparr>su_error_summary := Some ''migration run cancelled''\<rparr>\<rparr>)
       else case migration_initial_root_summary config root of
         Inl e \<Rightarrow> throw e
       | Inr rs \<Rightarrow>
           seqM (on_sync (mig_repo_at (mv_sync mv) (\<lambda>now. upsert_sync_root now (rc_id root) (rc_local_path root)
                   (in_remote_root (cf_instance config)) (mg_canonical_remote_path rs) (rc_enabled root))))
          (bindM (on_sync (world_read (ev_fs (mv_sync mv)))) (\<lambda>fs.
             if \<not> fv_is_dir fs (path_from (rc_local_path root)) then
               bindM (on_sync (migration_record_missing_root (mv_sync mv) root rs)) (\<lambda>rs.
                 seqM (migration_root_done rs)
                   (migration_execute_roots mv config run_id options force_remote_rescan quota roots))
             else
               bindM (migration_execute_root mv config run_id root options quota force_remote_rescan rs)
                 (\<lambda>(result, rs).
                   let quota = (case er_bytes_uploaded result of
                                  Some consumed \<Rightarrow> map_option (\<lambda>a. saturating_sub a consumed) quota
                                | None \<Rightarrow> quota)
                   in seqM (migration_root_done rs)
                     (bindM (if er_should_stop result then ret True else on_sync (mig_cancelled (mv_sync mv))) (\<lambda>leave.
                        if leave then ret ()
                        else migration_execute_roots mv config run_id options force_remote_rescan quota roots))))))"

definition migration_execute_run :: "'w migration_env \<Rightarrow> AppConfig \<Rightarrow> rowid \<Rightarrow> bool \<Rightarrow> ('w, unit) mig" where
  "migration_execute_run mv config run_id force_remote_rescan =
     bindM (migration_available_remote_bytes (mv_sync mv)) (\<lambda>quota.
       migration_execute_roots mv config run_id
         (scan_options_from_config (cf_sync config) (cf_global_excludes config) (cf_absolute_excludes config)
            (path_from (pa_staging_dir (cf_paths config))))
         force_remote_rescan quota (filter rc_enabled (cf_roots config)))"

definition migration_new_report :: "rowid \<Rightarrow> MigrationRunReport" where
  "migration_new_report run_id =
     \<lparr>mr_run_id = run_id, mr_status = RunRunning, mr_summary = summary_default, mr_roots = [], mr_plan = []\<rparr>"

definition migration_conclude_run :: "'w sync_env \<Rightarrow> MigrationError + unit \<Rightarrow> ('w, unit) mig" where
  "migration_conclude_run env execution =
     (case execution of
        Inl e \<Rightarrow>
          modify_migration_report (\<lambda>r. r\<lparr>mr_status := RunFailed, mr_summary := (mr_summary r)
            \<lparr>su_failed_files := su_failed_files (mr_summary r) + 1,
             su_error_summary := Some (MigrationError_text e)\<rparr>\<rparr>)
      | Inr _ \<Rightarrow>
          bindM (on_sync (mig_cancelled env)) (\<lambda>cancelled.
            if cancelled then
              modify_migration_report (\<lambda>r. r\<lparr>mr_status := RunCancelled, mr_summary :=
                (case su_error_summary (mr_summary r) of
                   None \<Rightarrow> (mr_summary r)\<lparr>su_error_summary := Some ''migration run cancelled''\<rparr>
                 | Some _ \<Rightarrow> mr_summary r)\<rparr>)
            else modify_migration_report (\<lambda>r. r\<lparr>mr_status := migration_status_from_summary (mr_summary r) (mr_roots r)\<rparr>)))"

text \<open>The report is a variable of the run.\<close>

definition with_report :: "MigrationRunReport \<Rightarrow> ('w, 'a) mig \<Rightarrow> ('w, 'a) mig_sync" where
  "with_report report f = (\<lambda>s. case f (report, s) of (r, (_, s')) \<Rightarrow> (r, s'))"

definition migration_report_of ::
  "'w migration_env \<Rightarrow> AppConfig \<Rightarrow> rowid \<Rightarrow> bool \<Rightarrow> ('w, MigrationRunReport) mig" where
  "migration_report_of mv config run_id force_remote_rescan =
     bindM (catchM (migration_execute_run mv config run_id force_remote_rescan)) (\<lambda>execution.
       seqM (migration_conclude_run (mv_sync mv) execution) get_migration_report)"

definition migration_acquire_lock :: "'w sync_env \<Rightarrow> MigrationRunOptions \<Rightarrow> ('w, RunLockGuard option) mig_sync" where
  "migration_acquire_lock env options =
     bindM (world_read (ev_now env)) (\<lambda>now.
       mig_repo env (try_acquire_run_lock (\<lambda>_. ev_utc_text env now) (mo_lock_owner options)
                       (now div 1000000000) (mo_stale_lock_after options)))"

definition migration_run_locked ::
  "'w migration_env \<Rightarrow> AppConfig \<Rightarrow> MigrationRunOptions \<Rightarrow> RunLockGuard \<Rightarrow> ('w, MigrationRunReport) mig_sync" where
  "migration_run_locked mv config options guard =
     (let env = mv_sync mv
      in seqM (mig_repo_at env repair_interrupted_runs)
        (bindM (mig_repo_at env (\<lambda>now. begin_run now TrMigration)) (\<lambda>run_id.
         bindM (with_report (migration_new_report run_id) (migration_report_of mv config run_id
                  (mo_force_remote_rescan options \<or> sy_force_remote_rescan (cf_sync config)))) (\<lambda>report.
         bindM (catchM (mig_repo_at env (\<lambda>now. finish_run now run_id (mr_status report) (mr_summary report))))
           (\<lambda>finish_result.
         bindM (catchM (mig_repo env (release_run_lock guard))) (\<lambda>release_result.
           case finish_result of
             Inl e \<Rightarrow> throw e
           | Inr _ \<Rightarrow> (case release_result of Inl e \<Rightarrow> throw e | Inr _ \<Rightarrow> ret report)))))))"

definition migration_run_once ::
  "'w migration_env \<Rightarrow> AppConfig \<Rightarrow> MigrationRunOptions \<Rightarrow> ('w, MigrationRunReport) mig_sync" where
  "migration_run_once mv config options =
     (case migration_ensure_valid_config (ev_gitignore (mv_sync mv)) config of
        Inl e \<Rightarrow> throw e
      | Inr _ \<Rightarrow>
          bindM (migration_acquire_lock (mv_sync mv) options) (\<lambda>guard.
            case guard of
              None \<Rightarrow> throw MgAlreadyRunning
            | Some guard \<Rightarrow> migration_run_locked mv config options guard))"

text \<open>\<open>run_once\<close> of the sync engine with the migration it starts where a root has no snapshot yet.\<close>

definition engine_run_once :: "'w migration_env \<Rightarrow> AppConfig \<Rightarrow> SyncRunOptions \<Rightarrow> ('w, SyncRunReport) sync" where
  "engine_run_once mv config options =
     run_once (mv_sync mv) config
       (\<lambda>migration_options. errM (\<lambda>e. SyncMigration (MigrationError_text e)) (migration_run_once mv config migration_options))
       options"

end
