(* ===== verification/Migration_Keep.thy ===== *)
theory Migration_Keep
  imports Migration_Run Sync_Props
begin

text \<open>
  What the migration of \<open>crates/yds-sync/src/migration.rs\<close> keeps: the counterpart of \<open>Sync_Keep\<close> for the
  migration. The judgement \<open>safe\<close> speaks of the invariant and of the result at once: the results carry
  the summary and the remote sets, which name the folders a root may change.
\<close>

section \<open>Invariant and result\<close>

definition safe :: "('s \<Rightarrow> bool) \<Rightarrow> ('a \<Rightarrow> bool) \<Rightarrow> ('s, 'e, 'a) m \<Rightarrow> bool" where
  "safe I R f = (\<forall>s. I s \<longrightarrow> I (snd (f s)) \<and> (\<forall>x. fst (f s) = Inr x \<longrightarrow> R x))"

named_theorems safe_intros

lemma safe_ret [safe_intros]: "R x \<Longrightarrow> safe I R (ret x)"
  by (simp add: safe_def ret_def)

lemma safe_throw [safe_intros]: "safe I R (throw e)"
  by (simp add: safe_def throw_def)

lemma safe_bindM: "safe I R f \<Longrightarrow> (\<And>x. R x \<Longrightarrow> safe I Q (g x)) \<Longrightarrow> safe I Q (bindM f g)"
  unfolding safe_def bindM_def by (fastforce split: prod.splits sum.splits)

lemma safe_keeps: "keeps I f \<Longrightarrow> safe I (\<lambda>_. True) f"
  by (simp add: safe_def keeps_def)

lemma safe_keepsD: "safe I R f \<Longrightarrow> keeps I f"
  by (simp add: safe_def keeps_def)

lemma safe_weaken: "safe I R f \<Longrightarrow> (\<And>x. R x \<Longrightarrow> Q x) \<Longrightarrow> safe I Q f"
  by (auto simp: safe_def)

text \<open>A first step whose result does not matter.\<close>

lemma safe_step [safe_intros]: "keeps I f \<Longrightarrow> (\<And>x. safe I Q (g x)) \<Longrightarrow> safe I Q (bindM f g)"
  by (rule safe_bindM [OF safe_keeps])

lemma safe_seqM [safe_intros]: "keeps I f \<Longrightarrow> safe I Q g \<Longrightarrow> safe I Q (seqM f g)"
  unfolding seqM_def by (rule safe_step)

lemma safe_catchM: "keeps I f \<Longrightarrow> safe I (\<lambda>_. True) (catchM f)"
  by (rule safe_keeps) blast

lemma safe_errM: "safe I R f \<Longrightarrow> safe I R (errM h f)"
  unfolding safe_def errM_def map_err_def by (auto split: prod.split sum.splits)

lemma safe_if [safe_intros]: "(b \<Longrightarrow> safe I Q f) \<Longrightarrow> (\<not> b \<Longrightarrow> safe I Q g) \<Longrightarrow> safe I Q (if b then f else g)"
  by simp

lemma safe_foldM: "(\<And>x acc. R acc \<Longrightarrow> safe I R (f x acc)) \<Longrightarrow> R acc \<Longrightarrow> safe I R (foldM f xs acc)"
  by (induction xs arbitrary: acc) (auto intro: safe_ret safe_bindM)

lemma safe_mapM: "(\<And>x. x \<in> set xs \<Longrightarrow> safe I R (f x)) \<Longrightarrow> safe I (\<lambda>ys. \<forall>y\<in>set ys. R y) (mapM f xs)"
proof (induction xs)
  case (Cons x xs)
  have "safe I (\<lambda>ys. \<forall>y\<in>set ys. R y) (bindM (mapM f xs) (\<lambda>ys. ret (y # ys)))" if "R y" for y
    by (rule safe_bindM [OF Cons.IH], simp add: Cons.prems, rule safe_ret, simp add: that)
  then show ?case
    by (simp only: mapM.simps) (rule safe_bindM [OF Cons.prems], simp_all)
qed (simp add: safe_ret)

lemma safe_join_loop:
  assumes "\<And>t. keeps I (task t)" "\<And>x acc. R acc \<Longrightarrow> safe I (\<lambda>r. R (snd r)) (body x acc)"
    "keeps I (world_read (ev_ahead env) :: ('w, 'e, nat) sync_m)" "R acc"
  shows "safe I (\<lambda>r. R (snd r)) (join_loop (env :: 'w sync_env) (task :: 't \<Rightarrow> ('w, 'e, 'o) sync_m) body n spawned finished acc)"
  using assms(4)
proof (induction n arbitrary: spawned finished acc)
  case (Suc n)
  show ?case
    using Suc.prems
    by (auto simp: Let_def split: list.split
        intro!: safe_step assms(3) keeps_mapM assms(1) safe_ret safe_bindM [OF assms(2)] Suc.IH)
qed (simp add: safe_ret)

lemma safe_join_tasks:
  assumes "\<And>t. keeps I (task t)" "\<And>x acc. R acc \<Longrightarrow> safe I (\<lambda>r. R (snd r)) (body x acc)"
    "keeps I (world_read (ev_ahead env) :: ('w, 'e, nat) sync_m)"
    "\<And>n. keeps I (world_read (ev_order env n) :: ('w, 'e, nat list) sync_m)" "R acc"
  shows "safe I (\<lambda>r. R (snd r)) (join_tasks (env :: 'w sync_env) (task :: 't \<Rightarrow> ('w, 'e, 'o) sync_m) body tasks acc)"
  unfolding join_tasks_def by (intro safe_step assms(4) safe_join_loop assms)

text \<open>The same with the report in the state.\<close>

definition beside :: "rowid \<Rightarrow> ('s \<Rightarrow> bool) \<Rightarrow> MigrationRunReport \<times> 's \<Rightarrow> bool" where
  "beside rn I p = (mr_run_id (fst p) = rn \<and> I (snd p))"

lemma safe_on_sync: "safe I R f \<Longrightarrow> safe (beside rn I) R (on_sync f)"
  by (auto simp: safe_def on_sync_def beside_def split: prod.splits)

lemma keeps_on_sync [intro]: "keeps I f \<Longrightarrow> keeps (beside rn I) (on_sync f)"
  by (auto simp: keeps_def on_sync_def beside_def split: prod.splits)

lemma keeps_modify_migration_report [intro, simp]:
  "(\<And>r. mr_run_id (f r) = mr_run_id r) \<Longrightarrow> keeps (beside rn I) (modify_migration_report f)"
  by (auto simp: keeps_def modify_migration_report_def beside_def)

lemma keeps_plan_push [intro, simp]: "keeps (beside rn I) (plan_push p)"
  by (simp add: plan_push_def)

lemma keeps_get_migration_report [intro, simp]: "keeps (beside rn I) get_migration_report"
  by (auto simp: keeps_def get_migration_report_def beside_def)

lemma keeps_with_report: "keeps (beside (mr_run_id r) I) f \<Longrightarrow> keeps I (with_report r f)"
  by (auto simp: keeps_def with_report_def beside_def split: prod.splits) (metis snd_conv)

section \<open>The interface\<close>

locale migration_database = database_invariant D for D :: "db \<Rightarrow> bool" +
  assumes upsert_migration_map_keeps: "keeps D (upsert_migration_map now r)"
    and upsert_migration_maps_keeps: "keeps D (upsert_migration_maps now rs)"
    and upsert_file_states_keeps: "keeps D (upsert_file_states now fs)"
    and upsert_remote_resources_keeps: "keeps D (upsert_remote_resources now rms)"

locale migration_calls = migration_database D + engine_writes D "mv_sync mv" P i
  for D :: "db \<Rightarrow> bool" and mv :: "'w migration_env" and P :: "'w \<Rightarrow> bool" and i :: rowid +
  assumes read_file_keeps: "stable P (mv_read_file mv p)"
    and is_file_keeps: "stable P (mv_is_file mv p)"
    and download_keeps: "keeps P (dc_download (ev_client (mv_sync mv)) path)"
begin

abbreviation env :: "'w sync_env" where "env \<equiv> mv_sync mv"

lemma mig_repo_keeps: "keeps D f \<Longrightarrow> keeps ok (mig_repo env f)"
  unfolding mig_repo_def by (intro keeps_errM keeps_repo_call db_fault_keeps)

lemma mig_repo_at_keeps: "(\<And>now. keeps D (f now)) \<Longrightarrow> keeps ok (mig_repo_at env f)"
  unfolding mig_repo_at_def by (intro keeps_errM repo_at_call_keeps)

lemma mig_cancelled_keeps: "keeps ok (mig_cancelled env)"
  unfolding mig_cancelled_def by (intro keeps_world_read is_cancelled_keeps)

lemma leave_keeps: "keeps (beside rn ok) (if b then ret True else on_sync (mig_cancelled env))"
  using mig_cancelled_keeps by auto

lemma client_keeps:
  "keeps ok (world_call (dc_metadata (ev_client env) p))"
  "keeps ok (world_call (dc_list_recursive_with_options (ev_client env) p ps))"
  "keeps ok (world_call (dc_create_directory (ev_client env) p))"
  "keeps ok (world_call (dc_upload_source (ev_client env) p src ow))"
  "keeps ok (world_call (dc_download (ev_client env) p))"
  "keeps ok (world_call (dc_disk_info (ev_client env)))"
  by (intro keeps_world_call metadata_keeps list_keeps create_keeps upload_keeps download_keeps disk_info_keeps)+

lemma reads_keep:
  "keeps ok (world_read (ev_fs env))" "keeps ok (world_read (ev_now env))"
  "keeps ok (world_read (mv_read_file mv p))" "keeps ok (world_read (mv_is_file mv p))"
  "keeps ok (world_read (ev_ahead env))" "keeps ok (world_read (ev_order env n))"
  by (intro keeps_world_read fs_keeps now_keeps read_file_keeps is_file_keeps ahead_keeps order_keeps)+

lemmas mig_steps =
  keeps_bindM keeps_seqM keeps_errM keeps_catchM keeps_ret keeps_throw keeps_if keeps_eachM keeps_foldM
  keeps_on_sync keeps_plan_push keeps_get_migration_report
  mig_repo_keeps mig_repo_at_keeps mig_cancelled_keeps client_keeps reads_keep statements
  upsert_migration_map_keeps upsert_migration_maps_keeps upsert_file_states_keeps upsert_remote_resources_keeps

lemma persist_keeps: "keeps ok (migration_persist_root_progress env n base rs)"
  unfolding migration_persist_root_progress_def by (intro mig_steps)

lemma record_migration_failure_keeps: "keeps ok (record_migration_failure env root p q operation e)"
  unfolding record_migration_failure_def Let_def by (intro mig_steps)

lemma adoption_flush_keeps: "keeps ok (adoption_batch_flush env batch)"
  unfolding adoption_batch_flush_def by (intro mig_steps)

lemma leave_scan_keeps:
  "keeps ok (errM MgScanner (staging_cleanup_call env report))"
  "keeps ok (errM MgScanner (scan_findings_call env report))"
  unfolding scan_findings_call_def staging_cleanup_call_def
  by (auto intro!: mig_steps repo_at_call_keeps keeps_world_read remove_file_keeps split: option.split remove_result.split)

lemma migration_inventory_keeps: "keeps ok (migration_remote_inventory env p pruned)"
  unfolding migration_remote_inventory_def Let_def
  by (auto intro!: mig_steps split: sum.split)

lemma record_remote_resources_keeps: "keeps ok (record_remote_resources env sync root sets)"
  unfolding record_remote_resources_def Let_def by (intro mig_steps)

lemma matches_keeps: "keeps ok (remote_matches_local mv sync f remote)"
  unfolding remote_matches_local_def
  by (auto intro!: mig_steps split: option.split sum.split)

lemma upload_task_keeps: "keeps ok (migration_upload_task env c)"
  unfolding migration_upload_task_def by (auto intro!: mig_steps)

lemma create_directory_keeps: "keeps (beside rn ok) (migration_create_directory env n p)"
  unfolding migration_create_directory_def by (auto intro!: mig_steps split: sum.split)

lemma ensure_directories_keeps: "keeps (beside rn ok) (ensure_directories env n ps inventory)"
  by (induction ps arbitrary: inventory) (auto intro!: mig_steps create_directory_keeps)

lemma ensure_parents_keeps: "keeps (beside rn ok) (ensure_parent_directories env n p inventory)"
  unfolding ensure_parent_directories_def by (rule ensure_directories_keeps)

lemma ensure_directory_keeps: "keeps (beside rn ok) (ensure_directory env n p inventory)"
  unfolding ensure_directory_def by (auto intro!: mig_steps create_directory_keeps ensure_parents_keeps)

end

section \<open>The folders a root may change\<close>

definition canon :: "string \<Rightarrow> MigrationRootSummary \<Rightarrow> bool" where
  "canon c rs = (mg_canonical_remote_path rs = c)"

definition sets_of :: "string list \<Rightarrow> RemoteSets \<Rightarrow> bool" where
  "sets_of ls sets = (\<forall>l\<in>set (rx_legacy sets). li_root_path l \<in> set ls)"

lemma canon_simps [simp]:
  "canon c (rs\<lparr>mg_status := a\<rparr>) = canon c rs"
  "canon c (rs\<lparr>mg_scanned_files := n1\<rparr>) = canon c rs"
  "canon c (rs\<lparr>mg_adopted_files := n2\<rparr>) = canon c rs"
  "canon c (rs\<lparr>mg_moved_resources := n3\<rparr>) = canon c rs"
  "canon c (rs\<lparr>mg_uploaded_files := n4\<rparr>) = canon c rs"
  "canon c (rs\<lparr>mg_updated_files := n5\<rparr>) = canon c rs"
  "canon c (rs\<lparr>mg_deleted_files := n6\<rparr>) = canon c rs"
  "canon c (rs\<lparr>mg_skipped_files := n7\<rparr>) = canon c rs"
  "canon c (rs\<lparr>mg_failed_files := n8\<rparr>) = canon c rs"
  "canon c (rs\<lparr>mg_bytes_uploaded := n9\<rparr>) = canon c rs"
  "canon c (rs\<lparr>mg_error_summary := e\<rparr>) = canon c rs"
  by (simp_all add: canon_def)

lemma sets_of_canonical [simp]: "sets_of ls (sets\<lparr>rx_canonical := m\<rparr>) = sets_of ls sets"
  by (simp add: sets_of_def)

lemma sets_of_roots: "sets_of ls sets \<longleftrightarrow> set (map li_root_path (rx_legacy sets)) \<subseteq> set ls"
  by (auto simp: sets_of_def)

lemma set_legacy_roots [simp]: "map li_root_path (rx_legacy (set_legacy j f sets)) = map li_root_path (rx_legacy sets)"
  unfolding set_legacy_def
  by (cases "j < length (rx_legacy sets)") (simp_all add: map_update list_update_same_conv list_update_beyond)

lemma sets_of_set_legacy [simp]: "sets_of ls (set_legacy j f sets) = sets_of ls sets"
  by (simp add: sets_of_roots del: set_map)

lemma insert_legacy_resource_roots:
  "map li_root_path (insert_legacy_resource r legacies) = map li_root_path legacies"
  by (induction legacies) auto

lemma split_cached_sets_of: "sets_of (rc_legacy_remote_paths root) (split_cached_remote_sets root canonical records fc)"
proof -
  have "map li_root_path (rx_legacy (fold (split_cached_record canonical) records sets)) = map li_root_path (rx_legacy sets)"
    for sets
    by (induction records arbitrary: sets) (simp_all add: split_cached_record_def Let_def insert_legacy_resource_roots)
  then show ?thesis by (simp add: split_cached_remote_sets_def sets_of_roots comp_def del: set_map)
qed

lemma find_legacy_file_belongs:
  assumes "find_legacy_file_from k legacies rel = Some (j, p, r)"
  shows "\<exists>l\<in>set legacies. belongs_to (li_root_path l) p"
  using assms
  by (induction k legacies rel rule: find_legacy_file_from.induct)
    (auto simp: Let_def belongs_to_def migration_remote_path_for_relative_def starts_with_def
      strip_prefix_Some_iff split: option.splits if_splits)

lemma legacy_root_index_in:
  "legacy_root_index legacies = Some j \<Longrightarrow> li_root_path (legacies ! j) \<in> li_root_path ` set legacies"
  unfolding legacy_root_index_def by (auto simp: find_Some_iff)

lemma candidate_below_root:
  "remote_delete_candidate_relative_path base p = Inr rel \<Longrightarrow> below_root base p"
  unfolding remote_delete_candidate_relative_path_def below_root_def Let_def
  by (auto split: option.splits if_splits)

lemma collect_legacy_below:
  assumes "\<forall>d\<in>set (snd acc). below_root l (dn_remote_path d)"
  shows "\<forall>d\<in>set (snd (fold (collect_legacy_resource l c) rs acc)). below_root l (dn_remote_path d)"
proof (rule fold_invariant [where Q = "\<lambda>_. True"])
  fix r and acc :: "string list \<times> DeleteCandidate list"
  assume "\<forall>d\<in>set (snd acc). below_root l (dn_remote_path d)"
  then show "\<forall>d\<in>set (snd (collect_legacy_resource l c r acc)). below_root l (dn_remote_path d)"
    by (auto simp: collect_legacy_resource_def dest: candidate_below_root split: sum.splits)
qed (use assms in auto)

lemma migration_candidates_below:
  assumes "d \<in> set (migration_delete_candidates root c live sets)" "sets_of ls sets"
  shows "below_root c (dn_remote_path d) \<or> (\<exists>l\<in>set ls. below_root l (dn_remote_path d))"
proof -
  consider d' where "d' \<in> set (collect_coalesced_delete_operations root c live (rx_canonical sets))"
      "dn_remote_path d = rd_remote_path d'"
    | l where "l \<in> set (rx_legacy sets)" "d \<in> set (collect_legacy_delete_candidates l c)"
    using assms(1) by (auto simp: migration_delete_candidates_def canonical_delete_candidate_def)
  then show ?thesis
  proof cases
    case 1
    then show ?thesis using planned_deletion_below by fastforce
  next
    case 2
    then have "below_root (li_root_path l) (dn_remote_path d)"
      using collect_legacy_below [of "([], [])"] by (auto simp: collect_legacy_delete_candidates_def)
    then show ?thesis using 2 assms(2) by (auto simp: sets_of_def)
  qed
qed

context migration_calls begin

definition moves_kept :: "string \<Rightarrow> bool" where
  "moves_kept l = (\<forall>p q. belongs_to l p \<longrightarrow> keeps P (dc_move_resource (ev_client env) p q False))"

definition folders_kept :: "string \<Rightarrow> string list \<Rightarrow> bool" where
  "folders_kept c ls = (deletes_kept c \<and> (\<forall>l\<in>set ls. deletes_kept l \<and> moves_kept l))"

lemma move_keeps:
  "folders_kept c ls \<Longrightarrow> l \<in> set ls \<Longrightarrow> belongs_to l p \<Longrightarrow> keeps ok (world_call (dc_move_resource (ev_client env) p q False))"
  by (intro keeps_world_call) (auto simp: folders_kept_def moves_kept_def)

lemma record_subtree_safe: "canon c rs \<Longrightarrow> safe ok (canon c) (migration_record_deleted_subtree env n subtree rs)"
  unfolding migration_record_deleted_subtree_def by (intro safe_intros mig_steps) simp

lemma record_subtrees_safe: "canon c rs \<Longrightarrow> safe ok (canon c) (migration_record_deleted_subtrees env n live rs)"
  unfolding migration_record_deleted_subtrees_def by (intro safe_foldM record_subtree_safe)

lemma fail_root_safe: "canon c rs \<Longrightarrow> safe ok (canon c) (migration_fail_root_as status env root operation kind message rs)"
  unfolding migration_fail_root_as_def by (intro safe_intros mig_steps) simp

lemma finish_root_safe: "canon c rs \<Longrightarrow> safe ok (canon c) (migration_finish_root env root rs)"
  unfolding migration_finish_root_def Let_def by (intro safe_intros mig_steps) simp_all

lemma missing_root_safe: "canon c rs \<Longrightarrow> safe ok (canon c) (migration_record_missing_root env root rs)"
  unfolding migration_record_missing_root_def Let_def by (intro safe_intros mig_steps) simp_all

lemma file_failure_safe: "canon c rs \<Longrightarrow> safe ok (canon c) (record_file_processing_failure env failure rs)"
  unfolding record_file_processing_failure_def file_skipped_def file_failed_def Let_def
  by (auto intro!: safe_intros mig_steps split: option.split prod.split)

lemma move_failed_safe: "canon c rs \<Longrightarrow> safe ok (canon c) (move_failed env root p q operation j e rs)"
  unfolding move_failed_def by (intro safe_intros mig_steps record_migration_failure_keeps) simp

text \<open>The folder as a whole, then the files.\<close>

definition moved :: "string \<Rightarrow> string list \<Rightarrow> bool \<times> RemoteSets \<times> MigrationRootSummary \<Rightarrow> bool" where
  "moved c ls r = (sets_of ls (fst (snd r)) \<and> canon c (snd (snd r)))"

lemma moved_iff [simp]: "moved c ls (stop, sets, rs) = (sets_of ls sets \<and> canon c rs)"
  by (simp add: moved_def)

lemma move_legacy_root_safe:
  assumes "folders_kept c ls" "sets_of ls sets" "canon c rs" "j < length (rx_legacy sets)"
  shows "safe (beside rn ok) (moved c ls) (move_legacy_root env n root j sets rs)"
proof -
  have l: "li_root_path (rx_legacy sets ! j) \<in> set ls" using assms(2,4) by (simp add: sets_of_def)
  have move: "keeps ok (world_call (dc_move_resource (ev_client env) (li_root_path (rx_legacy sets ! j)) q False))" for q
    by (rule move_keeps [OF assms(1) l]) (simp add: belongs_to_def)
  have failed: "safe (beside rn ok) (moved c ls)
      (bindM (on_sync (move_failed env root p q op k e rs)) (\<lambda>rs. ret (stop, sets\<lparr>rx_canonical := m\<rparr>, rs)))"
    for p q op k e stop m
    by (rule safe_bindM [OF safe_on_sync [OF move_failed_safe [OF assms(3)]]])
      (use assms(2) in \<open>simp add: safe_ret\<close>)
  show ?thesis
    unfolding move_legacy_root_def Let_def yandex_def
    using assms(2,3)
    by (auto intro!: safe_step [OF ensure_parents_keeps] safe_step [OF keeps_on_sync [OF mig_cancelled_keeps]]
        safe_step [OF keeps_on_sync [OF move]] safe_step [OF keeps_on_sync [OF mig_repo_at_keeps]]
        safe_step [OF keeps_on_sync [OF keeps_errM [OF migration_inventory_keeps]]]
        safe_intros mig_steps failed split: sum.split)
qed

lemma top_level_move_safe:
  assumes "folders_kept c ls" "sets_of ls sets" "canon c rs"
  shows "safe (beside rn ok) (moved c ls) (try_top_level_move env n root sets rs)"
  unfolding try_top_level_move_def
  using assms
  by (auto intro!: safe_intros mig_steps move_legacy_root_safe simp: legacy_root_index_def find_Some_iff
      split: option.split)

lemma merge_directories_safe:
  "sets_of ls sets \<Longrightarrow> safe (beside rn ok) (\<lambda>r. sets_of ls (snd r)) (merge_directories env n base ds sets rs)"
  by (induction ds arbitrary: sets)
    (auto intro!: safe_intros mig_steps ensure_directory_keeps persist_keeps)

lemma move_legacy_file_safe:
  assumes "folders_kept c ls" "sets_of ls sets" "canon c rs" "l \<in> set ls" "belongs_to l p"
  shows "safe (beside rn ok) (moved c ls) (move_legacy_file env n root f (j, p, r) sets rs)"
proof -
  have failed: "safe (beside rn ok) (moved c ls)
      (bindM (on_sync (move_failed env root p q op k e rs)) (\<lambda>rs. ret (stop, sets\<lparr>rx_canonical := m\<rparr>, rs)))"
    for q op k e stop m
    by (rule safe_bindM [OF safe_on_sync [OF move_failed_safe [OF assms(3)]]])
      (use assms(2) in \<open>simp add: safe_ret\<close>)
  show ?thesis
    unfolding move_legacy_file_def Let_def
    using assms(2,3)
    by (auto intro!: safe_step [OF ensure_parents_keeps] safe_step [OF keeps_on_sync [OF mig_cancelled_keeps]]
        safe_step [OF keeps_on_sync [OF move_keeps [OF assms(1,4,5)]]] safe_step [OF keeps_on_sync [OF mig_repo_at_keeps]]
        safe_intros mig_steps failed split: sum.split)
qed

end

definition upload_ok :: "string \<Rightarrow> string list \<Rightarrow> upload_state \<Rightarrow> bool" where
  "upload_ok c ls us = (sets_of ls (us_sets us) \<and> canon c (us_summary us))"

definition adopt_ok :: "string \<Rightarrow> string list \<Rightarrow> adopt_state \<Rightarrow> bool" where
  "adopt_ok c ls st = (sets_of ls (as_sets st) \<and> canon c (as_summary st))"

context migration_calls begin

lemma merge_file_safe:
  assumes "folders_kept c ls" "sets_of ls sets" "canon c rs"
  shows "safe (beside rn ok) (moved c ls) (merge_file mv sync n root f sets rs)"
proof -
  have found: "\<exists>l\<in>set ls. belongs_to l p" if "find_legacy_file sets rel = Some (j, p, r)" for j p r rel
    using find_legacy_file_belongs [of 0 "rx_legacy sets"] that assms(2)
    unfolding find_legacy_file_def sets_of_def by blast
  have move: "safe (beside rn ok) (moved c ls) (move_legacy_file env n root f (j, p, r) sets rs)"
    if "find_legacy_file sets rel = Some (j, p, r)" for j p r rel
    using found [OF that] move_legacy_file_safe [OF assms] by blast
  have failed: "safe (beside rn ok) (moved c ls)
      (bindM (on_sync (record_file_processing_failure env failure rs)) (\<lambda>rs. ret (False, sets, rs)))" for failure
    by (rule safe_bindM [OF safe_on_sync [OF file_failure_safe [OF assms(3)]]])
      (use assms(2) in \<open>simp add: safe_ret\<close>)
  show ?thesis
    unfolding merge_file_def Let_def
    using assms(2,3)
    by (auto intro!: safe_step [OF keeps_on_sync [OF mig_cancelled_keeps]]
        safe_step [OF keeps_on_sync [OF keeps_catchM [OF matches_keeps]]] safe_ret safe_throw safe_if failed move
        split: option.split sum.split)
qed

lemma merge_files_safe:
  "folders_kept c ls \<Longrightarrow> sets_of ls sets \<Longrightarrow> canon c rs \<Longrightarrow>
   safe (beside rn ok) (moved c ls) (merge_files mv sync n root fs sets rs)"
proof (induction fs arbitrary: sets rs)
  case (Cons f fs)
  show ?case
    by (simp, rule safe_bindM [OF merge_file_safe [OF Cons.prems]])
      (auto intro!: safe_ret Cons.IH [OF Cons.prems(1)])
qed (simp add: safe_ret)

lemma merge_moves_safe:
  assumes "folders_kept c ls" "sets_of ls sets" "canon c rs"
  shows "safe (beside rn ok) (moved c ls) (apply_merge_moves mv sync n root live base sets rs)"
proof -
  have files: "safe (beside rn ok) (moved c ls)
      (bindM (merge_directories env n base ds sets' rs) (\<lambda>(stop, sets).
        if stop then ret (True, sets, rs) else merge_files mv sync n root fs sets rs))"
    if "sets_of ls sets'" for sets' ds fs
    by (rule safe_bindM [OF merge_directories_safe [OF that]])
      (auto intro!: safe_ret merge_files_safe [OF assms(1)] simp: assms(3))
  show ?thesis
    unfolding apply_merge_moves_def Let_def
    using assms(2,3)
    by (auto intro!: safe_step [OF ensure_directory_keeps] safe_step [OF keeps_on_sync [OF mig_cancelled_keeps]]
        safe_seqM keeps_on_sync mig_repo_at_keeps upsert_directory_state_keeps safe_ret files)
qed

section \<open>Adopting and uploading\<close>

lemma subtree_gone_safe: "canon c rs \<Longrightarrow> safe ok (canon c) (migration_subtree_gone env n base j subtree rs)"
  unfolding migration_subtree_gone_def
  by (intro safe_seqM mig_repo_at_keeps finish_operation_keeps safe_bindM [OF record_subtree_safe] persist_keeps safe_ret)

lemma finish_upload_safe:
  assumes "upload_ok c ls us"
  shows "safe ok (\<lambda>r. upload_ok c ls (snd r)) (finish_migration_upload env n root base outcome us)"
proof -
  have finished: "safe ok (upload_ok c ls) (migration_upload_ok env n root outcome us)"
    "safe ok (upload_ok c ls) (migration_upload_skipped env n root base outcome failure code' (us\<lparr>us_live := live\<rparr>))"
    "safe ok (upload_ok c ls) (migration_upload_failed env root outcome failure (us\<lparr>us_live := live\<rparr>))"
    for failure code' live
    using assms
    unfolding migration_upload_ok_def migration_upload_skipped_def migration_upload_failed_def Let_def upload_ok_def
    by (auto intro!: safe_intros mig_steps persist_keeps)
  show ?thesis
    unfolding finish_migration_upload_def
    using assms
    by (auto intro!: safe_bindM [OF finished(1)] safe_bindM [OF finished(2)] safe_bindM [OF finished(3)]
        safe_bindM [OF subtree_gone_safe [where c = c]] safe_step [OF reads_keep(1)] safe_seqM persist_keeps safe_ret
        simp: upload_ok_def split: sum.split option.split prod.split)
qed

lemma start_uploads_safe:
  "upload_ok c ls us \<Longrightarrow> safe ok (\<lambda>r. upload_ok c ls (snd r)) (start_migration_uploads env n base cs us)"
proof (induction cs arbitrary: us)
  case (Cons x cs)
  have gone: "safe ok (\<lambda>r. upload_ok c ls (snd r))
      (bindM (migration_subtree_gone env n base j subtree (us_summary us)) (\<lambda>rs.
        start_migration_uploads env n base cs (us\<lparr>us_live := live, us_summary := rs\<rparr>)))" for j subtree live
    using Cons.prems by (intro safe_bindM [OF subtree_gone_safe [where c = c]] Cons.IH) (auto simp: upload_ok_def)
  have rest: "safe ok (\<lambda>r. upload_ok c ls (snd r))
      (bindM (start_migration_uploads env n base cs (us\<lparr>us_live := live\<rparr>)) (\<lambda>(tasks, us). ret (x # tasks, us)))" for live
    using Cons.prems by (intro safe_bindM [OF Cons.IH]) (auto simp: upload_ok_def intro: safe_ret)
  show ?case
    using Cons.prems
    by (auto intro!: Cons.IH gone rest safe_step [OF reads_keep(1)] split: option.split prod.split)
qed (simp add: safe_ret)

lemma upload_batches_safe:
  "upload_ok c ls us \<Longrightarrow> safe ok (upload_ok c ls) (migration_upload_batches env sync n root base k pending us)"
proof (induction k arbitrary: pending us)
  case (Suc k)
  have batch: "safe ok (upload_ok c ls) (bindM (start_migration_uploads env n base scheduled us) (\<lambda>(tasks, us).
      bindM (join_tasks env (migration_upload_task env) (finish_migration_upload env n root base) tasks us)
        (\<lambda>(_, us). migration_upload_batches env sync n root base k pending' us)))" for scheduled pending'
    by (rule safe_bindM [OF start_uploads_safe [OF Suc.prems]])
      (auto intro!: safe_bindM [OF safe_join_tasks [where R = "upload_ok c ls"]] upload_task_keeps finish_upload_safe
        reads_keep Suc.IH)
  then show ?case using Suc.prems by (auto intro: safe_ret split: prod.split)
qed (simp add: safe_ret)

lemma apply_batch_safe:
  assumes "adopt_ok c ls st"
  shows "safe ok (\<lambda>r. adopt_ok c ls (snd r)) (apply_migration_upload_batch env sync n root base st)"
  unfolding apply_migration_upload_batch_def
  by (rule safe_bindM [OF upload_batches_safe [where c = c and ls = ls]])
    (use assms in \<open>auto simp: adopt_ok_def upload_ok_def intro: safe_ret\<close>)

end

context migration_calls begin

lemma adopt_ok_simps [simp]:
  "adopt_ok c ls (st\<lparr>as_live := live\<rparr>) = adopt_ok c ls st"
  "adopt_ok c ls (st\<lparr>as_adoptions := batch\<rparr>) = adopt_ok c ls st"
  "adopt_ok c ls (st\<lparr>as_uploads := cs\<rparr>) = adopt_ok c ls st"
  "adopt_ok c ls st \<Longrightarrow> adopt_ok c ls (st\<lparr>as_summary := rs\<rparr>) = canon c rs"
  by (auto simp: adopt_ok_def)

lemma adopt_ok_summary: "adopt_ok c ls st \<Longrightarrow> canon c (as_summary st)"
  by (simp add: adopt_ok_def)

lemma flush_safe: "adopt_ok c ls st \<Longrightarrow> safe ok (adopt_ok c ls) (flush_adoptions env st)"
  unfolding flush_adoptions_def by (intro safe_step adoption_flush_keeps safe_ret) simp

lemma adopt_failed_safe:
  assumes "adopt_ok c ls st"
  shows "safe ok (\<lambda>r. adopt_ok c ls (snd r)) (adopt_failed env n root base f operation e st)"
  unfolding adopt_failed_def
  by (auto intro!: safe_bindM [OF flush_safe [OF assms]] safe_bindM [OF file_failure_safe [where c = c]]
      safe_seqM persist_keeps safe_ret adopt_ok_summary)

lemma adopt_matching_safe:
  assumes "adopt_ok c ls st"
  shows "safe (beside rn ok) (\<lambda>r. adopt_ok c ls (snd r)) (adopt_matching env n root base f remote decision_method st)"
proof -
  have flush: "safe ok (adopt_ok c ls) (if b then flush_adoptions env st' else ret st')" if "adopt_ok c ls st'" for b st'
    using that flush_safe by (auto intro: safe_ret)
  show ?thesis
    unfolding adopt_matching_def Let_def
    by (intro safe_seqM keeps_plan_push safe_bindM [OF safe_on_sync [OF flush]] keeps_on_sync persist_keeps safe_ret)
      (use assms adopt_ok_summary [OF assms] in auto)
qed

lemma queue_upload_safe:
  assumes "adopt_ok c ls st"
  shows "safe (beside rn ok) (\<lambda>r. adopt_ok c ls (snd r)) (queue_upload env sync n root quota base f is_update st)"
proof -
  have fail: "safe (beside rn ok) (\<lambda>r. adopt_ok c ls (snd r))
      (bindM (on_sync (migration_fail_root env root op kind msg (as_summary st'))) (\<lambda>rs. ret (True, st'\<lparr>as_summary := rs\<rparr>)))"
    if "adopt_ok c ls st'" for st' op kind msg
    unfolding migration_fail_root_def
    by (rule safe_bindM [OF safe_on_sync [OF fail_root_safe [OF adopt_ok_summary [OF that]]]])
      (use that in \<open>auto intro: safe_ret\<close>)
  show ?thesis
    unfolding queue_upload_def Let_def
    by (auto intro!: safe_bindM [OF safe_on_sync [OF flush_safe [OF assms]]] fail safe_step keeps_on_sync
        mig_repo_at_keeps append_operation_started_keeps safe_seqM keeps_plan_push
        safe_on_sync [OF apply_batch_safe] safe_ret)
qed

lemma adopt_or_replace_safe:
  assumes "adopt_ok c ls st"
  shows "safe (beside rn ok) (\<lambda>r. adopt_ok c ls (snd r)) (adopt_or_replace mv sync n root quota base f remote st)"
  unfolding adopt_or_replace_def Let_def
  using adopt_failed_safe [OF assms] adopt_matching_safe [OF assms] queue_upload_safe [OF assms]
  by (auto intro!: safe_step [OF keeps_on_sync [OF keeps_catchM [OF matches_keeps]]] safe_on_sync safe_throw
      split: sum.split)

lemma resume_or_adopt_safe:
  assumes "adopt_ok c ls st"
  shows "safe (beside rn ok) (\<lambda>r. adopt_ok c ls (snd r)) (resume_or_adopt mv sync n root quota base previous f remote st)"
  unfolding resume_or_adopt_def
  using adopt_failed_safe [OF assms] adopt_or_replace_safe [OF assms] adopt_ok_summary [OF assms] assms
  by (auto intro!: safe_on_sync safe_throw safe_ret split: option.split sum.split bool.split)

lemma adopt_file_safe:
  assumes "adopt_ok c ls st"
  shows "safe (beside rn ok) (\<lambda>r. adopt_ok c ls (snd r)) (adopt_file mv sync n root quota base previous f st)"
proof -
  have present: "safe (beside rn ok) (\<lambda>r. adopt_ok c ls (snd r))
      (adopt_present_file mv sync n root quota base previous f (st\<lparr>as_live := live\<rparr>))" for live
    unfolding adopt_present_file_def
    using assms by (auto intro!: resume_or_adopt_safe queue_upload_safe split: option.split)
  have gone: "safe (beside rn ok) (\<lambda>r. adopt_ok c ls (snd r))
      (bindM (on_sync (flush_adoptions env (st\<lparr>as_live := live\<rparr>))) (\<lambda>st.
       bindM (on_sync (migration_record_deleted_subtree env n subtree (as_summary st))) (\<lambda>rs.
       seqM (on_sync (migration_persist_root_progress env n base rs)) (ret (False, st\<lparr>as_summary := rs\<rparr>)))))"
    for live subtree
    by (rule safe_bindM [OF safe_on_sync [OF flush_safe [where c = c and ls = ls]]])
      (auto simp: assms intro!: safe_bindM [OF safe_on_sync [OF record_subtree_safe [where c = c]]] adopt_ok_summary
        safe_seqM keeps_on_sync persist_keeps safe_ret)
  have stop: "safe (beside rn ok) (\<lambda>r. adopt_ok c ls (snd r))
      (bindM (on_sync (flush_adoptions env st)) (\<lambda>st. ret (True, st)))"
    by (rule safe_bindM [OF safe_on_sync [OF flush_safe [OF assms]]]) (simp add: safe_ret)
  show ?thesis
    unfolding adopt_file_def Let_def
    using assms
    by (auto intro!: safe_step [OF keeps_on_sync [OF mig_cancelled_keeps]] safe_step [OF keeps_on_sync [OF reads_keep(1)]]
        safe_step [OF keeps_on_sync [OF reads_keep(4)]] safe_on_sync [OF adopt_failed_safe] safe_ret stop gone present
        split: option.split prod.split)
qed

lemma adopt_files_safe:
  "adopt_ok c ls st \<Longrightarrow>
   safe (beside rn ok) (\<lambda>r. adopt_ok c ls (snd r)) (adopt_files mv sync n root quota base previous fs st)"
proof (induction fs arbitrary: st)
  case (Cons f fs)
  show ?case
    by (simp, rule safe_bindM [OF adopt_file_safe [OF Cons.prems]]) (auto intro!: safe_ret Cons.IH)
qed (simp add: safe_ret)

lemma adopt_or_upload_safe:
  assumes "sets_of ls sets" "canon c rs"
  shows "safe (beside rn ok) (\<lambda>r. adopt_ok c ls (snd r)) (apply_adopt_or_upload mv sync n root quota base live sets rs)"
proof -
  have upload: "safe (beside rn ok) (\<lambda>r. adopt_ok c ls (snd r))
      (bindM (on_sync (flush_adoptions env st)) (\<lambda>st. if as_uploads st = [] then ret (False, st)
        else on_sync (apply_migration_upload_batch env sync n root base st)))" if "adopt_ok c ls st" for st
    by (rule safe_bindM [OF safe_on_sync [OF flush_safe [OF that]]])
      (auto intro!: safe_ret safe_on_sync [OF apply_batch_safe])
  show ?thesis
    unfolding apply_adopt_or_upload_def Let_def
    by (rule safe_step [OF keeps_on_sync [OF mig_repo_keeps [OF list_file_states_for_root_keeps]]],
        rule safe_bindM [OF adopt_files_safe [where c = c and ls = ls]])
      (auto simp: assms adopt_ok_def [of _ _ "adopt_state.make _ _ _ _ _ _", unfolded adopt_state.defs] intro!: safe_ret upload)
qed

end

section \<open>Deletions, roots, runs\<close>

context migration_calls begin

lemma mark_deleted_keeps': "keeps ok (migration_mark_deleted env n root d)"
  unfolding migration_mark_deleted_def by (auto intro!: mig_steps split: ResourceType.split)

lemma delete_failed_keeps': "keeps ok (migration_delete_failed env n root base operation d j e rs)"
  unfolding migration_delete_failed_def Let_def by (intro mig_steps record_migration_failure_keeps persist_keeps)

lemma forget_keeps: "keeps ok (migration_forget env n root d j)"
  unfolding migration_forget_def by (intro mig_steps mark_deleted_keeps')

lemma delete_failed_safe: "canon c rs \<Longrightarrow> safe ok (\<lambda>r. canon c (snd r)) (migration_delete_failed env n root base operation d j e rs)"
  unfolding migration_delete_failed_def Let_def
  by (intro safe_intros mig_steps record_migration_failure_keeps persist_keeps) simp

lemma delete_step_safe:
  assumes "keeps P (dc_delete_permanently (ev_client env) (dn_remote_path d))" "canon c rs"
  shows "safe (beside rn ok) (\<lambda>r. canon c (snd r)) (migration_delete_step env n root fc base d rs)"
proof -
  have delete: "keeps ok (world_call (dc_delete_permanently (ev_client env) (dn_remote_path d)))"
    by (rule keeps_world_call [OF assms(1)])
  have remote: "safe (beside rn ok) (\<lambda>r. canon c (snd r)) (migration_delete_remote env n root base d j rs)" for j
    unfolding migration_delete_remote_def Let_def
    using assms(2)
    by (auto intro!: safe_step [OF keeps_on_sync [OF delete]] safe_seqM keeps_on_sync forget_keeps keeps_plan_push
        persist_keeps safe_ret safe_on_sync [OF delete_failed_safe] split: sum.split)
  show ?thesis
    unfolding migration_delete_step_def
    using assms(2)
    by (auto intro!: safe_step [OF keeps_on_sync [OF mig_repo_at_keeps [OF append_operation_started_keeps]]]
        safe_step [OF keeps_on_sync [OF client_keeps(1)]] remote safe_on_sync [OF delete_failed_safe]
        safe_on_sync delete_failed_safe safe_seqM mig_repo_at_keeps mig_repo_keeps statements safe_ret split: sum.split)
qed

lemma delete_loop_safe:
  "(\<And>d. d \<in> set ds \<Longrightarrow> keeps P (dc_delete_permanently (ev_client env) (dn_remote_path d))) \<Longrightarrow> canon c rs \<Longrightarrow>
   safe (beside rn ok) (\<lambda>r. canon c (snd r)) (migration_delete_loop env n root fc base ds rs)"
proof (induction ds arbitrary: rs)
  case (Cons d ds)
  have "safe (beside rn ok) (\<lambda>r. canon c (snd r)) (bindM (migration_delete_step env n root fc base d rs)
      (\<lambda>(stop, rs). if stop then ret (True, rs) else migration_delete_loop env n root fc base ds rs))"
    by (rule safe_bindM [OF delete_step_safe]) (auto intro!: safe_ret Cons.IH simp: Cons.prems)
  then show ?case
    by (auto intro!: safe_step [OF keeps_on_sync [OF mig_cancelled_keeps]] safe_ret simp: Cons.prems(2))
qed (simp add: safe_ret)

lemma apply_deletes_safe:
  assumes "folders_kept c ls" "sets_of ls sets" "canon c rs"
  shows "safe (beside rn ok) (\<lambda>r. canon c (snd r)) (migration_apply_deletes env n root live sets base rs)"
proof -
  have "keeps P (dc_delete_permanently (ev_client env) (dn_remote_path d))"
    if "d \<in> set (migration_delete_candidates root c live sets)" for d
    using migration_candidates_below [OF that assms(2)] assms(1)
    by (auto simp: folders_kept_def intro: deletes_keptD)
  moreover have "mg_canonical_remote_path rs = c" using assms(3) by (simp add: canon_def)
  ultimately show ?thesis
    by (simp only: migration_apply_deletes_def delete_loop_safe assms(3))
qed

lemma finish_migrated_keeps:
  assumes "folders_kept c ls" "adopt_ok c ls st"
  shows "keeps (beside rn ok) (finish_migrated_root env n root base report stop st)"
proof -
  have "safe (beside rn ok) (\<lambda>_. True) (bindM (migration_apply_deletes env n root (as_live st) (as_sets st) base (as_summary st))
      (\<lambda>(stop, rs). bindM (on_sync (migration_finish_root env root rs)) (\<lambda>rs.
        seqM (on_sync (migration_persist_root_progress env n base rs))
          (ret (\<lparr>er_should_stop = stop, er_bytes_uploaded = Some (as_bytes_uploaded st)\<rparr>, rs)))))"
    using assms(2)
    by (auto intro!: safe_bindM [OF apply_deletes_safe [OF assms(1)]]
        safe_bindM [OF safe_on_sync [OF finish_root_safe [where c = c]]] safe_seqM keeps_on_sync persist_keeps safe_ret
        simp: adopt_ok_def)
  then have deletes: "keeps (beside rn ok) (bindM (migration_apply_deletes env n root (as_live st) (as_sets st) base (as_summary st))
      (\<lambda>(stop, rs). bindM (on_sync (migration_finish_root env root rs)) (\<lambda>rs.
        seqM (on_sync (migration_persist_root_progress env n base rs))
          (ret (\<lparr>er_should_stop = stop, er_bytes_uploaded = Some (as_bytes_uploaded st)\<rparr>, rs)))))"
    by (rule safe_keepsD)
  have stop: "keeps (beside rn ok) (on_sync (migration_finish_root env root (as_summary st)))"
    by (rule keeps_on_sync [OF safe_keepsD [OF finish_root_safe [OF adopt_ok_summary [OF assms(2)]]]])
  show ?thesis
    unfolding finish_migrated_root_def
    by (intro keeps_seqM [OF keeps_on_sync [OF leave_scan_keeps(1)]] keeps_bindM [OF leave_keeps] keeps_if deletes
        keeps_bindM [OF stop] keeps_ret)
qed

lemma leave_root_keeps: "canon c rs \<Longrightarrow> keeps ok (leave_root env root report rs)"
  unfolding leave_root_def
  by (intro keeps_seqM keeps_bindM leave_scan_keeps safe_keepsD [OF finish_root_safe [of c]] keeps_ret)

lemma migrate_root_keeps:
  assumes "folders_kept c ls" "sets_of ls sets" "canon c rs"
  shows "keeps (beside rn ok) (migrate_root mv sync n root quota base report live sets rs)"
proof -
  have adopt: "safe (beside rn ok) (\<lambda>_. True) (bindM (apply_adopt_or_upload mv sync n root quota base live sets' rs')
      (\<lambda>(stop, st). finish_migrated_root env n root base report stop st))"
    if "sets_of ls sets'" "canon c rs'" for sets' rs'
    by (rule safe_bindM [OF adopt_or_upload_safe [OF that]]) (auto intro!: safe_keeps finish_migrated_keeps [OF assms(1)])
  have leave: "safe (beside rn ok) (\<lambda>_. True) (on_sync (leave_root env root report rs'))" if "canon c rs'" for rs'
    using leave_root_keeps [OF that] by (intro safe_keeps keeps_on_sync)
  have merge: "safe (beside rn ok) (\<lambda>_. True) (bindM (apply_merge_moves mv sync n root live base sets' rs')
      (\<lambda>(stop, sets, rs). bindM (if stop then ret True else on_sync (mig_cancelled env)) (\<lambda>leave.
         if leave then on_sync (leave_root env root report rs)
         else bindM (apply_adopt_or_upload mv sync n root quota base live sets rs) (\<lambda>(stop, st).
           finish_migrated_root env n root base report stop st))))"
    if "sets_of ls sets'" "canon c rs'" for sets' rs'
    by (rule safe_bindM [OF merge_moves_safe [OF assms(1) that]])
      (auto intro!: safe_step [OF leave_keeps] safe_if adopt leave)
  have top: "safe (beside rn ok) (\<lambda>_. True) (bindM (try_top_level_move env n root sets rs) (\<lambda>(stop, sets, rs).
       bindM (if stop then ret True else on_sync (mig_cancelled env)) (\<lambda>leave.
         if leave then on_sync (leave_root env root report rs)
         else bindM (apply_merge_moves mv sync n root live base sets rs) (\<lambda>(stop, sets, rs).
           bindM (if stop then ret True else on_sync (mig_cancelled env)) (\<lambda>leave.
             if leave then on_sync (leave_root env root report rs)
             else bindM (apply_adopt_or_upload mv sync n root quota base live sets rs) (\<lambda>(stop, st).
               finish_migrated_root env n root base report stop st))))))"
    by (rule safe_bindM [OF top_level_move_safe [OF assms]])
      (auto intro!: safe_step [OF leave_keeps] safe_if merge leave)
  then have "safe (beside rn ok) (\<lambda>_. True) (migrate_root mv sync n root quota base report live sets rs)"
    unfolding migrate_root_def Let_def
    by (intro safe_seqM keeps_on_sync record_remote_resources_keeps)
  then show ?thesis by (rule safe_keepsD)
qed

end

context migration_calls begin

lemma load_sets_safe: "safe ok (sets_of (rc_legacy_remote_paths root)) (load_remote_sets env root c live force)"
proof -
  have cached: "safe ok (\<lambda>r. case r of None \<Rightarrow> True | Some sets \<Rightarrow> sets_of (rc_legacy_remote_paths root) sets)
      (load_cached_sets env root c force)"
    unfolding load_cached_sets_def
    by (auto intro!: safe_ret safe_step keeps_errM keeps_repo_call db_fault_keeps statements expired_keeps
        split_cached_sets_of split: option.split)
  have legacy: "safe ok (\<lambda>ys. \<forall>y\<in>set ys. li_root_path y \<in> set (rc_legacy_remote_paths root))
      (mapM (load_legacy env live) (rc_legacy_remote_paths root))"
    unfolding load_legacy_def by (rule safe_mapM) (auto intro!: safe_step migration_inventory_keeps safe_ret)
  show ?thesis
    unfolding load_remote_sets_def
    by (rule safe_bindM [OF cached])
      (auto intro!: safe_ret safe_step migration_inventory_keeps safe_bindM [OF legacy] simp: sets_of_def split: option.split)
qed

lemma inventory_failed_keeps':
  "canon c rs \<Longrightarrow> keeps ok (migration_inventory_failed env root report e rs)"
  unfolding migration_inventory_failed_def migration_fail_root_def migration_partial_fail_root_def
  by (intro keeps_seqM mig_repo_keeps statements keeps_bindM keeps_if safe_keepsD [OF fail_root_safe [of c]]
      leave_scan_keeps keeps_ret)

lemma migrate_scanned_keeps:
  assumes "folders_kept c (rc_legacy_remote_paths root)" "canon c rs"
  shows "keeps (beside rn ok) (migrate_scanned_root mv config n root quota force base report rs)"
proof -
  have loaded: "safe (beside rn ok) (\<lambda>_. True)
      (bindM (on_sync (catchM (load_remote_sets env root (mg_canonical_remote_path rs') live force))) (\<lambda>loaded.
        case loaded of
          Inl e \<Rightarrow> on_sync (migration_inventory_failed env root report e rs')
        | Inr sets \<Rightarrow> migrate_root mv (cf_sync config) n root quota base report live sets rs'))"
    if "canon c rs'" for rs' live
  proof (rule safe_bindM [where R = "\<lambda>r. case r of Inl e \<Rightarrow> True | Inr sets \<Rightarrow> sets_of (rc_legacy_remote_paths root) sets"])
    show "safe (beside rn ok) (\<lambda>r. case r of Inl e \<Rightarrow> True | Inr sets \<Rightarrow> sets_of (rc_legacy_remote_paths root) sets)
        (on_sync (catchM (load_remote_sets env root (mg_canonical_remote_path rs') live force)))"
      using load_sets_safe [of root "mg_canonical_remote_path rs'" live force]
      by (intro safe_on_sync) (fastforce simp: safe_def catchM_def split: prod.splits sum.splits)
  qed (auto intro!: safe_keeps keeps_on_sync inventory_failed_keeps' [OF that] migrate_root_keeps [OF assms(1) _ that]
      split: sum.splits)
  have fail: "keeps ok (bindM (migration_fail_root env root op kind msg rs') (\<lambda>rs.
      seqM (errM MgScanner (staging_cleanup_call env report)) (ret (root_stop False, rs))))" if "canon c rs'" for op kind msg rs'
    unfolding migration_fail_root_def
    by (intro keeps_bindM safe_keepsD [OF fail_root_safe [OF that]] keeps_seqM leave_scan_keeps keeps_ret)
  have planned: "safe (beside rn ok) (\<lambda>_. True)
      (bindM (on_sync (migration_record_deleted_subtrees env n live rs')) (\<lambda>rs.
        seqM (on_sync (migration_persist_root_progress env n base rs))
          (case local_remote_collision (lp_directories live) (lp_files live) of
             Some message \<Rightarrow>
               on_sync (bindM (migration_fail_root env root ''plan'' ''path_collision'' message rs) (\<lambda>rs.
                 seqM (errM MgScanner (staging_cleanup_call env report)) (ret (root_stop False, rs))))
           | None \<Rightarrow>
               bindM (on_sync (catchM (load_remote_sets env root (mg_canonical_remote_path rs) live force))) (\<lambda>loaded.
                 case loaded of
                   Inl e \<Rightarrow> on_sync (migration_inventory_failed env root report e rs)
                 | Inr sets \<Rightarrow> migrate_root mv (cf_sync config) n root quota base report live sets rs))))"
    if "canon c rs'" for rs' live
    by (rule safe_bindM [OF safe_on_sync [OF record_subtrees_safe [OF that]]])
      (auto intro!: safe_keeps keeps_seqM keeps_on_sync persist_keeps safe_keepsD [OF loaded] fail split: option.split)
  have "safe (beside rn ok) (\<lambda>_. True) (migrate_scanned_root mv config n root quota force base report rs)"
    unfolding migrate_scanned_root_def Let_def
    by (intro safe_seqM keeps_on_sync leave_scan_keeps safe_step [OF keeps_on_sync [OF reads_keep(1)]] planned)
      (simp add: assms(2))
  then show ?thesis by (rule safe_keepsD)
qed

lemma execute_root_safe:
  assumes "folders_kept c (rc_legacy_remote_paths root)" "canon c rs"
  shows "keeps (beside rn ok) (migration_execute_root mv config n root options quota force rs)"
proof -
  have fail: "keeps (beside rn ok) (on_sync (bindM (migration_fail_root env root op kind msg rs) (\<lambda>rs. ret (root_stop False, rs))))"
    for op kind msg
    unfolding migration_fail_root_def
    by (intro keeps_on_sync keeps_bindM safe_keepsD [OF fail_root_safe [OF assms(2)]] keeps_ret)
  show ?thesis
    unfolding migration_execute_root_def
    by (auto intro!: keeps_bindM [OF keeps_get_migration_report] keeps_bindM [OF keeps_on_sync [OF keeps_catchM [OF scan_root_keeps]]]
        fail migrate_scanned_keeps [OF assms] split: sum.split)
qed

lemma execute_roots_keeps':
  assumes "\<And>root c. root \<in> set roots \<Longrightarrow> canonical_remote_path (in_remote_root (cf_instance config))
      (rc_local_path root) (rc_remote_path_override root) = Inr c \<Longrightarrow> folders_kept c (rc_legacy_remote_paths root)"
  shows "keeps (beside rn ok) (migration_execute_roots mv config n options force quota roots)"
  using assms
proof (induction roots arbitrary: quota)
  case (Cons root roots)
  have rest: "keeps (beside rn ok) (migration_execute_roots mv config n options force q roots)" for q
    using Cons by auto
  have root: "keeps (beside rn ok) (migration_execute_root mv config n root options q force rs)"
    and missing: "keeps ok (migration_record_missing_root env root rs)"
    if "migration_initial_root_summary config root = Inr rs" for rs q
  proof -
    have "canonical_remote_path (in_remote_root (cf_instance config))
        (rc_local_path root) (rc_remote_path_override root) = Inr (mg_canonical_remote_path rs)"
      using that by (auto simp: migration_initial_root_summary_def split: sum.splits)
    then show "keeps (beside rn ok) (migration_execute_root mv config n root options q force rs)"
      using Cons.prems by (intro execute_root_safe [of "mg_canonical_remote_path rs"]) (auto simp: canon_def)
    show "keeps ok (migration_record_missing_root env root rs)"
      by (rule safe_keepsD [OF missing_root_safe]) (simp add: canon_def)
  qed
  show ?case
    using rest root missing
    by (auto simp: Let_def migration_root_done_def intro!: keeps_bindM keeps_seqM keeps_if keeps_on_sync mig_cancelled_keeps
        mig_repo_at_keeps statements reads_keep split: sum.split)
qed simp

lemma migration_run_keeps:
  assumes "\<And>root c. root \<in> set (cf_roots config) \<Longrightarrow> rc_enabled root \<Longrightarrow>
      canonical_remote_path (in_remote_root (cf_instance config)) (rc_local_path root)
        (rc_remote_path_override root) = Inr c \<Longrightarrow> folders_kept c (rc_legacy_remote_paths root)"
  shows "keeps (beside rn ok) (migration_report_of mv config n force)"
proof -
  have quota: "keeps (beside rn ok) (migration_available_remote_bytes env)"
    unfolding migration_available_remote_bytes_def
    by (auto intro!: keeps_bindM keeps_seqM keeps_on_sync client_keeps split: sum.split)
  have run: "keeps (beside rn ok) (migration_execute_run mv config n force)"
    unfolding migration_execute_run_def by (intro keeps_bindM quota execute_roots_keeps' assms) auto
  have "keeps (beside rn ok) (migration_conclude_run env execution)" for execution
    unfolding migration_conclude_run_def
    by (auto intro!: keeps_bindM keeps_on_sync mig_cancelled_keeps split: sum.split)
  then show ?thesis
    unfolding migration_report_of_def by (intro keeps_bindM keeps_catchM run keeps_seqM keeps_get_migration_report)
qed

end

end
