(* ===== verification/Migration_Deletes.thy ===== *)
theory Migration_Deletes
  imports Migration_Keep
begin

text \<open>
  What the migration of \<open>crates/yds-sync/src/migration.rs\<close> deletes in a legacy folder: everything the
  inventory lists there, each entry once; and what that means for the folder it migrates to.
\<close>

section \<open>The order of the candidates\<close>

lemma sorted_wrt_insort_key:
  assumes "sorted_wrt (\<lambda>a b. f a < f b \<or> f a = f b \<and> R a b) ys" "sorted (map f ys)" "\<forall>y\<in>set ys. R x y"
  shows "sorted_wrt (\<lambda>a b. f a < f b \<or> f a = f b \<and> R a b) (insort_key f x ys)"
  using assms by (induction ys) (auto simp: set_insort_key)

text \<open>Sorting is stable: what was in order stays so among equal keys.\<close>

lemma sorted_wrt_sort_key:
  "sorted_wrt R xs \<Longrightarrow> sorted_wrt (\<lambda>a b. f a < f b \<or> f a = f b \<and> R a b) (sort_key f xs)"
  by (induction xs) (auto intro: sorted_wrt_insort_key)

definition before :: "ResourceMetadata \<Rightarrow> ResourceMetadata \<Rightarrow> bool" where
  "before a b = (if rs_resource_type a = RtDirectory
     then rs_resource_type b = RtDirectory \<longrightarrow> slash_count (rs_path a) \<le> slash_count (rs_path b)
     else rs_resource_type b \<noteq> RtDirectory)"

lemma legacy_candidates_sorted: "sorted_wrt before (legacy_candidates legacy)"
proof -
  have "sorted_wrt (\<lambda>a b. slash_count (rs_path a) < slash_count (rs_path b) \<or>
      slash_count (rs_path a) = slash_count (rs_path b) \<and> True)
      (sort_key (\<lambda>r. slash_count (rs_path r)) (sort_key rs_path (bt_values (li_resources legacy))))"
    by (rule sorted_wrt_sort_key) (simp add: sorted_wrt_true)
  note sorted_wrt_sort_key [OF this, of "\<lambda>r. rs_resource_type r \<noteq> RtDirectory"]
  then show ?thesis
    unfolding legacy_candidates_def by (rule sorted_wrt_mono_rel [rotated]) (auto simp: before_def)
qed

lemma mset_legacy_candidates: "set (legacy_candidates legacy) = set (bt_values (li_resources legacy))"
  by (simp add: legacy_candidates_def)

section \<open>Everything listed, once\<close>

definition legacy_inv :: "string \<Rightarrow> ResourceMetadata list \<Rightarrow> string list \<times> DeleteCandidate list \<Rightarrow> bool" where
  "legacy_inv base seen acc =
     (set (fst acc) = {dn_remote_path d | d. d \<in> set (snd acc) \<and> dn_resource_type d = RtDirectory} \<and>
      (\<forall>d\<in>set (snd acc). \<exists>r\<in>set seen. dn_remote_path d = rs_path r \<and> dn_resource_type d = rs_resource_type r \<and>
         deletable base (rs_path r)) \<and>
      (\<forall>r\<in>set seen. deletable base (rs_path r) \<longrightarrow> (\<exists>d\<in>set (snd acc). path_under (dn_remote_path d) (rs_path r))) \<and>
      (\<forall>d\<in>set (snd acc). \<forall>e\<in>set (snd acc). dn_resource_type d = RtDirectory \<longrightarrow>
         path_under (dn_remote_path d) (dn_remote_path e) \<longrightarrow> dn_remote_path d = dn_remote_path e) \<and>
      distinct (map dn_remote_path (snd acc)))"

lemma legacy_step:
  assumes inv: "legacy_inv base seen acc"
    and fresh: "rs_path r \<notin> rs_path ` set seen" and order: "\<forall>s\<in>set seen. before s r"
  shows "legacy_inv base (seen @ [r]) (collect_legacy_resource base c r acc)"
proof (cases "deletable base (rs_path r) \<and> \<not> suppressed (fst acc) (rs_path r)")
  case False
  then have "collect_legacy_resource base c r acc = acc"
    by (auto simp: collect_legacy_resource_def deletable_def split: sum.split)
  moreover have "\<exists>d\<in>set (snd acc). path_under (dn_remote_path d) (rs_path r)" if "deletable base (rs_path r)"
    using False that inv by (auto simp: suppressed_iff legacy_inv_def)
  ultimately show ?thesis using inv by (auto simp: legacy_inv_def)
next
  case True
  then obtain rel where rel: "remote_delete_candidate_relative_path base (rs_path r) = Inr rel"
    by (auto simp: deletable_def)
  define new where "new = \<lparr>dn_remote_path = rs_path r, dn_relative_path = rel, dn_resource_type = rs_resource_type r,
      dn_canonical_path = legacy_to_canonical_path base c (rs_path r)\<rparr>"
  have step: "collect_legacy_resource base c r acc =
      (if rs_resource_type r = RtDirectory then fst acc @ [rs_path r] else fst acc, snd acc @ [new])"
    using True rel by (simp add: collect_legacy_resource_def new_def)
  have spared: "\<not> path_under (dn_remote_path d) (rs_path r)"
    if "d \<in> set (snd acc)" "dn_resource_type d = RtDirectory" for d
    using True that inv by (auto simp: suppressed_iff legacy_inv_def)
  have above: "\<not> path_under (rs_path r) (dn_remote_path d)"
    if d: "d \<in> set (snd acc)" and dir: "rs_resource_type r = RtDirectory" for d
  proof
    assume under: "path_under (rs_path r) (dn_remote_path d)"
    obtain s where s: "s \<in> set seen" "dn_remote_path d = rs_path s"
      using d inv by (auto simp: legacy_inv_def)
    have "before s r" using order s(1) by blast
    then have "slash_count (rs_path s) \<le> slash_count (rs_path r)"
      using dir by (simp add: before_def split: if_splits)
    moreover have "rs_path s \<noteq> rs_path r" using fresh s(1) by (metis image_eqI)
    ultimately show False using path_under_count [OF under] s(2) by auto
  qed
  have new_path: "rs_path r \<notin> dn_remote_path ` set (snd acc)"
    using inv fresh by (fastforce simp: legacy_inv_def)
  have new_simps: "dn_remote_path new = rs_path r" "dn_resource_type new = rs_resource_type r"
    by (simp_all add: new_def)
  let ?acc = "(if rs_resource_type r = RtDirectory then fst acc @ [rs_path r] else fst acc, snd acc @ [new])"
  have "set (fst ?acc) = {dn_remote_path d | d. d \<in> set (snd ?acc) \<and> dn_resource_type d = RtDirectory}"
  proof -
    have "set (fst acc) = {dn_remote_path d | d. d \<in> set (snd acc) \<and> dn_resource_type d = RtDirectory}"
      using inv by (simp add: legacy_inv_def)
    then show ?thesis using new_simps by (cases "rs_resource_type r = RtDirectory") force+
  qed
  moreover have "\<forall>d\<in>set (snd ?acc). \<exists>x\<in>set (seen @ [r]). dn_remote_path d = rs_path x \<and>
      dn_resource_type d = rs_resource_type x \<and> deletable base (rs_path x)"
    using inv True by (auto simp: legacy_inv_def new_simps)
  moreover have "\<forall>x\<in>set (seen @ [r]). deletable base (rs_path x) \<longrightarrow>
      (\<exists>d\<in>set (snd ?acc). path_under (dn_remote_path d) (rs_path x))"
    using inv by (auto simp: legacy_inv_def new_simps)
  moreover have "\<forall>d\<in>set (snd ?acc). \<forall>e\<in>set (snd ?acc). dn_resource_type d = RtDirectory \<longrightarrow>
      path_under (dn_remote_path d) (dn_remote_path e) \<longrightarrow> dn_remote_path d = dn_remote_path e"
    using inv spared above by (auto simp: legacy_inv_def new_simps)
  moreover have "distinct (map dn_remote_path (snd ?acc))"
    using inv new_path by (simp add: legacy_inv_def new_simps)
  ultimately show ?thesis unfolding legacy_inv_def step by blast
qed

lemma legacy_fold:
  assumes "distinct (map rs_path rs)" "sorted_wrt before rs"
  shows "legacy_inv base rs (fold (collect_legacy_resource base c) rs ([], []))"
  using assms
proof (induction rs rule: rev_induct)
  case (snoc r rs)
  then show ?case by (auto simp: sorted_wrt_append intro!: legacy_step)
qed (simp add: legacy_inv_def)

definition listed_once :: "LegacyInventory \<Rightarrow> bool" where
  "listed_once legacy = distinct (map rs_path (bt_values (li_resources legacy)))"

lemma legacy_result_inv:
  assumes "listed_once legacy"
  shows "\<exists>dirs. legacy_inv (li_root_path legacy) (legacy_candidates legacy) (dirs, collect_legacy_delete_candidates legacy c)"
proof -
  have "distinct (map rs_path (legacy_candidates legacy))"
    using assms unfolding listed_once_def legacy_candidates_def
    by (metis distinct_map distinct_sort set_sort)
  then show ?thesis
    using legacy_fold [OF _ legacy_candidates_sorted] unfolding collect_legacy_delete_candidates_def
    by (metis prod.collapse)
qed

text \<open>
  C12. Of a legacy folder whose inventory lists no path twice the migration deletes every candidate: each
  entry listed strictly below the folder, with no \<open>disk:\<close> among its segments (\<open>deletable\<close>: the folder itself and
  phantom entries are left), lies at or below a planned deletion, each planned deletion is such an entry, none
  is planned at or below another directory that is planned, and none twice.
\<close>

theorem legacy_deletes_exact:
  assumes "listed_once legacy"
  shows "let ds = collect_legacy_delete_candidates legacy c in
    (\<forall>r\<in>set (bt_values (li_resources legacy)). deletable (li_root_path legacy) (rs_path r) \<longrightarrow>
       (\<exists>d\<in>set ds. path_under (dn_remote_path d) (rs_path r))) \<and>
    (\<forall>d\<in>set ds. \<exists>r\<in>set (bt_values (li_resources legacy)).
       dn_remote_path d = rs_path r \<and> deletable (li_root_path legacy) (rs_path r)) \<and>
    (\<forall>d\<in>set ds. \<forall>e\<in>set ds. dn_resource_type d = RtDirectory \<longrightarrow>
       path_under (dn_remote_path d) (dn_remote_path e) \<longrightarrow> dn_remote_path d = dn_remote_path e) \<and>
    distinct (map dn_remote_path ds)"
  using legacy_result_inv [OF assms, of c]
  unfolding Let_def legacy_inv_def mset_legacy_candidates by fastforce

text \<open>
  What a legacy folder shares with a path: an entry of the inventory at or below the path, or above
  it, ends up in a deletion that is related to the path in the same way.
\<close>

lemma set_migration_delete_candidates:
  "set (migration_delete_candidates root c live sets) =
     canonical_delete_candidate ` set (collect_coalesced_delete_operations root c live (rx_canonical sets)) \<union>
     (\<Union>legacy\<in>set (rx_legacy sets). set (collect_legacy_delete_candidates legacy c))"
  by (auto simp: migration_delete_candidates_def sort_desc_def)

lemma canonical_candidate_path [simp]: "dn_remote_path (canonical_delete_candidate d) = rd_remote_path d"
  by (simp add: canonical_delete_candidate_def)

text \<open>
  The migration deletes a legacy folder without regard to what stands there now. Where the
  legacy folder contains a live path, its own root's folder included, and the inventory lists a
  directory at or above that path, the plan holds the permanent deletion of a path at or above it,
  although the file is present locally.
\<close>

theorem legacy_deletes_live:
  assumes "legacy \<in> set (rx_legacy sets)" and "listed_once legacy"
    and "r \<in> set (bt_values (li_resources legacy))" and "deletable (li_root_path legacy) (rs_path r)"
    and "path_under (rs_path r) k"
  shows "\<exists>d\<in>set (migration_delete_candidates root c live sets). path_under (dn_remote_path d) k"
proof -
  obtain dirs where "legacy_inv (li_root_path legacy) (legacy_candidates legacy) (dirs, collect_legacy_delete_candidates legacy c)"
    using legacy_result_inv [OF assms(2)] by blast
  then obtain d where "d \<in> set (collect_legacy_delete_candidates legacy c)" "path_under (dn_remote_path d) (rs_path r)"
    using assms(3,4) by (auto simp: legacy_inv_def mset_legacy_candidates)
  then show ?thesis
    using assms(1,5) path_under_trans by (auto simp: set_migration_delete_candidates)
qed

lemma deletable_under: "deletable base p \<Longrightarrow> path_under (trim_end_slash base) p"
  by (auto simp: deletable_def remote_delete_candidate_relative_path_def Let_def str_simps path_under_iff
      split: if_splits option.splits)

lemma legacy_candidates_deletable:
  "d \<in> set (collect_legacy_delete_candidates legacy c) \<Longrightarrow> deletable (li_root_path legacy) (dn_remote_path d)"
proof -
  have "\<forall>d\<in>set (snd (fold (collect_legacy_resource base c) rs acc)). deletable base (dn_remote_path d)"
    if "\<forall>d\<in>set (snd acc). deletable base (dn_remote_path d)" for base rs acc
    using that
  proof (induction rs arbitrary: acc)
    case (Cons r rs)
    have "\<forall>d\<in>set (snd (collect_legacy_resource base c r acc)). deletable base (dn_remote_path d)"
      using Cons.prems by (auto simp: collect_legacy_resource_def deletable_def split: sum.split)
    from Cons.IH [OF this] show ?case by simp
  qed simp
  from this [of "([], [])"] show "d \<in> set (collect_legacy_delete_candidates legacy c) \<Longrightarrow> ?thesis"
    by (simp add: collect_legacy_delete_candidates_def)
qed

text \<open>Folders neither of which contains the other.\<close>

definition separate :: "string \<Rightarrow> string \<Rightarrow> bool" where
  "separate p q = (\<not> path_under p q \<and> \<not> path_under q p)"

lemma live_path_under: "live_tree c known \<Longrightarrow> k \<in> set known \<Longrightarrow> path_under c k"
  by (metis live_tree_def normalE join_path_under join_path_Nil append_Nil path_under_refl)

text \<open>
  C7. With every legacy folder apart from the folder of the root, the migration of a root deletes
  no live path and no directory that holds one: neither in the folder itself nor through the legacy
  folders, whatever those list. It rests on the live paths forming a tree (\<open>live_tree\<close>, which fails for a local
  directory whose name ends in white space) and on candidates in the folder itself that consist of non-empty
  segments below it (\<open>normal_inventory\<close>).
\<close>

theorem migration_deletes_spare_live:
  assumes "live_tree c (live_paths c live)" and "normal_inventory c (rx_canonical sets)"
    and "\<forall>legacy\<in>set (rx_legacy sets). separate (trim_end_slash (li_root_path legacy)) c"
    and "d \<in> set (migration_delete_candidates root c live sets)" and "k \<in> set (live_paths c live)"
  shows "\<not> path_under (dn_remote_path d) k"
proof
  assume under: "path_under (dn_remote_path d) k"
  have "path_under c k" by (rule live_path_under [OF assms(1,5)])
  from assms(4) consider (own) x where "d = canonical_delete_candidate x"
      "x \<in> set (collect_coalesced_delete_operations root c live (rx_canonical sets))"
    | (legacy) legacy where "legacy \<in> set (rx_legacy sets)" "d \<in> set (collect_legacy_delete_candidates legacy c)"
    by (auto simp: set_migration_delete_candidates)
  then show False
  proof cases
    case own
    then show False using delete_plan_spares_live [OF assms(1,2) _ assms(5)] under by auto
  next
    case legacy
    let ?l = "trim_end_slash (li_root_path legacy)"
    have "path_under ?l (dn_remote_path d)" by (rule deletable_under [OF legacy_candidates_deletable [OF legacy(2)]])
    then have "path_under ?l k" using under path_under_trans by blast
    then have "path_under ?l c \<or> path_under c ?l" using \<open>path_under c k\<close> path_under_linear by blast
    then show False using assms(3) legacy(1) by (auto simp: separate_def)
  qed
qed

section \<open>Examples\<close>

definition example_legacy :: "string \<Rightarrow> LegacyInventory" where
  "example_legacy l = \<lparr>li_root_path = l, li_resources = inventory_of
     [resource_directory l, resource_file (l @ ''/x'') 1, resource_directory (l @ ''/old''), resource_file (l @ ''/old/z'') 1]\<rparr>"

definition example_sets :: "string \<Rightarrow> RemoteSets" where
  "example_sets l = \<lparr>rx_canonical = example_inventory, rx_legacy = [example_legacy l], rx_from_cache = False\<rparr>"

lemma example_listed_once: "listed_once (example_legacy ''disk:/r/a'')" "listed_once (example_legacy ''disk:/old-r'')"
  by code_simp+

theorem legacy_deletes_exact_witness:
  "\<exists>d\<in>set (collect_legacy_delete_candidates (example_legacy ''disk:/old-r'') ''disk:/r'').
     path_under (dn_remote_path d) ''disk:/old-r/old/z''"
proof -
  have "resource_file ''disk:/old-r/old/z'' 1 \<in> set (bt_values (li_resources (example_legacy ''disk:/old-r'')))"
    and "deletable (li_root_path (example_legacy ''disk:/old-r'')) (rs_path (resource_file ''disk:/old-r/old/z'' 1))"
    by code_simp+
  with legacy_deletes_exact [OF example_listed_once(2), of "''disk:/r''", unfolded Let_def, THEN conjunct1]
  have "\<exists>d\<in>set (collect_legacy_delete_candidates (example_legacy ''disk:/old-r'') ''disk:/r'').
      path_under (dn_remote_path d) (rs_path (resource_file ''disk:/old-r/old/z'' 1))"
    by blast
  then show ?thesis by (simp add: resource_file_def)
qed

text \<open>The live file \<open>a/x\<close> of the example lies in a legacy folder of its own root.\<close>

theorem legacy_deletes_live_witness:
  "''disk:/r/a/x'' \<in> set (live_paths ''disk:/r'' example_plan) \<and>
   (\<exists>d\<in>set (migration_delete_candidates example_root_config ''disk:/r'' example_plan (example_sets ''disk:/r/a'')).
      path_under (dn_remote_path d) ''disk:/r/a/x'')"
proof
  let ?legacy = "example_legacy ''disk:/r/a''"
  show "''disk:/r/a/x'' \<in> set (live_paths ''disk:/r'' example_plan)" by code_simp
  have "resource_file ''disk:/r/a/x'' 1 \<in> set (bt_values (li_resources ?legacy))"
    and "deletable (li_root_path ?legacy) (rs_path (resource_file ''disk:/r/a/x'' 1))"
    by code_simp+
  from legacy_deletes_live [OF _ example_listed_once(1) this]
  show "\<exists>d\<in>set (migration_delete_candidates example_root_config ''disk:/r'' example_plan (example_sets ''disk:/r/a'')).
      path_under (dn_remote_path d) ''disk:/r/a/x''"
    by (simp add: example_sets_def resource_file_def)
qed

theorem migration_deletes_spare_live_witness:
  "list_all (\<lambda>d. \<not> path_under (dn_remote_path d) ''disk:/r/a/x'')
     (migration_delete_candidates example_root_config ''disk:/r'' example_plan (example_sets ''disk:/old-r''))"
  unfolding list_all_iff
proof
  fix d
  assume d: "d \<in> set (migration_delete_candidates example_root_config ''disk:/r'' example_plan (example_sets ''disk:/old-r''))"
  have live: "''disk:/r/a/x'' \<in> set (live_paths ''disk:/r'' example_plan)" by code_simp
  have apart: "\<forall>legacy\<in>set (rx_legacy (example_sets ''disk:/old-r'')). separate (trim_end_slash (li_root_path legacy)) ''disk:/r''"
    by code_simp
  have "rx_canonical (example_sets ''disk:/old-r'') = example_inventory" by (simp add: example_sets_def)
  then have "normal_inventory ''disk:/r'' (rx_canonical (example_sets ''disk:/old-r''))"
    using example_normal by simp
  then show "\<not> path_under (dn_remote_path d) ''disk:/r/a/x''"
    by (rule migration_deletes_spare_live [OF example_tree _ apart d live])
qed

end
