(* ===== verification/Migration_Props.thy ===== *)
theory Migration_Props
  imports Migration_Keep
begin

text \<open>
  The runs of the migration of \<open>crates/yds-sync/src/migration.rs\<close>: what they change on the remote, the
  invariant of the database, the record of the run and the release of the lock.
\<close>

section \<open>The interfaces\<close>

interpretation mig_wf: migration_database db_wf
  by unfold_locales (rule repo_wf)+

lemma frame_map_rows [simp]: "frame (d\<lparr>db_migration_map_state := rows\<rparr>) = frame d"
  by (simp add: frame_def)

interpretation mig_framed: migration_database "\<lambda>d. frame d = fr" for fr
  by unfold_locales
    (simp_all add: keeps_def repo_modify_def upsert_migration_map_def upsert_migration_maps_def
      upsert_file_states_def upsert_remote_resources_def)

interpretation mig_any: migration_calls "\<lambda>d. frame d = fr" mv "\<lambda>_. True" i for fr mv i
  by unfold_locales (simp_all add: stable_def keeps_def)

interpretation mig_any_wf: migration_calls db_wf mv "\<lambda>_. True" i for mv i
  by unfold_locales (simp_all add: stable_def keeps_def)

lemma report_framed:
  "keeps (beside rn (engine_ok (\<lambda>_. True) (\<lambda>d. frame d = fr) i)) (migration_report_of mv config n force)"
  by (rule mig_any.migration_run_keeps)
    (simp add: mig_any.folders_kept_def any_world.deletes_kept_def mig_any.moves_kept_def keeps_def)

lemma report_wf: "keeps (beside rn (engine_ok (\<lambda>_. True) db_wf i)) (migration_report_of mv config n force)"
  by (rule mig_any_wf.migration_run_keeps)
    (simp add: mig_any_wf.folders_kept_def wf_world.deletes_kept_def mig_any_wf.moves_kept_def keeps_def)

section \<open>What a run does to the remote\<close>

definition recording_migration :: "'w migration_env \<Rightarrow> ('w \<times> remote_call list) migration_env" where
  "recording_migration mv =
     \<lparr>mv_sync = recording (mv_sync mv), mv_read_file = (\<lambda>p. with_log (mv_read_file mv p)),
      mv_is_file = (\<lambda>p. with_log (mv_is_file mv p))\<rparr>"

definition enabled_legacies :: "AppConfig \<Rightarrow> string list" where
  "enabled_legacies config = concat (map rc_legacy_remote_paths (filter rc_enabled (cf_roots config)))"

primrec stray_change :: "AppConfig \<Rightarrow> remote_call \<Rightarrow> bool" where
  "stray_change config (CreateCall p) = False"
| "stray_change config (UploadCall p) = False"
| "stray_change config (MoveCall p q overwrite) =
     (overwrite \<or> \<not> list_ex (\<lambda>l. belongs_to l p) (enabled_legacies config))"
| "stray_change config (DeleteCall p) =
     (\<not> list_ex (\<lambda>l. below_root l p) (enabled_canonicals config @ enabled_legacies config))"

lemma any_migration_database: "migration_database (\<lambda>_. True)"
  by (intro migration_database.intro any_database migration_database_axioms.intro) (simp_all add: keeps_def)

lemma recording_migration_calls:
  "migration_calls (\<lambda>_. True) (recording_migration mv) (\<lambda>w. filter (stray_change config) (snd w) = [])"
proof (intro migration_calls.intro any_migration_database migration_calls_axioms.intro)
  show "engine_writes (\<lambda>_. True) (mv_sync (recording_migration mv)) (\<lambda>w. filter (stray_change config) (snd w) = [])"
    unfolding recording_migration_def
    by (simp, rule recording_writes) (auto simp: any_database)
qed (auto simp: recording_migration_def recording_def recording_client_def intro: stable_with_log keeps_with_log)

context migration_calls begin

lemma run_once_keeps:
  assumes folders: "\<And>root c. root \<in> set (cf_roots config) \<Longrightarrow> rc_enabled root \<Longrightarrow>
      canonical_remote_path (in_remote_root (cf_instance config)) (rc_local_path root)
        (rc_remote_path_override root) = Inr c \<Longrightarrow> folders_kept c (rc_legacy_remote_paths root)"
    and acquire: "\<And>now owner t stale. keeps D (try_acquire_run_lock now owner t stale)"
    and repair: "\<And>now. keeps D (repair_interrupted_runs now)" "\<And>now trigger. keeps D (begin_run now trigger)"
    and finish: "\<And>now n status summary. keeps D (finish_run now n status summary)" "\<And>guard. keeps D (release_run_lock guard)"
  shows "keeps ok (migration_run_once mv config options)"
proof -
  have locked: "keeps ok (migration_run_locked mv config options guard)" for guard
    unfolding migration_run_locked_def Let_def
    by (auto intro!: keeps_seqM keeps_bindM keeps_catchM mig_repo_at_keeps mig_repo_keeps repair finish
        keeps_with_report migration_run_keeps folders split: sum.split)
  show ?thesis
    unfolding migration_run_once_def migration_acquire_lock_def
    by (auto intro!: keeps_bindM reads_keep mig_repo_keeps acquire locked split: sum.split option.split)
qed

end

text \<open>
  C6. Whatever the remote lists, the cache holds and the scan finds, in any environment and with any
  failures, a migration deletes only paths strictly below the remote folder or a legacy folder of an
  enabled root, moves only what is in a legacy folder, and no move overwrites anything.
\<close>

theorem migration_changes_confined:
  "filter (stray_change config)
     (log_of (snd (migration_run_once (recording_migration mv) config options (start_log s)))) = []"
proof -
  let ?P = "\<lambda>w. filter (stray_change config) (snd w) = []"
  note calls = recording_migration_calls [of mv config]
  have client: "ev_client (mv_sync (recording_migration mv)) = recording_client (ev_client (mv_sync mv))"
    by (simp add: recording_migration_def recording_def)
  have deletes: "keeps ?P (dc_delete_permanently (recording_client cl) p)"
    if "list_ex (\<lambda>l. below_root l p) (enabled_canonicals config @ enabled_legacies config)" for cl :: "'a disk_client" and p
    using that by (auto simp: recording_client_def keeps_def logged_def split: prod.split)
  have moves: "keeps ?P (dc_move_resource (recording_client cl) p q False)"
    if "list_ex (\<lambda>l. belongs_to l p) (enabled_legacies config)" for cl :: "'a disk_client" and p q
    using that by (auto simp: recording_client_def keeps_def logged_def split: prod.split)
  have kept: "migration_calls.folders_kept (recording_migration mv) ?P c (rc_legacy_remote_paths root)"
    if root: "root \<in> set (cf_roots config)" "rc_enabled root"
      "canonical_remote_path (in_remote_root (cf_instance config)) (rc_local_path root)
         (rc_remote_path_override root) = Inr c" for root c
  proof -
    have "c \<in> set (enabled_canonicals config)"
      using root by (force simp: enabled_canonicals_def List.map_filter_def)
    moreover have "set (rc_legacy_remote_paths root) \<subseteq> set (enabled_legacies config)"
      using root by (auto simp: enabled_legacies_def)
    ultimately show ?thesis
      unfolding migration_calls.folders_kept_def [OF calls] migration_calls.moves_kept_def [OF calls]
        engine_writes.deletes_kept_def [OF migration_calls.axioms(2) [OF calls]] client
      by (blast intro: deletes [unfolded list_ex_iff set_append] moves [unfolded list_ex_iff])
  qed
  have "keeps (engine_ok ?P (\<lambda>_. True) (sp_run_id (st_report (start_log s))))
      (migration_run_once (recording_migration mv) config options)"
    by (rule migration_calls.run_once_keeps [OF calls kept]) (simp_all add: keeps_def)
  from this [unfolded keeps_def, rule_format, of "start_log s"] show ?thesis
    by (simp add: engine_ok_def start_log_def log_of_def)
qed

section \<open>The database\<close>

lemma migration_run_once_wf: "keeps (db_ok db_wf) (migration_run_once mv config options)"
  by (rule keeps_db_ok, rule mig_any_wf.run_once_keeps)
    (auto simp: mig_any_wf.folders_kept_def wf_world.deletes_kept_def mig_any_wf.moves_kept_def keeps_def [of "\<lambda>_. True"]
      intro: repo_wf)

text \<open>
  A run of the engine keeps the state database well formed, with one row per key and run and
  operation ids that grow, whether it synchronises or migrates first, whatever the remote, the file
  system, the scan and the other thread do, whichever statement fails and wherever the run stops.
\<close>

theorem engine_run_once_keeps_db_wf:
  assumes "db_wf (st_db s)"
  shows "db_wf (st_db (snd (engine_run_once mv config options s)))"
  unfolding engine_run_once_def
proof (rule run_once_keeps_db_wf [OF assms])
  fix o' and s :: "'a sync_state"
  assume "db_wf (st_db s)"
  moreover have "keeps (db_ok db_wf) (errM (\<lambda>e. SyncMigration (MigrationError_text e)) (migration_run_once mv config o'))"
    by (intro keeps_errM migration_run_once_wf)
  ultimately show "db_wf (st_db (snd (errM (\<lambda>e. SyncMigration (MigrationError_text e)) (migration_run_once mv config o') s)))"
    by (simp add: keeps_def db_ok_def)
qed

section \<open>The record of a run and its lock\<close>

lemma mig_repo_Inr: "mig_repo env f s = (Inr x, s') \<longleftrightarrow> repo env f s = (Inr x, s')"
  by (auto simp: mig_repo_def repo_def errM_def map_err_def split: prod.splits sum.splits)

lemma mig_repo_at_Inr: "mig_repo_at env f s = (Inr x, s') \<longleftrightarrow> repo_at env f s = (Inr x, s')"
  by (auto simp: mig_repo_at_def repo_at_def errM_def map_err_def split: prod.splits sum.splits)

lemma with_report_Inr: "with_report r f s = (Inr x, s') \<longleftrightarrow> (\<exists>r'. f (r, s) = (Inr x, (r', s')))"
  by (auto simp: with_report_def split: prod.splits)

lemma migration_conclude_returns:
  "\<exists>r' s'. migration_conclude_run env execution (r, s) = (Inr (), (r', s')) \<and> mr_status r' \<noteq> RunRunning"
proof (cases execution)
  case (Inr x)
  obtain b w where "ev_is_cancelled env (st_world s) = (b, w)" by fastforce
  then show ?thesis
    by (simp add: Inr migration_conclude_run_def modify_migration_report_def on_sync_def mig_cancelled_def
        world_read_def bindM_def migration_status_from_summary_def)
qed (simp add: migration_conclude_run_def modify_migration_report_def)

text \<open>The run with its report always returns, with a final status.\<close>

lemma migration_report_returns:
  obtains report s' where
    "with_report r (migration_report_of mv config n force) s = (Inr report, s')"
    "mr_run_id report = mr_run_id r" "mr_status report \<noteq> RunRunning"
proof -
  obtain execution r1 s1 where run: "migration_execute_run mv config n force (r, s) = (execution, (r1, s1))"
    by (metis prod.collapse)
  obtain r2 s2 where concluded: "migration_conclude_run (mv_sync mv) execution (r1, s1) = (Inr (), (r2, s2))"
    and status: "mr_status r2 \<noteq> RunRunning"
    using migration_conclude_returns by blast
  have report: "migration_report_of mv config n force (r, s) = (Inr r2, (r2, s2))"
    using run concluded
    by (simp add: migration_report_of_def seqM_def bindM_def catchM_def get_migration_report_def)
  let ?I = "beside (mr_run_id r) (engine_ok (\<lambda>_. True) (\<lambda>d. frame d = frame (st_db s)) (sp_run_id (st_report s)))"
  have "?I (r, s)" by (simp add: beside_def engine_ok_def)
  then have "?I (r2, s2)" by (rule keepsD [OF report_framed _ report])
  then have "mr_run_id r2 = mr_run_id r" by (simp add: beside_def)
  then show thesis using report status by (intro that [of r2 s2]) (auto simp: with_report_def)
qed

text \<open>
  C9. With a database whose statements do not fail, a migration that holds the lock always comes back
  with a report, whatever the remote, the scan and the local files do, and it has recorded it: the
  row of the run holds the final status and the summary of the report and a finish time, and the run
  lock is released.
\<close>

theorem migration_records_and_releases:
  assumes "db_wf (st_db s)" and "db_sound (mv_sync mv)"
  shows "\<exists>report s'. migration_run_locked mv config options guard s = (Inr report, s') \<and>
    (case run_with_id (mr_run_id report) (st_db s') of
       None \<Rightarrow> False
     | Some r \<Rightarrow> rr_status r = mr_status report \<and> rr_summary r = mr_summary report \<and>
         rr_finished_at_utc r \<noteq> None) \<and>
     mr_status report \<noteq> RunRunning \<and>
     filter (\<lambda>r. lw_name r = lg_name guard \<and> lw_owner r = lg_owner guard) (db_state_locks (st_db s')) = []"
proof -
  let ?env = "mv_sync mv" and ?id = "db_runs_seq (st_db s) + 1"
  note sound = assms(2)
  obtain now1 s1 where s1: "repo_at ?env repair_interrupted_runs s = (Inr (), s1)"
      "repair_interrupted_runs now1 (st_db s) = (Inr (), st_db s1)"
    by (rule repo_at_sound [OF sound, of repair_interrupted_runs s "\<lambda>_. ()"]) (simp add: repair_interrupted_runs_def repo_modify_def)
  have wf1: "db_wf (st_db s1)" by (rule keepsD [OF repair_interrupted_runs_wf assms(1) s1(2)])
  have "st_db s1 = snd (repair_interrupted_runs now1 (st_db s))" using s1(2) by simp
  then have seq: "db_runs_seq (st_db s1) = db_runs_seq (st_db s)"
    by (simp add: repair_interrupted_runs_def repo_modify_def)
  obtain now2 s2 where s2: "repo_at ?env (\<lambda>now. begin_run now TrMigration) s1 = (Inr ?id, s2)"
      "begin_run now2 TrMigration (st_db s1) = (Inr ?id, st_db s2)"
    by (rule repo_at_sound [OF sound, of "\<lambda>now. begin_run now TrMigration" s1 "\<lambda>_. ?id"])
      (simp add: begin_run_def Let_def seq)
  have wf2: "db_wf (st_db s2)" by (rule keepsD [OF begin_run_wf wf1 s2(2)])
  have "st_db s2 = snd (begin_run now2 TrMigration (st_db s1))" using s2(2) by simp
  then have in2: "?id \<in> set (map rr_id (db_sync_runs (st_db s2)))"
    using seq by (simp add: begin_run_def Let_def)
  let ?run = "migration_report_of mv config ?id (mo_force_remote_rescan options \<or> sy_force_remote_rescan (cf_sync config))"
  obtain report s3 where s3: "with_report (migration_new_report ?id) ?run s2 = (Inr report, s3)"
    and id: "mr_run_id report = ?id" and status: "mr_status report \<noteq> RunRunning"
    by (rule migration_report_returns [of "migration_new_report ?id" mv config ?id]) (simp add: migration_new_report_def)
  let ?I = "\<lambda>D. engine_ok (\<lambda>_. True) D (sp_run_id (st_report s2))"
  have "?I db_wf s3" "?I (\<lambda>d. frame d = frame (st_db s2)) s3"
    by (rule keepsD [OF keeps_with_report [OF report_wf] _ s3], simp add: engine_ok_def wf2)
      (rule keepsD [OF keeps_with_report [OF report_framed] _ s3], simp add: engine_ok_def)
  then have wf3: "db_wf (st_db s3)" and "?id \<in> set (map rr_id (db_sync_runs (st_db s3)))"
    using in2 by (simp_all add: engine_ok_def frame_def)
  then have finish: "\<exists>d. finish_run now ?id st su (st_db s3) = (Inr (), d)" for now st su
    using finish_run_existing [of "st_db s3"] by (metis prod.collapse)
  obtain now4 s4 where s4: "repo_at ?env (\<lambda>now. finish_run now ?id (mr_status report) (mr_summary report)) s3 = (Inr (), s4)"
      "finish_run now4 ?id (mr_status report) (mr_summary report) (st_db s3) = (Inr (), st_db s4)"
    by (rule repo_at_sound [OF sound, of "\<lambda>now. finish_run now ?id (mr_status report) (mr_summary report)" s3 "\<lambda>_. ()"])
      (use finish in auto)
  obtain b d where "release_run_lock guard (st_db s4) = (Inr b, d)"
    by (simp add: release_run_lock_def tbl_delete_def)
  then obtain s5 where s5: "repo ?env (release_run_lock guard) s4 = (Inr b, s5)"
    by (rule_tac repo_sound [OF sound, of "release_run_lock guard" s4]) (auto simp: map_err_def)
  have run: "migration_run_locked mv config options guard s = (Inr report, s5)"
    unfolding migration_run_locked_def Let_def bindM_Inr seqM_Inr catchM_Inr case_throw_Inr mig_repo_Inr mig_repo_at_Inr
    using s1(1) s2(1) s3 s4(1) s5
    by (auto simp: mig_repo_Inr mig_repo_at_Inr ret_def intro!: exI)
  note released = release_run_lock_rows [OF conjunct1 [OF repo_Inr [OF s5]]]
  obtain r where "run_with_id ?id (st_db s5) = Some (finished_run now4 (mr_status report) (mr_summary report) r)"
    using finish_run_row [OF s4(2)] by (auto simp: run_with_id_def released)
  then show ?thesis
    using run status released by (auto simp: id finished_run_def)
qed

section \<open>A run that is refused\<close>

lemma repo_call_sound:
  assumes "db_sound env" "stable P (ev_db_fault env)" "P (st_world s)" "f (st_db s) = (r, st_db s)"
  obtains w where "repo_call env f s = (r, s\<lparr>st_world := w\<rparr>)" "P w"
proof -
  obtain w where w: "ev_db_fault env (st_world s) = (None, w)"
    using assms(1) unfolding db_sound_def by (metis prod.collapse)
  then have "P w" using assms(2,3) unfolding stable_def by (metis snd_conv)
  then show thesis
    by (rule that [rotated]) (simp add: repo_call_def bindM_def world_read_def db_run_def w assms(4))
qed

lemma should_auto_migrate_returns:
  assumes "db_sound env" "stable P (ev_db_fault env)" "stable P (ev_fs env)" "P (st_world s)"
  shows "\<exists>b w. P w \<and> should_auto_migrate_roots env roots s = (Inr b, s\<lparr>st_world := w\<rparr>)"
  using assms(4)
proof (induction roots arbitrary: s)
  case Nil
  then show ?case by (intro exI [of _ False] exI [of _ "st_world s"]) (simp add: ret_def)
next
  case (Cons root roots)
  obtain fs w where fs: "ev_fs env (st_world s) = (fs, w)" by fastforce
  let ?s = "s\<lparr>st_world := w\<rparr>" and ?f = "has_snapshot_for_root (rc_id root)"
  have w: "P w" using assms(3) Cons.prems fs unfolding stable_def by (metis snd_conv)
  obtain b where b: "?f (st_db ?s) = (Inr b, st_db ?s)"
    by (simp add: has_snapshot_for_root_def repo_read_def)
  obtain w' where w': "repo_call env ?f ?s = (Inr b, ?s\<lparr>st_world := w'\<rparr>)" "P w'"
    using repo_call_sound [OF assms(1,2), of ?s ?f] b w by auto
  have step: "repo env ?f ?s = (Inr b, s\<lparr>st_world := w'\<rparr>)"
    using w'(1) by (simp add: repo_def errM_def map_err_def)
  show ?case
    using Cons.IH [of ?s] Cons.IH [of "s\<lparr>st_world := w'\<rparr>"] w w'(2)
    by (auto simp: bindM_def world_read_def fs step ret_def)
qed

lemma attempt_refused:
  assumes "db_sound env" "stable P (ev_db_fault env)" "stable P (ev_now env)" "P (st_world s)" "locks_ok (st_db s)"
    and "\<And>w. \<not> acquirable (fst (ev_now env w) div 1000000000) stale_after (st_db s)"
  shows "\<exists>w. P w \<and> bindM (world_read (ev_now env)) (\<lambda>now. repo_call env (try_acquire_run_lock (\<lambda>_. ev_utc_text env now)
      owner (now div 1000000000) stale_after)) s = (Inr None, s\<lparr>st_world := w\<rparr>)"
proof -
  obtain now w where now: "ev_now env (st_world s) = (now, w)" by fastforce
  have w: "P w" using assms(3,4) now unfolding stable_def by (metis snd_conv)
  let ?f = "try_acquire_run_lock (\<lambda>_. ev_utc_text env now) owner (now div 1000000000) stale_after"
  have "?f (st_db (s\<lparr>st_world := w\<rparr>)) = (Inr None, st_db (s\<lparr>st_world := w\<rparr>))"
    using try_acquire_refused [OF assms(5)] assms(6) [of "st_world s"] now by simp
  then obtain w' where "repo_call env ?f (s\<lparr>st_world := w\<rparr>) = (Inr None, s\<lparr>st_world := w'\<rparr>)" "P w'"
    using repo_call_sound [OF assms(1,2), of "s\<lparr>st_world := w\<rparr>" ?f] w by auto
  then show ?thesis by (auto simp: bindM_def world_read_def now)
qed

definition refusal :: "bool \<Rightarrow> SyncError" where
  "refusal migrates = (if migrates then SyncMigration (MigrationError_text MgAlreadyRunning) else AlreadyRunning)"

lemma engine_run_refused:
  assumes "ensure_valid_config (ev_gitignore (mv_sync mv)) config = Inr ()" and "db_sound (mv_sync mv)"
    and "stable P (ev_db_fault (mv_sync mv))" "stable P (ev_fs (mv_sync mv))" "stable P (ev_now (mv_sync mv))"
    and "P (st_world s)" and "locks_ok (st_db s)"
    and "\<And>w. \<not> acquirable (fst (ev_now (mv_sync mv) w) div 1000000000) (sro_stale_lock_after options) (st_db s)"
  shows "\<exists>w. P w \<and> engine_run_once mv config options s =
    (Inl (refusal (sro_trigger options \<noteq> TrMigration \<and> fst (should_auto_migrate (mv_sync mv) config s) = Inr True)),
     s\<lparr>st_world := w\<rparr>)"
proof -
  let ?env = "mv_sync mv" and ?auto = "if sro_trigger options = TrMigration then ret False else should_auto_migrate (mv_sync mv) config"
  obtain b w where auto: "P w" "?auto s = (Inr b, s\<lparr>st_world := w\<rparr>)"
    using should_auto_migrate_returns [OF assms(2,3,4,6), of "filter rc_enabled (cf_roots config)"] assms(6)
    by (cases "sro_trigger options = TrMigration") (auto simp: should_auto_migrate_def ret_def intro: that [of "st_world s" False])
  have b: "b = (sro_trigger options \<noteq> TrMigration \<and> fst (should_auto_migrate (mv_sync mv) config s) = Inr True)"
    using auto(2) by (auto simp: ret_def split: if_splits)
  let ?s = "s\<lparr>st_world := w\<rparr>"
  have state: "P (st_world ?s)" "locks_ok (st_db ?s)" "st_db ?s = st_db s" using auto(1) assms(7) by simp_all
  have valid: "migration_ensure_valid_config (ev_gitignore ?env) config = Inr ()"
    using assms(1) by (auto simp: migration_ensure_valid_config_def ensure_valid_config_def Let_def split: if_splits)
  show ?thesis
  proof (cases b)
    case True
    obtain w' where "P w'" "migration_acquire_lock ?env \<lparr>mo_lock_owner = sro_lock_owner options,
          mo_stale_lock_after = sro_stale_lock_after options, mo_force_remote_rescan = sro_force_remote_rescan options\<rparr> ?s =
        (Inr None, s\<lparr>st_world := w'\<rparr>)"
      using attempt_refused [OF assms(2,3,5) state(1,2), of "sro_stale_lock_after options" "sro_lock_owner options"] assms(8)
      unfolding state(3)
      by (auto simp: migration_acquire_lock_def mig_repo_def errM_def map_err_def bindM_def world_read_def split: prod.splits)
    then show ?thesis
      using True auto b valid assms(1)
      by (auto simp: engine_run_once_def run_once_def migration_run_once_def bindM_def errM_def map_err_def throw_def refusal_def)
  next
    case False
    obtain w' where "P w'" "acquire_lock ?env options ?s = (Inr None, s\<lparr>st_world := w'\<rparr>)"
      using attempt_refused [OF assms(2,3,5) state(1,2), of "sro_stale_lock_after options" "sro_lock_owner options"] assms(8)
      unfolding state(3)
      by (auto simp: acquire_lock_def repo_def errM_def map_err_def bindM_def world_read_def split: prod.splits)
    then show ?thesis
      using False auto b assms(1)
      by (auto simp: engine_run_once_def run_once_def bindM_def throw_def refusal_def)
  qed
qed

text \<open>
  C20. While another owner holds a lock whose heartbeat no reading of the clock finds stale, a run that
  starts is refused, whether it would synchronise or, with a root that has no snapshot yet, migrate first: it
  returns the error of the part that was refused, no statement changes the database, and no call of the client
  that could change the remote is made. The database answers (\<open>db_sound\<close>), the lock table holds
  each lock once (\<open>locks_ok\<close>), and the configuration is valid.
\<close>

theorem engine_run_already_running:
  assumes "ensure_valid_config (ev_gitignore (mv_sync mv)) config = Inr ()" and "db_sound (mv_sync mv)"
    and "locks_ok (st_db s)"
    and "\<And>w. \<not> acquirable (fst (ev_now (mv_sync mv) w) div 1000000000) (sro_stale_lock_after options) (st_db s)"
  shows "\<exists>w. engine_run_once (recording_migration mv) config options (start_log s) =
    (Inl (refusal (sro_trigger options \<noteq> TrMigration \<and>
        fst (should_auto_migrate (recording (mv_sync mv)) config (start_log s)) = Inr True)),
     start_log (s\<lparr>st_world := w\<rparr>))"
proof -
  have sync: "mv_sync (recording_migration mv) = recording (mv_sync mv)" by (simp add: recording_migration_def)
  have "\<exists>wl. snd wl = [] \<and> engine_run_once (recording_migration mv) config options (start_log s) =
      (Inl (refusal (sro_trigger options \<noteq> TrMigration \<and>
          fst (should_auto_migrate (mv_sync (recording_migration mv)) config (start_log s)) = Inr True)),
       (start_log s)\<lparr>st_world := wl\<rparr>)"
    by (rule engine_run_refused)
      (use assms in \<open>auto simp: sync db_sound_def recording_def start_log_def intro: stable_with_log\<close>)
  then show ?thesis by (auto simp: sync start_log_def)
qed

section \<open>Examples\<close>

definition quiet_migration :: "nat migration_env" where
  "quiet_migration = \<lparr>mv_sync = quiet_env, mv_read_file = (\<lambda>p w. (Inl \<lparr>io_kind = IoNotFound, io_raw_os_error = Some 2, io_text = ''gone''\<rparr>, w)), mv_is_file = (\<lambda>p w. (False, w))\<rparr>"

theorem engine_run_once_keeps_db_wf_witness:
  "db_wf (st_db (snd (engine_run_once quiet_migration work_config cli_options (start_state empty_db))))"
  by (rule engine_run_once_keeps_db_wf) (simp add: start_state_def empty_db_wf)

theorem engine_run_already_running_witness:
  "fst (engine_run_once (recording_migration quiet_migration) work_config cli_options (start_log (start_state taken_lock_db))) \<in>
     {Inl AlreadyRunning, Inl (SyncMigration ''migration run is already running'')}"
proof -
  have "\<exists>w. engine_run_once (recording_migration quiet_migration) work_config cli_options (start_log (start_state taken_lock_db)) =
      (Inl (refusal (sro_trigger cli_options \<noteq> TrMigration \<and>
          fst (should_auto_migrate (recording (mv_sync quiet_migration)) work_config (start_log (start_state taken_lock_db))) = Inr True)),
       start_log ((start_state taken_lock_db)\<lparr>st_world := w\<rparr>))"
  proof (rule engine_run_already_running)
    show "ensure_valid_config (ev_gitignore (mv_sync quiet_migration)) work_config = Inr ()"
      using work_config_valid by (simp add: quiet_env_def quiet_migration_def)
    show "db_sound (mv_sync quiet_migration)" by (simp add: db_sound_def quiet_env_def quiet_migration_def)
    show "locks_ok (st_db (start_state taken_lock_db))"
      by (simp add: start_state_def taken_lock_db_def locks_ok_def tbl_keyed_def)
    show "\<not> acquirable (fst (ev_now (mv_sync quiet_migration) w) div 1000000000) (sro_stale_lock_after cli_options)
        (st_db (start_state taken_lock_db))" for w
      by (simp add: quiet_env_def quiet_migration_def start_state_def taken_lock_db_def acquirable_def run_lock_row_def
          tbl_find_Cons lock_row_of_def cli_options_def sync_run_options_default_def)
  qed
  then show ?thesis by (auto simp: refusal_def)
qed

theorem migration_records_and_releases_witness:
  "\<exists>report s'. migration_run_locked quiet_migration work_config (migration_run_options_default ''0'') cli_guard (start_state empty_db) =
     (Inr report, s') \<and> mr_status report \<noteq> RunRunning"
proof -
  have "db_wf (st_db (start_state empty_db))" "db_sound (mv_sync quiet_migration)"
    by (simp_all add: start_state_def empty_db_wf db_sound_def quiet_env_def quiet_migration_def)
  from migration_records_and_releases [OF this, of work_config "migration_run_options_default ''0''" cli_guard]
  show ?thesis by blast
qed

end
