(* ===== verification/Service_Runtime.thy ===== *)
theory Service_Runtime
  imports Migration_Props "HOL-Library.Signed_Division"
begin

text \<open>
  \<open>crates/yds-service/src/lib.rs\<close>: the runtime of the service. It keeps a state behind a mutex, starts
  a run on request or by the daily schedule, at most one at a time, cancels it, and records how it
  ended. Every operation holds the mutex while it reads and changes the state, so each is one step; a
  spawned run is a task that starts and ends later. Times are nanoseconds since the epoch, in UTC.
\<close>

section \<open>Statuses and snapshots\<close>

datatype RuntimeStatus = RsIdle | RsRunning | RsCancelling | RsFailed | RsDegraded

fun RuntimeStatus_as_str :: "RuntimeStatus \<Rightarrow> string" where
  "RuntimeStatus_as_str RsIdle = ''idle''"
| "RuntimeStatus_as_str RsRunning = ''running''"
| "RuntimeStatus_as_str RsCancelling = ''cancelling''"
| "RuntimeStatus_as_str RsFailed = ''failed''"
| "RuntimeStatus_as_str RsDegraded = ''degraded''"

record CurrentRunSnapshot =
  cu_trigger :: string
  cu_started_at_utc :: string

record SyncRunSummaryJson =
  sj_scanned_files :: i64
  sj_uploaded_files :: i64
  sj_updated_files :: i64
  sj_deleted_files :: i64
  sj_skipped_files :: i64
  sj_failed_files :: i64
  sj_bytes_uploaded :: i64
  sj_error_summary :: "string option"

definition summary_json :: "SyncRunSummary \<Rightarrow> SyncRunSummaryJson" where
  "summary_json v =
     \<lparr>sj_scanned_files = su_scanned_files v, sj_uploaded_files = su_uploaded_files v,
      sj_updated_files = su_updated_files v, sj_deleted_files = su_deleted_files v,
      sj_skipped_files = su_skipped_files v, sj_failed_files = su_failed_files v,
      sj_bytes_uploaded = su_bytes_uploaded v, sj_error_summary = su_error_summary v\<rparr>"

record RunSnapshot =
  rn_id :: rowid
  rn_started_at_utc :: string
  rn_finished_at_utc :: "string option"
  rn_trigger :: string
  rn_status :: string
  rn_summary :: SyncRunSummaryJson

definition run_snapshot :: "SyncRunRecord \<Rightarrow> RunSnapshot" where
  "run_snapshot v =
     \<lparr>rn_id = rr_id v, rn_started_at_utc = rr_started_at_utc v, rn_finished_at_utc = rr_finished_at_utc v,
      rn_trigger = SyncRunTrigger_as_str (rr_trigger v), rn_status = SyncRunStatus_as_str (rr_status v),
      rn_summary = summary_json (rr_summary v)\<rparr>"

record RuntimeSnapshot =
  rv_status :: RuntimeStatus
  rv_uptime_seconds :: i64
  rv_current_run :: "CurrentRunSnapshot option"
  rv_latest_run :: "RunSnapshot option"
  rv_latest_error :: "string option"
  rv_scheduled_skips :: i64

record RuntimeMetrics =
  rk_scanned_files :: i64
  rk_uploaded_files :: i64
  rk_updated_files :: i64
  rk_deleted_files :: i64
  rk_skipped_files :: i64
  rk_failed_files :: i64
  rk_bytes_uploaded :: i64
  rk_last_duration_seconds :: i64
  rk_average_upload_speed_bytes_per_second :: i64

definition metrics_default :: RuntimeMetrics where
  "metrics_default =
     \<lparr>rk_scanned_files = 0, rk_uploaded_files = 0, rk_updated_files = 0, rk_deleted_files = 0,
      rk_skipped_files = 0, rk_failed_files = 0, rk_bytes_uploaded = 0, rk_last_duration_seconds = 0,
      rk_average_upload_speed_bytes_per_second = 0\<rparr>"

record HealthResponse =
  hr_status :: string
  hr_version :: string
  hr_uptime_seconds :: i64
  hr_current_run :: "CurrentRunSnapshot option"
  hr_last_successful_sync_at_utc :: "string option"

record RuntimeCommandResponse =
  cr_accepted :: bool
  cr_status :: RuntimeStatus
  cr_message :: string

section \<open>The daily schedule\<close>

record DailyUtcSchedule =
  du_hour :: nat
  du_minute :: nat

definition schedule_parse :: "string \<Rightarrow> string + DailyUtcSchedule" where
  "schedule_parse v =
     (case split_once (CHR '':'') v of
        None \<Rightarrow> Inl v
      | Some (hour, minute) \<Rightarrow>
          (case parse_u8 hour of
             None \<Rightarrow> Inl v
           | Some hour \<Rightarrow>
               (case parse_u8 minute of
                  None \<Rightarrow> Inl v
                | Some minute \<Rightarrow>
                    if hour < 24 \<and> minute < 60 then Inr \<lparr>du_hour = hour, du_minute = minute\<rparr> else Inl v)))"

definition second_ns :: int where "second_ns = 1000000000"

definition day_ns :: int where "day_ns = 86400 * second_ns"

definition time_of_day :: "DailyUtcSchedule \<Rightarrow> int" where
  "time_of_day schedule = (int (du_hour schedule) * 3600 + int (du_minute schedule) * 60) * second_ns"

definition next_after :: "DailyUtcSchedule \<Rightarrow> int \<Rightarrow> int" where
  "next_after schedule now =
     (let candidate = (now div day_ns) * day_ns + time_of_day schedule
      in if now < candidate then candidate else candidate + day_ns)"

text \<open>In whole seconds, the rest cut off.\<close>

definition std_duration_until :: "int \<Rightarrow> int \<Rightarrow> int" where
  "std_duration_until now upcoming = max 0 ((upcoming - now) sdiv second_ns)"

definition uptime_seconds :: "int \<Rightarrow> int \<Rightarrow> i64" where
  "uptime_seconds started_at now = of_int (max 0 ((now - started_at) sdiv second_ns))"

section \<open>The state\<close>

text \<open>A cancellation token is shared by its holders: a number, and the tokens cancelled so far.\<close>

type_synonym token = nat

record RuntimeState =
  ry_status :: RuntimeStatus
  ry_current_run :: "CurrentRunSnapshot option"
  ry_latest_run :: "RunSnapshot option"
  ry_latest_error :: "string option"
  ry_metrics :: RuntimeMetrics
  ry_cancellation :: "token option"
  ry_scheduled_skips :: i64

text \<open>A spawned run; the time is there once it has started.\<close>

record run_task =
  tk_trigger :: SyncRunTrigger
  tk_token :: token
  tk_started :: "int option"

record service =
  sv_state :: RuntimeState
  sv_started_at :: int
  sv_tasks :: "run_task list"
  sv_cancelled :: "token list"
  sv_next_token :: token

definition latest_run_from_state :: "StateError + db \<Rightarrow> StateError + RunSnapshot option" where
  "latest_run_from_state opened =
     (case opened of
        Inl e \<Rightarrow> Inl e
      | Inr d \<Rightarrow>
          (case fst (get_latest_run d) of
             Inl e \<Rightarrow> Inl e
           | Inr found \<Rightarrow> Inr (map_option run_snapshot found)))"

definition latest_success_from_state :: "StateError + db \<Rightarrow> StateError + SyncRunRecord option" where
  "latest_success_from_state opened =
     (case opened of Inl e \<Rightarrow> Inl e | Inr d \<Rightarrow> fst (get_latest_successful_run d))"

text \<open>\<open>.ok().flatten()\<close>\<close>

definition flatten_ok :: "'e + 'a option \<Rightarrow> 'a option" where
  "flatten_ok r = (case r of Inl _ \<Rightarrow> None | Inr x \<Rightarrow> x)"

definition service_new :: "int \<Rightarrow> StateError + db \<Rightarrow> service" where
  "service_new now opened =
     \<lparr>sv_state = \<lparr>ry_status = RsIdle, ry_current_run = None, ry_latest_run = flatten_ok (latest_run_from_state opened),
                  ry_latest_error = None, ry_metrics = metrics_default, ry_cancellation = None,
                  ry_scheduled_skips = 0\<rparr>,
      sv_started_at = now, sv_tasks = [], sv_cancelled = [], sv_next_token = 0\<rparr>"

section \<open>Operations\<close>

definition request_run ::
  "(int \<Rightarrow> string) \<Rightarrow> int \<Rightarrow> SyncRunTrigger \<Rightarrow> service \<Rightarrow> RuntimeCommandResponse \<times> service" where
  "request_run utc_text now trigger sv =
     (let state = sv_state sv; cancellation = sv_next_token sv; sv = sv\<lparr>sv_next_token := cancellation + 1\<rparr>
      in if ry_status state = RsRunning \<or> ry_status state = RsCancelling
         then (\<lparr>cr_accepted = False, cr_status = ry_status state, cr_message = ''already_running''\<rparr>,
               if trigger = TrScheduled
               then sv\<lparr>sv_state := state\<lparr>ry_scheduled_skips := ry_scheduled_skips state + 1\<rparr>\<rparr> else sv)
         else (\<lparr>cr_accepted = True, cr_status = RsRunning, cr_message = ''started''\<rparr>,
               sv\<lparr>sv_state := state\<lparr>ry_status := RsRunning,
                     ry_current_run := Some \<lparr>cu_trigger = SyncRunTrigger_as_str trigger, cu_started_at_utc = utc_text now\<rparr>,
                     ry_latest_error := None, ry_cancellation := Some cancellation\<rparr>,
                  sv_tasks := sv_tasks sv @ [\<lparr>tk_trigger = trigger, tk_token = cancellation, tk_started = None\<rparr>]\<rparr>))"

definition request_cancel :: "service \<Rightarrow> RuntimeCommandResponse \<times> service" where
  "request_cancel sv =
     (let state = sv_state sv
      in case ry_cancellation state of
           None \<Rightarrow> (\<lparr>cr_accepted = False, cr_status = ry_status state, cr_message = ''not_running''\<rparr>, sv)
         | Some cancellation \<Rightarrow>
             (\<lparr>cr_accepted = True, cr_status = RsCancelling, cr_message = ''cancelling''\<rparr>,
              sv\<lparr>sv_state := state\<lparr>ry_status := RsCancelling\<rparr>, sv_cancelled := cancellation # sv_cancelled sv\<rparr>))"

definition service_snapshot :: "int \<Rightarrow> StateError + db \<Rightarrow> service \<Rightarrow> RuntimeSnapshot \<times> service" where
  "service_snapshot now opened sv =
     (let latest_from_state = flatten_ok (latest_run_from_state opened);
          state = sv_state sv;
          state = (if latest_from_state \<noteq> None then state\<lparr>ry_latest_run := latest_from_state\<rparr> else state)
      in (\<lparr>rv_status = ry_status state, rv_uptime_seconds = uptime_seconds (sv_started_at sv) now,
           rv_current_run = ry_current_run state, rv_latest_run = ry_latest_run state,
           rv_latest_error = ry_latest_error state, rv_scheduled_skips = ry_scheduled_skips state\<rparr>,
          sv\<lparr>sv_state := state\<rparr>))"

definition service_metrics :: "service \<Rightarrow> RuntimeMetrics" where
  "service_metrics sv = ry_metrics (sv_state sv)"

text \<open>The two reads of the database each open it.\<close>

definition service_health ::
  "string \<Rightarrow> int \<Rightarrow> StateError + db \<Rightarrow> StateError + db \<Rightarrow> service \<Rightarrow> HealthResponse \<times> service" where
  "service_health version now opened opened_again sv =
     (case service_snapshot now opened sv of (snapshot, sv) \<Rightarrow>
        (\<lparr>hr_status = (case rv_status snapshot of RsFailed \<Rightarrow> ''failed'' | RsDegraded \<Rightarrow> ''degraded'' | _ \<Rightarrow> ''ok''),
          hr_version = version, hr_uptime_seconds = rv_uptime_seconds snapshot,
          hr_current_run = rv_current_run snapshot,
          hr_last_successful_sync_at_utc =
            Option.bind (flatten_ok (latest_success_from_state opened_again)) rr_finished_at_utc\<rparr>,
         sv))"

definition metrics_from_report :: "SyncRunReport \<Rightarrow> int \<Rightarrow> int \<Rightarrow> RuntimeMetrics" where
  "metrics_from_report report started finished =
     (let duration = max 0 ((finished - started) sdiv second_ns); summary = sp_summary report
      in \<lparr>rk_scanned_files = su_scanned_files summary, rk_uploaded_files = su_uploaded_files summary,
          rk_updated_files = su_updated_files summary, rk_deleted_files = su_deleted_files summary,
          rk_skipped_files = su_skipped_files summary, rk_failed_files = su_failed_files summary,
          rk_bytes_uploaded = su_bytes_uploaded summary, rk_last_duration_seconds = of_int duration,
          rk_average_upload_speed_bytes_per_second =
            (if 0 < duration then of_int (sint (su_bytes_uploaded summary) sdiv duration) else 0)\<rparr>)"

fun status_after_run :: "SyncRunStatus \<Rightarrow> RuntimeStatus" where
  "status_after_run RunSucceeded = RsIdle"
| "status_after_run RunCancelled = RsIdle"
| "status_after_run RunPartialFailed = RsDegraded"
| "status_after_run RunFailed = RsFailed"
| "status_after_run RunRunning = RsRunning"

text \<open>The result is the text of an error or the report.\<close>

definition service_finish_run ::
  "(int \<Rightarrow> string) \<Rightarrow> SyncRunTrigger \<Rightarrow> int \<Rightarrow> int \<Rightarrow> string + SyncRunReport \<Rightarrow> RuntimeState \<Rightarrow> RuntimeState" where
  "service_finish_run utc_text trigger started finished result state =
     (let state = state\<lparr>ry_current_run := None, ry_cancellation := None\<rparr>
      in case result of
           Inr report \<Rightarrow>
             state\<lparr>ry_metrics := metrics_from_report report started finished,
                   ry_latest_run := Some
                     \<lparr>rn_id = sp_run_id report, rn_started_at_utc = utc_text started,
                      rn_finished_at_utc = Some (utc_text finished), rn_trigger = SyncRunTrigger_as_str trigger,
                      rn_status = SyncRunStatus_as_str (sp_status report), rn_summary = summary_json (sp_summary report)\<rparr>,
                   ry_latest_error := su_error_summary (sp_summary report),
                   ry_status := status_after_run (sp_status report)\<rparr>
         | Inl error \<Rightarrow> state\<lparr>ry_latest_error := Some error, ry_status := RsFailed\<rparr>)"

section \<open>The task of a run\<close>

text \<open>
  \<open>EngineSyncTask::run\<close>: \<open>unavailable\<close> is the text of the error when the token store, the repository or
  the client cannot be opened.
\<close>

definition engine_sync_task ::
  "'w migration_env \<Rightarrow> AppConfig \<Rightarrow> string \<Rightarrow> string option \<Rightarrow> SyncRunTrigger \<Rightarrow> ('w sync_state, string, SyncRunReport) m" where
  "engine_sync_task mv config uuid unavailable trigger =
     (case unavailable of
        Some text \<Rightarrow> throw text
      | None \<Rightarrow>
          errM (\<lambda>e. ''sync error: '' @ SyncError_text e)
            (engine_run_once mv config ((sync_run_options_default uuid)\<lparr>sro_trigger := trigger\<rparr>)))"

text \<open>What a run with a trigger may come back with.\<close>

definition engine_outcome ::
  "'w migration_env \<Rightarrow> AppConfig \<Rightarrow> SyncRunTrigger \<Rightarrow> string + SyncRunReport \<Rightarrow> bool" where
  "engine_outcome mv config trigger result =
     (\<exists>uuid unavailable s s'. engine_sync_task mv config uuid unavailable trigger s = (result, s'))"

section \<open>Steps\<close>

definition start_task :: "int \<Rightarrow> nat \<Rightarrow> service \<Rightarrow> service" where
  "start_task now i sv = sv\<lparr>sv_tasks := (sv_tasks sv)[i := (sv_tasks sv ! i)\<lparr>tk_started := Some now\<rparr>]\<rparr>"

definition end_task ::
  "(int \<Rightarrow> string) \<Rightarrow> int \<Rightarrow> int \<Rightarrow> string + SyncRunReport \<Rightarrow> nat \<Rightarrow> service \<Rightarrow> service" where
  "end_task utc_text started now result i sv =
     sv\<lparr>sv_state := service_finish_run utc_text (tk_trigger (sv_tasks sv ! i)) started now result (sv_state sv),
        sv_tasks := take i (sv_tasks sv) @ drop (Suc i) (sv_tasks sv)\<rparr>"

text \<open>
  A step: a request, of the web interface or of the scheduler, a cancellation, a snapshot, a spawned
  run that starts or comes back.
\<close>

inductive service_step ::
  "(int \<Rightarrow> string) \<Rightarrow> (SyncRunTrigger \<Rightarrow> string + SyncRunReport \<Rightarrow> bool) \<Rightarrow> service \<Rightarrow> service \<Rightarrow> bool"
  for utc_text outcome where
  request: "request_run utc_text now trigger sv = (response, sv') \<Longrightarrow> service_step utc_text outcome sv sv'"
| cancel: "request_cancel sv = (response, sv') \<Longrightarrow> service_step utc_text outcome sv sv'"
| snapshot: "service_snapshot now opened sv = (snapshot, sv') \<Longrightarrow> service_step utc_text outcome sv sv'"
| start: "i < length (sv_tasks sv) \<Longrightarrow> tk_started (sv_tasks sv ! i) = None \<Longrightarrow>
    service_step utc_text outcome sv (start_task now i sv)"
| finish: "i < length (sv_tasks sv) \<Longrightarrow> tk_started (sv_tasks sv ! i) = Some started \<Longrightarrow>
    outcome (tk_trigger (sv_tasks sv ! i)) result \<Longrightarrow>
    service_step utc_text outcome sv (end_task utc_text started now result i sv)"

inductive service_reachable ::
  "(int \<Rightarrow> string) \<Rightarrow> (SyncRunTrigger \<Rightarrow> string + SyncRunReport \<Rightarrow> bool) \<Rightarrow> service \<Rightarrow> bool"
  for utc_text outcome where
  created: "service_reachable utc_text outcome (service_new now opened)"
| step: "service_reachable utc_text outcome sv \<Longrightarrow> service_step utc_text outcome sv sv' \<Longrightarrow>
    service_reachable utc_text outcome sv'"

definition in_flight :: "RuntimeStatus \<Rightarrow> bool" where
  "in_flight status = (status = RsRunning \<or> status = RsCancelling)"

text \<open>Idle with nothing spawned, or one run with its token, cancelled or not.\<close>

definition service_inv :: "service \<Rightarrow> bool" where
  "service_inv sv =
     ((case sv_tasks sv of
         [] \<Rightarrow> \<not> in_flight (ry_status (sv_state sv)) \<and> ry_current_run (sv_state sv) = None \<and>
               ry_cancellation (sv_state sv) = None
       | [t] \<Rightarrow> in_flight (ry_status (sv_state sv)) \<and> ry_current_run (sv_state sv) \<noteq> None \<and>
               ry_cancellation (sv_state sv) = Some (tk_token t) \<and> tk_token t < sv_next_token sv \<and>
               (ry_status (sv_state sv) = RsCancelling \<longleftrightarrow> tk_token t \<in> set (sv_cancelled sv))
       | _ \<Rightarrow> False) \<and>
      list_all (\<lambda>token. token < sv_next_token sv) (sv_cancelled sv))"

lemma service_inv_cases:
  assumes "service_inv sv"
  obtains (idle) "sv_tasks sv = []" "\<not> in_flight (ry_status (sv_state sv))" "ry_current_run (sv_state sv) = None"
      "ry_cancellation (sv_state sv) = None" "list_all (\<lambda>token. token < sv_next_token sv) (sv_cancelled sv)"
  | (running) t where "sv_tasks sv = [t]" "in_flight (ry_status (sv_state sv))" "ry_current_run (sv_state sv) \<noteq> None"
      "ry_cancellation (sv_state sv) = Some (tk_token t)" "tk_token t < sv_next_token sv"
      "ry_status (sv_state sv) = RsCancelling \<longleftrightarrow> tk_token t \<in> set (sv_cancelled sv)"
      "list_all (\<lambda>token. token < sv_next_token sv) (sv_cancelled sv)"
  using assms unfolding service_inv_def by (auto split: list.splits)

lemma service_new_inv: "service_inv (service_new now opened)"
  by (simp add: service_new_def service_inv_def in_flight_def)

lemma request_run_inv: "service_inv sv \<Longrightarrow> service_inv (snd (request_run utc_text now trigger sv))"
  by (erule service_inv_cases)
    (auto simp: request_run_def service_inv_def in_flight_def Let_def list_all_iff less_Suc_eq)

lemma request_cancel_inv: "service_inv sv \<Longrightarrow> service_inv (snd (request_cancel sv))"
  by (erule service_inv_cases) (auto simp: request_cancel_def service_inv_def in_flight_def Let_def)

lemma snapshot_inv: "service_inv sv \<Longrightarrow> service_inv (snd (service_snapshot now opened sv))"
  by (erule service_inv_cases) (auto simp: service_snapshot_def service_inv_def Let_def)

lemma start_task_inv: "service_inv sv \<Longrightarrow> i < length (sv_tasks sv) \<Longrightarrow> service_inv (start_task now i sv)"
  by (erule service_inv_cases) (auto simp: start_task_def service_inv_def)

text \<open>The contract of a \<open>RuntimeSyncTask\<close>: a report it gives back is not that of a run under way.\<close>

locale runtime_sync_task =
  fixes outcome :: "SyncRunTrigger \<Rightarrow> string + SyncRunReport \<Rightarrow> bool"
  assumes settled: "outcome trigger (Inr report) \<Longrightarrow> sp_status report \<noteq> RunRunning"
begin

lemma end_task_inv:
  assumes "service_inv sv" "i < length (sv_tasks sv)" "outcome (tk_trigger (sv_tasks sv ! i)) result"
  shows "service_inv (end_task utc_text started now result i sv)"
proof -
  have "\<not> in_flight (status_after_run (sp_status report))" if "result = Inr report" for report
    using settled assms(3) that by (cases "sp_status report") (auto simp: in_flight_def)
  then show ?thesis
    using assms(1,2)
    by (elim service_inv_cases)
      (auto simp: end_task_def service_finish_run_def service_inv_def in_flight_def Let_def split: sum.split)
qed

lemma step_inv: "service_step utc_text outcome sv sv' \<Longrightarrow> service_inv sv \<Longrightarrow> service_inv sv'"
  by (erule service_step.cases)
    (auto dest: request_run_inv request_cancel_inv snapshot_inv start_task_inv end_task_inv
      simp: prod_eq_iff)

lemma reachable_inv: "service_reachable utc_text outcome sv \<Longrightarrow> service_inv sv"
  by (induction rule: service_reachable.induct) (auto intro: service_new_inv step_inv)

end

end
