(* ===== verification/Web_Ui.thy ===== *)
theory Web_Ui
  imports Service_Runtime
begin

text \<open>
  \<open>crates/yds-web/src/lib.rs\<close>: who may use the web interface, and its pages. A page is the text the code
  formats, with everything that comes from the configuration, the database or the log escaped. The JSON
  text of the configuration, the key ring and the directory of the logs are parameters.
\<close>

section \<open>Authorization\<close>

definition utf8_byte :: "char \<Rightarrow> bytes" where
  "utf8_byte c =
     (if code c < 128 then [of_nat (code c)]
      else [of_nat (192 + code c div 64), of_nat (128 + code c mod 64)])"

definition as_bytes :: "string \<Rightarrow> bytes" where
  "as_bytes s = concat (map utf8_byte s)"

definition constant_time_eq :: "bytes \<Rightarrow> bytes \<Rightarrow> bool" where
  "constant_time_eq left right =
     (if length left \<noteq> length right then False
      else foldl (\<lambda>acc (l, r). or acc (xor l r)) 0 (zip left right) = 0)"

datatype WebAuth = AuthDisabled | AuthBearer string

definition web_auth_from_bind_address :: "string \<Rightarrow> string + string option \<Rightarrow> string + WebAuth" where
  "web_auth_from_bind_address bind_address stored =
     (if is_loopback_bind bind_address then Inr AuthDisabled
      else case stored of
        Inl e \<Rightarrow> Inl e
      | Inr None \<Rightarrow> Inl (''keyring access failed: web token is required for non-loopback bind; run `ya-disk-sync web token rotate`'')
      | Inr (Some token) \<Rightarrow> Inr (AuthBearer token))"

fun authorize_header :: "WebAuth \<Rightarrow> string option \<Rightarrow> bool" where
  "authorize_header AuthDisabled authorization = True"
| "authorize_header (AuthBearer token) authorization =
     (case Option.bind authorization (strip_prefix ''Bearer '') of
        None \<Rightarrow> False
      | Some provided \<Rightarrow> constant_time_eq (as_bytes provided) (as_bytes token))"

fun requires_auth :: "WebAuth \<Rightarrow> bool" where
  "requires_auth AuthDisabled = False"
| "requires_auth (AuthBearer token) = True"

section \<open>Escaping\<close>

text \<open>\<open>str::replace\<close> of one character.\<close>

definition replace_char :: "char \<Rightarrow> string \<Rightarrow> string \<Rightarrow> string" where
  "replace_char c by' s = concat (map (\<lambda>x. if x = c then by' else [x]) s)"

definition escape_html :: "string \<Rightarrow> string" where
  "escape_html v =
     replace_char (CHR 0x27) ''&#39;'' (replace_char (CHR 0x22) ''&quot;''
       (replace_char (CHR ''>'') ''&gt;'' (replace_char (CHR ''<'') ''&lt;''
         (replace_char (CHR ''&'') ''&amp;'' v))))"

section \<open>What the pages show\<close>

datatype QuotaView =
    QuotaUnavailable
  | QuotaAvailable "u64 option" "u64 option" "u64 option" "u64 option"
    \<comment> \<open>total, used, trash, available\<close>

record WebUiState =
  wb_config :: AppConfig
  wb_roots :: "SyncRootRecord list"
  wb_recent_runs :: "SyncRunRecord list"
  wb_skipped :: "RecentSkippedItemRecord list"
  wb_failed :: "RecentFailedItemRecord list"
  wb_operations :: "OperationJournalRecord list"
  wb_log_lines :: "string list"
  wb_quota :: QuotaView

record RuntimeWebView =
  rw_status :: string
  rw_uptime_seconds :: i64
  rw_current_run :: "string option"
  rw_last_successful_sync_at_utc :: "string option"
  rw_latest_run_status :: "string option"
  rw_metrics :: RuntimeMetrics

datatype WebPage =
    PgDashboard | PgRoots | PgExclusions | PgSchedule | PgConfig | PgState | PgLogs | PgFailedSkipped | PgQuota

fun page_title :: "WebPage \<Rightarrow> string" where
  "page_title PgDashboard = ''Dashboard''"
| "page_title PgRoots = ''Sync roots''"
| "page_title PgExclusions = ''Exclusions''"
| "page_title PgSchedule = ''Schedule''"
| "page_title PgConfig = ''Config''"
| "page_title PgState = ''State''"
| "page_title PgLogs = ''Logs''"
| "page_title PgFailedSkipped = ''Failed / skipped''"
| "page_title PgQuota = ''Remote quota''"

fun page_path :: "WebPage \<Rightarrow> string" where
  "page_path PgDashboard = ''/''"
| "page_path PgRoots = ''/roots''"
| "page_path PgExclusions = ''/exclusions''"
| "page_path PgSchedule = ''/schedule''"
| "page_path PgConfig = ''/config''"
| "page_path PgState = ''/state''"
| "page_path PgLogs = ''/logs''"
| "page_path PgFailedSkipped = ''/failed-skipped''"
| "page_path PgQuota = ''/quota''"

definition web_pages :: "WebPage list" where
  "web_pages = [PgDashboard, PgRoots, PgExclusions, PgSchedule, PgConfig, PgState, PgLogs, PgFailedSkipped, PgQuota]"

section \<open>The state of the pages\<close>

text \<open>\<open>str::lines\<close>: split at line feeds, without a last empty line, a carriage return before the feed dropped.\<close>

definition newline :: string where "newline = [CHR 0x0A]"

definition drop_return :: "string \<Rightarrow> string" where
  "drop_return l = (if l \<noteq> [] \<and> last l = CHR 0x0D then butlast l else l)"

definition text_lines :: "string \<Rightarrow> string list" where
  "text_lines content =
     (let parts = str_split (\<lambda>c. c = CHR 0x0A) content
      in map drop_return (butlast parts) @ (if last parts = [] then [] else [last parts]))"

text \<open>
  The entries of the log directory: whether each is a file, its modification time where it can be read,
  and what reading it gives. Any error shows no lines.
\<close>

record log_entry =
  le_is_file :: "bool option"
  le_modified :: "int option"
  le_content :: "string option"

definition tail_latest_log :: "log_entry list option \<Rightarrow> nat \<Rightarrow> string list option" where
  "tail_latest_log listing lines =
     (case listing of
        None \<Rightarrow> None
      | Some entries \<Rightarrow>
          if list_ex (\<lambda>e. le_is_file e = None) entries then None
          else let files = sort_key (\<lambda>e. case le_modified e of Some t \<Rightarrow> t | None \<Rightarrow> 0)
                             (filter (\<lambda>e. le_is_file e = Some True) entries)
               in if files = [] then Some []
                  else map_option (\<lambda>content. let all = text_lines content in drop (length all - lines) all)
                         (le_content (last files)))"

definition logging_tail :: "log_entry list option \<Rightarrow> nat \<Rightarrow> string list" where
  "logging_tail listing lines = (case tail_latest_log listing lines of None \<Rightarrow> [] | Some l \<Rightarrow> l)"

text \<open>\<open>WebApp::state\<close>: the reads on a connection of its own.\<close>

definition web_state ::
  "AppConfig \<Rightarrow> StateError + db \<Rightarrow> log_entry list option \<Rightarrow> nat \<Rightarrow> StateError + WebUiState" where
  "web_state config opened listing log_lines =
     (case opened of
        Inl e \<Rightarrow> Inl e
      | Inr d \<Rightarrow>
          fst (bindM list_sync_roots (\<lambda>roots.
               bindM (list_recent_runs 20) (\<lambda>recent_runs.
               bindM (list_recent_skipped_items 50) (\<lambda>skipped.
               bindM (list_recent_failed_items 50) (\<lambda>failed.
               bindM (list_recent_operations 50) (\<lambda>operations.
                 ret \<lparr>wb_config = config, wb_roots = roots, wb_recent_runs = recent_runs, wb_skipped = skipped,
                      wb_failed = failed, wb_operations = operations,
                      wb_log_lines = logging_tail listing log_lines, wb_quota = QuotaUnavailable\<rparr>))))) d))"

section \<open>The pages\<close>

definition shell_head :: string where
  \<open>shell_head = str_join newline
     [''<!doctype html>'',
      ''<html lang="en">'',
      ''<head>'',
      ''<meta charset="utf-8">'',
      ''<meta name="viewport" content="width=device-width, initial-scale=1">'',
      ''<title>ya-disk-sync - '']\<close>

definition shell_style :: string where
  \<open>shell_style = str_join newline
     [''</title>'',
      ''<style>'',
      '':root { color-scheme: light; --bg:#f7f8fa; --panel:#ffffff; --text:#17202a; --muted:#697586; --line:#d9dee7; --accent:#1466c3; --danger:#b42318; --ok:#067647; }'',
      ''* { box-sizing:border-box; }'',
      ''body { margin:0; font:14px/1.45 system-ui, -apple-system, Segoe UI, sans-serif; color:var(--text); background:var(--bg); }'',
      ''header { display:flex; align-items:center; justify-content:space-between; padding:14px 24px; border-bottom:1px solid var(--line); background:#fff; }'',
      ''header h1 { margin:0; font-size:18px; font-weight:650; }'',
      ''nav { display:flex; gap:2px; padding:0 24px; border-bottom:1px solid var(--line); background:#fff; overflow:auto; }'',
      ''nav a { color:var(--muted); text-decoration:none; padding:10px 12px; border-bottom:2px solid transparent; white-space:nowrap; }'',
      ''nav a.active { color:var(--accent); border-color:var(--accent); }'',
      ''main { max-width:1180px; margin:0 auto; padding:20px 24px 40px; }'',
      ''.grid { display:grid; gap:12px; grid-template-columns:repeat(auto-fit,minmax(220px,1fr)); }'',
      ''.panel { background:var(--panel); border:1px solid var(--line); border-radius:6px; padding:14px; }'',
      ''.panel h2 { margin:0 0 10px; font-size:16px; }'',
      ''.metric { font-size:24px; font-weight:650; }'',
      ''.muted { color:var(--muted); }'',
      ''.ok { color:var(--ok); }'',
      ''.danger { color:var(--danger); }'',
      ''table { width:100%; border-collapse:collapse; background:#fff; border:1px solid var(--line); }'',
      ''th,td { text-align:left; border-bottom:1px solid var(--line); padding:8px 10px; vertical-align:top; }'',
      ''th { color:var(--muted); font-weight:600; background:#fbfcfe; }'',
      ''pre, textarea { width:100%; overflow:auto; border:1px solid var(--line); border-radius:6px; background:#fff; padding:12px; font:12px/1.45 ui-monospace, SFMono-Regular, Consolas, monospace; }'',
      ''textarea { min-height:420px; }'',
      ''.actions { display:flex; gap:8px; flex-wrap:wrap; margin:0 0 14px; }'',
      ''button { border:1px solid var(--line); background:#fff; color:var(--text); border-radius:5px; padding:8px 10px; cursor:pointer; }'',
      ''button.primary { background:var(--accent); color:#fff; border-color:var(--accent); }'',
      ''</style>'',
      ''</head>'',
      ''<body>'',
      ''<header><h1>ya-disk-sync</h1><div>'']\<close>

definition shell_heading :: string where
  \<open>shell_heading = str_join newline
     [''</div></header>'',
      ''<nav>'']\<close>

definition shell_nav :: string where
  \<open>shell_nav = str_join newline
     [''</nav>'',
      ''<main>'']\<close>

definition shell_foot :: string where
  \<open>shell_foot = str_join newline
     [''</main>'',
      ''</body>'',
      ''</html>'']\<close>

definition render_link :: "WebPage \<Rightarrow> WebPage \<Rightarrow> string" where
  \<open>render_link active page =
     ''<a'' @ (if page = active then '' class="active"'' else '''') @ '' href="'' @ page_path page @ ''">'' @
     escape_html (page_title page) @ ''</a>''\<close>

definition render_shell :: "string \<Rightarrow> WebPage \<Rightarrow> string \<Rightarrow> string" where
  "render_shell title active body =
     shell_head @ escape_html title @ shell_style @ escape_html title @ shell_heading @
     concat (map (render_link active) web_pages) @ shell_nav @ body @ shell_foot"

definition show_i64 :: "i64 \<Rightarrow> string" where "show_i64 v = show_int (sint v)"

definition show_bool :: "bool \<Rightarrow> string" where "show_bool b = (if b then ''true'' else ''false'')"

definition escaped_or :: "string \<Rightarrow> string option \<Rightarrow> string" where
  "escaped_or fallback v = (case v of None \<Rightarrow> fallback | Some s \<Rightarrow> escape_html s)"

definition render_dashboard :: "WebUiState \<Rightarrow> RuntimeWebView \<Rightarrow> string" where
  \<open>render_dashboard state runtime =
     ''<div class="actions">'' @ newline @
     ''<form method="post" action="/api/sync/run"><button class="primary" type="submit">Run now</button></form>'' @ newline @
     ''<form method="post" action="/api/sync/stop"><button type="submit">Stop</button></form>'' @ newline @
     ''</div>'' @ newline @
     ''<section class="grid">'' @ newline @
     ''<div class="panel"><h2>Status</h2><div class="metric">'' @ escape_html (rw_status runtime) @
     ''</div><div class="muted">uptime '' @ show_i64 (rw_uptime_seconds runtime) @ '' s</div></div>'' @ newline @
     ''<div class="panel"><h2>Last successful sync</h2><div>'' @
     escaped_or ''none'' (rw_last_successful_sync_at_utc runtime) @ ''</div></div>'' @ newline @
     ''<div class="panel"><h2>Uploaded</h2><div class="metric">'' @ show_i64 (rk_uploaded_files (rw_metrics runtime)) @
     ''</div><div class="muted">'' @ show_i64 (rk_bytes_uploaded (rw_metrics runtime)) @ '' bytes</div></div>'' @ newline @
     ''<div class="panel"><h2>Failed / skipped</h2><div class="metric">'' @ show_i64 (rk_failed_files (rw_metrics runtime)) @
     '' / '' @ show_i64 (rk_skipped_files (rw_metrics runtime)) @ ''</div></div>'' @ newline @
     ''</section>'' @ newline @
     ''<section class="panel"><h2>Latest run</h2>'' @ escaped_or ''none'' (rw_latest_run_status runtime) @ ''</section>'' @ newline @
     ''<section class="panel"><h2>Roots</h2><div class="metric">'' @ show_nat (length (cf_roots (wb_config state))) @
     ''</div><div class="muted">configured roots</div></section>''\<close>

definition config_root_row :: "SyncRootConfig \<Rightarrow> string" where
  \<open>config_root_row root =
     ''<tr><td>'' @ escape_html (rc_id root) @ ''</td><td>'' @ escape_html (rc_local_path root) @ ''</td><td>'' @
     escape_html (case rc_remote_path_override root of None \<Rightarrow> ''auto'' | Some p \<Rightarrow> p) @ ''</td><td>'' @
     show_bool (rc_enabled root) @ ''</td><td class="muted">not seen</td></tr>''\<close>

definition seen_root_row :: "SyncRootRecord \<Rightarrow> string" where
  \<open>seen_root_row root =
     ''<tr><td>'' @ escape_html (sr_id root) @ ''</td><td>'' @ escape_html (sr_local_path root) @ ''</td><td>'' @
     escape_html (sr_canonical_remote_path root) @ ''</td><td>'' @ show_bool (sr_enabled root) @ ''</td><td>'' @
     escaped_or '''' (sr_last_status root) @
     (case sr_last_error root of
        None \<Rightarrow> ''''
      | Some error \<Rightarrow> ''<br><span class="danger">'' @ escape_html error @ ''</span>'') @ ''</td></tr>''\<close>

definition render_roots :: "WebUiState \<Rightarrow> string" where
  "render_roots state =
     ''<table><thead><tr><th>id</th><th>local path</th><th>remote path</th><th>enabled</th><th>status</th></tr></thead><tbody>'' @
     (if wb_roots state = [] then concat (map config_root_row (cf_roots (wb_config state)))
      else concat (map seen_root_row (wb_roots state))) @ ''</tbody></table>''"

definition render_exclusions :: "WebUiState \<Rightarrow> string" where
  \<open>render_exclusions state =
     ''<section class="grid"><div class="panel"><h2>Global excludes</h2><pre>'' @
     escape_html (str_join newline (cf_global_excludes (wb_config state))) @
     ''</pre></div><div class="panel"><h2>Absolute excludes</h2><pre>'' @
     escape_html (str_join newline (cf_absolute_excludes (wb_config state))) @ ''</pre></div></section>''\<close>

definition render_schedule :: "WebUiState \<Rightarrow> string" where
  \<open>render_schedule state =
     ''<section class="panel"><h2>Schedule</h2><table><tbody><tr><th>enabled</th><td>'' @
     show_bool (sc_enabled (cf_schedule (wb_config state))) @ ''</td></tr><tr><th>start UTC</th><td>'' @
     escape_html (sc_start_time_utc (cf_schedule (wb_config state))) @ ''</td></tr><tr><th>manual run</th><td>'' @
     show_bool (sc_allow_manual_run (cf_schedule (wb_config state))) @ ''</td></tr></tbody></table></section>''\<close>

definition render_config :: "(AppConfig \<Rightarrow> string) \<Rightarrow> WebUiState \<Rightarrow> string option \<Rightarrow> string" where
  \<open>render_config config_json state config_path =
     ''<section class="panel"><h2>Config</h2><p class="muted">'' @
     escaped_or ''config path unavailable'' config_path @ '' - changes require daemon restart.</p>'' @ newline @
     ''<form method="post" action="/api/config"><textarea name="config">'' @ escape_html (config_json (wb_config state)) @
     ''</textarea><p><button class="primary" type="submit">Validate and save</button></p></form></section>''\<close>

definition run_row :: "SyncRunRecord \<Rightarrow> string" where
  "run_row run =
     ''<tr><td>'' @ show_int (rr_id run) @ ''</td><td>'' @ escape_html (SyncRunTrigger_as_str (rr_trigger run)) @
     ''</td><td>'' @ escape_html (SyncRunStatus_as_str (rr_status run)) @ ''</td><td>'' @
     show_i64 (su_scanned_files (rr_summary run)) @ ''</td><td>'' @ show_i64 (su_failed_files (rr_summary run)) @ ''</td></tr>''"

definition render_state :: "WebUiState \<Rightarrow> string" where
  "render_state state =
     ''<table><thead><tr><th>run</th><th>trigger</th><th>status</th><th>scanned</th><th>failed</th></tr></thead><tbody>'' @
     concat (map run_row (wb_recent_runs state)) @ ''</tbody></table>''"

definition render_logs :: "WebUiState \<Rightarrow> string" where
  "render_logs state = ''<pre>'' @ escape_html (str_join newline (wb_log_lines state)) @ ''</pre>''"

definition failed_item_row :: "RecentFailedItemRecord \<Rightarrow> string" where
  "failed_item_row r =
     ''<tr><td>'' @ escape_html (fa_root_id (rfa_item r)) @ ''</td><td>'' @ escape_html (fa_operation (rfa_item r)) @
     ''</td><td>'' @ escape_html (fa_error_kind (rfa_item r)) @ ''</td><td>'' @
     escape_html (fa_error_message (rfa_item r)) @ ''</td></tr>''"

definition skipped_item_row :: "RecentSkippedItemRecord \<Rightarrow> string" where
  "skipped_item_row r =
     ''<tr><td>'' @ escape_html (sk_root_id (rsk_item r)) @ ''</td><td>'' @ escape_html (sk_local_path (rsk_item r)) @
     ''</td><td>'' @ escape_html (sk_reason_code (rsk_item r)) @ ''</td><td>'' @
     show_i64 (case sk_size_bytes (rsk_item r) of None \<Rightarrow> 0 | Some n \<Rightarrow> n) @ ''</td></tr>''"

definition render_failed_skipped :: "WebUiState \<Rightarrow> string" where
  \<open>render_failed_skipped state =
     ''<section class="panel"><h2>Failed</h2><table><tbody>'' @ concat (map failed_item_row (wb_failed state)) @
     ''</tbody></table></section><section class="panel"><h2>Skipped</h2><table><tbody>'' @
     concat (map skipped_item_row (wb_skipped state)) @ ''</tbody></table></section>''\<close>

definition quota_value :: "u64 option \<Rightarrow> string" where
  "quota_value v = (case v of None \<Rightarrow> ''unknown'' | Some n \<Rightarrow> show_nat (unat n))"

definition render_quota :: "WebUiState \<Rightarrow> string" where
  \<open>render_quota state =
     (case wb_quota state of
        QuotaUnavailable \<Rightarrow> ''<section class="panel"><h2>Remote quota</h2><p class="muted">unavailable</p></section>''
      | QuotaAvailable total_space used_space trash_size available_space \<Rightarrow>
          ''<section class="panel"><h2>Remote quota</h2><table><tbody><tr><th>total</th><td>'' @ quota_value total_space @
          ''</td></tr><tr><th>used</th><td>'' @ quota_value used_space @ ''</td></tr><tr><th>trash</th><td>'' @
          quota_value trash_size @ ''</td></tr><tr><th>available</th><td>'' @ quota_value available_space @
          ''</td></tr></tbody></table></section>'')\<close>

text \<open>\<open>WebApp::render\<close>\<close>

definition render_page ::
  "(AppConfig \<Rightarrow> string) \<Rightarrow> string option \<Rightarrow> WebPage \<Rightarrow> WebUiState \<Rightarrow> RuntimeWebView \<Rightarrow> string" where
  "render_page config_json config_path page state runtime =
     render_shell (page_title page) page
       (case page of
          PgDashboard \<Rightarrow> render_dashboard state runtime
        | PgRoots \<Rightarrow> render_roots state
        | PgExclusions \<Rightarrow> render_exclusions state
        | PgSchedule \<Rightarrow> render_schedule state
        | PgConfig \<Rightarrow> render_config config_json state config_path
        | PgState \<Rightarrow> render_state state
        | PgLogs \<Rightarrow> render_logs state
        | PgFailedSkipped \<Rightarrow> render_failed_skipped state
        | PgQuota \<Rightarrow> render_quota state)"

end
