(* ===== verification/Service_Props.thy ===== *)
theory Service_Props
  imports Service_Runtime
begin

text \<open>
  The runtime of the service of \<open>crates/yds-service/src/lib.rs\<close> over the engine: one run at a time in
  every reachable state, cancellation reaches the run in flight and no other, every run that comes
  back frees the service; and what the scheduler asks for, and when.
\<close>

section \<open>The engine as a task\<close>

lemma run_locked_settled: "yields (\<lambda>report. sp_status report \<noteq> RunRunning) (run_locked env config options guard)"
  unfolding yields_def by (blast dest: run_locked_records)

lemma conclude_then_report_settled:
  "yields (\<lambda>report. mr_status report \<noteq> RunRunning) (migration_report_of mv config n force)"
proof -
  have "mr_status r' \<noteq> RunRunning"
    if "seqM (migration_conclude_run env execution) get_migration_report s = (Inr r', s')" for env execution s r' s'
  proof -
    obtain r0 s0 where s: "s = (r0, s0)" by fastforce
    obtain r1 s1 where "migration_conclude_run env execution (r0, s0) = (Inr (), (r1, s1))" "mr_status r1 \<noteq> RunRunning"
      using migration_conclude_returns by blast
    then show ?thesis
      using that by (auto simp: s seqM_def bindM_def get_migration_report_def)
  qed
  then show ?thesis
    unfolding migration_report_of_def
    by (intro yields_bindM_any) (simp only: yields_def, blast)
qed

lemma migration_run_locked_settled:
  "yields (\<lambda>report. mr_status report \<noteq> RunRunning) (migration_run_locked mv config options guard)"
proof -
  have report: "yields (\<lambda>report. mr_status report \<noteq> RunRunning) (with_report r (migration_report_of mv config n force))" for r n force
    using conclude_then_report_settled unfolding yields_def with_report_Inr by blast
  show ?thesis
    unfolding migration_run_locked_def Let_def
    by (intro yields_seqM yields_bindM_any yields_bindM [OF report]) (auto split: sum.split)
qed

lemma migration_run_once_settled:
  "yields (\<lambda>report. mr_status report \<noteq> RunRunning) (migration_run_once mv config options)"
  unfolding migration_run_once_def
  by (auto intro!: yields_bindM_any migration_run_locked_settled split: sum.split option.split)

lemma yields_errM: "yields Q f \<Longrightarrow> yields Q (errM g f)"
  by (auto simp: yields_def errM_def map_err_def split: prod.splits sum.splits)

lemma engine_run_once_settled:
  "yields (\<lambda>report. sp_status report \<noteq> RunRunning) (engine_run_once mv config options)"
proof -
  have migrated: "yields (\<lambda>report. sp_status report \<noteq> RunRunning)
      (bindM (errM g (migration_run_once mv config o')) (\<lambda>report. ret (sync_report_from_migration report)))" for g o'
    by (rule yields_bindM [OF yields_errM [OF migration_run_once_settled]])
      (simp add: sync_report_from_migration_def)
  show ?thesis
    unfolding engine_run_once_def run_once_def
    by (auto intro!: migrated run_locked_settled yields_bindM_any [where f = "acquire_lock env o'" for env o']
        yields_bindM_any [where f = "ret False"] yields_bindM_any [where f = "should_auto_migrate env c" for env c] split: sum.split option.split)
qed

interpretation engine_task: runtime_sync_task "engine_outcome mv config" for mv config
proof
  fix trigger report
  assume "engine_outcome mv config trigger (Inr report)"
  then obtain uuid unavailable s s' where "engine_sync_task mv config uuid unavailable trigger s = (Inr report, s')"
    by (auto simp: engine_outcome_def)
  moreover have "yields (\<lambda>report. sp_status report \<noteq> RunRunning) (engine_sync_task mv config uuid unavailable trigger)"
    by (auto simp: engine_sync_task_def split: option.split intro: yields_errM engine_run_once_settled)
  ultimately show "sp_status report \<noteq> RunRunning" by (auto simp: yields_def)
qed

section \<open>One run at a time\<close>

text \<open>
  C21. Whatever requests, cancellations, schedule and runs of the engine interleave, at most one run is
  in flight; the service says it is running or cancelling exactly then, holds the token of that run,
  and the token is cancelled exactly when the status says cancelling. A request is accepted exactly
  when nothing is in flight, a cancellation exactly when something is.
\<close>

theorem service_one_run:
  assumes "service_reachable utc_text (engine_outcome mv config) sv"
  shows "length (sv_tasks sv) \<le> 1 \<and>
    in_flight (ry_status (sv_state sv)) = (sv_tasks sv \<noteq> []) \<and>
    ry_cancellation (sv_state sv) = map_option tk_token (first_row (sv_tasks sv)) \<and>
    list_ex (\<lambda>t. tk_token t \<in> set (sv_cancelled sv)) (sv_tasks sv) = (ry_status (sv_state sv) = RsCancelling) \<and>
    cr_accepted (fst (request_run utc_text now trigger sv)) = (sv_tasks sv = []) \<and>
    cr_accepted (fst (request_cancel sv)) = (sv_tasks sv \<noteq> [])"
  using engine_task.reachable_inv [OF assms]
  by (elim service_inv_cases) (auto simp: in_flight_def request_run_def request_cancel_def Let_def first_row_def)

text \<open>
  C22. A run of the engine that comes back, with a report or an error, leaves the service with nothing in
  flight: the status is idle, degraded or failed, and the next request is accepted, with a token
  that no earlier cancellation has reached.
\<close>

theorem service_recovers:
  assumes "service_reachable utc_text (engine_outcome mv config) sv"
    and "sv_tasks sv = [t]" and "engine_outcome mv config (tk_trigger t) result"
  shows "let sv' = end_task utc_text started now result 0 sv; next_sv = snd (request_run utc_text later trigger sv')
    in sv_tasks sv' = [] \<and> \<not> in_flight (ry_status (sv_state sv')) \<and> ry_cancellation (sv_state sv') = None \<and>
       cr_accepted (fst (request_run utc_text later trigger sv')) \<and>
       list_all (\<lambda>t. tk_trigger t = trigger \<and> tk_token t \<notin> set (sv_cancelled next_sv)) (sv_tasks next_sv) \<and>
       length (sv_tasks next_sv) = 1"
proof -
  let ?sv' = "end_task utc_text started now result 0 sv"
  have "service_inv ?sv'"
    using engine_task.end_task_inv [OF engine_task.reachable_inv [OF assms(1)], of 0] assms(2,3) by simp
  moreover have "sv_tasks ?sv' = []" using assms(2) by (simp add: end_task_def)
  ultimately have idle: "\<not> in_flight (ry_status (sv_state ?sv'))" "ry_cancellation (sv_state ?sv') = None"
      "list_all (\<lambda>token. token < sv_next_token ?sv') (sv_cancelled ?sv')"
    by (auto elim: service_inv_cases)
  then show ?thesis
    using \<open>sv_tasks ?sv' = []\<close>
    by (auto simp: Let_def request_run_def in_flight_def list_all_iff)
qed

section \<open>The schedule\<close>

text \<open>
  \<open>run_scheduler_until\<close>: one turn of its loop computes the next start, sleeps and requests a run;
  \<open>delay\<close> is what the sleep and the request take beyond it. The loop leaves at the shutdown.
\<close>

definition scheduler_wake :: "DailyUtcSchedule \<Rightarrow> int \<Rightarrow> int \<Rightarrow> int" where
  "scheduler_wake schedule now delay = now + std_duration_until now (next_after schedule now) * second_ns + delay"

primrec scheduler_loop :: "(int \<Rightarrow> string) \<Rightarrow> DailyUtcSchedule \<Rightarrow> int \<Rightarrow> int list \<Rightarrow> service \<Rightarrow> service" where
  "scheduler_loop utc_text schedule now [] sv = sv"
| "scheduler_loop utc_text schedule now (delay # delays) sv =
     (let wake = scheduler_wake schedule now delay
      in scheduler_loop utc_text schedule wake delays (snd (request_run utc_text wake TrScheduled sv)))"

definition run_scheduler_until ::
  "(int \<Rightarrow> string) \<Rightarrow> ScheduleConfig \<Rightarrow> int \<Rightarrow> int list \<Rightarrow> service \<Rightarrow> (string + unit) \<times> service" where
  "run_scheduler_until utc_text config now delays sv =
     (if \<not> sc_enabled config then (Inr (), sv)
      else case schedule_parse (sc_start_time_utc config) of
        Inl text \<Rightarrow> (Inl (''invalid scheduler time: '' @ text), sv)
      | Inr schedule \<Rightarrow> (Inr (), scheduler_loop utc_text schedule now delays sv))"

definition schedule_ok :: "DailyUtcSchedule \<Rightarrow> bool" where
  "schedule_ok schedule = (du_hour schedule < 24 \<and> du_minute schedule < 60)"

lemma schedule_parse_ok: "schedule_parse v = Inr schedule \<Longrightarrow> schedule_ok schedule"
  by (auto simp: schedule_parse_def schedule_ok_def split: option.splits if_splits prod.splits)

lemma valid_time_parses: "is_valid_utc_time v \<Longrightarrow> \<exists>schedule. schedule_parse v = Inr schedule"
  by (auto simp: schedule_parse_def is_valid_utc_time_def split: option.splits if_splits prod.splits)

text \<open>
  With a valid configuration the scheduler never ends with an error.
\<close>

theorem valid_schedule_runs:
  assumes "report_is_valid (validate_config gi config)"
  shows "fst (run_scheduler_until utc_text (cf_schedule config) now delays sv) = Inr ()"
proof -
  have "is_valid_utc_time (sc_start_time_utc (cf_schedule config))"
    using assms by (simp add: config_report_empty config_ok_def top_level_ok_def)
  then obtain schedule where "schedule_parse (sc_start_time_utc (cf_schedule config)) = Inr schedule"
    using valid_time_parses by blast
  then show ?thesis by (simp add: run_scheduler_until_def)
qed

lemma time_of_day_bounds: "schedule_ok schedule \<Longrightarrow> 0 \<le> time_of_day schedule \<and> time_of_day schedule < day_ns"
  by (auto simp: schedule_ok_def time_of_day_def day_ns_def second_ns_def)

lemma sdiv_nonneg: "0 < a \<Longrightarrow> 0 < b \<Longrightarrow> a sdiv b = a div b" for a b :: int
  by (simp add: signed_divide_int_def)

lemma next_after_positive: "schedule_ok schedule \<Longrightarrow> now < next_after schedule now"
proof -
  assume ok: "schedule_ok schedule"
  have "now < now div day_ns * day_ns + day_ns"
    using div_mult_mod_eq [of now day_ns] pos_mod_bound [of day_ns now] by (simp add: day_ns_def second_ns_def)
  then show ?thesis
    using time_of_day_bounds [OF ok] by (simp add: next_after_def Let_def)
qed

lemma day_mono: "a \<le> b \<Longrightarrow> a * day_ns \<le> b * day_ns"
  by (simp add: day_ns_def second_ns_def)

lemma day_split: "t div day_ns * day_ns + t mod day_ns = t" "0 \<le> t mod day_ns" "t mod day_ns < day_ns"
  by (simp_all add: day_ns_def second_ns_def)

lemma next_after_least:
  assumes "schedule_ok schedule" "now < t" "t mod day_ns = time_of_day schedule"
  shows "next_after schedule now \<le> t"
proof -
  note tod = time_of_day_bounds [OF assms(1)]
  define q k where "q = now div day_ns" and "k = t div day_ns"
  have now: "q * day_ns + now mod day_ns = now" and t: "k * day_ns + time_of_day schedule = t"
    using day_split(1) [of now] day_split(1) [of t] assms(3) by (simp_all add: q_def k_def)
  have upcoming: "next_after schedule now =
      (if now < q * day_ns + time_of_day schedule then q * day_ns + time_of_day schedule
       else (q + 1) * day_ns + time_of_day schedule)"
    by (simp add: next_after_def Let_def q_def distrib_right)
  consider "k + 1 \<le> q" | "k = q" | "q + 1 \<le> k" by linarith
  then show ?thesis
  proof cases
    case 1
    then have "k * day_ns + day_ns \<le> q * day_ns" using day_mono [OF 1] by (simp add: distrib_right)
    then show ?thesis using now t tod day_split(2) [of now] assms(2) by linarith
  next
    case 2
    then show ?thesis using upcoming t assms(2) by simp
  next
    case 3
    have "q * day_ns \<le> k * day_ns" using day_mono [of q k] 3 by simp
    then show ?thesis using upcoming t day_mono [OF 3] by (auto split: if_splits)
  qed
qed

text \<open>
  C35. The next start is the first moment after now that has the time of day of the schedule, and it
  lies within a day.
\<close>

theorem next_after_first:
  assumes "schedule_ok schedule"
  shows "now < next_after schedule now \<and> next_after schedule now \<le> now + day_ns \<and>
    next_after schedule now mod day_ns = time_of_day schedule \<and>
    (\<forall>t. now < t \<and> t mod day_ns = time_of_day schedule \<longrightarrow> next_after schedule now \<le> t)"
proof -
  note tod = time_of_day_bounds [OF assms]
  have "next_after schedule now mod day_ns = time_of_day schedule"
    using tod by (auto simp: next_after_def Let_def mod_simps)
  moreover have "next_after schedule now \<le> now + day_ns"
    unfolding next_after_def Let_def using day_split [of now] tod by (simp only: split: if_split) linarith
  ultimately show ?thesis
    using next_after_positive [OF assms] next_after_least [OF assms] by blast
qed

lemma wake_bounds:
  assumes "schedule_ok schedule"
  shows "next_after schedule now - second_ns < scheduler_wake schedule now 0"
    and "scheduler_wake schedule now 0 \<le> next_after schedule now"
    and "scheduler_wake schedule now 0 = next_after schedule now \<longleftrightarrow> (next_after schedule now - now) mod second_ns = 0"
proof -
  have sec: "0 < second_ns" by (simp add: second_ns_def)
  define d where "d = next_after schedule now - now"
  have "0 < d" using next_after_positive [OF assms] by (simp add: d_def)
  then have "std_duration_until now (next_after schedule now) = d div second_ns"
    using sec by (simp add: std_duration_until_def d_def sdiv_nonneg pos_imp_zdiv_nonneg_iff)
  then have wake: "scheduler_wake schedule now 0 = now + d div second_ns * second_ns"
    by (simp add: scheduler_wake_def)
  have split: "d div second_ns * second_ns + d mod second_ns = d" "0 \<le> d mod second_ns" "d mod second_ns < second_ns"
    using sec by simp_all
  show "next_after schedule now - second_ns < scheduler_wake schedule now 0"
    "scheduler_wake schedule now 0 \<le> next_after schedule now"
    "scheduler_wake schedule now 0 = next_after schedule now \<longleftrightarrow> (next_after schedule now - now) mod second_ns = 0"
    unfolding wake d_def [symmetric] using split d_def by linarith+
qed

text \<open>
  The sleep is cut to whole seconds: the scheduler wakes up to a second before the start computed,
  not after it by itself, and at that moment exactly only if it is a whole number of seconds away.
\<close>

theorem scheduler_wakes_early:
  assumes "schedule_ok schedule"
  shows "next_after schedule now - second_ns < scheduler_wake schedule now 0 \<and>
    scheduler_wake schedule now 0 \<le> next_after schedule now \<and>
    (scheduler_wake schedule now 0 = next_after schedule now \<longleftrightarrow> (next_after schedule now - now) mod second_ns = 0)"
  by (intro conjI wake_bounds [OF assms])

text \<open>The moments at which the turns of the loop request a run.\<close>

primrec scheduler_wakes :: "DailyUtcSchedule \<Rightarrow> int \<Rightarrow> int list \<Rightarrow> int list" where
  "scheduler_wakes schedule now [] = []"
| "scheduler_wakes schedule now (delay # delays) =
     (let wake = scheduler_wake schedule now delay in wake # scheduler_wakes schedule wake delays)"

lemma next_after_same:
  assumes "schedule_ok schedule" "now \<le> later" "later < next_after schedule now"
  shows "next_after schedule later = next_after schedule now"
proof (rule antisym)
  have "next_after schedule x mod day_ns = time_of_day schedule" for x
    using time_of_day_bounds [OF assms(1)] by (auto simp: next_after_def Let_def mod_simps)
  then show "next_after schedule later \<le> next_after schedule now" "next_after schedule now \<le> next_after schedule later"
    using assms next_after_positive [OF assms(1), of later]
    by (simp_all add: next_after_least [OF assms(1)])
qed

lemma no_sleep: "0 < upcoming - now \<Longrightarrow> upcoming - now < second_ns \<Longrightarrow> std_duration_until now upcoming = 0"
  by (simp add: std_duration_until_def sdiv_nonneg second_ns_def)

lemma wakes_without_sleep:
  assumes "schedule_ok schedule" "next_after schedule now - now < second_ns" "list_all (\<lambda>d. 0 < d) delays"
    "now + sum_list delays < next_after schedule now"
  shows "list_all (\<lambda>w. w < next_after schedule now) (scheduler_wakes schedule now delays)"
  using assms(2-)
proof (induction delays arbitrary: now)
  case (Cons d delays)
  have "0 \<le> sum_list delays" using Cons.prems(2) by (intro sum_list_nonneg) (auto simp: list_all_iff)
  then have d: "now \<le> now + d" "now + d < next_after schedule now" using Cons.prems(2,3) by auto
  have "scheduler_wake schedule now d = now + d"
    using no_sleep [of "next_after schedule now" now] next_after_positive [OF assms(1), of now] Cons.prems(1)
    by (simp add: scheduler_wake_def)
  then show ?case
    using Cons.IH [of "now + d"] Cons.prems d next_after_same [OF assms(1) d] by (simp add: Let_def)
qed simp

text \<open>
  Where the next start is not a whole number of seconds away, the scheduler requests the run before
  it and, as long as the delays of its turns together are shorter than the fraction cut off, goes on
  to request the run of the same day at every turn without sleeping; while the first of these is in
  flight the others are counted as scheduled runs that were skipped.
\<close>

theorem scheduler_repeats:
  assumes "schedule_ok schedule" and "list_all (\<lambda>delay. 0 < delay) delays" and "delays \<noteq> []"
    and "now + std_duration_until now (next_after schedule now) * second_ns + sum_list delays < next_after schedule now"
    and "\<not> in_flight (ry_status (sv_state sv))"
  shows "list_all (\<lambda>wake. wake < next_after schedule now) (scheduler_wakes schedule now delays) \<and>
    ry_status (sv_state (scheduler_loop utc_text schedule now delays sv)) = RsRunning \<and>
    ry_scheduled_skips (sv_state (scheduler_loop utc_text schedule now delays sv)) =
      ry_scheduled_skips (sv_state sv) + of_nat (length delays - 1)"
proof -
  have spin: "ry_status (sv_state (scheduler_loop utc_text schedule now delays sv)) = RsRunning \<and>
      ry_scheduled_skips (sv_state (scheduler_loop utc_text schedule now delays sv)) =
        ry_scheduled_skips (sv_state sv) + of_nat (length delays)"
    if "ry_status (sv_state sv) = RsRunning" for now delays sv
    using that
    by (induction delays arbitrary: now sv) (auto simp: Let_def request_run_def)
  obtain d rest where delays: "delays = d # rest" using assms(3) by (cases delays) auto
  let ?wake = "scheduler_wake schedule now d"
  have rest: "0 \<le> sum_list rest" using assms(2) delays by (auto simp: list_all_iff intro!: sum_list_nonneg)
  have wake: "now \<le> ?wake" "?wake + sum_list rest < next_after schedule now"
    using assms(2,4) delays by (auto simp: scheduler_wake_def std_duration_until_def second_ns_def)
  have "next_after schedule now - scheduler_wake schedule now 0 < second_ns"
    using wake_bounds [OF assms(1), of now] by simp
  moreover have "scheduler_wake schedule now 0 \<le> ?wake" using assms(2) delays by (simp add: scheduler_wake_def)
  ultimately have "list_all (\<lambda>w. w < next_after schedule now) (scheduler_wakes schedule ?wake rest)"
    using wakes_without_sleep [OF assms(1), of ?wake rest] next_after_same [OF assms(1) wake(1)] wake(2) rest assms(2) delays
    by simp
  then have "list_all (\<lambda>w. w < next_after schedule now) (scheduler_wakes schedule now delays)"
    using wake(2) rest delays by (simp add: Let_def)
  then show ?thesis
    using assms(5) by (auto simp: delays Let_def request_run_def spin in_flight_def)
qed

section \<open>Examples\<close>

definition example_service :: service where
  "example_service = service_new 0 (Inl (SqliteConstraint ''closed''))"

definition busy_service :: service where
  "busy_service = start_task 1 0 (snd (request_run show_int 0 TrManual example_service))"

lemma example_service_reachable: "service_reachable utc_text outcome example_service"
  unfolding example_service_def by (rule service_reachable.created)

lemma busy_service_reachable: "service_reachable show_int outcome busy_service"
proof -
  have "service_reachable show_int outcome (snd (request_run show_int 0 TrManual example_service))"
    by (rule service_reachable.step [OF example_service_reachable service_step.request]) (rule prod.collapse [symmetric])
  then show ?thesis
    unfolding busy_service_def
    by (rule service_reachable.step) (rule service_step.start, simp_all add: example_service_def service_new_def request_run_def)
qed

theorem service_one_run_witness:
  "sv_tasks busy_service \<noteq> [] \<and> cr_accepted (fst (request_cancel busy_service)) \<and>
   \<not> cr_accepted (fst (request_run show_int 2 TrScheduled busy_service))"
proof -
  have "sv_tasks busy_service \<noteq> []"
    by (simp add: busy_service_def start_task_def request_run_def example_service_def service_new_def)
  with service_one_run [OF busy_service_reachable [of "engine_outcome quiet_migration work_config"], of 2 TrScheduled]
  show ?thesis by blast
qed

theorem service_recovers_witness:
  "\<not> in_flight (ry_status (sv_state (end_task show_int 1 3 (Inl ''no network'') 0 busy_service)))"
proof -
  have "sv_tasks busy_service = [\<lparr>tk_trigger = TrManual, tk_token = 0, tk_started = Some 1\<rparr>]"
    by (simp add: busy_service_def start_task_def request_run_def example_service_def service_new_def)
  moreover have "engine_outcome quiet_migration work_config TrManual (Inl ''no network'')"
    unfolding engine_outcome_def
    by (rule exI [of _ "''0''"], rule exI [of _ "Some ''no network''"]) (simp add: engine_sync_task_def throw_def)
  ultimately show ?thesis
    using service_recovers [OF busy_service_reachable [of "engine_outcome quiet_migration work_config"],
        of "\<lparr>tk_trigger = TrManual, tk_token = 0, tk_started = Some 1\<rparr>" "Inl ''no network''" 1 3]
    by (simp add: Let_def)
qed

theorem valid_schedule_runs_witness:
  "fst (run_scheduler_until show_int (cf_schedule work_config) 0 [1] example_service) = Inr ()"
proof -
  have "report_is_valid (validate_config permissive_gitignore work_config)"
    using work_config_valid by (simp add: ensure_valid_config_def Let_def split: if_splits)
  then show ?thesis by (rule valid_schedule_runs)
qed

definition at_eleven :: DailyUtcSchedule where
  "at_eleven = \<lparr>du_hour = 23, du_minute = 0\<rparr>"

lemma at_eleven_ok: "schedule_ok at_eleven"
  by (simp add: schedule_ok_def at_eleven_def)

theorem next_after_first_witness: "next_after at_eleven 0 mod day_ns = time_of_day at_eleven"
  using next_after_first [OF at_eleven_ok, of 0] by blast

text \<open>Half a second before eleven.\<close>

definition almost_eleven :: int where "almost_eleven = time_of_day at_eleven - 500000000"

theorem scheduler_wakes_early_witness:
  "scheduler_wake at_eleven almost_eleven 0 < next_after at_eleven almost_eleven"
proof -
  have "next_after at_eleven almost_eleven - almost_eleven = 500000000"
    by (simp add: almost_eleven_def next_after_def time_of_day_def at_eleven_def day_ns_def second_ns_def Let_def)
  then show ?thesis
    using scheduler_wakes_early [OF at_eleven_ok, of almost_eleven] by (simp add: second_ns_def)
qed

theorem scheduler_repeats_witness:
  "ry_scheduled_skips (sv_state (scheduler_loop show_int at_eleven almost_eleven [1, 1, 1] example_service)) = 2"
proof -
  have "next_after at_eleven almost_eleven = almost_eleven + 500000000"
    by (simp add: almost_eleven_def next_after_def time_of_day_def at_eleven_def day_ns_def second_ns_def Let_def)
  then have "almost_eleven + std_duration_until almost_eleven (next_after at_eleven almost_eleven) * second_ns +
      sum_list [1, 1, 1] < next_after at_eleven almost_eleven"
    by (simp add: std_duration_until_def sdiv_nonneg second_ns_def)
  from scheduler_repeats [OF at_eleven_ok _ _ this, of example_service show_int] show ?thesis
    by (simp add: example_service_def service_new_def in_flight_def)
qed

end
