(* ===== verification/Control_Api.thy ===== *)
theory Control_Api
  imports Web_Ui Service_Props
begin

text \<open>
  The control API of \<open>crates/yds-service/src/lib.rs\<close>: the routes of its server and what each does to the
  runtime, to the stored configuration and in answer. A request is one step; the pages read the runtime
  several times in one. What a handler reads outside the runtime is in \<open>control_env\<close>: the clock, the
  database as each connection finds it, the log directory, the answer of the disk, the JSON of the
  configuration and the writing of its file. The framework's routing and its reading of queries are given.
\<close>

section \<open>Requests and answers\<close>

datatype control_method = GetRequest | PostRequest

record control_request =
  cq_method :: control_method
  cq_path :: string
  cq_authorization :: "string option"
  cq_lines :: "nat option"
  cq_body :: string

datatype control_body =
    BodyHealth HealthResponse | BodyMetrics RuntimeMetrics | BodyStatus RuntimeSnapshot
  | BodyCommand RuntimeCommandResponse | BodyHtml string | BodyError string | BodyConfig AppConfig
  | BodySaved string | BodyLines "string list" | BodyRuns "RunSnapshot list" | BodyCounts nat nat
  | BodyQuota QuotaView | BodyNone

record control_response =
  cp_status :: nat
  cp_body :: control_body

record control_app =
  ca_config :: AppConfig
  ca_config_path :: "string option"
  ca_auth :: WebAuth

record control_env =
  cx_now :: int
  cx_utc_text :: "int \<Rightarrow> string"
  cx_version :: string
  cx_opened :: "nat \<Rightarrow> StateError + db"
    \<comment> \<open>the database as the n-th connection of the request finds it\<close>
  cx_logs :: "log_entry list option"
  cx_disk_info :: "string + DiskInfo"
  cx_parse_config :: "string \<Rightarrow> string + AppConfig"
  cx_config_json :: "AppConfig \<Rightarrow> string"
  cx_url_decode :: "string \<Rightarrow> string option"
  cx_save_config :: "string \<Rightarrow> AppConfig \<Rightarrow> string option"
    \<comment> \<open>the text of the error\<close>
  cx_gitignore :: gitignore_api

datatype control_route =
    PageRoute WebPage | HealthRoute | MetricsRoute | StatusRoute | RunRoute | StopRoute | GetConfigRoute
  | PostConfigRoute | LogsTailRoute | RecentRunsRoute | FailedSkippedRoute | QuotaRoute

definition control_router :: "((control_method \<times> string) \<times> control_route) list" where
  "control_router =
     [((GetRequest, ''/''), PageRoute PgDashboard), ((GetRequest, ''/roots''), PageRoute PgRoots),
      ((GetRequest, ''/exclusions''), PageRoute PgExclusions), ((GetRequest, ''/schedule''), PageRoute PgSchedule),
      ((GetRequest, ''/config''), PageRoute PgConfig), ((GetRequest, ''/state''), PageRoute PgState),
      ((GetRequest, ''/logs''), PageRoute PgLogs), ((GetRequest, ''/failed-skipped''), PageRoute PgFailedSkipped),
      ((GetRequest, ''/quota''), PageRoute PgQuota), ((GetRequest, ''/health''), HealthRoute),
      ((GetRequest, ''/metrics''), MetricsRoute), ((GetRequest, ''/status''), StatusRoute),
      ((PostRequest, ''/sync/run''), RunRoute), ((PostRequest, ''/sync/stop''), StopRoute),
      ((PostRequest, ''/api/sync/run''), RunRoute), ((PostRequest, ''/api/sync/stop''), StopRoute),
      ((GetRequest, ''/api/config''), GetConfigRoute), ((PostRequest, ''/api/config''), PostConfigRoute),
      ((GetRequest, ''/api/logs/tail''), LogsTailRoute), ((GetRequest, ''/api/state/recent-runs''), RecentRunsRoute),
      ((GetRequest, ''/api/state/failed-skipped''), FailedSkippedRoute), ((GetRequest, ''/api/quota''), QuotaRoute)]"

section \<open>Handlers\<close>

definition json_error :: "nat \<Rightarrow> string \<Rightarrow> control_response" where
  "json_error status message = \<lparr>cp_status = status, cp_body = BodyError message\<rparr>"

definition ok_response :: "control_body \<Rightarrow> control_response" where
  "ok_response body = \<lparr>cp_status = 200, cp_body = body\<rparr>"

definition authorize :: "control_app \<Rightarrow> string option \<Rightarrow> bool \<Rightarrow> control_response option" where
  "authorize app authorization json =
     (if authorize_header (ca_auth app) authorization then None
      else Some (if json then json_error 401 ''unauthorized''
                 else \<lparr>cp_status = 401, cp_body = BodyHtml ''unauthorized''\<rparr>))"

definition html_escape :: "string \<Rightarrow> string" where
  "html_escape v =
     replace_char (CHR ''>'') ''&gt;'' (replace_char (CHR ''<'') ''&lt;'' (replace_char (CHR ''&'') ''&amp;'' v))"

definition quota_view_from_disk_info :: "DiskInfo \<Rightarrow> QuotaView" where
  "quota_view_from_disk_info info =
     (let quota = di_quota info
      in QuotaAvailable (qi_total_space quota) (qi_used_space quota) (qi_trash_size quota)
           (case (qi_total_space quota, qi_used_space quota) of
              (Some t, Some used) \<Rightarrow> Some (saturating_sub t used)
            | _ \<Rightarrow> None))"

definition load_quota_view :: "control_env \<Rightarrow> string + QuotaView" where
  "load_quota_view env =
     (case cx_disk_info env of Inl e \<Rightarrow> Inl e | Inr info \<Rightarrow> Inr (quota_view_from_disk_info info))"

definition quota_or_unavailable :: "control_env \<Rightarrow> QuotaView" where
  "quota_or_unavailable env = (case load_quota_view env of Inl _ \<Rightarrow> QuotaUnavailable | Inr q \<Rightarrow> q)"

definition app_state :: "control_app \<Rightarrow> control_env \<Rightarrow> nat \<Rightarrow> StateError + WebUiState" where
  "app_state app env log_lines = web_state (ca_config app) (cx_opened env 0) (cx_logs env) log_lines"

definition web_state_and_runtime ::
  "control_app \<Rightarrow> control_env \<Rightarrow> WebPage \<Rightarrow> service \<Rightarrow> (string + WebUiState \<times> RuntimeWebView) \<times> service" where
  "web_state_and_runtime app env page sv =
     (case app_state app env 100 of
        Inl e \<Rightarrow> (Inl (''web error: state error: '' @ StateError_text e), sv)
      | Inr state \<Rightarrow>
          let state = (if page = PgQuota then state\<lparr>wb_quota := quota_or_unavailable env\<rparr> else state)
          in case service_health (cx_version env) (cx_now env) (cx_opened env 1) (cx_opened env 2) sv of (health, sv) \<Rightarrow>
             case service_snapshot (cx_now env) (cx_opened env 3) sv of (snapshot, sv) \<Rightarrow>
               (Inr (state,
                  \<lparr>rw_status = RuntimeStatus_as_str (rv_status snapshot), rw_uptime_seconds = rv_uptime_seconds snapshot,
                   rw_current_run = map_option cu_trigger (rv_current_run snapshot),
                   rw_last_successful_sync_at_utc = hr_last_successful_sync_at_utc health,
                   rw_latest_run_status = map_option rn_status (rv_latest_run snapshot),
                   rw_metrics = service_metrics sv\<rparr>), sv))"

definition render_control_page ::
  "control_app \<Rightarrow> control_env \<Rightarrow> WebPage \<Rightarrow> service \<Rightarrow> control_response \<times> service" where
  "render_control_page app env page sv =
     (case web_state_and_runtime app env page sv of
        (Inr (state, runtime), sv) \<Rightarrow>
          (ok_response (BodyHtml (render_page (cx_config_json env) (ca_config_path app) page state runtime)), sv)
      | (Inl error, sv) \<Rightarrow>
          (\<lparr>cp_status = 500,
            cp_body = BodyHtml (''<!doctype html><title>ya-disk-sync error</title><h1>error</h1><pre>'' @
              html_escape error @ ''</pre>'')\<rparr>, sv))"

definition command_response :: "RuntimeCommandResponse \<Rightarrow> control_response" where
  "command_response response =
     \<lparr>cp_status = (if cr_accepted response then 202 else 409), cp_body = BodyCommand response\<rparr>"

definition extract_config_body :: "control_env \<Rightarrow> string \<Rightarrow> string" where
  "extract_config_body env body =
     (case strip_prefix ''config='' body of
        Some encoded \<Rightarrow>
          let normalized = replace_char (CHR ''+'') '' '' encoded
          in (case cx_url_decode env normalized of Some v \<Rightarrow> v | None \<Rightarrow> normalized)
      | None \<Rightarrow> body)"

text \<open>The answer and the path and configuration written, where the file was replaced.\<close>

definition post_config :: "control_app \<Rightarrow> control_env \<Rightarrow> string \<Rightarrow> control_response \<times> (string \<times> AppConfig) option" where
  "post_config app env body =
     (case ca_config_path app of
        None \<Rightarrow> (json_error 400 ''config_path_unavailable'', None)
      | Some path \<Rightarrow>
          (case cx_parse_config env (extract_config_body env body) of
             Inl error \<Rightarrow> (json_error 400 (''invalid_json: '' @ error), None)
           | Inr config \<Rightarrow>
               let report = validate_config (cx_gitignore env) config
               in if \<not> report_is_valid report
                  then (json_error 400 (''config_invalid: '' @
                          str_join ''; '' (map (\<lambda>e. ce_field e @ '': '' @ ce_message e) report)), None)
                  else (case cx_save_config env path config of
                          Some error \<Rightarrow> (json_error 500 (''config_save_failed: '' @ error), None)
                        | None \<Rightarrow> (ok_response (BodySaved path), Some (path, config)))))"

definition state_response :: "control_app \<Rightarrow> control_env \<Rightarrow> nat \<Rightarrow> (WebUiState \<Rightarrow> control_body) \<Rightarrow> control_response" where
  "state_response app env log_lines body =
     (case app_state app env log_lines of
        Inr state \<Rightarrow> ok_response (body state)
      | Inl error \<Rightarrow> json_error 500 (''state error: '' @ StateError_text error))"

definition recent_runs_response :: "control_env \<Rightarrow> control_response" where
  "recent_runs_response env =
     (case (case cx_opened env 0 of Inl e \<Rightarrow> Inl e | Inr d \<Rightarrow> fst (list_recent_runs 20 d)) of
        Inr runs \<Rightarrow> ok_response (BodyRuns (map run_snapshot runs))
      | Inl error \<Rightarrow> json_error 500 (StateError_text error))"

section \<open>The server\<close>

primrec route_is_json :: "control_route \<Rightarrow> bool" where
  "route_is_json (PageRoute page) = False"
| "route_is_json HealthRoute = True"
| "route_is_json MetricsRoute = True"
| "route_is_json StatusRoute = True"
| "route_is_json RunRoute = True"
| "route_is_json StopRoute = True"
| "route_is_json GetConfigRoute = True"
| "route_is_json PostConfigRoute = True"
| "route_is_json LogsTailRoute = True"
| "route_is_json RecentRunsRoute = True"
| "route_is_json FailedSkippedRoute = True"
| "route_is_json QuotaRoute = True"

primrec serve_route ::
  "control_app \<Rightarrow> control_env \<Rightarrow> control_request \<Rightarrow> service \<Rightarrow> control_route \<Rightarrow>
   control_response \<times> service \<times> (string \<times> AppConfig) option" where
  "serve_route app env rq sv (PageRoute page) =
     (case render_control_page app env page sv of (response, sv) \<Rightarrow> (response, sv, None))"
| "serve_route app env rq sv HealthRoute =
     (case service_health (cx_version env) (cx_now env) (cx_opened env 0) (cx_opened env 1) sv of
        (health, sv) \<Rightarrow> (ok_response (BodyHealth health), sv, None))"
| "serve_route app env rq sv MetricsRoute = (ok_response (BodyMetrics (service_metrics sv)), sv, None)"
| "serve_route app env rq sv StatusRoute =
     (case service_snapshot (cx_now env) (cx_opened env 0) sv of
        (snapshot, sv) \<Rightarrow> (ok_response (BodyStatus snapshot), sv, None))"
| "serve_route app env rq sv RunRoute =
     (case request_run (cx_utc_text env) (cx_now env) TrManual sv of
        (response, sv) \<Rightarrow> (command_response response, sv, None))"
| "serve_route app env rq sv StopRoute =
     (case request_cancel sv of (response, sv) \<Rightarrow> (command_response response, sv, None))"
| "serve_route app env rq sv GetConfigRoute = (state_response app env 0 (\<lambda>state. BodyConfig (wb_config state)), sv, None)"
| "serve_route app env rq sv PostConfigRoute =
     (case post_config app env (cq_body rq) of (response, saved) \<Rightarrow> (response, sv, saved))"
| "serve_route app env rq sv LogsTailRoute =
     (state_response app env (case cq_lines rq of None \<Rightarrow> 50 | Some n \<Rightarrow> n) (\<lambda>state. BodyLines (wb_log_lines state)), sv, None)"
| "serve_route app env rq sv RecentRunsRoute = (recent_runs_response env, sv, None)"
| "serve_route app env rq sv FailedSkippedRoute =
     (state_response app env 0 (\<lambda>state. BodyCounts (length (wb_failed state)) (length (wb_skipped state))), sv, None)"
| "serve_route app env rq sv QuotaRoute = (ok_response (BodyQuota (quota_or_unavailable env)), sv, None)"

text \<open>Unknown paths and other methods are answered by the framework; every handler authorizes first.\<close>

definition control_serve ::
  "control_app \<Rightarrow> control_env \<Rightarrow> control_request \<Rightarrow> service \<Rightarrow>
   control_response \<times> service \<times> (string \<times> AppConfig) option" where
  "control_serve app env rq sv =
     (case map_of control_router (cq_method rq, cq_path rq) of
        None \<Rightarrow>
          (\<lparr>cp_status = (if list_ex (\<lambda>e. snd (fst e) = cq_path rq) control_router then 405 else 404),
            cp_body = BodyNone\<rparr>, sv, None)
      | Some route \<Rightarrow>
          (case authorize app (cq_authorization rq) (route_is_json route) of
             Some response \<Rightarrow> (response, sv, None)
           | None \<Rightarrow> serve_route app env rq sv route))"

end
