(* ===== verification/Web_Props.thy ===== *)
theory Web_Props
  imports Web_Ui
begin

text \<open>
  The web interface of \<open>crates/yds-web/src/lib.rs\<close>: the token is compared exactly, escaping loses
  nothing and leaves no markup, and no data changes the markup of a page.
\<close>

section \<open>The token\<close>

lemma or_xor_fold: "foldl (\<lambda>acc (l, r). or acc (xor l r)) a ps = 0 \<longleftrightarrow> a = 0 \<and> (\<forall>(l, r)\<in>set ps. l = r)"
  for a :: "8 word"
proof (induction ps arbitrary: a)
  case (Cons p ps)
  obtain l r where p: "p = (l, r)" by fastforce
  have "xor l r = 0 \<longleftrightarrow> l = r"
    by (metis xor.assoc xor.left_neutral xor.right_neutral xor_self_eq)
  moreover have "or a x = 0 \<longleftrightarrow> a = 0 \<and> x = 0" for x :: "8 word"
    by (auto simp: bit_eq_iff bit_or_iff)
  ultimately have "or a (xor l r) = 0 \<longleftrightarrow> a = 0 \<and> l = r" by simp
  then show ?case by (auto simp: Cons.IH p)
qed simp

lemma constant_time_eq_iff: "constant_time_eq left right \<longleftrightarrow> left = right"
proof (cases "length left = length right")
  case True
  then have "(\<forall>(l, r)\<in>set (zip left right). l = r) \<longleftrightarrow> left = right"
    by (induction left right rule: list_induct2) auto
  with True show ?thesis by (simp add: constant_time_eq_def or_xor_fold)
qed (auto simp: constant_time_eq_def)

lemma code_less: "code c < 256"
  unfolding code_def by (metis mod_less_divisor of_char_mod_256 zero_less_numeral)

lemma hd_utf8: "unat (hd (utf8_byte c)) = (if code c < 128 then code c else 192 + code c div 64)"
  using code_less [of c] by (auto simp: utf8_byte_def unat_of_nat simp del: of_nat_add)

lemma length_utf8: "length (utf8_byte c) = (if unat (hd (utf8_byte c)) < 128 then 1 else 2)"
  unfolding hd_utf8 by (simp add: utf8_byte_def)

lemma utf8_inj: "utf8_byte c = utf8_byte d \<Longrightarrow> c = d"
proof -
  assume same: "utf8_byte c = utf8_byte d"
  have last: "unat (last (utf8_byte x)) = (if code x < 128 then code x else 128 + code x mod 64)" for x
    using code_less [of x] by (auto simp: utf8_byte_def unat_of_nat simp del: of_nat_add)
  have "code c = code d"
    using hd_utf8 [of c] hd_utf8 [of d] last [of c] last [of d] code_less [of c] code_less [of d]
    unfolding same by (auto split: if_splits) (metis add_left_cancel div_mult_mod_eq)+
  then show "c = d" by (simp add: code_def)
qed

lemma as_bytes_inj: "as_bytes s = as_bytes t \<Longrightarrow> s = t"
proof (induction s arbitrary: t)
  case Nil
  then show ?case by (cases t) (auto simp: as_bytes_def utf8_byte_def split: if_splits)
next
  case (Cons c s)
  then obtain d t' where t: "t = d # t'" by (cases t) (auto simp: as_bytes_def utf8_byte_def split: if_splits)
  have ne: "utf8_byte x \<noteq> []" for x by (simp add: utf8_byte_def)
  have eq: "utf8_byte c @ as_bytes s = utf8_byte d @ as_bytes t'" using Cons.prems t by (simp add: as_bytes_def)
  then have "hd (utf8_byte c) = hd (utf8_byte d)" using ne by (metis hd_append2)
  then have "length (utf8_byte c) = length (utf8_byte d)" using length_utf8 by metis
  then show ?case using eq utf8_inj Cons.IH t by auto
qed

lemma authorize_bearer: "authorize_header (AuthBearer token) authorization = (authorization = Some (''Bearer '' @ token))"
  by (auto simp: constant_time_eq_iff strip_prefix_Some_iff dest: as_bytes_inj split: option.splits Option.bind_splits)

text \<open>
  With a token configured, a request is let in exactly when its header is that token as a bearer
  token; without one, which only a loopback address has, every request is.
\<close>

theorem authorize_header_exact:
  "authorize_header (AuthBearer token) authorization = (authorization = Some (''Bearer '' @ token)) \<and>
   (web_auth_from_bind_address bind_address stored = Inr AuthDisabled) = is_loopback_bind bind_address"
proof
  show "authorize_header (AuthBearer token) authorization = (authorization = Some (''Bearer '' @ token))"
    by (rule authorize_bearer)
  show "(web_auth_from_bind_address bind_address stored = Inr AuthDisabled) = is_loopback_bind bind_address"
    by (auto simp: web_auth_from_bind_address_def split: sum.splits option.splits)
qed

section \<open>Escaping\<close>

definition escape_char :: "char \<Rightarrow> string" where
  "escape_char c =
     (if c = CHR ''&'' then ''&amp;'' else if c = CHR ''<'' then ''&lt;'' else if c = CHR ''>'' then ''&gt;''
      else if c = CHR 0x22 then ''&quot;'' else if c = CHR 0x27 then ''&#39;'' else [c])"

lemma replace_char_Nil [simp]: "replace_char c r [] = []"
  by (simp add: replace_char_def)

lemma replace_char_Cons [simp]: "replace_char c r (x # s) = (if x = c then r else [x]) @ replace_char c r s"
  by (simp add: replace_char_def)

lemma replace_char_append [simp]: "replace_char c r (s @ t) = replace_char c r s @ replace_char c r t"
  by (simp add: replace_char_def)

lemma escape_html_chars: "escape_html v = concat (map escape_char v)"
  by (induction v) (auto simp: escape_html_def escape_char_def)

definition is_markup :: "char \<Rightarrow> bool" where
  "is_markup c = (c \<in> {CHR ''<'', CHR ''>'', CHR 0x22, CHR 0x27})"

definition markup :: "string \<Rightarrow> string" where
  "markup s = filter is_markup s"

lemma markup_append [simp]: "markup (s @ t) = markup s @ markup t"
  by (simp add: markup_def)

lemma markup_Cons: "markup (c # s) = (if is_markup c then c # markup s else markup s)"
  by (simp add: markup_def)

lemma markup_concat: "markup (concat ss) = concat (map markup ss)"
  by (induction ss) (simp_all add: markup_def)

lemma markup_escape [simp]: "markup (escape_html v) = []"
  by (induction v) (auto simp: escape_html_chars escape_char_def markup_def is_markup_def)

text \<open>What a browser shows for the entities.\<close>

fun unescape :: "string \<Rightarrow> string" where
  "unescape [] = []"
| "unescape (c # s) =
     (if c \<noteq> CHR ''&'' then c # unescape s
      else case strip_prefix ''amp;'' s of Some r \<Rightarrow> CHR ''&'' # unescape (drop 4 s)
      | None \<Rightarrow> (case strip_prefix ''lt;'' s of Some r \<Rightarrow> CHR ''<'' # unescape (drop 3 s)
      | None \<Rightarrow> (case strip_prefix ''gt;'' s of Some r \<Rightarrow> CHR ''>'' # unescape (drop 3 s)
      | None \<Rightarrow> (case strip_prefix ''quot;'' s of Some r \<Rightarrow> CHR 0x22 # unescape (drop 5 s)
      | None \<Rightarrow> (case strip_prefix ''#39;'' s of Some r \<Rightarrow> CHR 0x27 # unescape (drop 4 s)
      | None \<Rightarrow> c # unescape s)))))"

text \<open>
  C38. Escaping loses nothing: what a browser shows for the escaped text is the text. The escaped text holds
  no character that opens or closes a tag or an attribute.
\<close>

theorem escape_html_round_trip: "unescape (escape_html v) = v \<and> markup (escape_html v) = []"
proof
  show "unescape (escape_html v) = v"
    by (induction v) (auto simp: escape_html_chars escape_char_def)
qed simp

section \<open>Pages\<close>

lemma digit_no_markup: "n < 10 \<Longrightarrow> \<not> is_markup (char_of (48 + n :: nat))"
proof
  assume n: "n < 10" and m: "is_markup (char_of (48 + n))"
  from m have "of_char (char_of (48 + n) :: char) \<in> (of_char ` {CHR ''<'', CHR ''>'', CHR 0x22, CHR 0x27} :: nat set)"
    unfolding is_markup_def by blast
  then show False using n by auto
qed

lemma markup_show_nat [simp]: "markup (show_nat n) = []"
proof (induction n rule: show_nat.induct)
  case (1 n)
  then show ?case
    using digit_no_markup [of n] digit_no_markup [of "n mod 10"]
    by (subst show_nat.simps) (auto simp: markup_def)
qed

lemma markup_show_int [simp]: "markup (show_int i) = []"
  by (simp add: show_int_def markup_Cons is_markup_def)

lemma markup_i64 [simp]: "markup (show_i64 v) = []"
  by (simp add: show_i64_def)

lemma markup_bool [simp]: "markup (show_bool b) = []"
  by (simp add: show_bool_def markup_def is_markup_def)

lemma markup_quota [simp]: "markup (quota_value q) = []"
  by (cases q) (simp_all add: quota_value_def, simp add: markup_def is_markup_def)

lemma markup_escaped_or [simp]: "markup (escaped_or d v) = (case v of None \<Rightarrow> markup d | Some s \<Rightarrow> [])"
  by (simp add: escaped_or_def split: option.split)

text \<open>The data of a page with every text taken out; what is there and how many stays.\<close>

definition blank_option :: "string option \<Rightarrow> string option" where
  "blank_option v = map_option (\<lambda>_. '''') v"

definition blank_root :: "SyncRootConfig \<Rightarrow> SyncRootConfig" where
  "blank_root root = root\<lparr>rc_id := '''', rc_name := '''', rc_local_path := '''',
     rc_remote_path_override := blank_option (rc_remote_path_override root)\<rparr>"

definition blank_seen_root :: "SyncRootRecord \<Rightarrow> SyncRootRecord" where
  "blank_seen_root root = root\<lparr>sr_id := '''', sr_local_path := '''', sr_canonical_remote_path := '''',
     sr_last_status := blank_option (sr_last_status root), sr_last_error := blank_option (sr_last_error root)\<rparr>"

definition blank_failed :: "RecentFailedItemRecord \<Rightarrow> RecentFailedItemRecord" where
  "blank_failed r = r\<lparr>rfa_item := (rfa_item r)
     \<lparr>fa_root_id := '''', fa_operation := '''', fa_error_kind := '''', fa_error_message := ''''\<rparr>\<rparr>"

definition blank_skipped :: "RecentSkippedItemRecord \<Rightarrow> RecentSkippedItemRecord" where
  "blank_skipped r = r\<lparr>rsk_item := (rsk_item r)\<lparr>sk_root_id := '''', sk_local_path := '''', sk_reason_code := ''''\<rparr>\<rparr>"

definition blank_config :: "AppConfig \<Rightarrow> AppConfig" where
  "blank_config config = config\<lparr>cf_global_excludes := [], cf_absolute_excludes := [],
     cf_schedule := (cf_schedule config)\<lparr>sc_start_time_utc := ''''\<rparr>, cf_roots := map blank_root (cf_roots config)\<rparr>"

definition blank_state :: "WebUiState \<Rightarrow> WebUiState" where
  "blank_state state = state\<lparr>wb_config := blank_config (wb_config state), wb_roots := map blank_seen_root (wb_roots state),
     wb_skipped := map blank_skipped (wb_skipped state), wb_failed := map blank_failed (wb_failed state),
     wb_log_lines := []\<rparr>"

definition blank_runtime :: "RuntimeWebView \<Rightarrow> RuntimeWebView" where
  "blank_runtime runtime = runtime\<lparr>rw_status := '''', rw_current_run := blank_option (rw_current_run runtime),
     rw_last_successful_sync_at_utc := blank_option (rw_last_successful_sync_at_utc runtime),
     rw_latest_run_status := blank_option (rw_latest_run_status runtime)\<rparr>"

lemma markup_rows:
  "markup (config_root_row (blank_root root)) = markup (config_root_row root)"
  "markup (seen_root_row (blank_seen_root seen)) = markup (seen_root_row seen)"
  "markup (failed_item_row (blank_failed f)) = markup (failed_item_row f)"
  "markup (skipped_item_row (blank_skipped s)) = markup (skipped_item_row s)"
  by (simp_all add: config_root_row_def blank_root_def seen_root_row_def blank_seen_root_def failed_item_row_def
      blank_failed_def skipped_item_row_def blank_skipped_def blank_option_def del: append_Cons split: option.split)

text \<open>
  C25. No text of the configuration, the database, the log or the runtime changes the markup of a page: its
  tags and quotes are those of the page with all of these texts empty, so none of them can open or close
  a tag or leave an attribute.
\<close>

theorem page_markup_fixed:
  "markup (render_page config_json config_path page state runtime) =
   markup (render_page (\<lambda>_. '''') (blank_option config_path) page (blank_state state) (blank_runtime runtime))"
  by (cases page)
    (simp_all add: render_page_def render_shell_def render_dashboard_def render_roots_def render_exclusions_def
      render_schedule_def render_config_def render_state_def render_logs_def render_failed_skipped_def render_quota_def
      markup_concat comp_def markup_rows blank_state_def blank_config_def blank_runtime_def blank_option_def
      del: append_Cons split: option.split QuotaView.split)

end
