(* ===== verification/Control_Props.thy ===== *)
theory Control_Props
  imports Control_Api Web_Props
begin

text \<open>
  What a request to the control API can do: nothing without the token, reading requests change
  nothing that counts, and the file of the configuration is only replaced by a valid one.
\<close>

lemma authorize_None: "authorize app authorization json = None \<longleftrightarrow> authorize_header (ca_auth app) authorization"
  by (simp add: authorize_def)

text \<open>
  C24. A request that is not authorized changes nothing and learns nothing: the runtime is left alone,
  no configuration is written, and the answer is the same whatever the server holds.
\<close>

theorem unauthorized_inert:
  assumes "\<not> authorize_header (ca_auth app) (cq_authorization rq)"
  shows "snd (control_serve app env rq sv) = (sv, None) \<and>
    cp_status (fst (control_serve app env rq sv)) \<in> {401, 404, 405} \<and>
    fst (control_serve app env rq sv) = fst (control_serve (app\<lparr>ca_config := config, ca_config_path := path\<rparr>) env' rq sv')"
  using assms by (auto simp: control_serve_def authorize_def json_error_def split: option.split)

lemma get_routes:
  "map_of control_router (GetRequest, p) = Some route \<Longrightarrow> route \<notin> {RunRoute, StopRoute, PostConfigRoute}"
  by (auto simp: control_router_def split: if_splits)

text \<open>Only the latest run of the runtime, which the database gives, may differ.\<close>

definition refreshed :: "service \<Rightarrow> service \<Rightarrow> bool" where
  "refreshed sv sv' = (sv' = sv\<lparr>sv_state := (sv_state sv)\<lparr>ry_latest_run := ry_latest_run (sv_state sv')\<rparr>\<rparr>)"

lemma refreshed_refl: "refreshed sv sv"
  by (simp add: refreshed_def)

lemma refreshed_trans:
  assumes "refreshed sv sv1" "refreshed sv1 sv2"
  shows "refreshed sv sv2"
proof -
  obtain l1 where 1: "sv1 = sv\<lparr>sv_state := (sv_state sv)\<lparr>ry_latest_run := l1\<rparr>\<rparr>"
    using assms(1) unfolding refreshed_def by blast
  obtain l2 where 2: "sv2 = sv1\<lparr>sv_state := (sv_state sv1)\<lparr>ry_latest_run := l2\<rparr>\<rparr>"
    using assms(2) unfolding refreshed_def by blast
  show ?thesis
    by (simp add: refreshed_def 1 2)
qed

lemma snapshot_refreshed: "service_snapshot now opened sv = (snapshot, sv') \<Longrightarrow> refreshed sv sv'"
  by (auto simp: service_snapshot_def Let_def refreshed_def split: if_splits)

lemma health_refreshed: "service_health version now opened opened' sv = (health, sv') \<Longrightarrow> refreshed sv sv'"
  by (auto simp: service_health_def split: prod.splits dest: snapshot_refreshed)

lemma page_refreshed: "render_control_page app env page sv = (response, sv') \<Longrightarrow> refreshed sv sv'"
  by (auto simp: render_control_page_def web_state_and_runtime_def Let_def refreshed_refl split: prod.splits sum.splits
      dest: snapshot_refreshed health_refreshed intro: refreshed_trans)

text \<open>
  C36. A GET request, whatever its path and authorization, starts and cancels no run and saves no
  configuration: of the runtime it changes at most the latest run that it remembers.
\<close>

theorem get_requests_read:
  assumes "cq_method rq = GetRequest"
  shows "\<exists>latest. snd (control_serve app env rq sv) = (sv\<lparr>sv_state := (sv_state sv)\<lparr>ry_latest_run := latest\<rparr>\<rparr>, None)"
proof -
  have "refreshed sv sv' \<and> saved = None"
    if "route \<notin> {RunRoute, StopRoute, PostConfigRoute}" "serve_route app env rq sv route = (response, sv', saved)"
    for route response sv' saved
    using that
    by (cases route) (auto simp: refreshed_refl split: prod.splits dest: snapshot_refreshed health_refreshed page_refreshed)
  then have "refreshed sv (fst (snd (control_serve app env rq sv))) \<and> snd (snd (control_serve app env rq sv)) = None"
    using assms get_routes
    by (auto simp: control_serve_def refreshed_refl split: option.split) (metis prod.collapse)+
  then show ?thesis
    unfolding refreshed_def by (metis prod.collapse)
qed

text \<open>
  C23. The file of the configuration is only replaced by a configuration that passes the validation, and
  only for an authorized request.
\<close>

theorem saved_config_valid:
  assumes "control_serve app env rq sv = (response, sv', Some (path, config))"
  shows "report_is_valid (validate_config (cx_gitignore env) config) \<and> ca_config_path app = Some path \<and>
    authorize_header (ca_auth app) (cq_authorization rq) \<and> cp_status response = 200"
proof -
  obtain route where route: "serve_route app env rq sv route = (response, sv', Some (path, config))"
      and auth: "authorize_header (ca_auth app) (cq_authorization rq)"
    using assms by (auto simp: control_serve_def authorize_None split: option.splits)
  have "route = PostConfigRoute"
    using route by (cases route) (auto split: prod.splits)
  then have "post_config app env (cq_body rq) = (response, Some (path, config))"
    using route by (auto split: prod.splits)
  then show ?thesis
    using auth
    by (auto simp: post_config_def Let_def json_error_def ok_response_def split: option.splits sum.splits if_splits)
qed

text \<open>
  The setting that forbids manual runs is not looked at: whatever it says, an authorized request to
  run is accepted exactly when no run is in flight.
\<close>

theorem manual_run_setting_ignored:
  assumes "service_reachable (cx_utc_text env) (engine_outcome mv (ca_config app)) sv"
    and "authorize_header (ca_auth app) authorization"
  shows "cp_status (fst (control_serve app env
      \<lparr>cq_method = PostRequest, cq_path = ''/sync/run'', cq_authorization = authorization, cq_lines = None, cq_body = body\<rparr> sv)) =
    (if sv_tasks sv = [] then 202 else 409)"
proof -
  have "cr_accepted (fst (request_run (cx_utc_text env) (cx_now env) TrManual sv)) = (sv_tasks sv = [])"
    using engine_task.reachable_inv [OF assms(1)]
    by (elim service_inv_cases) (auto simp: in_flight_def request_run_def Let_def)
  moreover have "map_of control_router (PostRequest, ''/sync/run'') = Some RunRoute"
    by (simp add: control_router_def)
  moreover have "authorize app authorization json = None" for json
    using assms(2) by (simp add: authorize_None)
  ultimately show ?thesis
    by (auto simp: control_serve_def command_response_def split: prod.split)
qed


section \<open>Examples\<close>

definition guarded_app :: control_app where
  "guarded_app = \<lparr>ca_config = work_config, ca_config_path = Some ''config.json'', ca_auth = AuthBearer ''secret''\<rparr>"

definition quiet_env :: control_env where
  "quiet_env =
     \<lparr>cx_now = 5, cx_utc_text = show_int, cx_version = ''0.1.0'', cx_opened = (\<lambda>_. Inl (SqliteConstraint ''closed'')),
      cx_logs = None, cx_disk_info = Inl ''offline'', cx_parse_config = (\<lambda>_. Inr work_config), cx_config_json = (\<lambda>_. ''{}''),
      cx_url_decode = Some, cx_save_config = (\<lambda>_ _. None), cx_gitignore = permissive_gitignore\<rparr>"

definition bare_request :: "control_method \<Rightarrow> string \<Rightarrow> string option \<Rightarrow> control_request" where
  "bare_request verb path authorization =
     \<lparr>cq_method = verb, cq_path = path, cq_authorization = authorization, cq_lines = None, cq_body = ''{}''\<rparr>"

theorem unauthorized_inert_witness:
  "snd (control_serve guarded_app quiet_env (bare_request PostRequest ''/sync/run'' (Some ''Bearer guess'')) example_service) =
   (example_service, None)"
proof -
  have "\<not> authorize_header (ca_auth guarded_app) (cq_authorization (bare_request PostRequest ''/sync/run'' (Some ''Bearer guess'')))"
    by (simp add: guarded_app_def bare_request_def authorize_bearer del: authorize_header.simps)
  from unauthorized_inert [OF this, of quiet_env example_service] show ?thesis by (rule conjunct1)
qed

theorem get_requests_read_witness:
  "\<exists>latest. snd (control_serve guarded_app quiet_env (bare_request GetRequest ''/status'' (Some ''Bearer secret'')) busy_service) =
     (busy_service\<lparr>sv_state := (sv_state busy_service)\<lparr>ry_latest_run := latest\<rparr>\<rparr>, None)"
  by (rule get_requests_read) (simp add: bare_request_def)

lemma example_post: "post_config guarded_app quiet_env ''{}'' = (ok_response (BodySaved ''config.json''), Some (''config.json'', work_config))"
proof -
  have "report_is_valid (validate_config permissive_gitignore work_config)"
    using work_config_valid by (simp add: ensure_valid_config_def Let_def split: if_splits)
  then show ?thesis
    by (simp add: post_config_def guarded_app_def quiet_env_def)
qed

theorem saved_config_valid_witness:
  "report_is_valid (validate_config permissive_gitignore work_config)"
proof -
  have auth: "authorize_header (ca_auth guarded_app) (Some ''Bearer secret'')"
    by (simp add: guarded_app_def authorize_bearer del: authorize_header.simps)
  then have "authorize guarded_app (Some ''Bearer secret'') json = None" for json
    by (simp add: authorize_None)
  moreover have "map_of control_router (PostRequest, ''/api/config'') = Some PostConfigRoute"
    by (simp add: control_router_def)
  ultimately have "control_serve guarded_app quiet_env (bare_request PostRequest ''/api/config'' (Some ''Bearer secret'')) busy_service =
      (ok_response (BodySaved ''config.json''), busy_service, Some (''config.json'', work_config))"
    by (simp add: control_serve_def bare_request_def example_post)
  from saved_config_valid [OF this] show ?thesis by (simp add: quiet_env_def)
qed

end
