(* ===== verification/Service_Host.thy ===== *)
theory Service_Host
  imports Control_Props
begin

text \<open>
  What surrounds the runtime in \<open>crates/yds-service\<close>: the log files (\<open>logging.rs\<close>), and in \<open>lib.rs\<close> the
  start and shutdown of the host and the client of the control API. A log directory is the list of its
  entries as they are found one after the other; the set-up of the log and the socket are parameters.
\<close>

section \<open>Log files\<close>

text \<open>
  One entry of a directory: reading the entry may fail, and so may its metadata, its content and its
  removal; errors are texts. Times are nanoseconds since the epoch.
\<close>

record log_file =
  lf_path :: string
  lf_entry_error :: "string option"
  lf_regular :: bool
    \<comment> \<open>\<open>Path::is_file\<close>, which follows links\<close>
  lf_entry_type :: "string + bool"
    \<comment> \<open>\<open>DirEntry::file_type\<close>, which does not: whether the entry itself is a file\<close>
  lf_modified_at :: "string + int"
  lf_text :: "string + string"
  lf_remove_error :: "string option"

datatype log_directory = DirMissing | DirUnreadable string | DirEntries "log_file list"

datatype LoggingError = LoggingIo (le_path: string) (le_source: string) | LoggingInit

text \<open>
  The cutoff; \<open>earliest\<close> is the earliest time the system can represent, before which the subtraction fails.
\<close>

definition log_cutoff :: "int \<Rightarrow> int \<Rightarrow> u32 \<Rightarrow> int" where
  "log_cutoff earliest now retention_days =
     (let cutoff = now - int (unat retention_days) * 24 * 60 * 60 * second_ns
      in if cutoff < earliest then 0 else cutoff)"

text \<open>The result and the files left.\<close>

fun cleanup_entries :: "string \<Rightarrow> int \<Rightarrow> log_file list \<Rightarrow> nat \<Rightarrow> (LoggingError + nat) \<times> log_file list" where
  "cleanup_entries logs_dir cutoff [] removed = (Inr removed, [])"
| "cleanup_entries logs_dir cutoff (f # fs) removed =
     (case lf_entry_error f of
        Some e \<Rightarrow> (Inl (LoggingIo logs_dir e), f # fs)
      | None \<Rightarrow>
          if \<not> lf_regular f then
            (case cleanup_entries logs_dir cutoff fs removed of (r, left) \<Rightarrow> (r, f # left))
          else
            (case lf_modified_at f of
               Inl e \<Rightarrow> (Inl (LoggingIo (lf_path f) e), f # fs)
             | Inr modified \<Rightarrow>
                 if modified < cutoff then
                   (case lf_remove_error f of
                      Some e \<Rightarrow> (Inl (LoggingIo (lf_path f) e), f # fs)
                    | None \<Rightarrow> cleanup_entries logs_dir cutoff fs (removed + 1))
                 else (case cleanup_entries logs_dir cutoff fs removed of (r, left) \<Rightarrow> (r, f # left))))"

definition cleanup_old_logs ::
  "int \<Rightarrow> int \<Rightarrow> string \<Rightarrow> u32 \<Rightarrow> log_directory \<Rightarrow> (LoggingError + nat) \<times> log_directory" where
  "cleanup_old_logs earliest now logs_dir retention_days dir =
     (case dir of
        DirMissing \<Rightarrow> (Inr 0, DirMissing)
      | DirUnreadable e \<Rightarrow> (Inl (LoggingIo logs_dir e), DirUnreadable e)
      | DirEntries fs \<Rightarrow>
          (case cleanup_entries logs_dir (log_cutoff earliest now retention_days) fs 0 of
             (r, left) \<Rightarrow> (r, DirEntries left)))"

text \<open>The loop keeps the time and the file found so far.\<close>

fun latest_log_loop ::
  "string \<Rightarrow> log_file list \<Rightarrow> (int \<times> log_file) option \<Rightarrow> LoggingError + (int \<times> log_file) option" where
  "latest_log_loop logs_dir [] latest = Inr latest"
| "latest_log_loop logs_dir (f # fs) latest =
     (case lf_entry_error f of
        Some e \<Rightarrow> Inl (LoggingIo logs_dir e)
      | None \<Rightarrow>
          if \<not> lf_regular f then latest_log_loop logs_dir fs latest
          else
            (case lf_modified_at f of
               Inl e \<Rightarrow> Inl (LoggingIo (lf_path f) e)
             | Inr modified \<Rightarrow>
                 latest_log_loop logs_dir fs
                   (case latest of
                      None \<Rightarrow> Some (modified, f)
                    | Some (latest_modified, g) \<Rightarrow> if modified > latest_modified then Some (modified, f) else latest)))"

definition latest_log_path :: "string \<Rightarrow> log_directory \<Rightarrow> LoggingError + log_file option" where
  "latest_log_path logs_dir dir =
     (case dir of
        DirMissing \<Rightarrow> Inr None
      | DirUnreadable e \<Rightarrow> Inl (LoggingIo logs_dir e)
      | DirEntries fs \<Rightarrow> map_sum id (map_option snd) (latest_log_loop logs_dir fs None))"

definition service_tail_latest_log :: "string \<Rightarrow> nat \<Rightarrow> log_directory \<Rightarrow> LoggingError + string list" where
  "service_tail_latest_log logs_dir lines dir =
     (case latest_log_path logs_dir dir of
        Inl e \<Rightarrow> Inl e
      | Inr None \<Rightarrow> Inr []
      | Inr (Some f) \<Rightarrow>
          (case lf_text f of
             Inl e \<Rightarrow> Inl (LoggingIo (lf_path f) e)
           | Inr content \<Rightarrow>
               let output = text_lines content
               in Inr (if length output > lines then drop (length output - lines) output else output)))"

section \<open>The host\<close>

text \<open>
  \<open>RuntimeHost::start\<close> up to the two tasks it spawns: \<open>load\<close> reads the configuration, \<open>init_logging\<close> and
  \<open>bind\<close> set up the log and the socket, errors are texts. The host holds the runtime and the application
  that the server task serves; the scheduler task runs \<open>run_scheduler_until\<close>.
\<close>

record 'w host_env =
  hx_load_config :: "string \<Rightarrow> 'w \<Rightarrow> (string + AppConfig) \<times> 'w"
  hx_gitignore :: gitignore_api
  hx_log_directory :: "string \<Rightarrow> 'w \<Rightarrow> log_directory \<times> 'w"
  hx_store_directory :: "string \<Rightarrow> log_directory \<Rightarrow> 'w \<Rightarrow> 'w"
  hx_init_logging :: "string \<Rightarrow> string \<Rightarrow> 'w \<Rightarrow> (string + unit) \<times> 'w"
  hx_now :: "'w \<Rightarrow> int \<times> 'w"
  hx_earliest :: int
  hx_open_state :: "string \<Rightarrow> 'w \<Rightarrow> (StateError + db) \<times> 'w"
  hx_bind :: "string \<Rightarrow> u16 \<Rightarrow> 'w \<Rightarrow> (string + unit) \<times> 'w"
  hx_web_token_store :: "'w \<Rightarrow> (string + unit) \<times> 'w"
    \<comment> \<open>opening the key ring, needed on any address\<close>
  hx_web_token :: "'w \<Rightarrow> (string + string option) \<times> 'w"

record runtime_host =
  rh_service :: service
  rh_app :: control_app

fun LoggingError_text :: "LoggingError \<Rightarrow> string" where
  "LoggingError_text (LoggingIo path source) = ''I/O error at '' @ path @ '': '' @ source"
| "LoggingError_text LoggingInit = ''failed to initialize tracing subscriber''"

definition validation_text :: "ConfigValidationError list \<Rightarrow> string" where
  "validation_text report = str_join ''; '' (map (\<lambda>e. ce_field e @ '': '' @ ce_message e) report)"

definition control_server_bind ::
  "'w host_env \<Rightarrow> service \<Rightarrow> AppConfig \<Rightarrow> string option \<Rightarrow> ('w, string, runtime_host) m" where
  "control_server_bind hx sv config config_path =
     (let bind_address = wu_bind_address (cf_web_ui config)
      in seqM (hx_bind hx bind_address (wu_port (cf_web_ui config)))
          (seqM (errM (\<lambda>e. ''web error: '' @ e) (hx_web_token_store hx))
           (bindM (if is_loopback_bind bind_address then ret (Inr None) else catchM (hx_web_token hx)) (\<lambda>stored.
              case web_auth_from_bind_address bind_address stored of
                Inl e \<Rightarrow> throw (''web error: '' @ e)
              | Inr auth \<Rightarrow>
                  ret \<lparr>rh_service = sv,
                       rh_app = \<lparr>ca_config = config, ca_config_path = config_path, ca_auth = auth\<rparr>\<rparr>))))"

definition host_cleanup :: "'w host_env \<Rightarrow> AppConfig \<Rightarrow> ('w, string, nat) m" where
  "host_cleanup hx config =
     (let logs_dir = pa_logs_dir (cf_paths config)
      in (\<lambda>w. case hx_log_directory hx logs_dir w of (dir, w) \<Rightarrow>
             case hx_now hx w of (now, w) \<Rightarrow>
             case cleanup_old_logs (hx_earliest hx) now logs_dir (lo_retention_days (cf_logging config)) dir of (r, dir) \<Rightarrow>
               (map_err (\<lambda>e. ''logging error: '' @ LoggingError_text e) r, hx_store_directory hx logs_dir dir w)))"

definition host_runtime :: "'w host_env \<Rightarrow> AppConfig \<Rightarrow> ('w, string, service) m" where
  "host_runtime hx config =
     (\<lambda>w. case hx_open_state hx (pa_state_db (cf_paths config)) w of (opened, w) \<Rightarrow>
          case hx_now hx w of (now, w) \<Rightarrow> (Inr (service_new now opened), w))"

definition host_boot :: "'w host_env \<Rightarrow> string \<Rightarrow> AppConfig \<Rightarrow> ('w, string, runtime_host) m" where
  "host_boot hx config_path config =
     bindM (host_cleanup hx config) (\<lambda>removed.
       seqM (errM (\<lambda>e. ''logging error: '' @ e)
               (hx_init_logging hx (pa_logs_dir (cf_paths config)) (lo_level (cf_logging config))))
         (bindM (host_runtime hx config) (\<lambda>sv. control_server_bind hx sv config (Some config_path))))"

definition runtime_host_start :: "'w host_env \<Rightarrow> string \<Rightarrow> ('w, string, runtime_host) m" where
  "runtime_host_start hx config_path =
     bindM (errM (\<lambda>e. ''config I/O error: '' @ e) (hx_load_config hx config_path)) (\<lambda>config.
       let report = validate_config (hx_gitignore hx) config
       in if \<not> report_is_valid report then throw (''config validation failed: '' @ validation_text report)
          else host_boot hx config_path config)"

text \<open>\<open>shutdown\<close> before it waits for the two tasks, which end at the signal it then sends.\<close>

definition runtime_host_shutdown :: "runtime_host \<Rightarrow> runtime_host" where
  "runtime_host_shutdown host = host\<lparr>rh_service := snd (request_cancel (rh_service host))\<rparr>"

section \<open>The client of the control API\<close>

text \<open>
  \<open>send\<close> carries a request to the address of the server and back. What the client cannot read as the
  answer it expects is an error, and for reading requests so is any status that is one.
\<close>

definition control_base_url :: "string \<Rightarrow> u16 \<Rightarrow> string" where
  "control_base_url bind_address port = ''http://'' @ bind_address @ '':'' @ show_nat (unat port)"

definition client_request :: "control_method \<Rightarrow> string \<Rightarrow> control_request" where
  "client_request verb path =
     \<lparr>cq_method = verb, cq_path = path, cq_authorization = None, cq_lines = None, cq_body = ''''\<rparr>"

definition error_for_status :: "string + control_response \<Rightarrow> string + control_response" where
  "error_for_status r =
     (case r of
        Inl e \<Rightarrow> Inl e
      | Inr response \<Rightarrow>
          if 400 \<le> cp_status response \<and> cp_status response < 600
          then Inl (''HTTP status '' @ show_nat (cp_status response)) else Inr response)"

definition decode_body :: "(control_body \<Rightarrow> 'a option) \<Rightarrow> string + control_response \<Rightarrow> string + 'a" where
  "decode_body read r =
     (case r of
        Inl e \<Rightarrow> Inl e
      | Inr response \<Rightarrow> (case read (cp_body response) of None \<Rightarrow> Inl ''error decoding response body'' | Some x \<Rightarrow> Inr x))"

definition body_health :: "control_body \<Rightarrow> HealthResponse option" where
  "body_health b = (case b of BodyHealth health \<Rightarrow> Some health | _ \<Rightarrow> None)"

definition body_metrics :: "control_body \<Rightarrow> RuntimeMetrics option" where
  "body_metrics b = (case b of BodyMetrics metrics \<Rightarrow> Some metrics | _ \<Rightarrow> None)"

definition body_status :: "control_body \<Rightarrow> RuntimeSnapshot option" where
  "body_status b = (case b of BodyStatus snapshot \<Rightarrow> Some snapshot | _ \<Rightarrow> None)"

definition body_command :: "control_body \<Rightarrow> RuntimeCommandResponse option" where
  "body_command b = (case b of BodyCommand response \<Rightarrow> Some response | _ \<Rightarrow> None)"

type_synonym 'w control_transport = "control_request \<Rightarrow> 'w \<Rightarrow> (string + control_response) \<times> 'w"

definition client_health :: "'w control_transport \<Rightarrow> ('w, string, HealthResponse) m" where
  "client_health send =
     (\<lambda>w. case send (client_request GetRequest ''/health'') w of (r, w) \<Rightarrow> (decode_body body_health (error_for_status r), w))"

definition client_metrics :: "'w control_transport \<Rightarrow> ('w, string, RuntimeMetrics) m" where
  "client_metrics send =
     (\<lambda>w. case send (client_request GetRequest ''/metrics'') w of (r, w) \<Rightarrow> (decode_body body_metrics (error_for_status r), w))"

definition client_status :: "'w control_transport \<Rightarrow> ('w, string, RuntimeSnapshot) m" where
  "client_status send =
     (\<lambda>w. case send (client_request GetRequest ''/status'') w of (r, w) \<Rightarrow> (decode_body body_status (error_for_status r), w))"

definition client_request_run :: "'w control_transport \<Rightarrow> ('w, string, RuntimeCommandResponse) m" where
  "client_request_run send =
     (\<lambda>w. case send (client_request PostRequest ''/sync/run'') w of (r, w) \<Rightarrow> (decode_body body_command r, w))"

definition client_request_stop :: "'w control_transport \<Rightarrow> ('w, string, RuntimeCommandResponse) m" where
  "client_request_stop send =
     (\<lambda>w. case send (client_request PostRequest ''/sync/stop'') w of (r, w) \<Rightarrow> (decode_body body_command r, w))"

text \<open>A server that answers, as the transport of a client.\<close>

definition served :: "control_app \<Rightarrow> control_env \<Rightarrow> service control_transport" where
  "served app env request sv =
     (case control_serve app env request sv of (response, sv', saved) \<Rightarrow> (Inr response, sv'))"

end
