(* ===== verification/Host_Props.thy ===== *)
theory Host_Props
  imports Service_Host
begin

text \<open>
  The surroundings of the runtime: which log files the clean-up removes, that the two readers of the last
  log agree, what a started host guarantees, and what the client of the control API can reach.
\<close>

section \<open>Log files\<close>

definition log_expired :: "int \<Rightarrow> log_file \<Rightarrow> bool" where
  "log_expired cutoff f = (lf_regular f \<and> (case lf_modified_at f of Inl _ \<Rightarrow> False | Inr t \<Rightarrow> t < cutoff))"

lemma cleanup_entries_exact:
  assumes "cleanup_entries logs_dir cutoff fs k = (r, left)"
  shows "\<exists>n\<le>length fs. left = filter (\<lambda>f. \<not> log_expired cutoff f) (take n fs) @ drop n fs \<and>
    (case r of Inl _ \<Rightarrow> True | Inr c \<Rightarrow> n = length fs \<and> c = k + length (filter (log_expired cutoff) fs))"
  using assms
proof (induction logs_dir cutoff fs k arbitrary: left rule: cleanup_entries.induct)
  case (2 logs_dir cutoff f fs k)
  have first: ?case if "left = f # fs" "\<exists>e. r = Inl e"
    using that by (intro exI [of _ 0]) auto
  have keep: ?case
    if "cleanup_entries logs_dir cutoff fs k = (r, l')" "left = f # l'" "\<not> log_expired cutoff f"
      "\<exists>n\<le>length fs. l' = filter (\<lambda>f. \<not> log_expired cutoff f) (take n fs) @ drop n fs \<and>
        (case r of Inl _ \<Rightarrow> True | Inr c \<Rightarrow> n = length fs \<and> c = k + length (filter (log_expired cutoff) fs))" for l'
  proof -
    from that(4) obtain n where n: "n \<le> length fs" "l' = filter (\<lambda>f. \<not> log_expired cutoff f) (take n fs) @ drop n fs"
        "case r of Inl _ \<Rightarrow> True | Inr c \<Rightarrow> n = length fs \<and> c = k + length (filter (log_expired cutoff) fs)" by blast
    then show ?case using that(2,3) by (intro exI [of _ "Suc n"]) (auto split: sum.splits)
  qed
  have drop_it: ?case
    if "log_expired cutoff f"
      "\<exists>n\<le>length fs. left = filter (\<lambda>f. \<not> log_expired cutoff f) (take n fs) @ drop n fs \<and>
        (case r of Inl _ \<Rightarrow> True | Inr c \<Rightarrow> n = length fs \<and> c = (k + 1) + length (filter (log_expired cutoff) fs))"
  proof -
    from that(2) obtain n where n: "n \<le> length fs" "left = filter (\<lambda>f. \<not> log_expired cutoff f) (take n fs) @ drop n fs"
        "case r of Inl _ \<Rightarrow> True | Inr c \<Rightarrow> n = length fs \<and> c = (k + 1) + length (filter (log_expired cutoff) fs)" by blast
    then show ?case using that(1) by (intro exI [of _ "Suc n"]) (auto split: sum.splits)
  qed
  show ?case
  proof (cases "lf_entry_error f")
    case (Some e)
    then show ?thesis using "2.prems" by (intro first) auto
  next
    case None
    note entry = None
    show ?thesis
    proof (cases "lf_regular f")
      case False
      then obtain l' where "cleanup_entries logs_dir cutoff fs k = (r, l')" "left = f # l'"
        using "2.prems" entry by (auto split: prod.splits)
      then show ?thesis
        using keep "2.IH"(1) entry False by (simp add: log_expired_def)
    next
      case True
      show ?thesis
      proof (cases "lf_modified_at f")
        case (Inl e)
        then show ?thesis using "2.prems" entry True by (intro first) auto
      next
        case (Inr t)
        show ?thesis
        proof (cases "t < cutoff")
          case False
          then obtain l' where "cleanup_entries logs_dir cutoff fs k = (r, l')" "left = f # l'"
            using "2.prems" entry True Inr by (auto split: prod.splits)
          then show ?thesis
            using keep "2.IH"(3) entry True Inr False by (simp add: log_expired_def)
        next
          case old: True
          show ?thesis
          proof (cases "lf_remove_error f")
            case (Some e)
            then show ?thesis using "2.prems" entry True Inr old by (intro first) auto
          next
            case None
            then have "cleanup_entries logs_dir cutoff fs (k + 1) = (r, left)"
              using "2.prems" entry True Inr old by simp
            then show ?thesis
              using drop_it "2.IH"(2) entry True Inr old None by (simp add: log_expired_def)
          qed
        qed
      qed
    qed
  qed
qed auto

text \<open>
  C37. Of the entries it gets to, the clean-up removes exactly the files (links to files among them) whose time of
  change is known and before the cutoff, whatever their names, and counts them; where it stops at an error,
  what comes after is left as it was.
\<close>

theorem cleanup_removes_expired:
  assumes "cleanup_old_logs earliest now logs_dir retention_days (DirEntries fs) = (r, DirEntries left)"
  shows "\<exists>n\<le>length fs.
    left = filter (\<lambda>f. \<not> log_expired (log_cutoff earliest now retention_days) f) (take n fs) @ drop n fs \<and>
    (case r of Inl _ \<Rightarrow> True
     | Inr c \<Rightarrow> n = length fs \<and> c = length (filter (log_expired (log_cutoff earliest now retention_days)) fs))"
proof -
  have "cleanup_entries logs_dir (log_cutoff earliest now retention_days) fs 0 = (r, left)"
    using assms by (simp add: cleanup_old_logs_def split: prod.splits)
  from cleanup_entries_exact [OF this, unfolded add_0] show ?thesis .
qed

text \<open>
  The directory as the web interface finds it: \<open>tail_latest_log\<close> of \<open>yds-web\<close> asks the entry for its type, where
  the one of \<open>logging.rs\<close> asks the path, so a link to a file is a log for the second only.
\<close>

definition web_entry :: "log_file \<Rightarrow> log_entry" where
  "web_entry f = \<lparr>le_is_file = (if lf_entry_error f = None then case lf_entry_type f of Inl _ \<Rightarrow> None | Inr b \<Rightarrow> Some b else None),
     le_modified = (case lf_modified_at f of Inl _ \<Rightarrow> None | Inr t \<Rightarrow> Some t),
     le_content = (case lf_text f of Inl _ \<Rightarrow> None | Inr content \<Rightarrow> Some content)\<rparr>"

definition web_listing :: "log_directory \<Rightarrow> log_entry list option" where
  "web_listing dir = (case dir of DirEntries fs \<Rightarrow> Some (map web_entry fs) | DirMissing \<Rightarrow> None | DirUnreadable e \<Rightarrow> None)"

text \<open>An entry that is no link, and whose time of change is known if it is a file.\<close>

definition settled_log :: "log_file \<Rightarrow> bool" where
  "settled_log f =
     (lf_entry_error f \<noteq> None \<or> lf_entry_type f = Inr (lf_regular f) \<and> (\<not> lf_regular f \<or> \<not> isl (lf_modified_at f)))"

definition log_time :: "log_file \<Rightarrow> int" where
  "log_time f = (case lf_modified_at f of Inl _ \<Rightarrow> 0 | Inr t \<Rightarrow> t)"

definition settled_logs :: "log_directory \<Rightarrow> bool" where
  "settled_logs dir =
     (case dir of
        DirEntries fs \<Rightarrow> list_all settled_log fs \<and> distinct (map log_time (filter lf_regular fs))
      | DirMissing \<Rightarrow> True | DirUnreadable e \<Rightarrow> True)"

lemma settled_time: "settled_log f \<Longrightarrow> lf_entry_error f = None \<Longrightarrow> lf_regular f \<Longrightarrow> lf_modified_at f = Inr (log_time f)"
  by (auto simp: settled_log_def log_time_def split: sum.splits)

lemma settled_type: "settled_log f \<Longrightarrow> lf_entry_error f = None \<Longrightarrow> le_is_file (web_entry f) = Some (lf_regular f)"
  by (auto simp: settled_log_def web_entry_def)

lemma entry_error_ends: "\<exists>f\<in>set fs. lf_entry_error f \<noteq> None \<Longrightarrow> isl (latest_log_loop logs_dir fs latest)"
  by (induction fs arbitrary: latest) (auto split: option.split sum.split)

text \<open>What the loop has found after these files, starting from \<open>latest\<close>.\<close>

definition latest_found :: "log_file list \<Rightarrow> (int \<times> log_file) option \<Rightarrow> (int \<times> log_file) option \<Rightarrow> bool" where
  "latest_found fs latest found =
     (case found of
        None \<Rightarrow> latest = None \<and> (\<forall>f\<in>set fs. \<not> lf_regular f)
      | Some (t, g) \<Rightarrow> (latest = Some (t, g) \<or> g \<in> set fs \<and> lf_regular g \<and> t = log_time g) \<and>
          (\<forall>f\<in>set fs. lf_regular f \<longrightarrow> log_time f \<le> t) \<and> (\<forall>t' g'. latest = Some (t', g') \<longrightarrow> t' \<le> t))"

lemma latest_loop_found:
  assumes "\<forall>f\<in>set fs. lf_entry_error f = None \<and> settled_log f"
  shows "\<exists>found. latest_log_loop logs_dir fs latest = Inr found \<and> latest_found fs latest found"
  using assms
proof (induction fs arbitrary: latest)
  case Nil
  then show ?case by (cases latest) (auto simp: latest_found_def)
next
  case (Cons f fs)
  have f: "lf_entry_error f = None" "lf_regular f \<Longrightarrow> lf_modified_at f = Inr (log_time f)"
    using Cons.prems settled_time by auto
  have rest: "\<forall>f\<in>set fs. lf_entry_error f = None \<and> settled_log f" using Cons.prems by simp
  show ?case
  proof (cases "lf_regular f")
    case False
    obtain found where found: "latest_log_loop logs_dir fs latest = Inr found" "latest_found fs latest found"
      using Cons.IH [OF rest] by blast
    then have "latest_found (f # fs) latest found"
      using False by (auto simp: latest_found_def split: option.splits)
    then show ?thesis using found(1) f False by auto
  next
    case True
    define latest' where "latest' = (case latest of None \<Rightarrow> Some (log_time f, f)
        | Some (latest_modified, g) \<Rightarrow> if log_time f > latest_modified then Some (log_time f, f) else latest)"
    obtain found where found: "latest_log_loop logs_dir fs latest' = Inr found" "latest_found fs latest' found"
      using Cons.IH [OF rest] by blast
    have "latest_found (f # fs) latest found"
      using found(2) True
      by (cases latest; cases found) (auto simp: latest_found_def latest'_def split: if_splits)
    then show ?thesis using found(1) f True by (auto simp: latest'_def)
  qed
qed

lemma last_sort_key:
  fixes k :: "'a \<Rightarrow> int"
  assumes "g \<in> set xs" and "\<forall>x\<in>set xs. k x \<le> k g" and "\<forall>x\<in>set xs. k x = k g \<longrightarrow> x = g"
  shows "last (sort_key k xs) = g"
proof -
  have ne: "sort_key k xs \<noteq> []" using assms(1) by (metis empty_iff empty_set set_sort)
  have "last (sort_key k xs) \<in> set xs" using last_in_set [OF ne] by simp
  moreover have "k g \<le> k (last (sort_key k xs))"
  proof -
    have "g \<in> set (sort_key k xs)" using assms(1) by simp
    then obtain i where i: "i < length (sort_key k xs)" "sort_key k xs ! i = g" by (metis in_set_conv_nth)
    have "k (sort_key k xs ! i) \<le> k (sort_key k xs ! (length (sort_key k xs) - 1))"
      using sorted_nth_mono [OF sorted_sort_key, of i "length (sort_key k xs) - 1" k xs] i(1) by simp
    then show ?thesis
      using i ne by (simp add: last_conv_nth)
  qed
  ultimately show ?thesis using assms(2,3) by (metis order_antisym)
qed

lemma tails_agree_listed:
  assumes readable: "\<forall>f\<in>set fs. lf_entry_error f = None \<and> settled_log f"
    and times: "distinct (map log_time (filter lf_regular fs))"
  shows "logging_tail (Some (map web_entry fs)) lines =
    (case service_tail_latest_log logs_dir lines (DirEntries fs) of Inl e \<Rightarrow> [] | Inr l \<Rightarrow> l)"
proof -
  obtain found where found: "latest_log_loop logs_dir fs None = Inr found" "latest_found fs None found"
    using latest_loop_found [OF readable] by blast
  have listed: "\<not> list_ex (\<lambda>e. le_is_file e = None) (map web_entry fs)"
    using readable settled_type by (fastforce simp: list_ex_iff)
  define k :: "log_entry \<Rightarrow> int" where "k = (\<lambda>e. case le_modified e of Some t \<Rightarrow> t | None \<Rightarrow> 0)"
  define files where "files = filter (\<lambda>e. le_is_file e = Some True) (map web_entry fs)"
  have time: "k (web_entry f) = log_time f" for f
    by (simp add: k_def web_entry_def log_time_def split: sum.split)
  have in_files: "e \<in> set files \<longleftrightarrow> (\<exists>f\<in>set fs. lf_regular f \<and> e = web_entry f)" for e
    using readable settled_type by (fastforce simp: files_def)
  show ?thesis
  proof (cases found)
    case None
    then have "files = []" using found(2) in_files by (metis (no_types, lifting) latest_found_def list.set_intros(1) neq_Nil_conv option.simps(4))
    then show ?thesis
      using found None listed
      by (simp add: service_tail_latest_log_def latest_log_path_def logging_tail_def tail_latest_log_def files_def)
  next
    case (Some p)
    obtain t g where p: "p = (t, g)" by fastforce
    have g: "g \<in> set fs" "lf_regular g" "\<forall>f\<in>set fs. lf_regular f \<longrightarrow> log_time f \<le> log_time g"
      using found(2) by (auto simp: Some p latest_found_def)
    have unique: "f = g" if "f \<in> set fs" "lf_regular f" "log_time f = log_time g" for f
      using times g that by (auto simp: distinct_map dest: inj_onD)
    have "last (sort_key k files) = web_entry g"
    proof (rule last_sort_key)
      show "\<forall>x\<in>set files. k x = k (web_entry g) \<longrightarrow> x = web_entry g"
        unfolding Ball_def in_files using unique time by metis
    qed (use g in \<open>auto simp: in_files time\<close>)
    moreover have "files \<noteq> []" "sort_key k files \<noteq> []"
      using g in_files [of "web_entry g"] by (auto simp flip: set_empty)
    ultimately show ?thesis
      using found listed
      by (simp add: service_tail_latest_log_def latest_log_path_def logging_tail_def tail_latest_log_def Some p Let_def
          web_entry_def flip: files_def k_def split: sum.split)
  qed
qed

text \<open>
  C40. The log that the command line shows and the one that the web interface shows are read by two
  different functions. Where no entry of the directory is a link, the time of every file is known and no two files
  have changed at the same moment (of two such, one function takes the first and the other the last), the web
  interface shows the lines that the command line shows, and none where the command line ends in an error: with a
  directory or an entry that cannot be listed, or a newest file that cannot be read.
\<close>

theorem log_tails_agree:
  assumes "settled_logs dir"
  shows "logging_tail (web_listing dir) lines =
    (case service_tail_latest_log logs_dir lines dir of Inl e \<Rightarrow> [] | Inr l \<Rightarrow> l)"
proof (cases dir)
  case (DirEntries fs)
  show ?thesis
  proof (cases "\<exists>f\<in>set fs. lf_entry_error f \<noteq> None")
    case True
    then obtain f where "f \<in> set fs" "le_is_file (web_entry f) = None" by (auto simp: web_entry_def)
    then have "list_ex (\<lambda>e. le_is_file e = None) (map web_entry fs)" by (auto simp: list_ex_iff)
    then show ?thesis
      using entry_error_ends [OF True, of logs_dir None]
      by (auto simp: DirEntries web_listing_def logging_tail_def tail_latest_log_def service_tail_latest_log_def
          latest_log_path_def isl_def)
  next
    case False
    then show ?thesis
      using tails_agree_listed [of fs] assms by (auto simp: DirEntries web_listing_def settled_logs_def list_all_iff)
  qed
qed (simp_all add: web_listing_def logging_tail_def tail_latest_log_def service_tail_latest_log_def latest_log_path_def)

text \<open>A link to a log that is newer than every other: the command line shows it, the web interface does not.\<close>

lemma linked_log_shown_by_one:
  "service_tail_latest_log ''logs'' 5 (DirEntries [\<lparr>lf_path = ''now'', lf_entry_error = None, lf_regular = True,
     lf_entry_type = Inr False, lf_modified_at = Inr 9, lf_text = Inr ''now'', lf_remove_error = None\<rparr>]) = Inr [''now''] \<and>
   logging_tail (web_listing (DirEntries [\<lparr>lf_path = ''now'', lf_entry_error = None, lf_regular = True,
     lf_entry_type = Inr False, lf_modified_at = Inr 9, lf_text = Inr ''now'', lf_remove_error = None\<rparr>])) 5 = []"
  by (simp add: service_tail_latest_log_def latest_log_path_def text_lines_def drop_return_def newline_def
      logging_tail_def web_listing_def tail_latest_log_def web_entry_def)

section \<open>The host\<close>

text \<open>
  C29. A host that has started runs a valid configuration, so its scheduler never ends with an error; it is
  idle; it serves the file it was started with; and without a token it serves a loopback address only.
\<close>

theorem started_host_sound:
  assumes "runtime_host_start hx config_path w = (Inr host, w')"
  shows "report_is_valid (validate_config (hx_gitignore hx) (ca_config (rh_app host))) \<and>
    fst (run_scheduler_until utc_text (cf_schedule (ca_config (rh_app host))) now delays sv) = Inr () \<and>
    service_reachable utc_text outcome (rh_service host) \<and> sv_tasks (rh_service host) = [] \<and>
    ca_config_path (rh_app host) = Some config_path \<and>
    requires_auth (ca_auth (rh_app host)) = (\<not> is_loopback_bind (wu_bind_address (cf_web_ui (ca_config (rh_app host)))))"
proof -
  obtain config w0 where config: "report_is_valid (validate_config (hx_gitignore hx) config)"
      and booted: "host_boot hx config_path config w0 = (Inr host, w')"
    using assms by (auto simp: runtime_host_start_def bindM_Inr Let_def throw_def split: if_splits)
  obtain sv w1 w2 where made: "host_runtime hx config w1 = (Inr sv, w2)"
      and bound: "control_server_bind hx sv config (Some config_path) w2 = (Inr host, w')"
    using booted unfolding host_boot_def bindM_Inr seqM_Inr by blast
  obtain time opened where sv: "sv = service_new time opened"
    using made by (auto simp: host_runtime_def split: prod.splits)
  let ?bind = "wu_bind_address (cf_web_ui config)"
  obtain stored w3 where "(case web_auth_from_bind_address ?bind stored of
      Inl e \<Rightarrow> throw (''web error: '' @ e)
    | Inr auth \<Rightarrow> ret \<lparr>rh_service = sv,
        rh_app = \<lparr>ca_config = config, ca_config_path = Some config_path, ca_auth = auth\<rparr>\<rparr>) w3 = (Inr host, w')"
    using bound unfolding control_server_bind_def Let_def bindM_Inr seqM_Inr by blast
  then obtain auth where auth: "web_auth_from_bind_address ?bind stored = Inr auth"
      and host: "host = \<lparr>rh_service = sv,
        rh_app = \<lparr>ca_config = config, ca_config_path = Some config_path, ca_auth = auth\<rparr>\<rparr>"
    by (cases "web_auth_from_bind_address ?bind stored") (auto simp: throw_def ret_def)
  have "requires_auth auth = (\<not> is_loopback_bind (wu_bind_address (cf_web_ui config)))"
    using auth by (auto simp: web_auth_from_bind_address_def split: if_splits sum.splits option.splits)
  moreover have "service_reachable utc_text outcome sv"
    unfolding sv by (rule service_reachable.created)
  moreover have "sv_tasks sv = []"
    by (simp add: sv service_new_def)
  ultimately show ?thesis
    using config valid_schedule_runs [OF config] by (simp add: host)
qed

section \<open>The client of the control API\<close>

lemma control_routes:
  "map_of control_router (GetRequest, ''/health'') = Some HealthRoute"
  "map_of control_router (GetRequest, ''/metrics'') = Some MetricsRoute"
  "map_of control_router (GetRequest, ''/status'') = Some StatusRoute"
  "map_of control_router (PostRequest, ''/sync/run'') = Some RunRoute"
  "map_of control_router (PostRequest, ''/sync/stop'') = Some StopRoute"
  by (simp_all add: control_router_def)

lemmas client_calls = client_health_def client_metrics_def client_status_def client_request_run_def
  client_request_stop_def client_request_def served_def error_for_status_def decode_body_def

lemma unauthenticated_client:
  "requires_auth (ca_auth app) \<Longrightarrow> authorize app None json =
    Some (if json then json_error 401 ''unauthorized'' else \<lparr>cp_status = 401, cp_body = BodyHtml ''unauthorized''\<rparr>)"
  by (cases "ca_auth app") (auto simp: authorize_def)

text \<open>
  The client never sends a token: against a server that asks for one every call is an error and does
  nothing, so the command line takes a running daemon for one that is offline and cannot stop a run.
\<close>

theorem client_locked_out:
  assumes "requires_auth (ca_auth app)"
  shows "isl (fst (client_health (served app env) sv)) \<and> isl (fst (client_metrics (served app env) sv)) \<and>
    isl (fst (client_status (served app env) sv)) \<and> isl (fst (client_request_run (served app env) sv)) \<and>
    isl (fst (client_request_stop (served app env) sv)) \<and>
    snd (client_request_run (served app env) sv) = sv \<and> snd (client_request_stop (served app env) sv) = sv"
  by (simp add: client_calls control_serve_def control_routes unauthenticated_client [OF assms] json_error_def
      body_command_def)

text \<open>
  Against a server that asks for no token the client sees the runtime: a command comes back as the
  runtime answered it, accepted or not, and has had its effect; the status is the runtime's snapshot.
\<close>

theorem client_drives_runtime:
  assumes "ca_auth app = AuthDisabled"
  shows "client_request_run (served app env) sv =
      map_prod Inr id (request_run (cx_utc_text env) (cx_now env) TrManual sv) \<and>
    client_request_stop (served app env) sv = map_prod Inr id (request_cancel sv) \<and>
    client_status (served app env) sv = map_prod Inr id (service_snapshot (cx_now env) (cx_opened env 0) sv) \<and>
    client_metrics (served app env) sv = (Inr (service_metrics sv), sv)"
proof -
  have "authorize app None json = None" for json
    by (simp add: authorize_None assms)
  then show ?thesis
    by (auto simp: client_calls control_serve_def control_routes command_response_def ok_response_def body_command_def
        body_status_def body_metrics_def split: prod.split)
qed

section \<open>Examples\<close>

definition plain_log :: "string \<Rightarrow> int \<Rightarrow> log_file" where
  "plain_log path time =
     \<lparr>lf_path = path, lf_entry_error = None, lf_regular = True, lf_entry_type = Inr True, lf_modified_at = Inr time,
      lf_text = Inr path, lf_remove_error = None\<rparr>"

theorem cleanup_removes_expired_witness:
  "filter (\<lambda>f. \<not> log_expired (log_cutoff 0 (200 * 24 * 60 * 60 * second_ns) 7) f)
     [plain_log ''thesis.txt'' 5, plain_log ''new.log'' (199 * 24 * 60 * 60 * second_ns)] =
   [plain_log ''new.log'' (199 * 24 * 60 * 60 * second_ns)]"
proof -
  have "cleanup_old_logs 0 (200 * 24 * 60 * 60 * second_ns) ''logs'' 7
      (DirEntries [plain_log ''thesis.txt'' 5, plain_log ''new.log'' (199 * 24 * 60 * 60 * second_ns)]) =
      (Inr 1, DirEntries [plain_log ''new.log'' (199 * 24 * 60 * 60 * second_ns)])"
    by (simp add: cleanup_old_logs_def log_cutoff_def plain_log_def second_ns_def)
  from cleanup_removes_expired [OF this] show ?thesis by auto
qed

theorem log_tails_agree_witness:
  "logging_tail (web_listing (DirEntries [plain_log ''b'' 9, plain_log ''a'' 3])) 5 = [''b'']"
proof -
  have "service_tail_latest_log ''logs'' 5 (DirEntries [plain_log ''b'' 9, plain_log ''a'' 3]) = Inr [''b'']"
    by (simp add: service_tail_latest_log_def latest_log_path_def plain_log_def text_lines_def drop_return_def newline_def)
  moreover have "settled_logs (DirEntries [plain_log ''b'' 9, plain_log ''a'' 3])"
    by (simp add: settled_logs_def settled_log_def plain_log_def log_time_def)
  ultimately show ?thesis using log_tails_agree [of _ 5 "''logs''"] by simp
qed

definition quiet_host :: "unit host_env" where
  "quiet_host =
     \<lparr>hx_load_config = (\<lambda>path w. (Inr work_config, w)), hx_gitignore = permissive_gitignore,
      hx_log_directory = (\<lambda>path w. (DirMissing, w)), hx_store_directory = (\<lambda>path dir w. w),
      hx_init_logging = (\<lambda>path level w. (Inr (), w)), hx_now = (\<lambda>w. (5, w)), hx_earliest = 0,
      hx_open_state = (\<lambda>path w. (Inl (SqliteConstraint ''closed''), w)), hx_bind = (\<lambda>address port w. (Inr (), w)),
      hx_web_token_store = (\<lambda>w. (Inr (), w)), hx_web_token = (\<lambda>w. (Inr (Some ''secret''), w))\<rparr>"

lemma work_config_report: "report_is_valid (validate_config permissive_gitignore work_config)"
  using work_config_valid by (simp add: ensure_valid_config_def Let_def split: if_splits)

theorem started_host_sound_witness:
  "\<exists>host. fst (runtime_host_start quiet_host ''config.json'' ()) = Inr host \<and> sv_tasks (rh_service host) = []"
proof -
  let ?address = "wu_bind_address (cf_web_ui work_config)"
  obtain auth where "web_auth_from_bind_address ?address (if is_loopback_bind ?address then Inr None else Inr (Some ''secret'')) = Inr auth"
    by (cases "is_loopback_bind ?address") (auto simp: web_auth_from_bind_address_def)
  then have "runtime_host_start quiet_host ''config.json'' () =
      (Inr \<lparr>rh_service = service_new 5 (Inl (SqliteConstraint ''closed'')),
        rh_app = \<lparr>ca_config = work_config, ca_config_path = Some ''config.json'', ca_auth = auth\<rparr>\<rparr>, ())"
    by (auto simp: runtime_host_start_def host_boot_def host_cleanup_def host_runtime_def control_server_bind_def
        quiet_host_def cleanup_old_logs_def bindM_def seqM_def errM_def catchM_def map_err_def ret_def work_config_report Let_def)
  from this started_host_sound [OF this] show ?thesis by auto
qed

definition open_app :: control_app where
  "open_app = guarded_app\<lparr>ca_auth := AuthDisabled\<rparr>"

theorem client_drives_runtime_witness:
  "client_request_stop (served open_app quiet_env) busy_service = map_prod Inr id (request_cancel busy_service)"
  using client_drives_runtime [of open_app quiet_env busy_service] by (simp add: open_app_def)

theorem client_locked_out_witness:
  "isl (fst (client_status (served guarded_app quiet_env) busy_service))"
  using client_locked_out [of guarded_app quiet_env busy_service] by (simp add: guarded_app_def)

end
