(* ===== verification/Token_Store.thy ===== *)
theory Token_Store
  imports Http_Client
begin

text \<open>
  The stores of the OAuth token in \<open>crates/yds-yandex-disk/src/auth.rs\<close>: the key ring of the operating
  system, where a token is kept as JSON text, and the store in memory; the state of the login; the client
  id; and the import of a token that yacli left in the key ring. The key ring, the environment variables,
  the file of yacli and the JSON and TOML readers are parameters.
\<close>

section \<open>Tokens as JSON\<close>

record StoredTokenJson =
  tn_access_token :: string
  tn_refresh_token :: "string option"
  tn_expires_at_unix :: "i64 option"
  tn_scope :: "string option"
  tn_token_type :: "string option"
  tn_client_id :: "string option"

definition json_from_token :: "StoredToken \<Rightarrow> StoredTokenJson" where
  "json_from_token v =
     \<lparr>tn_access_token = st_access_token v, tn_refresh_token = st_refresh_token v,
      tn_expires_at_unix = st_expires_at_unix v, tn_scope = st_scope v, tn_token_type = st_token_type v,
      tn_client_id = st_client_id v\<rparr>"

definition token_from_json :: "StoredTokenJson \<Rightarrow> StoredToken" where
  "token_from_json v =
     \<lparr>st_access_token = tn_access_token v, st_refresh_token = tn_refresh_token v,
      st_expires_at_unix = tn_expires_at_unix v, st_scope = tn_scope v, st_token_type = tn_token_type v,
      st_client_id = tn_client_id v\<rparr>"

record TokenStatus =
  tu_account_alias :: string
  tu_authenticated :: bool
  tu_expires_at_unix :: "i64 option"
  tu_has_refresh_token :: bool
  tu_scope :: "string option"
  tu_client_id :: "string option"

definition token_metadata :: "StoredToken \<Rightarrow> string \<Rightarrow> TokenStatus" where
  "token_metadata token account_alias =
     \<lparr>tu_account_alias = account_alias, tu_authenticated = True, tu_expires_at_unix = st_expires_at_unix token,
      tu_has_refresh_token = (st_refresh_token token \<noteq> None), tu_scope = st_scope token,
      tu_client_id = st_client_id token\<rparr>"

definition unauthenticated :: "string \<Rightarrow> TokenStatus" where
  "unauthenticated account_alias =
     \<lparr>tu_account_alias = account_alias, tu_authenticated = False, tu_expires_at_unix = None,
      tu_has_refresh_token = False, tu_scope = None, tu_client_id = None\<rparr>"

definition token_status :: "'w token_store \<Rightarrow> string \<Rightarrow> ('w, TokenStatus) disk_call" where
  "token_status store account_alias =
     bindM (ts_load store account_alias) (\<lambda>stored.
       ret (case stored of Some token \<Rightarrow> token_metadata token account_alias
            | None \<Rightarrow> unauthenticated account_alias))"

section \<open>The key ring\<close>

text \<open>The errors of the \<open>keyring\<close> crate, with their text: no such entry, or anything else.\<close>

datatype keyring_error = KeyNoEntry (keyring_text: string) | KeyFailed (keyring_text: string)

record 'w keyring_api =
  kr_use_native_store :: "('w, keyring_error, unit) m"
  kr_entry :: "string \<Rightarrow> string \<Rightarrow> ('w, keyring_error, unit) m"
    \<comment> \<open>\<open>Entry::new\<close> with the service and the user\<close>
  kr_get_password :: "string \<Rightarrow> string \<Rightarrow> ('w, keyring_error, string) m"
  kr_set_password :: "string \<Rightarrow> string \<Rightarrow> string \<Rightarrow> ('w, keyring_error, unit) m"
  kr_delete_credential :: "string \<Rightarrow> string \<Rightarrow> ('w, keyring_error, unit) m"

text \<open>Writing and reading the text of a token; errors are texts.\<close>

record token_json_api =
  tj_to_string :: "StoredTokenJson \<Rightarrow> string + string"
  tj_from_str :: "string \<Rightarrow> string + StoredTokenJson"

definition DEFAULT_KEYRING_SERVICE :: string where
  "DEFAULT_KEYRING_SERVICE = ''ya-disk-sync.yandex-disk''"

definition map_keyring_error :: "keyring_error \<Rightarrow> YandexDiskError" where
  "map_keyring_error error = error_new YkAuthUnavailable (''keyring access failed: '' @ keyring_text error)"

definition keyring_load_token ::
  "'w keyring_api \<Rightarrow> token_json_api \<Rightarrow> string \<Rightarrow> string \<Rightarrow> ('w, StoredToken option) disk_call" where
  "keyring_load_token kr json service_name account_alias =
     seqM (errM map_keyring_error (kr_entry kr service_name account_alias))
       (bindM (catchM (kr_get_password kr service_name account_alias)) (\<lambda>got.
          case got of
            Inl (KeyNoEntry text) \<Rightarrow> ret None
          | Inl (KeyFailed text) \<Rightarrow> throw (map_keyring_error (KeyFailed text))
          | Inr secret \<Rightarrow>
              (case tj_from_str json secret of
                 Inl error \<Rightarrow> throw (error_new YkAuthUnavailable (''stored Yandex Disk token is malformed: '' @ error))
               | Inr parsed \<Rightarrow> ret (Some (token_from_json parsed)))))"

definition keyring_save_token ::
  "'w keyring_api \<Rightarrow> token_json_api \<Rightarrow> string \<Rightarrow> string \<Rightarrow> StoredToken \<Rightarrow> ('w, unit) disk_call" where
  "keyring_save_token kr json service_name account_alias token =
     seqM (errM map_keyring_error (kr_entry kr service_name account_alias))
       (case tj_to_string json (json_from_token token) of
          Inl error \<Rightarrow> throw (error_critical (''failed to serialize Yandex Disk token: '' @ error))
        | Inr secret \<Rightarrow> errM map_keyring_error (kr_set_password kr service_name account_alias secret))"

definition keyring_delete_token :: "'w keyring_api \<Rightarrow> string \<Rightarrow> string \<Rightarrow> ('w, bool) disk_call" where
  "keyring_delete_token kr service_name account_alias =
     seqM (errM map_keyring_error (kr_entry kr service_name account_alias))
       (bindM (catchM (kr_delete_credential kr service_name account_alias)) (\<lambda>deleted.
          case deleted of
            Inr _ \<Rightarrow> ret True
          | Inl (KeyNoEntry text) \<Rightarrow> ret False
          | Inl (KeyFailed text) \<Rightarrow> throw (map_keyring_error (KeyFailed text))))"

definition keyring_token_store :: "'w keyring_api \<Rightarrow> token_json_api \<Rightarrow> string \<Rightarrow> 'w token_store" where
  "keyring_token_store kr json service_name =
     \<lparr>ts_load = keyring_load_token kr json service_name, ts_save = keyring_save_token kr json service_name,
      ts_delete = keyring_delete_token kr service_name\<rparr>"

text \<open>\<open>KeyringTokenStore::default_store\<close>.\<close>

definition keyring_default_store :: "'w keyring_api \<Rightarrow> token_json_api \<Rightarrow> ('w, 'w token_store) disk_call" where
  "keyring_default_store kr json =
     seqM (errM map_keyring_error (kr_use_native_store kr))
       (ret (keyring_token_store kr json DEFAULT_KEYRING_SERVICE))"

section \<open>The store in memory\<close>

type_synonym memory_tokens = "string \<Rightarrow> StoredToken option"

definition memory_load_token :: "string \<Rightarrow> (memory_tokens, StoredToken option) disk_call" where
  "memory_load_token account_alias = (\<lambda>tokens. (Inr (tokens account_alias), tokens))"

definition memory_save_token :: "string \<Rightarrow> StoredToken \<Rightarrow> (memory_tokens, unit) disk_call" where
  "memory_save_token account_alias token = (\<lambda>tokens. (Inr (), tokens(account_alias := Some token)))"

definition memory_delete_token :: "string \<Rightarrow> (memory_tokens, bool) disk_call" where
  "memory_delete_token account_alias =
     (\<lambda>tokens. (Inr (tokens account_alias \<noteq> None), tokens(account_alias := None)))"

definition memory_token_store :: "memory_tokens token_store" where
  "memory_token_store = \<lparr>ts_load = memory_load_token, ts_save = memory_save_token, ts_delete = memory_delete_token\<rparr>"

section \<open>The client id\<close>

text \<open>\<open>environment\<close> is the variable \<open>YDS_OAUTH_CLIENT_ID\<close>.\<close>

definition resolve_oauth_client_id :: "YandexDiskConfig \<Rightarrow> string option \<Rightarrow> string option \<Rightarrow> string option" where
  "resolve_oauth_client_id config environment cli_override =
     (case (case cli_override of
              Some v \<Rightarrow> Some v
            | None \<Rightarrow> (case yd_oauth_client_id config of Some v \<Rightarrow> Some v | None \<Rightarrow> environment)) of
        Some v \<Rightarrow> if str_trim v \<noteq> [] then Some v else None
      | None \<Rightarrow> None)"

section \<open>Import from yacli\<close>

text \<open>\<open>str::parse::<i64>\<close>.\<close>

definition parse_i64 :: "string \<Rightarrow> i64 option" where
  "parse_i64 s =
     (let (negative, ds) =
        (case s of
           c # cs \<Rightarrow> if c = CHR ''-'' \<and> cs \<noteq> [] then (True, cs) else if c = CHR ''+'' \<and> cs \<noteq> [] then (False, cs) else (False, s)
         | [] \<Rightarrow> (False, []))
      in if ds = [] then None
         else case digits_value 0 ds of
                None \<Rightarrow> None
              | Some n \<Rightarrow>
                  let v = (if negative then - int n else int n)
                  in if - (2 ^ 63) \<le> v \<and> v < 2 ^ 63 then Some (of_int v) else None)"

text \<open>Values of \<open>serde_json\<close> and \<open>toml\<close> are only read through what they offer.\<close>

record 'v json_value_api =
  jv_from_str :: "string \<Rightarrow> 'v option"
  jv_get :: "'v \<Rightarrow> string \<Rightarrow> 'v option"
  jv_as_str :: "'v \<Rightarrow> string option"
  jv_as_i64 :: "'v \<Rightarrow> i64 option"

record 't toml_value_api =
  tv_from_str :: "string \<Rightarrow> 't option"
  tv_as_table :: "'t \<Rightarrow> (string \<times> 't) list option"
  tv_as_bool :: "'t \<Rightarrow> bool option"
  tv_as_str :: "'t \<Rightarrow> string option"

definition json_string :: "'v json_value_api \<Rightarrow> 'v \<Rightarrow> string \<Rightarrow> string option" where
  "json_string jv v key =
     (case Option.bind (jv_get jv v key) (jv_as_str jv) of
        Some s \<Rightarrow> if str_trim s \<noteq> [] then Some s else None
      | None \<Rightarrow> None)"

definition json_i64 :: "'v json_value_api \<Rightarrow> 'v \<Rightarrow> string \<Rightarrow> i64 option" where
  "json_i64 jv v key =
     Option.bind (jv_get jv v key) (\<lambda>v.
       case jv_as_i64 jv v of Some n \<Rightarrow> Some n | None \<Rightarrow> Option.bind (jv_as_str jv v) parse_i64)"

definition parse_yacli_disk_token ::
  "'v json_value_api \<Rightarrow> token_json_api \<Rightarrow> string \<Rightarrow> YandexDiskError + StoredToken" where
  "parse_yacli_disk_token jv json secret =
     (case Option.bind (jv_from_str jv secret) (\<lambda>v.
         map_option (Pair v) (Option.bind (jv_get jv v ''access_token'') (jv_as_str jv))) of
        Some (v, access_token) \<Rightarrow>
          if str_trim access_token = []
          then Inl (error_auth_unavailable ''yacli keyring JSON has an empty access_token'')
          else Inr \<lparr>st_access_token = access_token, st_refresh_token = json_string jv v ''refresh_token'',
                    st_expires_at_unix =
                      (case json_i64 jv v ''expires_at_unix'' of
                         Some n \<Rightarrow> Some n | None \<Rightarrow> json_i64 jv v ''expires_at_epoch_secs''),
                    st_scope = json_string jv v ''scope'', st_token_type = json_string jv v ''token_type'',
                    st_client_id = json_string jv v ''client_id''\<rparr>
      | None \<Rightarrow>
          (case tj_from_str json secret of
             Inr token \<Rightarrow> Inr (token_from_json token)
           | Inl _ \<Rightarrow>
               (let access_token = str_trim secret
                in if access_token = [] then Inl (error_auth_unavailable ''yacli keyring entry is empty'')
                   else Inr \<lparr>st_access_token = access_token, st_refresh_token = None, st_expires_at_unix = None,
                             st_scope = Some ''disk'', st_token_type = Some ''OAuth'', st_client_id = None\<rparr>)))"

definition push_unique :: "string list \<Rightarrow> string \<Rightarrow> string list" where
  "push_unique vs v = (if v \<in> set vs then vs else vs @ [v])"

text \<open>The candidate of an account, and whether it is the default account.\<close>

definition yacli_candidate :: "'t toml_value_api \<Rightarrow> string \<times> 't \<Rightarrow> (bool \<times> string) option" where
  "yacli_candidate tv account =
     Option.bind (tv_as_table tv (snd account)) (\<lambda>account_table.
       let is_default = (case Option.bind (map_of account_table ''default'') (tv_as_bool tv) of Some b \<Rightarrow> b | None \<Rightarrow> False)
       in Option.bind (Option.bind (map_of account_table ''disk'') (tv_as_table tv)) (\<lambda>disk_table.
            if \<not> (case Option.bind (map_of disk_table ''enabled'') (tv_as_bool tv) of Some b \<Rightarrow> b | None \<Rightarrow> False)
            then None
            else
              let credential_ref = (case Option.bind (map_of disk_table ''credential_ref'') (tv_as_str tv) of
                                      Some r \<Rightarrow> r | None \<Rightarrow> ''store:disk'');
                  credential_name = (case strip_prefix ''store:'' credential_ref of
                                       Some n \<Rightarrow> if str_trim n \<noteq> [] then n else ''disk''
                                     | None \<Rightarrow> ''disk'')
              in Some (is_default, fst account @ '':'' @ credential_name)))"

definition yacli_candidates_from_accounts_toml :: "'t toml_value_api \<Rightarrow> string \<Rightarrow> string list" where
  "yacli_candidates_from_accounts_toml tv content =
     (case Option.bind (Option.bind (Option.bind (tv_from_str tv content) (tv_as_table tv))
         (\<lambda>table. map_of table ''accounts'')) (tv_as_table tv) of
        None \<Rightarrow> []
      | Some accounts \<Rightarrow>
          let candidates = List.map_filter (yacli_candidate tv) accounts
          in map snd (filter fst candidates) @ map snd (filter (\<lambda>c. \<not> fst c) candidates))"

text \<open>
  \<open>var\<close> gives the path in an environment variable, \<open>read\<close> the text of a file where it can be read.
\<close>

definition yacli_accounts_path :: "bool \<Rightarrow> (string \<Rightarrow> local_path option) \<Rightarrow> local_path option" where
  "yacli_accounts_path windows var =
     (if windows then map_option (\<lambda>p. p @ [''yacli'', ''accounts.toml'']) (var ''APPDATA'')
      else map_option (\<lambda>p. p @ [''yacli'', ''accounts.toml''])
        (case var ''XDG_CONFIG_HOME'' of
           Some p \<Rightarrow> Some p
         | None \<Rightarrow> map_option (\<lambda>home. home @ [''.config'']) (var ''HOME'')))"

definition yacli_keyring_candidates ::
  "'t toml_value_api \<Rightarrow> local_path option \<Rightarrow> (local_path \<Rightarrow> string option) \<Rightarrow> string \<Rightarrow> string list" where
  "yacli_keyring_candidates tv accounts_path read account_alias =
     (let candidates =
        (if str_trim account_alias \<noteq> [] \<and> account_alias \<noteq> ''default''
         then push_unique (push_unique [] account_alias) (account_alias @ '':disk'') else [])
      in case Option.bind accounts_path read of
           None \<Rightarrow> candidates
         | Some content \<Rightarrow> foldl push_unique candidates (yacli_candidates_from_accounts_toml tv content))"

definition YACLI_KEYRING_SERVICE :: string where
  "YACLI_KEYRING_SERVICE = ''com.nextstat.yacli''"

primrec import_from_candidates ::
  "'w keyring_api \<Rightarrow> (string \<Rightarrow> YandexDiskError + StoredToken) \<Rightarrow> 'w token_store \<Rightarrow> string \<Rightarrow> string list \<Rightarrow>
   string list \<Rightarrow> ('w, unit) disk_call" where
  "import_from_candidates kr parse store account_alias [] errors =
     throw (error_auth_unavailable
       (''safe yacli token import is unavailable: '' @
        (if errors = [] then ''no matching yacli keyring entry was found''
         else ''keyring lookup errors: '' @ str_join ''; '' errors) @ ''; run auth login''))"
| "import_from_candidates kr parse store account_alias (yacli_user # users) errors =
     seqM (errM map_keyring_error (kr_entry kr YACLI_KEYRING_SERVICE yacli_user))
       (bindM (catchM (kr_get_password kr YACLI_KEYRING_SERVICE yacli_user)) (\<lambda>got.
          case got of
            Inr secret \<Rightarrow> bindM (of_result (parse secret)) (\<lambda>token. ts_save store account_alias token)
          | Inl (KeyNoEntry text) \<Rightarrow> import_from_candidates kr parse store account_alias users errors
          | Inl (KeyFailed text) \<Rightarrow>
              import_from_candidates kr parse store account_alias users (errors @ [yacli_user @ '': '' @ text])))"

definition import_yacli_auth ::
  "'w keyring_api \<Rightarrow> (string \<Rightarrow> YandexDiskError + StoredToken) \<Rightarrow> (string \<Rightarrow> string list) \<Rightarrow> 'w token_store \<Rightarrow> string \<Rightarrow>
   ('w, unit) disk_call" where
  "import_yacli_auth kr parse candidates store account_alias =
     seqM (errM map_keyring_error (kr_use_native_store kr))
       (import_from_candidates kr parse store account_alias (candidates account_alias) [])"

section \<open>Clients\<close>

text \<open>
  The constructors of \<open>HttpYandexDiskClient\<close>: \<open>build\<close> makes a client of the HTTP library with a timeout, the
  first without and the second with redirects.
\<close>

definition http_client_with_options ::
  "(bool \<Rightarrow> nat \<Rightarrow> reqwest_error option) \<Rightarrow> 'w http_env \<Rightarrow> string \<Rightarrow> 'w token_store \<Rightarrow> RetryPolicy \<Rightarrow> OAuthFlow option \<Rightarrow>
   HttpClientOptions \<Rightarrow> YandexDiskError + 'w http_client" where
  "http_client_with_options build env account_alias store policy flow options =
     (case build False (ho_api_request_timeout options) of
        Some e \<Rightarrow> Inl (error_from_reqwest e)
      | None \<Rightarrow>
          (case build True (ho_transfer_request_timeout options) of
             Some e \<Rightarrow> Inl (error_from_reqwest e)
           | None \<Rightarrow>
               Inr \<lparr>hc_env = env\<lparr>he_tokens := store\<rparr>, hc_account_alias = account_alias, hc_retry_policy = policy,
                    hc_oauth_flow = flow, hc_options = options\<rparr>))"

definition http_client_new ::
  "(bool \<Rightarrow> nat \<Rightarrow> reqwest_error option) \<Rightarrow> 'w http_env \<Rightarrow> string \<Rightarrow> 'w token_store \<Rightarrow> RetryPolicy \<Rightarrow>
   YandexDiskError + 'w http_client" where
  "http_client_new build env account_alias store policy =
     http_client_with_options build env account_alias store policy None http_client_options_default"

definition http_client_with_oauth_flow ::
  "(bool \<Rightarrow> nat \<Rightarrow> reqwest_error option) \<Rightarrow> 'w http_env \<Rightarrow> string \<Rightarrow> 'w token_store \<Rightarrow> RetryPolicy \<Rightarrow> OAuthFlow \<Rightarrow>
   YandexDiskError + 'w http_client" where
  "http_client_with_oauth_flow build env account_alias store policy flow =
     http_client_with_options build env account_alias store policy (Some flow) http_client_options_default"

end
