(* ===== verification/Token_Props.thy ===== *)
theory Token_Props
  imports Token_Store
begin

text \<open>
  What every token store promises, as the locale \<open>token_storage\<close>, what follows from it for the state of
  the login and for the import from yacli, and that the store in memory and the one in the key ring keep
  it, the latter where the key ring keeps what it is given and the JSON text of a token can be read back.
\<close>

section \<open>The contract of a token store\<close>

text \<open>
  \<open>held\<close> is what a store holds for each account. A failed operation leaves it as it was; an operation on
  one account leaves the others alone.
\<close>

locale token_storage =
  fixes store :: "'w token_store" and held :: "'w \<Rightarrow> string \<Rightarrow> StoredToken option"
  assumes load_law: "ts_load store account w = (r, w') \<Longrightarrow>
      held w' = held w \<and> (case r of Inl _ \<Rightarrow> True | Inr t \<Rightarrow> t = held w account)"
    and save_law: "ts_save store account token w = (saved, w') \<Longrightarrow>
      held w' = (case saved of Inl _ \<Rightarrow> held w | Inr _ \<Rightarrow> (held w)(account := Some token))"
    and delete_law: "ts_delete store account w = (deletion, w') \<Longrightarrow>
      (case deletion of Inl _ \<Rightarrow> held w' = held w
       | Inr deleted \<Rightarrow> held w' = (held w)(account := None) \<and> (held w account \<noteq> None \<longrightarrow> deleted))"
begin

lemma status_law:
  assumes "token_status store account w = (Inr status, w')"
  shows "held w' = held w \<and> status = (case held w account of None \<Rightarrow> unauthenticated account
    | Some token \<Rightarrow> token_metadata token account)"
proof -
  obtain r v where load: "ts_load store account w = (r, v)" by fastforce
  from load_law [OF this] show ?thesis
    using assms load by (auto simp: token_status_def bindM_def ret_def split: sum.splits)
qed

lemma saved_then_loaded:
  assumes "ts_save store account token w = (Inr (), v)" and "ts_load store other v = (Inr found, u)"
  shows "found = (if other = account then Some token else held w other)"
  using save_law [OF assms(1)] load_law [OF assms(2)] by simp

lemma deleted_then_status:
  assumes "ts_delete store account w = (Inr deleted, v)" and "token_status store account v = (Inr status, u)"
  shows "\<not> tu_authenticated status"
  using delete_law [OF assms(1)] status_law [OF assms(2)] by (simp add: unauthenticated_def)

end

interpretation memory: token_storage memory_token_store id
  by unfold_locales
    (auto simp: memory_token_store_def memory_load_token_def memory_save_token_def memory_delete_token_def)

section \<open>The store in the key ring\<close>

text \<open>
  What the code relies on of the key ring: reading changes nothing and gives what was set last, setting and
  deleting change the one entry, opening an entry changes nothing, and what fails changes nothing.
\<close>

definition keyring_ok :: "'w keyring_api \<Rightarrow> ('w \<Rightarrow> string \<Rightarrow> string \<Rightarrow> string option) \<Rightarrow> bool" where
  "keyring_ok kr secrets =
     ((\<forall>w. secrets (snd (kr_use_native_store kr w)) = secrets w) \<and>
      (\<forall>service user w. secrets (snd (kr_entry kr service user w)) = secrets w) \<and>
      (\<forall>service user w. case kr_get_password kr service user w of (r, w') \<Rightarrow>
         secrets w' = secrets w \<and>
         (case r of Inr secret \<Rightarrow> secrets w service user = Some secret
          | Inl (KeyNoEntry _) \<Rightarrow> secrets w service user = None | Inl (KeyFailed _) \<Rightarrow> True)) \<and>
      (\<forall>service user secret w. case kr_set_password kr service user secret w of (r, w') \<Rightarrow>
         secrets w' = (case r of Inl _ \<Rightarrow> secrets w
                       | Inr _ \<Rightarrow> (secrets w)(service := (secrets w service)(user := Some secret)))) \<and>
      (\<forall>service user w. case kr_delete_credential kr service user w of (r, w') \<Rightarrow>
         (case r of Inr _ \<Rightarrow> secrets w' = (secrets w)(service := (secrets w service)(user := None))
          | Inl (KeyNoEntry _) \<Rightarrow> secrets w' = secrets w \<and> secrets w service user = None
          | Inl (KeyFailed _) \<Rightarrow> secrets w' = secrets w)))"

definition token_json_ok :: "token_json_api \<Rightarrow> bool" where
  "token_json_ok json = (\<forall>v text. tj_to_string json v = Inr text \<longrightarrow> tj_from_str json text = Inr v)"

text \<open>The tokens in the key ring: the entries of the service that can be read as one.\<close>

definition keyring_tokens ::
  "token_json_api \<Rightarrow> ('w \<Rightarrow> string \<Rightarrow> string \<Rightarrow> string option) \<Rightarrow> string \<Rightarrow> 'w \<Rightarrow> string \<Rightarrow> StoredToken option" where
  "keyring_tokens json secrets service w = (\<lambda>account.
     Option.bind (secrets w service account) (\<lambda>secret.
       case tj_from_str json secret of Inl _ \<Rightarrow> None | Inr v \<Rightarrow> Some (token_from_json v)))"

lemma token_from_json_inverse [simp]: "token_from_json (json_from_token token) = token"
  by (simp add: token_from_json_def json_from_token_def)

lemma keyring_entry_keeps: "keyring_ok kr secrets \<Longrightarrow> kr_entry kr service user w = (e, w') \<Longrightarrow> secrets w' = secrets w"
  unfolding keyring_ok_def by (metis snd_conv)

lemma keyring_get:
  assumes "keyring_ok kr secrets" "kr_get_password kr service user w = (r, w')"
  shows "secrets w' = secrets w \<and>
    (case r of Inr secret \<Rightarrow> secrets w service user = Some secret
     | Inl (KeyNoEntry _) \<Rightarrow> secrets w service user = None | Inl (KeyFailed _) \<Rightarrow> True)"
  using assms(1) [unfolded keyring_ok_def, THEN conjunct2, THEN conjunct2, THEN conjunct1, rule_format,
      where service = service and user = user and w = w] by (simp add: assms(2))

lemma keyring_set:
  assumes "keyring_ok kr secrets" "kr_set_password kr service user secret w = (r, w')"
  shows "secrets w' = (case r of Inl _ \<Rightarrow> secrets w
    | Inr _ \<Rightarrow> (secrets w)(service := (secrets w service)(user := Some secret)))"
  using assms(1) [unfolded keyring_ok_def, THEN conjunct2, THEN conjunct2, THEN conjunct2, THEN conjunct1, rule_format,
      where service = service and user = user and secret = secret and w = w] by (simp add: assms(2))

lemma keyring_delete:
  assumes "keyring_ok kr secrets" "kr_delete_credential kr service user w = (r, w')"
  shows "case r of Inr _ \<Rightarrow> secrets w' = (secrets w)(service := (secrets w service)(user := None))
    | Inl (KeyNoEntry _) \<Rightarrow> secrets w' = secrets w \<and> secrets w service user = None
    | Inl (KeyFailed _) \<Rightarrow> secrets w' = secrets w"
  using assms(1) [unfolded keyring_ok_def, THEN conjunct2, THEN conjunct2, THEN conjunct2, THEN conjunct2, rule_format,
      where service = service and user = user and w = w] by (simp add: assms(2))

lemmas keyring_steps = seqM_def bindM_def errM_def catchM_def map_err_def ret_def throw_def

lemma keyring_load_law:
  assumes "keyring_ok kr secrets" "keyring_load_token kr json service account w = (r, w')"
  shows "keyring_tokens json secrets service w' = keyring_tokens json secrets service w \<and>
    (case r of Inl _ \<Rightarrow> True | Inr t \<Rightarrow> t = keyring_tokens json secrets service w account)"
proof -
  obtain e w1 where e: "kr_entry kr service account w = (e, w1)" by fastforce
  obtain g w2 where g: "kr_get_password kr service account w1 = (g, w2)" by fastforce
  note same = keyring_entry_keeps [OF assms(1) e] keyring_get [OF assms(1) g]
  show ?thesis
    using assms(2) same
    by (auto simp: keyring_load_token_def keyring_steps keyring_tokens_def e g
        split: sum.splits keyring_error.splits)
qed

lemma keyring_save_law:
  assumes "keyring_ok kr secrets" "token_json_ok json" "keyring_save_token kr json service account token w = (r, w')"
  shows "keyring_tokens json secrets service w' =
    (case r of Inl _ \<Rightarrow> keyring_tokens json secrets service w
     | Inr _ \<Rightarrow> (keyring_tokens json secrets service w)(account := Some token))"
proof -
  obtain e w1 where e: "kr_entry kr service account w = (e, w1)" by fastforce
  note same = keyring_entry_keeps [OF assms(1) e]
  show ?thesis
  proof (cases "tj_to_string json (json_from_token token)")
    case (Inl error)
    then show ?thesis
      using assms(3) same by (auto simp: keyring_save_token_def keyring_steps keyring_tokens_def e split: sum.splits)
  next
    case (Inr secret)
    obtain p w2 where p: "kr_set_password kr service account secret w1 = (p, w2)" by fastforce
    have "tj_from_str json secret = Inr (json_from_token token)"
      using assms(2) Inr by (simp add: token_json_ok_def)
    then show ?thesis
      using assms(3) same keyring_set [OF assms(1) p] Inr
      by (auto simp: keyring_save_token_def keyring_steps keyring_tokens_def e p fun_eq_iff split: sum.splits)
  qed
qed

lemma keyring_delete_law:
  assumes "keyring_ok kr secrets" "keyring_delete_token kr service account w = (r, w')"
  shows "case r of Inl _ \<Rightarrow> keyring_tokens json secrets service w' = keyring_tokens json secrets service w
    | Inr deleted \<Rightarrow>
        keyring_tokens json secrets service w' = (keyring_tokens json secrets service w)(account := None) \<and>
        (keyring_tokens json secrets service w account \<noteq> None \<longrightarrow> deleted)"
proof -
  obtain e w1 where e: "kr_entry kr service account w = (e, w1)" by fastforce
  obtain d w2 where d: "kr_delete_credential kr service account w1 = (d, w2)" by fastforce
  note same = keyring_entry_keeps [OF assms(1) e] keyring_delete [OF assms(1) d]
  show ?thesis
    using assms(2) same
    by (auto simp: keyring_delete_token_def keyring_steps keyring_tokens_def e d fun_eq_iff
        split: sum.splits keyring_error.splits)
qed

lemma keyring_token_storage:
  assumes "keyring_ok kr secrets" "token_json_ok json"
  shows "token_storage (keyring_token_store kr json service) (keyring_tokens json secrets service)"
  by unfold_locales
    (simp_all add: keyring_token_store_def keyring_load_law [OF assms(1)] keyring_save_law [OF assms]
      keyring_delete_law [OF assms(1)])

section \<open>Login, logout and import\<close>

text \<open>
  C28. A login is read back: once a token has been saved in the key ring, loading gives that token, its
  optional parts included, every other account keeps its own, and the state of the login is authenticated;
  after a logout it is not.
\<close>

theorem login_round_trip:
  assumes "keyring_ok kr secrets" and "token_json_ok json"
    and "ts_save (keyring_token_store kr json service) account token w = (Inr (), saved)"
    and "ts_load (keyring_token_store kr json service) other saved = (Inr found, u)"
    and "token_status (keyring_token_store kr json service) account saved = (Inr status, u')"
    and "ts_delete (keyring_token_store kr json service) account saved = (Inr deleted, out)"
    and "token_status (keyring_token_store kr json service) account out = (Inr status', u'')"
  shows "found = (if other = account then Some token else keyring_tokens json secrets service w other) \<and>
    status = token_metadata token account \<and> \<not> tu_authenticated status'"
proof -
  note storage = keyring_token_storage [OF assms(1,2)]
  show ?thesis
    using token_storage.saved_then_loaded [OF storage assms(3,4)] token_storage.save_law [OF storage assms(3)]
      token_storage.status_law [OF storage assms(5)] token_storage.deleted_then_status [OF storage assms(6,7)]
    by simp
qed

lemma import_from_candidates_exact:
  assumes "keyring_ok kr secrets" "token_json_ok json"
    and "import_from_candidates kr parse (keyring_token_store kr json service) account users errors w = (r, w')"
  shows "case r of
      Inl _ \<Rightarrow> keyring_tokens json secrets service w' = keyring_tokens json secrets service w
    | Inr _ \<Rightarrow> \<exists>user secret token. user \<in> set users \<and> secrets w YACLI_KEYRING_SERVICE user = Some secret \<and>
        parse secret = Inr token \<and>
        keyring_tokens json secrets service w' = (keyring_tokens json secrets service w)(account := Some token)"
  using assms(3)
proof (induction users arbitrary: errors w)
  case Nil
  then show ?case by (auto simp: throw_def)
next
  case (Cons user users)
  obtain e w1 where e: "kr_entry kr YACLI_KEYRING_SERVICE user w = (e, w1)" by fastforce
  obtain g w2 where g: "kr_get_password kr YACLI_KEYRING_SERVICE user w1 = (g, w2)" by fastforce
  have same: "secrets w1 = secrets w" "secrets w2 = secrets w"
    using keyring_entry_keeps [OF assms(1) e] keyring_get [OF assms(1) g] by simp_all
  then have tokens: "keyring_tokens json secrets service w1 = keyring_tokens json secrets service w"
      "keyring_tokens json secrets service w2 = keyring_tokens json secrets service w"
    by (simp_all add: keyring_tokens_def)
  show ?case
  proof (cases "\<exists>x. e = Inl x")
    case True
    then show ?thesis using Cons.prems tokens by (auto simp: keyring_steps e)
  next
    case False
    then obtain x where opened: "e = Inr x" by (cases e) auto
    show ?thesis
    proof (cases g)
      case (Inl problem)
      then obtain errors' where
        "import_from_candidates kr parse (keyring_token_store kr json service) account users errors' w2 = (r, w')"
        using Cons.prems by (cases problem) (auto simp: keyring_steps e g opened)
      from Cons.IH [OF this] show ?thesis
        using tokens same by (auto split: sum.splits)
    next
      case (Inr secret)
      have secret: "secrets w YACLI_KEYRING_SERVICE user = Some secret"
        using keyring_get [OF assms(1) g] same Inr by simp
      show ?thesis
      proof (cases "parse secret")
        case (Inl error)
        then show ?thesis
          using Cons.prems Inr tokens by (auto simp: keyring_steps e g opened of_result_def)
      next
        case (Inr token)
        then have "ts_save (keyring_token_store kr json service) account token w2 = (r, w')"
          using Cons.prems \<open>g = Inr secret\<close> by (simp add: keyring_steps e g opened of_result_def)
        from token_storage.save_law [OF keyring_token_storage [OF assms(1,2)] this]
        show ?thesis using tokens secret Inr by (auto split: sum.splits)
      qed
    qed
  qed
qed

text \<open>
  The import of a yacli login takes the token of one candidate's entry, stores it under the account and
  leaves every other account alone; when it fails, no stored token changes.
\<close>

theorem import_yacli_exact:
  assumes "keyring_ok kr secrets" and "token_json_ok json"
    and "import_yacli_auth kr parse candidates (keyring_token_store kr json service) account w = (r, w')"
  shows "case r of
      Inl _ \<Rightarrow> keyring_tokens json secrets service w' = keyring_tokens json secrets service w
    | Inr _ \<Rightarrow> \<exists>user secret token. user \<in> set (candidates account) \<and>
        secrets w YACLI_KEYRING_SERVICE user = Some secret \<and> parse secret = Inr token \<and>
        keyring_tokens json secrets service w' = (keyring_tokens json secrets service w)(account := Some token)"
proof -
  obtain n w1 where n: "kr_use_native_store kr w = (n, w1)" by fastforce
  have same: "secrets w1 = secrets w"
    using assms(1) n unfolding keyring_ok_def by (metis snd_conv)
  then have tokens: "keyring_tokens json secrets service w1 = keyring_tokens json secrets service w"
    by (simp add: keyring_tokens_def)
  show ?thesis
  proof (cases n)
    case (Inl error)
    then show ?thesis using assms(3) tokens by (auto simp: import_yacli_auth_def keyring_steps n)
  next
    case (Inr x)
    then have "import_from_candidates kr parse (keyring_token_store kr json service) account (candidates account) [] w1 = (r, w')"
      using assms(3) by (simp add: import_yacli_auth_def keyring_steps n)
    from import_from_candidates_exact [OF assms(1,2) this] show ?thesis
      using tokens same by (auto split: sum.splits)
  qed
qed

text \<open>
  An empty client id, on the command line or in the configuration, hides the ones that come after it.
\<close>

lemma empty_client_id_hides:
  "resolve_oauth_client_id config environment (Some '''') = None \<and>
   (yd_oauth_client_id config = Some '''' \<longrightarrow> resolve_oauth_client_id config environment None = None)"
  by (simp add: resolve_oauth_client_id_def str_trim_def trim_start_by_def trim_end_by_def)

text \<open>
  A client made by \<open>new\<close>, as every command and the daemon make it, ends a request that is answered with 401
  in that answer: the refresh token that is stored with the access token is not used.
\<close>

lemma new_client_never_refreshes:
  assumes "http_client_new build env account_alias store policy = Inr c" and "0 < rp_attempts policy"
    and "load_required_token c w = (Inr token, w1)"
    and "he_send (hc_env c) ApiHttp (make_request (authorization_of token)) w1 = (Inr response, w2)"
    and "hp_status response = 401"
  shows "send_authorized c make_request w = (Inl (error_of_response (he_json env) response), w2)"
proof -
  have c: "hc_oauth_flow c = None" "hc_retry_policy c = policy" "he_json (hc_env c) = he_json env"
    using assms(1) by (auto simp: http_client_new_def http_client_with_options_def split: option.splits)
  have "unat (rp_attempts policy) \<noteq> 0" using assms(2) by (simp add: unat_gt_0)
  then obtain attempt attempts where attempts: "attempts_of policy = attempt # attempts"
    by (cases "attempts_of policy") (auto simp: attempts_of_def)
  have "\<not> error_is_retryable (error_of_response (he_json env) response)"
    using assms(5)
    by (simp add: error_of_response_def error_from_response_def error_with_api_code_def error_is_retryable_def
        classify_http_status_def kind_is_retryable_def Let_def)
  then show ?thesis
    using assms(3-5)
    by (simp add: send_authorized_def c attempts may_refresh_def is_success_def retry_or_def should_retry_def
        send_request_def env_read_def map_err_def bindM_def throw_def)
qed

section \<open>Examples\<close>

text \<open>A key ring in memory, and a text for one token.\<close>

definition table_keyring :: "(string \<Rightarrow> string \<Rightarrow> string option) keyring_api" where
  "table_keyring =
     \<lparr>kr_use_native_store = ret (), kr_entry = (\<lambda>service user. ret ()),
      kr_get_password = (\<lambda>service user w. (case w service user of None \<Rightarrow> Inl (KeyNoEntry ''none'') | Some s \<Rightarrow> Inr s, w)),
      kr_set_password = (\<lambda>service user secret w. (Inr (), w(service := (w service)(user := Some secret)))),
      kr_delete_credential = (\<lambda>service user w.
        if w service user = None then (Inl (KeyNoEntry ''none''), w)
        else (Inr (), w(service := (w service)(user := None))))\<rparr>"

definition example_token :: StoredToken where
  "example_token = \<lparr>st_access_token = ''secret'', st_refresh_token = Some ''again'', st_expires_at_unix = Some 7,
     st_scope = None, st_token_type = Some ''bearer'', st_client_id = Some ''id''\<rparr>"

definition example_json :: token_json_api where
  "example_json =
     \<lparr>tj_to_string = (\<lambda>v. if v = json_from_token example_token then Inr ''{}'' else Inl ''no''),
      tj_from_str = (\<lambda>s. if s = ''{}'' then Inr (json_from_token example_token) else Inl ''no'')\<rparr>"

lemma table_keyring_ok: "keyring_ok table_keyring id"
  by (auto simp: keyring_ok_def table_keyring_def ret_def split: option.split)

lemma example_json_ok: "token_json_ok example_json"
  by (auto simp: token_json_ok_def example_json_def)

theorem login_round_trip_witness:
  "\<exists>saved u status. ts_load (keyring_token_store table_keyring example_json ''s'') ''a'' saved = (Inr (Some example_token), u) \<and>
     status = token_metadata example_token ''a''"
proof -
  let ?store = "keyring_token_store table_keyring example_json ''s''"
  let ?saved = "(\<lambda>_ _. None)(''s'' := (\<lambda>_. None)(''a'' := Some ''{}''))" and ?out = "(\<lambda>_ _. None)(''s'' := (\<lambda>_. None)(''a'' := None))"
  note run = keyring_token_store_def keyring_load_token_def keyring_save_token_def keyring_delete_token_def
    token_status_def keyring_steps table_keyring_def example_json_def
  have saved: "ts_save ?store ''a'' example_token (\<lambda>_ _. None) = (Inr (), ?saved)" by (simp add: run)
  have found: "ts_load ?store ''a'' ?saved = (Inr (Some example_token), ?saved)" by (simp add: run)
  have status: "token_status ?store ''a'' ?saved = (Inr (token_metadata example_token ''a''), ?saved)" by (simp add: run)
  have deleted: "ts_delete ?store ''a'' ?saved = (Inr True, ?out)" by (simp add: run)
  have off: "token_status ?store ''a'' ?out = (Inr (unauthenticated ''a''), ?out)" by (simp add: run)
  from login_round_trip [OF table_keyring_ok example_json_ok saved found status deleted off] found
  show ?thesis by blast
qed

theorem import_yacli_exact_witness:
  "\<exists>w token. keyring_tokens example_json id ''s'' w ''a'' = Some token \<and> st_access_token token = ''secret''"
proof -
  let ?w = "(\<lambda>_ _. None)(YACLI_KEYRING_SERVICE := (\<lambda>_. None)(''a:disk'' := Some ''{}''))"
  let ?parse = "\<lambda>secret. if secret = ''{}'' then Inr example_token else Inl (error_auth_unavailable ''none'')"
  obtain w' where run: "import_yacli_auth table_keyring ?parse (\<lambda>account. [account @ '':disk''])
      (keyring_token_store table_keyring example_json ''s'') ''a'' ?w = (Inr (), w')"
    by (simp add: import_yacli_auth_def keyring_steps keyring_token_store_def keyring_save_token_def table_keyring_def
        example_json_def of_result_def)
  from import_yacli_exact [OF table_keyring_ok example_json_ok run] obtain token where
    "keyring_tokens example_json id ''s'' w' ''a'' = Some token" "token = example_token"
    by (auto split: if_splits)
  moreover have "st_access_token example_token = ''secret''" by (simp add: example_token_def)
  ultimately show ?thesis by blast
qed

end
