(* ===== verification/Config_Io.thy ===== *)
theory Config_Io
  imports Config Scan_Model
begin

text \<open>
  The file of the configuration: \<open>load_config\<close>, \<open>save_config\<close> and the place it is looked for, of
  \<open>crates/yds-core/src/config.rs\<close>. The file system and the JSON text of a configuration are parameters,
  with what the code relies on as predicates.
\<close>

text \<open>Errors of the file system and of the JSON library are texts.\<close>

record 'w file_api =
  fa_read_to_string :: "local_path \<Rightarrow> ('w, string, string) m"
  fa_create_dir_all :: "local_path \<Rightarrow> ('w, string, unit) m"
  fa_write :: "local_path \<Rightarrow> string \<Rightarrow> ('w, string, unit) m"
  fa_exists :: "local_path \<Rightarrow> 'w \<Rightarrow> bool \<times> 'w"

record config_json_api =
  cj_from_str :: "string \<Rightarrow> string + AppConfig"
  cj_to_string_pretty :: "AppConfig \<Rightarrow> string + string"

datatype ConfigIoError =
    ConfigRead local_path string | ConfigParse local_path string | ConfigCreateDir local_path string
  | ConfigSerialize string | ConfigWrite local_path string

definition load_config :: "'w file_api \<Rightarrow> config_json_api \<Rightarrow> local_path \<Rightarrow> ('w, ConfigIoError, AppConfig) m" where
  "load_config fa cj path =
     bindM (errM (ConfigRead path) (fa_read_to_string fa path)) (\<lambda>content.
       case cj_from_str cj content of
         Inl source \<Rightarrow> throw (ConfigParse path source)
       | Inr config \<Rightarrow> ret config)"

definition create_parent :: "'w file_api \<Rightarrow> local_path \<Rightarrow> ('w, ConfigIoError, unit) m" where
  "create_parent fa path =
     (case path_parent path of
        None \<Rightarrow> ret ()
      | Some parent \<Rightarrow>
          if parent = [] then ret () else errM (ConfigCreateDir parent) (fa_create_dir_all fa parent))"

definition save_config :: "'w file_api \<Rightarrow> config_json_api \<Rightarrow> local_path \<Rightarrow> AppConfig \<Rightarrow> ('w, ConfigIoError, unit) m" where
  "save_config fa cj path config =
     seqM (create_parent fa path)
       (case cj_to_string_pretty cj config of
          Inl source \<Rightarrow> throw (ConfigSerialize source)
        | Inr content \<Rightarrow> errM (ConfigWrite path) (fa_write fa path (content @ [CHR 0x0A])))"

text \<open>\<open>environment\<close> is the variable \<open>YDS_CONFIG_PATH\<close>; \<open>path_of\<close> reads a path of the system.\<close>

definition default_config_path :: "bool \<Rightarrow> (string \<Rightarrow> local_path) \<Rightarrow> local_path" where
  "default_config_path windows path_of =
     (if windows then path_of (''C:'' @ [CHR 0x5C] @ ''ProgramData'' @ [CHR 0x5C] @ ''YaDiskSync'' @ [CHR 0x5C] @
        ''config'' @ [CHR 0x5C] @ ''config.json'')
      else path_of ''/etc/ya-disk-sync/config.json'')"

definition resolve_config_path ::
  "bool \<Rightarrow> (string \<Rightarrow> local_path) \<Rightarrow> string option \<Rightarrow> local_path option \<Rightarrow> local_path" where
  "resolve_config_path windows path_of environment explicit_path =
     (case explicit_path of
        Some path \<Rightarrow> path
      | None \<Rightarrow>
          (case environment of Some path \<Rightarrow> path_of path | None \<Rightarrow> default_config_path windows path_of))"

section \<open>What is relied on\<close>

text \<open>
  \<open>texts\<close> is what the files hold. Reading and looking change nothing; a write puts the text there and
  leaves other files alone, and only the file itself may be damaged where it fails; directories hold no text.
\<close>

definition files_ok :: "'w file_api \<Rightarrow> ('w \<Rightarrow> local_path \<Rightarrow> string option) \<Rightarrow> bool" where
  "files_ok fa texts =
     ((\<forall>path w. case fa_read_to_string fa path w of (r, w') \<Rightarrow>
         texts w' = texts w \<and> (case r of Inl _ \<Rightarrow> True | Inr content \<Rightarrow> texts w path = Some content)) \<and>
      (\<forall>path w. texts (snd (fa_create_dir_all fa path w)) = texts w) \<and>
      (\<forall>path w. texts (snd (fa_exists fa path w)) = texts w \<and>
         (texts w path \<noteq> None \<longrightarrow> fst (fa_exists fa path w))) \<and>
      (\<forall>path content w. case fa_write fa path content w of (r, w') \<Rightarrow>
         (\<exists>found. texts w' = (texts w)(path := found)) \<and>
         (case r of Inl _ \<Rightarrow> True | Inr _ \<Rightarrow> texts w' path = Some content)))"

text \<open>JSON allows white space after a value, so the line end that \<open>save_config\<close> adds does not matter.\<close>

definition config_json_ok :: "config_json_api \<Rightarrow> bool" where
  "config_json_ok cj =
     (\<forall>config content. cj_to_string_pretty cj config = Inr content \<longrightarrow> cj_from_str cj (content @ [CHR 0x0A]) = Inr config)"

lemma read_file_law:
  assumes "files_ok fa texts" "fa_read_to_string fa path w = (r, w')"
  shows "texts w' = texts w \<and> (case r of Inl _ \<Rightarrow> True | Inr content \<Rightarrow> texts w path = Some content)"
  using assms(1) [unfolded files_ok_def, THEN conjunct1, rule_format, where path = path and w = w] by (simp add: assms(2))

lemma create_dir_law: "files_ok fa texts \<Longrightarrow> fa_create_dir_all fa path w = (r, w') \<Longrightarrow> texts w' = texts w"
  unfolding files_ok_def by (metis snd_conv)

lemma exists_law:
  assumes "files_ok fa texts" "fa_exists fa path w = (found, w')"
  shows "texts w' = texts w \<and> (texts w path \<noteq> None \<longrightarrow> found)"
  using assms(1) [unfolded files_ok_def, THEN conjunct2, THEN conjunct2, THEN conjunct1, rule_format,
      where path = path and w = w] by (simp add: assms(2))

lemma write_file_law:
  assumes "files_ok fa texts" "fa_write fa path content w = (r, w')"
  shows "(\<exists>found. texts w' = (texts w)(path := found)) \<and>
    (case r of Inl _ \<Rightarrow> True | Inr _ \<Rightarrow> texts w' path = Some content)"
  using assms(1) [unfolded files_ok_def, THEN conjunct2, THEN conjunct2, THEN conjunct2, rule_format,
      where path = path and content = content and w = w] by (simp add: assms(2))

lemmas config_io_steps = seqM_def bindM_def errM_def map_err_def ret_def throw_def

lemma load_config_law:
  assumes "files_ok fa texts" "load_config fa cj path w = (r, w')"
  shows "texts w' = texts w \<and>
    (case r of Inl _ \<Rightarrow> True | Inr config \<Rightarrow> \<exists>content. texts w path = Some content \<and> cj_from_str cj content = Inr config)"
proof -
  obtain g w1 where g: "fa_read_to_string fa path w = (g, w1)" by fastforce
  show ?thesis
    using assms(2) read_file_law [OF assms(1) g]
    by (auto simp: load_config_def config_io_steps g split: sum.splits)
qed

lemma save_config_law:
  assumes "files_ok fa texts" "save_config fa cj path config w = (r, w')"
  shows "(\<exists>found. texts w' = (texts w)(path := found)) \<and>
    (case r of Inl _ \<Rightarrow> True
     | Inr _ \<Rightarrow> \<exists>content. cj_to_string_pretty cj config = Inr content \<and> texts w' path = Some (content @ [CHR 0x0A]))"
proof -
  obtain p w1 where p: "create_parent fa path w = (p, w1)" by fastforce
  have same: "texts w1 = texts w"
    using p create_dir_law [OF assms(1)]
    by (auto simp: create_parent_def ret_def errM_def split: option.splits if_splits prod.splits)
  have idle: "\<exists>found. texts w = (texts w)(path := found)"
    by (intro exI [of _ "texts w path"]) simp
  show ?thesis
  proof (cases p)
    case (Inl e)
    then show ?thesis using assms(2) p same idle by (auto simp: save_config_def seqM_def bindM_def)
  next
    case (Inr u)
    show ?thesis
    proof (cases "cj_to_string_pretty cj config")
      case (Inl source)
      then show ?thesis
        using assms(2) p same idle \<open>p = Inr u\<close> by (auto simp: save_config_def seqM_def bindM_def throw_def)
    next
      case (Inr content)
      obtain q w2 where q: "fa_write fa path (content @ [CHR 0x0A]) w1 = (q, w2)" by fastforce
      show ?thesis
        using assms(2) p same \<open>p = Inr u\<close> Inr write_file_law [OF assms(1) q]
        by (auto simp: save_config_def seqM_def bindM_def errM_def map_err_def q split: sum.splits)
    qed
  qed
qed

text \<open>
  A configuration that was saved is read back as it is, and no other file has changed.
\<close>

theorem config_save_load:
  assumes "files_ok fa texts" and "config_json_ok cj"
    and "save_config fa cj path config w = (Inr (), saved)"
    and "load_config fa cj path saved = (Inr found, w')"
  shows "found = config \<and> (\<forall>other. other \<noteq> path \<longrightarrow> texts w' other = texts w other)"
proof -
  obtain content where content: "cj_to_string_pretty cj config = Inr content" "texts saved path = Some (content @ [CHR 0x0A])"
    using save_config_law [OF assms(1,3)] by auto
  have "cj_from_str cj (content @ [CHR 0x0A]) = Inr config"
    using assms(2) content(1) by (simp add: config_json_ok_def)
  moreover have "\<forall>other. other \<noteq> path \<longrightarrow> texts saved other = texts w other"
    using save_config_law [OF assms(1,3)] by (metis fun_upd_other)
  ultimately show ?thesis
    using load_config_law [OF assms(1,4)] content(2) by auto
qed

section \<open>Examples\<close>

text \<open>A file system in memory, and a text for one configuration.\<close>

definition table_files :: "(local_path \<Rightarrow> string option) file_api" where
  "table_files =
     \<lparr>fa_read_to_string = (\<lambda>path w. (case w path of None \<Rightarrow> Inl ''not found'' | Some content \<Rightarrow> Inr content, w)),
      fa_create_dir_all = (\<lambda>path. ret ()), fa_write = (\<lambda>path content w. (Inr (), w(path := Some content))),
      fa_exists = (\<lambda>path w. (w path \<noteq> None, w))\<rparr>"

definition example_config_json :: "AppConfig \<Rightarrow> config_json_api" where
  "example_config_json c =
     \<lparr>cj_from_str = (\<lambda>s. if s = ''{}'' @ [CHR 0x0A] then Inr c else Inl ''no''),
      cj_to_string_pretty = (\<lambda>config. if config = c then Inr ''{}'' else Inl ''no'')\<rparr>"

lemma table_files_ok: "files_ok table_files id"
  by (auto simp: files_ok_def table_files_def ret_def split: option.split)

lemma example_config_json_ok: "config_json_ok (example_config_json c)"
  by (auto simp: config_json_ok_def example_config_json_def)

theorem config_save_load_witness:
  "\<exists>w'. load_config table_files (example_config_json c) [''etc'', ''config.json'']
     [[''etc'', ''config.json''] \<mapsto> ''{}'' @ [CHR 0x0A]] = (Inr c, w') \<and> w' [''etc''] = None"
proof -
  let ?path = "[''etc'', ''config.json'']"
  have saved: "save_config table_files (example_config_json c) ?path c (\<lambda>_. None) = (Inr (), [?path \<mapsto> ''{}'' @ [CHR 0x0A]])"
    by (simp add: save_config_def create_parent_def path_parent_def config_io_steps table_files_def example_config_json_def)
  have found: "load_config table_files (example_config_json c) ?path [?path \<mapsto> ''{}'' @ [CHR 0x0A]] =
      (Inr c, [?path \<mapsto> ''{}'' @ [CHR 0x0A]])"
    by (simp add: load_config_def config_io_steps table_files_def example_config_json_def)
  from config_save_load [OF table_files_ok example_config_json_ok saved found]
  have "[?path \<mapsto> ''{}'' @ [CHR 0x0A]] [''etc''] = None" by simp
  then show ?thesis using found by blast
qed

end
