(* ===== verification/Cli.thy ===== *)
theory Cli
  imports Host_Props Token_Props Config_Io
begin

text \<open>
  The command line, \<open>crates/yds-cli/src/main.rs\<close>, and the store of the web token of \<open>crates/yds-web\<close> that
  it administers. A command is a computation over the lines printed so far and the state of the engine; an
  error is the text the program ends with. The world behind it is the parameter \<open>cli_env\<close>: files, key
  ring, disk, control server, console.
\<close>

section \<open>The web token\<close>

definition WEB_KEYRING_SERVICE :: string where "WEB_KEYRING_SERVICE = ''ya-disk-sync.web''"

definition WEB_KEYRING_ACCOUNT :: string where "WEB_KEYRING_ACCOUNT = ''web-ui''"

definition web_keyring_error :: "keyring_error \<Rightarrow> string" where
  "web_keyring_error error = ''keyring access failed: '' @ keyring_text error"

definition web_load_token :: "'w keyring_api \<Rightarrow> string \<Rightarrow> ('w, string, string option) m" where
  "web_load_token kr service_name =
     seqM (errM web_keyring_error (kr_entry kr service_name WEB_KEYRING_ACCOUNT))
       (bindM (catchM (kr_get_password kr service_name WEB_KEYRING_ACCOUNT)) (\<lambda>got.
          case got of
            Inr token \<Rightarrow> ret (Some token)
          | Inl (KeyNoEntry text) \<Rightarrow> ret None
          | Inl (KeyFailed text) \<Rightarrow> throw (web_keyring_error (KeyFailed text))))"

definition web_token_configured :: "'w keyring_api \<Rightarrow> string \<Rightarrow> ('w, string, bool) m" where
  "web_token_configured kr service_name =
     bindM (web_load_token kr service_name) (\<lambda>token. ret (token \<noteq> None))"

text \<open>\<open>uuid\<close> is the random part.\<close>

definition web_rotate_token :: "'w keyring_api \<Rightarrow> string \<Rightarrow> string \<Rightarrow> ('w, string, string) m" where
  "web_rotate_token kr uuid service_name =
     (let token = ''yds-web-'' @ uuid
      in seqM (errM web_keyring_error (kr_entry kr service_name WEB_KEYRING_ACCOUNT))
           (seqM (errM web_keyring_error (kr_set_password kr service_name WEB_KEYRING_ACCOUNT token)) (ret token)))"

definition web_default_store :: "'w keyring_api \<Rightarrow> ('w, string, string) m" where
  "web_default_store kr = seqM (errM web_keyring_error (kr_use_native_store kr)) (ret WEB_KEYRING_SERVICE)"

section \<open>Commands\<close>

datatype ConfigCommands = ConfigInit bool | ConfigValidate | ConfigShow | ConfigSet string string

datatype AuthCommands = AuthLogin "string option" | AuthStatus | AuthLogout | AuthImportYacli

datatype SyncCommands = SyncRun bool | SyncStop

datatype WebCommands = WebOpen | WebTokenStatus | WebTokenRotate

datatype MigrationCommands = MigrationRun bool | MigrationStatus

text \<open>
  \<open>'j\<close> are the JSON values of \<open>serde_json\<close>: \<open>ci_json_parse\<close>, \<open>ci_json_set\<close> (replace what a pointer points to,
  where there is something) and \<open>ci_json_config\<close> are its functions. \<open>ci_engine\<close> is the engine over the HTTP
  client of an account, with the store of its token.
\<close>

record ('w, 'j) cli_env =
  ci_windows :: bool
  ci_linux :: bool
  ci_path_of :: "string \<Rightarrow> local_path"
  ci_display :: "local_path \<Rightarrow> string"
  ci_var :: "string \<Rightarrow> string option"
  ci_files :: "'w file_api"
  ci_json :: config_json_api
  ci_json_parse :: "string \<Rightarrow> 'j option"
  ci_json_set :: "'j \<Rightarrow> string \<Rightarrow> 'j \<Rightarrow> 'j option"
  ci_json_config :: "'j \<Rightarrow> AppConfig option"
  ci_gitignore :: gitignore_api
  ci_projects_name :: string
  ci_documents_name :: string
    \<comment> \<open>the names, in Cyrillic, of the roots of the default configuration\<close>
  ci_keyring :: "'w keyring_api"
  ci_token_json :: token_json_api
  ci_engine :: "AppConfig \<Rightarrow> 'w token_store \<Rightarrow> YandexDiskError + 'w migration_env"
  ci_open_state :: "string \<Rightarrow> ('w, StateError, unit) m"
  ci_db_fault :: "'w \<Rightarrow> StateError option \<times> 'w"
  ci_uuid :: "'w \<Rightarrow> string \<times> 'w"
  ci_control :: "string \<Rightarrow> 'w control_transport"
  ci_log_directory :: "string \<Rightarrow> 'w \<Rightarrow> log_directory \<times> 'w"
  ci_http :: "'w http_env"
  ci_authorization_request :: "OAuthFlow \<Rightarrow> ('w, YandexDiskError, string \<times> string) m"
    \<comment> \<open>the URL to open and the PKCE verifier\<close>
  ci_read_line :: "('w, string, string) m"
  ci_yacli_token :: "string \<Rightarrow> YandexDiskError + StoredToken"
  ci_yacli_candidates :: "string \<Rightarrow> string list"
  ci_spawn_open :: "string \<Rightarrow> ('w, string, unit) m"

type_synonym ('w, 'a) cli = "(string list \<times> 'w sync_state, string, 'a) m"

definition say :: "string \<Rightarrow> ('w, unit) cli" where
  "say line = (\<lambda>(lines, s). (Inr (), (lines @ [line], s)))"

definition say_all :: "string list \<Rightarrow> ('w, unit) cli" where
  "say_all more_lines = (\<lambda>(lines, s). (Inr (), (lines @ more_lines, s)))"

definition in_world :: "('e \<Rightarrow> string) \<Rightarrow> ('w, 'e, 'a) m \<Rightarrow> ('w, 'a) cli" where
  "in_world text_of f =
     (\<lambda>(lines, s). case f (st_world s) of (r, w) \<Rightarrow> (map_err text_of r, (lines, s\<lparr>st_world := w\<rparr>)))"

definition in_engine :: "('e \<Rightarrow> string) \<Rightarrow> ('w, 'e, 'a) sync_m \<Rightarrow> ('w, 'a) cli" where
  "in_engine text_of f = (\<lambda>(lines, s). case f s of (r, s) \<Rightarrow> (map_err text_of r, (lines, s)))"

definition cli_repo :: "('w, 'j) cli_env \<Rightarrow> 'a repo \<Rightarrow> ('w, 'a) cli" where
  "cli_repo ci f =
     in_engine StateError_text (bindM (world_read (ci_db_fault ci)) (\<lambda>fault.
       case fault of Some e \<Rightarrow> throw e | None \<Rightarrow> db_run f))"

section \<open>Configuration\<close>

definition cli_config_path :: "('w, 'j) cli_env \<Rightarrow> local_path option \<Rightarrow> local_path" where
  "cli_config_path ci explicit_path =
     resolve_config_path (ci_windows ci) (ci_path_of ci) (ci_var ci ''YDS_CONFIG_PATH'') explicit_path"

fun ConfigIoError_text :: "(local_path \<Rightarrow> string) \<Rightarrow> ConfigIoError \<Rightarrow> string" where
  "ConfigIoError_text display (ConfigRead path source) = ''failed to read config '' @ display path @ '': '' @ source"
| "ConfigIoError_text display (ConfigParse path source) = ''failed to parse config '' @ display path @ '': '' @ source"
| "ConfigIoError_text display (ConfigCreateDir path source) =
     ''failed to create config directory '' @ display path @ '': '' @ source"
| "ConfigIoError_text display (ConfigSerialize source) = ''failed to serialize config: '' @ source"
| "ConfigIoError_text display (ConfigWrite path source) = ''failed to write config '' @ display path @ '': '' @ source"

definition validation_line :: "ConfigValidationError \<Rightarrow> string" where
  "validation_line e =
     ''- '' @ ce_field e @
       (case ce_root_index e of None \<Rightarrow> '''' | Some i \<Rightarrow> '' root_index='' @ show_nat i) @
       (case ce_rule_index e of None \<Rightarrow> '''' | Some i \<Rightarrow> '' rule_index='' @ show_nat i) @ '': '' @ ce_message e"

definition cli_ensure_valid :: "('w, 'j) cli_env \<Rightarrow> AppConfig \<Rightarrow> ('w, unit) cli" where
  "cli_ensure_valid ci config =
     (let report = validate_config (ci_gitignore ci) config
      in if report_is_valid report then ret ()
         else seqM (say ''config: invalid'')
                (seqM (say_all (map validation_line report)) (throw ''config validation failed'')))"

text \<open>Loading, with the context of the error that the commands add.\<close>

definition cli_load_config :: "('w, 'j) cli_env \<Rightarrow> local_path \<Rightarrow> ('w, AppConfig) cli" where
  "cli_load_config ci path =
     in_world (\<lambda>_. ''failed to load config '' @ ci_display ci path @ ''; run config init first'')
       (load_config (ci_files ci) (ci_json ci) path)"

definition load_valid_config :: "('w, 'j) cli_env \<Rightarrow> local_path option \<Rightarrow> ('w, AppConfig) cli" where
  "load_valid_config ci config_path =
     bindM (cli_load_config ci (cli_config_path ci config_path)) (\<lambda>config.
       seqM (cli_ensure_valid ci config) (ret config))"

definition cli_save_config :: "('w, 'j) cli_env \<Rightarrow> local_path \<Rightarrow> AppConfig \<Rightarrow> ('w, unit) cli" where
  "cli_save_config ci path config =
     in_world (ConfigIoError_text (ci_display ci)) (save_config (ci_files ci) (ci_json ci) path config)"

definition cli_default_config :: "('w, 'j) cli_env \<Rightarrow> AppConfig" where
  "cli_default_config ci = default_config (ci_projects_name ci) (ci_documents_name ci)"

definition init_config :: "('w, 'j) cli_env \<Rightarrow> local_path \<Rightarrow> bool \<Rightarrow> ('w, unit) cli" where
  "init_config ci path force =
     bindM (in_world id (\<lambda>w. case fa_exists (ci_files ci) path w of (found, w) \<Rightarrow> (Inr found, w))) (\<lambda>found.
       if found \<and> \<not> force
       then throw (''config already exists at '' @ ci_display ci path @ ''; pass --force to overwrite'')
       else
         seqM (cli_ensure_valid ci (cli_default_config ci))
           (seqM (cli_save_config ci path (cli_default_config ci))
              (say_all [''config: initialized'', ''path: '' @ ci_display ci path])))"

definition set_config_value :: "('w, 'j) cli_env \<Rightarrow> local_path \<Rightarrow> string \<Rightarrow> string \<Rightarrow> ('w, unit) cli" where
  "set_config_value ci path json_pointer json_value =
     bindM (in_world (\<lambda>_. ''failed to read config '' @ ci_display ci path) (fa_read_to_string (ci_files ci) path)) (\<lambda>content.
       case ci_json_parse ci content of
         None \<Rightarrow> throw (''failed to parse config '' @ ci_display ci path)
       | Some v \<Rightarrow>
           (case ci_json_parse ci json_value of
              None \<Rightarrow> throw (''failed to parse JSON value '' @ json_value)
            | Some replacement \<Rightarrow>
                (case ci_json_set ci v json_pointer replacement of
                   None \<Rightarrow> throw (''json pointer not found: '' @ json_pointer)
                 | Some v \<Rightarrow>
                     (case ci_json_config ci v of
                        None \<Rightarrow> throw ''updated JSON does not match config schema''
                      | Some config \<Rightarrow>
                          seqM (cli_ensure_valid ci config)
                            (seqM (cli_save_config ci path config)
                               (say_all [''config: updated'', ''path: '' @ ci_display ci path, ''set: '' @ json_pointer]))))))"

definition cli_load_plain :: "('w, 'j) cli_env \<Rightarrow> local_path \<Rightarrow> ('w, AppConfig) cli" where
  "cli_load_plain ci path = in_world (ConfigIoError_text (ci_display ci)) (load_config (ci_files ci) (ci_json ci) path)"

definition handle_config_command :: "('w, 'j) cli_env \<Rightarrow> ConfigCommands \<Rightarrow> local_path option \<Rightarrow> ('w, unit) cli" where
  "handle_config_command ci command config_path =
     (let path = cli_config_path ci config_path
      in case command of
           ConfigInit force \<Rightarrow> init_config ci path force
         | ConfigValidate \<Rightarrow>
             bindM (cli_load_plain ci path) (\<lambda>config.
               seqM (cli_ensure_valid ci config) (say_all [''config: ok'', ''path: '' @ ci_display ci path]))
         | ConfigShow \<Rightarrow>
             bindM (cli_load_plain ci path) (\<lambda>config.
               seqM (cli_ensure_valid ci config)
                 (case cj_to_string_pretty (ci_json ci) config of Inl e \<Rightarrow> throw e | Inr content \<Rightarrow> say content))
         | ConfigSet json_pointer json_value \<Rightarrow> set_config_value ci path json_pointer json_value)"

section \<open>Authorization\<close>

definition cli_token_store :: "('w, 'j) cli_env \<Rightarrow> ('w, 'w token_store) cli" where
  "cli_token_store ci = in_world YandexDiskError_text (keyring_default_store (ci_keyring ci) (ci_token_json ci))"

definition auth_login :: "('w, 'j) cli_env \<Rightarrow> AppConfig \<Rightarrow> string option \<Rightarrow> ('w, unit) cli" where
  "auth_login ci config client_id =
     (case resolve_oauth_client_id (cf_yandex_disk config) (ci_var ci ''YDS_OAUTH_CLIENT_ID'') client_id of
        None \<Rightarrow> throw (''missing OAuth client id; pass --client-id, set yandex_disk.oauth_client_id, or set YDS_OAUTH_CLIENT_ID'')
      | Some client_id \<Rightarrow>
          let disk = cf_yandex_disk config;
              flow = \<lparr>of_client_id = client_id, of_scope = yd_oauth_scope disk, of_client_name = yd_client_name disk,
                      of_authorize_url = ''https://oauth.yandex.com/authorize'',
                      of_token_url = ''https://oauth.yandex.com/token''\<rparr>
          in bindM (in_world YandexDiskError_text (ci_authorization_request ci flow)) (\<lambda>(url, verifier).
             seqM (say_all [''Open this URL and grant Yandex Disk access:'', url, ''Paste confirmation code: ''])
             (bindM (in_world id (ci_read_line ci)) (\<lambda>received.
               let received = str_trim received
               in if received = [] then throw ''confirmation code must not be empty''
                  else
                    bindM (in_world YandexDiskError_text (exchange_code (ci_http ci) flow received verifier)) (\<lambda>token.
                    bindM (cli_token_store ci) (\<lambda>store.
                    seqM (in_world YandexDiskError_text (ts_save store (yd_account_alias disk) token))
                      (say_all [''auth: logged in'', ''account_alias: '' @ yd_account_alias disk])))))))"

definition auth_status :: "('w, 'j) cli_env \<Rightarrow> AppConfig \<Rightarrow> ('w, unit) cli" where
  "auth_status ci config =
     bindM (cli_token_store ci) (\<lambda>store.
     bindM (in_world YandexDiskError_text (token_status store (yd_account_alias (cf_yandex_disk config)))) (\<lambda>status.
       say_all
         ([''auth: '' @ (if tu_authenticated status then ''authenticated'' else ''unauthenticated''),
           ''account_alias: '' @ tu_account_alias status] @
          (case tu_expires_at_unix status of None \<Rightarrow> [] | Some t \<Rightarrow> [''expires_at_unix: '' @ show_i64 t]) @
          (case tu_scope status of None \<Rightarrow> [] | Some scope \<Rightarrow> [''scope: '' @ scope]) @
          [''has_refresh_token: '' @ show_bool (tu_has_refresh_token status)])))"

definition auth_logout :: "('w, 'j) cli_env \<Rightarrow> AppConfig \<Rightarrow> ('w, unit) cli" where
  "auth_logout ci config =
     (let account_alias = yd_account_alias (cf_yandex_disk config)
      in bindM (cli_token_store ci) (\<lambda>store.
         bindM (in_world YandexDiskError_text (ts_delete store account_alias)) (\<lambda>deleted.
           say_all [''auth: '' @ (if deleted then ''logged out'' else ''not authenticated''),
                    ''account_alias: '' @ account_alias])))"

definition auth_import_yacli :: "('w, 'j) cli_env \<Rightarrow> AppConfig \<Rightarrow> ('w, unit) cli" where
  "auth_import_yacli ci config =
     (let account_alias = yd_account_alias (cf_yandex_disk config)
      in bindM (cli_token_store ci) (\<lambda>store.
         seqM (in_world YandexDiskError_text
                 (import_yacli_auth (ci_keyring ci) (ci_yacli_token ci) (ci_yacli_candidates ci) store account_alias))
           (say_all [''auth: imported from yacli'', ''account_alias: '' @ account_alias])))"

definition handle_auth_command :: "('w, 'j) cli_env \<Rightarrow> AuthCommands \<Rightarrow> local_path option \<Rightarrow> ('w, unit) cli" where
  "handle_auth_command ci command config_path =
     bindM (load_valid_config ci config_path) (\<lambda>config.
       case command of
         AuthLogin client_id \<Rightarrow> auth_login ci config client_id
       | AuthStatus \<Rightarrow> auth_status ci config
       | AuthLogout \<Rightarrow> auth_logout ci config
       | AuthImportYacli \<Rightarrow> auth_import_yacli ci config)"

section \<open>Runs\<close>

text \<open>
  What \<open>sync run\<close> and \<open>migration run\<close> share up to the engine: a login must be there, and the database is
  opened before the client is made.
\<close>

definition cli_engine :: "('w, 'j) cli_env \<Rightarrow> AppConfig \<Rightarrow> ('w, 'w migration_env) cli" where
  "cli_engine ci config =
     (let account_alias = yd_account_alias (cf_yandex_disk config)
      in bindM (cli_token_store ci) (\<lambda>store.
         bindM (in_world YandexDiskError_text (token_status store account_alias)) (\<lambda>status.
           if \<not> tu_authenticated status
           then throw (''auth: unauthenticated for account_alias '' @ account_alias @ ''; run auth login first'')
           else
             seqM (in_world StateError_text (ci_open_state ci (pa_state_db (cf_paths config))))
               (case ci_engine ci config store of
                  Inl e \<Rightarrow> throw (YandexDiskError_text e)
                | Inr mv \<Rightarrow> ret mv))))"

definition summary_lines :: "SyncRunSummary \<Rightarrow> string list" where
  "summary_lines summary =
     [''scanned_files: '' @ show_i64 (su_scanned_files summary), ''uploaded_files: '' @ show_i64 (su_uploaded_files summary),
      ''updated_files: '' @ show_i64 (su_updated_files summary), ''deleted_files: '' @ show_i64 (su_deleted_files summary),
      ''skipped_files: '' @ show_i64 (su_skipped_files summary), ''failed_files: '' @ show_i64 (su_failed_files summary),
      ''bytes_uploaded: '' @ show_i64 (su_bytes_uploaded summary)]"

definition error_summary_lines :: "SyncRunSummary \<Rightarrow> string list" where
  "error_summary_lines summary =
     (case su_error_summary summary of None \<Rightarrow> [] | Some e \<Rightarrow> [''error_summary: '' @ e])"

definition sync_report_successful :: "SyncRunReport \<Rightarrow> bool" where
  "sync_report_successful report = (sp_status report = RunSucceeded)"

definition migration_report_successful :: "MigrationRunReport \<Rightarrow> bool" where
  "migration_report_successful report = (mr_status report = RunSucceeded)"

definition sync_run :: "('w, 'j) cli_env \<Rightarrow> local_path option \<Rightarrow> bool \<Rightarrow> ('w, unit) cli" where
  "sync_run ci config_path force_remote_rescan =
     bindM (load_valid_config ci config_path) (\<lambda>config.
     bindM (cli_engine ci config) (\<lambda>mv.
     bindM (in_engine id (world_read (ci_uuid ci))) (\<lambda>uuid.
     bindM (in_engine SyncError_text
              (engine_run_once mv config
                ((sync_run_options_default uuid)\<lparr>sro_force_remote_rescan := force_remote_rescan\<rparr>))) (\<lambda>report.
       seqM (say_all ([''sync: '' @ SyncRunStatus_as_str (sp_status report), ''run_id: '' @ show_int (sp_run_id report)] @
               summary_lines (sp_summary report) @ error_summary_lines (sp_summary report)))
         (if \<not> sync_report_successful report
          then throw (''sync run finished with status '' @ SyncRunStatus_as_str (sp_status report))
          else ret ())))))"

definition migration_run :: "('w, 'j) cli_env \<Rightarrow> local_path option \<Rightarrow> bool \<Rightarrow> ('w, unit) cli" where
  "migration_run ci config_path force_remote_rescan =
     bindM (load_valid_config ci config_path) (\<lambda>config.
     bindM (cli_engine ci config) (\<lambda>mv.
     bindM (in_engine id (world_read (ci_uuid ci))) (\<lambda>uuid.
     bindM (in_engine MigrationError_text
              (migration_run_once mv config
                ((migration_run_options_default uuid)\<lparr>mo_force_remote_rescan := force_remote_rescan\<rparr>))) (\<lambda>report.
       seqM (say_all ([''migration: '' @ SyncRunStatus_as_str (mr_status report), ''run_id: '' @ show_int (mr_run_id report)] @
               summary_lines (mr_summary report) @
               [''adopted_files: '' @ show_i64 (sum_list (map mg_adopted_files (mr_roots report))),
                ''moved_resources: '' @ show_i64 (sum_list (map mg_moved_resources (mr_roots report)))] @
               error_summary_lines (mr_summary report)))
         (if \<not> migration_report_successful report
          then throw (''migration run finished with status '' @ SyncRunStatus_as_str (mr_status report))
          else ret ())))))"

definition migration_line :: "MigrationMapRecord \<Rightarrow> string" where
  "migration_line record =
     (let tab = [CHR 0x09]
      in mm_root_id record @ tab @ MigrationMapStatus_as_str (mm_status record) @ tab @ mm_legacy_remote_path record @ tab @
         mm_canonical_remote_path record @ (case mm_last_error record of None \<Rightarrow> '''' | Some e \<Rightarrow> tab @ e))"

definition migration_status :: "('w, 'j) cli_env \<Rightarrow> local_path option \<Rightarrow> ('w, unit) cli" where
  "migration_status ci config_path =
     bindM (load_valid_config ci config_path) (\<lambda>config.
     seqM (in_world StateError_text (ci_open_state ci (pa_state_db (cf_paths config))))
     (bindM (cli_repo ci (list_migration_map None)) (\<lambda>records.
       say_all
         ((if records = [] then ''migration: no records'' else ''migration: records'') #
          (''state_db: '' @ pa_state_db (cf_paths config)) # map migration_line records))))"

section \<open>The running service\<close>

definition control_client :: "('w, 'j) cli_env \<Rightarrow> AppConfig \<Rightarrow> 'w control_transport" where
  "control_client ci config =
     ci_control ci (control_base_url (wu_bind_address (cf_web_ui config)) (wu_port (cf_web_ui config)))"

definition sync_stop :: "('w, 'j) cli_env \<Rightarrow> local_path option \<Rightarrow> ('w, unit) cli" where
  "sync_stop ci config_path =
     bindM (load_valid_config ci config_path) (\<lambda>config.
     bindM (in_world (\<lambda>e. ''daemon not running or control API unavailable: '' @ e)
              (client_request_stop (control_client ci config))) (\<lambda>response.
       seqM (say_all [''sync stop: '' @ cr_message response, ''status: '' @ RuntimeStatus_as_str (cr_status response)])
         (if cr_accepted response then ret () else throw ''daemon has no running sync'')))"

definition summary_json_lines :: "SyncRunSummaryJson \<Rightarrow> string list" where
  "summary_json_lines summary =
     [''scanned_files: '' @ show_i64 (sj_scanned_files summary), ''uploaded_files: '' @ show_i64 (sj_uploaded_files summary),
      ''updated_files: '' @ show_i64 (sj_updated_files summary), ''deleted_files: '' @ show_i64 (sj_deleted_files summary),
      ''skipped_files: '' @ show_i64 (sj_skipped_files summary), ''failed_files: '' @ show_i64 (sj_failed_files summary),
      ''bytes_uploaded: '' @ show_i64 (sj_bytes_uploaded summary)]"

definition print_run_record :: "RunSnapshot \<Rightarrow> string list" where
  "print_run_record run =
     [''latest_run_id: '' @ show_int (rn_id run), ''latest_run_status: '' @ rn_status run,
      ''latest_run_trigger: '' @ rn_trigger run, ''latest_run_started_at_utc: '' @ rn_started_at_utc run] @
     (case rn_finished_at_utc run of None \<Rightarrow> [] | Some t \<Rightarrow> [''latest_run_finished_at_utc: '' @ t]) @
     summary_json_lines (rn_summary run)"

definition print_state_run_record :: "SyncRunRecord \<Rightarrow> string list" where
  "print_state_run_record run =
     [''latest_run_id: '' @ show_int (rr_id run), ''latest_run_status: '' @ SyncRunStatus_as_str (rr_status run),
      ''latest_run_trigger: '' @ SyncRunTrigger_as_str (rr_trigger run),
      ''latest_run_started_at_utc: '' @ rr_started_at_utc run] @
     (case rr_finished_at_utc run of None \<Rightarrow> [] | Some t \<Rightarrow> [''latest_run_finished_at_utc: '' @ t]) @
     summary_lines (rr_summary run)"

definition snapshot_lines :: "RuntimeSnapshot \<Rightarrow> string list" where
  "snapshot_lines snapshot =
     [''daemon: online'', ''status: '' @ RuntimeStatus_as_str (rv_status snapshot),
      ''uptime_seconds: '' @ show_i64 (rv_uptime_seconds snapshot)] @
     (case rv_current_run snapshot of None \<Rightarrow> []
      | Some current \<Rightarrow> [''current_run: '' @ cu_trigger current, ''current_started_at_utc: '' @ cu_started_at_utc current]) @
     (case rv_latest_run snapshot of None \<Rightarrow> [] | Some latest \<Rightarrow> print_run_record latest) @
     (case rv_latest_error snapshot of None \<Rightarrow> [] | Some e \<Rightarrow> [''latest_error: '' @ e])"

definition runtime_status :: "('w, 'j) cli_env \<Rightarrow> local_path option \<Rightarrow> ('w, unit) cli" where
  "runtime_status ci config_path =
     bindM (load_valid_config ci config_path) (\<lambda>config.
     bindM (catchM (in_world id (client_status (control_client ci config)))) (\<lambda>answer.
       case answer of
         Inr snapshot \<Rightarrow> say_all (snapshot_lines snapshot)
       | Inl error \<Rightarrow>
           seqM (say_all [''daemon: offline'', ''control_error: '' @ error])
           (seqM (in_world StateError_text (ci_open_state ci (pa_state_db (cf_paths config))))
           (bindM (cli_repo ci get_latest_run) (\<lambda>found.
              say_all (case found of Some run \<Rightarrow> print_state_run_record run | None \<Rightarrow> [''latest_run: none'']))))))"

definition handle_logs_tail :: "('w, 'j) cli_env \<Rightarrow> nat \<Rightarrow> local_path option \<Rightarrow> ('w, unit) cli" where
  "handle_logs_tail ci lines config_path =
     bindM (load_valid_config ci config_path) (\<lambda>config.
     let logs_dir = pa_logs_dir (cf_paths config)
     in bindM (in_world LoggingError_text (\<lambda>w. case ci_log_directory ci logs_dir w of
          (dir, w) \<Rightarrow> (service_tail_latest_log logs_dir lines dir, w))) say_all)"

definition open_target :: "('w, 'j) cli_env \<Rightarrow> string \<Rightarrow> ('w, unit) cli" where
  "open_target ci target =
     (if ci_var ci ''YDS_NO_OPEN'' = Some ''1'' then ret ()
      else if ci_windows ci \<or> ci_linux ci
      then in_world (\<lambda>_. ''failed to open '' @ target) (ci_spawn_open ci target)
      else throw ''opening targets is unsupported on this platform'')"

definition handle_web_command :: "('w, 'j) cli_env \<Rightarrow> WebCommands \<Rightarrow> local_path option \<Rightarrow> ('w, unit) cli" where
  "handle_web_command ci command config_path =
     (case command of
        WebOpen \<Rightarrow>
          bindM (load_valid_config ci config_path) (\<lambda>config.
          let url = control_base_url (wu_bind_address (cf_web_ui config)) (wu_port (cf_web_ui config))
          in seqM (say (''web: '' @ url)) (open_target ci url))
      | WebTokenStatus \<Rightarrow>
          bindM (in_world id (web_default_store (ci_keyring ci))) (\<lambda>service_name.
          bindM (in_world id (web_token_configured (ci_keyring ci) service_name)) (\<lambda>configured.
            say (''web_token: '' @ (if configured then ''configured'' else ''not_configured''))))
      | WebTokenRotate \<Rightarrow>
          bindM (in_world id (web_default_store (ci_keyring ci))) (\<lambda>service_name.
          bindM (in_engine id (world_read (ci_uuid ci))) (\<lambda>uuid.
          bindM (in_world id (web_rotate_token (ci_keyring ci) uuid service_name)) (\<lambda>token.
            say_all [''web_token: rotated'', ''bearer_token: '' @ token]))))"

section \<open>The report of doctor\<close>

record ComponentStatus =
  cs_name :: string
  cs_health :: string
  cs_details :: string

definition component_ok :: "string \<Rightarrow> string \<Rightarrow> ComponentStatus" where
  "component_ok name details = \<lparr>cs_name = name, cs_health = ''ok'', cs_details = details\<rparr>"

definition component_statuses :: "ComponentStatus list" where
  "component_statuses =
     [component_ok ''core'' ''shared domain boundary is available'',
      component_ok ''state'' ''state repository boundary is available'',
      component_ok ''yandex-disk'' ''Yandex Disk client, OAuth and mock boundaries are available'',
      component_ok ''scanner'' ''filesystem scanner, fingerprinting and SQLite backup boundary is available'',
      component_ok ''sync'' ''sync planner and one-way executor boundary is available'',
      component_ok ''service'' ''scheduler runtime and control API boundary is available'',
      component_ok ''web'' ''web UI and API boundary is available'',
      component_ok ''windows'' ''Windows service and tray boundary is available'',
      component_ok ''linux'' ''Linux systemd boundary is available'']"

definition doctor_lines :: "string \<Rightarrow> string list" where
  "doctor_lines version =
     [''ya-disk-sync '' @ version, ''status: ok'', ''components:''] @
     map (\<lambda>c. ''- '' @ cs_name c @ '': '' @ cs_health c @ '' ('' @ cs_details c @ '')'') component_statuses"

end
