(* ===== verification/Platform.thy ===== *)
theory Platform
  imports Service_Host Config_Io
begin

text \<open>
  The service managers and the tray: \<open>crates/yds-linux\<close> (the systemd unit and its manager) and the part of
  \<open>crates/yds-windows\<close> that decides (the manager, the life of the service process, the actions of the
  tray). The calls of the operating systems are parameters; the window and the menu of the tray are not
  modelled.
\<close>

section \<open>systemd\<close>

definition SERVICE_NAME :: string where "SERVICE_NAME = ''ya-disk-sync''"

datatype LinuxServiceError =
    LinuxUnsupported | LinuxIo string | LinuxCommandFailed string string
    \<comment> \<open>command and status\<close>

fun LinuxServiceError_text :: "LinuxServiceError \<Rightarrow> string" where
  "LinuxServiceError_text LinuxUnsupported = ''systemd helpers are supported only on Linux''"
| "LinuxServiceError_text (LinuxIo e) = ''I/O error: '' @ e"
| "LinuxServiceError_text (LinuxCommandFailed command status) =
     ''command `'' @ command @ ''` failed with status '' @ status"

record SystemdUnit =
  ut_binary_path :: string
  ut_config_path :: string
  ut_user :: string
  ut_group :: string

definition systemd_unit_default :: SystemdUnit where
  "systemd_unit_default =
     \<lparr>ut_binary_path = ''/usr/local/bin/ya-disk-sync'', ut_config_path = ''/etc/ya-disk-sync/config.json'',
      ut_user = SERVICE_NAME, ut_group = SERVICE_NAME\<rparr>"

definition systemd_unit_render :: "SystemdUnit \<Rightarrow> string" where
  "systemd_unit_render unit =
     concat (map (\<lambda>line. line @ newline)
       [''[Unit]'', ''Description=ya-disk-sync one-way Yandex Disk mirror'', ''After=network-online.target'',
        ''Wants=network-online.target'', '''', ''[Service]'', ''Type=simple'',
        ''ExecStart='' @ ut_binary_path unit @ '' daemon --config '' @ ut_config_path unit, ''Restart=on-failure'',
        ''RestartSec=30'', ''User='' @ ut_user unit, ''Group='' @ ut_group unit, ''StateDirectory=ya-disk-sync'',
        ''LogsDirectory=ya-disk-sync'', '''', ''[Install]'', ''WantedBy=multi-user.target''])"

record 'w systemd_api =
  sd_linux :: bool
  sd_files :: "'w file_api"
  sd_remove_file :: "local_path \<Rightarrow> ('w, string, unit) m"
  sd_systemctl :: "string list \<Rightarrow> ('w, string, bool \<times> string) m"
    \<comment> \<open>whether it ended well, and its status as printed\<close>
  sd_systemctl_output :: "string list \<Rightarrow> ('w, string, string) m"
  sd_display :: "local_path \<Rightarrow> string"

record SystemdServiceManager =
  sm_unit_path :: local_path

definition ensure_linux :: "'w systemd_api \<Rightarrow> ('w, LinuxServiceError, unit) m" where
  "ensure_linux sd = (if sd_linux sd then ret () else throw LinuxUnsupported)"

definition run_systemctl :: "'w systemd_api \<Rightarrow> string list \<Rightarrow> ('w, LinuxServiceError, unit) m" where
  "run_systemctl sd args =
     bindM (errM LinuxIo (sd_systemctl sd args)) (\<lambda>(success, status).
       if success then ret () else throw (LinuxCommandFailed ''systemctl'' status))"

definition look_for :: "'w systemd_api \<Rightarrow> local_path \<Rightarrow> ('w, LinuxServiceError, bool) m" where
  "look_for sd path = (\<lambda>w. case fa_exists (sd_files sd) path w of (found, w) \<Rightarrow> (Inr found, w))"

definition systemd_install :: "'w systemd_api \<Rightarrow> SystemdServiceManager \<Rightarrow> SystemdUnit \<Rightarrow> bool \<Rightarrow> ('w, LinuxServiceError, unit) m" where
  "systemd_install sd manager unit force =
     (let path = sm_unit_path manager
      in seqM (ensure_linux sd)
        (bindM (look_for sd path) (\<lambda>found.
           if found \<and> \<not> force
           then throw (LinuxCommandFailed ''install'' (sd_display sd path @ '' already exists''))
           else
             seqM (case path_parent path of
                     None \<Rightarrow> ret ()
                   | Some parent \<Rightarrow> errM LinuxIo (fa_create_dir_all (sd_files sd) parent))
             (seqM (errM LinuxIo (fa_write (sd_files sd) path (systemd_unit_render unit)))
             (seqM (run_systemctl sd [''daemon-reload'']) (run_systemctl sd [''enable'', SERVICE_NAME]))))))"

definition systemd_uninstall :: "'w systemd_api \<Rightarrow> SystemdServiceManager \<Rightarrow> ('w, LinuxServiceError, unit) m" where
  "systemd_uninstall sd manager =
     seqM (ensure_linux sd)
     (bindM (catchM (run_systemctl sd [''disable'', SERVICE_NAME])) (\<lambda>_.
     (bindM (look_for sd (sm_unit_path manager)) (\<lambda>found.
        seqM (if found then errM LinuxIo (sd_remove_file sd (sm_unit_path manager)) else ret ())
          (run_systemctl sd [''daemon-reload''])))))"

definition systemd_start :: "'w systemd_api \<Rightarrow> ('w, LinuxServiceError, unit) m" where
  "systemd_start sd = seqM (ensure_linux sd) (run_systemctl sd [''start'', SERVICE_NAME])"

definition systemd_stop :: "'w systemd_api \<Rightarrow> ('w, LinuxServiceError, unit) m" where
  "systemd_stop sd = seqM (ensure_linux sd) (run_systemctl sd [''stop'', SERVICE_NAME])"

definition systemd_restart :: "'w systemd_api \<Rightarrow> ('w, LinuxServiceError, unit) m" where
  "systemd_restart sd = seqM (ensure_linux sd) (run_systemctl sd [''restart'', SERVICE_NAME])"

definition systemd_status :: "'w systemd_api \<Rightarrow> ('w, LinuxServiceError, string) m" where
  "systemd_status sd =
     seqM (ensure_linux sd)
       (bindM (errM LinuxIo (sd_systemctl_output sd [''is-active'', SERVICE_NAME])) (\<lambda>output. ret (str_trim output)))"

definition systemd_update ::
  "'w systemd_api \<Rightarrow> SystemdServiceManager \<Rightarrow> SystemdUnit \<Rightarrow> bool \<Rightarrow> ('w, LinuxServiceError, unit) m" where
  "systemd_update sd manager unit force = seqM (systemd_install sd manager unit force) (systemd_restart sd)"

section \<open>The Windows service\<close>

datatype WindowsServiceError =
    WindowsUnsupported | WindowsIo string | WindowsCommandFailed string | WindowsServiceApi string
  | WindowsControl string | WindowsRuntime string

fun WindowsServiceError_text :: "WindowsServiceError \<Rightarrow> string" where
  "WindowsServiceError_text WindowsUnsupported = ''Windows service helpers are supported only on Windows''"
| "WindowsServiceError_text (WindowsIo e) = ''I/O error: '' @ e"
| "WindowsServiceError_text (WindowsCommandFailed e) = ''service command failed: '' @ e"
| "WindowsServiceError_text (WindowsServiceApi e) = ''Windows service API error: '' @ e"
| "WindowsServiceError_text (WindowsControl e) = ''control API error: '' @ e"
| "WindowsServiceError_text (WindowsRuntime e) = ''async runtime error: '' @ e"

record WindowsServiceInstallConfig =
  wi_executable_path :: string
  wi_config_path :: string

definition service_run_arguments :: "WindowsServiceInstallConfig \<Rightarrow> string list" where
  "service_run_arguments config = [''service'', ''run'', ''--config'', wi_config_path config]"

definition bin_path :: "WindowsServiceInstallConfig \<Rightarrow> string" where
  "bin_path config =
     (let quote = [CHR 0x22]
      in quote @ wi_executable_path config @ quote @ '' service run --config '' @ quote @ wi_config_path config @ quote)"

datatype WindowsServiceStatus = WsRunning | WsStopped | WsNotInstalled | WsUnknown string

fun WindowsServiceStatus_as_str :: "WindowsServiceStatus \<Rightarrow> string" where
  "WindowsServiceStatus_as_str WsRunning = ''running''"
| "WindowsServiceStatus_as_str WsStopped = ''stopped''"
| "WindowsServiceStatus_as_str WsNotInstalled = ''not_installed''"
| "WindowsServiceStatus_as_str (WsUnknown state) = ''unknown''"

text \<open>
  The service manager of Windows: creating and describing the service, opening it for an action, the
  action. Every call fails with a text; off Windows every one of them is refused.
\<close>

datatype service_action = ActStart | ActStop | ActDelete

datatype service_state = StRunning | StStopped | StOther string

record 'w windows_api =
  wa_windows :: bool
  wa_create :: "string \<Rightarrow> string list \<Rightarrow> ('w, string, unit) m"
    \<comment> \<open>the executable and the arguments it is launched with\<close>
  wa_describe :: "string \<Rightarrow> ('w, string, unit) m"
  wa_open :: "('w, string, unit) m"
  wa_missing :: "string \<Rightarrow> bool"
    \<comment> \<open>\<open>looks_like_missing_service\<close>\<close>
  wa_act :: "service_action \<Rightarrow> ('w, string, unit) m"
  wa_query :: "('w, string, service_state) m"

definition open_service :: "'w windows_api \<Rightarrow> ('w, WindowsServiceError, unit) m" where
  "open_service wa =
     errM (\<lambda>e. if wa_missing wa e then WindowsServiceApi ''service is not installed'' else WindowsServiceApi e) (wa_open wa)"

definition act_on_service :: "'w windows_api \<Rightarrow> service_action \<Rightarrow> ('w, WindowsServiceError, unit) m" where
  "act_on_service wa action =
     (if wa_windows wa then seqM (open_service wa) (errM WindowsServiceApi (wa_act wa action)) else throw WindowsUnsupported)"

definition install_service :: "'w windows_api \<Rightarrow> WindowsServiceInstallConfig \<Rightarrow> bool \<Rightarrow> ('w, WindowsServiceError, unit) m" where
  "install_service wa config force =
     (if \<not> wa_windows wa then throw WindowsUnsupported
      else
        seqM (if force then bindM (catchM (act_on_service wa ActDelete)) (\<lambda>_. ret ()) else ret ())
        (seqM (errM WindowsServiceApi (wa_create wa (wi_executable_path config) (service_run_arguments config)))
          (errM WindowsServiceApi (wa_describe wa ''Local to Yandex Disk one-way mirror runtime''))))"

definition service_status :: "'w windows_api \<Rightarrow> ('w, WindowsServiceError, WindowsServiceStatus) m" where
  "service_status wa =
     (if \<not> wa_windows wa then throw WindowsUnsupported
      else
        bindM (catchM (open_service wa)) (\<lambda>opened.
          case opened of
            Inl (WindowsServiceApi message) \<Rightarrow>
              if str_contains ''not installed'' message then ret WsNotInstalled else throw (WindowsServiceApi message)
          | Inl error \<Rightarrow> throw error
          | Inr _ \<Rightarrow>
              bindM (errM WindowsServiceApi (wa_query wa)) (\<lambda>state.
                ret (case state of StRunning \<Rightarrow> WsRunning | StStopped \<Rightarrow> WsStopped | StOther other \<Rightarrow> WsUnknown other))))"

definition windows_restart :: "'w windows_api \<Rightarrow> ('w, WindowsServiceError, unit) m" where
  "windows_restart wa = bindM (catchM (act_on_service wa ActStop)) (\<lambda>_. act_on_service wa ActStart)"

definition windows_update :: "'w windows_api \<Rightarrow> WindowsServiceInstallConfig \<Rightarrow> bool \<Rightarrow> ('w, WindowsServiceError, unit) m" where
  "windows_update wa config force =
     seqM (install_service wa config force) (bindM (catchM (windows_restart wa)) (\<lambda>_. ret ()))"

section \<open>The tray\<close>

datatype TrayAction = TaStatus | TaOpenWebUi | TaRunSync | TaStopSync | TaOpenLogs | TaVersion | TaQuit

definition menu_labels :: "string list" where
  "menu_labels = [''Status'', ''Open Web UI'', ''Run sync'', ''Stop sync'', ''Open logs'', ''Version'', ''Quit'']"

record TrayApp =
  ta_bind_address :: string
  ta_port :: u16
  ta_logs_dir :: string

text \<open>Opening: \<open>no_open\<close> is \<open>YDS_NO_OPEN\<close>, \<open>spawn\<close> starts the opener of the system.\<close>

definition tray_open_target ::
  "bool \<Rightarrow> bool \<Rightarrow> bool \<Rightarrow> (string \<Rightarrow> ('w, string, unit) m) \<Rightarrow> string \<Rightarrow> ('w, WindowsServiceError, unit) m" where
  "tray_open_target windows linux no_open spawn target =
     (if no_open then ret ()
      else if windows \<or> linux then errM WindowsIo (spawn target)
      else throw WindowsUnsupported)"

definition tray_handle_action ::
  "'w control_transport \<Rightarrow> (string \<Rightarrow> ('w, WindowsServiceError, unit) m) \<Rightarrow> string \<Rightarrow> TrayApp \<Rightarrow> TrayAction \<Rightarrow>
   ('w, WindowsServiceError, string) m" where
  "tray_handle_action send open_it version app action =
     (case action of
        TaStatus \<Rightarrow> bindM (errM WindowsControl (client_status send)) (\<lambda>status. ret (''status: '' @ RuntimeStatus_as_str (rv_status status)))
      | TaOpenWebUi \<Rightarrow> seqM (open_it (control_base_url (ta_bind_address app) (ta_port app))) (ret ''web UI opened'')
      | TaRunSync \<Rightarrow> bindM (errM WindowsControl (client_request_run send)) (\<lambda>response. ret (''sync run: '' @ cr_message response))
      | TaStopSync \<Rightarrow> bindM (errM WindowsControl (client_request_stop send)) (\<lambda>response. ret (''sync stop: '' @ cr_message response))
      | TaOpenLogs \<Rightarrow> seqM (open_it (ta_logs_dir app)) (ret ''logs opened'')
      | TaVersion \<Rightarrow> ret (''ya-disk-sync '' @ version)
      | TaQuit \<Rightarrow> ret ''tray quit'')"

text \<open>
  The build without the feature \<open>native-tray\<close> has no tray of its own; with it, the events of the menu are
  handled in the order of their arrival until one quits. \<open>test_mode\<close> is \<open>YDS_TRAY_TEST_MODE\<close>.
\<close>

definition run_tray_runtime :: "bool \<Rightarrow> bool \<Rightarrow> (TrayAction \<Rightarrow> ('w, WindowsServiceError, string) m) \<Rightarrow> ('w, WindowsServiceError, unit) m" where
  "run_tray_runtime windows test_mode act =
     (if test_mode then bindM (catchM (act TaStatus)) (\<lambda>_ :: WindowsServiceError + string. ret ())
      else if windows then throw (WindowsRuntime ''native tray backend is not enabled; rebuild with feature native-tray'')
      else throw WindowsUnsupported)"

definition tray_event_action :: "string \<Rightarrow> TrayAction option" where
  "tray_event_action ident =
     map_of [(''status'', TaStatus), (''open_web'', TaOpenWebUi), (''run_sync'', TaRunSync), (''stop_sync'', TaStopSync),
       (''open_logs'', TaOpenLogs), (''quit'', TaQuit)] ident"

primrec tray_loop :: "(TrayAction \<Rightarrow> ('w, WindowsServiceError, string) m) \<Rightarrow> string list \<Rightarrow> ('w, WindowsServiceError, unit) m" where
  "tray_loop act [] = ret ()"
| "tray_loop act (ident # idents) =
     (case tray_event_action ident of
        None \<Rightarrow> tray_loop act idents
      | Some action \<Rightarrow>
          if action = TaQuit then ret ()
          else bindM (catchM (act action)) (\<lambda>_ :: WindowsServiceError + string. tray_loop act idents))"

definition icon_pixel :: "nat \<Rightarrow> nat \<Rightarrow> 8 word list" where
  "icon_pixel x y =
     (let in_mark = (8 \<le> x \<and> x \<le> 23 \<and> 8 \<le> y \<and> y \<le> 23); diagonal = (y - 2 \<le> x \<and> x \<le> y + 2)
      in if in_mark \<and> diagonal then [255, 255, 255, 255] else if in_mark then [38, 112, 255, 255] else [0, 0, 0, 0])"

definition generated_icon :: "8 word list" where
  "generated_icon = concat (map (\<lambda>y. concat (map (\<lambda>x. icon_pixel x y) [0..<32])) [0..<32])"

section \<open>The service process of Windows\<close>

datatype service_phase = SsStartPending | SsRunning | SsStopPending | SsStopped

text \<open>\<open>ServiceStatus\<close>: whether stopping is accepted, the service specific exit code, checkpoint, wait hint in seconds.\<close>

record service_report =
  sr_phase :: service_phase
  sr_accepts_stop :: bool
  sr_exit :: nat
  sr_checkpoint :: nat
  sr_wait_hint :: nat

datatype ServiceControl = ScInterrogate | ScStop | ScShutdown | ScOther

datatype handler_answer = HandlerNoError | HandlerNotImplemented

text \<open>Whether the handler of control events sends the stop that the service waits for, and its answer.\<close>

fun service_event :: "ServiceControl \<Rightarrow> bool \<times> handler_answer" where
  "service_event ScInterrogate = (False, HandlerNoError)"
| "service_event ScStop = (True, HandlerNoError)"
| "service_event ScShutdown = (True, HandlerNoError)"
| "service_event ScOther = (False, HandlerNotImplemented)"

text \<open>
  \<open>sx_recv_stop\<close> waits for a stop while the tasks of the host run, and gives the host as they leave it;
  \<open>sx_join\<close> sends them the signal to end and waits for them.
\<close>

record 'w service_api =
  sx_register :: "('w, string, unit) m"
  sx_report :: "service_report \<Rightarrow> ('w, string, unit) m"
  sx_build_runtime :: "('w, string, unit) m"
  sx_recv_stop :: "runtime_host \<Rightarrow> 'w \<Rightarrow> runtime_host \<times> 'w"
  sx_join :: "runtime_host \<Rightarrow> ('w, string, unit) m"

definition set_service_state ::
  "'w service_api \<Rightarrow> service_phase \<Rightarrow> bool \<Rightarrow> nat \<Rightarrow> nat \<Rightarrow> ('w, WindowsServiceError, unit) m" where
  "set_service_state sx phase accepts checkpoint wait_hint =
     errM WindowsServiceApi (sx_report sx
       \<lparr>sr_phase = phase, sr_accepts_stop = accepts, sr_exit = 0, sr_checkpoint = checkpoint, sr_wait_hint = wait_hint\<rparr>)"

text \<open>The block that the runtime runs to its end.\<close>

definition service_life :: "'w service_api \<Rightarrow> 'w host_env \<Rightarrow> string \<Rightarrow> ('w, WindowsServiceError, unit) m" where
  "service_life sx hx config_path =
     bindM (errM WindowsControl (runtime_host_start hx config_path)) (\<lambda>host.
       seqM (set_service_state sx SsRunning True 0 0)
       (bindM (\<lambda>w. case sx_recv_stop sx host w of (host, w) \<Rightarrow> (Inr host, w)) (\<lambda>host.
          seqM (set_service_state sx SsStopPending False 1 30)
            (errM WindowsControl (sx_join sx (runtime_host_shutdown host))))))"

definition run_service_main ::
  "'w service_api \<Rightarrow> 'w host_env \<Rightarrow> string option \<Rightarrow> ('w, WindowsServiceError, unit) m" where
  "run_service_main sx hx stored_path =
     (case stored_path of
        None \<Rightarrow> throw (WindowsRuntime ''service config path is not set'')
      | Some config_path \<Rightarrow>
          seqM (errM WindowsServiceApi (sx_register sx))
          (seqM (set_service_state sx SsStartPending False 1 30)
          (seqM (errM WindowsRuntime (sx_build_runtime sx))
          (bindM (catchM (service_life sx hx config_path)) (\<lambda>result.
             seqM (errM WindowsServiceApi (sx_report sx
                     \<lparr>sr_phase = SsStopped, sr_accepts_stop = False, sr_exit = (if isl result then 1 else 0),
                      sr_checkpoint = 0, sr_wait_hint = 0\<rparr>))
               (\<lambda>w. (result, w)))))))"

text \<open>
  The path of the configuration is left for \<open>run_service_main\<close> in a cell that is written once;
  \<open>dispatch\<close> is \<open>service_dispatcher::start\<close>, which calls the service back with the cell.
\<close>

definition run_service_dispatcher ::
  "bool \<Rightarrow> (string option \<Rightarrow> ('w, string, unit) m) \<Rightarrow> string \<Rightarrow> ('w \<times> string option, WindowsServiceError, unit) m" where
  "run_service_dispatcher windows dispatch config_path =
     (\<lambda>(w, stored).
        if \<not> windows then (Inl WindowsUnsupported, (w, stored))
        else case stored of
          Some other \<Rightarrow> (Inl (WindowsRuntime ''service config path already set''), (w, stored))
        | None \<Rightarrow> (case dispatch (Some config_path) w of (r, w) \<Rightarrow> (map_err WindowsServiceApi r, (w, Some config_path))))"

definition run_console ::
  "'w host_env \<Rightarrow> (runtime_host \<Rightarrow> 'w \<Rightarrow> runtime_host \<times> 'w) \<Rightarrow> (runtime_host \<Rightarrow> ('w, string, unit) m) \<Rightarrow> string \<Rightarrow>
   ('w, WindowsServiceError, unit) m" where
  "run_console hx wait_ctrl_c join config_path =
     bindM (errM WindowsControl (runtime_host_start hx config_path)) (\<lambda>host w.
       case wait_ctrl_c host w of (host, w) \<Rightarrow> errM WindowsControl (join (runtime_host_shutdown host)) w)"

end
