(* ===== verification/Fixture_Tree.thy ===== *)
theory Fixture_Tree
  imports Scan_Model Sync_Env
begin

text \<open>
  The generator of synthetic trees, \<open>generate_fixture_tree\<close> of \<open>crates/yds-scanner\<close>: the file of an index, and
  what a generation leaves on the disk. The calls of the file system are parameters.
\<close>

section \<open>The generator\<close>

text \<open>The errors of the scanner that the generator gives; that of a call is a text.\<close>

datatype FixtureError = FixtureIo local_path string | FixtureOutputNotEmpty local_path | InvalidFixtureArguments

fun FixtureError_text :: "(local_path \<Rightarrow> string) \<Rightarrow> FixtureError \<Rightarrow> string" where
  "FixtureError_text display (FixtureIo path source) = ''I/O error at '' @ display path @ '': '' @ source"
| "FixtureError_text display (FixtureOutputNotEmpty path) = ''fixture output directory is not empty: '' @ display path"
| "FixtureError_text display InvalidFixtureArguments = ''fixture file count and max depth must be greater than zero''"

record 'w fixture_api =
  fx_exists :: "local_path \<Rightarrow> 'w \<Rightarrow> bool \<times> 'w"
  fx_read_dir_any :: "local_path \<Rightarrow> ('w, string, bool) m"
    \<comment> \<open>opening the directory and asking for a first entry\<close>
  fx_create_dir_all :: "local_path \<Rightarrow> ('w, string, unit) m"
  fx_create :: "local_path \<Rightarrow> ('w, string, unit) m"
    \<comment> \<open>the file is there, and empty\<close>
  fx_append :: "local_path \<Rightarrow> string \<Rightarrow> ('w, string, unit) m"

text \<open>\<open>{n:0width}\<close>.\<close>

definition zero_padded :: "nat \<Rightarrow> nat \<Rightarrow> string" where
  "zero_padded width n = (let digits = show_nat n in replicate (width - length digits) (CHR ''0'') @ digits)"

definition fixture_directory :: "local_path \<Rightarrow> nat \<Rightarrow> nat \<Rightarrow> local_path" where
  "fixture_directory output max_depth index =
     output @ map (\<lambda>level. ''d'' @ zero_padded 2 level) [0..<Suc (index mod max_depth)]"

definition fixture_path :: "local_path \<Rightarrow> nat \<Rightarrow> nat \<Rightarrow> local_path" where
  "fixture_path output max_depth index =
     fixture_directory output max_depth index @ [''file-'' @ zero_padded 8 index @ ''.txt'']"

definition fixture_line :: "nat \<Rightarrow> string" where
  "fixture_line index = ''ya-disk-sync fixture file '' @ show_nat index @ [CHR 0x0A]"

definition fixture_step ::
  "'w fixture_api \<Rightarrow> local_path \<Rightarrow> nat \<Rightarrow> nat \<Rightarrow> ('w, FixtureError, unit) m" where
  "fixture_step fx output max_depth index =
     (let directory = fixture_directory output max_depth index;
          file_path = fixture_path output max_depth index
      in seqM (errM (FixtureIo directory) (fx_create_dir_all fx directory))
        (seqM (errM (FixtureIo file_path) (fx_create fx file_path))
          (errM (FixtureIo file_path) (fx_append fx file_path (fixture_line index)))))"

definition generate_fixture_tree ::
  "'w fixture_api \<Rightarrow> local_path \<Rightarrow> nat \<Rightarrow> nat \<Rightarrow> ('w, FixtureError, unit) m" where
  "generate_fixture_tree fx output files max_depth =
     (if files = 0 \<or> max_depth = 0 then throw InvalidFixtureArguments
      else
        bindM (\<lambda>w. case fx_exists fx output w of (found, w) \<Rightarrow> (Inr found, w)) (\<lambda>found.
        bindM (if found then errM (FixtureIo output) (fx_read_dir_any fx output) else ret False) (\<lambda>occupied.
          if occupied then throw (FixtureOutputNotEmpty output)
          else
            seqM (errM (FixtureIo output) (fx_create_dir_all fx output))
              (foldM (\<lambda>index _. fixture_step fx output max_depth index) [0..<files] ()))))"

section \<open>The files of a tree\<close>

text \<open>The number a string of digits stands for; leading zeros do not count.\<close>

definition number_of :: "string \<Rightarrow> nat" where
  "number_of s = foldl (\<lambda>acc c. 10 * acc + (of_char c - 48)) 0 s"

lemma number_of_show_nat: "number_of (show_nat n) = n"
proof (induction n rule: show_nat.induct)
  case (1 n)
  then show ?case
    by (subst show_nat.simps) (auto simp: number_of_def)
qed

lemma number_of_zeros: "number_of (replicate k (CHR ''0'') @ s) = number_of s"
  by (induction k) (simp_all add: number_of_def)

lemma number_of_padded: "number_of (zero_padded width n) = n"
  by (simp add: zero_padded_def Let_def number_of_zeros number_of_show_nat)

lemma zero_padded_inject: "zero_padded width m = zero_padded width n \<longleftrightarrow> m = n"
  by (metis number_of_padded)

lemma fixture_path_inject: "fixture_path output d i = fixture_path output d j \<longleftrightarrow> i = j"
  by (auto simp: fixture_path_def zero_padded_inject)

text \<open>What is relied on: looking and making directories leave files alone, a call that succeeds did its work.\<close>

definition fixture_ok :: "'w fixture_api \<Rightarrow> ('w \<Rightarrow> local_path \<Rightarrow> string option) \<Rightarrow> bool" where
  "fixture_ok fx texts =
     ((\<forall>path w. texts (snd (fx_exists fx path w)) = texts w) \<and>
      (\<forall>path w. texts (snd (fx_read_dir_any fx path w)) = texts w) \<and>
      (\<forall>path w. texts (snd (fx_create_dir_all fx path w)) = texts w) \<and>
      (\<forall>path w w'. fx_create fx path w = (Inr (), w') \<longrightarrow> texts w' = (texts w)(path \<mapsto> [])) \<and>
      (\<forall>path line w w' before. fx_append fx path line w = (Inr (), w') \<longrightarrow> texts w path = Some before \<longrightarrow>
         texts w' = (texts w)(path \<mapsto> before @ line)))"

lemma fixture_errM_run: "errM h f w = (Inr x, w') \<longleftrightarrow> f w = (Inr x, w')"
  by (auto simp: errM_def map_err_def split: prod.splits sum.splits)

lemma fixture_seqM_run: "seqM f g w = (Inr x, w') \<longleftrightarrow> (\<exists>v. f w = (Inr (), v) \<and> g v = (Inr x, w'))"
  by (auto simp: seqM_def bindM_def split: prod.splits sum.splits)

lemma fixture_bindM_run: "bindM f g w = (Inr x, w') \<longleftrightarrow> (\<exists>y v. f w = (Inr y, v) \<and> g y v = (Inr x, w'))"
  by (auto simp: bindM_def split: prod.splits sum.splits)

lemma fixture_step_law:
  assumes "fixture_ok fx texts" "fixture_step fx output d i w = (Inr (), w')"
  shows "texts w' = (texts w)(fixture_path output d i \<mapsto> fixture_line i)"
proof -
  let ?path = "fixture_path output d i"
  obtain w1 w2 where w1: "fx_create_dir_all fx (fixture_directory output d i) w = (Inr (), w1)"
      and w2: "fx_create fx ?path w1 = (Inr (), w2)" and w3: "fx_append fx ?path (fixture_line i) w2 = (Inr (), w')"
    using assms(2) unfolding fixture_step_def Let_def fixture_seqM_run fixture_errM_run by blast
  have "texts w1 = texts w" using assms(1) w1 unfolding fixture_ok_def by (metis snd_conv)
  moreover have "texts w2 = (texts w1)(?path \<mapsto> [])" using assms(1) w2 by (simp add: fixture_ok_def)
  ultimately show ?thesis using assms(1) w3 by (simp add: fixture_ok_def)
qed

lemma fixture_steps_law:
  assumes "fixture_ok fx texts" "foldM (\<lambda>i _. fixture_step fx output d i) indices () w = (Inr (), w')"
  shows "(\<forall>i \<in> set indices. texts w' (fixture_path output d i) = Some (fixture_line i)) \<and>
    (\<forall>path. path \<notin> fixture_path output d ` set indices \<longrightarrow> texts w' path = texts w path)"
  using assms(2)
proof (induction indices arbitrary: w' rule: rev_induct)
  case Nil
  then show ?case by (simp add: ret_def)
next
  case (snoc i indices)
  have split: "foldM g (xs @ [x]) () = seqM (foldM g xs ()) (g x ())" for g :: "nat \<Rightarrow> unit \<Rightarrow> ('a, FixtureError, unit) m" and xs x
    by (induction xs) (auto simp: seqM_def bindM_def ret_def fun_eq_iff split: prod.split sum.split)
  obtain v where v: "foldM (\<lambda>i _. fixture_step fx output d i) indices () w = (Inr (), v)" "fixture_step fx output d i v = (Inr (), w')"
    using snoc.prems unfolding split fixture_seqM_run by blast
  show ?case
    using snoc.IH [OF v(1)] fixture_step_law [OF assms(1) v(2)] by (auto simp: fixture_path_inject)
qed

text \<open>
  A generation that succeeds had at least one file to write and a depth of at least one, wrote the
  numbered files, one per index, each with its line, and touched no other file.
\<close>

theorem fixture_tree_exact:
  assumes "fixture_ok fx texts" "generate_fixture_tree fx output files max_depth w = (Inr (), w')"
  shows "0 < files \<and> 0 < max_depth \<and> card (fixture_path output max_depth ` {..<files}) = files \<and>
    (\<forall>i < files. texts w' (fixture_path output max_depth i) = Some (fixture_line i)) \<and>
    (\<forall>path. path \<notin> fixture_path output max_depth ` {..<files} \<longrightarrow> texts w' path = texts w path)"
proof -
  have pos: "0 < files" "0 < max_depth"
    using assms(2) by (auto simp: generate_fixture_tree_def throw_def split: if_splits)
  obtain found w1 where w1: "fx_exists fx output w = (found, w1)" by fastforce
  obtain w2 w3 where w2: "(if found then errM (FixtureIo output) (fx_read_dir_any fx output) else ret False) w1 = (Inr False, w2)"
      and w3: "fx_create_dir_all fx output w2 = (Inr (), w3)"
      and w4: "foldM (\<lambda>i _. fixture_step fx output max_depth i) [0..<files] () w3 = (Inr (), w')"
    using assms(2) pos
    by (auto simp: generate_fixture_tree_def fixture_bindM_run w1 fixture_seqM_run fixture_errM_run throw_def split: if_splits)
  have "texts w1 = texts w" "texts w3 = texts w2"
    using assms(1) w1 w3 unfolding fixture_ok_def by (metis snd_conv)+
  moreover have "texts w2 = texts w1"
    using assms(1) w2 unfolding fixture_ok_def by (cases found) (simp_all add: fixture_errM_run ret_def, metis snd_conv)
  moreover have "inj_on (fixture_path output max_depth) {..<files}"
    by (simp add: inj_on_def fixture_path_inject)
  ultimately show ?thesis
    using fixture_steps_law [OF assms(1) w4] pos by (auto simp: card_image atLeast0LessThan)
qed

section \<open>Example\<close>

definition table_fixture :: "(local_path \<Rightarrow> string option) fixture_api" where
  "table_fixture =
     \<lparr>fx_exists = (\<lambda>path w. (False, w)), fx_read_dir_any = (\<lambda>path. ret False), fx_create_dir_all = (\<lambda>path. ret ()),
      fx_create = (\<lambda>path w. (Inr (), w(path \<mapsto> []))),
      fx_append = (\<lambda>path line w. (Inr (), w(path := map_option (\<lambda>before. before @ line) (w path))))\<rparr>"

theorem fixture_tree_exact_witness:
  "\<exists>w'. generate_fixture_tree table_fixture [''out''] 2 1 (\<lambda>_. None) = (Inr (), w') \<and>
     w' [''out'', ''d00'', ''file-00000001.txt''] = Some (''ya-disk-sync fixture file 1'' @ [CHR 0x0A])"
proof -
  have ok: "fixture_ok table_fixture id" by (auto simp: fixture_ok_def table_fixture_def ret_def)
  obtain w' where run: "generate_fixture_tree table_fixture [''out''] 2 1 (\<lambda>_. None) = (Inr (), w')"
  proof -
    have step: "\<exists>v'. fixture_step table_fixture [''out''] 1 i v = (Inr (), v')" for i v
      by (simp add: fixture_step_def table_fixture_def seqM_def bindM_def errM_def map_err_def ret_def Let_def)
    obtain v where v: "fixture_step table_fixture [''out''] 1 0 (\<lambda>_. None) = (Inr (), v)" using step by blast
    obtain w' where w': "fixture_step table_fixture [''out''] 1 1 v = (Inr (), w')" using step by blast
    have two: "[0..<2] = [0, 1::nat]" by (simp add: upt_rec)
    have "generate_fixture_tree table_fixture [''out''] 2 1 (\<lambda>_. None) = (Inr (), w')"
      using v w' by (simp add: generate_fixture_tree_def two fixture_bindM_run fixture_seqM_run fixture_errM_run ret_def)
        (simp add: table_fixture_def ret_def, blast)
    then show thesis by (rule that)
  qed
  have path: "fixture_path [''out''] 1 1 = [''out'', ''d00'', ''file-00000001.txt'']"
    by code_simp
  have line: "fixture_line 1 = ''ya-disk-sync fixture file 1'' @ [CHR 0x0A]"
    by code_simp
  from fixture_tree_exact [OF ok run] have "\<forall>i < 2. w' (fixture_path [''out''] 1 i) = Some (fixture_line i)" by simp
  then have "w' (fixture_path [''out''] 1 1) = Some (fixture_line 1)" by simp
  then show ?thesis using run unfolding path line by simp
qed

end
