(* ===== verification/Cli_Service.thy ===== *)
theory Cli_Service
  imports Cli Platform Fixture_Tree
begin

text \<open>
  The commands of \<open>crates/yds-cli/src/main.rs\<close> that need the system: the daemon, the service managers, the tray
  and the fixture generator, and the dispatch of all commands.
\<close>

section \<open>Daemon and services\<close>

text \<open>
  \<open>pf_dispatch\<close> is \<open>service_dispatcher::start\<close>; \<open>pf_wait_ctrl_c\<close> and \<open>pf_join\<close> are the waiting of \<open>run_console\<close>;
  \<open>pf_local_addr\<close> is the address that the server got.
\<close>

record 'w platform_env =
  pf_systemd :: "'w systemd_api"
  pf_windows :: "'w windows_api"
  pf_fixture :: "'w fixture_api"
  pf_current_exe :: "('w, string, string) m"
  pf_host :: "'w host_env"
  pf_local_addr :: "runtime_host \<Rightarrow> string"
  pf_wait_ctrl_c :: "runtime_host \<Rightarrow> ('w, string, runtime_host) m"
  pf_join :: "runtime_host \<Rightarrow> ('w, string, unit) m"
  pf_dispatch :: "string option \<Rightarrow> ('w, string, unit) m"

datatype ServiceCommands =
    ServiceInstall bool bool | ServiceStart | ServiceStop | ServiceRestart | ServiceStatus | ServiceUninstall
  | ServiceUpdate bool bool | ServiceRun
    \<comment> \<open>installing and updating: systemd, force\<close>

definition daemon :: "('w, 'j) cli_env \<Rightarrow> 'w platform_env \<Rightarrow> local_path option \<Rightarrow> ('w, unit) cli" where
  "daemon ci pf config_path =
     (let path = cli_config_path ci config_path
      in bindM (in_world (\<lambda>_. ''failed to start daemon from config '' @ ci_display ci path @ ''; run config init first'')
                  (runtime_host_start (pf_host pf) (ci_display ci path))) (\<lambda>host.
         seqM (say_all [''daemon: running'', ''control: http://'' @ pf_local_addr pf host])
         (bindM (in_world id (pf_wait_ctrl_c pf host)) (\<lambda>host.
            seqM (in_world id (pf_join pf (runtime_host_shutdown host))) (say ''daemon: stopped'')))))"

definition service_run :: "('w, 'j) cli_env \<Rightarrow> 'w platform_env \<Rightarrow> local_path option \<Rightarrow> ('w, unit) cli" where
  "service_run ci pf config_path =
     (let path = cli_config_path ci config_path
      in if ci_windows ci \<and> ci_var ci ''YDS_WINDOWS_SERVICE_CONSOLE'' \<noteq> Some ''1''
         then in_world WindowsServiceError_text
                (\<lambda>w. case run_service_dispatcher (ci_windows ci) (pf_dispatch pf) (ci_display ci path) (w, None) of
                   (r, (w, stored)) \<Rightarrow> (r, w))
         else daemon ci pf (Some path))"

definition systemd_manager_default :: "('w, 'j) cli_env \<Rightarrow> SystemdServiceManager" where
  "systemd_manager_default ci = \<lparr>sm_unit_path = ci_path_of ci ''/etc/systemd/system/ya-disk-sync.service''\<rparr>"

definition windows_install_config :: "('w, 'j) cli_env \<Rightarrow> 'w platform_env \<Rightarrow> local_path option \<Rightarrow> ('w, WindowsServiceInstallConfig) cli" where
  "windows_install_config ci pf config_path =
     bindM (in_world id (pf_current_exe pf)) (\<lambda>executable_path.
       ret \<lparr>wi_executable_path = executable_path, wi_config_path = ci_display ci (cli_config_path ci config_path)\<rparr>)"

definition by_platform ::
  "('w, 'j) cli_env \<Rightarrow> ('w, LinuxServiceError, 'a) m \<Rightarrow> ('w, WindowsServiceError, 'a) m \<Rightarrow> ('w, 'a) cli" where
  "by_platform ci on_linux on_windows =
     (if ci_linux ci then in_world LinuxServiceError_text on_linux else in_world WindowsServiceError_text on_windows)"

definition handle_service_command ::
  "('w, 'j) cli_env \<Rightarrow> 'w platform_env \<Rightarrow> ServiceCommands \<Rightarrow> local_path option \<Rightarrow> ('w, unit) cli" where
  "handle_service_command ci pf command config_path =
     (let sd = pf_systemd pf; wa = pf_windows pf; manager = systemd_manager_default ci
      in case command of
        ServiceInstall systemd force \<Rightarrow>
          if systemd
          then seqM (in_world LinuxServiceError_text (systemd_install sd manager systemd_unit_default force))
                 (say ''service: installed systemd unit'')
          else bindM (windows_install_config ci pf config_path) (\<lambda>config.
                 seqM (in_world WindowsServiceError_text (install_service wa config force)) (say ''service: installed''))
      | ServiceStart \<Rightarrow> seqM (by_platform ci (systemd_start sd) (act_on_service wa ActStart)) (say ''service: started'')
      | ServiceStop \<Rightarrow> seqM (by_platform ci (systemd_stop sd) (act_on_service wa ActStop)) (say ''service: stopped'')
      | ServiceRestart \<Rightarrow> seqM (by_platform ci (systemd_restart sd) (windows_restart wa)) (say ''service: restarted'')
      | ServiceStatus \<Rightarrow>
          bindM (by_platform ci (systemd_status sd)
                   (bindM (service_status wa) (\<lambda>status. ret (WindowsServiceStatus_as_str status)))) (\<lambda>status.
            say (''service: '' @ status))
      | ServiceUninstall \<Rightarrow>
          seqM (by_platform ci (systemd_uninstall sd manager) (act_on_service wa ActDelete)) (say ''service: uninstalled'')
      | ServiceUpdate systemd force \<Rightarrow>
          if systemd \<or> ci_linux ci
          then seqM (in_world LinuxServiceError_text (systemd_update sd manager systemd_unit_default force))
                 (say ''service: updated systemd unit'')
          else bindM (windows_install_config ci pf config_path) (\<lambda>config.
                 seqM (in_world WindowsServiceError_text (windows_update wa config force)) (say ''service: updated''))
      | ServiceRun \<Rightarrow> service_run ci pf config_path)"

section \<open>Tray and fixtures\<close>

definition tray :: "('w, 'j) cli_env \<Rightarrow> string \<Rightarrow> local_path option \<Rightarrow> ('w, unit) cli" where
  "tray ci version config_path =
     bindM (load_valid_config ci config_path) (\<lambda>config.
       let app = \<lparr>ta_bind_address = wu_bind_address (cf_web_ui config), ta_port = wu_port (cf_web_ui config),
                  ta_logs_dir = pa_logs_dir (cf_paths config)\<rparr>;
           open_it = tray_open_target (ci_windows ci) (ci_linux ci) (ci_var ci ''YDS_NO_OPEN'' = Some ''1'') (ci_spawn_open ci)
       in seqM (say_all [''tray: running'', ''menu: '' @ str_join '', '' menu_labels])
            (in_world WindowsServiceError_text
               (run_tray_runtime (ci_windows ci) (ci_var ci ''YDS_TRAY_TEST_MODE'' = Some ''1'')
                  (tray_handle_action (control_client ci config) open_it version app))))"

definition handle_test_fixture_command ::
  "('w, 'j) cli_env \<Rightarrow> 'w platform_env \<Rightarrow> nat \<Rightarrow> nat \<Rightarrow> local_path \<Rightarrow> ('w, unit) cli" where
  "handle_test_fixture_command ci pf files max_depth output =
     seqM (in_world (FixtureError_text (ci_display ci)) (generate_fixture_tree (pf_fixture pf) output files max_depth))
       (say_all [''test-fixtures: generated'', ''files: '' @ show_nat files, ''max_depth: '' @ show_nat max_depth,
                 ''output: '' @ ci_display ci output])"

section \<open>Dispatch\<close>

datatype Commands =
    CmdDoctor | CmdConfig ConfigCommands | CmdAuth AuthCommands | CmdSync SyncCommands | CmdDaemon | CmdStatus
  | CmdLogsTail nat | CmdWeb WebCommands | CmdService ServiceCommands | CmdTray | CmdMigration MigrationCommands
  | CmdTestFixtures nat nat local_path

definition cli_main ::
  "('w, 'j) cli_env \<Rightarrow> 'w platform_env \<Rightarrow> string \<Rightarrow> Commands \<Rightarrow> local_path option \<Rightarrow> ('w, unit) cli" where
  "cli_main ci pf version command config_path =
     (case command of
        CmdDoctor \<Rightarrow> say_all (doctor_lines version)
      | CmdConfig c \<Rightarrow> handle_config_command ci c config_path
      | CmdAuth c \<Rightarrow> handle_auth_command ci c config_path
      | CmdSync (SyncRun force) \<Rightarrow> sync_run ci config_path force
      | CmdSync SyncStop \<Rightarrow> sync_stop ci config_path
      | CmdDaemon \<Rightarrow> daemon ci pf config_path
      | CmdStatus \<Rightarrow> runtime_status ci config_path
      | CmdLogsTail lines \<Rightarrow> handle_logs_tail ci lines config_path
      | CmdWeb c \<Rightarrow> handle_web_command ci c config_path
      | CmdService c \<Rightarrow> handle_service_command ci pf c config_path
      | CmdTray \<Rightarrow> tray ci version config_path
      | CmdMigration (MigrationRun force) \<Rightarrow> migration_run ci config_path force
      | CmdMigration MigrationStatus \<Rightarrow> migration_status ci config_path
      | CmdTestFixtures files max_depth output \<Rightarrow> handle_test_fixture_command ci pf files max_depth output)"

end
