(* ===== verification/Cli_Props.thy ===== *)
theory Cli_Props
  imports Cli_Service
begin

text \<open>
  What commands guarantee: the file of the configuration survives every command that fails, a run needs
  a login and a valid configuration, and the exit status is that of the run.
\<close>

section \<open>Steps of a command\<close>

lemma in_world_run: "in_world f g (lines, s) = (r, (lines', s')) \<longleftrightarrow>
    (\<exists>q w. g (st_world s) = (q, w) \<and> r = map_err f q \<and> lines' = lines \<and> s' = s\<lparr>st_world := w\<rparr>)"
  by (auto simp: in_world_def split: prod.splits)

lemma in_engine_run: "in_engine f g (lines, s) = (r, (lines', s')) \<longleftrightarrow>
    (\<exists>q. g s = (q, s') \<and> r = map_err f q \<and> lines' = lines)"
  by (auto simp: in_engine_def split: prod.splits)

lemma say_all_run [simp]: "say_all ls (lines, s) = (Inr (), (lines @ ls, s))"
  by (simp add: say_all_def)

lemma say_run [simp]: "say l (lines, s) = (Inr (), (lines @ [l], s))"
  by (simp add: say_def)

lemma map_err_Inr [simp]: "map_err f q = Inr x \<longleftrightarrow> q = Inr x"
  by (cases q) (simp_all add: map_err_def)

lemma map_err_Inl: "map_err f q = Inl x \<longleftrightarrow> (\<exists>e. q = Inl e \<and> x = f e)"
  by (cases q) (auto simp: map_err_def)

lemma ensure_valid_run:
  assumes "cli_ensure_valid ci config (lines, s) = (r, (lines', s'))"
  shows "s' = s \<and> (r = Inr () \<longleftrightarrow> report_is_valid (validate_config (ci_gitignore ci) config))"
  using assms by (auto simp: cli_ensure_valid_def Let_def seqM_def bindM_def ret_def throw_def split: if_splits)

text \<open>A step that fails, or leaves the configuration files alone, in front of others.\<close>

definition settled ::
  "('w \<Rightarrow> local_path \<Rightarrow> string option) \<Rightarrow> (string option \<Rightarrow> bool) \<Rightarrow> local_path \<Rightarrow> 'w sync_state \<Rightarrow> string + 'a \<Rightarrow>
   'w sync_state \<Rightarrow> bool" where
  "settled texts good path s r s' =
     (st_db s' = st_db s \<and>
      (case r of
         Inl _ \<Rightarrow> texts (st_world s') = texts (st_world s)
       | Inr _ \<Rightarrow> texts (st_world s') = texts (st_world s) \<or>
           (\<exists>found. texts (st_world s') = (texts (st_world s))(path := found) \<and> good found)))"

definition settles :: "('w \<Rightarrow> local_path \<Rightarrow> string option) \<Rightarrow> (string option \<Rightarrow> bool) \<Rightarrow> local_path \<Rightarrow> ('w, 'a) cli \<Rightarrow> bool" where
  "settles texts good path f =
     (\<forall>lines s r lines' s'. f (lines, s) = (r, (lines', s')) \<longrightarrow> settled texts good path s r s')"

definition looks :: "('w \<Rightarrow> local_path \<Rightarrow> string option) \<Rightarrow> ('w, 'a) cli \<Rightarrow> bool" where
  "looks texts f =
     (\<forall>lines s r lines' s'. f (lines, s) = (r, (lines', s')) \<longrightarrow>
        st_db s' = st_db s \<and> texts (st_world s') = texts (st_world s))"

lemma settles_looks: "looks texts f \<Longrightarrow> settles texts good path f"
  unfolding looks_def settles_def settled_def by (auto split: sum.split)

lemma looksD: "looks texts f \<Longrightarrow> f (lines, s) = (r, (lines', s')) \<Longrightarrow>
    st_db s' = st_db s \<and> texts (st_world s') = texts (st_world s)"
  unfolding looks_def by blast

lemma settles_after:
  assumes "looks texts f" "\<And>x. settles texts good path (g x)"
  shows "settles texts good path (bindM f g)"
  unfolding settles_def
proof (intro allI impI)
  fix lines s r lines' s'
  assume run: "bindM f g (lines, s) = (r, (lines', s'))"
  obtain q lines1 s1 where f: "f (lines, s) = (q, (lines1, s1))" by (metis surj_pair)
  show "settled texts good path s r s'"
  proof (cases q)
    case (Inl e)
    then show ?thesis using run f looksD [OF assms(1) f] by (auto simp: bindM_def settled_def)
  next
    case (Inr x)
    then have "g x (lines1, s1) = (r, (lines', s'))" using run f by (simp add: bindM_def)
    then have "settled texts good path s1 r s'"
      using assms(2) [of x] unfolding settles_def by blast
    then show ?thesis
      using looksD [OF assms(1) f] by (auto simp: settled_def split: sum.splits)
  qed
qed

lemma looks_bindM:
  assumes "looks texts f" "\<And>x. looks texts (g x)"
  shows "looks texts (bindM f g)"
  unfolding looks_def
proof (intro allI impI)
  fix lines s r lines' s'
  assume run: "bindM f g (lines, s) = (r, (lines', s'))"
  obtain q lines1 s1 where f: "f (lines, s) = (q, (lines1, s1))" by (metis surj_pair)
  show "st_db s' = st_db s \<and> texts (st_world s') = texts (st_world s)"
    using looksD [OF assms(1) f] looksD [OF assms(2)] run f by (cases q) (auto simp: bindM_def)
qed

lemma looks_seqM: "looks texts f \<Longrightarrow> looks texts g \<Longrightarrow> looks texts (seqM f g)"
  unfolding seqM_def by (rule looks_bindM)

lemma looks_basic [intro, simp]: "looks texts (ret x)" "looks texts (throw e)" "looks texts (say l)" "looks texts (say_all ls)"
  by (simp_all add: looks_def ret_def throw_def)

lemma looks_valid [intro, simp]: "looks texts (cli_ensure_valid ci config)"
  unfolding looks_def using ensure_valid_run by blast

lemma looks_world:
  assumes "\<And>w r w'. g w = (r, w') \<Longrightarrow> texts w' = texts w"
  shows "looks texts (in_world f g)"
  unfolding looks_def in_world_run using assms by auto

section \<open>The file of the configuration\<close>

definition writes_succeed :: "'w file_api \<Rightarrow> bool" where
  "writes_succeed fa = (\<forall>path content w. \<not> isl (fst (fa_write fa path content w)))"

text \<open>The text of a valid configuration.\<close>

definition holds_valid :: "('w, 'j) cli_env \<Rightarrow> string option \<Rightarrow> bool" where
  "holds_valid ci found =
     (\<exists>content config. found = Some content \<and> cj_from_str (ci_json ci) content = Inr config \<and>
        report_is_valid (validate_config (ci_gitignore ci) config))"

lemma save_settles:
  assumes ok: "files_ok (ci_files ci) texts" "config_json_ok (ci_json ci)" "writes_succeed (ci_files ci)"
    and valid: "report_is_valid (validate_config (ci_gitignore ci) config)"
  shows "settles texts (holds_valid ci) path (cli_save_config ci path config)"
  unfolding settles_def
proof (intro allI impI)
  fix lines s r lines' s'
  assume "cli_save_config ci path config (lines, s) = (r, (lines', s'))"
  then obtain q w where save: "save_config (ci_files ci) (ci_json ci) path config (st_world s) = (q, w)"
      and r: "r = map_err (ConfigIoError_text (ci_display ci)) q" and s': "s' = s\<lparr>st_world := w\<rparr>"
    unfolding cli_save_config_def in_world_run by blast
  show "settled texts (holds_valid ci) path s r s'"
  proof (cases q)
    case (Inl e)
    obtain p w1 where p: "create_parent (ci_files ci) path (st_world s) = (p, w1)" by fastforce
    have "texts w1 = texts (st_world s)"
      using p create_dir_law [OF ok(1)]
      by (auto simp: create_parent_def ret_def errM_def split: option.splits if_splits prod.splits)
    moreover have "fa_write (ci_files ci) path content w1 \<noteq> (Inl x, w2)" for content x w2
      using ok(3) unfolding writes_succeed_def by (metis fst_conv isl_def)
    ultimately have "texts w = texts (st_world s)"
      using save Inl
      by (auto simp: save_config_def seqM_def bindM_def p throw_def errM_def map_err_Inl
          split: sum.splits prod.splits)
    then show ?thesis using Inl by (simp add: r s' map_err_def settled_def)
  next
    case (Inr u)
    obtain content found where "cj_to_string_pretty (ci_json ci) config = Inr content"
        "texts w path = Some (content @ [CHR 0x0A])" "texts w = (texts (st_world s))(path := found)"
      using save_config_law [OF ok(1) save] Inr by auto
    then have "texts w = (texts (st_world s))(path := found) \<and> holds_valid ci found"
      using ok(2) valid by (auto simp: holds_valid_def config_json_ok_def)
    then show ?thesis using Inr by (auto simp: r s' map_err_def settled_def)
  qed
qed

lemma looks_file_reads:
  assumes "files_ok (ci_files ci) texts"
  shows "looks texts (in_world f (fa_read_to_string (ci_files ci) path))"
    and "looks texts (in_world h (load_config (ci_files ci) (ci_json ci) path))"
    and "looks texts (in_world id (\<lambda>w. case fa_exists (ci_files ci) path w of (found, w) \<Rightarrow> (Inr found, w)))"
  using read_file_law [OF assms] load_config_law [OF assms] exists_law [OF assms]
  by (auto intro!: looks_world split: prod.splits)

lemma settles_then_looks:
  assumes "settles texts good path f" "\<And>lines s. \<not> isl (fst (g (lines, s)))" "looks texts g"
  shows "settles texts good path (seqM f g)"
  unfolding settles_def
proof (intro allI impI)
  fix lines s r lines' s'
  assume run: "seqM f g (lines, s) = (r, (lines', s'))"
  obtain q lines1 s1 where f: "f (lines, s) = (q, (lines1, s1))" by (metis surj_pair)
  have first: "settled texts good path s q s1"
    using assms(1) f unfolding settles_def by blast
  show "settled texts good path s r s'"
  proof (cases q)
    case (Inl e)
    then show ?thesis using run f first by (auto simp: seqM_def bindM_def settled_def)
  next
    case (Inr x)
    then have g: "g (lines1, s1) = (r, (lines', s'))" using run f by (simp add: seqM_def bindM_def)
    then have "\<not> isl r" using assms(2) by (metis fst_conv)
    then show ?thesis
      using first looksD [OF assms(3) g] Inr by (auto simp: settled_def split: sum.splits)
  qed
qed

lemma saved_and_said:
  assumes "files_ok (ci_files ci) texts" "config_json_ok (ci_json ci)" "writes_succeed (ci_files ci)"
  shows "settles texts (holds_valid ci) path
    (seqM (cli_ensure_valid ci config) (seqM (cli_save_config ci path config) (say_all ls)))"
proof (cases "report_is_valid (validate_config (ci_gitignore ci) config)")
  case True
  have "settles texts (holds_valid ci) path (seqM (cli_save_config ci path config) (say_all ls))"
    by (rule settles_then_looks [OF save_settles [OF assms True]]) simp_all
  then show ?thesis unfolding seqM_def [of "cli_ensure_valid ci config"] by (intro settles_after) simp_all
next
  case False
  have "looks texts (seqM (cli_ensure_valid ci config) g)" for g :: "('a, unit) cli"
    unfolding looks_def
  proof (intro allI impI)
    fix lines s r lines' s'
    assume run: "seqM (cli_ensure_valid ci config) g (lines, s) = (r, (lines', s'))"
    obtain q lines1 s1 where v: "cli_ensure_valid ci config (lines, s) = (q, (lines1, s1))" by (metis surj_pair)
    have "s1 = s" "q \<noteq> Inr ()" using ensure_valid_run [OF v] False by auto
    then show "st_db s' = st_db s \<and> texts (st_world s') = texts (st_world s)"
      using run v by (cases q) (auto simp: seqM_def bindM_def)
  qed
  then show ?thesis by (rule settles_looks)
qed

lemma config_command_settles:
  assumes ok: "files_ok (ci_files ci) texts" "config_json_ok (ci_json ci)" "writes_succeed (ci_files ci)"
  shows "settles texts (holds_valid ci) (cli_config_path ci config_path) (handle_config_command ci command config_path)"
proof (cases command)
  case (ConfigInit force)
  show ?thesis
    unfolding handle_config_command_def Let_def ConfigInit ConfigCommands.case init_config_def
    by (intro settles_after looks_file_reads(3) [OF ok(1)])
      (auto intro: saved_and_said [OF ok] settles_looks)
next
  case ConfigValidate
  show ?thesis
    unfolding handle_config_command_def Let_def ConfigValidate ConfigCommands.case cli_load_plain_def
    by (intro settles_looks looks_bindM looks_seqM looks_file_reads(2) [OF ok(1)] looks_valid looks_basic)
next
  case ConfigShow
  show ?thesis
    unfolding handle_config_command_def Let_def ConfigShow ConfigCommands.case cli_load_plain_def
    by (intro settles_looks looks_bindM looks_seqM looks_file_reads(2) [OF ok(1)] looks_valid)
      (auto split: sum.split)
next
  case (ConfigSet json_pointer json_value)
  show ?thesis
    unfolding handle_config_command_def Let_def ConfigSet ConfigCommands.case set_config_value_def
    by (intro settles_after looks_file_reads(1) [OF ok(1)])
      (auto intro: saved_and_said [OF ok] settles_looks split: option.split)
qed

text \<open>
  C26. As long as writing does not fail, a command on the configuration that fails leaves every file as it was; one that succeeds
  changes at most the file it is for, and where it does, that file holds a configuration that passes the
  validation. The database is never touched, and without force \<open>init\<close> replaces no file.
\<close>

theorem config_commands_safe:
  assumes "files_ok (ci_files ci) texts" and "config_json_ok (ci_json ci)" and "writes_succeed (ci_files ci)"
    and "cli_main ci pf version (CmdConfig command) config_path (lines, s) = (r, (lines', s'))"
  shows "st_db s' = st_db s \<and>
    (case r of
       Inl _ \<Rightarrow> texts (st_world s') = texts (st_world s)
     | Inr _ \<Rightarrow> texts (st_world s') = texts (st_world s) \<or>
         (\<exists>found. texts (st_world s') = (texts (st_world s))(cli_config_path ci config_path := found) \<and>
            holds_valid ci found)) \<and>
    (command = ConfigInit False \<and> texts (st_world s) (cli_config_path ci config_path) \<noteq> None \<longrightarrow> isl r)"
proof (intro conjI)
  have run: "handle_config_command ci command config_path (lines, s) = (r, (lines', s'))"
    using assms(4) by (simp add: cli_main_def)
  show "st_db s' = st_db s"
    and "case r of
       Inl _ \<Rightarrow> texts (st_world s') = texts (st_world s)
     | Inr _ \<Rightarrow> texts (st_world s') = texts (st_world s) \<or>
         (\<exists>found. texts (st_world s') = (texts (st_world s))(cli_config_path ci config_path := found) \<and>
            holds_valid ci found)"
    using config_command_settles [OF assms(1-3), unfolded settles_def settled_def] run by blast+
  show "command = ConfigInit False \<and> texts (st_world s) (cli_config_path ci config_path) \<noteq> None \<longrightarrow> isl r"
  proof
    assume c: "command = ConfigInit False \<and> texts (st_world s) (cli_config_path ci config_path) \<noteq> None"
    obtain found w where e: "fa_exists (ci_files ci) (cli_config_path ci config_path) (st_world s) = (found, w)" by fastforce
    have "found" using exists_law [OF assms(1) e] c by blast
    then show "isl r"
      using run c e
      by (auto simp: handle_config_command_def init_config_def in_world_def bindM_def throw_def map_err_def Let_def)
  qed
qed

section \<open>Runs\<close>

lemma load_valid_run:
  assumes "load_valid_config ci config_path (lines, s) = (r, (lines', s'))"
  shows "\<exists>w. s' = s\<lparr>st_world := w\<rparr> \<and> w = snd (load_config (ci_files ci) (ci_json ci) (cli_config_path ci config_path) (st_world s)) \<and>
    (case r of Inl _ \<Rightarrow> True | Inr config \<Rightarrow> report_is_valid (validate_config (ci_gitignore ci) config))"
proof -
  obtain q w where l: "load_config (ci_files ci) (ci_json ci) (cli_config_path ci config_path) (st_world s) = (q, w)"
    by fastforce
  show ?thesis
    using assms ensure_valid_run [of ci]
    by (cases q)
      (auto simp: load_valid_config_def cli_load_config_def in_world_def l bindM_def seqM_def map_err_def ret_def
        split: prod.splits sum.splits dest!: ensure_valid_run)
qed

text \<open>How the command ends, by what the engine comes back with.\<close>

definition sync_exit :: "SyncError + SyncRunReport \<Rightarrow> string + unit" where
  "sync_exit result =
     (case result of
        Inl e \<Rightarrow> Inl (SyncError_text e)
      | Inr report \<Rightarrow>
          if sp_status report = RunSucceeded then Inr ()
          else Inl (''sync run finished with status '' @ SyncRunStatus_as_str (sp_status report)))"

text \<open>
  Once the configuration is loaded and the engine made, \<open>sync run\<close> is the run of the engine with the
  option given: the state is the one the engine leaves, and the command ends without an error exactly
  when the run came back with a report that says it succeeded.
\<close>

theorem sync_run_is_engine_run:
  assumes "load_valid_config ci config_path (lines, s) = (Inr config, c1)"
    and "cli_engine ci config c1 = (Inr mv, (lines2, s2))" and "ci_uuid ci (st_world s2) = (uuid, w)"
    and "engine_run_once mv config ((sync_run_options_default uuid)\<lparr>sro_force_remote_rescan := force\<rparr>)
      (s2\<lparr>st_world := w\<rparr>) = (result, s')"
  shows "\<exists>printed. cli_main ci pf version (CmdSync (SyncRun force)) config_path (lines, s) = (sync_exit result, (printed, s'))"
proof -
  have "in_engine id (world_read (ci_uuid ci)) (lines2, s2) = (Inr uuid, (lines2, s2\<lparr>st_world := w\<rparr>))"
    by (simp add: in_engine_def world_read_def assms(3) map_err_def)
  then show ?thesis
    using assms(1,2,4)
    by (cases result)
      (simp_all add: cli_main_def sync_run_def bindM_def seqM_def in_engine_def map_err_def sync_exit_def
        sync_report_successful_def ret_def throw_def)
qed

lemma engine_needs_login:
  assumes "keyring_ok (ci_keyring ci) secrets" "token_json_ok (ci_token_json ci)"
    and "keyring_tokens (ci_token_json ci) secrets DEFAULT_KEYRING_SERVICE (st_world s) = (\<lambda>_. None)"
    and "cli_engine ci config (lines, s) = (r, (lines', s'))"
  shows "isl r \<and> st_db s' = st_db s"
proof -
  let ?store = "keyring_token_store (ci_keyring ci) (ci_token_json ci) DEFAULT_KEYRING_SERVICE"
  let ?held = "keyring_tokens (ci_token_json ci) secrets DEFAULT_KEYRING_SERVICE"
  let ?account = "yd_account_alias (cf_yandex_disk config)"
  obtain n w1 where n: "kr_use_native_store (ci_keyring ci) (st_world s) = (n, w1)" by fastforce
  have none: "?held w1 = (\<lambda>_. None)"
    using assms(1,3) n unfolding keyring_ok_def keyring_tokens_def by (metis snd_conv)
  obtain q w2 where q: "token_status ?store ?account w1 = (q, w2)" by fastforce
  have off: "\<not> tu_authenticated status" if "q = Inr status" for status
    using token_storage.status_law [OF keyring_token_storage [OF assms(1,2)], of DEFAULT_KEYRING_SERVICE ?account w1 status w2]
      q that none by (simp add: unauthenticated_def)
  show ?thesis
    using assms(4) off
    by (cases n; cases q)
      (auto simp: cli_engine_def cli_token_store_def keyring_default_store_def in_world_def n q seqM_def bindM_def
        errM_def map_err_def ret_def throw_def Let_def split: if_splits)
qed

text \<open>
  C27. Without a stored token no run starts, of the engine or of the migration: the command ends with an
  error and the database is as it was.
\<close>

theorem runs_need_login:
  assumes "keyring_ok (ci_keyring ci) secrets" and "token_json_ok (ci_token_json ci)"
    and "keyring_tokens (ci_token_json ci) secrets DEFAULT_KEYRING_SERVICE (st_world s) = (\<lambda>_. None)"
    and "secrets (snd (load_config (ci_files ci) (ci_json ci) (cli_config_path ci config_path) (st_world s))) = secrets (st_world s)"
    and "command = CmdSync (SyncRun force) \<or> command = CmdMigration (MigrationRun force)"
    and "cli_main ci pf version command config_path (lines, s) = (r, (lines', s'))"
  shows "isl r \<and> st_db s' = st_db s"
proof -
  obtain q lines1 s1 where q: "load_valid_config ci config_path (lines, s) = (q, (lines1, s1))" by (metis surj_pair)
  note loaded = load_valid_run [OF q]
  then have s1: "st_db s1 = st_db s" "secrets (st_world s1) = secrets (st_world s)"
    using assms(4) by auto
  have started: "isl r \<and> st_db s' = st_db s" if "bindM (load_valid_config ci config_path) (\<lambda>config. bindM (cli_engine ci config) (g config))
      (lines, s) = (r, (lines', s'))" for g :: "AppConfig \<Rightarrow> 'a migration_env \<Rightarrow> ('a, unit) cli"
  proof (cases q)
    case (Inl e)
    then show ?thesis using that s1 by (auto simp: bindM_def q)
  next
    case (Inr config)
    obtain p lines2 s2 where p: "cli_engine ci config (lines1, s1) = (p, (lines2, s2))" by (metis surj_pair)
    have "isl p \<and> st_db s2 = st_db s1"
      using engine_needs_login [OF assms(1,2) _ p] assms(3) s1(2) by (simp add: keyring_tokens_def)
    then show ?thesis using that s1 Inr by (cases p) (auto simp: bindM_def q p)
  qed
  show ?thesis
    using assms(5,6) started unfolding cli_main_def sync_run_def migration_run_def by auto
qed

text \<open>Installing the unit of systemd takes no notice of the configuration that the command line names.\<close>

lemma systemd_install_ignores_config:
  "handle_service_command ci pf (ServiceInstall True force) named = handle_service_command ci pf (ServiceInstall True force) other"
  by (simp add: handle_service_command_def)

section \<open>Examples\<close>

text \<open>A command line over given files, a given key ring and a given engine.\<close>

definition example_cli :: "'w file_api \<Rightarrow> 'w keyring_api \<Rightarrow> 'w migration_env \<Rightarrow> 'w http_env \<Rightarrow> ('w, unit) cli_env" where
  "example_cli fa kr mv http =
     \<lparr>ci_windows = False, ci_linux = True, ci_path_of = (\<lambda>path. [path]), ci_display = concat, ci_var = (\<lambda>name. None),
      ci_files = fa, ci_json = example_config_json work_config, ci_json_parse = (\<lambda>s. None),
      ci_json_set = (\<lambda>v pointer x. None), ci_json_config = (\<lambda>v. None), ci_gitignore = permissive_gitignore,
      ci_projects_name = ''P'', ci_documents_name = ''D'', ci_keyring = kr, ci_token_json = example_json,
      ci_engine = (\<lambda>config store. Inr mv), ci_open_state = (\<lambda>path. ret ()), ci_db_fault = (\<lambda>w. (None, w)),
      ci_uuid = (\<lambda>w. (''0'', w)), ci_control = (\<lambda>url request w. (Inl ''refused'', w)),
      ci_log_directory = (\<lambda>path w. (DirMissing, w)), ci_http = http,
      ci_authorization_request = (\<lambda>flow. throw (error_critical ''none'')), ci_read_line = throw ''closed'',
      ci_yacli_token = (\<lambda>secret. Inl (error_critical ''none'')), ci_yacli_candidates = (\<lambda>account. []),
      ci_spawn_open = (\<lambda>target. ret ())\<rparr>"

definition fixed_files :: "'w file_api" where
  "fixed_files =
     \<lparr>fa_read_to_string = (\<lambda>path. ret (''{}'' @ [CHR 0x0A])), fa_create_dir_all = (\<lambda>path. ret ()),
      fa_write = (\<lambda>path content. throw ''read only''), fa_exists = (\<lambda>path w. (True, w))\<rparr>"

definition fixed_keyring :: "string option \<Rightarrow> 'w keyring_api" where
  "fixed_keyring secret =
     \<lparr>kr_use_native_store = ret (), kr_entry = (\<lambda>service user. ret ()),
      kr_get_password = (\<lambda>service user. case secret of None \<Rightarrow> throw (KeyNoEntry ''none'') | Some s \<Rightarrow> ret s),
      kr_set_password = (\<lambda>service user s. throw (KeyFailed ''locked'')),
      kr_delete_credential = (\<lambda>service user. throw (KeyFailed ''locked''))\<rparr>"

lemma fixed_keyring_ok: "keyring_ok (fixed_keyring secret) (\<lambda>w service user. secret)"
  by (auto simp: keyring_ok_def fixed_keyring_def ret_def throw_def split: option.split)

lemma example_load_valid:
  "load_valid_config (example_cli fixed_files kr mv http) config_path (lines, s) = (Inr work_config, (lines, s))"
  using work_config_report
  by (simp add: load_valid_config_def cli_load_config_def cli_ensure_valid_def in_world_def example_cli_def load_config_def
      fixed_files_def example_config_json_def config_io_steps Let_def)

text \<open>An HTTP environment without a network.\<close>

definition offline_http :: "nat http_env" where
  "offline_http =
     \<lparr>he_send = (\<lambda>channel request w. (Inl \<lparr>re_is_timeout = True, re_is_connect = False, re_is_request = False,
        re_is_body = False, re_is_decode = False, re_text = ''offline''\<rparr>, w)),
      he_json = \<lparr>ja_disk_info = (\<lambda>b. Inl \<lparr>re_is_timeout = False, re_is_connect = False, re_is_request = False,
          re_is_body = False, re_is_decode = True, re_text = ''none''\<rparr>),
        ja_resource = (\<lambda>b. Inl \<lparr>re_is_timeout = False, re_is_connect = False, re_is_request = False,
          re_is_body = False, re_is_decode = True, re_text = ''none''\<rparr>),
        ja_link = (\<lambda>b. Inl \<lparr>re_is_timeout = False, re_is_connect = False, re_is_request = False,
          re_is_body = False, re_is_decode = True, re_text = ''none''\<rparr>),
        ja_operation = (\<lambda>b. Inr ''done''),
        ja_token = (\<lambda>b. Inl \<lparr>re_is_timeout = False, re_is_connect = False, re_is_request = False,
          re_is_body = False, re_is_decode = True, re_text = ''none''\<rparr>),
        ja_error = (\<lambda>b. Inl \<lparr>re_is_timeout = False, re_is_connect = False, re_is_request = False,
          re_is_body = False, re_is_decode = True, re_text = ''none''\<rparr>)\<rparr>,
      he_tokens = keyring_token_store (fixed_keyring None) example_json DEFAULT_KEYRING_SERVICE,
      he_unix = (\<lambda>w. (0, w)), he_instant = (\<lambda>w. (w, w)), he_sleep = (\<lambda>n w. w + n),
      he_open = (\<lambda>path w. (Inl ''gone'', w)), he_origin = (\<lambda>url. Inl ''none''), he_expired = (\<lambda>n w. (False, w)),
      he_pick = (\<lambda>n w. (0, w))\<rparr>"

theorem sync_run_is_engine_run_witness:
  "\<forall>pf. \<exists>result s' printed. cli_main (example_cli fixed_files (fixed_keyring (Some ''{}'')) quiet_migration offline_http) pf ''0.1.1''
     (CmdSync (SyncRun True)) None ([], start_state empty_db) = (sync_exit result, (printed, s')) \<and>
   engine_run_once quiet_migration work_config ((sync_run_options_default ''0'')\<lparr>sro_force_remote_rescan := True\<rparr>)
     (start_state empty_db) = (result, s')"
proof
  fix pf :: "nat platform_env"
  let ?ci = "example_cli fixed_files (fixed_keyring (Some ''{}'')) quiet_migration offline_http"
  have engine: "cli_engine ?ci work_config ([], start_state empty_db) = (Inr quiet_migration, ([], start_state empty_db))"
    by (simp add: cli_engine_def cli_token_store_def keyring_default_store_def keyring_token_store_def keyring_load_token_def
        token_status_def token_metadata_def in_world_def example_cli_def fixed_keyring_def example_json_def keyring_steps catchM_def Let_def)
  have uuid: "ci_uuid ?ci (st_world (start_state empty_db)) = (''0'', st_world (start_state empty_db))"
    by (simp add: example_cli_def)
  obtain result s' where run: "engine_run_once quiet_migration work_config
      ((sync_run_options_default ''0'')\<lparr>sro_force_remote_rescan := True\<rparr>)
      ((start_state empty_db)\<lparr>st_world := st_world (start_state empty_db)\<rparr>) = (result, s')"
    by (metis surj_pair)
  from sync_run_is_engine_run [OF example_load_valid engine uuid run, of pf "''0.1.1''" None] run
  show "\<exists>result s' printed. cli_main ?ci pf ''0.1.1'' (CmdSync (SyncRun True)) None ([], start_state empty_db) =
      (sync_exit result, (printed, s')) \<and>
    engine_run_once quiet_migration work_config ((sync_run_options_default ''0'')\<lparr>sro_force_remote_rescan := True\<rparr>)
      (start_state empty_db) = (result, s')" by auto
qed

theorem runs_need_login_witness:
  "\<forall>pf. isl (fst (cli_main (example_cli fixed_files (fixed_keyring None) quiet_migration offline_http) pf ''0.1.1''
     (CmdMigration (MigrationRun False)) None ([], start_state empty_db)))"
proof
  fix pf :: "nat platform_env"
  let ?ci = "example_cli fixed_files (fixed_keyring None) quiet_migration offline_http"
  obtain r lines' s' where run: "cli_main ?ci pf ''0.1.1'' (CmdMigration (MigrationRun False)) None ([], start_state empty_db) =
      (r, (lines', s'))" by (metis surj_pair)
  have "keyring_ok (ci_keyring ?ci) (\<lambda>w service user. None)" "token_json_ok (ci_token_json ?ci)"
    by (simp_all add: example_cli_def fixed_keyring_ok example_json_ok)
  from runs_need_login [OF this _ _ _ run, of False] run show "isl (fst (cli_main ?ci pf ''0.1.1'' (CmdMigration (MigrationRun False)) None ([], start_state empty_db)))"
    by (simp add: keyring_tokens_def)
qed

lemma table_files_write: "writes_succeed table_files"
  by (simp add: writes_succeed_def table_files_def)

theorem config_commands_safe_witness:
  "\<forall>pf mv http s. \<exists>r lines' s'. cli_main (example_cli table_files (fixed_keyring None) mv http) pf ''0.1.1''
     (CmdConfig (ConfigInit False)) (Some [''config.json'']) ([], s\<lparr>st_world := [[''config.json''] \<mapsto> ''mine'']\<rparr>) =
       (r, (lines', s')) \<and> isl r \<and> st_world s' = [[''config.json''] \<mapsto> ''mine'']"
proof (intro allI)
  fix pf and mv :: "(local_path \<Rightarrow> string option) migration_env" and http and s :: "(local_path \<Rightarrow> string option) sync_state"
  let ?ci = "example_cli table_files (fixed_keyring None) mv http"
  let ?s = "s\<lparr>st_world := [[''config.json''] \<mapsto> ''mine'']\<rparr>"
  obtain r lines' s' where run: "cli_main ?ci pf ''0.1.1'' (CmdConfig (ConfigInit False)) (Some [''config.json'']) ([], ?s) =
      (r, (lines', s'))" by (metis surj_pair)
  have ok: "files_ok (ci_files ?ci) id" "config_json_ok (ci_json ?ci)" "writes_succeed (ci_files ?ci)"
    by (simp_all add: example_cli_def table_files_ok example_config_json_ok table_files_write)
  have "cli_config_path ?ci (Some [''config.json'']) = [''config.json'']"
    by (simp add: cli_config_path_def resolve_config_path_def)
  then have "isl r" using config_commands_safe [OF ok run] by simp
  moreover have "st_world s' = st_world ?s"
    using config_commands_safe [OF ok run] \<open>isl r\<close> by (cases r) auto
  ultimately show "\<exists>r lines' s'. cli_main ?ci pf ''0.1.1'' (CmdConfig (ConfigInit False)) (Some [''config.json'']) ([], ?s) =
      (r, (lines', s')) \<and> isl r \<and> st_world s' = [[''config.json''] \<mapsto> ''mine'']"
    using run by auto
qed

end
