(* ===== verification/Platform_Props.thy ===== *)
theory Platform_Props
  imports Platform
begin

text \<open>
  What installing, updating and removing the systemd unit leaves behind, that a status of the Windows
  service that is not installed is no error, and which reports its process tries to make.
\<close>

section \<open>The unit file\<close>

text \<open>What is relied on besides the file laws: removing takes the file away, systemctl leaves files alone.\<close>

definition systemd_ok :: "'w systemd_api \<Rightarrow> ('w \<Rightarrow> local_path \<Rightarrow> string option) \<Rightarrow> bool" where
  "systemd_ok sd texts =
     (files_ok (sd_files sd) texts \<and>
      (\<forall>args w. texts (snd (sd_systemctl sd args w)) = texts w) \<and>
      (\<forall>path w. fst (fa_exists (sd_files sd) path w) = (texts w path \<noteq> None)) \<and>
      (\<forall>path w. case sd_remove_file sd path w of (r, w') \<Rightarrow>
         texts w' = (case r of Inl _ \<Rightarrow> texts w | Inr _ \<Rightarrow> (texts w)(path := None))))"

lemma systemctl_keeps: "systemd_ok sd texts \<Longrightarrow> run_systemctl sd args w = (r, w') \<Longrightarrow> texts w' = texts w"
  unfolding systemd_ok_def run_systemctl_def
  by (auto simp: bindM_def errM_def ret_def throw_def split: prod.splits sum.splits if_splits) (metis snd_conv)+

lemma look_for_law:
  assumes "systemd_ok sd texts" "look_for sd path w = (r, w')"
  shows "texts w' = texts w \<and> r = Inr (texts w path \<noteq> None)"
proof -
  obtain found v where e: "fa_exists (sd_files sd) path w = (found, v)" by fastforce
  have "files_ok (sd_files sd) texts" "fst (fa_exists (sd_files sd) path w) = (texts w path \<noteq> None)"
    using assms(1) by (simp_all add: systemd_ok_def)
  then show ?thesis using assms(2) exists_law [OF _ e] e by (auto simp: look_for_def)
qed

lemma ensure_linux_law: "ensure_linux sd w = (r, w') \<Longrightarrow> w' = w \<and> (r = Inr () \<longleftrightarrow> sd_linux sd)"
  by (auto simp: ensure_linux_def ret_def throw_def split: if_splits)

text \<open>
  Without force a unit file that is there is never replaced: installing fails and changes no file, and so
  does updating, before it restarts anything: an installed service can only be updated with force.
\<close>

theorem installed_unit_needs_force:
  assumes "systemd_ok sd texts" and "texts w (sm_unit_path manager) \<noteq> None"
  shows "isl (fst (systemd_install sd manager unit False w)) \<and> isl (fst (systemd_update sd manager unit False w)) \<and>
    texts (snd (systemd_install sd manager unit False w)) = texts w \<and>
    texts (snd (systemd_update sd manager unit False w)) = texts w"
proof -
  obtain e w1 where e: "ensure_linux sd w = (e, w1)" by fastforce
  have [simp]: "w1 = w" using ensure_linux_law [OF e] by simp
  obtain f w2 where f: "look_for sd (sm_unit_path manager) w = (f, w2)" by fastforce
  have law: "texts w2 = texts w" "f = Inr True"
    using look_for_law [OF assms(1) f] assms(2) by auto
  have "fst (systemd_install sd manager unit False w) \<noteq> Inr () \<and> texts (snd (systemd_install sd manager unit False w)) = texts w"
    using law
    by (cases e) (simp_all add: systemd_install_def Let_def seqM_def bindM_def throw_def e f)
  then show ?thesis
    by (cases "systemd_install sd manager unit False w"; cases "fst (systemd_install sd manager unit False w)")
      (auto simp: systemd_update_def seqM_def bindM_def)
qed

text \<open>
  An installation that succeeds leaves the rendering of the unit in its file and every other file as it
  was; an uninstallation that succeeds leaves no unit file.
\<close>

theorem systemd_install_uninstall:
  assumes "systemd_ok sd texts"
    and "systemd_install sd manager unit force w = (Inr (), w1)" and "systemd_uninstall sd manager w1 = (Inr (), w2)"
  shows "texts w1 = (texts w)(sm_unit_path manager \<mapsto> systemd_unit_render unit) \<and>
    texts w2 = (texts w)(sm_unit_path manager := None)"
proof -
  let ?path = "sm_unit_path manager"
  have files: "files_ok (sd_files sd) texts" using assms(1) by (simp add: systemd_ok_def)
  have cmd: "texts v' = texts v" if "run_systemctl sd args v = (r, v')" for args v r v'
    using systemctl_keeps [OF assms(1) that] .
  obtain v0 v1 v2 v3 where
    "texts v0 = texts w" and
    mk: "(case path_parent ?path of None \<Rightarrow> ret () | Some parent \<Rightarrow> errM LinuxIo (fa_create_dir_all (sd_files sd) parent)) v0 = (Inr (), v1)" and
    wr: "errM LinuxIo (fa_write (sd_files sd) ?path (systemd_unit_render unit)) v1 = (Inr (), v2)" and
    "run_systemctl sd [''daemon-reload''] v2 = (Inr (), v3)" "run_systemctl sd [''enable'', SERVICE_NAME] v3 = (Inr (), w1)"
  proof -
    obtain u0 u1 found where u: "ensure_linux sd w = (Inr (), u0)" "look_for sd ?path u0 = (Inr found, u1)"
        and rest: "(if found \<and> \<not> force then throw (LinuxCommandFailed ''install'' (sd_display sd ?path @ '' already exists''))
          else seqM (case path_parent ?path of None \<Rightarrow> ret () | Some parent \<Rightarrow> errM LinuxIo (fa_create_dir_all (sd_files sd) parent))
            (seqM (errM LinuxIo (fa_write (sd_files sd) ?path (systemd_unit_render unit)))
              (seqM (run_systemctl sd [''daemon-reload'']) (run_systemctl sd [''enable'', SERVICE_NAME])))) u1 = (Inr (), w1)"
      using assms(2) unfolding systemd_install_def Let_def seqM_Inr bindM_Inr by blast
    have "texts u1 = texts w"
      using ensure_linux_law [OF u(1)] look_for_law [OF assms(1) u(2)] by simp
    moreover have "\<not> (found \<and> \<not> force)"
      using rest by (cases "found \<and> \<not> force") (simp_all add: throw_def)
    ultimately show thesis
      using that rest by (auto simp: seqM_Inr)
  qed
  moreover have "texts v1 = texts v0"
    using mk create_dir_law [OF files] by (auto simp: ret_def errM_def split: option.splits prod.splits)
  moreover have "texts v2 = (texts v1)(?path \<mapsto> systemd_unit_render unit)"
  proof -
    have "fa_write (sd_files sd) ?path (systemd_unit_render unit) v1 = (Inr (), v2)"
      using wr by (auto simp: errM_def map_err_def split: prod.splits sum.splits)
    from write_file_law [OF files this] show ?thesis by auto
  qed
  ultimately have installed: "texts w1 = (texts w)(?path \<mapsto> systemd_unit_render unit)"
    using cmd by simp
  obtain r x0 x1 x2 x3 found where x: "ensure_linux sd w1 = (Inr (), x0)"
      "catchM (run_systemctl sd [''disable'', SERVICE_NAME]) x0 = (Inr r :: LinuxServiceError + _, x1)" "look_for sd ?path x1 = (Inr found, x2)"
      "(if found then errM LinuxIo (sd_remove_file sd ?path) else ret ()) x2 = (Inr (), x3)"
      "run_systemctl sd [''daemon-reload''] x3 = (Inr (), w2)"
    using assms(3) unfolding systemd_uninstall_def seqM_Inr bindM_Inr
    by (elim exE conjE) (rule that; assumption)
  have "texts x2 = texts w1" "found"
    using ensure_linux_law [OF x(1)] cmd x(2) look_for_law [OF assms(1) x(3)] installed by (auto simp: catchM_Inr)
  moreover have "texts x3 = (texts x2)(?path := None)"
  proof -
    have "sd_remove_file sd ?path x2 = (Inr (), x3)"
      using x(4) \<open>found\<close> by (auto simp: errM_def map_err_def split: prod.splits sum.splits)
    moreover have "case sd_remove_file sd ?path x2 of (r, w') \<Rightarrow>
        texts w' = (case r of Inl _ \<Rightarrow> texts x2 | Inr _ \<Rightarrow> (texts x2)(?path := None))"
      using assms(1) by (simp add: systemd_ok_def)
    ultimately show ?thesis by simp
  qed
  ultimately show ?thesis
    using installed cmd [OF x(5)] by simp
qed

section \<open>The service process\<close>

definition start_report :: service_report where
  "start_report = \<lparr>sr_phase = SsStartPending, sr_accepts_stop = False, sr_exit = 0, sr_checkpoint = 1, sr_wait_hint = 30\<rparr>"

definition running_report :: service_report where
  "running_report = \<lparr>sr_phase = SsRunning, sr_accepts_stop = True, sr_exit = 0, sr_checkpoint = 0, sr_wait_hint = 0\<rparr>"

definition stop_report :: service_report where
  "stop_report = \<lparr>sr_phase = SsStopPending, sr_accepts_stop = False, sr_exit = 0, sr_checkpoint = 1, sr_wait_hint = 30\<rparr>"

definition stopped_report :: "nat \<Rightarrow> service_report" where
  "stopped_report exit_number =
     \<lparr>sr_phase = SsStopped, sr_accepts_stop = False, sr_exit = exit_number, sr_checkpoint = 0, sr_wait_hint = 0\<rparr>"

text \<open>
  The reports that a process has tried to make, whether the service manager took them or not: a report is
  one more, and nothing else makes one.
\<close>

definition reports_counted :: "'w service_api \<Rightarrow> 'w host_env \<Rightarrow> ('w \<Rightarrow> service_report list) \<Rightarrow> bool" where
  "reports_counted sx hx tried =
     ((\<forall>report w. tried (snd (sx_report sx report w)) = tried w @ [report]) \<and>
      (\<forall>w. tried (snd (sx_register sx w)) = tried w) \<and>
      (\<forall>w. tried (snd (sx_build_runtime sx w)) = tried w) \<and>
      (\<forall>host w. tried (snd (sx_recv_stop sx host w)) = tried w) \<and>
      (\<forall>host w. tried (snd (sx_join sx host w)) = tried w) \<and>
      (\<forall>path w. tried (snd (runtime_host_start hx path w)) = tried w))"

lemma report_steps:
  assumes "reports_counted sx hx tried"
  shows "sx_report sx report w = (r, w') \<Longrightarrow> tried w' = tried w @ [report]"
    and "sx_register sx w = (r, w') \<Longrightarrow> tried w' = tried w"
    and "sx_build_runtime sx w = (r, w') \<Longrightarrow> tried w' = tried w"
    and "sx_recv_stop sx host w = (host', w') \<Longrightarrow> tried w' = tried w"
    and "sx_join sx host w = (r, w') \<Longrightarrow> tried w' = tried w"
    and "runtime_host_start hx path w = (started, w') \<Longrightarrow> tried w' = tried w"
  using assms unfolding reports_counted_def by (metis snd_conv)+

lemmas service_steps = seqM_def bindM_def errM_def catchM_def map_err_def throw_def ret_def

lemma service_life_reports:
  assumes "reports_counted sx hx tried" "service_life sx hx path w = (r, w')"
  shows "(tried w' = tried w \<and> isl r) \<or> (tried w' = tried w @ [running_report] \<and> isl r) \<or>
    tried w' = tried w @ [running_report, stop_report]"
proof -
  note step = report_steps [OF assms(1)]
  obtain started w1 where started: "runtime_host_start hx path w = (started, w1)" by fastforce
  obtain told w2 where w2: "sx_report sx running_report w1 = (told, w2)" by fastforce
  note reached = w2 [unfolded running_report_def]
  show ?thesis
  proof (cases started)
    case (Inl e)
    then show ?thesis using assms(2) step(6) [OF started] by (auto simp: service_life_def service_steps started)
  next
    case (Inr host)
    obtain host' w3 where w3: "sx_recv_stop sx host w2 = (host', w3)" by fastforce
    obtain stopping w4 where w4: "sx_report sx stop_report w3 = (stopping, w4)" by fastforce
    obtain j w5 where w5: "sx_join sx (runtime_host_shutdown host') w4 = (j, w5)" by fastforce
    note tries = step(6) [OF started] step(1) [OF w2] step(4) [OF w3] step(1) [OF w4] step(5) [OF w5]
    have "(isl told \<longrightarrow> isl r \<and> w' = w2) \<and> (\<not> isl told \<longrightarrow> w' = w4 \<or> w' = w5)"
      using assms(2)
      by (auto simp: service_life_def set_service_state_def service_steps started Inr reached w3
          w4 [unfolded stop_report_def] w5 simp del: One_nat_def split: sum.splits)
    then show ?thesis using tries by auto
  qed
qed

text \<open>
  C30. A service process that could register, whose first report the service manager takes and that gets its
  runtime, always tries to report in the end that it has stopped, even when the reports in between are refused,
  with the exit code 1 exactly when its life failed. Before that it reports that it starts; that it runs, once the
  host has started; and that it is stopping, if the report of running was taken. The exit code is 0 only after all
  four. The process itself fails when its life did, or else when the last report is refused.
\<close>

theorem service_reports_its_end:
  assumes "reports_counted sx hx tried"
    and "\<not> isl (fst (sx_register sx w))" and "\<And>v. \<not> isl (fst (sx_report sx start_report v))"
    and "\<And>v. \<not> isl (fst (sx_build_runtime sx v))"
    and "run_service_main sx hx (Some path) w = (r, w')"
  shows "\<exists>life code. tried w' = tried w @ [start_report] @ life @ [stopped_report code] \<and>
    (life, code) \<in> {([], 1), ([running_report], 1), ([running_report, stop_report], 1), ([running_report, stop_report], 0)} \<and>
    (code = 1 \<longrightarrow> isl r) \<and>
    ((\<forall>v. \<not> isl (fst (sx_report sx (stopped_report code) v))) \<longrightarrow> isl r = (code = 1))"
proof -
  note step = report_steps [OF assms(1)]
  have ok: "\<exists>v'. f v = (Inr (), v')" if "\<not> isl (fst (f v))" for f :: "('a, string, unit) m" and v
    using that by (metis isl_def old.unit.exhaust prod.collapse sum.collapse(2))
  obtain w1 where w1: "sx_register sx w = (Inr (), w1)" using ok [of "sx_register sx" w] assms(2) by blast
  obtain w2 where w2: "sx_report sx start_report w1 = (Inr (), w2)" using ok [of "sx_report sx start_report" w1] assms(3) by blast
  obtain w3 where w3: "sx_build_runtime sx w2 = (Inr (), w3)" using ok [of "sx_build_runtime sx" w2] assms(4) by blast
  obtain result w4 where w4: "service_life sx hx path w3 = (result, w4)" by fastforce
  let ?code = "if isl result then 1 else 0"
  obtain told w5 where w5: "sx_report sx (stopped_report ?code) w4 = (told, w5)" by fastforce
  have final: "w' = w5 \<and> (isl r \<longleftrightarrow> isl told \<or> isl result)"
    using assms(5) w5
    by (auto simp: run_service_main_def set_service_state_def service_steps w1 w2 [unfolded start_report_def] w3 w4
        stopped_report_def simp del: One_nat_def split: sum.splits if_splits)
  have tries: "tried w' = tried w4 @ [stopped_report ?code]" "tried w3 = tried w @ [start_report]"
    using final step(1) [OF w5] step(2) [OF w1] step(1) [OF w2] step(3) [OF w3] by auto
  have taken: "\<not> isl told" if "\<forall>v. \<not> isl (fst (sx_report sx (stopped_report ?code) v))"
    using that w5 by (metis fst_conv)
  consider "tried w4 = tried w3" "isl result" | "tried w4 = tried w3 @ [running_report]" "isl result"
    | "tried w4 = tried w3 @ [running_report, stop_report]"
    using service_life_reports [OF assms(1) w4] by blast
  then show ?thesis
  proof cases
    case 1 then show ?thesis using tries final by (intro exI [of _ "[]"] exI [of _ ?code]) auto
  next
    case 2 then show ?thesis using tries final by (intro exI [of _ "[running_report]"] exI [of _ ?code]) auto
  next
    case 3 then show ?thesis
      using tries final taken by (intro exI [of _ "[running_report, stop_report]"] exI [of _ ?code]) auto
  qed
qed

section \<open>Examples\<close>

definition table_systemd :: "(local_path \<Rightarrow> string option) systemd_api" where
  "table_systemd =
     \<lparr>sd_linux = True, sd_files = table_files, sd_remove_file = (\<lambda>path w. (Inr (), w(path := None))),
      sd_systemctl = (\<lambda>args w. (Inr (True, ''exit status: 0''), w)), sd_systemctl_output = (\<lambda>args w. (Inr ''active'', w)),
      sd_display = concat\<rparr>"

lemma table_systemd_ok: "systemd_ok table_systemd id"
  using table_files_ok by (simp add: systemd_ok_def table_systemd_def) (simp add: table_files_def)

text \<open>A service whose configuration cannot be read.\<close>

definition unreadable_host :: "service_report list host_env" where
  "unreadable_host =
     \<lparr>hx_load_config = (\<lambda>path w. (Inl ''no file'', w)), hx_gitignore = permissive_gitignore,
      hx_log_directory = (\<lambda>path w. (DirMissing, w)), hx_store_directory = (\<lambda>path dir w. w),
      hx_init_logging = (\<lambda>path level w. (Inr (), w)), hx_now = (\<lambda>w. (0, w)), hx_earliest = 0,
      hx_open_state = (\<lambda>path w. (Inr empty_db, w)), hx_bind = (\<lambda>bind port w. (Inr (), w)),
      hx_web_token_store = (\<lambda>w. (Inr (), w)), hx_web_token = (\<lambda>w. (Inr None, w))\<rparr>"

text \<open>A service manager that takes the first and the last report and refuses those in between.\<close>

definition recorded_service :: "service_report list service_api" where
  "recorded_service =
     \<lparr>sx_register = ret (),
      sx_report = (\<lambda>report w. (if sr_phase report \<in> {SsRunning, SsStopPending} then Inl ''refused'' else Inr (), w @ [report])),
      sx_build_runtime = ret (), sx_recv_stop = (\<lambda>host w. (host, w)), sx_join = (\<lambda>host. ret ())\<rparr>"

theorem service_reports_its_end_witness:
  "snd (run_service_main recorded_service unreadable_host (Some ''config.json'') []) = [start_report, stopped_report 1]"
proof -
  have start: "runtime_host_start unreadable_host path w = (Inl ''config I/O error: no file'', w)" for path w
    by (simp add: runtime_host_start_def unreadable_host_def service_steps)
  have counted: "reports_counted recorded_service unreadable_host id"
    by (simp add: reports_counted_def recorded_service_def start ret_def)
  have steps: "\<not> isl (fst (sx_register recorded_service []))" "\<not> isl (fst (sx_report recorded_service start_report v))"
    "\<not> isl (fst (sx_build_runtime recorded_service v))" for v
    by (simp_all add: recorded_service_def ret_def start_report_def)
  obtain r w' where run: "run_service_main recorded_service unreadable_host (Some ''config.json'') [] = (r, w')" by fastforce
  have "length w' = 2" using run
    by (auto simp: run_service_main_def service_life_def set_service_state_def service_steps start recorded_service_def)
  then show ?thesis using service_reports_its_end [OF counted steps run] run by auto
qed

theorem installed_unit_needs_force_witness:
  "isl (fst (systemd_update table_systemd \<lparr>sm_unit_path = [''etc'', ''ya-disk-sync.service'']\<rparr> systemd_unit_default False
     [[''etc'', ''ya-disk-sync.service''] \<mapsto> ''old'']))"
  using installed_unit_needs_force [OF table_systemd_ok, of "[[''etc'', ''ya-disk-sync.service''] \<mapsto> ''old'']"
      "\<lparr>sm_unit_path = [''etc'', ''ya-disk-sync.service'']\<rparr>" systemd_unit_default] by simp

theorem systemd_install_uninstall_witness:
  "\<exists>w1. systemd_install table_systemd \<lparr>sm_unit_path = [''u'']\<rparr> systemd_unit_default False (\<lambda>_. None) = (Inr (), w1) \<and>
     w1 [''u''] = Some (systemd_unit_render systemd_unit_default)"
proof -
  note run = systemd_install_def systemd_uninstall_def ensure_linux_def look_for_def run_systemctl_def seqM_def bindM_def
    errM_def catchM_def map_err_def ret_def table_systemd_def table_files_def path_parent_def Let_def
  have 1: "systemd_install table_systemd \<lparr>sm_unit_path = [''u'']\<rparr> systemd_unit_default False (\<lambda>_. None) =
      (Inr (), [[''u''] \<mapsto> systemd_unit_render systemd_unit_default])" by (simp add: run)
  have 2: "systemd_uninstall table_systemd \<lparr>sm_unit_path = [''u'']\<rparr> [[''u''] \<mapsto> systemd_unit_render systemd_unit_default] =
      (Inr (), \<lambda>_. None)" by (simp add: run fun_eq_iff)
  from systemd_install_uninstall [OF table_systemd_ok 1 2] 1 show ?thesis by auto
qed

end
