(* ===== verification/State_Rows.thy ===== *)
theory State_Rows
  imports State_Items Config_Io
begin

text \<open>
  How the repository stands on SQLite, \<open>crates/yds-state/src/lib.rs\<close>: the values that the statements bind and
  the functions that read a row back, which justify that the model keeps records in its tables; opening a
  database, and the table of its migrations.
\<close>

section \<open>Values and rows\<close>

text \<open>The values of a column; integers have 64 bits. A row is the list that a SELECT of the code gives.\<close>

datatype sql_value = SqlNull | SqlInteger int | SqlText string

datatype row_error = RowIndex nat | RowType nat | RowEnum nat UnknownEnumValue

type_synonym 'a row_reader = "(sql_value list, row_error, 'a) m"

definition get_value :: "nat \<Rightarrow> sql_value row_reader" where
  "get_value i = (\<lambda>row. if i < length row then (Inr (row ! i), row) else (Inl (RowIndex i), row))"

definition get_text :: "nat \<Rightarrow> string row_reader" where
  "get_text i = bindM (get_value i) (\<lambda>v. case v of SqlText s \<Rightarrow> ret s | _ \<Rightarrow> throw (RowType i))"

definition get_rowid :: "nat \<Rightarrow> rowid row_reader" where
  "get_rowid i = bindM (get_value i) (\<lambda>v. case v of SqlInteger n \<Rightarrow> ret n | _ \<Rightarrow> throw (RowType i))"

definition get_i64 :: "nat \<Rightarrow> i64 row_reader" where
  "get_i64 i = bindM (get_rowid i) (\<lambda>n. ret (word_of_int n))"

text \<open>Reading an \<open>Option\<close>: a null is \<open>None\<close>.\<close>

definition get_optional :: "(nat \<Rightarrow> 'a row_reader) \<Rightarrow> nat \<Rightarrow> 'a option row_reader" where
  "get_optional f i =
     bindM (get_value i) (\<lambda>v. if v = SqlNull then ret None else bindM (f i) (\<lambda>x. ret (Some x)))"

abbreviation get_text_option :: "nat \<Rightarrow> string option row_reader" where
  "get_text_option \<equiv> get_optional get_text"

abbreviation get_i64_option :: "nat \<Rightarrow> i64 option row_reader" where
  "get_i64_option \<equiv> get_optional get_i64"

abbreviation get_rowid_option :: "nat \<Rightarrow> rowid option row_reader" where
  "get_rowid_option \<equiv> get_optional get_rowid"

definition get_bool :: "nat \<Rightarrow> bool row_reader" where
  "get_bool i = bindM (get_i64 i) (\<lambda>n. ret (n \<noteq> 0))"

definition get_enum :: "(string \<Rightarrow> UnknownEnumValue + 'a) \<Rightarrow> nat \<Rightarrow> 'a row_reader" where
  "get_enum try_from i =
     bindM (get_text i) (\<lambda>s. case try_from s of Inl e \<Rightarrow> throw (RowEnum i e) | Inr x \<Rightarrow> ret x)"

definition sql_i64 :: "i64 \<Rightarrow> sql_value" where "sql_i64 n = SqlInteger (sint n)"

definition sql_option :: "('a \<Rightarrow> sql_value) \<Rightarrow> 'a option \<Rightarrow> sql_value" where
  "sql_option f v = (case v of None \<Rightarrow> SqlNull | Some x \<Rightarrow> f x)"

abbreviation sql_text_option :: "string option \<Rightarrow> sql_value" where "sql_text_option \<equiv> sql_option SqlText"

abbreviation sql_i64_option :: "i64 option \<Rightarrow> sql_value" where "sql_i64_option \<equiv> sql_option sql_i64"

abbreviation sql_rowid_option :: "rowid option \<Rightarrow> sql_value" where "sql_rowid_option \<equiv> sql_option SqlInteger"

text \<open>\<open>bool_to_i64\<close>.\<close>

definition sql_bool :: "bool \<Rightarrow> sql_value" where "sql_bool b = SqlInteger (if b then 1 else 0)"

section \<open>Records as rows\<close>

text \<open>
  \<open>x_values\<close> are the values that the statements bind for a record, in the order of the columns that the
  statements reading it select.
\<close>

definition file_state_values :: "FileStateRecord \<Rightarrow> sql_value list" where
  "file_state_values r =
     [SqlText (fr_root_id r), SqlText (fr_local_path r), SqlText (fr_relative_path r),
      SqlText (fr_remote_path r), SqlText (fr_normalized_remote_path r), sql_i64 (fr_size_bytes r),
      sql_i64_option (fr_mtime_ns r), sql_i64_option (fr_ctime_ns r), SqlText (fr_fingerprint_kind r),
      sql_text_option (fr_fingerprint_value r), sql_text_option (fr_full_sha256 r),
      sql_text_option (fr_remote_etag r), sql_text_option (fr_remote_md5 r),
      sql_rowid_option (fr_last_run_id r), SqlText (FileStateStatus_as_str (fr_status r)),
      sql_text_option (fr_last_error r)]"

definition read_file_state_record :: "FileStateRecord row_reader" where
  "read_file_state_record =
     bindM (get_enum FileStateStatus_try_from 14) (\<lambda>status.
     bindM (get_text 0) (\<lambda>root_id.
     bindM (get_text 1) (\<lambda>local_path.
     bindM (get_text 2) (\<lambda>relative_path.
     bindM (get_text 3) (\<lambda>remote_path.
     bindM (get_text 4) (\<lambda>normalized_remote_path.
     bindM (get_i64 5) (\<lambda>size_bytes.
     bindM (get_i64_option 6) (\<lambda>mtime_ns.
     bindM (get_i64_option 7) (\<lambda>ctime_ns.
     bindM (get_text 8) (\<lambda>fingerprint_kind.
     bindM (get_text_option 9) (\<lambda>fingerprint_value.
     bindM (get_text_option 10) (\<lambda>full_sha256.
     bindM (get_text_option 11) (\<lambda>remote_etag.
     bindM (get_text_option 12) (\<lambda>remote_md5.
     bindM (get_rowid_option 13) (\<lambda>last_run_id.
     bindM (get_text_option 15) (\<lambda>last_error.
       ret \<lparr>fr_root_id = root_id, fr_local_path = local_path, fr_relative_path = relative_path,
            fr_remote_path = remote_path, fr_normalized_remote_path = normalized_remote_path,
            fr_size_bytes = size_bytes, fr_mtime_ns = mtime_ns, fr_ctime_ns = ctime_ns,
            fr_fingerprint_kind = fingerprint_kind, fr_fingerprint_value = fingerprint_value,
            fr_full_sha256 = full_sha256, fr_remote_etag = remote_etag, fr_remote_md5 = remote_md5,
            fr_last_run_id = last_run_id, fr_status = status, fr_last_error = last_error\<rparr>))))))))))))))))"

definition sync_root_values :: "SyncRootRecord \<Rightarrow> sql_value list" where
  "sync_root_values r =
     [SqlText (sr_id r), SqlText (sr_local_path r), SqlText (sr_remote_root r),
      SqlText (sr_canonical_remote_path r), sql_bool (sr_enabled r), sql_text_option (sr_last_seen_at_utc r),
      sql_text_option (sr_last_status r), sql_text_option (sr_last_error r)]"

definition read_sync_root_record :: "SyncRootRecord row_reader" where
  "read_sync_root_record =
     bindM (get_bool 4) (\<lambda>enabled.
     bindM (get_text 0) (\<lambda>ident.
     bindM (get_text 1) (\<lambda>local_path.
     bindM (get_text 2) (\<lambda>remote_root.
     bindM (get_text 3) (\<lambda>canonical_remote_path.
     bindM (get_text_option 5) (\<lambda>last_seen_at_utc.
     bindM (get_text_option 6) (\<lambda>last_status.
     bindM (get_text_option 7) (\<lambda>last_error.
       ret \<lparr>sr_id = ident, sr_local_path = local_path, sr_remote_root = remote_root,
            sr_canonical_remote_path = canonical_remote_path, sr_enabled = enabled,
            sr_last_seen_at_utc = last_seen_at_utc, sr_last_status = last_status, sr_last_error = last_error\<rparr>))))))))"

definition root_remote_inventory_values :: "RootRemoteInventoryStatus \<Rightarrow> sql_value list" where
  "root_remote_inventory_values r =
     [SqlText (ri_root_id r), sql_bool (ri_is_complete r), sql_text_option (ri_snapshot_completed_at_utc r),
      sql_text_option (ri_snapshot_expires_at_utc r), sql_i64 (ri_resource_count r),
      sql_text_option (ri_last_error r)]"

definition read_root_remote_inventory_status :: "RootRemoteInventoryStatus row_reader" where
  "read_root_remote_inventory_status =
     bindM (get_bool 1) (\<lambda>is_complete.
     bindM (get_text 0) (\<lambda>root_id.
     bindM (get_text_option 2) (\<lambda>snapshot_completed_at_utc.
     bindM (get_text_option 3) (\<lambda>snapshot_expires_at_utc.
     bindM (get_i64 4) (\<lambda>resource_count.
     bindM (get_text_option 5) (\<lambda>last_error.
       ret \<lparr>ri_root_id = root_id, ri_is_complete = is_complete,
            ri_snapshot_completed_at_utc = snapshot_completed_at_utc,
            ri_snapshot_expires_at_utc = snapshot_expires_at_utc, ri_resource_count = resource_count,
            ri_last_error = last_error\<rparr>))))))"

definition operation_journal_values :: "OperationJournalRecord \<Rightarrow> sql_value list" where
  "operation_journal_values r =
     [SqlInteger (oj_id r), SqlInteger (oj_run_id r), SqlText (oj_operation r),
      sql_text_option (oj_local_path r), sql_text_option (oj_remote_path r),
      SqlText (OperationStatus_as_str (oj_status r)), SqlText (oj_started_at_utc r),
      sql_text_option (oj_finished_at_utc r), sql_text_option (oj_error_kind r),
      sql_text_option (oj_error_message r)]"

definition read_operation_journal_record :: "OperationJournalRecord row_reader" where
  "read_operation_journal_record =
     bindM (get_enum OperationStatus_try_from 5) (\<lambda>status.
     bindM (get_rowid 0) (\<lambda>ident.
     bindM (get_rowid 1) (\<lambda>run_id.
     bindM (get_text 2) (\<lambda>operation.
     bindM (get_text_option 3) (\<lambda>local_path.
     bindM (get_text_option 4) (\<lambda>remote_path.
     bindM (get_text 6) (\<lambda>started_at_utc.
     bindM (get_text_option 7) (\<lambda>finished_at_utc.
     bindM (get_text_option 8) (\<lambda>error_kind.
     bindM (get_text_option 9) (\<lambda>error_message.
       ret \<lparr>oj_id = ident, oj_run_id = run_id, oj_operation = operation, oj_local_path = local_path,
            oj_remote_path = remote_path, oj_status = status, oj_started_at_utc = started_at_utc,
            oj_finished_at_utc = finished_at_utc, oj_error_kind = error_kind, oj_error_message = error_message\<rparr>))))))))))"

definition remote_resource_values :: "RemoteResourceRecord \<Rightarrow> sql_value list" where
  "remote_resource_values r =
     [SqlText (rm_root_id r), SqlText (rm_remote_path r),
      SqlText (RemoteResourceType_as_str (rm_resource_type r)), sql_i64_option (rm_size_bytes r),
      sql_text_option (rm_mtime_remote r), sql_text_option (rm_remote_md5 r)]"

definition read_remote_resource_record :: "RemoteResourceRecord row_reader" where
  "read_remote_resource_record =
     bindM (get_enum RemoteResourceType_try_from 2) (\<lambda>resource_type.
     bindM (get_text 0) (\<lambda>root_id.
     bindM (get_text 1) (\<lambda>remote_path.
     bindM (get_i64_option 3) (\<lambda>size_bytes.
     bindM (get_text_option 4) (\<lambda>mtime_remote.
     bindM (get_text_option 5) (\<lambda>remote_md5.
       ret \<lparr>rm_root_id = root_id, rm_remote_path = remote_path, rm_resource_type = resource_type,
            rm_size_bytes = size_bytes, rm_mtime_remote = mtime_remote, rm_remote_md5 = remote_md5\<rparr>))))))"

definition migration_map_values :: "MigrationMapRecord \<Rightarrow> sql_value list" where
  "migration_map_values r =
     [SqlText (mm_root_id r), SqlText (mm_legacy_remote_path r), SqlText (mm_canonical_remote_path r),
      SqlText (MigrationMapStatus_as_str (mm_status r)), sql_text_option (mm_last_error r)]"

definition read_migration_map_record :: "MigrationMapRecord row_reader" where
  "read_migration_map_record =
     bindM (get_enum MigrationMapStatus_try_from 3) (\<lambda>status.
     bindM (get_text 0) (\<lambda>root_id.
     bindM (get_text 1) (\<lambda>legacy_remote_path.
     bindM (get_text 2) (\<lambda>canonical_remote_path.
     bindM (get_text_option 4) (\<lambda>last_error.
       ret \<lparr>mm_root_id = root_id, mm_legacy_remote_path = legacy_remote_path,
            mm_canonical_remote_path = canonical_remote_path, mm_status = status, mm_last_error = last_error\<rparr>)))))"

definition deleted_subtree_values :: "DeletedSubtreeRecord \<Rightarrow> sql_value list" where
  "deleted_subtree_values r =
     [SqlText (dt_root_id r), SqlText (dt_relative_prefix r), SqlText (dt_remote_prefix r),
      sql_rowid_option (dt_last_run_id r)]"

definition read_deleted_subtree_record :: "DeletedSubtreeRecord row_reader" where
  "read_deleted_subtree_record =
     bindM (get_text 0) (\<lambda>root_id.
     bindM (get_text 1) (\<lambda>relative_prefix.
     bindM (get_text 2) (\<lambda>remote_prefix.
     bindM (get_rowid_option 3) (\<lambda>last_run_id.
       ret \<lparr>dt_root_id = root_id, dt_relative_prefix = relative_prefix, dt_remote_prefix = remote_prefix,
            dt_last_run_id = last_run_id\<rparr>))))"

text \<open>Failed items keep absent paths as empty texts; \<open>failed_row\<close> is such a row.\<close>

definition skipped_values :: "RecentSkippedItemRecord \<Rightarrow> sql_value list" where
  "skipped_values r =
     (let item = rsk_item r
      in [SqlText (sk_root_id item), SqlText (sk_local_path item), sql_text_option (sk_relative_path item),
          sql_text_option (sk_remote_path item), SqlText (sk_reason_code item), sql_text_option (sk_reason_details item),
          sql_i64_option (sk_size_bytes item), SqlText (rsk_last_seen_at_utc r)])"

definition read_recent_skipped_item_record :: "RecentSkippedItemRecord row_reader" where
  "read_recent_skipped_item_record =
     bindM (get_text 0) (\<lambda>root_id.
     bindM (get_text 1) (\<lambda>local_path.
     bindM (get_text_option 2) (\<lambda>relative_path.
     bindM (get_text_option 3) (\<lambda>remote_path.
     bindM (get_text 4) (\<lambda>reason_code.
     bindM (get_text_option 5) (\<lambda>reason_details.
     bindM (get_i64_option 6) (\<lambda>size_bytes.
     bindM (get_text 7) (\<lambda>last_seen_at_utc.
       ret \<lparr>rsk_item =
              \<lparr>sk_root_id = root_id, sk_local_path = local_path, sk_relative_path = relative_path,
               sk_remote_path = remote_path, sk_reason_code = reason_code, sk_reason_details = reason_details,
               sk_size_bytes = size_bytes\<rparr>,
            rsk_last_seen_at_utc = last_seen_at_utc\<rparr>))))))))"

definition failed_values :: "failed_row \<Rightarrow> sql_value list" where
  "failed_values r =
     [SqlText (flw_root_id r), SqlText (flw_local_path r), SqlText (flw_remote_path r), SqlText (flw_operation r),
      SqlText (flw_error_kind r), SqlText (flw_error_message r), sql_i64 (flw_retry_count r),
      sql_text_option (flw_next_retry_at_utc r), SqlText (flw_last_failed_at_utc r)]"

definition read_failed_row :: "RecentFailedItemRecord row_reader" where
  "read_failed_row =
     bindM (get_text 1) (\<lambda>local_path.
     bindM (get_text 2) (\<lambda>remote_path.
     bindM (get_text 0) (\<lambda>root_id.
     bindM (get_text 3) (\<lambda>operation.
     bindM (get_text 4) (\<lambda>error_kind.
     bindM (get_text 5) (\<lambda>error_message.
     bindM (get_i64 6) (\<lambda>retry_count.
     bindM (get_text_option 7) (\<lambda>next_retry_at_utc.
     bindM (get_text 8) (\<lambda>last_failed_at_utc.
       ret \<lparr>rfa_item =
              \<lparr>fa_root_id = root_id, fa_local_path = then_some (local_path \<noteq> '''') local_path,
               fa_remote_path = then_some (remote_path \<noteq> '''') remote_path, fa_operation = operation,
               fa_error_kind = error_kind, fa_error_message = error_message, fa_retry_count = retry_count,
               fa_next_retry_at_utc = next_retry_at_utc\<rparr>,
            rfa_last_failed_at_utc = last_failed_at_utc\<rparr>)))))))))"

definition sync_run_values :: "SyncRunRecord \<Rightarrow> sql_value list" where
  "sync_run_values r =
     (let summary = rr_summary r
      in [SqlInteger (rr_id r), SqlText (rr_started_at_utc r), sql_text_option (rr_finished_at_utc r),
          SqlText (SyncRunTrigger_as_str (rr_trigger r)), SqlText (SyncRunStatus_as_str (rr_status r)),
          sql_i64 (su_scanned_files summary), sql_i64 (su_uploaded_files summary), sql_i64 (su_updated_files summary),
          sql_i64 (su_deleted_files summary), sql_i64 (su_skipped_files summary), sql_i64 (su_failed_files summary),
          sql_i64 (su_bytes_uploaded summary), sql_text_option (su_error_summary summary)])"

definition read_sync_run_record :: "SyncRunRecord row_reader" where
  "read_sync_run_record =
     bindM (get_enum SyncRunTrigger_try_from 3) (\<lambda>trigger.
     bindM (get_enum SyncRunStatus_try_from 4) (\<lambda>status.
     bindM (get_rowid 0) (\<lambda>ident.
     bindM (get_text 1) (\<lambda>started_at_utc.
     bindM (get_text_option 2) (\<lambda>finished_at_utc.
     bindM (get_i64 5) (\<lambda>scanned_files.
     bindM (get_i64 6) (\<lambda>uploaded_files.
     bindM (get_i64 7) (\<lambda>updated_files.
     bindM (get_i64 8) (\<lambda>deleted_files.
     bindM (get_i64 9) (\<lambda>skipped_files.
     bindM (get_i64 10) (\<lambda>failed_files.
     bindM (get_i64 11) (\<lambda>bytes_uploaded.
     bindM (get_text_option 12) (\<lambda>error_summary.
       ret \<lparr>rr_id = ident, rr_started_at_utc = started_at_utc, rr_finished_at_utc = finished_at_utc,
            rr_trigger = trigger, rr_status = status,
            rr_summary =
              \<lparr>su_scanned_files = scanned_files, su_uploaded_files = uploaded_files,
               su_updated_files = updated_files, su_deleted_files = deleted_files,
               su_skipped_files = skipped_files, su_failed_files = failed_files,
               su_bytes_uploaded = bytes_uploaded, su_error_summary = error_summary\<rparr>\<rparr>)))))))))))))"

section \<open>Reading back\<close>

text \<open>One column of a row, by what its value is.\<close>

lemma get_value_at: "i < length row \<Longrightarrow> get_value i row = (Inr (row ! i), row)"
  by (simp add: get_value_def)

lemma get_text_at:
  "i < length row \<Longrightarrow> get_text i row = (case row ! i of SqlText s \<Rightarrow> (Inr s, row) | _ \<Rightarrow> (Inl (RowType i), row))"
  by (simp add: get_text_def bindM_def get_value_at ret_def throw_def split: sql_value.split)

lemma get_rowid_at:
  "i < length row \<Longrightarrow> get_rowid i row = (case row ! i of SqlInteger n \<Rightarrow> (Inr n, row) | _ \<Rightarrow> (Inl (RowType i), row))"
  by (simp add: get_rowid_def bindM_def get_value_at ret_def throw_def split: sql_value.split)

lemma get_i64_at: "i < length row \<Longrightarrow> row ! i = sql_i64 n \<Longrightarrow> get_i64 i row = (Inr n, row)"
  by (simp add: get_i64_def bindM_def get_rowid_at sql_i64_def ret_def)

lemma get_bool_at: "i < length row \<Longrightarrow> row ! i = sql_bool b \<Longrightarrow> get_bool i row = (Inr b, row)"
  by (simp add: get_bool_def get_i64_def bindM_def get_rowid_at sql_bool_def ret_def)

lemma get_enum_at:
  "i < length row \<Longrightarrow> row ! i = SqlText s \<Longrightarrow> try_from s = Inr x \<Longrightarrow> get_enum try_from i row = (Inr x, row)"
  by (simp add: get_enum_def bindM_def get_text_at ret_def)

lemma get_text_eq: "i < length row \<Longrightarrow> row ! i = SqlText s \<Longrightarrow> get_text i row = (Inr s, row)"
  by (simp add: get_text_at)

lemma get_rowid_eq: "i < length row \<Longrightarrow> row ! i = SqlInteger n \<Longrightarrow> get_rowid i row = (Inr n, row)"
  by (simp add: get_rowid_at)

lemma get_optional_at:
  assumes "i < length row" "row ! i = sql_option enc v" and "\<And>x. enc x \<noteq> SqlNull"
    and "\<And>x. row ! i = enc x \<Longrightarrow> f i row = (Inr x, row)"
  shows "get_optional f i row = (Inr v, row)"
  using assms by (cases v) (simp_all add: get_optional_def bindM_def get_value_at sql_option_def ret_def)

lemma get_options_at:
  "i < length row \<Longrightarrow> row ! i = sql_text_option s \<Longrightarrow> get_text_option i row = (Inr s, row)"
  "i < length row \<Longrightarrow> row ! i = sql_i64_option n \<Longrightarrow> get_i64_option i row = (Inr n, row)"
  "i < length row \<Longrightarrow> row ! i = sql_rowid_option k \<Longrightarrow> get_rowid_option i row = (Inr k, row)"
  by (rule get_optional_at, assumption, assumption, simp, rule get_text_eq, assumption, assumption,
      rule get_optional_at, assumption, assumption, simp add: sql_i64_def, rule get_i64_at, assumption, assumption,
      rule get_optional_at, assumption, assumption, simp, rule get_rowid_eq)

text \<open>A row is read column by column: each rule takes one step of a reader.\<close>

lemma read_step: "f row = (Inr x, row) \<Longrightarrow> fst (g x row) = r \<Longrightarrow> fst (bindM f g row) = r"
  by (simp add: bindM_def)

lemma get_enums_at:
  "i < length row \<Longrightarrow> row ! i = SqlText (SyncRunTrigger_as_str a) \<Longrightarrow> get_enum SyncRunTrigger_try_from i row = (Inr a, row)"
  "i < length row \<Longrightarrow> row ! i = SqlText (SyncRunStatus_as_str b) \<Longrightarrow> get_enum SyncRunStatus_try_from i row = (Inr b, row)"
  "i < length row \<Longrightarrow> row ! i = SqlText (FileStateStatus_as_str c) \<Longrightarrow> get_enum FileStateStatus_try_from i row = (Inr c, row)"
  "i < length row \<Longrightarrow> row ! i = SqlText (OperationStatus_as_str d) \<Longrightarrow> get_enum OperationStatus_try_from i row = (Inr d, row)"
  "i < length row \<Longrightarrow> row ! i = SqlText (RemoteResourceType_as_str e) \<Longrightarrow> get_enum RemoteResourceType_try_from i row = (Inr e, row)"
  "i < length row \<Longrightarrow> row ! i = SqlText (MigrationMapStatus_as_str f) \<Longrightarrow> get_enum MigrationMapStatus_try_from i row = (Inr f, row)"
  by (auto intro: get_enum_at simp: trigger.try_from_as_str run_status.try_from_as_str file_status.try_from_as_str
      op_status.try_from_as_str resource_kind.try_from_as_str map_status.try_from_as_str)

lemmas column_rules = get_text_eq get_rowid_eq get_i64_at get_bool_at get_options_at get_enums_at

lemma file_state_reads_back: "fst (read_file_state_record (file_state_values r)) = Inr r"
  unfolding read_file_state_record_def file_state_values_def
  by ((rule read_step, (rule column_rules; simp; fail))+, simp add: ret_def)

lemma sync_root_reads_back: "fst (read_sync_root_record (sync_root_values r)) = Inr r"
  unfolding read_sync_root_record_def sync_root_values_def
  by ((rule read_step, (rule column_rules; simp; fail))+, simp add: ret_def)

lemma inventory_status_reads_back: "fst (read_root_remote_inventory_status (root_remote_inventory_values r)) = Inr r"
  unfolding read_root_remote_inventory_status_def root_remote_inventory_values_def
  by ((rule read_step, (rule column_rules; simp; fail))+, simp add: ret_def)

lemma operation_reads_back: "fst (read_operation_journal_record (operation_journal_values r)) = Inr r"
  unfolding read_operation_journal_record_def operation_journal_values_def
  by ((rule read_step, (rule column_rules; simp; fail))+, simp add: ret_def)

lemma remote_resource_reads_back: "fst (read_remote_resource_record (remote_resource_values r)) = Inr r"
  unfolding read_remote_resource_record_def remote_resource_values_def
  by ((rule read_step, (rule column_rules; simp; fail))+, simp add: ret_def)

lemma migration_map_reads_back: "fst (read_migration_map_record (migration_map_values r)) = Inr r"
  unfolding read_migration_map_record_def migration_map_values_def
  by ((rule read_step, (rule column_rules; simp; fail))+, simp add: ret_def)

lemma subtree_reads_back: "fst (read_deleted_subtree_record (deleted_subtree_values r)) = Inr r"
  unfolding read_deleted_subtree_record_def deleted_subtree_values_def
  by ((rule read_step, (rule column_rules; simp; fail))+, simp add: ret_def)

lemma skipped_reads_back: "fst (read_recent_skipped_item_record (skipped_values r)) = Inr r"
  unfolding read_recent_skipped_item_record_def skipped_values_def Let_def
  by ((rule read_step, (rule column_rules; simp; fail))+, simp add: ret_def)

lemma failed_reads_back: "fst (read_failed_row (failed_values r)) = Inr (read_recent_failed_item_record r)"
  unfolding read_failed_row_def failed_values_def
  by ((rule read_step, (rule column_rules; simp; fail))+, simp add: ret_def read_recent_failed_item_record_def)

lemma run_reads_back: "fst (read_sync_run_record (sync_run_values r)) = Inr r"
  unfolding read_sync_run_record_def sync_run_values_def Let_def
  by ((rule read_step, (rule column_rules; simp; fail))+, simp add: ret_def)

text \<open>
  C39. What the statements of the repository bind for a record is what its readers make of the row: every
  record comes back as it was, numbers with all their 64 bits, and texts of enumerations as their values. Only
  in a failed item an empty path and an absent one are the same, and come back as absent.
\<close>

theorem rows_read_back:
  "fst (read_file_state_record (file_state_values file)) = Inr file \<and>
   fst (read_sync_root_record (sync_root_values root)) = Inr root \<and>
   fst (read_root_remote_inventory_status (root_remote_inventory_values inventory)) = Inr inventory \<and>
   fst (read_operation_journal_record (operation_journal_values operation)) = Inr operation \<and>
   fst (read_remote_resource_record (remote_resource_values resource)) = Inr resource \<and>
   fst (read_migration_map_record (migration_map_values migration)) = Inr migration \<and>
   fst (read_deleted_subtree_record (deleted_subtree_values subtree)) = Inr subtree \<and>
   fst (read_recent_skipped_item_record (skipped_values skipped)) = Inr skipped \<and>
   fst (read_sync_run_record (sync_run_values run)) = Inr run \<and>
   fst (read_failed_row (failed_values (failed_row_of now item))) =
     Inr \<lparr>rfa_item = item\<lparr>fa_local_path := (if fa_local_path item = Some '''' then None else fa_local_path item),
            fa_remote_path := (if fa_remote_path item = Some '''' then None else fa_remote_path item)\<rparr>,
          rfa_last_failed_at_utc = now\<rparr>"
proof (intro conjI)
  show "fst (read_failed_row (failed_values (failed_row_of now item))) =
     Inr \<lparr>rfa_item = item\<lparr>fa_local_path := (if fa_local_path item = Some '''' then None else fa_local_path item),
            fa_remote_path := (if fa_remote_path item = Some '''' then None else fa_remote_path item)\<rparr>,
          rfa_last_failed_at_utc = now\<rparr>"
    unfolding failed_reads_back read_recent_failed_item_record_def failed_row_of_def
    by (cases item; cases "fa_local_path item"; cases "fa_remote_path item") (simp_all add: then_some_def unwrap_or_def)
qed (rule file_state_reads_back sync_root_reads_back inventory_status_reads_back operation_reads_back
  remote_resource_reads_back migration_map_reads_back subtree_reads_back skipped_reads_back run_reads_back)+

section \<open>Opening\<close>

text \<open>Errors of SQLite are texts; \<open>sq_migrate\<close> is a transaction that creates the tables and changes the table of migrations.\<close>

datatype open_error = OpenIo local_path string | OpenSqlite string

record 'w sqlite_api =
  sq_connect :: "local_path \<Rightarrow> ('w, string, unit) m"
  sq_busy_timeout :: "nat \<Rightarrow> ('w, string, unit) m"
    \<comment> \<open>in milliseconds\<close>
  sq_execute_batch :: "string \<Rightarrow> ('w, string, unit) m"
  sq_pragma_update :: "string \<Rightarrow> string \<Rightarrow> ('w, string, unit) m"
  sq_migrate :: "((int \<times> string) list \<Rightarrow> (int \<times> string) list) \<Rightarrow> ('w, string, unit) m"

definition CURRENT_SCHEMA_VERSION :: int where "CURRENT_SCHEMA_VERSION = 2"

definition configure_connection :: "'w sqlite_api \<Rightarrow> bool \<Rightarrow> ('w, open_error, unit) m" where
  "configure_connection sq file_database =
     seqM (errM OpenSqlite (sq_busy_timeout sq 5000))
     (seqM (errM OpenSqlite (sq_execute_batch sq ''PRAGMA foreign_keys = ON;''))
       (if file_database then errM OpenSqlite (sq_pragma_update sq ''journal_mode'' ''WAL'') else ret ()))"

text \<open>\<open>INSERT OR IGNORE\<close> into a table with a primary key.\<close>

definition insert_or_ignore :: "int \<Rightarrow> string \<Rightarrow> (int \<times> string) list \<Rightarrow> (int \<times> string) list" where
  "insert_or_ignore version applied_at versions =
     (if version \<in> fst ` set versions then versions else versions @ [(version, applied_at)])"

definition migrate_versions :: "string \<Rightarrow> (int \<times> string) list \<Rightarrow> (int \<times> string) list" where
  "migrate_versions applied_at versions =
     (let current_version = (if versions = [] then 0 else Max (fst ` set versions));
          versions = insert_or_ignore CURRENT_SCHEMA_VERSION applied_at versions
      in if current_version < CURRENT_SCHEMA_VERSION
         then insert_or_ignore CURRENT_SCHEMA_VERSION applied_at versions else versions)"

definition repository_open :: "'w file_api \<Rightarrow> 'w sqlite_api \<Rightarrow> local_path \<Rightarrow> string \<Rightarrow> ('w, open_error, unit) m" where
  "repository_open fa sq path now =
     seqM (case path_parent path of
             None \<Rightarrow> ret ()
           | Some parent \<Rightarrow> if parent = [] then ret () else errM (OpenIo parent) (fa_create_dir_all fa parent))
     (seqM (errM OpenSqlite (sq_connect sq path))
     (seqM (configure_connection sq True) (errM OpenSqlite (sq_migrate sq (migrate_versions now)))))"

text \<open>A database is migrated at most once: the current version is there afterwards, and a second time changes nothing.\<close>

lemma migrate_versions_idem:
  "CURRENT_SCHEMA_VERSION \<in> fst ` set (migrate_versions now versions) \<and>
   migrate_versions later (migrate_versions now versions) = migrate_versions now versions"
  by (auto simp: migrate_versions_def insert_or_ignore_def Let_def)

end
