(* ===== verification/Spec2Isabelle.thy ===== *)
theory Spec2Isabelle
  imports Config Sync_Order Scan_Props Sync_Mock Store_Ops Http_Rules Migration_Deletes Control_Props Cli_Props Platform_Props
    State_Rows
begin

text \<open>
  A verification development for ya-disk-sync, a program that keeps local directories (the roots of a
  configuration) mirrored into a Yandex Disk: it scans a root, lists the remote folder, creates the
  directories and uploads the files that differ and deletes for good what is no longer there locally.
  A state database (SQLite) keeps the file states, the history of runs, a journal of operations, a
  cache of the remote listing and the run lock.

  The parts of the program and where they are modelled:

  \<^item> \<open>crates/yds-core\<close>: paths, exclusion rules, configuration. \<open>Path_Mapping\<close> (the remote path of a local
    root, sanitising), \<open>Exclusions\<close> (the matcher; the gitignore engine of the \<open>ignore\<close> crate is a record
    of functions), \<open>Config\<close> (data, defaults, validation and the declarative specification that an
    empty report is equivalent to), \<open>Config_Io\<close> (where the file is, reading and writing it).
  \<^item> \<open>crates/yds-state\<close>: the repository. \<open>State_Models\<close> (the enumerations and rows), \<open>State_Repo\<close>,
    \<open>State_Items\<close> (one definition per statement, over tables as lists of rows), \<open>State_Lock\<close> (the run
    lock, with any interleaving of processes as an inductive relation), \<open>State_Inv\<close> and \<open>State_Props\<close>
    (primary keys, the invariant of every operation, and what single operations return and leave),
    \<open>State_Rows\<close> (records as rows of SQLite values and back, opening a database).
  \<^item> \<open>crates/yds-yandex-disk\<close>: the remote. \<open>Disk_Client\<close> (errors and their classification, the retry
    policy, the client interface as a record of operations), \<open>Mock_Client\<close> (the in-memory client),
    \<open>Remote_Store\<close> (the abstract store and the locale \<open>remote_store\<close>, one law per operation),
    \<open>Mock_Props\<close> (the in-memory client is an instance) and \<open>Store_Ops\<close> (sequences of operations and
    the refinement of the abstract store). The client over HTTP: \<open>Http_Base\<close> (requests, answers, the
    clock and the token store as parameters), \<open>Http_Client\<close> (retries, the refresh of the token, pages,
    the walk of the listing, uploads, polling, and \<open>http_disk_client\<close>, the client they make) and
    \<open>Http_Rules\<close> (what each of them keeps and returns). \<open>Token_Store\<close> (the key ring and the memory as stores
    of the token, the import from yacli, the constructors of the client) and \<open>Token_Props\<close> (both stores
    keep the locale \<open>token_storage\<close>; login, logout and import).
  \<^item> \<open>crates/yds-scanner\<close>: \<open>Scan_Model\<close> (entries and reports), \<open>Scanner\<close> (the handler of the walk,
    fingerprints, the backup of SQLite databases), \<open>Scan_Props\<close> (what a report accounts for, its
    independence of the order of the parallel walk, and, with the deletion plan, what is deleted),
    \<open>Fixture_Tree\<close> (the generator of test trees).
  \<^item> \<open>crates/yds-sync\<close>: the engine. Pure planning: \<open>Live_Plan\<close>, \<open>Delete_Plan\<close>, \<open>Sync_Plan\<close>. Execution:
    \<open>Sync_Env\<close> (the state of a run and its environment), \<open>Sync_Exec\<close>, \<open>Sync_Run\<close> (from \<open>run_once\<close> down
    to single operations). Properties: \<open>Sync_Yield\<close> (what steps return), \<open>Sync_Keep\<close> (locales for
    invariants of the database and of the world, kept by every step), \<open>Sync_Props\<close> (runs as a
    whole), \<open>Sync_Order\<close> (order and ends of the work loops, the cache), \<open>Sync_Mirror\<close> (deletions over
    any client that keeps the laws of \<open>remote_store\<close>) and \<open>Sync_Mock\<close> (the same over the in-memory
    client, with a run that deletes).
  \<^item> \<open>crates/yds-sync/src/migration.rs\<close>: the migration of a root from legacy remote folders, which a run
    starts by itself where a root has no snapshot. \<open>Migration_Model\<close> (data and pure functions),
    \<open>Migration_Run\<close> (all steps, from \<open>run_once\<close> down to single operations; \<open>engine_run_once\<close> is the run
    of the sync engine with this migration in it), \<open>Migration_Keep\<close> (invariants kept by every step, in
    locales), \<open>Migration_Props\<close> (what runs change and record) and \<open>Migration_Deletes\<close> (what is deleted
    in a legacy folder, and when that spares the live files).
  \<^item> \<open>crates/yds-service\<close>: the service around the engine. \<open>Service_Runtime\<close> (the state behind the mutex,
    one definition per operation, the daily schedule, and the interleavings of requests, cancellations
    and runs as an inductive relation, with the contract of a task as the locale \<open>runtime_sync_task\<close>),
    \<open>Service_Props\<close> (the engine keeps the contract; one run at a time; the scheduler). \<open>Control_Api\<close>
    holds the routes and handlers of its HTTP server as one function of request and state, and
    \<open>Control_Props\<close> what a request may do. \<open>Service_Host\<close> holds the start of the host with its checks, its
    log files and the client of the server, \<open>Host_Props\<close> what a started host is and what the client sees.
  \<^item> \<open>crates/yds-web\<close>: \<open>Web_Ui\<close> (the token, the data and text of every page) and \<open>Web_Props\<close> (escaping,
    and that no data changes the markup of a page).
  \<^item> \<open>crates/yds-linux\<close> and \<open>crates/yds-windows\<close>: \<open>Platform\<close> (the systemd unit and its manager, the Windows service
    manager and the life of its process, the actions of the tray) and \<open>Platform_Props\<close> (the unit file, the
    reports of the process).
  \<^item> \<open>crates/yds-cli\<close>: \<open>Cli\<close> and \<open>Cli_Service\<close> (one definition per command, over the lines printed and the state
    of the engine; \<open>cli_main\<close> dispatches them) and \<open>Cli_Props\<close> (what commands change, and when they fail).
  \<^item> \<open>Prelude\<close> holds what they share: machine integers as words, the functions of Rust's \<open>str\<close>, ordered
    maps, tables, and the state-and-error monad of the engine with its rules.

  How the model corresponds to the code. A struct is a record whose fields carry a two-letter prefix,
  an enum a datatype with the same constructors, prefixed where they clash. Functions keep their names
  unless a library constant has it. \<open>u64\<close>, \<open>i64\<close> and \<open>u32\<close> are words, a cast is a cast. A \<open>Result\<close> is a
  sum with the error on the left; code that changes state is a function from the state to a result
  and the new state, which an error does not undo. A \<open>BTreeMap\<close> is a sorted association list.

  What surrounds the program is a parameter, never a definition: the environment \<open>sync_env\<close> of the
  engine holds the client, the clock, the cancelling thread, the file system, the scan, the order in
  which parallel tasks finish and how far they run ahead, and the failures of the database engine;
  \<open>scan_env\<close> holds file metadata and contents, the hash functions, the steps of an SQLite backup with
  the time each takes, and the walker. What the code relies on of them is a named hypothesis:
  \<open>walker_ok\<close> (each path once, and only what the handler lets the walk enter), \<open>remote_store\<close>, \<open>reads_only\<close>,
  \<open>db_sound\<close>. Each has an instance, in the witnesses. What a theorem asks of the data itself is a hypothesis of its
  own and no promise of a library: \<open>walk_names plain_name\<close> (no walked name ends in white space or holds a backslash,
  which the mapping to remote paths changes), from which a scan gives \<open>live_tree\<close> (the directory of every live path is
  live; \<open>trailing_blank_directory_is_deleted\<close> shows what happens without), and \<open>normal_inventory\<close> (the paths
  the remote lists consist of non-empty segments).
  \<open>migration_env\<close> adds the reading of a local file to \<open>sync_env\<close>; \<open>control_env\<close> holds what a handler reads
  outside the runtime; \<open>http_env\<close> holds the transport, JSON and
  URL functions of the libraries, the token store and the clock; \<open>host_env\<close>, \<open>cli_env\<close> and \<open>platform_env\<close> the
  rest of the system: files, key ring, log directory, sockets, service managers, console. Of these the laws
  \<open>files_ok\<close>, \<open>writes_succeed\<close>, \<open>config_json_ok\<close>, \<open>keyring_ok\<close>, \<open>token_json_ok\<close>, \<open>systemd_ok\<close>, \<open>reports_counted\<close> and
  \<open>fixture_ok\<close> are relied on, each with an instance.

  Loops. The work loops of the engine (\<open>while !pending.is_empty()\<close>) are recursions with the length of
  what is pending as fuel: each turn takes at least one element, so more fuel changes nothing
  (\<open>work_loops_end\<close>); so are the batches of uploads of the migration. Listing, paging and polling of the
  HTTP client go on as long as the server says so: they have fuel, and running out of it is a value of
  its own. The backup loop is a \<open>function\<close> with a termination proof: a pause is at least five
  milliseconds. The other loops are structural recursions over the data they consume.

  Not modelled: failures inside the SQLite engine other than a statement failing as a whole; panics on overflow in debug builds; poisoned mutexes and
  failed joins; characters beyond Latin-1, and how the paths of other systems are read (a local path
  is its list of components); the authorization URL, which a library makes with random parts. A migration
  step that fails loses the summary of its root, as in the code, so it returns none. Of the service the
  sockets, the setting up of the log and the waiting for its threads; of the platforms the calls to the
  operating system, the window and the menu of the tray; of the command line the parser of its arguments,
  the help text and log messages.
\<close>

end
